(* ===== verification/Prelude.thy ===== *)
theory Prelude
  imports Complex_Main "HOL-Library.Sublist"
begin

text \<open>
  The vocabulary every component shares: Python's exceptions and results, its dynamic values and
  their truthiness, the insertion-ordered dict as an association list, the string methods the
  sources call, and the logging levels.  A \<open>str\<close> is a list of Latin-1 code points (Isabelle's
  \<open>string\<close>), a \<open>float\<close> an exact rational: no theorem of the development rests on rounding.
\<close>

named_theorems py_simps \<open>evaluation rules for Python values and results\<close>
named_theorems keeps_intros \<open>frame rules of state-exception programs\<close>
named_theorems raises_intros \<open>which exceptions may leave a program\<close>
named_theorems dict_simps \<open>rules for insertion-ordered dicts\<close>

section \<open>Exceptions and results\<close>

datatype exc_class =
    TypeError | ValueError | KeyError | AttributeError | IndexError | RuntimeError
  | JSONDecodeError | ImportError | FileNotFoundError | OSError | StopIteration
  | HTTPError | RequestException | KeyboardInterrupt | SystemExit
  | OtherException string

datatype pyexc = PyExc (exc_class: exc_class) (exc_msg: string)

type_synonym 'a res = "pyexc + 'a"

text \<open>\<open>type(e).__name__\<close>.\<close>

fun class_name :: "exc_class \<Rightarrow> string" where
  "class_name TypeError = ''TypeError''"
| "class_name ValueError = ''ValueError''"
| "class_name KeyError = ''KeyError''"
| "class_name AttributeError = ''AttributeError''"
| "class_name IndexError = ''IndexError''"
| "class_name RuntimeError = ''RuntimeError''"
| "class_name JSONDecodeError = ''JSONDecodeError''"
| "class_name ImportError = ''ImportError''"
| "class_name FileNotFoundError = ''FileNotFoundError''"
| "class_name OSError = ''OSError''"
| "class_name StopIteration = ''StopIteration''"
| "class_name HTTPError = ''HTTPError''"
| "class_name RequestException = ''RequestException''"
| "class_name KeyboardInterrupt = ''KeyboardInterrupt''"
| "class_name SystemExit = ''SystemExit''"
| "class_name (OtherException n) = n"

text \<open>What \<open>except Exception\<close> catches: everything but the two direct subclasses of
  \<open>BaseException\<close> the sources can meet.\<close>

fun is_Exception :: "pyexc \<Rightarrow> bool" where
  "is_Exception (PyExc c m) = (c \<noteq> KeyboardInterrupt \<and> c \<noteq> SystemExit)"

text \<open>\<open>isinstance(e, requests.RequestException)\<close>: \<open>HTTPError\<close> is a subclass.\<close>

fun is_RequestException :: "pyexc \<Rightarrow> bool" where
  "is_RequestException (PyExc c m) = (c = RequestException \<or> c = HTTPError)"

definition res_bind :: "'a res \<Rightarrow> ('a \<Rightarrow> 'b res) \<Rightarrow> 'b res" where
  "res_bind r f = (case r of Inl e \<Rightarrow> Inl e | Inr x \<Rightarrow> f x)"

lemma res_bind_simps [simp, py_simps]:
  "res_bind (Inl e) f = Inl e"
  "res_bind (Inr x) f = f x"
  by (simp_all add: res_bind_def)

lemma res_bind_Inr_iff:
  "res_bind r f = Inr y \<longleftrightarrow> (\<exists>x. r = Inr x \<and> f x = Inr y)"
  by (cases r) simp_all

text \<open>A list comprehension whose element expression may raise.\<close>

fun res_map :: "('a \<Rightarrow> 'b res) \<Rightarrow> 'a list \<Rightarrow> 'b list res" where
  "res_map f [] = Inr []"
| "res_map f (x # xs) = res_bind (f x) (\<lambda>y. res_bind (res_map f xs) (\<lambda>ys. Inr (y # ys)))"

lemma res_map_total: "(\<And>x. x \<in> set xs \<Longrightarrow> f x = Inr (g x)) \<Longrightarrow> res_map f xs = Inr (map g xs)"
  by (induction xs) simp_all

section \<open>Logging\<close>

datatype log_level = DEBUG | INFO | WARNING | ERROR

text \<open>The numeric levels of the \<open>logging\<close> module order the levels.\<close>

fun levelno :: "log_level \<Rightarrow> nat" where
  "levelno DEBUG = 10"
| "levelno INFO = 20"
| "levelno WARNING = 30"
| "levelno ERROR = 40"

lemma levelno_inject: "levelno a = levelno b \<longleftrightarrow> a = b"
  by (cases a; cases b) simp_all

instantiation log_level :: linorder
begin

definition less_eq_log_level :: "log_level \<Rightarrow> log_level \<Rightarrow> bool" where
  "less_eq_log_level a b \<longleftrightarrow> levelno a \<le> levelno b"

definition less_log_level :: "log_level \<Rightarrow> log_level \<Rightarrow> bool" where
  "less_log_level a b \<longleftrightarrow> levelno a < levelno b"

instance
  by standard (auto simp: less_eq_log_level_def less_log_level_def levelno_inject)

end

lemma log_level_le [simp]:
  "DEBUG \<le> l" "l \<le> ERROR" "INFO \<le> WARNING" "\<not> WARNING \<le> INFO" "\<not> ERROR \<le> WARNING"
  "\<not> ERROR \<le> INFO" "\<not> INFO \<le> DEBUG" "\<not> WARNING \<le> DEBUG" "\<not> ERROR \<le> DEBUG"
  by (cases l; simp add: less_eq_log_level_def)+

type_synonym log_line = "log_level \<times> string list"

section \<open>Insertion-ordered dicts\<close>

text \<open>
  A dict is an association list in insertion order: assignment to a present key keeps its position
  (as CPython does), assignment to an absent one appends.
\<close>

type_synonym ('k, 'v) dict = "('k \<times> 'v) list"

fun dput :: "'k \<Rightarrow> 'v \<Rightarrow> ('k, 'v) dict \<Rightarrow> ('k, 'v) dict" where
  "dput k v [] = [(k, v)]"
| "dput k v ((k', v') # d) = (if k' = k then (k, v) # d else (k', v') # dput k v d)"

definition dget :: "('k, 'v) dict \<Rightarrow> 'k \<Rightarrow> 'v option" where
  "dget d k = map_of d k"

definition dget_or :: "('k, 'v) dict \<Rightarrow> 'k \<Rightarrow> 'v \<Rightarrow> 'v" where
  "dget_or d k v = (case dget d k of None \<Rightarrow> v | Some w \<Rightarrow> w)"

definition dkeys :: "('k, 'v) dict \<Rightarrow> 'k list" where
  "dkeys d = map fst d"

definition dvalues :: "('k, 'v) dict \<Rightarrow> 'v list" where
  "dvalues d = map snd d"

definition dmem :: "'k \<Rightarrow> ('k, 'v) dict \<Rightarrow> bool" where
  "dmem k d \<longleftrightarrow> dget d k \<noteq> None"

text \<open>A dict display \<open>{k1: v1, ...}\<close> and \<open>d.update(...)\<close> are successive assignments.\<close>

definition dupdate :: "('k, 'v) dict \<Rightarrow> ('k, 'v) dict \<Rightarrow> ('k, 'v) dict" where
  "dupdate d kvs = fold (\<lambda>(k, v). dput k v) kvs d"

definition dict_of :: "('k \<times> 'v) list \<Rightarrow> ('k, 'v) dict" where
  "dict_of kvs = dupdate [] kvs"

text \<open>The interface a client of a mutable mapping relies on.\<close>

locale keyed_store =
  fixes get :: "'d \<Rightarrow> 'k \<Rightarrow> 'v option"
    and put :: "'k \<Rightarrow> 'v \<Rightarrow> 'd \<Rightarrow> 'd"
    and keys :: "'d \<Rightarrow> 'k list"
  assumes get_put: "get (put k v d) k' = (if k' = k then Some v else get d k')"
    and keys_put: "keys (put k v d) = (if k \<in> set (keys d) then keys d else keys d @ [k])"
    and get_None: "get d k = None \<longleftrightarrow> k \<notin> set (keys d)"
begin

definition puts :: "('k \<times> 'v) list \<Rightarrow> 'd \<Rightarrow> 'd" where
  "puts kvs d = fold (\<lambda>(k, v). put k v) kvs d"

lemma puts_simps [simp]:
  "puts [] d = d"
  "puts ((k, v) # kvs) d = puts kvs (put k v d)"
  by (simp_all add: puts_def)

text \<open>Last assignment wins; a key no assignment names keeps its value.\<close>

lemma get_puts: "get (puts kvs d) k = (case map_of (rev kvs) k of None \<Rightarrow> get d k | Some v \<Rightarrow> Some v)"
  by (induction kvs arbitrary: d) (auto simp: get_put map_add_def split: option.splits)

lemma get_puts_distinct:
  assumes "distinct (map fst kvs)" and "(k, v) \<in> set kvs"
  shows "get (puts kvs d) k = Some v"
proof -
  have "map_of (rev kvs) k = Some v"
    using assms by (intro map_of_is_SomeI) (simp_all add: rev_map [symmetric])
  then show ?thesis by (simp add: get_puts)
qed

lemma distinct_keys_put: "distinct (keys d) \<Longrightarrow> distinct (keys (put k v d))"
  by (simp add: keys_put)

lemma distinct_keys_puts: "distinct (keys d) \<Longrightarrow> distinct (keys (puts kvs d))"
  by (induction kvs arbitrary: d) (auto simp: distinct_keys_put)

lemma set_keys_puts: "set (keys (puts kvs d)) = set (keys d) \<union> fst ` set kvs"
  by (induction kvs arbitrary: d) (force simp: keys_put)+

lemma get_puts_other: "k \<notin> fst ` set kvs \<Longrightarrow> get (puts kvs d) k = get d k"
  by (induction kvs arbitrary: d) (auto simp: get_put)

end

lemma dget_dput [simp, dict_simps]: "dget (dput k v d) k' = (if k' = k then Some v else dget d k')"
  by (induction d) (auto simp: dget_def)

lemma dkeys_dput [dict_simps]: "dkeys (dput k v d) = (if k \<in> set (dkeys d) then dkeys d else dkeys d @ [k])"
  by (induction d) (force simp: dkeys_def)+

lemma dget_None_iff [dict_simps]: "dget d k = None \<longleftrightarrow> k \<notin> set (dkeys d)"
  by (auto simp: dget_def dkeys_def map_of_eq_None_iff)

interpretation dict: keyed_store dget dput dkeys
  by unfold_locales (simp_all only: dget_dput dkeys_dput dget_None_iff)

lemma dupdate_puts: "dupdate d kvs = dict.puts kvs d"
  by (simp add: dupdate_def dict.puts_def)

lemma dget_Nil [simp, dict_simps]: "dget [] k = None"
  by (simp add: dget_def)

lemma dget_Cons [simp, dict_simps]: "dget ((k', v) # d) k = (if k = k' then Some v else dget d k)"
  by (simp add: dget_def)

lemma dkeys_simps [simp, dict_simps]:
  "dkeys [] = []"
  "dkeys ((k, v) # d) = k # dkeys d"
  by (simp_all add: dkeys_def)

lemma dmem_dput [simp, dict_simps]: "dmem k' (dput k v d) \<longleftrightarrow> k' = k \<or> dmem k' d"
  by (simp add: dmem_def)

lemma dget_dict_of_distinct:
  "distinct (map fst kvs) \<Longrightarrow> dget (dict_of kvs) k = map_of kvs k"
proof -
  assume d: "distinct (map fst kvs)"
  then have "map_of (rev kvs) = map_of kvs"
    by (intro map_of_eqI) (auto simp: rev_map[symmetric])
  then show ?thesis
    by (simp add: dict_of_def dupdate_puts dict.get_puts split: option.splits)
qed

text \<open>\<open>del d[k]\<close> and \<open>d.pop(k, None)\<close>.\<close>

definition ddel :: "'k \<Rightarrow> ('k, 'v) dict \<Rightarrow> ('k, 'v) dict" where
  "ddel k d = filter (\<lambda>kv. fst kv \<noteq> k) d"

lemma dget_ddel [simp, dict_simps]: "dget (ddel k d) k' = (if k' = k then None else dget d k')"
  by (induction d) (auto simp: ddel_def)

section \<open>Python values\<close>

text \<open>
  The JSON-like values, with objects as a class name and its attributes.  Dict keys are strings, as
  in every JSON object and attribute mapping the sources build.
\<close>

datatype pyval =
    PNone
  | PBool bool
  | PInt int
  | PFloat rat
  | PStr string
  | PList "pyval list"
  | PDict "(string \<times> pyval) list"
  | PObj string "(string \<times> pyval) list"

fun py_truth :: "pyval \<Rightarrow> bool" where
  "py_truth PNone = False"
| "py_truth (PBool b) = b"
| "py_truth (PInt i) = (i \<noteq> 0)"
| "py_truth (PFloat r) = (r \<noteq> 0)"
| "py_truth (PStr s) = (s \<noteq> [])"
| "py_truth (PList xs) = (xs \<noteq> [])"
| "py_truth (PDict d) = (d \<noteq> [])"
| "py_truth (PObj c a) = True"

text \<open>\<open>x or y\<close> on values.\<close>

definition py_or :: "pyval \<Rightarrow> pyval \<Rightarrow> pyval" where
  "py_or x y = (if py_truth x then x else y)"

text \<open>\<open>type(x).__name__\<close>.\<close>

fun py_type :: "pyval \<Rightarrow> string" where
  "py_type PNone = ''NoneType''"
| "py_type (PBool b) = ''bool''"
| "py_type (PInt i) = ''int''"
| "py_type (PFloat r) = ''float''"
| "py_type (PStr s) = ''str''"
| "py_type (PList xs) = ''list''"
| "py_type (PDict d) = ''dict''"
| "py_type (PObj c a) = c"

text \<open>\<open>getattr(x, name, default)\<close>: builtin values have none of the attributes the sources read.\<close>

fun py_getattr :: "pyval \<Rightarrow> string \<Rightarrow> pyval \<Rightarrow> pyval" where
  "py_getattr (PObj c a) n d = dget_or a n d"
| "py_getattr v n d = d"

definition no_attr :: "pyval \<Rightarrow> string \<Rightarrow> pyexc" where
  "no_attr v n = PyExc AttributeError
     (CHR 0x27 # py_type v @ CHR 0x27 # '' object has no attribute '' @ CHR 0x27 # n @ [CHR 0x27])"

text \<open>\<open>hasattr(x, name)\<close> and \<open>x.name\<close>.\<close>

fun has_attr :: "pyval \<Rightarrow> string \<Rightarrow> bool" where
  "has_attr (PObj c a) n = dmem n a"
| "has_attr v n = False"

fun py_attr :: "pyval \<Rightarrow> string \<Rightarrow> pyval res" where
  "py_attr (PObj c a) n = (case dget a n of Some v \<Rightarrow> Inr v | None \<Rightarrow> Inl (no_attr (PObj c a) n))"
| "py_attr v n = Inl (no_attr v n)"

text \<open>\<open>x.get(key, default)\<close>: a method of dicts; anything else raises \<open>AttributeError\<close>.\<close>

fun py_get :: "pyval \<Rightarrow> string \<Rightarrow> pyval \<Rightarrow> pyval res" where
  "py_get (PDict d) k v = Inr (dget_or d k v)"
| "py_get x k v = Inl (no_attr x ''get'')"

lemma dget_or_simps [simp, dict_simps]:
  "dget_or [] k v = v"
  "dget_or ((k', w) # d) k v = (if k = k' then w else dget_or d k v)"
  by (simp_all add: dget_or_def)

lemma dget_or_dput [simp, dict_simps]: "dget_or (dput k w d) k' v = (if k' = k then w else dget_or d k' v)"
  by (simp add: dget_or_def)

section \<open>String methods\<close>

definition is_space :: "char \<Rightarrow> bool" where
  "is_space c \<longleftrightarrow> (of_char c :: nat) \<in> {9, 10, 11, 12, 13, 28, 29, 30, 31, 32, 133, 160}"

definition lower_char :: "char \<Rightarrow> char" where
  "lower_char c = (let n = (of_char c :: nat) in
     if (65 \<le> n \<and> n \<le> 90) \<or> (192 \<le> n \<and> n \<le> 222 \<and> n \<noteq> 215) then char_of (n + 32) else c)"

definition py_lower :: "string \<Rightarrow> string" where
  "py_lower s = map lower_char s"

definition py_strip :: "string \<Rightarrow> string" where
  "py_strip s = rev (dropWhile is_space (rev (dropWhile is_space s)))"

text \<open>\<open>s.split(c)\<close> for a one-character separator: never empty, one piece more than separators.\<close>

fun py_split :: "char \<Rightarrow> string \<Rightarrow> string list" where
  "py_split c [] = [[]]"
| "py_split c (x # xs) =
     (if x = c then [] # py_split c xs
      else (case py_split c xs of [] \<Rightarrow> [[x]] | p # ps \<Rightarrow> (x # p) # ps))"

fun py_join :: "string \<Rightarrow> string list \<Rightarrow> string" where
  "py_join sep [] = []"
| "py_join sep [x] = x"
| "py_join sep (x # y # ys) = x @ sep @ py_join sep (y # ys)"

definition startswith :: "string \<Rightarrow> string \<Rightarrow> bool" where
  "startswith s p \<longleftrightarrow> take (length p) s = p"

text \<open>\<open>sub in s\<close>.\<close>

fun py_contains :: "string \<Rightarrow> string \<Rightarrow> bool" where
  "py_contains sub [] = (sub = [])"
| "py_contains sub (c # s) = (startswith (c # s) sub \<or> py_contains sub s)"

text \<open>\<open>s.replace(old, new)\<close> for a non-empty \<open>old\<close>: leftmost, non-overlapping occurrences.\<close>

function py_replace :: "string \<Rightarrow> string \<Rightarrow> string \<Rightarrow> string" where
  "py_replace old new [] = []"
| "py_replace old new (c # s) =
     (if old \<noteq> [] \<and> startswith (c # s) old
      then new @ py_replace old new (drop (length old) (c # s))
      else c # py_replace old new s)"
  by pat_completeness auto
termination
  by (relation "measure (\<lambda>(old, new, s). length s)") auto

lemma py_split_nonempty [simp]: "py_split c s \<noteq> []"
  by (induction s) (auto split: list.splits)

text \<open>Joining the pieces gives the string back, and no piece holds the separator.\<close>

lemma py_join_Cons: "xs \<noteq> [] \<Longrightarrow> py_join sep (x # xs) = x @ sep @ py_join sep xs"
  by (cases xs) simp_all

lemma py_join_split: "py_join [c] (py_split c s) = s"
proof (induction s)
  case Nil
  then show ?case by simp
next
  case (Cons x s)
  then show ?case
    by (cases "py_split c s"; cases "tl (py_split c s)") (auto simp: py_join_Cons)
qed

lemma py_split_no_sep: "p \<in> set (py_split c s) \<Longrightarrow> c \<notin> set p"
  by (induction s arbitrary: p) (auto split: if_splits list.splits)

lemma py_split_none: "c \<notin> set s \<Longrightarrow> py_split c s = [s]"
  by (induction s) auto

lemma py_split_append: "c \<notin> set p \<Longrightarrow> py_split c (p @ c # s) = p # py_split c s"
  by (induction p) auto

lemma py_split_join:
  assumes "ps \<noteq> []" and "\<And>p. p \<in> set ps \<Longrightarrow> c \<notin> set p"
  shows "py_split c (py_join [c] ps) = ps"
  using assms
proof (induction ps rule: list_nonempty_induct)
  case (single p)
  then show ?case by (simp add: py_split_none)
next
  case (cons p ps)
  then show ?case by (simp add: py_join_Cons py_split_append)
qed

lemma py_strip_no_lead: "py_strip s = x # xs \<Longrightarrow> \<not> is_space x"
proof -
  assume a: "py_strip s = x # xs"
  let ?t = "dropWhile is_space s"
  have "prefix (py_strip s) ?t"
    unfolding py_strip_def prefix_def
    by (metis rev_append rev_rev_ident takeWhile_dropWhile_id)
  then obtain zs where "?t = x # xs @ zs" using a by (auto simp: prefix_def)
  then show "\<not> is_space x" by (metis hd_dropWhile list.sel(1) list.distinct(1))
qed

lemma lower_char_idem: "lower_char (lower_char c) = lower_char c"
proof -
  have "of_char c < (256 :: nat)" by (rule nat_of_char_less_256)
  then show ?thesis by (auto simp: lower_char_def Let_def)
qed

lemma py_lower_idem [simp]: "py_lower (py_lower s) = py_lower s"
  by (simp add: py_lower_def lower_char_idem)

lemma startswith_append [simp]: "startswith (p @ s) p"
  by (simp add: startswith_def)

lemma startswith_iff: "startswith s p \<longleftrightarrow> (\<exists>t. s = p @ t)"
  unfolding startswith_def by (metis append_eq_conv_conj append_take_drop_id)

lemma py_contains_iff: "py_contains sub s \<longleftrightarrow> (\<exists>a b. s = a @ sub @ b)"
proof (induction s)
  case Nil
  then show ?case by simp
next
  case (Cons c s)
  show ?case
  proof
    assume "py_contains sub (c # s)"
    then consider t where "c # s = [] @ sub @ t" | a b where "s = a @ sub @ b"
      using Cons.IH by (auto simp: startswith_iff)
    then show "\<exists>a b. c # s = a @ sub @ b"
      by cases (blast, metis append_Cons)
  next
    assume "\<exists>a b. c # s = a @ sub @ b"
    then obtain a b where ab: "c # s = a @ sub @ b" by blast
    show "py_contains sub (c # s)"
    proof (cases a)
      case Nil
      with ab have "startswith (c # s) sub" by (metis startswith_iff append_Nil)
      then show ?thesis by simp
    next
      case (Cons x xs)
      with ab have "s = xs @ sub @ b" by simp
      then show ?thesis using Cons.IH by auto
    qed
  qed
qed

text \<open>A string without the placeholder is left alone; the first occurrence is replaced.\<close>

lemma py_replace_absent: "\<not> py_contains old s \<Longrightarrow> py_replace old new s = s"
  by (induction s) auto

text \<open>Decimal rendering of integers, as \<open>str(n)\<close> does.\<close>

fun nat_digits :: "nat \<Rightarrow> string" where
  "nat_digits n = (if n < 10 then [char_of (48 + n)] else nat_digits (n div 10) @ [char_of (48 + n mod 10)])"

declare nat_digits.simps [simp del]

definition show_nat :: "nat \<Rightarrow> string" where
  "show_nat n = nat_digits n"

definition show_int :: "int \<Rightarrow> string" where
  "show_int i = (if i < 0 then CHR ''-'' # nat_digits (nat (- i)) else nat_digits (nat i))"

text \<open>\<open>str(v)\<close>: the scalar cases; floats and containers go through \<open>repr\<close>, a parameter.\<close>

fun py_str :: "(pyval \<Rightarrow> string) \<Rightarrow> pyval \<Rightarrow> string" where
  "py_str repr PNone = ''None''"
| "py_str repr (PBool b) = (if b then ''True'' else ''False'')"
| "py_str repr (PInt i) = show_int i"
| "py_str repr (PStr s) = s"
| "py_str repr v = repr v"

section \<open>Stateful computations that may raise\<close>

text \<open>A statement sequence over a state \<open>'s\<close>: the state reached so far survives an exception, as
  it does in Python.\<close>

type_synonym ('s, 'a) prog = "'s \<Rightarrow> 'a res \<times> 's"

definition pret :: "'a \<Rightarrow> ('s, 'a) prog" where
  "pret x s = (Inr x, s)"

definition praise :: "pyexc \<Rightarrow> ('s, 'a) prog" where
  "praise e s = (Inl e, s)"

definition pbind :: "('s, 'a) prog \<Rightarrow> ('a \<Rightarrow> ('s, 'b) prog) \<Rightarrow> ('s, 'b) prog" where
  "pbind m f s = (case m s of (Inl e, t) \<Rightarrow> (Inl e, t) | (Inr x, t) \<Rightarrow> f x t)"

definition pmodify :: "('s \<Rightarrow> 's) \<Rightarrow> ('s, unit) prog" where
  "pmodify f s = (Inr (), f s)"

definition pgets :: "('s \<Rightarrow> 'a) \<Rightarrow> ('s, 'a) prog" where
  "pgets f s = (Inr (f s), s)"

definition plift :: "'a res \<Rightarrow> ('s, 'a) prog" where
  "plift r s = (r, s)"

text \<open>\<open>try: m except Exception as e: h e\<close>; \<open>KeyboardInterrupt\<close> and \<open>SystemExit\<close> pass through.\<close>

definition ptry :: "('s, 'a) prog \<Rightarrow> (pyexc \<Rightarrow> ('s, 'a) prog) \<Rightarrow> ('s, 'a) prog" where
  "ptry m h s = (case m s of (Inl e, t) \<Rightarrow> (if is_Exception e then h e t else (Inl e, t))
                           | (Inr x, t) \<Rightarrow> (Inr x, t))"

text \<open>A \<open>for\<close> loop whose body may raise.\<close>

fun pfor :: "'a list \<Rightarrow> ('a \<Rightarrow> ('s, unit) prog) \<Rightarrow> ('s, unit) prog" where
  "pfor [] f = pret ()"
| "pfor (x # xs) f = pbind (f x) (\<lambda>_. pfor xs f)"

definition pwhen :: "bool \<Rightarrow> ('s, unit) prog \<Rightarrow> ('s, unit) prog" where
  "pwhen b m = (if b then m else pret ())"

lemma prog_simps [simp, py_simps]:
  "pret x s = (Inr x, s)"
  "praise e s = (Inl e, s)"
  "pmodify f s = (Inr (), f s)"
  "pgets g s = (Inr (g s), s)"
  "plift r s = (r, s)"
  by (simp_all add: pret_def praise_def pmodify_def pgets_def plift_def)

lemma pbind_simps [simp, py_simps]:
  "pbind (pret x) f = f x"
  "pbind (praise e) f = praise e"
  "pbind (pmodify g) h s = h () (g s)"
  "pbind (pgets k) f s = f (k s) s"
  "pbind (plift (Inr x)) f = f x"
  "pbind (plift (Inl e)) f = praise e"
  by (simp_all add: pbind_def fun_eq_iff)

lemma pwhen_simps [simp, py_simps]:
  "pwhen True m = m"
  "pwhen False m = pret ()"
  by (simp_all add: pwhen_def)

text \<open>A loop all of whose bodies are state updates is a fold.\<close>

lemma pfor_modify: "pfor xs (\<lambda>x. pmodify (g x)) s = (Inr (), fold g xs s)"
  by (induction xs arbitrary: s) simp_all

lemma pbind_assoc: "pbind (pbind m f) g = pbind m (\<lambda>x. pbind (f x) g)"
  by (auto simp: pbind_def fun_eq_iff split: prod.splits sum.splits)

lemma ptry_never_raises:
  assumes "\<And>e t. is_Exception e \<Longrightarrow> \<exists>y t'. h e t = (Inr y, t')"
    and "\<And>e t. m s = (Inl e, t) \<Longrightarrow> is_Exception e"
  shows "\<exists>y t. ptry m h s = (Inr y, t)"
  using assms by (auto simp: ptry_def split: prod.splits sum.splits)

text \<open>Frames: a program keeps what \<open>f\<close> reads of the state, whether it returns or raises.\<close>

definition keeps :: "('s \<Rightarrow> 'x) \<Rightarrow> ('s, 'a) prog \<Rightarrow> bool" where
  "keeps f m \<longleftrightarrow> (\<forall>s. f (snd (m s)) = f s)"

lemma keepsD: "keeps f m \<Longrightarrow> m s = (r, t) \<Longrightarrow> f t = f s"
  by (metis keeps_def snd_conv)

lemma keeps_basic [keeps_intros]:
  "keeps f (pret x)" "keeps f (praise e)" "keeps f (pgets g)" "keeps f (plift r)"
  by (simp_all add: keeps_def)

lemma keeps_pmodify [keeps_intros]: "(\<And>s. f (g s) = f s) \<Longrightarrow> keeps f (pmodify g)"
  by (simp add: keeps_def)

lemma keeps_pbind [keeps_intros]: "keeps f m \<Longrightarrow> (\<And>x. keeps f (k x)) \<Longrightarrow> keeps f (pbind m k)"
  by (auto simp: keeps_def pbind_def split: prod.split sum.split) (metis snd_conv)+

lemma keeps_ptry [keeps_intros]: "keeps f m \<Longrightarrow> (\<And>e. keeps f (h e)) \<Longrightarrow> keeps f (ptry m h)"
  by (auto simp: keeps_def ptry_def split: prod.split sum.split) (metis snd_conv)+

lemma keeps_pwhen [keeps_intros]: "keeps f m \<Longrightarrow> keeps f (pwhen b m)"
  by (cases b) (simp_all add: keeps_def)

lemma keeps_pfor [keeps_intros]: "(\<And>x. keeps f (k x)) \<Longrightarrow> keeps f (pfor xs k)"
  by (induction xs) (simp_all add: keeps_basic keeps_pbind)

lemma keeps_if [keeps_intros]: "(b \<Longrightarrow> keeps f m) \<Longrightarrow> (\<not> b \<Longrightarrow> keeps f n) \<Longrightarrow> keeps f (if b then m else n)"
  by simp

lemma keeps_option [keeps_intros]:
  "(v = None \<Longrightarrow> keeps f m) \<Longrightarrow> (\<And>x. v = Some x \<Longrightarrow> keeps f (k x)) \<Longrightarrow> keeps f (case v of None \<Rightarrow> m | Some x \<Rightarrow> k x)"
  by (cases v) simp_all

text \<open>Exceptions: every exception that leaves the program satisfies \<open>P\<close>; with \<open>P\<close> false it always
  returns.\<close>

definition raises_only :: "(pyexc \<Rightarrow> bool) \<Rightarrow> ('s, 'a) prog \<Rightarrow> bool" where
  "raises_only P m \<longleftrightarrow> (\<forall>s e t. m s = (Inl e, t) \<longrightarrow> P e)"

abbreviation returns :: "('s, 'a) prog \<Rightarrow> bool" where
  "returns m \<equiv> raises_only (\<lambda>_. False) m"

lemma raises_onlyD: "raises_only P m \<Longrightarrow> m s = (Inl e, t) \<Longrightarrow> P e"
  by (auto simp: raises_only_def)

lemma returnsE:
  assumes "returns m"
  obtains x t where "m s = (Inr x, t)"
proof (cases "m s")
  case (Pair r t)
  with assms that show ?thesis by (cases r) (auto simp: raises_only_def)
qed

lemma raises_only_mono: "raises_only P m \<Longrightarrow> (\<And>e. P e \<Longrightarrow> Q e) \<Longrightarrow> raises_only Q m"
  by (auto simp: raises_only_def)

lemma raises_only_basic [raises_intros]:
  "raises_only P (pret x)" "raises_only P (pgets g)" "raises_only P (pmodify h)"
  by (simp_all add: raises_only_def)

lemma raises_only_plift [raises_intros]: "(\<And>e. r = Inl e \<Longrightarrow> P e) \<Longrightarrow> raises_only P (plift r)"
  by (simp add: raises_only_def)

lemma raises_only_praise [raises_intros]: "P e \<Longrightarrow> raises_only P (praise e)"
  by (simp add: raises_only_def)

lemma raises_only_pbind [raises_intros]:
  "raises_only P m \<Longrightarrow> (\<And>x. raises_only P (k x)) \<Longrightarrow> raises_only P (pbind m k)"
  by (auto simp: raises_only_def pbind_def split: prod.splits sum.splits)

lemma raises_only_ptry [raises_intros]:
  "raises_only (\<lambda>e. is_Exception e \<or> P e) m \<Longrightarrow> (\<And>e. raises_only P (h e)) \<Longrightarrow> raises_only P (ptry m h)"
  by (auto simp: raises_only_def ptry_def split: prod.splits sum.splits if_splits)

lemma raises_only_pwhen [raises_intros]: "(b \<Longrightarrow> raises_only P m) \<Longrightarrow> raises_only P (pwhen b m)"
  by (cases b) (simp_all add: raises_only_def)

lemma raises_only_pfor [raises_intros]: "(\<And>x. x \<in> set xs \<Longrightarrow> raises_only P (k x)) \<Longrightarrow> raises_only P (pfor xs k)"
  by (induction xs) (simp_all add: raises_only_basic raises_only_pbind)

lemma raises_only_if [raises_intros]:
  "(b \<Longrightarrow> raises_only P m) \<Longrightarrow> (\<not> b \<Longrightarrow> raises_only P n) \<Longrightarrow> raises_only P (if b then m else n)"
  by simp

lemma raises_only_option [raises_intros]:
  "(v = None \<Longrightarrow> raises_only P m) \<Longrightarrow> (\<And>x. v = Some x \<Longrightarrow> raises_only P (k x)) \<Longrightarrow>
     raises_only P (case v of None \<Rightarrow> m | Some x \<Rightarrow> k x)"
  by (cases v) simp_all

lemma raises_pyval [raises_intros]:
  assumes "raises_only P a" "\<And>b. raises_only P (f1 b)" "\<And>i. raises_only P (f2 i)" "\<And>r. raises_only P (f3 r)"
    "\<And>s. raises_only P (f4 s)" "\<And>l. raises_only P (f5 l)" "\<And>d. raises_only P (f6 d)" "\<And>c x. raises_only P (f7 c x)"
  shows "raises_only P (case v of PNone \<Rightarrow> a | PBool b \<Rightarrow> f1 b | PInt i \<Rightarrow> f2 i | PFloat r \<Rightarrow> f3 r | PStr s \<Rightarrow> f4 s
    | PList l \<Rightarrow> f5 l | PDict d \<Rightarrow> f6 d | PObj c x \<Rightarrow> f7 c x)"
  using assms by (cases v) simp_all

end
