(* ===== verification/Config.thy ===== *)
theory Config
  imports Prelude
begin

text \<open>
  \<open>openlit/cli/config.py\<close>: the parameter table, parsing of environment values and the
  configuration built from the environment.  \<open>os.environ\<close> is a dict of strings; \<open>json.loads\<close> is an
  argument of the definitions that call it.
\<close>

section \<open>The parameter table\<close>

datatype cli_type = CliStr | CliBool | CliInt

datatype value_parser = ParseJson | ParseCsv

record param_config =
  pc_default :: pyval
  pc_env_var :: "string option"
  pc_cli_help :: string
  pc_cli_type :: cli_type
  pc_parser :: "value_parser option"
  pc_has_negation :: bool
  pc_deprecated :: bool
  pc_internal :: bool

definition plain_param :: "pyval \<Rightarrow> string \<Rightarrow> string \<Rightarrow> cli_type \<Rightarrow> param_config" where
  "plain_param d v h t = \<lparr>pc_default = d, pc_env_var = Some v, pc_cli_help = h, pc_cli_type = t,
     pc_parser = None, pc_has_negation = False, pc_deprecated = False, pc_internal = False\<rparr>"

definition internal_param :: param_config where
  "internal_param = \<lparr>pc_default = PNone, pc_env_var = None, pc_cli_help = [], pc_cli_type = CliStr,
     pc_parser = None, pc_has_negation = False, pc_deprecated = False, pc_internal = True\<rparr>"

definition PARAMETER_CONFIG :: "(string, param_config) dict" where
  "PARAMETER_CONFIG = [
    (''environment'', plain_param (PStr ''default'') ''OTEL_DEPLOYMENT_ENVIRONMENT''
       ''Deployment environment'' CliStr),
    (''application_name'', (plain_param (PStr ''default'') ''OTEL_SERVICE_NAME''
       ''Application name for tracing (deprecated, use service_name)'' CliStr)\<lparr>pc_deprecated := True\<rparr>),
    (''service_name'', plain_param (PStr ''default'') ''OTEL_SERVICE_NAME''
       ''Service name for tracing'' CliStr),
    (''otlp_endpoint'', plain_param PNone ''OTEL_EXPORTER_OTLP_ENDPOINT''
       ''OTLP endpoint for exporter'' CliStr),
    (''otlp_headers'', (plain_param PNone ''OTEL_EXPORTER_OTLP_HEADERS''
       ''OTLP headers as JSON string'' CliStr)\<lparr>pc_parser := Some ParseJson\<rparr>),
    (''disable_batch'', plain_param (PBool False) ''OPENLIT_DISABLE_BATCH''
       ''Disable batch span processing'' CliBool),
    (''capture_message_content'',
       (plain_param (PBool True) ''OTEL_INSTRUMENTATION_GENAI_CAPTURE_MESSAGE_CONTENT''
       ''Enable capture of message content'' CliBool)\<lparr>pc_has_negation := True\<rparr>),
    (''disabled_instrumentors'', (plain_param PNone ''OPENLIT_DISABLED_INSTRUMENTORS''
       ''Comma-separated list of instrumentors to disable'' CliStr)\<lparr>pc_parser := Some ParseCsv\<rparr>),
    (''disable_metrics'', plain_param (PBool False) ''OPENLIT_DISABLE_METRICS''
       ''Disable metrics collection'' CliBool),
    (''pricing_json'', plain_param PNone ''OPENLIT_PRICING_JSON''
       ''File path or URL to pricing JSON'' CliStr),
    (''collect_gpu_stats'', plain_param (PBool False) ''OPENLIT_COLLECT_GPU_STATS''
       ''Enable GPU statistics collection'' CliBool),
    (''detailed_tracing'', (plain_param (PBool True) ''OPENLIT_DETAILED_TRACING''
       ''Enable detailed component-level tracing'' CliBool)\<lparr>pc_has_negation := True\<rparr>),
    (''collect_system_metrics'', plain_param (PBool False) ''OPENLIT_COLLECT_SYSTEM_METRICS''
       ''Enable comprehensive system metrics (CPU, memory, disk, network, GPU if detected)'' CliBool),
    (''capture_parameters'', plain_param (PBool False) ''OPENLIT_CAPTURE_PARAMETERS''
       ''Capture database query parameters in spans (security risk - may expose sensitive data)''
       CliBool),
    (''enable_sqlcommenter'', plain_param (PBool False) ''OPENLIT_ENABLE_SQLCOMMENTER''
       ''Inject OpenTelemetry trace context as SQL comments for database log correlation'' CliBool),
    (''evals_logs_export'', plain_param (PBool True) ''OPENLIT_EVALS_LOGS_EXPORT''
       ''Emit evaluation results as OTEL Log Records instead of OTEL Events'' CliBool),
    (''max_content_length'', plain_param PNone ''OPENLIT_MAX_CONTENT_LENGTH''
       ''Maximum character length for captured content (None = no limit)'' CliInt),
    (''tracer'', internal_param),
    (''event_logger'', internal_param),
    (''meter'', internal_param)]"

definition get_cli_parameters :: "(string, param_config) dict" where
  "get_cli_parameters = filter (\<lambda>(name, config). \<not> pc_internal config) PARAMETER_CONFIG"

definition get_env_var_for_parameter :: "string \<Rightarrow> string option" where
  "get_env_var_for_parameter param_name =
     (case dget PARAMETER_CONFIG param_name of None \<Rightarrow> None | Some config \<Rightarrow> pc_env_var config)"

section \<open>Parsing environment values\<close>

definition parse_bool :: "string \<Rightarrow> bool" where
  "parse_bool env_value \<longleftrightarrow> py_lower env_value \<in> {''true'', ''1'', ''yes''}"

definition parse_csv :: "string \<Rightarrow> string list" where
  "parse_csv env_value = map py_strip (filter (\<lambda>item. py_strip item \<noteq> []) (py_split CHR '','' env_value))"

text \<open>\<open>json.loads\<close> raising \<open>JSONDecodeError\<close> (or the import failing) yields \<open>None\<close>; any other
  exception leaves the function.\<close>

definition parse_json :: "(string \<Rightarrow> pyval res) \<Rightarrow> string \<Rightarrow> pyval res" where
  "parse_json json_loads env_value =
     (case json_loads env_value of
        Inr v \<Rightarrow> Inr v
      | Inl e \<Rightarrow> (if exc_class e = JSONDecodeError \<or> exc_class e = ImportError then Inr PNone else Inl e))"

definition parse_env_value :: "(string \<Rightarrow> pyval res) \<Rightarrow> string \<Rightarrow> string \<Rightarrow> pyval res" where
  "parse_env_value json_loads param_name env_value =
     (let (parser, cli_type) =
        (case dget PARAMETER_CONFIG param_name of
           None \<Rightarrow> (None, CliStr)
         | Some config \<Rightarrow> (pc_parser config, pc_cli_type config))
      in if cli_type = CliBool then Inr (PBool (parse_bool env_value))
         else case parser of
           Some ParseJson \<Rightarrow> parse_json json_loads env_value
         | Some ParseCsv \<Rightarrow> Inr (PList (map PStr (parse_csv env_value)))
         | None \<Rightarrow> Inr (PStr env_value))"

text \<open>One iteration of the loop: an unset or empty variable, and a value parsed to \<open>None\<close>, add
  nothing.\<close>

definition env_config_step ::
  "(string \<Rightarrow> pyval res) \<Rightarrow> (string, string) dict \<Rightarrow> string \<Rightarrow> param_config \<Rightarrow> (string, pyval) dict
     \<Rightarrow> (string, pyval) dict res" where
  "env_config_step json_loads env param_name param_config config =
     (if pc_internal param_config then Inr config
      else case pc_env_var param_config of
        None \<Rightarrow> Inr config
      | Some env_var \<Rightarrow>
          (case dget env env_var of
             None \<Rightarrow> Inr config
           | Some env_value \<Rightarrow>
               (if env_value = [] then Inr config
                else res_bind (parse_env_value json_loads param_name env_value)
                  (\<lambda>parsed_value. Inr (if parsed_value \<noteq> PNone then dput param_name parsed_value config
                                       else config)))))"

fun env_config_loop ::
  "(string \<Rightarrow> pyval res) \<Rightarrow> (string, string) dict \<Rightarrow> (string \<times> param_config) list \<Rightarrow> (string, pyval) dict
     \<Rightarrow> (string, pyval) dict res" where
  "env_config_loop json_loads env [] config = Inr config"
| "env_config_loop json_loads env ((param_name, param_config) # params) config =
     res_bind (env_config_step json_loads env param_name param_config config)
       (env_config_loop json_loads env params)"

definition build_config_from_environment ::
  "(string \<Rightarrow> pyval res) \<Rightarrow> (string, string) dict \<Rightarrow> (string, pyval) dict res" where
  "build_config_from_environment json_loads env = env_config_loop json_loads env PARAMETER_CONFIG []"

section \<open>Lemmas\<close>

lemmas param_table = PARAMETER_CONFIG_def plain_param_def internal_param_def

lemma PARAMETER_CONFIG_distinct: "distinct (dkeys PARAMETER_CONFIG)"
  by (simp add: PARAMETER_CONFIG_def)

lemma get_cli_parameters_eq: "get_cli_parameters = take 17 PARAMETER_CONFIG"
  by (simp add: get_cli_parameters_def param_table)

lemma parse_csv_items:
  "item \<in> set (parse_csv s) \<Longrightarrow> item \<noteq> [] \<and> \<not> is_space (hd item)"
  using py_strip_no_lead by (fastforce simp: parse_csv_def neq_Nil_conv)

text \<open>What the loop stores: exactly one entry per parameter whose variable is set, non-empty and
  parsed to something other than \<open>None\<close>.\<close>

definition env_entry ::
  "(string \<Rightarrow> pyval res) \<Rightarrow> (string, string) dict \<Rightarrow> string \<Rightarrow> pyval res" where
  "env_entry json_loads env param_name =
     (case get_env_var_for_parameter param_name of
        None \<Rightarrow> Inr PNone
      | Some env_var \<Rightarrow> (case dget env env_var of
            None \<Rightarrow> Inr PNone
          | Some env_value \<Rightarrow> (if env_value = [] then Inr PNone
                               else parse_env_value json_loads param_name env_value)))"

lemma env_config_step_other:
  "env_config_step json_loads env n p c = Inr c' \<Longrightarrow> m \<noteq> n \<Longrightarrow> dget c' m = dget c m"
  by (auto simp: env_config_step_def res_bind_Inr_iff split: if_splits option.splits)

lemma env_config_loop_ConsD:
  assumes "env_config_loop json_loads env ((n, p) # ps) c = Inr c'"
  obtains c1 where "env_config_step json_loads env n p c = Inr c1"
    and "env_config_loop json_loads env ps c1 = Inr c'"
  using assms by (cases "env_config_step json_loads env n p c") simp_all

lemma env_config_loop_other:
  "env_config_loop json_loads env ps c = Inr c' \<Longrightarrow> m \<notin> fst ` set ps \<Longrightarrow> dget c' m = dget c m"
proof (induction ps arbitrary: c)
  case Nil
  then show ?case by simp
next
  case (Cons np ps)
  obtain n p where np: "np = (n, p)" by (cases np)
  from Cons.prems(1) obtain c1 where c1: "env_config_step json_loads env n p c = Inr c1"
    and rest: "env_config_loop json_loads env ps c1 = Inr c'"
    unfolding np by (rule env_config_loop_ConsD)
  from Cons.prems(2) np have "m \<noteq> n" and "m \<notin> fst ` set ps" by auto
  with Cons.IH [OF rest] env_config_step_other [OF c1] show ?case by simp
qed

lemma env_config_loop_keys:
  "env_config_loop json_loads env ps c = Inr c' \<Longrightarrow> dget c' m \<noteq> None \<Longrightarrow>
     dget c m \<noteq> None \<or> (\<exists>p. (m, p) \<in> set ps \<and> \<not> pc_internal p)"
proof (induction ps arbitrary: c)
  case Nil
  then show ?case by simp
next
  case (Cons np ps)
  obtain n p where np: "np = (n, p)" by (cases np)
  from Cons.prems(1) obtain c1 where c1: "env_config_step json_loads env n p c = Inr c1"
    and rest: "env_config_loop json_loads env ps c1 = Inr c'"
    unfolding np by (rule env_config_loop_ConsD)
  from Cons.IH [OF rest Cons.prems(2)] show ?case
  proof
    assume "dget c1 m \<noteq> None"
    with c1 show ?thesis
      by (auto simp: np env_config_step_def res_bind_Inr_iff split: if_splits option.splits)
  qed (auto simp: np)
qed

lemma env_config_step_entry:
  assumes step: "env_config_step json_loads env n p c = Inr c'"
    and p: "\<not> pc_internal p" "pc_env_var p = Some v" and absent: "dget c n = None"
  shows "\<exists>x. (case dget env v of None \<Rightarrow> Inr PNone | Some s \<Rightarrow>
               (if s = [] then Inr PNone else parse_env_value json_loads n s)) = Inr x
           \<and> dget c' n = (if x = PNone then None else Some x)"
proof (cases "\<exists>s. dget env v = Some s \<and> s \<noteq> []")
  case True
  then obtain s where s: "dget env v = Some s" "s \<noteq> []" by blast
  with step p obtain x where x: "parse_env_value json_loads n s = Inr x"
    by (cases "parse_env_value json_loads n s") (simp_all add: env_config_step_def)
  with step p s absent have "dget c' n = (if x = PNone then None else Some x)"
    by (auto simp: env_config_step_def split: if_splits)
  with s x show ?thesis by simp
next
  case False
  with step p absent show ?thesis
    by (cases "dget env v") (simp_all add: env_config_step_def)
qed

lemma env_config_loop_entry:
  assumes "env_config_loop json_loads env ps c = Inr c'" and "(n, p) \<in> set ps"
    and "distinct (map fst ps)" and "\<not> pc_internal p" and "pc_env_var p = Some v"
    and "dget c n = None"
  shows "\<exists>x. (case dget env v of None \<Rightarrow> Inr PNone | Some s \<Rightarrow>
               (if s = [] then Inr PNone else parse_env_value json_loads n s)) = Inr x
           \<and> dget c' n = (if x = PNone then None else Some x)"
  using assms
proof (induction ps arbitrary: c)
  case Nil
  then show ?case by simp
next
  case (Cons q ps)
  obtain m r where q: "q = (m, r)" by (cases q)
  from Cons.prems(1) obtain c1 where c1: "env_config_step json_loads env m r c = Inr c1"
    and rest: "env_config_loop json_loads env ps c1 = Inr c'"
    unfolding q by (rule env_config_loop_ConsD)
  show ?case
  proof (cases "m = n")
    case True
    with Cons.prems q have "r = p" and "n \<notin> fst ` set ps"
      by (auto simp: image_iff)
    then have "dget c' n = dget c1 n"
      using env_config_loop_other [OF rest] by simp
    with env_config_step_entry [of json_loads env n p c c1] c1 \<open>m = n\<close> \<open>r = p\<close> Cons.prems(4,5,6)
    show ?thesis by simp
  next
    case False
    with Cons.prems q have "(n, p) \<in> set ps" and "distinct (map fst ps)" by auto
    moreover have "dget c1 n = None"
      using env_config_step_other [OF c1, of n] False Cons.prems(6) by auto
    ultimately show ?thesis
      using Cons.IH [OF rest] Cons.prems(4,5) by blast
  qed
qed

end
