(* ===== verification/Cli.thy ===== *)
theory Cli
  imports Config
begin

text \<open>
  \<open>openlit/cli/main.py\<close> and the path handling of \<open>openlit/cli/bootstrap/sitecustomize.py\<close>: the
  command line, its translation to environment variables, the \<open>PYTHONPATH\<close> set-up, and the outcome
  of \<open>run\<close>.  The process replacement (\<open>os.execl\<close>, \<open>os.execvpe\<close>) is a constructor of the outcome.
\<close>

section \<open>The command line\<close>

datatype cli_action = StoreTrue | Store

text \<open>The options \<open>parse_arguments\<close> adds to the parser: one per CLI parameter, a flag for \<open>bool\<close>.\<close>

definition cli_arguments :: "(string \<times> cli_action) list" where
  "cli_arguments = map (\<lambda>(param_name, config).
     (''--'' @ param_name, if pc_cli_type config = CliBool then StoreTrue else Store)) get_cli_parameters"

text \<open>\<open>argparse\<close>'s namespace before any option is read: \<open>False\<close> for a flag, \<open>None\<close> otherwise; a
  given option then stores \<open>True\<close> or its text, and an option the parser does not know exits.\<close>

definition namespace_defaults :: "(string, pyval) dict" where
  "namespace_defaults = map (\<lambda>(opt, act). (drop 2 opt, case act of StoreTrue \<Rightarrow> PBool False | Store \<Rightarrow> PNone))
     cli_arguments"

fun parse_options :: "(string \<times> string) list \<Rightarrow> (string, pyval) dict \<Rightarrow> (string, pyval) dict res" where
  "parse_options [] ns = Inr ns"
| "parse_options ((opt, val) # given) ns =
     (case dget cli_arguments opt of
        None \<Rightarrow> Inl (PyExc SystemExit ''2'')
      | Some StoreTrue \<Rightarrow> parse_options given (dput (drop 2 opt) (PBool True) ns)
      | Some Store \<Rightarrow> parse_options given (dput (drop 2 opt) (PStr val) ns))"

definition parse_arguments ::
  "(string \<times> string) list \<Rightarrow> string \<Rightarrow> string list \<Rightarrow> ((string, pyval) dict \<times> string list) res" where
  "parse_arguments given command command_args =
     res_bind (parse_options given namespace_defaults) (\<lambda>args. Inr (args, command # command_args))"

section \<open>Environment variables from the command line\<close>

definition cli_env_step ::
  "(pyval \<Rightarrow> string) \<Rightarrow> (string, pyval) dict \<Rightarrow> string \<times> param_config
     \<Rightarrow> (string, string) dict \<Rightarrow> (string, string) dict" where
  "cli_env_step repr args pc environ =
     (case pc of (param_name, config) \<Rightarrow>
       (case pc_env_var config of
          None \<Rightarrow> environ
        | Some env_var \<Rightarrow>
            (if env_var = [] then environ
             else if dmem env_var environ then environ
             else (case dget_or args param_name PNone of
                     PNone \<Rightarrow> environ
                   | PBool b \<Rightarrow> (if \<not> b \<and> pc_default config = PBool True then environ
                                else dput env_var (if b then ''true'' else ''false'') environ)
                   | cli_value \<Rightarrow> dput env_var (py_str repr cli_value) environ))))"

definition set_environment_from_cli_args ::
  "(pyval \<Rightarrow> string) \<Rightarrow> (string, pyval) dict \<Rightarrow> (string, string) dict \<Rightarrow> (string, string) dict" where
  "set_environment_from_cli_args repr args environ = fold (cli_env_step repr args) get_cli_parameters environ"

section \<open>PYTHONPATH\<close>

definition setup_python_path ::
  "char \<Rightarrow> string \<Rightarrow> string \<Rightarrow> (string, string) dict \<Rightarrow> (string, string) dict" where
  "setup_python_path pathsep cwd_path bootstrap_path environ =
     (let python_path = (case dget environ ''PYTHONPATH'' of
            None \<Rightarrow> []
          | Some p \<Rightarrow> if p = [] then [] else py_split pathsep p);
        python_path = (if cwd_path \<notin> set python_path then cwd_path # python_path else python_path);
        python_path = filter (\<lambda>path. path \<noteq> bootstrap_path) python_path;
        python_path = bootstrap_path # python_path
      in dput ''PYTHONPATH'' (py_join [pathsep] python_path) environ)"

text \<open>The first step of \<open>initialize\<close> in the bootstrap directory: a child process must not be
  instrumented again.\<close>

definition initialize_python_path ::
  "char \<Rightarrow> string \<Rightarrow> (string, string) dict \<Rightarrow> (string, string) dict" where
  "initialize_python_path pathsep current_dir environ =
     (case dget environ ''PYTHONPATH'' of
        None \<Rightarrow> environ
      | Some p \<Rightarrow> dput ''PYTHONPATH''
          (py_join [pathsep] (filter (\<lambda>path. path \<noteq> current_dir) (py_split pathsep p))) environ)"

section \<open>The entry point\<close>

datatype run_outcome =
    Execl string "string list" "(string, string) dict"
  | Execvpe string "string list" "(string, string) dict"
  | Returned
  | Exited nat
  | Escaped pyexc

text \<open>
  \<open>which\<close>, the creation of the bootstrap directory and the success of \<open>execvpe\<close> are the operating
  system's.  \<open>KeyboardInterrupt\<close> exits with 130, every other \<open>Exception\<close> is logged and swallowed.
\<close>

definition run_guard :: "run_outcome res \<Rightarrow> run_outcome" where
  "run_guard r = (case r of Inr out \<Rightarrow> out
     | Inl e \<Rightarrow> (if exc_class e = KeyboardInterrupt then Exited 130
                 else if is_Exception e then Returned else Escaped e))"

definition run ::
  "(pyval \<Rightarrow> string) \<Rightarrow> char \<Rightarrow> string \<Rightarrow> string \<Rightarrow> unit res \<Rightarrow> (string \<Rightarrow> string option) \<Rightarrow> unit res
    \<Rightarrow> ((string, pyval) dict \<times> string list) res \<Rightarrow> (string, string) dict \<Rightarrow> run_outcome" where
  "run repr pathsep cwd bootstrap makedirs which execvpe parsed environ =
     run_guard
       (res_bind parsed (\<lambda>(args, target_command).
        let environ1 = set_environment_from_cli_args repr args environ in
        res_bind makedirs (\<lambda>_.
        let environ2 = setup_python_path pathsep cwd bootstrap environ1 in
        case which (hd target_command) of
          None \<Rightarrow>
            (case execvpe of
               Inr _ \<Rightarrow> Inr (Execvpe (hd target_command) target_command environ2)
             | Inl e \<Rightarrow> (if exc_class e = FileNotFoundError \<or> exc_class e = OSError then Inr Returned else Inl e))
        | Some executable \<Rightarrow>
            (if executable = [] then
               (case execvpe of
                  Inr _ \<Rightarrow> Inr (Execvpe (hd target_command) target_command environ2)
                | Inl e \<Rightarrow> (if exc_class e = FileNotFoundError \<or> exc_class e = OSError then Inr Returned else Inl e))
             else Inr (Execl executable (executable # tl target_command) environ2)))))"

section \<open>Lemmas\<close>

text \<open>A variable that is set is never touched, and only variables of the table are set.\<close>

lemma cli_env_step_keeps: "dget environ v = Some s \<Longrightarrow> dget (cli_env_step repr args pc environ) v = Some s"
  by (auto simp: cli_env_step_def dmem_def split: prod.splits option.splits pyval.splits if_splits)

lemma fold_cli_env_keeps: "dget environ v = Some s \<Longrightarrow> dget (fold (cli_env_step repr args) ps environ) v = Some s"
  by (induction ps arbitrary: environ) (simp_all add: cli_env_step_keeps)

lemma cli_env_step_other:
  "pc_env_var c \<noteq> Some v \<Longrightarrow> dget (cli_env_step repr args (n, c) environ) v = dget environ v"
  by (auto simp: cli_env_step_def split: option.splits pyval.splits)

lemma fold_cli_env_other:
  "(\<And>n c. (n, c) \<in> set ps \<Longrightarrow> pc_env_var c \<noteq> Some v) \<Longrightarrow>
     dget (fold (cli_env_step repr args) ps environ) v = dget environ v"
proof (induction ps arbitrary: environ)
  case (Cons p ps)
  obtain n c where p: "p = (n, c)" by (cases p)
  then have "pc_env_var c \<noteq> Some v" using Cons.prems [of n c] by simp
  moreover have "dget (fold (cli_env_step repr args) ps (cli_env_step repr args p environ)) v
      = dget (cli_env_step repr args p environ) v"
    using Cons.IH Cons.prems by (meson list.set_intros(2))
  ultimately show ?case by (simp add: p cli_env_step_other)
qed simp

lemma fold_cli_env_at:
  "dget (cli_env_step repr args p (fold (cli_env_step repr args) before environ)) v = Some s \<Longrightarrow>
     dget (fold (cli_env_step repr args) (before @ p # after) environ) v = Some s"
  by (simp add: fold_cli_env_keeps)

lemma filter_path_mem: "set (filter (\<lambda>path. path \<noteq> b) ps) = set ps - {b}"
  by auto

end
