(* ===== verification/ConfigProps.thy ===== *)
theory ConfigProps
  imports Cli
begin

text \<open>
  What the configuration layer promises: the dict built from the environment is exactly the typed
  values of the variables that are set, the command line reaches it through the environment without
  overriding it, the bootstrap directory is on \<open>PYTHONPATH\<close> for one process only, and the entry point
  replaces the process with the environment so prepared.
\<close>

section \<open>The environment\<close>

lemma parse_env_value_total:
  assumes "\<And>s e. json_loads s = Inl e \<Longrightarrow> exc_class e = JSONDecodeError"
  shows "\<exists>x. parse_env_value json_loads n s = Inr x"
proof -
  have "\<exists>x. parse_json json_loads s = Inr x"
    using assms [of s] by (cases "json_loads s") (simp_all add: parse_json_def)
  then show ?thesis
    by (auto simp: parse_env_value_def Let_def split: option.splits value_parser.splits if_splits prod.splits)
qed

lemma env_config_step_total:
  assumes "\<And>s e. json_loads s = Inl e \<Longrightarrow> exc_class e = JSONDecodeError"
  shows "\<exists>c'. env_config_step json_loads env n p c = Inr c'"
proof (cases "\<exists>v s. \<not> pc_internal p \<and> pc_env_var p = Some v \<and> dget env v = Some s \<and> s \<noteq> []")
  case True
  then obtain v s where *: "\<not> pc_internal p" "pc_env_var p = Some v" "dget env v = Some s" "s \<noteq> []" by blast
  from parse_env_value_total [of json_loads n s] assms obtain x where "parse_env_value json_loads n s = Inr x" by blast
  with * show ?thesis by (simp add: env_config_step_def)
qed (auto simp: env_config_step_def split: option.splits)

lemma env_config_loop_total:
  assumes "\<And>s e. json_loads s = Inl e \<Longrightarrow> exc_class e = JSONDecodeError"
  shows "\<exists>c'. env_config_loop json_loads env ps c = Inr c'"
proof (induction ps arbitrary: c)
  case (Cons q ps)
  obtain n p where "q = (n, p)" by (cases q)
  moreover from env_config_step_total [of json_loads env n p c] assms
  obtain c1 where "env_config_step json_loads env n p c = Inr c1" by blast
  ultimately show ?case using Cons.IH [of c1] by simp
qed simp

lemma table_env_var: "(n, p) \<in> set PARAMETER_CONFIG \<Longrightarrow> pc_internal p \<longleftrightarrow> pc_env_var p = None"
  by (auto simp: param_table)

lemma get_env_var_table: "(n, p) \<in> set PARAMETER_CONFIG \<Longrightarrow> get_env_var_for_parameter n = pc_env_var p"
  using PARAMETER_CONFIG_distinct
  by (simp add: get_env_var_for_parameter_def dget_def dkeys_def)

lemma build_config_entries:
  assumes "build_config_from_environment json_loads env = Inr config"
  shows "\<exists>x. env_entry json_loads env n = Inr x \<and> dget config n = (if x = PNone then None else Some x)"
proof (cases "\<exists>p. (n, p) \<in> set PARAMETER_CONFIG \<and> \<not> pc_internal p")
  case True
  then obtain p where p: "(n, p) \<in> set PARAMETER_CONFIG" "\<not> pc_internal p" by blast
  then obtain v where v: "pc_env_var p = Some v" using table_env_var by fastforce
  from assms have "env_config_loop json_loads env PARAMETER_CONFIG [] = Inr config"
    by (simp add: build_config_from_environment_def)
  from env_config_loop_entry [OF this p(1) _ p(2) v] PARAMETER_CONFIG_distinct
  show ?thesis by (simp add: env_entry_def get_env_var_table [OF p(1)] v dkeys_def)
next
  case False
  from assms have l: "env_config_loop json_loads env PARAMETER_CONFIG [] = Inr config"
    by (simp add: build_config_from_environment_def)
  have "dget config n = None"
  proof (rule ccontr)
    assume "dget config n \<noteq> None"
    from env_config_loop_keys [OF l this] False show False by simp
  qed
  moreover have "get_env_var_for_parameter n = None"
  proof (cases "dget PARAMETER_CONFIG n")
    case (Some p)
    then have "(n, p) \<in> set PARAMETER_CONFIG" by (simp add: dget_def map_of_SomeD)
    with False table_env_var Some show ?thesis by (simp add: get_env_var_for_parameter_def)
  qed (simp add: get_env_var_for_parameter_def)
  ultimately show ?thesis by (simp add: env_entry_def)
qed

text \<open>Building the configuration from the environment never raises when \<open>json.loads\<close> fails only
  with \<open>JSONDecodeError\<close>, and the dict it returns holds, for every name, exactly the typed value of
  the parameter's variable: a boolean for a boolean parameter, nothing for an unset or empty variable,
  and nothing at all for a name that is internal or not a parameter of \<open>init\<close>.\<close>

theorem env_config_exact:
  assumes "\<And>s e. json_loads s = Inl e \<Longrightarrow> exc_class e = JSONDecodeError"
  shows "\<exists>config. build_config_from_environment json_loads env = Inr config \<and>
     (\<forall>n. (\<exists>x. env_entry json_loads env n = Inr x \<and> dget config n = (if x = PNone then None else Some x))
        \<and> (dget config n \<noteq> None \<longrightarrow> n \<in> set (dkeys get_cli_parameters)))"
proof -
  from env_config_loop_total [of json_loads env PARAMETER_CONFIG "[]"] assms
  obtain config where c: "build_config_from_environment json_loads env = Inr config"
    by (auto simp: build_config_from_environment_def)
  moreover have "n \<in> set (dkeys get_cli_parameters)" if "dget config n \<noteq> None" for n
    using env_config_loop_keys [of json_loads env PARAMETER_CONFIG "[]" config n] c that
    by (force simp: build_config_from_environment_def get_cli_parameters_def dkeys_def)
  ultimately show ?thesis using build_config_entries [OF c] by blast
qed

theorem env_config_exact_witness:
  "\<exists>config. build_config_from_environment (\<lambda>s. Inl (PyExc JSONDecodeError s))
       [(''OPENLIT_DISABLE_BATCH'', ''Yes''), (''OTEL_EXPORTER_OTLP_HEADERS'', ''{'')] = Inr config \<and>
     (\<forall>n. (\<exists>x. env_entry (\<lambda>s. Inl (PyExc JSONDecodeError s))
             [(''OPENLIT_DISABLE_BATCH'', ''Yes''), (''OTEL_EXPORTER_OTLP_HEADERS'', ''{'')] n = Inr x
           \<and> dget config n = (if x = PNone then None else Some x))
        \<and> (dget config n \<noteq> None \<longrightarrow> n \<in> set (dkeys get_cli_parameters)))"
  by (rule env_config_exact) auto

section \<open>The command line\<close>

lemma cli_env_step_cong:
  "dget e1 v = dget e2 v \<Longrightarrow> pc_env_var p = Some v \<Longrightarrow>
     dget (cli_env_step repr args (n, p) e1) v = dget (cli_env_step repr args (n, p) e2) v"
  by (auto simp: cli_env_step_def dmem_def split: pyval.split)

lemma fold_cli_env_unique:
  assumes "(n, p) \<in> set ps" and "distinct ps" and "pc_env_var p = Some v"
    and "\<And>m q. (m, q) \<in> set ps \<Longrightarrow> (m, q) \<noteq> (n, p) \<Longrightarrow> pc_env_var q \<noteq> Some v"
    and "dget environ v = None"
  shows "dget (fold (cli_env_step repr args) ps environ) v = dget (cli_env_step repr args (n, p) environ) v"
  using assms
proof (induction ps arbitrary: environ)
  case (Cons q ps)
  show ?case
  proof (cases "q = (n, p)")
    case True
    with Cons.prems have "pc_env_var r \<noteq> Some v" if "(m, r) \<in> set ps" for m r
      using that by (metis distinct.simps(2) list.set_intros(2))
    then have "dget (fold (cli_env_step repr args) ps (cli_env_step repr args q environ)) v
        = dget (cli_env_step repr args q environ) v" by (rule fold_cli_env_other)
    with True show ?thesis by simp
  next
    case False
    obtain m r where q: "q = (m, r)" by (cases q)
    with Cons.prems(4) [of m r] False have "pc_env_var r \<noteq> Some v" by auto
    then have same: "dget (cli_env_step repr args q environ) v = dget environ v"
      by (simp add: q cli_env_step_other)
    have "dget (fold (cli_env_step repr args) ps (cli_env_step repr args q environ)) v
        = dget (cli_env_step repr args (n, p) (cli_env_step repr args q environ)) v"
      using False Cons.prems same by (intro Cons.IH) auto
    with cli_env_step_cong [OF same Cons.prems(3)] show ?thesis by simp
  qed
qed simp

text \<open>Only \<open>application_name\<close> and \<open>service_name\<close> share their variable.\<close>

lemma cli_vars_unique_all:
  "\<forall>x \<in> set get_cli_parameters. fst x \<noteq> ''application_name'' \<longrightarrow> fst x \<noteq> ''service_name'' \<longrightarrow>
     (\<forall>y \<in> set get_cli_parameters. pc_env_var (snd x) = pc_env_var (snd y) \<longrightarrow> fst x = fst y)"
  unfolding get_cli_parameters_eq by (simp add: param_table)

lemma cli_params_distinct: "distinct (map fst get_cli_parameters)"
  unfolding get_cli_parameters_eq by (simp add: PARAMETER_CONFIG_def)

lemma cli_param_fun: "(n, p) \<in> set get_cli_parameters \<Longrightarrow> (n, q) \<in> set get_cli_parameters \<Longrightarrow> p = q"
  using cli_params_distinct by (rule eq_key_imp_eq_value)

lemma cli_params_in_table: "(n, p) \<in> set get_cli_parameters \<Longrightarrow> (n, p) \<in> set PARAMETER_CONFIG"
  by (simp add: get_cli_parameters_def)

text \<open>What the namespace holds for a parameter: a boolean for a flag, a text or \<open>None\<close> otherwise.\<close>

definition ns_typed :: "param_config \<Rightarrow> pyval option \<Rightarrow> bool" where
  "ns_typed p v \<longleftrightarrow> (if pc_cli_type p = CliBool then \<exists>b. v = Some (PBool b)
                   else v = Some PNone \<or> (\<exists>s. v = Some (PStr s)))"

lemma ns_typed_simps [simp]:
  "ns_typed p (Some (PBool b)) \<longleftrightarrow> pc_cli_type p = CliBool"
  "ns_typed p (Some (PStr s)) \<longleftrightarrow> pc_cli_type p \<noteq> CliBool"
  "ns_typed p (Some PNone) \<longleftrightarrow> pc_cli_type p \<noteq> CliBool"
  by (auto simp: ns_typed_def)

lemma cli_argumentsD:
  assumes "dget cli_arguments opt = Some act"
  shows "\<exists>m q. (m, q) \<in> set get_cli_parameters \<and> opt = ''--'' @ m
     \<and> act = (if pc_cli_type q = CliBool then StoreTrue else Store)"
  using assms by (fastforce simp: cli_arguments_def dget_def dest: map_of_SomeD)

lemma parse_options_typed:
  assumes "parse_options given ns = Inr args"
    and "\<And>n p. (n, p) \<in> set get_cli_parameters \<Longrightarrow> ns_typed p (dget ns n)"
    and "(n, p) \<in> set get_cli_parameters"
  shows "ns_typed p (dget args n)"
  using assms(1,2)
proof (induction given ns rule: parse_options.induct)
  case (1 ns)
  with assms(3) show ?case by simp
next
  case (2 opt val given ns)
  from 2(3) obtain act where act: "dget cli_arguments opt = Some act"
    by (auto split: option.splits)
  then obtain m q where mq: "(m, q) \<in> set get_cli_parameters" "opt = ''--'' @ m"
    "act = (if pc_cli_type q = CliBool then StoreTrue else Store)" using cli_argumentsD by blast
  have typed: "ns_typed r (dget (dput m x ns) k)"
    if "(k, r) \<in> set get_cli_parameters" "ns_typed q (Some x)" for k r x
    using that mq(1) cli_param_fun 2(4) by (cases "k = m") auto
  show ?case
  proof (cases "pc_cli_type q = CliBool")
    case True
    with mq act have a: "dget cli_arguments opt = Some StoreTrue" by simp
    show ?thesis
    proof (rule 2(1) [OF a refl])
      show "parse_options given (dput (drop 2 opt) (PBool True) ns) = Inr args" using 2(3) a by simp
    next
      fix k r assume "(k, r) \<in> set get_cli_parameters"
      then show "ns_typed r (dget (dput (drop 2 opt) (PBool True) ns) k)"
        using typed [of k r "PBool True"] True mq(2) by simp
    qed
  next
    case False
    with mq act have a: "dget cli_arguments opt = Some Store" by simp
    show ?thesis
    proof (rule 2(2) [OF a refl])
      show "parse_options given (dput (drop 2 opt) (PStr val) ns) = Inr args" using 2(3) a by simp
    next
      fix k r assume "(k, r) \<in> set get_cli_parameters"
      then show "ns_typed r (dget (dput (drop 2 opt) (PStr val) ns) k)"
        using typed [of k r "PStr val"] False mq(2) by simp
    qed
  qed
qed

lemma namespace_defaults_typed: "(n, p) \<in> set get_cli_parameters \<Longrightarrow> ns_typed p (dget namespace_defaults n)"
proof -
  assume np: "(n, p) \<in> set get_cli_parameters"
  let ?d = "if pc_cli_type p = CliBool then PBool False else PNone"
  have "(n, ?d) \<in> set namespace_defaults"
    using np by (force simp: namespace_defaults_def cli_arguments_def)
  moreover have "distinct (map fst namespace_defaults)"
  proof -
    have "map fst namespace_defaults = map fst get_cli_parameters"
      by (simp add: namespace_defaults_def cli_arguments_def split_def o_def)
    then show ?thesis using cli_params_distinct by simp
  qed
  ultimately have "dget namespace_defaults n = Some ?d" by (simp add: dget_def)
  then show ?thesis by simp
qed

lemma parse_bool_words [simp]: "parse_bool ''true''" "\<not> parse_bool ''false''"
  by (simp_all add: parse_bool_def py_lower_def lower_char_def Let_def)

text \<open>What the command line puts into the parameter's variable.\<close>

lemma set_environment_var:
  assumes "(n, p) \<in> set get_cli_parameters" and "n \<notin> {''application_name'', ''service_name''}"
    and "pc_env_var p = Some v" and "dget environ v = None"
  shows "dget (set_environment_from_cli_args repr args environ) v
     = dget (cli_env_step repr args (n, p) environ) v"
  unfolding set_environment_from_cli_args_def
proof (rule fold_cli_env_unique [OF assms(1)])
  show "distinct get_cli_parameters" using cli_params_distinct by (simp add: distinct_map)
  show "pc_env_var q \<noteq> Some v" if mq: "(m, q) \<in> set get_cli_parameters" "(m, q) \<noteq> (n, p)" for m q
  proof
    assume "pc_env_var q = Some v"
    with assms mq(1) cli_vars_unique_all have "n = m" by fastforce
    with mq assms(1) cli_param_fun show False by blast
  qed
qed fact+

lemma cli_vars_nonempty: "\<forall>x \<in> set get_cli_parameters. \<exists>v. pc_env_var (snd x) = Some v \<and> v \<noteq> []"
  unfolding get_cli_parameters_eq by (simp add: param_table)



section \<open>The Python path and the entry point\<close>

text \<open>The entries \<open>setup_python_path\<close> writes after the bootstrap directory.\<close>

definition child_path :: "char \<Rightarrow> string \<Rightarrow> string \<Rightarrow> (string, string) dict \<Rightarrow> string list" where
  "child_path pathsep cwd bootstrap environ =
     (let ps = (case dget environ ''PYTHONPATH'' of
            None \<Rightarrow> [] | Some p \<Rightarrow> if p = [] then [] else py_split pathsep p)
      in filter (\<lambda>path. path \<noteq> bootstrap) (if cwd \<notin> set ps then cwd # ps else ps))"

lemma setup_python_path_value:
  "dget (setup_python_path pathsep cwd bootstrap environ) ''PYTHONPATH''
     = Some (py_join [pathsep] (bootstrap # child_path pathsep cwd bootstrap environ))"
  by (simp add: setup_python_path_def child_path_def Let_def)

lemma child_path_no_sep:
  assumes "pathsep \<notin> set cwd"
  shows "q \<in> set (child_path pathsep cwd bootstrap environ) \<Longrightarrow> pathsep \<notin> set q"
  using assms py_split_no_sep
  by (auto simp: child_path_def Let_def split: option.splits if_splits)

text \<open>The bootstrap directory is the first entry of the \<open>PYTHONPATH\<close> the launcher prepares and
  occurs there once, so Python loads its \<open>sitecustomize\<close>; when that has removed it again, what a child
  process inherits is the user's own path in its order, with the working directory on it.\<close>

theorem bootstrap_path_roundtrip:
  assumes "pathsep \<notin> set cwd" and "pathsep \<notin> set bootstrap" and "cwd \<noteq> bootstrap"
  shows "\<exists>p q. dget (setup_python_path pathsep cwd bootstrap environ) ''PYTHONPATH'' = Some p
     \<and> py_split pathsep p = bootstrap # child_path pathsep cwd bootstrap environ
     \<and> dget (initialize_python_path pathsep bootstrap (setup_python_path pathsep cwd bootstrap environ))
          ''PYTHONPATH'' = Some q
     \<and> py_split pathsep q = child_path pathsep cwd bootstrap environ
     \<and> cwd \<in> set (py_split pathsep q) \<and> bootstrap \<notin> set (py_split pathsep q)"
proof -
  let ?c = "child_path pathsep cwd bootstrap environ"
  have mem: "cwd \<in> set ?c" "bootstrap \<notin> set ?c"
    using assms(3) by (auto simp: child_path_def Let_def)
  then have ne: "?c \<noteq> []" by auto
  have first: "py_split pathsep (py_join [pathsep] (bootstrap # ?c)) = bootstrap # ?c"
    using child_path_no_sep [OF assms(1)] assms(2) by (intro py_split_join) auto
  have "filter (\<lambda>path. path \<noteq> bootstrap) (bootstrap # ?c) = ?c"
    using mem(2) by (simp add: filter_id_conv) (metis)
  with first have second: "dget (initialize_python_path pathsep bootstrap
      (setup_python_path pathsep cwd bootstrap environ)) ''PYTHONPATH'' = Some (py_join [pathsep] ?c)"
    by (simp add: initialize_python_path_def setup_python_path_value)
  have "py_split pathsep (py_join [pathsep] ?c) = ?c"
    using child_path_no_sep [OF assms(1)] ne by (intro py_split_join) auto
  with first second mem show ?thesis by (simp add: setup_python_path_value)
qed

theorem bootstrap_path_roundtrip_witness:
  "\<exists>p q. dget (setup_python_path CHR '':'' ''/w'' ''/b'' [(''PYTHONPATH'', ''/x:/b'')]) ''PYTHONPATH'' = Some p
     \<and> py_split CHR '':'' p = ''/b'' # child_path CHR '':'' ''/w'' ''/b'' [(''PYTHONPATH'', ''/x:/b'')]
     \<and> dget (initialize_python_path CHR '':'' ''/b'' (setup_python_path CHR '':'' ''/w'' ''/b'' [(''PYTHONPATH'', ''/x:/b'')]))
          ''PYTHONPATH'' = Some q
     \<and> py_split CHR '':'' q = child_path CHR '':'' ''/w'' ''/b'' [(''PYTHONPATH'', ''/x:/b'')]
     \<and> ''/w'' \<in> set (py_split CHR '':'' q) \<and> ''/b'' \<notin> set (py_split CHR '':'' q)"
  by (rule bootstrap_path_roundtrip) simp_all

lemma setup_python_path_other:
  "v \<noteq> ''PYTHONPATH'' \<Longrightarrow> dget (setup_python_path pathsep cwd bootstrap environ) v = dget environ v"
  by (simp add: setup_python_path_def Let_def)

text \<open>Running a command: when the command is found, the process is replaced by it with its own
  arguments, the bootstrap directory first on \<open>PYTHONPATH\<close>, and every variable the user had set
  unchanged.\<close>

theorem run_starts_instrumented:
  assumes "parsed = Inr (args, command # command_args)" and "makedirs = Inr ()"
    and "which command = Some executable" and "executable \<noteq> []"
  shows "\<exists>environ'. run repr pathsep cwd bootstrap makedirs which execvpe parsed environ
        = Execl executable (executable # command_args) environ'
     \<and> dget environ' ''PYTHONPATH'' = Some (py_join [pathsep] (bootstrap # child_path pathsep cwd bootstrap
          (set_environment_from_cli_args repr args environ)))
     \<and> (\<forall>v s. v \<noteq> ''PYTHONPATH'' \<longrightarrow> dget environ v = Some s \<longrightarrow> dget environ' v = Some s)"
  using assms
  by (auto simp: run_def run_guard_def Let_def setup_python_path_value setup_python_path_other
      set_environment_from_cli_args_def fold_cli_env_keeps)

theorem run_starts_instrumented_witness:
  "\<exists>environ'. run (\<lambda>_. []) CHR '':'' ''/w'' ''/b'' (Inr ()) (\<lambda>_. Some ''/bin/python'') (Inr ())
        (Inr ([], [''python'', ''app.py''])) [(''A'', ''1'')]
        = Execl ''/bin/python'' [''/bin/python'', ''app.py''] environ'
     \<and> dget environ' ''PYTHONPATH'' = Some (py_join '':'' (''/b'' # child_path CHR '':'' ''/w'' ''/b''
          (set_environment_from_cli_args (\<lambda>_. []) [] [(''A'', ''1'')])))
     \<and> (\<forall>v s. v \<noteq> ''PYTHONPATH'' \<longrightarrow> dget [(''A'', ''1'')] v = Some s \<longrightarrow> dget environ' v = Some s)"
  by (rule run_starts_instrumented) simp_all

end
