(* ===== verification/SemConv.thy ===== *)
theory SemConv
  imports Prelude
begin

text \<open>
  \<open>openlit/semcov/__init__.py\<close>: the attribute and metric names the modelled code uses, each with the
  value of its last assignment in the class body.  A name taken from the installed OpenTelemetry
  package has the value the class falls back to, which is the published name.  The three resource
  keys at the start are \<open>opentelemetry.sdk.resources\<close> constants.
\<close>

named_theorems semconv \<open>the literal values of the attribute names\<close>

definition SERVICE_NAME :: string where [semconv]: "SERVICE_NAME = ''service.name''"

definition TELEMETRY_SDK_NAME :: string where [semconv]: "TELEMETRY_SDK_NAME = ''telemetry.sdk.name''"

definition DEPLOYMENT_ENVIRONMENT :: string where
  [semconv]: "DEPLOYMENT_ENVIRONMENT = ''deployment.environment''"

definition SERVER_ADDRESS :: string where [semconv]: "SERVER_ADDRESS = ''server.address''"

definition SERVER_PORT :: string where [semconv]: "SERVER_PORT = ''server.port''"

definition ERROR_TYPE :: string where [semconv]: "ERROR_TYPE = ''error.type''"

definition GEN_AI_CLIENT_TOKEN_USAGE :: string where
  [semconv]: "GEN_AI_CLIENT_TOKEN_USAGE = ''gen_ai.client.token.usage''"

definition GEN_AI_CLIENT_OPERATION_TIME_TO_FIRST_CHUNK :: string where
  [semconv]: "GEN_AI_CLIENT_OPERATION_TIME_TO_FIRST_CHUNK = ''gen_ai.client.operation.time_to_first_chunk''"

definition GEN_AI_CLIENT_OPERATION_TIME_PER_OUTPUT_CHUNK :: string where
  [semconv]: "GEN_AI_CLIENT_OPERATION_TIME_PER_OUTPUT_CHUNK = ''gen_ai.client.operation.time_per_output_chunk''"

definition GEN_AI_SERVER_REQUEST_DURATION :: string where
  [semconv]: "GEN_AI_SERVER_REQUEST_DURATION = ''gen_ai.server.request.duration''"

definition GEN_AI_SERVER_TBT :: string where
  [semconv]: "GEN_AI_SERVER_TBT = ''gen_ai.server.time_per_output_token''"

definition GEN_AI_SERVER_TTFT :: string where
  [semconv]: "GEN_AI_SERVER_TTFT = ''gen_ai.server.time_to_first_token''"

definition GEN_AI_TOKEN_TYPE :: string where [semconv]: "GEN_AI_TOKEN_TYPE = ''gen_ai.token.type''"

definition GEN_AI_TOKEN_TYPE_INPUT :: string where [semconv]: "GEN_AI_TOKEN_TYPE_INPUT = ''input''"

definition GEN_AI_TOKEN_TYPE_OUTPUT :: string where [semconv]: "GEN_AI_TOKEN_TYPE_OUTPUT = ''output''"

definition GEN_AI_SYSTEM_INSTRUCTIONS :: string where
  [semconv]: "GEN_AI_SYSTEM_INSTRUCTIONS = ''gen_ai.system_instructions''"

definition GEN_AI_TOOL_DEFINITIONS :: string where
  [semconv]: "GEN_AI_TOOL_DEFINITIONS = ''gen_ai.tool.definitions''"

definition GEN_AI_TOOL_NAME :: string where [semconv]: "GEN_AI_TOOL_NAME = ''gen_ai.tool.name''"

definition GEN_AI_TOOL_TYPE :: string where [semconv]: "GEN_AI_TOOL_TYPE = ''gen_ai.tool.type''"

definition GEN_AI_TOOL_DESCRIPTION :: string where
  [semconv]: "GEN_AI_TOOL_DESCRIPTION = ''gen_ai.tool.description''"

definition GEN_AI_TOOL_CALL_ID :: string where [semconv]: "GEN_AI_TOOL_CALL_ID = ''gen_ai.tool.call.id''"

definition GEN_AI_TOOL_CALL_ARGUMENTS :: string where
  [semconv]: "GEN_AI_TOOL_CALL_ARGUMENTS = ''gen_ai.tool.call.arguments''"

definition GEN_AI_TOOL_CALL_RESULT :: string where
  [semconv]: "GEN_AI_TOOL_CALL_RESULT = ''gen_ai.tool.call.result''"

definition GEN_AI_DATA_SOURCE_ID :: string where
  [semconv]: "GEN_AI_DATA_SOURCE_ID = ''gen_ai.data_source.id''"

definition GEN_AI_RETRIEVAL_QUERY_TEXT :: string where
  [semconv]: "GEN_AI_RETRIEVAL_QUERY_TEXT = ''gen_ai.retrieval.query.text''"

definition GEN_AI_RETRIEVAL_DOCUMENTS :: string where
  [semconv]: "GEN_AI_RETRIEVAL_DOCUMENTS = ''gen_ai.retrieval.documents''"

definition GEN_AI_WORKFLOW_NAME :: string where [semconv]: "GEN_AI_WORKFLOW_NAME = ''gen_ai.workflow.name''"

definition GEN_AI_OPERATION :: string where [semconv]: "GEN_AI_OPERATION = ''gen_ai.operation.name''"

definition GEN_AI_PROVIDER_NAME :: string where [semconv]: "GEN_AI_PROVIDER_NAME = ''gen_ai.provider.name''"

definition GEN_AI_OUTPUT_TYPE :: string where [semconv]: "GEN_AI_OUTPUT_TYPE = ''gen_ai.output.type''"

definition GEN_AI_REQUEST_MODEL :: string where [semconv]: "GEN_AI_REQUEST_MODEL = ''gen_ai.request.model''"

definition GEN_AI_REQUEST_SEED :: string where [semconv]: "GEN_AI_REQUEST_SEED = ''gen_ai.request.seed''"

definition GEN_AI_REQUEST_CHOICE_COUNT :: string where
  [semconv]: "GEN_AI_REQUEST_CHOICE_COUNT = ''gen_ai.request.choice.count''"

definition GEN_AI_REQUEST_ENCODING_FORMATS :: string where
  [semconv]: "GEN_AI_REQUEST_ENCODING_FORMATS = ''gen_ai.request.encoding_formats''"

definition GEN_AI_EMBEDDINGS_DIMENSION_COUNT :: string where
  [semconv]: "GEN_AI_EMBEDDINGS_DIMENSION_COUNT = ''gen_ai.embeddings.dimension.count''"

definition GEN_AI_REQUEST_FREQUENCY_PENALTY :: string where
  [semconv]: "GEN_AI_REQUEST_FREQUENCY_PENALTY = ''gen_ai.request.frequency_penalty''"

definition GEN_AI_REQUEST_MAX_TOKENS :: string where
  [semconv]: "GEN_AI_REQUEST_MAX_TOKENS = ''gen_ai.request.max_tokens''"

definition GEN_AI_REQUEST_PRESENCE_PENALTY :: string where
  [semconv]: "GEN_AI_REQUEST_PRESENCE_PENALTY = ''gen_ai.request.presence_penalty''"

definition GEN_AI_REQUEST_STOP_SEQUENCES :: string where
  [semconv]: "GEN_AI_REQUEST_STOP_SEQUENCES = ''gen_ai.request.stop_sequences''"

definition GEN_AI_REQUEST_TEMPERATURE :: string where
  [semconv]: "GEN_AI_REQUEST_TEMPERATURE = ''gen_ai.request.temperature''"

definition GEN_AI_REQUEST_TOP_K :: string where [semconv]: "GEN_AI_REQUEST_TOP_K = ''gen_ai.request.top_k''"

definition GEN_AI_REQUEST_TOP_P :: string where [semconv]: "GEN_AI_REQUEST_TOP_P = ''gen_ai.request.top_p''"

definition GEN_AI_CONVERSATION_ID :: string where
  [semconv]: "GEN_AI_CONVERSATION_ID = ''gen_ai.conversation.id''"

definition GEN_AI_RESPONSE_FINISH_REASON :: string where
  [semconv]: "GEN_AI_RESPONSE_FINISH_REASON = ''gen_ai.response.finish_reasons''"

definition GEN_AI_RESPONSE_ID :: string where [semconv]: "GEN_AI_RESPONSE_ID = ''gen_ai.response.id''"

definition GEN_AI_RESPONSE_MODEL :: string where
  [semconv]: "GEN_AI_RESPONSE_MODEL = ''gen_ai.response.model''"

definition GEN_AI_USAGE_CACHE_CREATION_INPUT_TOKENS :: string where
  [semconv]: "GEN_AI_USAGE_CACHE_CREATION_INPUT_TOKENS = ''gen_ai.usage.cache_creation.input_tokens''"

definition GEN_AI_USAGE_CACHE_READ_INPUT_TOKENS :: string where
  [semconv]: "GEN_AI_USAGE_CACHE_READ_INPUT_TOKENS = ''gen_ai.usage.cache_read.input_tokens''"

definition GEN_AI_OPERATION_TYPE_CHAT :: string where [semconv]: "GEN_AI_OPERATION_TYPE_CHAT = ''chat''"

definition GEN_AI_OPERATION_TYPE_TOOLS :: string where
  [semconv]: "GEN_AI_OPERATION_TYPE_TOOLS = ''execute_tool''"

definition GEN_AI_OPERATION_TYPE_EMBEDDING :: string where
  [semconv]: "GEN_AI_OPERATION_TYPE_EMBEDDING = ''embeddings''"

definition GEN_AI_OPERATION_TYPE_IMAGE :: string where [semconv]: "GEN_AI_OPERATION_TYPE_IMAGE = ''image''"

definition GEN_AI_OPERATION_TYPE_AUDIO :: string where [semconv]: "GEN_AI_OPERATION_TYPE_AUDIO = ''audio''"

definition GEN_AI_OPERATION_TYPE_VECTORDB :: string where
  [semconv]: "GEN_AI_OPERATION_TYPE_VECTORDB = ''vectordb''"

definition GEN_AI_OPERATION_TYPE_FRAMEWORK :: string where
  [semconv]: "GEN_AI_OPERATION_TYPE_FRAMEWORK = ''invoke_workflow''"

definition GEN_AI_OPERATION_TYPE_AGENT :: string where
  [semconv]: "GEN_AI_OPERATION_TYPE_AGENT = ''invoke_agent''"

definition GEN_AI_OPERATION_TYPE_RETRIEVE :: string where
  [semconv]: "GEN_AI_OPERATION_TYPE_RETRIEVE = ''retrieval''"

definition GEN_AI_SYSTEM_ANTHROPIC :: string where [semconv]: "GEN_AI_SYSTEM_ANTHROPIC = ''anthropic''"

definition GEN_AI_SYSTEM_GROQ :: string where [semconv]: "GEN_AI_SYSTEM_GROQ = ''groq''"

definition GEN_AI_SYSTEM_MISTRAL :: string where [semconv]: "GEN_AI_SYSTEM_MISTRAL = ''mistral_ai''"

definition GEN_AI_SYSTEM_OPENAI :: string where [semconv]: "GEN_AI_SYSTEM_OPENAI = ''openai''"

definition OPENAI_REQUEST_SERVICE_TIER :: string where
  [semconv]: "OPENAI_REQUEST_SERVICE_TIER = ''openai.request.service_tier''"

definition OPENAI_RESPONSE_SERVICE_TIER :: string where
  [semconv]: "OPENAI_RESPONSE_SERVICE_TIER = ''openai.response.service_tier''"

definition OPENAI_API_TYPE :: string where [semconv]: "OPENAI_API_TYPE = ''openai.api.type''"

definition GEN_AI_REQUEST_SERVICE_TIER :: string where
  [semconv]: "GEN_AI_REQUEST_SERVICE_TIER = ''openai.request.service_tier''"

definition GEN_AI_RESPONSE_SYSTEM_FINGERPRINT :: string where
  [semconv]: "GEN_AI_RESPONSE_SYSTEM_FINGERPRINT = ''openai.response.system_fingerprint''"

definition GEN_AI_SYSTEM_REKAAI :: string where [semconv]: "GEN_AI_SYSTEM_REKAAI = ''rekaai''"

definition GEN_AI_SYSTEM_LANGCHAIN :: string where [semconv]: "GEN_AI_SYSTEM_LANGCHAIN = ''langchain''"

definition GEN_AI_SYSTEM_AI21 :: string where [semconv]: "GEN_AI_SYSTEM_AI21 = ''ai21''"

definition GEN_AI_REQUEST_IS_STREAM :: string where
  [semconv]: "GEN_AI_REQUEST_IS_STREAM = ''gen_ai.request.is_stream''"

definition GEN_AI_REQUEST_USER :: string where [semconv]: "GEN_AI_REQUEST_USER = ''gen_ai.request.user''"

definition GEN_AI_REQUEST_AUDIO_VOICE :: string where
  [semconv]: "GEN_AI_REQUEST_AUDIO_VOICE = ''gen_ai.request.audio_voice''"

definition GEN_AI_REQUEST_AUDIO_RESPONSE_FORMAT :: string where
  [semconv]: "GEN_AI_REQUEST_AUDIO_RESPONSE_FORMAT = ''gen_ai.request.audio_response_format''"

definition GEN_AI_REQUEST_AUDIO_SPEED :: string where
  [semconv]: "GEN_AI_REQUEST_AUDIO_SPEED = ''gen_ai.request.audio_speed''"

definition GEN_AI_REQUEST_IMAGE_SIZE :: string where
  [semconv]: "GEN_AI_REQUEST_IMAGE_SIZE = ''gen_ai.request.image_size''"

definition GEN_AI_REQUEST_IMAGE_QUALITY :: string where
  [semconv]: "GEN_AI_REQUEST_IMAGE_QUALITY = ''gen_ai.request.image_quality''"

definition GEN_AI_ENVIRONMENT :: string where [semconv]: "GEN_AI_ENVIRONMENT = ''gen_ai.environment''"

definition GEN_AI_APPLICATION_NAME :: string where
  [semconv]: "GEN_AI_APPLICATION_NAME = ''gen_ai.application_name''"

definition GEN_AI_SDK_VERSION :: string where [semconv]: "GEN_AI_SDK_VERSION = ''gen_ai.sdk.version''"

definition GEN_AI_USAGE_INPUT_TOKENS :: string where
  [semconv]: "GEN_AI_USAGE_INPUT_TOKENS = ''gen_ai.usage.input_tokens''"

definition GEN_AI_USAGE_OUTPUT_TOKENS :: string where
  [semconv]: "GEN_AI_USAGE_OUTPUT_TOKENS = ''gen_ai.usage.output_tokens''"

definition GEN_AI_USAGE_COST :: string where [semconv]: "GEN_AI_USAGE_COST = ''gen_ai.usage.cost''"

definition GEN_AI_RESPONSE_IMAGE :: string where
  [semconv]: "GEN_AI_RESPONSE_IMAGE = ''gen_ai.response.image''"

definition GEN_AI_INPUT_MESSAGES :: string where
  [semconv]: "GEN_AI_INPUT_MESSAGES = ''gen_ai.input.messages''"

definition GEN_AI_OUTPUT_MESSAGES :: string where
  [semconv]: "GEN_AI_OUTPUT_MESSAGES = ''gen_ai.output.messages''"

definition GEN_AI_CONTENT_REVISED_PROMPT :: string where
  [semconv]: "GEN_AI_CONTENT_REVISED_PROMPT = ''gen_ai.content.revised_prompt''"

definition GEN_AI_TOOL_ARGS :: string where [semconv]: "GEN_AI_TOOL_ARGS = ''gen_ai.tool.args''"

definition GEN_AI_RETRIEVAL_DOCUMENT_COUNT :: string where
  [semconv]: "GEN_AI_RETRIEVAL_DOCUMENT_COUNT = ''gen_ai.retrieval.document_count''"

definition GEN_AI_WORKFLOW_INPUT :: string where
  [semconv]: "GEN_AI_WORKFLOW_INPUT = ''gen_ai.workflow.input''"

definition GEN_AI_WORKFLOW_OUTPUT :: string where
  [semconv]: "GEN_AI_WORKFLOW_OUTPUT = ''gen_ai.workflow.output''"

definition DB_CLIENT_OPERATION_DURATION :: string where
  [semconv]: "DB_CLIENT_OPERATION_DURATION = ''db.client.operation.duration''"

definition DB_SYSTEM_NAME :: string where [semconv]: "DB_SYSTEM_NAME = ''db.system.name''"

definition DB_COLLECTION_NAME :: string where [semconv]: "DB_COLLECTION_NAME = ''db.collection.name''"

definition DB_OPERATION_NAME :: string where [semconv]: "DB_OPERATION_NAME = ''db.operation.name''"

definition DB_QUERY_TEXT :: string where [semconv]: "DB_QUERY_TEXT = ''db.query.text''"

definition DB_QUERY_SUMMARY :: string where [semconv]: "DB_QUERY_SUMMARY = ''db.query.summary''"

definition DB_RESPONSE_RETURNED_ROWS :: string where
  [semconv]: "DB_RESPONSE_RETURNED_ROWS = ''db.response.returned_rows''"

definition DB_SDK_VERSION :: string where [semconv]: "DB_SDK_VERSION = ''db.sdk.version''"

definition DB_REQUESTS :: string where [semconv]: "DB_REQUESTS = ''db.total.requests''"

definition DB_OPERATION_STATUS :: string where [semconv]: "DB_OPERATION_STATUS = ''db.operation.status''"

definition DB_OPERATION_COST :: string where [semconv]: "DB_OPERATION_COST = ''db.operation.cost''"

definition DB_OPERATION_CREATE_INDEX :: string where [semconv]: "DB_OPERATION_CREATE_INDEX = ''create_index''"

definition DB_OPERATION_CREATE_COLLECTION :: string where
  [semconv]: "DB_OPERATION_CREATE_COLLECTION = ''create_collection''"

definition DB_OPERATION_UPDATE_COLLECTION :: string where
  [semconv]: "DB_OPERATION_UPDATE_COLLECTION = ''update_collection''"

definition DB_OPERATION_DELETE_COLLECTION :: string where
  [semconv]: "DB_OPERATION_DELETE_COLLECTION = ''delete_collection''"

definition DB_OPERATION_INSERT :: string where [semconv]: "DB_OPERATION_INSERT = ''INSERT''"

definition DB_OPERATION_SELECT :: string where [semconv]: "DB_OPERATION_SELECT = ''SELECT''"

definition DB_OPERATION_QUERY :: string where [semconv]: "DB_OPERATION_QUERY = ''QUERY''"

definition DB_OPERATION_SEARCH :: string where [semconv]: "DB_OPERATION_SEARCH = ''SEARCH''"

definition DB_OPERATION_FETCH :: string where [semconv]: "DB_OPERATION_FETCH = ''FETCH''"

definition DB_OPERATION_REPLACE :: string where [semconv]: "DB_OPERATION_REPLACE = ''findAndModify''"

definition DB_OPERATION_FIND_AND_DELETE :: string where
  [semconv]: "DB_OPERATION_FIND_AND_DELETE = ''findAndDelete''"

definition DB_OPERATION_DELETE :: string where [semconv]: "DB_OPERATION_DELETE = ''DELETE''"

definition DB_OPERATION_UPDATE :: string where [semconv]: "DB_OPERATION_UPDATE = ''UPDATE''"

definition DB_OPERATION_UPSERT :: string where [semconv]: "DB_OPERATION_UPSERT = ''UPSERT''"

definition DB_OPERATION_GET :: string where [semconv]: "DB_OPERATION_GET = ''GET''"

definition DB_OPERATION_PEEK :: string where [semconv]: "DB_OPERATION_PEEK = ''PEEK''"

definition DB_ID_COUNT :: string where [semconv]: "DB_ID_COUNT = ''db.ids_count''"

definition DB_VECTOR_COUNT :: string where [semconv]: "DB_VECTOR_COUNT = ''db.vector.count''"

definition DB_DOCUMENTS_COUNT :: string where [semconv]: "DB_DOCUMENTS_COUNT = ''db.documents_count''"

definition DB_PAYLOAD_COUNT :: string where [semconv]: "DB_PAYLOAD_COUNT = ''db.payload_count''"

definition DB_FILTER :: string where [semconv]: "DB_FILTER = ''db.filter''"

definition DB_DELETE_ALL :: string where [semconv]: "DB_DELETE_ALL = ''db.delete_all''"

definition DB_COLLECTION_DIMENSION :: string where
  [semconv]: "DB_COLLECTION_DIMENSION = ''db.collection.dimension''"

definition DB_SEARCH_SIMILARITY_METRIC :: string where
  [semconv]: "DB_SEARCH_SIMILARITY_METRIC = ''db.search.similarity_metric''"

definition DB_INDEX_METRIC :: string where [semconv]: "DB_INDEX_METRIC = ''db.create_index.metric''"

definition DB_COLLECTION_SPEC :: string where [semconv]: "DB_COLLECTION_SPEC = ''db.collection.spec''"

definition DB_NAMESPACE :: string where [semconv]: "DB_NAMESPACE = ''db.query.namespace''"

definition DB_VECTOR_QUERY_TOP_K :: string where
  [semconv]: "DB_VECTOR_QUERY_TOP_K = ''db.vector.query.top_k''"

definition DB_SYSTEM_CHROMA :: string where [semconv]: "DB_SYSTEM_CHROMA = ''chroma''"

definition DB_SYSTEM_PINECONE :: string where [semconv]: "DB_SYSTEM_PINECONE = ''pinecone''"

definition DB_SYSTEM_QDRANT :: string where [semconv]: "DB_SYSTEM_QDRANT = ''qdrant''"

definition DB_SYSTEM_MILVUS :: string where [semconv]: "DB_SYSTEM_MILVUS = ''milvus''"

definition DB_SYSTEM_ASTRA :: string where [semconv]: "DB_SYSTEM_ASTRA = ''astra''"

definition GEN_AI_AGENT_NAME :: string where [semconv]: "GEN_AI_AGENT_NAME = ''gen_ai.agent.name''"

definition GEN_AI_AGENT_OPERATION_DURATION :: string where
  [semconv]: "GEN_AI_AGENT_OPERATION_DURATION = ''gen_ai.agent.operation.duration''"

definition GEN_AI_AGENT_INVOCATIONS :: string where
  [semconv]: "GEN_AI_AGENT_INVOCATIONS = ''gen_ai.agent.invocations''"

definition GEN_AI_AGENT_TOOL_ERRORS :: string where
  [semconv]: "GEN_AI_AGENT_TOOL_ERRORS = ''gen_ai.agent.tool.errors''"

definition GEN_AI_AGENT_SOURCE :: string where [semconv]: "GEN_AI_AGENT_SOURCE = ''gen_ai.agent.source''"

definition GEN_AI_AGENT_TARGET :: string where [semconv]: "GEN_AI_AGENT_TARGET = ''gen_ai.agent.target''"

definition GEN_AI_AGENT_ACTION_TOOL :: string where
  [semconv]: "GEN_AI_AGENT_ACTION_TOOL = ''gen_ai.agent.action.tool''"

definition GEN_AI_AGENT_ACTION_TOOL_INPUT :: string where
  [semconv]: "GEN_AI_AGENT_ACTION_TOOL_INPUT = ''gen_ai.agent.action.tool_input''"

definition GEN_AI_AGENT_ACTION_LOG :: string where
  [semconv]: "GEN_AI_AGENT_ACTION_LOG = ''gen_ai.agent.action.log''"

definition GEN_AI_AGENT_FINISH_OUTPUT :: string where
  [semconv]: "GEN_AI_AGENT_FINISH_OUTPUT = ''gen_ai.agent.finish.output''"

definition GEN_AI_AGENT_FINISH_LOG :: string where
  [semconv]: "GEN_AI_AGENT_FINISH_LOG = ''gen_ai.agent.finish.log''"

definition GEN_AI_CLIENT_OPERATION_DURATION :: string where
  [semconv]: "GEN_AI_CLIENT_OPERATION_DURATION = ''gen_ai.client.operation.duration''"

definition GUARD_VERDICT :: string where [semconv]: "GUARD_VERDICT = ''guard.verdict''"

definition GUARD_SCORE :: string where [semconv]: "GUARD_SCORE = ''guard.score''"

definition GUARD_CLASSIFICATION :: string where [semconv]: "GUARD_CLASSIFICATION = ''guard.classification''"

definition GUARD_VALIDATOR :: string where [semconv]: "GUARD_VALIDATOR = ''guard.validator''"

definition GUARD_EXPLANATION :: string where [semconv]: "GUARD_EXPLANATION = ''guard.explanation''"

definition GEN_AI_EVALUATION_NAME :: string where
  [semconv]: "GEN_AI_EVALUATION_NAME = ''gen_ai.evaluation.name''"

definition GEN_AI_EVALUATION_SCORE_VALUE :: string where
  [semconv]: "GEN_AI_EVALUATION_SCORE_VALUE = ''gen_ai.evaluation.score.value''"

definition GEN_AI_EVALUATION_SCORE_LABEL :: string where
  [semconv]: "GEN_AI_EVALUATION_SCORE_LABEL = ''gen_ai.evaluation.score.label''"

definition GEN_AI_EVALUATION_EXPLANATION :: string where
  [semconv]: "GEN_AI_EVALUATION_EXPLANATION = ''gen_ai.evaluation.explanation''"

definition GEN_AI_FRAMEWORK_ERROR_MESSAGE :: string where
  [semconv]: "GEN_AI_FRAMEWORK_ERROR_MESSAGE = ''gen_ai.framework.error.message''"

definition MCP_METHOD :: string where [semconv]: "MCP_METHOD = ''mcp.method''"

definition MCP_TOOL_NAME :: string where [semconv]: "MCP_TOOL_NAME = ''mcp.tool.name''"

definition MCP_RESOURCE_URI :: string where [semconv]: "MCP_RESOURCE_URI = ''mcp.resource.uri''"

definition MCP_RESOURCE_NAME :: string where [semconv]: "MCP_RESOURCE_NAME = ''mcp.resource.name''"

definition MCP_TRANSPORT_TYPE :: string where [semconv]: "MCP_TRANSPORT_TYPE = ''mcp.transport.type''"

definition MCP_OPERATION :: string where [semconv]: "MCP_OPERATION = ''mcp.operation.name''"

definition MCP_SYSTEM :: string where [semconv]: "MCP_SYSTEM = ''mcp.system''"

definition MCP_PROMPT_NAME :: string where [semconv]: "MCP_PROMPT_NAME = ''mcp.prompt.name''"

definition MCP_CLIENT_TYPE :: string where [semconv]: "MCP_CLIENT_TYPE = ''mcp.client.type''"

definition MCP_REQUESTS :: string where [semconv]: "MCP_REQUESTS = ''mcp.requests''"

definition MCP_CLIENT_OPERATION_DURATION_METRIC :: string where
  [semconv]: "MCP_CLIENT_OPERATION_DURATION_METRIC = ''mcp.client.operation.duration''"

definition MCP_REQUEST_SIZE :: string where [semconv]: "MCP_REQUEST_SIZE = ''mcp.request.size''"

definition MCP_RESPONSE_SIZE_METRIC :: string where
  [semconv]: "MCP_RESPONSE_SIZE_METRIC = ''mcp.response.size''"

definition MCP_TOOL_CALLS :: string where [semconv]: "MCP_TOOL_CALLS = ''mcp.tool.calls''"

definition MCP_RESOURCE_READS :: string where [semconv]: "MCP_RESOURCE_READS = ''mcp.resource.reads''"

definition MCP_PROMPT_GETS :: string where [semconv]: "MCP_PROMPT_GETS = ''mcp.prompt.gets''"

definition MCP_TRANSPORT_USAGE :: string where [semconv]: "MCP_TRANSPORT_USAGE = ''mcp.transport.usage''"

definition MCP_ERRORS :: string where [semconv]: "MCP_ERRORS = ''mcp.errors''"

definition MCP_OPERATION_SUCCESS_RATE :: string where
  [semconv]: "MCP_OPERATION_SUCCESS_RATE = ''mcp.operation.success_rate''"

end
