(* ===== verification/Otel.thy ===== *)
theory Otel
  imports Config SemConv
begin

text \<open>
  \<open>openlit/otel/tracing.py\<close>, \<open>events.py\<close> and \<open>metrics.py\<close>: the three one-time set-ups of the export
  pipelines, over the process state they share (environment variables, the providers registered with
  the OpenTelemetry API, the three module flags and the log).  Exporter constructors are the SDK's:
  \<open>mk sig e\<close> is what constructing exporter \<open>e\<close> for signal \<open>sig\<close> does (return or raise).
\<close>

section \<open>State\<close>

datatype signal = Traces | Logs | Metrics

datatype exporter = OtlpExporter | ConsoleExporter

datatype processor = BatchProcessor exporter | SimpleProcessor exporter | PeriodicReader exporter

record provider =
  pv_resource :: "(string, pyval) dict"
  pv_processors :: "processor list"

record otel =
  ot_environ :: "(string, string) dict"
  ot_tracer_set :: bool
  ot_events_set :: bool
  ot_meter_set :: bool
  ot_tracer_provider :: "provider option"
  ot_logger_provider :: "provider option"
  ot_meter_provider :: "provider option"
  ot_log :: "log_line list"

type_synonym mk_exporter = "signal \<Rightarrow> exporter \<Rightarrow> unit res"

definition log_otel :: "log_level \<Rightarrow> string list \<Rightarrow> otel \<Rightarrow> otel" where
  "log_otel l m s = s\<lparr>ot_log := ot_log s @ [(l, m)]\<rparr>"

definition setenv :: "string \<Rightarrow> string \<Rightarrow> otel \<Rightarrow> otel" where
  "setenv k v s = s\<lparr>ot_environ := dput k v (ot_environ s)\<rparr>"

text \<open>\<open>Resource.create(attributes={...})\<close> with the three attributes of every set-up.\<close>

definition make_resource :: "pyval \<Rightarrow> pyval \<Rightarrow> (string, pyval) dict" where
  "make_resource application_name environment =
     [(SERVICE_NAME, application_name), (DEPLOYMENT_ENVIRONMENT, environment), (TELEMETRY_SDK_NAME, PStr ''openlit'')]"

text \<open>The API's \<open>set_..._provider\<close>: the first registration stays.\<close>

definition set_once :: "'a option \<Rightarrow> 'a \<Rightarrow> 'a option" where
  "set_once old new = (case old of None \<Rightarrow> Some new | Some p \<Rightarrow> Some p)"

definition add_processor :: "processor \<Rightarrow> provider \<Rightarrow> provider" where
  "add_processor p pv = pv\<lparr>pv_processors := pv_processors pv @ [p]\<rparr>"

section \<open>Exporter names\<close>

text \<open>\<open>parse_exporters\<close> of \<open>__helpers.py\<close>.\<close>

definition parse_exporters :: "(string, string) dict \<Rightarrow> string \<Rightarrow> string list option" where
  "parse_exporters environ env_var_name =
     (case dget environ env_var_name of
        None \<Rightarrow> None
      | Some exporters_str \<Rightarrow>
          (if exporters_str = [] then None
           else Some (map (\<lambda>e. py_lower (py_strip e))
                  (filter (\<lambda>e. py_strip e \<noteq> []) (py_split CHR '','' exporters_str)))))"

text \<open>\<open>otlp_headers\<close>: a dict is rendered \<open>k=v,k=v\<close>, a string used as given.\<close>

datatype otlp_headers = HeaderDict "(string, string) dict" | HeaderStr string

definition headers_str :: "otlp_headers \<Rightarrow> string" where
  "headers_str h = (case h of
     HeaderDict d \<Rightarrow> py_join '','' (map (\<lambda>(key, value). key @ ''='' @ value) d)
   | HeaderStr s \<Rightarrow> s)"

text \<open>The two assignments to \<open>os.environ\<close>, made only for arguments that are not \<open>None\<close>.\<close>

definition set_otlp_env :: "string option \<Rightarrow> otlp_headers option \<Rightarrow> otel \<Rightarrow> otel" where
  "set_otlp_env otlp_endpoint otlp_headers s =
     (let s = (case otlp_endpoint of None \<Rightarrow> s | Some ep \<Rightarrow> setenv ''OTEL_EXPORTER_OTLP_ENDPOINT'' ep s)
      in (case otlp_headers of None \<Rightarrow> s | Some h \<Rightarrow> setenv ''OTEL_EXPORTER_OTLP_HEADERS'' (headers_str h) s))"

definition endpoint_configured :: "otel \<Rightarrow> bool" where
  "endpoint_configured s \<longleftrightarrow> dget_or (ot_environ s) ''OTEL_EXPORTER_OTLP_ENDPOINT'' [] \<noteq> []"

definition otlp_processor :: "bool \<Rightarrow> processor" where
  "otlp_processor disable_batch = (if \<not> disable_batch then BatchProcessor OtlpExporter else SimpleProcessor OtlpExporter)"

section \<open>Tracing\<close>

definition add_span_processor :: "processor \<Rightarrow> otel \<Rightarrow> otel" where
  "add_span_processor p s = s\<lparr>ot_tracer_provider := map_option (add_processor p) (ot_tracer_provider s)\<rparr>"

text \<open>The loop body over exporter names; the state's second half is \<open>processors_added\<close>.\<close>

definition trace_exporter_step :: "mk_exporter \<Rightarrow> bool \<Rightarrow> string \<Rightarrow> (otel \<times> bool, unit) prog" where
  "trace_exporter_step mk disable_batch exporter_name =
     (if exporter_name = ''otlp'' then
        pbind (plift (mk Traces OtlpExporter)) (\<lambda>_.
          pmodify (\<lambda>(s, added). (add_span_processor (otlp_processor disable_batch) s, True)))
      else if exporter_name = ''console'' then
        pbind (plift (mk Traces ConsoleExporter)) (\<lambda>_.
          pmodify (\<lambda>(s, added). (add_span_processor (SimpleProcessor ConsoleExporter) s, True)))
      else if exporter_name = ''none'' then pret ()
      else pmodify (\<lambda>(s, added). (log_otel WARNING [''Unknown trace exporter: %s'', exporter_name] s, added)))"

text \<open>Running a computation whose state carries a local variable.\<close>

definition with_local :: "'b \<Rightarrow> ('s \<times> 'b, 'a) prog \<Rightarrow> ('s, 'a \<times> 'b) prog" where
  "with_local b m s = (case m (s, b) of (r, (s', b')) \<Rightarrow> (map_sum id (\<lambda>x. (x, b')) r, s'))"

definition setup_trace_exporters :: "mk_exporter \<Rightarrow> bool \<Rightarrow> (otel, unit) prog" where
  "setup_trace_exporters mk disable_batch =
     pbind (pgets (\<lambda>s. parse_exporters (ot_environ s) ''OTEL_TRACES_EXPORTER'')) (\<lambda>exporters_config.
       case exporters_config of
         Some names \<Rightarrow>
           pbind (with_local False (pfor names (trace_exporter_step mk disable_batch))) (\<lambda>(_, processors_added).
             pwhen (\<not> processors_added) (pmodify (log_otel WARNING
               [''OTEL_TRACES_EXPORTER is set but no valid exporters configured. Trace export is disabled. Valid exporters: otlp, console''])))
       | None \<Rightarrow>
           pbind (pgets endpoint_configured) (\<lambda>otlp.
             if otlp then
               pbind (plift (mk Traces OtlpExporter)) (\<lambda>_. pmodify (add_span_processor (otlp_processor disable_batch)))
             else
               pbind (plift (mk Traces ConsoleExporter)) (\<lambda>_.
                 pmodify (add_span_processor (SimpleProcessor ConsoleExporter)))))"

text \<open>The body of \<open>if not TRACER_SET\<close>.\<close>

definition setup_tracer_provider ::
  "mk_exporter \<Rightarrow> pyval \<Rightarrow> pyval \<Rightarrow> string option \<Rightarrow> otlp_headers option \<Rightarrow> bool \<Rightarrow> (otel, unit) prog" where
  "setup_tracer_provider mk application_name environment otlp_endpoint otlp_headers disable_batch =
     pbind (pmodify (\<lambda>s. s\<lparr>ot_tracer_provider := set_once (ot_tracer_provider s)
              \<lparr>pv_resource = make_resource application_name environment, pv_processors = []\<rparr>\<rparr>)) (\<lambda>_.
     pbind (pmodify (set_otlp_env otlp_endpoint otlp_headers)) (\<lambda>_.
     pbind (setup_trace_exporters mk disable_batch) (\<lambda>_.
     pmodify (\<lambda>s. s\<lparr>ot_tracer_set := True\<rparr>))))"

text \<open>\<open>Some True\<close> stands for the tracer of the registered provider, \<open>Some False\<close> for the caller's
  own; a bare \<open>except:\<close> turns every exception into \<open>None\<close>.\<close>

definition setup_tracing ::
  "mk_exporter \<Rightarrow> pyval \<Rightarrow> pyval \<Rightarrow> bool \<Rightarrow> string option \<Rightarrow> otlp_headers option \<Rightarrow> bool
     \<Rightarrow> otel \<Rightarrow> bool option \<times> otel" where
  "setup_tracing mk application_name environment has_tracer otlp_endpoint otlp_headers disable_batch s =
     (if has_tracer then (Some False, s)
      else
        case pbind (pmodify (setenv ''HAYSTACK_AUTO_TRACE_ENABLED'' ''false'')) (\<lambda>_.
               pbind (pgets ot_tracer_set) (\<lambda>done.
                 pwhen (\<not> done)
                   (setup_tracer_provider mk application_name environment otlp_endpoint otlp_headers disable_batch))) s of
          (Inl e, t) \<Rightarrow> (None, t)
        | (Inr _, t) \<Rightarrow> (Some True, t))"


section \<open>Events\<close>

text \<open>The \<open>LoggerProvider\<close> is a local object until it is registered: the state's second half is its
  processor list.\<close>

definition event_exporter_step :: "mk_exporter \<Rightarrow> bool \<Rightarrow> string \<Rightarrow> (otel \<times> processor list, unit) prog" where
  "event_exporter_step mk disable_batch exporter_name =
     (if exporter_name = ''otlp'' then
        pbind (plift (mk Logs OtlpExporter)) (\<lambda>_. pmodify (\<lambda>(s, ps). (s, ps @ [otlp_processor disable_batch])))
      else if exporter_name = ''console'' then
        pbind (plift (mk Logs ConsoleExporter)) (\<lambda>_. pmodify (\<lambda>(s, ps). (s, ps @ [SimpleProcessor ConsoleExporter])))
      else if exporter_name = ''none'' then pret ()
      else pmodify (\<lambda>(s, ps). (log_otel WARNING [''Unknown log exporter: %s'', exporter_name] s, ps)))"

definition setup_event_exporters :: "mk_exporter \<Rightarrow> bool \<Rightarrow> (otel, processor list) prog" where
  "setup_event_exporters mk disable_batch =
     pbind (pgets (\<lambda>s. parse_exporters (ot_environ s) ''OTEL_LOGS_EXPORTER'')) (\<lambda>exporters_config.
       case exporters_config of
         Some names \<Rightarrow>
           pbind (with_local [] (pfor names (event_exporter_step mk disable_batch))) (\<lambda>(_, ps).
             pbind (pwhen (ps = []) (pmodify (log_otel WARNING
               [''OTEL_LOGS_EXPORTER is set but no valid exporters configured. Log export is disabled. Valid exporters: otlp, console''])))
             (\<lambda>_. pret ps))
       | None \<Rightarrow>
           pbind (pgets endpoint_configured) (\<lambda>otlp.
             if otlp then
               pbind (plift (mk Logs OtlpExporter)) (\<lambda>_. pret [otlp_processor disable_batch])
             else pbind (plift (mk Logs ConsoleExporter)) (\<lambda>_. pret [SimpleProcessor ConsoleExporter])))"

definition setup_logger_provider ::
  "mk_exporter \<Rightarrow> pyval \<Rightarrow> pyval \<Rightarrow> string option \<Rightarrow> otlp_headers option \<Rightarrow> bool \<Rightarrow> (otel, unit) prog" where
  "setup_logger_provider mk application_name environment otlp_endpoint otlp_headers disable_batch =
     pbind (pmodify (set_otlp_env otlp_endpoint otlp_headers)) (\<lambda>_.
     pbind (setup_event_exporters mk disable_batch) (\<lambda>ps.
     pbind (pmodify (\<lambda>s. s\<lparr>ot_logger_provider := set_once (ot_logger_provider s)
              \<lparr>pv_resource = make_resource application_name environment, pv_processors = ps\<rparr>\<rparr>)) (\<lambda>_.
     pmodify (\<lambda>s. s\<lparr>ot_events_set := True\<rparr>))))"

definition setup_events ::
  "mk_exporter \<Rightarrow> pyval \<Rightarrow> pyval \<Rightarrow> bool \<Rightarrow> string option \<Rightarrow> otlp_headers option \<Rightarrow> bool
     \<Rightarrow> (otel, bool option) prog" where
  "setup_events mk application_name environment has_event_logger otlp_endpoint otlp_headers disable_batch =
     (if has_event_logger then pret (Some False)
      else ptry
        (pbind (pgets ot_events_set) (\<lambda>done.
         pbind (pwhen (\<not> done)
           (setup_logger_provider mk application_name environment otlp_endpoint otlp_headers disable_batch)) (\<lambda>_.
         pret (Some True))))
        (\<lambda>e. pbind (pmodify (log_otel ERROR [''Failed to setup OpenTelemetry events: %s'', exc_msg e]))
                (\<lambda>_. pret None)))"

section \<open>Metrics\<close>

datatype instrument_kind = Histogram | Counter

record instrument =
  in_kind :: instrument_kind
  in_name :: string
  in_unit :: string
  in_buckets :: "rat list option"

definition histogram :: "string \<Rightarrow> string \<Rightarrow> rat list option \<Rightarrow> instrument" where
  "histogram n u b = \<lparr>in_kind = Histogram, in_name = n, in_unit = u, in_buckets = b\<rparr>"

definition counter :: "string \<Rightarrow> instrument" where
  "counter n = \<lparr>in_kind = Counter, in_name = n, in_unit = ''1'', in_buckets = None\<rparr>"

definition DB_CLIENT_OPERATION_DURATION_BUCKETS :: "rat list" where
  "DB_CLIENT_OPERATION_DURATION_BUCKETS = [1/1000, 5/1000, 1/100, 5/100, 1/10, 5/10, 1, 5, 10]"

definition GEN_AI_CLIENT_OPERATION_DURATION_BUCKETS :: "rat list" where
  "GEN_AI_CLIENT_OPERATION_DURATION_BUCKETS =
     [1/100, 2/100, 4/100, 8/100, 16/100, 32/100, 64/100, 128/100, 256/100, 512/100, 1024/100,
      2048/100, 4096/100, 8192/100]"

definition GEN_AI_SERVER_TBT_BUCKETS :: "rat list" where
  "GEN_AI_SERVER_TBT_BUCKETS =
     [1/100, 25/1000, 5/100, 75/1000, 1/10, 15/100, 2/10, 3/10, 4/10, 5/10, 75/100, 1, 25/10]"

definition GEN_AI_SERVER_TTFT_BUCKETS :: "rat list" where
  "GEN_AI_SERVER_TTFT_BUCKETS =
     [1/1000, 5/1000, 1/100, 2/100, 4/100, 6/100, 8/100, 1/10, 25/100, 5/10, 75/100, 1, 25/10, 5, 75/10, 10]"

definition GEN_AI_CLIENT_TOKEN_USAGE_BUCKETS :: "rat list" where
  "GEN_AI_CLIENT_TOKEN_USAGE_BUCKETS =
     [1, 4, 16, 64, 256, 1024, 4096, 16384, 65536, 262144, 1048576, 4194304, 16777216, 67108864]"

definition MCP_CLIENT_OPERATION_DURATION_BUCKETS :: "rat list" where
  "MCP_CLIENT_OPERATION_DURATION_BUCKETS = [1/1000, 5/1000, 1/100, 5/100, 1/10, 5/10, 1, 2, 5, 10]"

definition MCP_PAYLOAD_SIZE_BUCKETS :: "rat list" where
  "MCP_PAYLOAD_SIZE_BUCKETS = [100, 500, 1024, 5120, 10240, 51200, 102400, 512000, 1048576, 5242880]"

definition AGENT_OPERATION_DURATION_BUCKETS :: "rat list" where
  "AGENT_OPERATION_DURATION_BUCKETS = [1/10, 5/10, 1, 2, 5, 10, 30, 60, 120, 300]"

definition metrics_dict :: "(string, instrument) dict" where
  "metrics_dict = [
    (''genai_client_usage_tokens'',
       histogram GEN_AI_CLIENT_TOKEN_USAGE ''{token}'' (Some GEN_AI_CLIENT_TOKEN_USAGE_BUCKETS)),
    (''genai_client_operation_duration'',
       histogram GEN_AI_CLIENT_OPERATION_DURATION ''s'' (Some GEN_AI_CLIENT_OPERATION_DURATION_BUCKETS)),
    (''genai_server_tbt'', histogram GEN_AI_SERVER_TBT ''s'' (Some GEN_AI_SERVER_TBT_BUCKETS)),
    (''genai_server_ttft'', histogram GEN_AI_SERVER_TTFT ''s'' (Some GEN_AI_SERVER_TTFT_BUCKETS)),
    (''genai_client_time_to_first_chunk'',
       histogram GEN_AI_CLIENT_OPERATION_TIME_TO_FIRST_CHUNK ''s'' (Some GEN_AI_CLIENT_OPERATION_DURATION_BUCKETS)),
    (''genai_client_time_per_output_chunk'',
       histogram GEN_AI_CLIENT_OPERATION_TIME_PER_OUTPUT_CHUNK ''s'' (Some GEN_AI_CLIENT_OPERATION_DURATION_BUCKETS)),
    (''genai_server_request_duration'',
       histogram GEN_AI_SERVER_REQUEST_DURATION ''s'' (Some GEN_AI_CLIENT_OPERATION_DURATION_BUCKETS)),
    (''db_client_operation_duration'',
       histogram DB_CLIENT_OPERATION_DURATION ''s'' (Some DB_CLIENT_OPERATION_DURATION_BUCKETS)),
    (''genai_cost'', histogram GEN_AI_USAGE_COST ''USD'' None),
    (''db_requests'', counter DB_REQUESTS),
    (''mcp_requests'', counter MCP_REQUESTS),
    (''mcp_client_operation_duration'',
       histogram MCP_CLIENT_OPERATION_DURATION_METRIC ''s'' (Some MCP_CLIENT_OPERATION_DURATION_BUCKETS)),
    (''mcp_request_size'', histogram MCP_REQUEST_SIZE ''By'' (Some MCP_PAYLOAD_SIZE_BUCKETS)),
    (''mcp_response_size'', histogram MCP_RESPONSE_SIZE_METRIC ''By'' (Some MCP_PAYLOAD_SIZE_BUCKETS)),
    (''mcp_tool_calls'', counter MCP_TOOL_CALLS),
    (''mcp_resource_reads'', counter MCP_RESOURCE_READS),
    (''mcp_prompt_gets'', counter MCP_PROMPT_GETS),
    (''mcp_transport_usage'', counter MCP_TRANSPORT_USAGE),
    (''mcp_errors'', counter MCP_ERRORS),
    (''mcp_operation_success_rate'', histogram MCP_OPERATION_SUCCESS_RATE ''1'' None),
    (''genai_agent_operation_duration'',
       histogram GEN_AI_AGENT_OPERATION_DURATION ''s'' (Some AGENT_OPERATION_DURATION_BUCKETS)),
    (''genai_agent_invocations'', counter GEN_AI_AGENT_INVOCATIONS),
    (''genai_agent_tool_errors'', counter GEN_AI_AGENT_TOOL_ERRORS)]"

lemmas bucket_defs =
  DB_CLIENT_OPERATION_DURATION_BUCKETS_def GEN_AI_CLIENT_OPERATION_DURATION_BUCKETS_def
  GEN_AI_SERVER_TBT_BUCKETS_def GEN_AI_SERVER_TTFT_BUCKETS_def GEN_AI_CLIENT_TOKEN_USAGE_BUCKETS_def
  MCP_CLIENT_OPERATION_DURATION_BUCKETS_def MCP_PAYLOAD_SIZE_BUCKETS_def
  AGENT_OPERATION_DURATION_BUCKETS_def

definition metric_exporter_step :: "mk_exporter \<Rightarrow> string \<Rightarrow> (otel \<times> processor list, unit) prog" where
  "metric_exporter_step mk exporter_name =
     (if exporter_name = ''otlp'' then
        pbind (plift (mk Metrics OtlpExporter)) (\<lambda>_. pmodify (\<lambda>(s, ps). (s, ps @ [PeriodicReader OtlpExporter])))
      else if exporter_name = ''console'' then
        pbind (plift (mk Metrics ConsoleExporter)) (\<lambda>_. pmodify (\<lambda>(s, ps). (s, ps @ [PeriodicReader ConsoleExporter])))
      else if exporter_name = ''none'' then pret ()
      else pmodify (\<lambda>(s, ps). (log_otel WARNING [''Unknown metric exporter: %s'', exporter_name] s, ps)))"

definition setup_metric_readers :: "mk_exporter \<Rightarrow> (otel, processor list) prog" where
  "setup_metric_readers mk =
     pbind (pgets (\<lambda>s. parse_exporters (ot_environ s) ''OTEL_METRICS_EXPORTER'')) (\<lambda>exporters_config.
       case exporters_config of
         Some names \<Rightarrow>
           pbind (with_local [] (pfor names (metric_exporter_step mk))) (\<lambda>(_, metric_readers).
             pbind (pwhen (metric_readers = []) (pmodify (log_otel WARNING
               [''OTEL_METRICS_EXPORTER is set but no valid exporters configured. Metric export is disabled. Valid exporters: otlp, console''])))
             (\<lambda>_. pret metric_readers))
       | None \<Rightarrow>
           pbind (pgets endpoint_configured) (\<lambda>otlp.
             if otlp then pbind (plift (mk Metrics OtlpExporter)) (\<lambda>_. pret [PeriodicReader OtlpExporter])
             else pbind (plift (mk Metrics ConsoleExporter)) (\<lambda>_. pret [PeriodicReader ConsoleExporter])))"

definition setup_meter_provider ::
  "mk_exporter \<Rightarrow> pyval \<Rightarrow> pyval \<Rightarrow> string option \<Rightarrow> otlp_headers option \<Rightarrow> (otel, unit) prog" where
  "setup_meter_provider mk application_name environment otlp_endpoint otlp_headers =
     pbind (pmodify (set_otlp_env otlp_endpoint otlp_headers)) (\<lambda>_.
     pbind (setup_metric_readers mk) (\<lambda>metric_readers.
     pbind (pmodify (\<lambda>s. s\<lparr>ot_meter_provider := set_once (ot_meter_provider s)
              \<lparr>pv_resource = make_resource application_name environment, pv_processors = metric_readers\<rparr>\<rparr>)) (\<lambda>_.
     pmodify (\<lambda>s. s\<lparr>ot_meter_set := True\<rparr>))))"

text \<open>The meter the instruments are made with: the caller's, the one just obtained, or \<open>None\<close> when
  the caller passed none and the provider was set up by an earlier call; \<open>None.create_histogram\<close> then
  raises \<open>AttributeError\<close>.  The result is the pair of the source.\<close>

definition setup_meter ::
  "mk_exporter \<Rightarrow> pyval \<Rightarrow> pyval \<Rightarrow> bool \<Rightarrow> string option \<Rightarrow> otlp_headers option
     \<Rightarrow> (otel, (string, instrument) dict option \<times> pyexc option) prog" where
  "setup_meter mk application_name environment has_meter otlp_endpoint otlp_headers =
     ptry
       (pbind (pgets ot_meter_set) (\<lambda>done.
        pbind (if \<not> has_meter \<and> \<not> done then
                 pbind (setup_meter_provider mk application_name environment otlp_endpoint otlp_headers)
                   (\<lambda>_. pret True)
               else pret has_meter) (\<lambda>have_meter.
        if have_meter then pret (Some metrics_dict, None)
        else praise (no_attr PNone ''create_histogram''))))
       (\<lambda>err. pret (None, Some err))"


section \<open>The exporter loops\<close>

text \<open>Constructors that succeed.\<close>

definition mk_ok :: mk_exporter where
  "mk_ok sg e = Inr ()"

text \<open>What an exporter name stands for, for spans and log records, and for metrics.\<close>

definition processor_for :: "bool \<Rightarrow> string \<Rightarrow> processor option" where
  "processor_for disable_batch exporter_name =
     (if exporter_name = ''otlp'' then Some (otlp_processor disable_batch)
      else if exporter_name = ''console'' then Some (SimpleProcessor ConsoleExporter) else None)"

definition reader_for :: "string \<Rightarrow> processor option" where
  "reader_for exporter_name =
     (if exporter_name = ''otlp'' then Some (PeriodicReader OtlpExporter)
      else if exporter_name = ''console'' then Some (PeriodicReader ConsoleExporter) else None)"

text \<open>The contract of one loop body: a name the specification knows appends its processor, any other
  appends nothing.\<close>

locale exporter_loop =
  fixes step :: "string \<Rightarrow> ('s, unit) prog"
    and procs :: "'s \<Rightarrow> processor list"
    and wf :: "'s \<Rightarrow> bool"
    and env :: "'s \<Rightarrow> (string, string) dict"
    and spec :: "string \<Rightarrow> processor option"
  assumes step_known: "wf s \<Longrightarrow> spec n = Some p \<Longrightarrow>
      \<exists>t. step n s = (Inr (), t) \<and> wf t \<and> procs t = procs s @ [p] \<and> env t = env s"
    and step_unknown: "wf s \<Longrightarrow> spec n = None \<Longrightarrow>
      \<exists>t. step n s = (Inr (), t) \<and> wf t \<and> procs t = procs s \<and> env t = env s"
begin

lemma loop:
  "wf s \<Longrightarrow> \<exists>t. pfor names step s = (Inr (), t) \<and> wf t
     \<and> procs t = procs s @ List.map_filter spec names \<and> env t = env s"
proof (induction names arbitrary: s)
  case Nil
  then show ?case by simp
next
  case (Cons n names)
  show ?case
  proof (cases "spec n")
    case None
    from step_unknown [OF Cons.prems None] obtain t where
      t: "step n s = (Inr (), t)" "wf t" "procs t = procs s" "env t = env s" by blast
    from Cons.IH [OF t(2)] t None show ?thesis
      by (auto simp: pbind_def map_filter_simps)
  next
    case (Some p)
    from step_known [OF Cons.prems Some] obtain t where
      t: "step n s = (Inr (), t)" "wf t" "procs t = procs s @ [p]" "env t = env s" by blast
    from Cons.IH [OF t(2)] t Some show ?thesis
      by (auto simp: pbind_def map_filter_simps)
  qed
qed

end

definition span_processors :: "otel \<Rightarrow> processor list" where
  "span_processors s = (case ot_tracer_provider s of None \<Rightarrow> [] | Some pv \<Rightarrow> pv_processors pv)"

lemma processor_for_simps [simp]:
  "processor_for d ''otlp'' = Some (otlp_processor d)"
  "processor_for d ''console'' = Some (SimpleProcessor ConsoleExporter)"
  by (simp_all add: processor_for_def)

text \<open>For spans the added flag also records whether a processor was added, and the provider keeps its
  resource.\<close>

interpretation span_loop: exporter_loop
  "trace_exporter_step mk_ok d" "\<lambda>(s, added). span_processors s"
  "\<lambda>(s, added). (\<exists>pv. ot_tracer_provider s = Some pv \<and> pv_resource pv = r)
      \<and> \<not> ot_tracer_set s \<and> (added \<longrightarrow> span_processors s \<noteq> [])
      \<and> (\<not> added \<longrightarrow> span_processors s = []) "
  "\<lambda>(s, added). ot_environ s" "processor_for d" for d r
  by unfold_locales
     (auto simp: processor_for_def trace_exporter_step_def mk_ok_def span_processors_def
        add_span_processor_def add_processor_def log_otel_def split: if_splits)

interpretation log_loop: exporter_loop
  "event_exporter_step mk_ok d" "\<lambda>(s, ps). ps"
  "\<lambda>(s, ps). ot_logger_provider s = lp \<and> \<not> ot_events_set s"
  "\<lambda>(s, ps). ot_environ s" "processor_for d" for d lp
  by unfold_locales
     (auto simp: processor_for_def event_exporter_step_def mk_ok_def log_otel_def split: if_splits)

interpretation metric_loop: exporter_loop
  "metric_exporter_step mk_ok" "\<lambda>(s, ps). ps"
  "\<lambda>(s, ps). ot_meter_provider s = mp \<and> \<not> ot_meter_set s"
  "\<lambda>(s, ps). ot_environ s" reader_for for mp
  by unfold_locales
     (auto simp: reader_for_def metric_exporter_step_def mk_ok_def log_otel_def split: if_splits)

section \<open>One-time set-up\<close>

text \<open>Once a set-up has finished, no later call, whatever its arguments, changes what it registered.\<close>

locale once_setup =
  fixes run :: "'a \<Rightarrow> otel \<Rightarrow> 'r \<times> otel"
    and finished :: "otel \<Rightarrow> bool"
    and registered :: "otel \<Rightarrow> provider option"
  assumes run_finished: "finished s \<Longrightarrow>
      finished (snd (run a s)) \<and> registered (snd (run a s)) = registered s"
begin

lemma runs_finished:
  "finished s \<Longrightarrow> finished (fold (\<lambda>a s. snd (run a s)) as s)
     \<and> registered (fold (\<lambda>a s. snd (run a s)) as s) = registered s"
proof (induction as arbitrary: s)
  case (Cons a as)
  with run_finished [of s a] Cons.IH [of "snd (run a s)"] show ?case by simp
qed simp

end

type_synonym setup_args = "pyval \<times> pyval \<times> bool \<times> string option \<times> otlp_headers option \<times> bool"

definition tracing_call :: "mk_exporter \<Rightarrow> setup_args \<Rightarrow> otel \<Rightarrow> bool option \<times> otel" where
  "tracing_call mk args = (case args of (app, environment, has_tracer, ep, hdr, db) \<Rightarrow>
     setup_tracing mk app environment has_tracer ep hdr db)"

definition events_call :: "mk_exporter \<Rightarrow> setup_args \<Rightarrow> otel \<Rightarrow> bool option res \<times> otel" where
  "events_call mk args = (case args of (app, environment, has_logger, ep, hdr, db) \<Rightarrow>
     setup_events mk app environment has_logger ep hdr db)"

definition meter_call ::
  "mk_exporter \<Rightarrow> setup_args \<Rightarrow> otel \<Rightarrow> ((string, instrument) dict option \<times> pyexc option) res \<times> otel" where
  "meter_call mk args = (case args of (app, environment, has_meter, ep, hdr, db) \<Rightarrow>
     setup_meter mk app environment has_meter ep hdr)"

lemma setup_tracing_finished:
  "ot_tracer_set s \<Longrightarrow> setup_tracing mk app environment t ep hdr db s =
     (if t then (Some False, s) else (Some True, setenv ''HAYSTACK_AUTO_TRACE_ENABLED'' ''false'' s))"
  by (simp add: setup_tracing_def setenv_def pbind_def)

lemma setup_events_finished:
  "ot_events_set s \<Longrightarrow> setup_events mk app environment l ep hdr db s = (Inr (Some (\<not> l)), s)"
  by (simp add: setup_events_def ptry_def)

lemma setup_meter_finished:
  "ot_meter_set s \<Longrightarrow> setup_meter mk app environment m ep hdr s =
     (if m then (Inr (Some metrics_dict, None), s)
      else (Inr (None, Some (no_attr PNone ''create_histogram'')), s))"
  by (simp add: setup_meter_def ptry_def no_attr_def)

interpretation tracing_once: once_setup "tracing_call mk" ot_tracer_set ot_tracer_provider for mk
  by unfold_locales (auto simp: tracing_call_def setup_tracing_finished setenv_def)

interpretation events_once: once_setup "events_call mk" ot_events_set ot_logger_provider for mk
  by unfold_locales (auto simp: events_call_def setup_events_finished)

interpretation meter_once: once_setup "meter_call mk" ot_meter_set ot_meter_provider for mk
  by unfold_locales (auto simp: meter_call_def setup_meter_finished)


section \<open>What a first set-up registers\<close>

text \<open>The documented choice: the names of the signal's exporter variable when it is set, otherwise
  OTLP when an endpoint is configured and the console when none is.\<close>

definition expected_processors :: "bool \<Rightarrow> string \<Rightarrow> (string, string) dict \<Rightarrow> processor list" where
  "expected_processors disable_batch var environ =
     (case parse_exporters environ var of
        Some names \<Rightarrow> List.map_filter (processor_for disable_batch) names
      | None \<Rightarrow> (if dget_or environ ''OTEL_EXPORTER_OTLP_ENDPOINT'' [] \<noteq> [] then [otlp_processor disable_batch]
                  else [SimpleProcessor ConsoleExporter]))"

definition expected_readers :: "(string, string) dict \<Rightarrow> processor list" where
  "expected_readers environ =
     (case parse_exporters environ ''OTEL_METRICS_EXPORTER'' of
        Some names \<Rightarrow> List.map_filter reader_for names
      | None \<Rightarrow> (if dget_or environ ''OTEL_EXPORTER_OTLP_ENDPOINT'' [] \<noteq> [] then [PeriodicReader OtlpExporter]
                  else [PeriodicReader ConsoleExporter]))"

lemma log_otel_simps [simp]:
  "ot_environ (log_otel l m s) = ot_environ s"
  "ot_tracer_provider (log_otel l m s) = ot_tracer_provider s"
  "ot_logger_provider (log_otel l m s) = ot_logger_provider s"
  "ot_meter_provider (log_otel l m s) = ot_meter_provider s"
  "ot_tracer_set (log_otel l m s) = ot_tracer_set s"
  "ot_events_set (log_otel l m s) = ot_events_set s"
  "ot_meter_set (log_otel l m s) = ot_meter_set s"
  by (simp_all add: log_otel_def)

lemma set_otlp_env_simps [simp]:
  "ot_tracer_provider (set_otlp_env ep hdr s) = ot_tracer_provider s"
  "ot_logger_provider (set_otlp_env ep hdr s) = ot_logger_provider s"
  "ot_meter_provider (set_otlp_env ep hdr s) = ot_meter_provider s"
  "ot_tracer_set (set_otlp_env ep hdr s) = ot_tracer_set s"
  "ot_events_set (set_otlp_env ep hdr s) = ot_events_set s"
  "ot_meter_set (set_otlp_env ep hdr s) = ot_meter_set s"
  by (simp_all add: set_otlp_env_def setenv_def split: option.split)

lemma setup_trace_exporters_ok:
  assumes "ot_tracer_provider s = Some \<lparr>pv_resource = r, pv_processors = []\<rparr>" and "\<not> ot_tracer_set s"
  shows "\<exists>t. setup_trace_exporters mk_ok d s = (Inr (), t) \<and> ot_environ t = ot_environ s
     \<and> ot_tracer_provider t = Some \<lparr>pv_resource = r,
          pv_processors = expected_processors d ''OTEL_TRACES_EXPORTER'' (ot_environ s)\<rparr>"
proof (cases "parse_exporters (ot_environ s) ''OTEL_TRACES_EXPORTER''")
  case None
  with assms show ?thesis
    by (auto simp: setup_trace_exporters_def expected_processors_def mk_ok_def endpoint_configured_def
        add_span_processor_def add_processor_def)
next
  case (Some names)
  from span_loop.loop [of r "(s, False)" names d] assms obtain t b where
    t: "pfor names (trace_exporter_step mk_ok d) (s, False) = (Inr (), (t, b))"
    "ot_environ t = ot_environ s" "span_processors t = List.map_filter (processor_for d) names"
    "\<exists>pv. ot_tracer_provider t = Some pv \<and> pv_resource pv = r"
    by (fastforce simp: span_processors_def)
  then obtain pv where "ot_tracer_provider t = Some pv" "pv_resource pv = r"
    "pv_processors pv = List.map_filter (processor_for d) names"
    by (auto simp: span_processors_def)
  then have "ot_tracer_provider t = Some \<lparr>pv_resource = r, pv_processors = List.map_filter (processor_for d) names\<rparr>"
    by (cases pv) simp
  with t Some show ?thesis
    by (cases b) (auto simp: setup_trace_exporters_def with_local_def pbind_def expected_processors_def)
qed

lemma setup_event_exporters_ok:
  assumes "\<not> ot_events_set s"
  shows "\<exists>t. setup_event_exporters mk_ok d s
       = (Inr (expected_processors d ''OTEL_LOGS_EXPORTER'' (ot_environ s)), t)
     \<and> ot_environ t = ot_environ s \<and> ot_logger_provider t = ot_logger_provider s"
proof (cases "parse_exporters (ot_environ s) ''OTEL_LOGS_EXPORTER''")
  case None
  with assms show ?thesis
    by (auto simp: setup_event_exporters_def expected_processors_def mk_ok_def endpoint_configured_def)
next
  case (Some names)
  from log_loop.loop [of "ot_logger_provider s" "(s, [])" names d] assms obtain t where
    "pfor names (event_exporter_step mk_ok d) (s, []) = (Inr (), (t, List.map_filter (processor_for d) names))"
    "ot_environ t = ot_environ s" "ot_logger_provider t = ot_logger_provider s"
    by fastforce
  with Some show ?thesis
    by (cases "List.map_filter (processor_for d) names = []")
       (auto simp: setup_event_exporters_def with_local_def pbind_def expected_processors_def)
qed

lemma setup_metric_readers_ok:
  assumes "\<not> ot_meter_set s"
  shows "\<exists>t. setup_metric_readers mk_ok s = (Inr (expected_readers (ot_environ s)), t)
     \<and> ot_environ t = ot_environ s \<and> ot_meter_provider t = ot_meter_provider s"
proof (cases "parse_exporters (ot_environ s) ''OTEL_METRICS_EXPORTER''")
  case None
  with assms show ?thesis
    by (auto simp: setup_metric_readers_def expected_readers_def mk_ok_def endpoint_configured_def)
next
  case (Some names)
  from metric_loop.loop [of "ot_meter_provider s" "(s, [])" names] assms obtain t where
    "pfor names (metric_exporter_step mk_ok) (s, []) = (Inr (), (t, List.map_filter reader_for names))"
    "ot_environ t = ot_environ s" "ot_meter_provider t = ot_meter_provider s"
    by fastforce
  with Some show ?thesis
    by (cases "List.map_filter reader_for names = []")
       (auto simp: setup_metric_readers_def with_local_def pbind_def expected_readers_def)
qed

lemma setup_tracing_first:
  assumes "\<not> ot_tracer_set s" and "ot_tracer_provider s = None"
  shows "\<exists>t. setup_tracing mk_ok app environment False ep hdr d s = (Some True, t) \<and> ot_tracer_set t
     \<and> ot_tracer_provider t = Some \<lparr>pv_resource = make_resource app environment,
          pv_processors = expected_processors d ''OTEL_TRACES_EXPORTER'' (ot_environ t)\<rparr>"
proof -
  let ?s = "set_otlp_env ep hdr ((setenv ''HAYSTACK_AUTO_TRACE_ENABLED'' ''false'' s)
      \<lparr>ot_tracer_provider := Some \<lparr>pv_resource = make_resource app environment, pv_processors = []\<rparr>\<rparr>)"
  have "\<not> ot_tracer_set ?s" using assms by (simp add: setenv_def)
  with setup_trace_exporters_ok [of ?s "make_resource app environment" d] obtain t where
    "setup_trace_exporters mk_ok d ?s = (Inr (), t)" "ot_environ t = ot_environ ?s"
    "ot_tracer_provider t = Some \<lparr>pv_resource = make_resource app environment,
          pv_processors = expected_processors d ''OTEL_TRACES_EXPORTER'' (ot_environ ?s)\<rparr>"
    by auto
  with assms show ?thesis
    by (auto simp: setup_tracing_def setup_tracer_provider_def set_once_def pbind_def setenv_def)
qed

lemma setup_events_first:
  assumes "\<not> ot_events_set s" and "ot_logger_provider s = None"
  shows "\<exists>t. setup_events mk_ok app environment False ep hdr d s = (Inr (Some True), t) \<and> ot_events_set t
     \<and> ot_logger_provider t = Some \<lparr>pv_resource = make_resource app environment,
          pv_processors = expected_processors d ''OTEL_LOGS_EXPORTER'' (ot_environ t)\<rparr>"
proof -
  let ?s = "set_otlp_env ep hdr s"
  have "\<not> ot_events_set ?s" using assms by simp
  with setup_event_exporters_ok [of ?s d] obtain t where
    "setup_event_exporters mk_ok d ?s = (Inr (expected_processors d ''OTEL_LOGS_EXPORTER'' (ot_environ ?s)), t)"
    "ot_environ t = ot_environ ?s" "ot_logger_provider t = ot_logger_provider ?s"
    by auto
  with assms show ?thesis
    by (auto simp: setup_events_def ptry_def setup_logger_provider_def set_once_def pbind_def)
qed

lemma setup_meter_first:
  assumes "\<not> ot_meter_set s" and "ot_meter_provider s = None"
  shows "\<exists>t. setup_meter mk_ok app environment False ep hdr s = (Inr (Some metrics_dict, None), t) \<and> ot_meter_set t
     \<and> ot_meter_provider t = Some \<lparr>pv_resource = make_resource app environment,
          pv_processors = expected_readers (ot_environ t)\<rparr>"
proof -
  let ?s = "set_otlp_env ep hdr s"
  have "\<not> ot_meter_set ?s" using assms by simp
  with setup_metric_readers_ok [of ?s] obtain t where
    "setup_metric_readers mk_ok ?s = (Inr (expected_readers (ot_environ ?s)), t)"
    "ot_environ t = ot_environ ?s" "ot_meter_provider t = ot_meter_provider ?s"
    by auto
  with assms show ?thesis
    by (auto simp: setup_meter_def ptry_def setup_meter_provider_def set_once_def pbind_def)
qed

end
