(* ===== verification/OtelProps.thy ===== *)
theory OtelProps
  imports Otel
begin

text \<open>
  What the three one-time set-ups promise: the documented pipelines on the first call, no change on a
  later one, nothing claimed as set up when an exporter could not be built, and a metric table whose
  keys and bucket boundaries are well formed.
\<close>

section \<open>Frames\<close>

lemma keeps_with_local [keeps_intros]:
  "keeps (\<lambda>sb. f (fst sb)) m \<Longrightarrow> keeps f (with_local b m)"
  by (auto simp: keeps_def with_local_def split: prod.split) (metis fst_conv snd_conv)

text \<open>What one signal's set-up must leave alone: the other two signals' providers and flags.\<close>

definition logs_part :: "otel \<Rightarrow> provider option \<times> bool" where
  "logs_part s = (ot_logger_provider s, ot_events_set s)"

definition meter_part :: "otel \<Rightarrow> provider option \<times> bool" where
  "meter_part s = (ot_meter_provider s, ot_meter_set s)"

definition tracer_part :: "otel \<Rightarrow> provider option \<times> bool" where
  "tracer_part s = (ot_tracer_provider s, ot_tracer_set s)"

lemmas parts = logs_part_def meter_part_def tracer_part_def

lemma parts_log_otel [simp]:
  "logs_part (log_otel l m s) = logs_part s"
  "meter_part (log_otel l m s) = meter_part s"
  "tracer_part (log_otel l m s) = tracer_part s"
  by (simp_all add: parts)

lemma parts_set_otlp_env [simp]:
  "logs_part (set_otlp_env ep hdr s) = logs_part s"
  "meter_part (set_otlp_env ep hdr s) = meter_part s"
  "tracer_part (set_otlp_env ep hdr s) = tracer_part s"
  by (simp_all add: parts)

lemma keeps_tracer_provider:
  "keeps (\<lambda>s. (logs_part s, meter_part s)) (setup_tracer_provider mk app environment ep hdr d)"
  unfolding setup_tracer_provider_def setup_trace_exporters_def trace_exporter_step_def split_def
  by (rule keeps_intros | force simp: parts add_span_processor_def)+

lemma keeps_logger_provider:
  "keeps (\<lambda>s. (tracer_part s, meter_part s)) (setup_logger_provider mk app environment ep hdr d)"
  unfolding setup_logger_provider_def setup_event_exporters_def event_exporter_step_def split_def
  by (rule keeps_intros | force simp: parts)+

lemma keeps_meter_provider:
  "keeps (\<lambda>s. (tracer_part s, logs_part s)) (setup_meter_provider mk app environment ep hdr)"
  unfolding setup_meter_provider_def setup_metric_readers_def metric_exporter_step_def split_def
  by (rule keeps_intros | force simp: parts)+

lemma setup_events_frame:
  "setup_events mk app environment l ep hdr d s = (r, s') \<Longrightarrow>
     tracer_part s' = tracer_part s \<and> meter_part s' = meter_part s"
proof -
  have "keeps (\<lambda>s. (tracer_part s, meter_part s)) (setup_events mk app environment l ep hdr d)"
    unfolding setup_events_def
    by (rule keeps_intros keeps_logger_provider | simp)+
  then show "setup_events mk app environment l ep hdr d s = (r, s') \<Longrightarrow> ?thesis"
    by (auto dest: keepsD)
qed

lemma setup_meter_frame:
  "setup_meter mk app environment m ep hdr s = (r, s') \<Longrightarrow>
     tracer_part s' = tracer_part s \<and> logs_part s' = logs_part s"
proof -
  have "keeps (\<lambda>s. (tracer_part s, logs_part s)) (setup_meter mk app environment m ep hdr)"
    unfolding setup_meter_def
    by (rule keeps_intros keeps_meter_provider | simp)+
  then show "setup_meter mk app environment m ep hdr s = (r, s') \<Longrightarrow> ?thesis"
    by (auto dest: keepsD)
qed

lemma setup_tracing_frame:
  "setup_tracing mk app environment t ep hdr d s = (r, s') \<Longrightarrow>
     logs_part s' = logs_part s \<and> meter_part s' = meter_part s"
proof -
  assume a: "setup_tracing mk app environment t ep hdr d s = (r, s')"
  let ?f = "\<lambda>s. (logs_part s, meter_part s)"
  let ?m = "pbind (pmodify (setenv ''HAYSTACK_AUTO_TRACE_ENABLED'' ''false'')) (\<lambda>_.
               pbind (pgets ot_tracer_set) (\<lambda>done.
                 pwhen (\<not> done) (setup_tracer_provider mk app environment ep hdr d)))"
  have k: "keeps ?f ?m"
    by (intro keeps_intros keeps_tracer_provider) (simp_all add: parts setenv_def)
  show ?thesis
  proof (cases t)
    case True
    with a show ?thesis by (simp add: setup_tracing_def)
  next
    case False
    then have "?f s' = ?f s"
      using a keepsD [OF k, of s] by (cases "?m s") (auto simp: setup_tracing_def split: sum.splits)
    then show ?thesis by simp
  qed
qed

section \<open>Properties\<close>

definition fresh :: "otel \<Rightarrow> bool" where
  "fresh s \<longleftrightarrow> tracer_part s = (None, False) \<and> logs_part s = (None, False) \<and> meter_part s = (None, False)"

lemma first_setup:
  assumes "fresh s"
  shows "\<exists>s1 s2 s3.
       setup_tracing mk_ok app environment False ep hdr d s = (Some True, s1)
     \<and> setup_events mk_ok app environment False ep hdr d s1 = (Inr (Some True), s2)
     \<and> setup_meter mk_ok app environment False ep hdr s2 = (Inr (Some metrics_dict, None), s3)
     \<and> tracer_part s3 = (Some \<lparr>pv_resource = make_resource app environment,
          pv_processors = expected_processors d ''OTEL_TRACES_EXPORTER'' (ot_environ s1)\<rparr>, True)
     \<and> logs_part s3 = (Some \<lparr>pv_resource = make_resource app environment,
          pv_processors = expected_processors d ''OTEL_LOGS_EXPORTER'' (ot_environ s2)\<rparr>, True)
     \<and> meter_part s3 = (Some \<lparr>pv_resource = make_resource app environment,
          pv_processors = expected_readers (ot_environ s3)\<rparr>, True)"
proof -
  from assms have "\<not> ot_tracer_set s" "ot_tracer_provider s = None" by (simp_all add: fresh_def parts)
  from setup_tracing_first [OF this, of app environment ep hdr d] obtain s1 where
    1: "setup_tracing mk_ok app environment False ep hdr d s = (Some True, s1)"
    "tracer_part s1 = (Some \<lparr>pv_resource = make_resource app environment,
          pv_processors = expected_processors d ''OTEL_TRACES_EXPORTER'' (ot_environ s1)\<rparr>, True)"
    by (auto simp: parts)
  have f1: "logs_part s1 = (None, False)" "meter_part s1 = (None, False)"
    using setup_tracing_frame [OF 1(1)] assms by (simp_all add: fresh_def)
  then have "\<not> ot_events_set s1" "ot_logger_provider s1 = None" by (simp_all add: parts)
  from setup_events_first [OF this, of app environment ep hdr d] obtain s2 where
    2: "setup_events mk_ok app environment False ep hdr d s1 = (Inr (Some True), s2)"
    "logs_part s2 = (Some \<lparr>pv_resource = make_resource app environment,
          pv_processors = expected_processors d ''OTEL_LOGS_EXPORTER'' (ot_environ s2)\<rparr>, True)"
    by (auto simp: parts)
  have f2: "tracer_part s2 = tracer_part s1" "meter_part s2 = (None, False)"
    using setup_events_frame [OF 2(1)] f1 by simp_all
  then have "\<not> ot_meter_set s2" "ot_meter_provider s2 = None" by (simp_all add: parts)
  from setup_meter_first [OF this, of app environment ep hdr] obtain s3 where
    3: "setup_meter mk_ok app environment False ep hdr s2 = (Inr (Some metrics_dict, None), s3)"
    "meter_part s3 = (Some \<lparr>pv_resource = make_resource app environment,
          pv_processors = expected_readers (ot_environ s3)\<rparr>, True)"
    by (auto simp: parts)
  from setup_meter_frame [OF 3(1)] 1 2 3 f2 show ?thesis by auto
qed

text \<open>C10: The first set-up of a process registers, for each signal, one provider with the application's
  resource and exactly the processors the exporter variables ask for: those named in the signal's
  variable, in order and with unknown names left out, or OTLP when an endpoint is configured and the
  console otherwise.  Setting up one signal disturbs neither of the others.\<close>

theorem first_setup_pipelines:
  assumes "fresh s"
  shows "\<exists>s1 s2 s3.
       setup_tracing mk_ok app environment False ep hdr d s = (Some True, s1)
     \<and> setup_events mk_ok app environment False ep hdr d s1 = (Inr (Some True), s2)
     \<and> setup_meter mk_ok app environment False ep hdr s2 = (Inr (Some metrics_dict, None), s3)
     \<and> tracer_part s3 = (Some \<lparr>pv_resource = make_resource app environment,
          pv_processors = expected_processors d ''OTEL_TRACES_EXPORTER'' (ot_environ s1)\<rparr>, True)
     \<and> logs_part s3 = (Some \<lparr>pv_resource = make_resource app environment,
          pv_processors = expected_processors d ''OTEL_LOGS_EXPORTER'' (ot_environ s2)\<rparr>, True)
     \<and> meter_part s3 = (Some \<lparr>pv_resource = make_resource app environment,
          pv_processors = expected_readers (ot_environ s3)\<rparr>, True)"
  using assms by (rule first_setup)

theorem first_setup_pipelines_witness:
  "let s = \<lparr>ot_environ = [(''OTEL_TRACES_EXPORTER'', ''console, otlp,x'')], ot_tracer_set = False, ot_events_set = False,
       ot_meter_set = False, ot_tracer_provider = None, ot_logger_provider = None, ot_meter_provider = None, ot_log = []\<rparr>
   in \<exists>s1 s2 s3.
       setup_tracing mk_ok (PStr ''a'') (PStr ''b'') False None None False s = (Some True, s1)
     \<and> setup_events mk_ok (PStr ''a'') (PStr ''b'') False None None False s1 = (Inr (Some True), s2)
     \<and> setup_meter mk_ok (PStr ''a'') (PStr ''b'') False None None s2 = (Inr (Some metrics_dict, None), s3)
     \<and> tracer_part s3 = (Some \<lparr>pv_resource = make_resource (PStr ''a'') (PStr ''b''),
          pv_processors = expected_processors False ''OTEL_TRACES_EXPORTER'' (ot_environ s1)\<rparr>, True)
     \<and> logs_part s3 = (Some \<lparr>pv_resource = make_resource (PStr ''a'') (PStr ''b''),
          pv_processors = expected_processors False ''OTEL_LOGS_EXPORTER'' (ot_environ s2)\<rparr>, True)
     \<and> meter_part s3 = (Some \<lparr>pv_resource = make_resource (PStr ''a'') (PStr ''b''),
          pv_processors = expected_readers (ot_environ s3)\<rparr>, True)"
  unfolding Let_def by (rule first_setup_pipelines) (simp add: fresh_def parts)

text \<open>Set-up happens once: when a signal's set-up has finished, any number of later calls, with any
  arguments and whatever its exporters do, leaves the registered provider and the flag as they are.\<close>

theorem later_setups_change_nothing:
  assumes "ot_tracer_set s" and "ot_events_set s" and "ot_meter_set s"
  shows "tracer_part (fold (\<lambda>a s. snd (tracing_call mk a s)) calls s) = tracer_part s
     \<and> logs_part (fold (\<lambda>a s. snd (events_call mk a s)) calls s) = logs_part s
     \<and> meter_part (fold (\<lambda>a s. snd (meter_call mk a s)) calls s) = meter_part s"
  using tracing_once.runs_finished [OF assms(1)] events_once.runs_finished [OF assms(2)]
    meter_once.runs_finished [OF assms(3)] assms
  by (simp_all add: parts)

theorem later_setups_change_nothing_witness:
  "let s = \<lparr>ot_environ = [], ot_tracer_set = True, ot_events_set = True, ot_meter_set = True,
       ot_tracer_provider = Some \<lparr>pv_resource = [], pv_processors = []\<rparr>, ot_logger_provider = None,
       ot_meter_provider = None, ot_log = []\<rparr>;
       calls = [(PStr ''a'', PStr ''b'', False, Some ''c'', None, True), (PStr ''d'', PStr ''e'', True, None, None, False)]
   in tracer_part (fold (\<lambda>a s. snd (tracing_call mk_ok a s)) calls s) = tracer_part s
    \<and> logs_part (fold (\<lambda>a s. snd (events_call mk_ok a s)) calls s) = logs_part s
    \<and> meter_part (fold (\<lambda>a s. snd (meter_call mk_ok a s)) calls s) = meter_part s"
  unfolding Let_def by (rule later_setups_change_nothing) simp_all

lemma raises_only_with_local [raises_intros]: "raises_only P m \<Longrightarrow> raises_only P (with_local b m)"
  by (auto simp: raises_only_def with_local_def split: prod.splits) (metis map_sum.simps(2) old.sum.exhaust sum.distinct(1) map_sum.simps(1) id_apply sum.inject(1))

lemma setup_tracer_provider_returns:
  assumes "\<And>e. mk Traces e = Inr ()"
  shows "returns (setup_tracer_provider mk app environment ep hdr d)"
  unfolding setup_tracer_provider_def setup_trace_exporters_def trace_exporter_step_def split_def assms
  by (rule raises_intros | simp)+

lemma setup_tracer_provider_flag:
  assumes "setup_tracer_provider mk app environment ep hdr d s = (Inl e, t)"
  shows "ot_tracer_set t = ot_tracer_set s"
proof -
  let ?s = "set_otlp_env ep hdr (s\<lparr>ot_tracer_provider := set_once (ot_tracer_provider s)
              \<lparr>pv_resource = make_resource app environment, pv_processors = []\<rparr>\<rparr>)"
  have k: "keeps ot_tracer_set (setup_trace_exporters mk d)"
    unfolding setup_trace_exporters_def trace_exporter_step_def split_def
    by (rule keeps_intros | force simp: add_span_processor_def)+
  from assms have "setup_trace_exporters mk d ?s = (Inl e, t)"
    by (auto simp: setup_tracer_provider_def pbind_def split: prod.splits sum.splits)
  from keepsD [OF k this] show ?thesis by simp
qed

text \<open>\<open>setup_tracing\<close> yields no tracer only when no tracer was passed in, none was set up before and
  building a span exporter raised; the failed attempt is not remembered as a set-up, so a later call
  tries again.\<close>

theorem tracing_failure_is_retried:
  assumes "setup_tracing mk app environment has_tracer ep hdr d s = (None, t)"
  shows "\<not> has_tracer \<and> \<not> ot_tracer_set s \<and> \<not> ot_tracer_set t \<and> (\<exists>e err. mk Traces e = Inl err)"
proof -
  from assms have nt: "\<not> has_tracer" by (auto simp: setup_tracing_def)
  have ns: "\<not> ot_tracer_set s"
    using assms setup_tracing_finished [of s mk app environment has_tracer ep hdr d] by (auto split: if_splits)
  let ?s = "setenv ''HAYSTACK_AUTO_TRACE_ENABLED'' ''false'' s"
  from assms nt ns obtain err where
    err: "setup_tracer_provider mk app environment ep hdr d ?s = (Inl err, t)"
    by (auto simp: setup_tracing_def setenv_def split: prod.splits sum.splits)
  from setup_tracer_provider_flag [OF err] ns have nflag: "\<not> ot_tracer_set t" by (simp add: setenv_def)
  have "\<exists>e err. mk Traces e = Inl err"
  proof (rule ccontr)
    assume "\<nexists>e err. mk Traces e = Inl err"
    then have "mk Traces e = Inr ()" for e by (cases "mk Traces e") auto
    from setup_tracer_provider_returns [of mk app environment ep hdr d, OF this] err show False
      by (auto dest: raises_onlyD)
  qed
  with nt ns nflag show ?thesis by blast
qed

theorem tracing_failure_is_retried_witness:
  "\<exists>t. setup_tracing (\<lambda>_ _. Inl (PyExc RuntimeError [])) (PStr ''a'') (PStr ''b'') False None None True
       \<lparr>ot_environ = [], ot_tracer_set = False, ot_events_set = False, ot_meter_set = False,
        ot_tracer_provider = None, ot_logger_provider = None, ot_meter_provider = None, ot_log = []\<rparr> = (None, t)
     \<and> \<not> ot_tracer_set t"
proof -
  let ?s = "\<lparr>ot_environ = [], ot_tracer_set = False, ot_events_set = False, ot_meter_set = False,
        ot_tracer_provider = None, ot_logger_provider = None, ot_meter_provider = None, ot_log = []\<rparr> :: otel"
  have "\<exists>t. setup_tracing (\<lambda>_ _. Inl (PyExc RuntimeError [])) (PStr ''a'') (PStr ''b'') False None None True ?s = (None, t)"
    by (simp add: setup_tracing_def setup_tracer_provider_def setup_trace_exporters_def pbind_def setenv_def
        set_otlp_env_def parse_exporters_def endpoint_configured_def)
  with tracing_failure_is_retried show ?thesis by blast
qed

text \<open>After the meter provider has been set up, a call without a meter of its own finds no meter to
  make its instruments with: it reports the \<open>AttributeError\<close> instead of the metric table, and changes
  nothing.\<close>

theorem second_meter_setup_fails:
  assumes "ot_meter_set s"
  shows "setup_meter mk app environment False ep hdr s
     = (Inr (None, Some (no_attr PNone ''create_histogram'')), s)"
  using assms by (simp add: setup_meter_finished)

theorem second_meter_setup_fails_witness:
  "let s = \<lparr>ot_environ = [], ot_tracer_set = False, ot_events_set = False, ot_meter_set = True,
        ot_tracer_provider = None, ot_logger_provider = None, ot_meter_provider = None, ot_log = []\<rparr>
   in setup_meter mk_ok (PStr ''a'') (PStr ''b'') False None None s
     = (Inr (None, Some (no_attr PNone ''create_histogram'')), s)"
  unfolding Let_def by (rule second_meter_setup_fails) simp

text \<open>The metric table is well formed: no two metrics share a key or an instrument name, and every
  histogram's explicit bucket boundaries are positive and strictly increasing.\<close>

theorem metric_table_well_formed:
  "distinct (dkeys metrics_dict) \<and> distinct (map in_name (dvalues metrics_dict))
   \<and> list_all (\<lambda>i. case in_buckets i of None \<Rightarrow> True
        | Some b \<Rightarrow> in_kind i = Histogram \<and> b \<noteq> [] \<and> 0 < hd b \<and> sorted_wrt (<) b) (dvalues metrics_dict)"
  by (simp add: metrics_dict_def dvalues_def histogram_def counter_def bucket_defs semconv)

end
