(* ===== verification/Pricing.thy ===== *)
theory Pricing
  imports Prelude
begin

text \<open>
  The cost, token and timing functions of \<open>openlit/__helpers.py\<close>, and the server address look-up.
  Python's arithmetic operators are defined on the value type, so that a price of the wrong type
  raises where it does in the source.
\<close>

section \<open>Operators on values\<close>

text \<open>\<open>bool\<close> is a subclass of \<open>int\<close>.\<close>

fun as_int :: "pyval \<Rightarrow> int option" where
  "as_int (PInt i) = Some i"
| "as_int (PBool b) = Some (if b then 1 else 0)"
| "as_int v = None"

fun as_num :: "pyval \<Rightarrow> rat option" where
  "as_num (PFloat r) = Some r"
| "as_num v = map_option of_int (as_int v)"

definition unsupported :: "string \<Rightarrow> pyval \<Rightarrow> pyval \<Rightarrow> 'a res" where
  "unsupported op x y = Inl (PyExc TypeError (''unsupported operand '' @ op @ '': '' @ py_type x @ '' and '' @ py_type y))"

definition py_add :: "pyval \<Rightarrow> pyval \<Rightarrow> pyval res" where
  "py_add x y =
     (case (as_int x, as_int y) of
        (Some i, Some j) \<Rightarrow> Inr (PInt (i + j))
      | _ \<Rightarrow> (case (as_num x, as_num y) of
          (Some a, Some b) \<Rightarrow> Inr (PFloat (a + b))
        | _ \<Rightarrow> (case (x, y) of
            (PStr s, PStr t) \<Rightarrow> Inr (PStr (s @ t))
          | (PList s, PList t) \<Rightarrow> Inr (PList (s @ t))
          | _ \<Rightarrow> unsupported ''+'' x y)))"

definition repeat_list :: "int \<Rightarrow> 'a list \<Rightarrow> 'a list" where
  "repeat_list i xs = concat (replicate (nat i) xs)"

definition py_mul :: "pyval \<Rightarrow> pyval \<Rightarrow> pyval res" where
  "py_mul x y =
     (case (as_int x, as_int y) of
        (Some i, Some j) \<Rightarrow> Inr (PInt (i * j))
      | (Some i, None) \<Rightarrow> (case y of
            PFloat b \<Rightarrow> Inr (PFloat (of_int i * b))
          | PStr s \<Rightarrow> Inr (PStr (repeat_list i s))
          | PList s \<Rightarrow> Inr (PList (repeat_list i s))
          | _ \<Rightarrow> unsupported ''*'' x y)
      | (None, Some j) \<Rightarrow> (case x of
            PFloat a \<Rightarrow> Inr (PFloat (a * of_int j))
          | PStr s \<Rightarrow> Inr (PStr (repeat_list j s))
          | PList s \<Rightarrow> Inr (PList (repeat_list j s))
          | _ \<Rightarrow> unsupported ''*'' x y)
      | (None, None) \<Rightarrow> (case (x, y) of
            (PFloat a, PFloat b) \<Rightarrow> Inr (PFloat (a * b))
          | _ \<Rightarrow> unsupported ''*'' x y))"

text \<open>\<open>x / 1000\<close>.\<close>

definition per_thousand :: "pyval \<Rightarrow> pyval res" where
  "per_thousand x = (case as_num x of Some a \<Rightarrow> Inr (PFloat (a / 1000)) | None \<Rightarrow> unsupported ''/'' x (PInt 1000))"

text \<open>\<open>x[k]\<close> as the pricing look-ups use it.\<close>

fun py_index :: "pyval \<Rightarrow> pyval \<Rightarrow> pyval res" where
  "py_index (PDict d) (PStr k) =
     (case dget d k of Some v \<Rightarrow> Inr v | None \<Rightarrow> Inl (PyExc KeyError k))"
| "py_index (PDict d) k = Inl (PyExc (if py_type k = ''list'' \<or> py_type k = ''dict'' then TypeError else KeyError) ''key'')"
| "py_index (PList xs) (PInt i) =
     (let j = (if i < 0 then int (length xs) + i else i)
      in if 0 \<le> j \<and> j < int (length xs) then Inr (xs ! nat j) else Inl (PyExc IndexError ''list index out of range''))"
| "py_index (PStr s) (PInt i) =
     (let j = (if i < 0 then int (length s) + i else i)
      in if 0 \<le> j \<and> j < int (length s) then Inr (PStr [s ! nat j]) else Inl (PyExc IndexError ''string index out of range''))"
| "py_index x k = Inl (PyExc TypeError (py_type x))"

fun py_len :: "pyval \<Rightarrow> nat res" where
  "py_len (PStr s) = Inr (length s)"
| "py_len (PList xs) = Inr (length xs)"
| "py_len (PDict d) = Inr (length d)"
| "py_len v = Inl (PyExc TypeError ''object has no len()'')"

section \<open>Costs\<close>

text \<open>The bare \<open>except:\<close> of every cost function.\<close>

definition or_zero :: "pyval res \<Rightarrow> pyval" where
  "or_zero r = (case r of Inl e \<Rightarrow> PInt 0 | Inr cost \<Rightarrow> cost)"

definition general_tokens :: "string \<Rightarrow> int" where
  "general_tokens text = \<lceil>rat_of_nat (length text) / 2\<rceil>"

definition model_price :: "string \<Rightarrow> pyval \<Rightarrow> pyval \<Rightarrow> string \<Rightarrow> pyval res" where
  "model_price category pricing_info model price_key =
     res_bind (py_index pricing_info (PStr category)) (\<lambda>c.
     res_bind (py_index c model) (\<lambda>m. py_index m (PStr price_key)))"

definition get_chat_model_cost :: "pyval \<Rightarrow> pyval \<Rightarrow> pyval \<Rightarrow> pyval \<Rightarrow> pyval" where
  "get_chat_model_cost model pricing_info prompt_tokens completion_tokens = or_zero
     (res_bind (per_thousand prompt_tokens) (\<lambda>p.
      res_bind (model_price ''chat'' pricing_info model ''promptPrice'') (\<lambda>pp.
      res_bind (py_mul p pp) (\<lambda>a.
      res_bind (per_thousand completion_tokens) (\<lambda>c.
      res_bind (model_price ''chat'' pricing_info model ''completionPrice'') (\<lambda>cp.
      res_bind (py_mul c cp) (\<lambda>b. py_add a b)))))))"

definition get_embed_model_cost :: "pyval \<Rightarrow> pyval \<Rightarrow> pyval \<Rightarrow> pyval" where
  "get_embed_model_cost model pricing_info prompt_tokens = or_zero
     (res_bind (per_thousand prompt_tokens) (\<lambda>p.
      res_bind (py_index pricing_info (PStr ''embeddings'')) (\<lambda>e.
      res_bind (py_index e model) (\<lambda>price. py_mul p price))))"

definition get_image_model_cost :: "pyval \<Rightarrow> pyval \<Rightarrow> pyval \<Rightarrow> pyval \<Rightarrow> pyval" where
  "get_image_model_cost model pricing_info image_size quality = or_zero
     (res_bind (py_index pricing_info (PStr ''images'')) (\<lambda>i.
      res_bind (py_index i model) (\<lambda>m.
      res_bind (py_index m quality) (\<lambda>q. py_index q image_size))))"

definition get_audio_model_cost :: "pyval \<Rightarrow> pyval \<Rightarrow> pyval \<Rightarrow> pyval \<Rightarrow> pyval" where
  "get_audio_model_cost model pricing_info prompt duration = or_zero
     (let price = res_bind (py_index pricing_info (PStr ''audio'')) (\<lambda>a. py_index a model)
      in if py_truth prompt then
           res_bind (py_len prompt) (\<lambda>n.
           res_bind (per_thousand (PInt (int n))) (\<lambda>p. res_bind price (py_mul p)))
         else res_bind price (py_mul duration))"

section \<open>Streaming times\<close>

definition calculate_ttft :: "rat list \<Rightarrow> rat \<Rightarrow> rat" where
  "calculate_ttft timestamps start_time = (case timestamps of [] \<Rightarrow> 0 | t # _ \<Rightarrow> t - start_time)"

text \<open>\<open>[ts[i] - ts[i-1] for i in range(1, len(ts))]\<close>.\<close>

definition time_diffs :: "rat list \<Rightarrow> rat list" where
  "time_diffs timestamps = map (\<lambda>i. timestamps ! i - timestamps ! (i - 1)) [1..<length timestamps]"

definition calculate_tbt :: "rat list \<Rightarrow> rat" where
  "calculate_tbt timestamps =
     (if length timestamps > 1
      then sum_list (time_diffs timestamps) / of_nat (length (time_diffs timestamps)) else 0)"

section \<open>Server address\<close>

text \<open>
  \<open>urllib.parse.urlparse\<close> on a URL that starts with \<open>http://\<close> or \<open>https://\<close>: the network location
  is what lies before the first slash, question mark or hash; the user information is cut at the last at-sign.  Reading
  \<open>port\<close> raises \<open>ValueError\<close> when it is not a number up to 65535.
\<close>

definition partition_at :: "char \<Rightarrow> string \<Rightarrow> string \<times> bool \<times> string" where
  "partition_at c s = (let a = takeWhile (\<lambda>x. x \<noteq> c) s; b = dropWhile (\<lambda>x. x \<noteq> c) s
     in (a, b \<noteq> [], drop 1 b))"

definition after_last :: "char \<Rightarrow> string \<Rightarrow> string" where
  "after_last c s = rev (takeWhile (\<lambda>x. x \<noteq> c) (rev s))"

definition netloc :: "string \<Rightarrow> string" where
  "netloc url =
     (let url = filter (\<lambda>c. c \<noteq> CHR 0x09 \<and> c \<noteq> CHR 0x0A \<and> c \<noteq> CHR 0x0D) url;
          rest = drop 2 (snd (snd (partition_at CHR '':'' url)))
      in takeWhile (\<lambda>c. c \<noteq> CHR ''/'' \<and> c \<noteq> CHR ''?'' \<and> c \<noteq> CHR ''#'') rest)"

definition hostinfo :: "string \<Rightarrow> string \<times> string" where
  "hostinfo loc =
     (let h = after_last CHR ''@'' loc;
          (_, have_open_br, bracketed) = partition_at CHR ''['' h
      in if have_open_br then
           (let (hostname, _, port) = partition_at CHR '']'' bracketed
            in (hostname, snd (snd (partition_at CHR '':'' port))))
         else (let (hostname, _, port) = partition_at CHR '':'' h in (hostname, port)))"

definition is_digit :: "char \<Rightarrow> bool" where
  "is_digit c \<longleftrightarrow> 48 \<le> (of_char c :: nat) \<and> (of_char c :: nat) \<le> 57"

definition parse_nat :: "string \<Rightarrow> nat" where
  "parse_nat s = fold (\<lambda>c n. 10 * n + (of_char c - 48)) s 0"

definition url_hostname :: "string \<Rightarrow> string option" where
  "url_hostname url =
     (let hostname = fst (hostinfo (netloc url)) in
      if hostname = [] then None
      else let (name, percent, zone) = partition_at CHR ''%'' hostname
           in Some (py_lower name @ (if percent then CHR ''%'' # zone else [])))"

definition url_port :: "string \<Rightarrow> int option res" where
  "url_port url =
     (let port = snd (hostinfo (netloc url)) in
      if port = [] then Inr None
      else if \<not> list_all is_digit port then Inl (PyExc ValueError ''Port could not be cast to integer value'')
      else if parse_nat port \<le> 65535 then Inr (Some (int (parse_nat port)))
      else Inl (PyExc ValueError ''Port out of range 0-65535''))"

text \<open>A network location with one bracket but not the other is refused by \<open>urlparse\<close> itself.\<close>

definition urlparse_ok :: "string \<Rightarrow> unit res" where
  "urlparse_ok url =
     (if (CHR ''['' \<in> set (netloc url)) \<noteq> (CHR '']'' \<in> set (netloc url))
      then Inl (PyExc ValueError ''Invalid IPv6 URL'') else Inr ())"

text \<open>\<open>urlparse\<close> on any string: what follows the scheme, when it starts with two slashes.  The result is written
  with a fixed scheme, so that the host and port functions apply.\<close>

definition is_scheme_char :: "char \<Rightarrow> bool" where
  "is_scheme_char c \<longleftrightarrow> (let n = (of_char c :: nat) in
     (65 \<le> n \<and> n \<le> 90) \<or> (97 \<le> n \<and> n \<le> 122) \<or> (48 \<le> n \<and> n \<le> 57) \<or> c \<in> set ''+-.'')"

definition is_scheme_letter :: "char \<Rightarrow> bool" where
  "is_scheme_letter c \<longleftrightarrow> (let n = (of_char c :: nat) in (65 \<le> n \<and> n \<le> 90) \<or> (97 \<le> n \<and> n \<le> 122))"

definition url_authority :: "string \<Rightarrow> string option" where
  "url_authority url =
     (let u = filter (\<lambda>c. c \<noteq> CHR 0x09 \<and> c \<noteq> CHR 0x0A \<and> c \<noteq> CHR 0x0D) (dropWhile (\<lambda>c. (of_char c :: nat) \<le> 32) url);
          (scheme, colon, rest) = partition_at CHR '':'' u;
          after = (if colon \<and> scheme \<noteq> [] \<and> is_scheme_letter (scheme ! 0) \<and> list_all is_scheme_char scheme then rest else u)
      in if startswith after ''//'' then Some (''http:'' @ after) else None)"

text \<open>The four places a base URL is looked for, in order; each step reads the outer attribute first.\<close>

definition base_url_of :: "pyval \<Rightarrow> pyval" where
  "base_url_of client_instance =
     (let base_url = py_getattr (py_getattr client_instance ''_client'' PNone) ''base_url'' PNone;
          base_url = (if py_truth base_url then base_url
                      else py_getattr (py_getattr client_instance ''_config'' PNone) ''endpoint'' PNone);
          base_url = (if py_truth base_url then base_url
                      else py_getattr (py_getattr client_instance ''sdk_configuration'' PNone) ''server_url'' PNone);
          base_url = (if py_truth base_url then base_url
                      else py_getattr (py_getattr client_instance ''config'' PNone) ''host'' PNone)
      in base_url)"

definition set_server_address_and_port :: "pyval \<Rightarrow> string \<Rightarrow> int \<Rightarrow> (pyval \<times> pyval) res" where
  "set_server_address_and_port client_instance default_server_address default_server_port =
     (let base_url = base_url_of client_instance in
      if py_truth base_url then
        (case base_url of
           PStr s \<Rightarrow>
             (if startswith s ''http://'' \<or> startswith s ''https://'' then
                res_bind (urlparse_ok s) (\<lambda>_.
                res_bind (url_port s) (\<lambda>port.
                  Inr (case url_hostname s of Some h \<Rightarrow> PStr h | None \<Rightarrow> PStr default_server_address,
                       case port of Some p \<Rightarrow> PInt p | None \<Rightarrow> PInt default_server_port)))
              else Inr (PStr s, PInt default_server_port))
         | _ \<Rightarrow>
             (let port_attr = py_getattr base_url ''port'' PNone in
              Inr (py_or (py_getattr base_url ''host'' PNone) (PStr default_server_address),
                   if port_attr \<noteq> PNone then port_attr else PInt default_server_port)))
      else Inr (PStr default_server_address, PInt default_server_port))"

definition PROVIDER_DEFAULT_ENDPOINTS :: "(string, string \<times> int) dict" where
  "PROVIDER_DEFAULT_ENDPOINTS = [
    (''openai'', (''api.openai.com'', 443)),
    (''anthropic'', (''api.anthropic.com'', 443)),
    (''google'', (''generativelanguage.googleapis.com'', 443)),
    (''gcp.gemini'', (''generativelanguage.googleapis.com'', 443)),
    (''gcp.vertex_ai'', (''aiplatform.googleapis.com'', 443)),
    (''gcp.gen_ai'', (''generativelanguage.googleapis.com'', 443)),
    (''mistral_ai'', (''api.mistral.ai'', 443)),
    (''groq'', (''api.groq.com'', 443)),
    (''together'', (''api.together.xyz'', 443)),
    (''fireworks'', (''api.fireworks.ai'', 443)),
    (''perplexity'', (''api.perplexity.ai'', 443)),
    (''deepinfra'', (''api.deepinfra.com'', 443)),
    (''aws.bedrock'', (''bedrock-runtime.amazonaws.com'', 443)),
    (''azure'', (''openai.azure.com'', 443)),
    (''azure.ai.openai'', (''openai.azure.com'', 443)),
    (''azure.ai.inference'', (''inference.ai.azure.com'', 443)),
    (''cohere'', (''api.cohere.ai'', 443)),
    (''ollama'', (''localhost'', 11434)),
    (''deepseek'', (''api.deepseek.com'', 443)),
    (''x_ai'', (''api.x.ai'', 443)),
    (''huggingface'', (''api-inference.huggingface.co'', 443)),
    (''ibm.watsonx.ai'', (''us-south.ml.cloud.ibm.com'', 443))]"

definition get_server_address_for_provider :: "string \<Rightarrow> string \<times> int" where
  "get_server_address_for_provider provider_name = dget_or PROVIDER_DEFAULT_ENDPOINTS provider_name ([], 0)"

section \<open>Lemmas\<close>

lemma general_tokens_eq: "general_tokens text = (int (length text) + 1) div 2"
proof -
  have "\<lceil>rat_of_nat (length text) / 2\<rceil> = - ((- int (length text)) div 2)"
    using ceiling_divide_eq_div [of "int (length text)" 2, where 'a = rat] by simp
  then show ?thesis by (simp add: general_tokens_def)
qed

lemma general_tokens_nonneg [simp]: "0 \<le> general_tokens text"
  by (simp add: general_tokens_eq)

lemma per_thousand_int [simp]: "per_thousand (PInt n) = Inr (PFloat (of_int n / 1000))"
  by (simp add: per_thousand_def)

lemma py_mul_float_num:
  "as_num y = Some b \<Longrightarrow> py_mul (PFloat a) y = Inr (PFloat (a * b))"
  by (cases y) (auto simp: py_mul_def)

text \<open>A chat price is a number under both keys.\<close>

definition chat_priced :: "pyval \<Rightarrow> pyval \<Rightarrow> rat \<Rightarrow> rat \<Rightarrow> bool" where
  "chat_priced pricing_info model pp cp \<longleftrightarrow>
     (\<exists>p c. model_price ''chat'' pricing_info model ''promptPrice'' = Inr p \<and> as_num p = Some pp \<and>
            model_price ''chat'' pricing_info model ''completionPrice'' = Inr c \<and> as_num c = Some cp)"

lemma chat_cost_priced:
  "chat_priced pricing_info model pp cp \<Longrightarrow>
     get_chat_model_cost model pricing_info (PInt i) (PInt j)
       = PFloat (of_int i / 1000 * pp + of_int j / 1000 * cp)"
  by (auto simp: chat_priced_def get_chat_model_cost_def or_zero_def py_mul_float_num py_add_def)

lemma chat_cost_unpriced:
  "model_price ''chat'' pricing_info model ''promptPrice'' = Inl e
     \<or> model_price ''chat'' pricing_info model ''completionPrice'' = Inl e \<Longrightarrow>
     get_chat_model_cost model pricing_info p c = PInt 0"
  by (auto simp: get_chat_model_cost_def or_zero_def res_bind_def split: sum.splits)

lemma length_time_diffs [simp]: "length (time_diffs ts) = length ts - 1"
  by (simp add: time_diffs_def)

lemma time_diffs_Cons: "time_diffs (a # b # ts) = (b - a) # time_diffs (b # ts)"
proof -
  have "[1..<length (a # b # ts)] = 1 # map Suc [1..<length (b # ts)]"
    by (simp add: upt_conv_Cons map_Suc_upt del: upt_Suc)
  moreover have "map (\<lambda>i. (a # b # ts) ! i - (a # b # ts) ! (i - 1)) (map Suc [1..<length (b # ts)])
      = map (\<lambda>i. (b # ts) ! i - (b # ts) ! (i - 1)) [1..<length (b # ts)]"
    by (auto simp: nth_Cons' )
  ultimately show ?thesis unfolding time_diffs_def by (simp del: upt_Suc)
qed

text \<open>The inter-chunk times telescope.\<close>

lemma sum_time_diffs: "sum_list (time_diffs (t # ts)) = last (t # ts) - t"
proof (induction ts arbitrary: t)
  case Nil
  then show ?case by (simp add: time_diffs_def)
next
  case (Cons b ts)
  then show ?case by (simp add: time_diffs_Cons)
qed

lemma time_diffs_nonneg: "sorted ts \<Longrightarrow> x \<in> set (time_diffs ts) \<Longrightarrow> 0 \<le> x"
  by (auto simp: time_diffs_def sorted_iff_nth_mono)

lemma endpoints_distinct: "distinct (dkeys PROVIDER_DEFAULT_ENDPOINTS)"
  by (simp add: PROVIDER_DEFAULT_ENDPOINTS_def)

end
