(* ===== verification/Telemetry.thy ===== *)
theory Telemetry
  imports Otel Pricing
begin

text \<open>
  Spans, metric recording and the ambient context of \<open>openlit/__helpers.py\<close>.  A metric call appends a
  measurement to a log; \<open>metrics["k"]\<close> on an absent key raises \<open>KeyError\<close>, and \<open>record\<close> on a
  counter or \<open>add\<close> on a histogram raises \<open>AttributeError\<close>.
\<close>

section \<open>Context variables\<close>

text \<open>
  A \<open>ContextVar\<close>: its value, and the tokens \<open>set\<close> has handed out.  A token holds the previous value;
  resetting with a used token raises \<open>RuntimeError\<close>.
\<close>

record 'v token =
  tok_id :: nat
  tok_old :: 'v

record 'v ctxvar =
  cv_value :: 'v
  cv_issued :: nat
  cv_used :: "nat list"

definition ctx_get :: "'v ctxvar \<Rightarrow> 'v" where
  "ctx_get cv = cv_value cv"

definition ctx_set :: "'v \<Rightarrow> 'v ctxvar \<Rightarrow> 'v token \<times> 'v ctxvar" where
  "ctx_set v cv = (\<lparr>tok_id = cv_issued cv, tok_old = cv_value cv\<rparr>,
     cv\<lparr>cv_value := v, cv_issued := Suc (cv_issued cv)\<rparr>)"

definition ctx_reset :: "'v token \<Rightarrow> 'v ctxvar \<Rightarrow> unit res \<times> 'v ctxvar" where
  "ctx_reset tok cv =
     (if tok_id tok \<in> set (cv_used cv) then (Inl (PyExc RuntimeError ''Token has already been used once''), cv)
      else (Inr (), cv\<lparr>cv_value := tok_old tok, cv_used := tok_id tok # cv_used cv\<rparr>))"

text \<open>The contract every set/try/finally-reset bracket in the sources relies on.\<close>

locale ctx_slot =
  fixes get :: "'s \<Rightarrow> 'v"
    and set_var :: "'v \<Rightarrow> 's \<Rightarrow> 't \<times> 's"
    and reset :: "'t \<Rightarrow> 's \<Rightarrow> unit res \<times> 's"
    and open_tok :: "'t \<Rightarrow> 's \<Rightarrow> bool"
    and old :: "'t \<Rightarrow> 'v"
  assumes get_set: "set_var v s = (t, s') \<Longrightarrow> get s' = v \<and> old t = get s"
    and reset_open: "open_tok t s \<Longrightarrow> \<exists>s'. reset t s = (Inr (), s') \<and> get s' = old t \<and> \<not> open_tok t s'"
begin

text \<open>A bracket that leaves its own token open restores the value it found, whatever ran inside.\<close>

lemma bracket_restores:
  assumes "set_var v s = (t, s1)" and "open_tok t s2"
  shows "\<exists>s3. reset t s2 = (Inr (), s3) \<and> get s3 = get s"
  using get_set [OF assms(1)] reset_open [OF assms(2)] by auto

end

interpretation cv: ctx_slot ctx_get ctx_set ctx_reset
  "\<lambda>t cv. tok_id t \<notin> set (cv_used cv)" tok_old
  by unfold_locales (auto simp: ctx_get_def ctx_set_def ctx_reset_def)

text \<open>The five variables of the module.\<close>

record ambient =
  am_agent_name :: "string option ctxvar"
  am_framework_llm :: "bool ctxvar"
  am_langgraph_wrapper :: "bool ctxvar"
  am_conversation_id :: "string ctxvar"
  am_create_agent :: "bool ctxvar"

definition fresh_var :: "'v \<Rightarrow> 'v ctxvar" where
  "fresh_var v = \<lparr>cv_value = v, cv_issued = 0, cv_used = []\<rparr>"

definition initial_ambient :: ambient where
  "initial_ambient = \<lparr>am_agent_name = fresh_var None, am_framework_llm = fresh_var False,
     am_langgraph_wrapper = fresh_var False, am_conversation_id = fresh_var [], am_create_agent = fresh_var False\<rparr>"

definition set_agent_name :: "string option \<Rightarrow> ambient \<Rightarrow> string option token \<times> ambient" where
  "set_agent_name name am = (case ctx_set name (am_agent_name am) of (t, cv) \<Rightarrow> (t, am\<lparr>am_agent_name := cv\<rparr>))"

definition reset_agent_name :: "string option token \<Rightarrow> ambient \<Rightarrow> unit res \<times> ambient" where
  "reset_agent_name tok am = (case ctx_reset tok (am_agent_name am) of (r, cv) \<Rightarrow> (r, am\<lparr>am_agent_name := cv\<rparr>))"

definition get_agent_name :: "ambient \<Rightarrow> string option" where
  "get_agent_name am = ctx_get (am_agent_name am)"

definition set_framework_llm_active :: "ambient \<Rightarrow> bool token \<times> ambient" where
  "set_framework_llm_active am =
     (case ctx_set True (am_framework_llm am) of (t, cv) \<Rightarrow> (t, am\<lparr>am_framework_llm := cv\<rparr>))"

definition reset_framework_llm_active :: "bool token \<Rightarrow> ambient \<Rightarrow> unit res \<times> ambient" where
  "reset_framework_llm_active tok am =
     (case ctx_reset tok (am_framework_llm am) of (r, cv) \<Rightarrow> (r, am\<lparr>am_framework_llm := cv\<rparr>))"

definition is_framework_llm_active :: "ambient \<Rightarrow> bool" where
  "is_framework_llm_active am = ctx_get (am_framework_llm am)"

definition set_langgraph_wrapper_active :: "ambient \<Rightarrow> bool token \<times> ambient" where
  "set_langgraph_wrapper_active am =
     (case ctx_set True (am_langgraph_wrapper am) of (t, cv) \<Rightarrow> (t, am\<lparr>am_langgraph_wrapper := cv\<rparr>))"

definition reset_langgraph_wrapper_active :: "bool token \<Rightarrow> ambient \<Rightarrow> unit res \<times> ambient" where
  "reset_langgraph_wrapper_active tok am =
     (case ctx_reset tok (am_langgraph_wrapper am) of (r, cv) \<Rightarrow> (r, am\<lparr>am_langgraph_wrapper := cv\<rparr>))"

definition is_langgraph_wrapper_active :: "ambient \<Rightarrow> bool" where
  "is_langgraph_wrapper_active am = ctx_get (am_langgraph_wrapper am)"

definition set_langgraph_conversation_id :: "string \<Rightarrow> ambient \<Rightarrow> string token \<times> ambient" where
  "set_langgraph_conversation_id conv_id am =
     (case ctx_set conv_id (am_conversation_id am) of (t, cv) \<Rightarrow> (t, am\<lparr>am_conversation_id := cv\<rparr>))"

definition reset_langgraph_conversation_id :: "string token \<Rightarrow> ambient \<Rightarrow> unit res \<times> ambient" where
  "reset_langgraph_conversation_id tok am =
     (case ctx_reset tok (am_conversation_id am) of (r, cv) \<Rightarrow> (r, am\<lparr>am_conversation_id := cv\<rparr>))"

definition get_langgraph_conversation_id :: "ambient \<Rightarrow> string" where
  "get_langgraph_conversation_id am = ctx_get (am_conversation_id am)"

definition set_create_agent_active :: "ambient \<Rightarrow> bool token \<times> ambient" where
  "set_create_agent_active am =
     (case ctx_set True (am_create_agent am) of (t, cv) \<Rightarrow> (t, am\<lparr>am_create_agent := cv\<rparr>))"

definition reset_create_agent_active :: "bool token \<Rightarrow> ambient \<Rightarrow> unit res \<times> ambient" where
  "reset_create_agent_active tok am =
     (case ctx_reset tok (am_create_agent am) of (r, cv) \<Rightarrow> (r, am\<lparr>am_create_agent := cv\<rparr>))"

definition is_create_agent_active :: "ambient \<Rightarrow> bool" where
  "is_create_agent_active am = ctx_get (am_create_agent am)"

text \<open>\<open>with openlit.agent_context(name): body\<close>.  The \<open>finally\<close> clause runs on both exits; an
  exception of the reset replaces the body's.\<close>

definition agent_context :: "string option \<Rightarrow> (ambient, 'a) prog \<Rightarrow> (ambient, 'a) prog" where
  "agent_context name body am =
     (case set_agent_name name am of (tok, am1) \<Rightarrow>
        (case body am1 of (r, am2) \<Rightarrow>
           (case reset_agent_name tok am2 of
              (Inl e, am3) \<Rightarrow> (Inl e, am3)
            | (Inr _, am3) \<Rightarrow> (r, am3))))"

section \<open>Spans\<close>

datatype span_status = Unset | StatusOk | StatusError

record span =
  sp_attributes :: "(string, pyval) dict"
  sp_status :: span_status
  sp_exceptions :: "pyexc list"
  sp_events :: "(string \<times> (string, pyval) dict) list"
  sp_ended :: bool

definition fresh_span :: span where
  "fresh_span = \<lparr>sp_attributes = [], sp_status = Unset, sp_exceptions = [], sp_events = [], sp_ended = False\<rparr>"

text \<open>The OpenTelemetry API: writes to an ended span are ignored, and a status \<open>Ok\<close> is final.  The
  attributes are those passed to the span; what the SDK then does with their values is not modelled.\<close>

definition set_attribute :: "string \<Rightarrow> pyval \<Rightarrow> span \<Rightarrow> span" where
  "set_attribute k v sp = (if sp_ended sp then sp else sp\<lparr>sp_attributes := dput k v (sp_attributes sp)\<rparr>)"

definition set_status :: "span_status \<Rightarrow> span \<Rightarrow> span" where
  "set_status st sp = (if sp_ended sp \<or> sp_status sp = StatusOk then sp else sp\<lparr>sp_status := st\<rparr>)"

definition record_exception :: "pyexc \<Rightarrow> span \<Rightarrow> span" where
  "record_exception e sp = (if sp_ended sp then sp else sp\<lparr>sp_exceptions := sp_exceptions sp @ [e]\<rparr>)"

definition add_event :: "string \<Rightarrow> (string, pyval) dict \<Rightarrow> span \<Rightarrow> span" where
  "add_event name attributes sp = (if sp_ended sp then sp else sp\<lparr>sp_events := sp_events sp @ [(name, attributes)]\<rparr>)"

definition end_span :: "span \<Rightarrow> span" where
  "end_span sp = sp\<lparr>sp_ended := True\<rparr>"

text \<open>Leaving \<open>with span:\<close>; and \<open>with tracer.start_as_current_span(...):\<close>, which records subclasses of
  \<open>Exception\<close> only.\<close>

definition leave_span :: "pyexc option \<Rightarrow> span \<Rightarrow> span" where
  "leave_span exc sp = end_span (case exc of None \<Rightarrow> sp | Some e \<Rightarrow> set_status StatusError (record_exception e sp))"

definition current_span :: "(span, 'a) prog \<Rightarrow> (span, 'a) prog" where
  "current_span body sp =
     (case body sp of
        (Inr v, sp) \<Rightarrow> (Inr v, leave_span None sp)
      | (Inl e, sp) \<Rightarrow> (Inl e, leave_span (if is_Exception e then Some e else None) sp))"

definition set_attributes :: "(string \<times> pyval) list \<Rightarrow> span \<Rightarrow> span" where
  "set_attributes kvs sp = fold (\<lambda>(k, v). set_attribute k v) kvs sp"

definition handle_exception :: "pyexc \<Rightarrow> span \<Rightarrow> span" where
  "handle_exception e sp =
     (let sp = record_exception e sp;
          sp = set_status StatusError sp;
          n = class_name (exc_class e);
          error_type = (if n = [] then ''_OTHER'' else n)
      in set_attribute ERROR_TYPE (PStr error_type) sp)"

section \<open>Metric attributes\<close>

type_synonym attributes = "(string, pyval) dict"

record metric_args =
  ma_service_name :: string
  ma_environment :: string
  ma_operation :: string
  ma_system :: string
  ma_request_model :: pyval
  ma_server_address :: pyval
  ma_server_port :: pyval
  ma_response_model :: pyval

definition opt_attr :: "string \<Rightarrow> string option \<Rightarrow> attributes \<Rightarrow> attributes" where
  "opt_attr k v attributes =
     (case v of None \<Rightarrow> attributes | Some s \<Rightarrow> (if s = [] then attributes else dput k (PStr s) attributes))"

definition create_metrics_attributes ::
  "string option \<Rightarrow> metric_args \<Rightarrow> string option \<Rightarrow> string option \<Rightarrow> bool \<Rightarrow> attributes" where
  "create_metrics_attributes current_agent_name args token_type error_type include_agent_name =
     (let attributes = dict_of [
            (TELEMETRY_SDK_NAME, PStr ''openlit''),
            (SERVICE_NAME, PStr (ma_service_name args)),
            (DEPLOYMENT_ENVIRONMENT, PStr (ma_environment args)),
            (GEN_AI_OPERATION, PStr (ma_operation args)),
            (GEN_AI_PROVIDER_NAME, PStr (ma_system args)),
            (GEN_AI_REQUEST_MODEL, ma_request_model args),
            (SERVER_ADDRESS, ma_server_address args),
            (SERVER_PORT, ma_server_port args),
            (GEN_AI_RESPONSE_MODEL, ma_response_model args)];
          attributes = (if include_agent_name then opt_attr GEN_AI_AGENT_NAME current_agent_name attributes
                        else attributes);
          attributes = opt_attr GEN_AI_TOKEN_TYPE token_type attributes
      in opt_attr ERROR_TYPE error_type attributes)"

definition create_db_metrics_attributes ::
  "string \<Rightarrow> string \<Rightarrow> string \<Rightarrow> string \<Rightarrow> pyval \<Rightarrow> pyval \<Rightarrow> attributes" where
  "create_db_metrics_attributes service_name environment db_system db_operation server_address server_port =
     dict_of [
       (TELEMETRY_SDK_NAME, PStr ''openlit''),
       (SERVICE_NAME, PStr service_name),
       (DEPLOYMENT_ENVIRONMENT, PStr environment),
       (DB_SYSTEM_NAME, PStr db_system),
       (DB_OPERATION_NAME, PStr db_operation),
       (SERVER_ADDRESS, server_address),
       (SERVER_PORT, server_port)]"

section \<open>Measurements\<close>

record measurement =
  me_metric :: string
  me_value :: pyval
  me_attributes :: attributes

type_synonym metrics = "(string, instrument) dict"

type_synonym 'a recording = "(measurement list, 'a) prog"

text \<open>What one instrumented call leaves behind: its span, the measurements, the emitted events and the log.\<close>

record tele =
  tl_span :: span
  tl_measurements :: "measurement list"
  tl_events :: "(string, pyval) dict list"
  tl_log :: "log_line list"

definition fresh_tele :: tele where
  "fresh_tele = \<lparr>tl_span = fresh_span, tl_measurements = [], tl_events = [], tl_log = []\<rparr>"

definition on_span :: "(span \<Rightarrow> span) \<Rightarrow> tele \<Rightarrow> tele" where
  "on_span f t = t\<lparr>tl_span := f (tl_span t)\<rparr>"

definition instrument_call :: "instrument_kind \<Rightarrow> string \<Rightarrow> metrics \<Rightarrow> string \<Rightarrow> pyval \<Rightarrow> attributes \<Rightarrow> unit recording" where
  "instrument_call kind meth metrics key value attributes =
     (case dget metrics key of
        None \<Rightarrow> praise (PyExc KeyError key)
      | Some i \<Rightarrow> (if in_kind i = kind
          then pmodify (\<lambda>ms. ms @ [\<lparr>me_metric = key, me_value = value, me_attributes = attributes\<rparr>])
          else praise (PyExc AttributeError meth)))"

definition record_metric :: "metrics \<Rightarrow> string \<Rightarrow> pyval \<Rightarrow> attributes \<Rightarrow> unit recording" where
  "record_metric = instrument_call Histogram ''record''"

definition add_metric :: "metrics \<Rightarrow> string \<Rightarrow> pyval \<Rightarrow> attributes \<Rightarrow> unit recording" where
  "add_metric = instrument_call Counter ''add''"

text \<open>\<open>if not metrics\<close> for a parameter that may be \<open>None\<close>.\<close>

definition falsy_metrics :: "metrics option \<Rightarrow> bool" where
  "falsy_metrics metrics \<longleftrightarrow> (case metrics of None \<Rightarrow> True | Some m \<Rightarrow> m = [])"

record completion =
  co_args :: metric_args
  co_start_time :: rat
  co_end_time :: rat
  co_input_tokens :: "int option"
  co_output_tokens :: "int option"
  co_cost :: pyval
  co_tbt :: "rat option"
  co_ttft :: "rat option"
  co_error_type :: "string option"
  co_is_stream :: bool
  co_time_per_chunk :: "rat list option"

text \<open>Truthiness of an optional number or list.\<close>

definition truthy :: "'a::zero option \<Rightarrow> bool" where
  "truthy x \<longleftrightarrow> (case x of None \<Rightarrow> False | Some n \<Rightarrow> n \<noteq> 0)"

definition token_attributes :: "string \<Rightarrow> attributes \<Rightarrow> attributes" where
  "token_attributes token_type base_attributes = dput GEN_AI_TOKEN_TYPE (PStr token_type) base_attributes"

definition server_duration :: "completion \<Rightarrow> rat" where
  "server_duration c =
     (case (co_ttft c, co_output_tokens c) of
        (Some ttft, Some output_tokens) \<Rightarrow>
          (if truthy (co_tbt c) \<and> 1 \<le> output_tokens
           then ttft + the (co_tbt c) * of_int (output_tokens - 1)
           else co_end_time c - co_start_time c)
      | _ \<Rightarrow> co_end_time c - co_start_time c)"

definition record_completion_metrics :: "string option \<Rightarrow> metrics \<Rightarrow> completion \<Rightarrow> unit recording" where
  "record_completion_metrics current_agent_name metrics c =
     (let base_attributes =
        create_metrics_attributes current_agent_name (co_args c) None (co_error_type c) True in
      pbind (pwhen (truthy (co_input_tokens c))
        (record_metric metrics ''genai_client_usage_tokens'' (PInt (the (co_input_tokens c)))
           (token_attributes GEN_AI_TOKEN_TYPE_INPUT base_attributes))) (\<lambda>_.
      pbind (pwhen (truthy (co_output_tokens c))
        (record_metric metrics ''genai_client_usage_tokens'' (PInt (the (co_output_tokens c)))
           (token_attributes GEN_AI_TOKEN_TYPE_OUTPUT base_attributes))) (\<lambda>_.
      pbind (record_metric metrics ''genai_client_operation_duration''
           (PFloat (co_end_time c - co_start_time c)) base_attributes) (\<lambda>_.
      pbind (pwhen (co_is_stream c \<and> truthy (co_ttft c) \<and> dmem ''genai_client_time_to_first_chunk'' metrics)
        (record_metric metrics ''genai_client_time_to_first_chunk'' (PFloat (the (co_ttft c))) base_attributes)) (\<lambda>_.
      pbind (case co_time_per_chunk c of
               None \<Rightarrow> pret ()
             | Some obs \<Rightarrow> pwhen (obs \<noteq> [] \<and> dmem ''genai_client_time_per_output_chunk'' metrics)
                 (pfor obs (\<lambda>duration_sec.
                    record_metric metrics ''genai_client_time_per_output_chunk'' (PFloat duration_sec) base_attributes))) (\<lambda>_.
      pbind (pwhen (truthy (co_tbt c))
        (record_metric metrics ''genai_server_tbt'' (PFloat (the (co_tbt c))) base_attributes)) (\<lambda>_.
      pbind (pwhen (truthy (co_ttft c))
        (record_metric metrics ''genai_server_ttft'' (PFloat (the (co_ttft c))) base_attributes)) (\<lambda>_.
      pbind (pwhen (dmem ''genai_server_request_duration'' metrics)
        (record_metric metrics ''genai_server_request_duration'' (PFloat (server_duration c)) base_attributes)) (\<lambda>_.
      pwhen (dmem ''genai_cost'' metrics)
        (record_metric metrics ''genai_cost'' (co_cost c) base_attributes))))))))))"


section \<open>The other recorders\<close>

definition record_agent_duration ::
  "metrics option \<Rightarrow> string \<Rightarrow> rat \<Rightarrow> string \<Rightarrow> string option \<Rightarrow> string option \<Rightarrow> unit recording" where
  "record_agent_duration metrics agent_name duration operation system error_type =
     (case metrics of None \<Rightarrow> pret ()
      | Some m \<Rightarrow>
         (if m = [] \<or> \<not> dmem ''genai_agent_operation_duration'' m then pret ()
          else let attributes = dict_of [(GEN_AI_AGENT_NAME, PStr agent_name), (GEN_AI_OPERATION, PStr operation)];
                   attributes = opt_attr GEN_AI_PROVIDER_NAME system attributes;
                   attributes = opt_attr ERROR_TYPE error_type attributes
               in record_metric m ''genai_agent_operation_duration'' (PFloat duration) attributes))"

definition record_agent_invocation ::
  "metrics option \<Rightarrow> string \<Rightarrow> string \<Rightarrow> string option \<Rightarrow> unit recording" where
  "record_agent_invocation metrics source_agent target_agent system =
     (case metrics of None \<Rightarrow> pret ()
      | Some m \<Rightarrow>
         (if m = [] \<or> \<not> dmem ''genai_agent_invocations'' m then pret ()
          else let attributes = dict_of [(GEN_AI_AGENT_SOURCE, PStr source_agent), (GEN_AI_AGENT_TARGET, PStr target_agent)];
                   attributes = opt_attr GEN_AI_PROVIDER_NAME system attributes
               in add_metric m ''genai_agent_invocations'' (PInt 1) attributes))"

definition record_agent_tool_error ::
  "metrics option \<Rightarrow> string \<Rightarrow> string \<Rightarrow> string option \<Rightarrow> string option \<Rightarrow> unit recording" where
  "record_agent_tool_error metrics agent_name tool_name system model =
     (case metrics of None \<Rightarrow> pret ()
      | Some m \<Rightarrow>
         (if m = [] \<or> \<not> dmem ''genai_agent_tool_errors'' m then pret ()
          else let attributes = dict_of [(GEN_AI_AGENT_NAME, PStr agent_name), (''gen_ai.tool.name'', PStr tool_name)];
                   attributes = opt_attr GEN_AI_PROVIDER_NAME system attributes;
                   attributes = opt_attr GEN_AI_REQUEST_MODEL model attributes
               in add_metric m ''genai_agent_tool_errors'' (PInt 1) attributes))"

text \<open>The public wrappers of \<open>openlit/__init__.py\<close> over the configured metrics: they never raise.\<close>

definition log_agent_invocation ::
  "metrics option \<Rightarrow> string \<Rightarrow> string \<Rightarrow> string option \<Rightarrow> unit recording" where
  "log_agent_invocation configured source_agent target_agent system =
     ptry (pwhen (\<not> falsy_metrics configured) (record_agent_invocation configured source_agent target_agent system))
       (\<lambda>e. pret ())"

definition log_agent_tool_error ::
  "metrics option \<Rightarrow> string \<Rightarrow> string \<Rightarrow> string option \<Rightarrow> string option \<Rightarrow> unit recording" where
  "log_agent_tool_error configured agent_name tool_name system model =
     ptry (pwhen (\<not> falsy_metrics configured) (record_agent_tool_error configured agent_name tool_name system model))
       (\<lambda>e. pret ())"

definition record_embedding_metrics ::
  "metrics \<Rightarrow> metric_args \<Rightarrow> rat \<Rightarrow> rat \<Rightarrow> int option \<Rightarrow> pyval \<Rightarrow> string option \<Rightarrow> unit recording" where
  "record_embedding_metrics metrics args start_time end_time input_tokens cost error_type =
     (let base_attributes = create_metrics_attributes None args None error_type False in
      pbind (pwhen (truthy input_tokens)
        (record_metric metrics ''genai_client_usage_tokens'' (PInt (the input_tokens))
           (token_attributes GEN_AI_TOKEN_TYPE_INPUT base_attributes))) (\<lambda>_.
      pbind (record_metric metrics ''genai_client_operation_duration'' (PFloat (end_time - start_time)) base_attributes) (\<lambda>_.
      pwhen (dmem ''genai_cost'' metrics) (record_metric metrics ''genai_cost'' cost base_attributes))))"

definition record_audio_metrics :: "metrics \<Rightarrow> metric_args \<Rightarrow> rat \<Rightarrow> rat \<Rightarrow> pyval \<Rightarrow> unit recording" where
  "record_audio_metrics metrics args start_time end_time cost =
     (let attributes = create_metrics_attributes None args None None False in
      pbind (record_metric metrics ''genai_client_operation_duration'' (PFloat (end_time - start_time)) attributes) (\<lambda>_.
      pwhen (dmem ''genai_cost'' metrics) (record_metric metrics ''genai_cost'' cost attributes)))"

definition record_image_metrics :: "metrics \<Rightarrow> metric_args \<Rightarrow> rat \<Rightarrow> rat \<Rightarrow> pyval \<Rightarrow> unit recording" where
  "record_image_metrics metrics args start_time end_time cost =
     (let attributes = create_metrics_attributes None args None None False in
      pbind (record_metric metrics ''genai_client_operation_duration'' (PFloat (end_time - start_time)) attributes) (\<lambda>_.
      pwhen (dmem ''genai_cost'' metrics) (record_metric metrics ''genai_cost'' cost attributes)))"

text \<open>The framework recorder passes the literal \<open>unknown\<close> for both models.\<close>

definition record_framework_metrics :: "metrics \<Rightarrow> metric_args \<Rightarrow> rat \<Rightarrow> rat \<Rightarrow> unit recording" where
  "record_framework_metrics metrics args start_time end_time =
     (let attributes = create_metrics_attributes None
        (args\<lparr>ma_request_model := PStr ''unknown'', ma_response_model := PStr ''unknown''\<rparr>) None None False in
      record_metric metrics ''genai_client_operation_duration'' (PFloat (end_time - start_time)) attributes)"

definition record_db_metrics ::
  "metrics \<Rightarrow> string \<Rightarrow> pyval \<Rightarrow> pyval \<Rightarrow> string \<Rightarrow> string \<Rightarrow> rat \<Rightarrow> rat \<Rightarrow> string \<Rightarrow> unit recording" where
  "record_db_metrics metrics db_system server_address server_port environment application_name start_time end_time db_operation =
     (let attributes = create_db_metrics_attributes application_name environment db_system db_operation
        server_address server_port in
      pbind (add_metric metrics ''db_requests'' (PInt 1) attributes) (\<lambda>_.
      record_metric metrics ''db_client_operation_duration'' (PFloat (end_time - start_time)) attributes))"

record mcp_call =
  mc_operation :: string
  mc_method :: string
  mc_transport_type :: "string option"
  mc_tool_name :: "string option"
  mc_resource_uri :: "string option"
  mc_resource_name :: "string option"
  mc_prompt_name :: "string option"
  mc_environment :: string
  mc_application_name :: string
  mc_start_time :: rat
  mc_end_time :: rat
  mc_request_size :: "int option"
  mc_response_size :: "int option"
  mc_is_error :: bool

definition nonempty :: "string option \<Rightarrow> bool" where
  "nonempty s \<longleftrightarrow> s \<noteq> None \<and> s \<noteq> Some []"

definition mcp_attributes :: "mcp_call \<Rightarrow> attributes" where
  "mcp_attributes c =
     (let attributes = dict_of [
            (TELEMETRY_SDK_NAME, PStr ''openlit''),
            (SERVICE_NAME, PStr (mc_application_name c)),
            (DEPLOYMENT_ENVIRONMENT, PStr (mc_environment c)),
            (MCP_OPERATION, PStr (mc_operation c)),
            (MCP_METHOD, PStr (mc_method c)),
            (MCP_SYSTEM, PStr ''mcp'')];
          attributes = opt_attr MCP_TRANSPORT_TYPE (mc_transport_type c) attributes;
          attributes = opt_attr MCP_TOOL_NAME (mc_tool_name c) attributes;
          attributes = opt_attr MCP_RESOURCE_URI (mc_resource_uri c) attributes;
          attributes = opt_attr MCP_RESOURCE_NAME (mc_resource_name c) attributes;
          attributes = opt_attr MCP_PROMPT_NAME (mc_prompt_name c) attributes
      in if mc_transport_type c = Some ''stdio'' then dput MCP_CLIENT_TYPE (PStr ''external_spawn'') attributes
         else if mc_transport_type c = Some ''websocket'' \<or> mc_transport_type c = Some ''sse''
         then dput MCP_CLIENT_TYPE (PStr ''network_client'') attributes
         else attributes)"

text \<open>A recorder guarded by the presence of its instrument.\<close>

definition if_in :: "metrics \<Rightarrow> bool \<Rightarrow> string \<Rightarrow> (string \<Rightarrow> unit recording) \<Rightarrow> unit recording" where
  "if_in metrics b key f = pwhen (b \<and> dmem key metrics) (f key)"

definition record_mcp_metrics :: "metrics option \<Rightarrow> mcp_call \<Rightarrow> unit recording" where
  "record_mcp_metrics metrics_opt c =
     (case metrics_opt of None \<Rightarrow> pret ()
      | Some metrics \<Rightarrow> if metrics = [] then pret () else
      ptry
        (let duration = mc_end_time c - mc_start_time c; a = mcp_attributes c in
         pbind (if_in metrics True ''mcp_requests'' (\<lambda>k. add_metric metrics k (PInt 1) a)) (\<lambda>_.
         pbind (if_in metrics True ''mcp_client_operation_duration'' (\<lambda>k. record_metric metrics k (PFloat duration) a)) (\<lambda>_.
         pbind (if_in metrics (truthy (mc_request_size c)) ''mcp_request_size''
                  (\<lambda>k. record_metric metrics k (PInt (the (mc_request_size c))) a)) (\<lambda>_.
         pbind (if_in metrics (truthy (mc_response_size c)) ''mcp_response_size''
                  (\<lambda>k. record_metric metrics k (PInt (the (mc_response_size c))) a)) (\<lambda>_.
         pbind (if_in metrics (nonempty (mc_transport_type c)) ''mcp_transport_usage'' (\<lambda>k. add_metric metrics k (PInt 1) a)) (\<lambda>_.
         pbind (if_in metrics (nonempty (mc_tool_name c)) ''mcp_tool_calls'' (\<lambda>k. add_metric metrics k (PInt 1) a)) (\<lambda>_.
         pbind (if_in metrics (nonempty (mc_resource_uri c)) ''mcp_resource_reads'' (\<lambda>k. add_metric metrics k (PInt 1) a)) (\<lambda>_.
         pbind (if_in metrics (nonempty (mc_prompt_name c)) ''mcp_prompt_gets'' (\<lambda>k. add_metric metrics k (PInt 1) a)) (\<lambda>_.
         pbind (if_in metrics True ''mcp_errors'' (\<lambda>k. add_metric metrics k (PInt (if mc_is_error c then 1 else 0))
                  (dput ''mcp.error'' (PBool (mc_is_error c)) a))) (\<lambda>_.
         if_in metrics True ''mcp_operation_success_rate''
           (\<lambda>k. record_metric metrics k (PFloat (if mc_is_error c then 0 else 1)) a)))))))))))
        (\<lambda>e. pret ()))"

section \<open>Common span attributes\<close>

record common_span =
  cs_operation :: string
  cs_provider :: string
  cs_server_address :: pyval
  cs_server_port :: pyval
  cs_request_model :: pyval
  cs_response_model :: pyval
  cs_environment :: string
  cs_application_name :: string
  cs_is_stream :: bool
  cs_tbt :: rat
  cs_ttft :: rat
  cs_version :: string

definition common_span_attributes :: "common_span \<Rightarrow> span \<Rightarrow> span" where
  "common_span_attributes c sp =
     (let sp = set_attribute TELEMETRY_SDK_NAME (PStr ''openlit'') sp;
          sp = set_attribute GEN_AI_OPERATION (PStr (cs_operation c)) sp;
          sp = set_attribute GEN_AI_PROVIDER_NAME (PStr (cs_provider c)) sp;
          sp = set_attribute SERVER_ADDRESS (cs_server_address c) sp;
          sp = set_attribute SERVER_PORT (cs_server_port c) sp;
          sp = (if py_truth (cs_request_model c) then set_attribute GEN_AI_REQUEST_MODEL (cs_request_model c) sp else sp);
          sp = (if py_truth (cs_response_model c) then set_attribute GEN_AI_RESPONSE_MODEL (cs_response_model c) sp else sp);
          sp = set_attribute DEPLOYMENT_ENVIRONMENT (PStr (cs_environment c)) sp;
          sp = set_attribute SERVICE_NAME (PStr (cs_application_name c)) sp;
          sp = set_attribute GEN_AI_REQUEST_IS_STREAM (PBool (cs_is_stream c)) sp;
          sp = set_attribute GEN_AI_SERVER_TBT (PFloat (cs_tbt c)) sp;
          sp = set_attribute GEN_AI_SERVER_TTFT (PFloat (cs_ttft c)) sp
      in set_attribute GEN_AI_SDK_VERSION (PStr (cs_version c)) sp)"

definition common_db_span_attributes ::
  "string \<Rightarrow> pyval \<Rightarrow> pyval \<Rightarrow> string \<Rightarrow> string \<Rightarrow> string \<Rightarrow> span \<Rightarrow> span" where
  "common_db_span_attributes db_system server_address server_port environment application_name version sp =
     set_attributes [
       (TELEMETRY_SDK_NAME, PStr ''openlit''),
       (GEN_AI_OPERATION, PStr GEN_AI_OPERATION_TYPE_VECTORDB),
       (DB_SYSTEM_NAME, PStr db_system),
       (SERVER_ADDRESS, server_address),
       (SERVER_PORT, server_port),
       (DEPLOYMENT_ENVIRONMENT, PStr environment),
       (SERVICE_NAME, PStr application_name),
       (DB_SDK_VERSION, PStr version)] sp"

text \<open>\<open>instance\<close> may be \<open>None\<close>; its model name defaults to \<open>unknown\<close>.\<close>

definition common_framework_span_attributes ::
  "string \<Rightarrow> pyval \<Rightarrow> pyval \<Rightarrow> string \<Rightarrow> string \<Rightarrow> string \<Rightarrow> string \<Rightarrow> pyval \<Rightarrow> rat \<Rightarrow> rat \<Rightarrow> span \<Rightarrow> span" where
  "common_framework_span_attributes framework_system server_address server_port environment application_name
     version endpoint inst start_time end_time sp =
     set_attributes [
       (TELEMETRY_SDK_NAME, PStr ''openlit''),
       (GEN_AI_SDK_VERSION, PStr version),
       (GEN_AI_PROVIDER_NAME, PStr framework_system),
       (GEN_AI_OPERATION, PStr endpoint),
       (GEN_AI_REQUEST_MODEL,
          if py_truth inst then py_getattr inst ''model_name'' (PStr ''unknown'') else PStr ''unknown''),
       (SERVER_ADDRESS, server_address),
       (SERVER_PORT, server_port),
       (DEPLOYMENT_ENVIRONMENT, PStr environment),
       (SERVICE_NAME, PStr application_name),
       (GEN_AI_CLIENT_OPERATION_DURATION, PFloat (end_time - start_time))] sp"

section \<open>Lemmas\<close>

lemma metrics_dict_distinct: "distinct (dkeys metrics_dict)"
  by (simp add: metrics_dict_def)

text \<open>On the full set of instruments every call of the recorders appends one measurement.\<close>

lemma record_metric_ok:
  "dget metrics key = Some i \<Longrightarrow> in_kind i = Histogram \<Longrightarrow>
     record_metric metrics key v a = pmodify (\<lambda>ms. ms @ [\<lparr>me_metric = key, me_value = v, me_attributes = a\<rparr>])"
  by (simp add: record_metric_def instrument_call_def)

lemma add_metric_ok:
  "dget metrics key = Some i \<Longrightarrow> in_kind i = Counter \<Longrightarrow>
     add_metric metrics key v a = pmodify (\<lambda>ms. ms @ [\<lparr>me_metric = key, me_value = v, me_attributes = a\<rparr>])"
  by (simp add: add_metric_def instrument_call_def)

definition histogram_keys :: "string list" where
  "histogram_keys = [''genai_client_usage_tokens'', ''genai_client_operation_duration'', ''genai_server_tbt'',
     ''genai_server_ttft'', ''genai_client_time_to_first_chunk'', ''genai_client_time_per_output_chunk'',
     ''genai_server_request_duration'', ''db_client_operation_duration'', ''genai_cost'',
     ''mcp_client_operation_duration'', ''mcp_request_size'', ''mcp_response_size'',
     ''mcp_operation_success_rate'', ''genai_agent_operation_duration'']"

definition counter_keys :: "string list" where
  "counter_keys = [''db_requests'', ''mcp_requests'', ''mcp_tool_calls'', ''mcp_resource_reads'', ''mcp_prompt_gets'',
     ''mcp_transport_usage'', ''mcp_errors'', ''genai_agent_invocations'', ''genai_agent_tool_errors'']"

lemma histogram_keys_kind:
  "list_all (\<lambda>k. map_option in_kind (dget metrics_dict k) = Some Histogram) histogram_keys"
  by (simp add: histogram_keys_def metrics_dict_def histogram_def counter_def)

lemma counter_keys_kind:
  "list_all (\<lambda>k. map_option in_kind (dget metrics_dict k) = Some Counter) counter_keys"
  by (simp add: counter_keys_def metrics_dict_def histogram_def counter_def)

lemma record_metric_full:
  "key \<in> set histogram_keys \<Longrightarrow> record_metric metrics_dict key v a
     = pmodify (\<lambda>ms. ms @ [\<lparr>me_metric = key, me_value = v, me_attributes = a\<rparr>])"
  using histogram_keys_kind by (auto simp: list_all_iff intro: record_metric_ok)

lemma add_metric_full:
  "key \<in> set counter_keys \<Longrightarrow> add_metric metrics_dict key v a
     = pmodify (\<lambda>ms. ms @ [\<lparr>me_metric = key, me_value = v, me_attributes = a\<rparr>])"
  using counter_keys_kind by (auto simp: list_all_iff intro: add_metric_ok)

lemma metric_key_present:
  "key \<in> set histogram_keys \<or> key \<in> set counter_keys \<Longrightarrow> dmem key metrics_dict"
  using histogram_keys_kind counter_keys_kind by (auto simp: list_all_iff dmem_def)


text \<open>Appending to the measurement log.\<close>

definition emit :: "measurement list \<Rightarrow> unit recording" where
  "emit l = pmodify (\<lambda>ms. ms @ l)"

definition measured :: "string \<Rightarrow> pyval \<Rightarrow> attributes \<Rightarrow> measurement" where
  "measured key v a = \<lparr>me_metric = key, me_value = v, me_attributes = a\<rparr>"

lemma emit_simps [simp]:
  "emit l ms = (Inr (), ms @ l)"
  "pbind (emit l) f ms = f () (ms @ l)"
  "pwhen b (emit l) = emit (if b then l else [])"
  by (simp_all add: emit_def fun_eq_iff)

lemma record_metric_emit:
  "key \<in> set histogram_keys \<Longrightarrow> record_metric metrics_dict key v a = emit [measured key v a]"
  by (simp add: record_metric_full emit_def measured_def)

lemma add_metric_emit:
  "key \<in> set counter_keys \<Longrightarrow> add_metric metrics_dict key v a = emit [measured key v a]"
  by (simp add: add_metric_full emit_def measured_def)

lemma pfor_emit: "pfor xs (\<lambda>x. emit [f x]) = emit (map f xs)"
proof
  fix ms
  show "pfor xs (\<lambda>x. emit [f x]) ms = emit (map f xs) ms"
    by (induction xs arbitrary: ms) simp_all
qed

lemma measured_sel [simp]:
  "me_metric (measured k v a) = k" "me_value (measured k v a) = v" "me_attributes (measured k v a) = a"
  by (simp_all add: measured_def)

section \<open>Completion metrics\<close>

text \<open>What one call records, in order.\<close>

definition completion_measurements :: "string option \<Rightarrow> completion \<Rightarrow> measurement list" where
  "completion_measurements agent c =
     (let b = create_metrics_attributes agent (co_args c) None (co_error_type c) True in
      (if truthy (co_input_tokens c) then [measured ''genai_client_usage_tokens'' (PInt (the (co_input_tokens c)))
         (token_attributes GEN_AI_TOKEN_TYPE_INPUT b)] else [])
    @ (if truthy (co_output_tokens c) then [measured ''genai_client_usage_tokens'' (PInt (the (co_output_tokens c)))
         (token_attributes GEN_AI_TOKEN_TYPE_OUTPUT b)] else [])
    @ [measured ''genai_client_operation_duration'' (PFloat (co_end_time c - co_start_time c)) b]
    @ (if co_is_stream c \<and> truthy (co_ttft c)
       then [measured ''genai_client_time_to_first_chunk'' (PFloat (the (co_ttft c))) b] else [])
    @ (case co_time_per_chunk c of None \<Rightarrow> []
       | Some obs \<Rightarrow> map (\<lambda>d. measured ''genai_client_time_per_output_chunk'' (PFloat d) b) obs)
    @ (if truthy (co_tbt c) then [measured ''genai_server_tbt'' (PFloat (the (co_tbt c))) b] else [])
    @ (if truthy (co_ttft c) then [measured ''genai_server_ttft'' (PFloat (the (co_ttft c))) b] else [])
    @ [measured ''genai_server_request_duration'' (PFloat (server_duration c)) b,
       measured ''genai_cost'' (co_cost c) b])"

lemma record_completion_full:
  "record_completion_metrics agent metrics_dict c ms = (Inr (), ms @ completion_measurements agent c)"
proof -
  have keys: "dmem ''genai_client_time_to_first_chunk'' metrics_dict"
    "dmem ''genai_client_time_per_output_chunk'' metrics_dict"
    "dmem ''genai_server_request_duration'' metrics_dict" "dmem ''genai_cost'' metrics_dict"
    by (simp_all add: metric_key_present histogram_keys_def)
  show ?thesis
    unfolding record_completion_metrics_def completion_measurements_def Let_def
    by (cases "co_time_per_chunk c")
       (simp_all add: record_metric_emit histogram_keys_def keys pfor_emit)
qed

lemma attr_names_distinct:
  "distinct [TELEMETRY_SDK_NAME, SERVICE_NAME, DEPLOYMENT_ENVIRONMENT, GEN_AI_OPERATION, GEN_AI_PROVIDER_NAME,
     GEN_AI_REQUEST_MODEL, SERVER_ADDRESS, SERVER_PORT, GEN_AI_RESPONSE_MODEL, GEN_AI_AGENT_NAME,
     GEN_AI_TOKEN_TYPE, ERROR_TYPE]"
  by (simp add: semconv)

lemma dget_opt_attr:
  "dget (opt_attr k v d) k' = (if k' = k \<and> nonempty v then map_option PStr v else dget d k')"
  by (auto simp: opt_attr_def nonempty_def split: option.splits)

lemma dget_create_metrics_attributes:
  "dget (create_metrics_attributes agent args tt et incl) k =
     (if k = ERROR_TYPE \<and> nonempty et then map_option PStr et
      else if k = GEN_AI_TOKEN_TYPE \<and> nonempty tt then map_option PStr tt
      else if k = GEN_AI_AGENT_NAME \<and> incl \<and> nonempty agent then map_option PStr agent
      else map_of [
            (TELEMETRY_SDK_NAME, PStr ''openlit''), (SERVICE_NAME, PStr (ma_service_name args)),
            (DEPLOYMENT_ENVIRONMENT, PStr (ma_environment args)), (GEN_AI_OPERATION, PStr (ma_operation args)),
            (GEN_AI_PROVIDER_NAME, PStr (ma_system args)), (GEN_AI_REQUEST_MODEL, ma_request_model args),
            (SERVER_ADDRESS, ma_server_address args), (SERVER_PORT, ma_server_port args),
            (GEN_AI_RESPONSE_MODEL, ma_response_model args)] k)"
proof -
  let ?kvs = "[(TELEMETRY_SDK_NAME, PStr ''openlit''), (SERVICE_NAME, PStr (ma_service_name args)),
            (DEPLOYMENT_ENVIRONMENT, PStr (ma_environment args)), (GEN_AI_OPERATION, PStr (ma_operation args)),
            (GEN_AI_PROVIDER_NAME, PStr (ma_system args)), (GEN_AI_REQUEST_MODEL, ma_request_model args),
            (SERVER_ADDRESS, ma_server_address args), (SERVER_PORT, ma_server_port args),
            (GEN_AI_RESPONSE_MODEL, ma_response_model args)]"
  have "distinct (map fst ?kvs)" using attr_names_distinct by simp
  then have base: "dget (dict_of ?kvs) k = map_of ?kvs k" by (rule dget_dict_of_distinct)
  show ?thesis
    unfolding create_metrics_attributes_def Let_def
    by (cases incl) (simp_all only: dget_opt_attr base if_True if_False simp_thms)
qed

text \<open>C31: With the instruments the meter set-up creates, recording a completion never raises; the
  duration is recorded exactly once and is the elapsed time; token usage is recorded only under the
  types \<open>input\<close> and \<open>output\<close>; and every measurement of the call carries the error type exactly when one
  was given and the agent name exactly when the context has one.\<close>

theorem completion_metrics_recorded:
  "\<exists>new. record_completion_metrics agent metrics_dict c ms = (Inr (), ms @ new)
     \<and> map me_value (filter (\<lambda>m. me_metric m = ''genai_client_operation_duration'') new)
         = [PFloat (co_end_time c - co_start_time c)]
     \<and> list_all (\<lambda>m. dget (me_attributes m) GEN_AI_TOKEN_TYPE \<in> {Some (PStr ''input''), Some (PStr ''output'')})
          (filter (\<lambda>m. me_metric m = ''genai_client_usage_tokens'') new)
     \<and> list_all (\<lambda>m. dget (me_attributes m) ERROR_TYPE
          = (if nonempty (co_error_type c) then map_option PStr (co_error_type c) else None)) new
     \<and> list_all (\<lambda>m. dget (me_attributes m) GEN_AI_AGENT_NAME
          = (if nonempty agent then map_option PStr agent else None)) new"
proof (intro exI conjI)
  let ?new = "completion_measurements agent c"
  let ?b = "create_metrics_attributes agent (co_args c) None (co_error_type c) True"
  show "record_completion_metrics agent metrics_dict c ms = (Inr (), ms @ ?new)"
    by (rule record_completion_full)
  have attrs: "\<And>m. m \<in> set ?new \<Longrightarrow> me_attributes m = ?b \<or>
      me_attributes m = token_attributes GEN_AI_TOKEN_TYPE_INPUT ?b \<or>
      me_attributes m = token_attributes GEN_AI_TOKEN_TYPE_OUTPUT ?b"
    by (auto simp: completion_measurements_def Let_def split: if_splits option.splits)
  have b: "dget ?b ERROR_TYPE = (if nonempty (co_error_type c) then map_option PStr (co_error_type c) else None)"
    "dget ?b GEN_AI_AGENT_NAME = (if nonempty agent then map_option PStr agent else None)"
    by (simp_all add: dget_create_metrics_attributes semconv)
  show "list_all (\<lambda>m. dget (me_attributes m) ERROR_TYPE
          = (if nonempty (co_error_type c) then map_option PStr (co_error_type c) else None)) ?new"
    unfolding list_all_iff using attrs b(1) by (fastforce simp: token_attributes_def semconv)
  show "list_all (\<lambda>m. dget (me_attributes m) GEN_AI_AGENT_NAME
          = (if nonempty agent then map_option PStr agent else None)) ?new"
    unfolding list_all_iff using attrs b(2) by (fastforce simp: token_attributes_def semconv)
  show "map me_value (filter (\<lambda>m. me_metric m = ''genai_client_operation_duration'') ?new)
         = [PFloat (co_end_time c - co_start_time c)]"
    by (cases "co_time_per_chunk c") (auto simp: completion_measurements_def Let_def filter_empty_conv)
  show "list_all (\<lambda>m. dget (me_attributes m) GEN_AI_TOKEN_TYPE \<in> {Some (PStr ''input''), Some (PStr ''output'')})
          (filter (\<lambda>m. me_metric m = ''genai_client_usage_tokens'') ?new)"
    unfolding list_all_iff completion_measurements_def Let_def token_attributes_def
    by (cases "co_time_per_chunk c") (auto simp: semconv)
qed

end
