(* ===== verification/TelemetryProps.thy ===== *)
theory TelemetryProps
  imports Telemetry
begin

text \<open>
  Properties of the recorders and of the ambient agent name: which calls never raise, what the
  streaming times mean, and that \<open>agent_context\<close> brackets nest.
\<close>

section \<open>Recorders that never raise\<close>

lemma instrument_call_exception:
  "instrument_call kind meth metrics key v a ms = (Inl e, ms') \<Longrightarrow> is_Exception e"
  by (auto simp: instrument_call_def split: option.splits if_splits)

lemma pbind_raises:
  "pbind m f s = (Inl e, t) \<Longrightarrow> m s = (Inl e, t) \<or> (\<exists>x u. m s = (Inr x, u) \<and> f x u = (Inl e, t))"
  by (auto simp: pbind_def split: prod.splits sum.splits)

definition benign :: "'a recording \<Rightarrow> bool" where
  "benign m \<longleftrightarrow> (\<forall>s e t. m s = (Inl e, t) \<longrightarrow> is_Exception e)"

lemma benign_intros [intro]:
  "benign (pret x)"
  "benign (instrument_call kind meth metrics key v a)"
  "benign (record_metric metrics key v a)"
  "benign (add_metric metrics key v a)"
  by (auto simp: benign_def record_metric_def add_metric_def dest: instrument_call_exception)

lemma benign_pbind [intro]: "benign m \<Longrightarrow> (\<And>x. benign (f x)) \<Longrightarrow> benign (pbind m f)"
  unfolding benign_def by (blast dest: pbind_raises)

lemma benign_pwhen [intro]: "benign m \<Longrightarrow> benign (pwhen b m)"
  by (auto simp: pwhen_def)

lemma benign_if_in [intro]: "benign (f key) \<Longrightarrow> benign (if_in metrics b key f)"
  by (auto simp: if_in_def)

lemma benign_if [intro]: "benign m \<Longrightarrow> benign n \<Longrightarrow> benign (if b then m else n)"
  by simp

lemma ptry_benign:
  "benign m \<Longrightarrow> \<exists>t. ptry m (\<lambda>e. pret ()) s = (Inr (), t)"
  using ptry_never_raises [of "\<lambda>e. pret ()" m s] by (auto simp: benign_def)

text \<open>\<open>record_mcp_metrics\<close>, \<open>log_agent_invocation\<close> and \<open>log_agent_tool_error\<close> return normally
  whatever set of instruments they are given, absent, incomplete or of the wrong kind.\<close>

theorem guarded_recorders_return:
  "(\<exists>t. record_mcp_metrics metrics c ms = (Inr (), t))
   \<and> (\<exists>t. log_agent_invocation metrics source target system ms = (Inr (), t))
   \<and> (\<exists>t. log_agent_tool_error metrics agent tool system model ms = (Inr (), t))"
proof (intro conjI)
  show "\<exists>t. record_mcp_metrics metrics c ms = (Inr (), t)"
    unfolding record_mcp_metrics_def Let_def
    by (cases metrics) (auto intro!: ptry_benign benign_pbind benign_if_in)
  have inv: "benign (record_agent_invocation metrics source target system)"
    by (cases metrics) (auto simp: record_agent_invocation_def Let_def)
  have err: "benign (record_agent_tool_error metrics agent tool system model)"
    by (cases metrics) (auto simp: record_agent_tool_error_def Let_def)
  show "\<exists>t. log_agent_invocation metrics source target system ms = (Inr (), t)"
    unfolding log_agent_invocation_def using inv by (intro ptry_benign) auto
  show "\<exists>t. log_agent_tool_error metrics agent tool system model ms = (Inr (), t)"
    unfolding log_agent_tool_error_def using err by (intro ptry_benign) auto
qed

section \<open>MCP metrics\<close>

text \<open>With the instruments of the meter set-up, one MCP call adds exactly one request, one duration,
  one error count (1 for an error, 0 otherwise) and one success rate (the complement); tool calls,
  resource reads and prompt gets are counted exactly when the call names a tool, a resource or a
  prompt; and every one of these measurements carries the operation and the method.\<close>

theorem mcp_metrics_recorded:
  "\<exists>new. record_mcp_metrics (Some metrics_dict) c ms = (Inr (), ms @ new)
     \<and> map me_value (filter (\<lambda>m. me_metric m = ''mcp_requests'') new) = [PInt 1]
     \<and> map me_value (filter (\<lambda>m. me_metric m = ''mcp_client_operation_duration'') new)
         = [PFloat (mc_end_time c - mc_start_time c)]
     \<and> map me_value (filter (\<lambda>m. me_metric m = ''mcp_errors'') new) = [PInt (if mc_is_error c then 1 else 0)]
     \<and> map me_value (filter (\<lambda>m. me_metric m = ''mcp_operation_success_rate'') new)
         = [PFloat (if mc_is_error c then 0 else 1)]
     \<and> (\<exists>m\<in>set new. me_metric m = ''mcp_tool_calls'') = nonempty (mc_tool_name c)
     \<and> (\<exists>m\<in>set new. me_metric m = ''mcp_resource_reads'') = nonempty (mc_resource_uri c)
     \<and> (\<exists>m\<in>set new. me_metric m = ''mcp_prompt_gets'') = nonempty (mc_prompt_name c)
     \<and> list_all (\<lambda>m. dget (me_attributes m) MCP_OPERATION = Some (PStr (mc_operation c))
          \<and> dget (me_attributes m) MCP_METHOD = Some (PStr (mc_method c))) new"
proof -
  let ?a = "mcp_attributes c"
  define new where "new =
      [measured ''mcp_requests'' (PInt 1) ?a,
       measured ''mcp_client_operation_duration'' (PFloat (mc_end_time c - mc_start_time c)) ?a]
    @ (if truthy (mc_request_size c) then [measured ''mcp_request_size'' (PInt (the (mc_request_size c))) ?a] else [])
    @ (if truthy (mc_response_size c) then [measured ''mcp_response_size'' (PInt (the (mc_response_size c))) ?a] else [])
    @ (if nonempty (mc_transport_type c) then [measured ''mcp_transport_usage'' (PInt 1) ?a] else [])
    @ (if nonempty (mc_tool_name c) then [measured ''mcp_tool_calls'' (PInt 1) ?a] else [])
    @ (if nonempty (mc_resource_uri c) then [measured ''mcp_resource_reads'' (PInt 1) ?a] else [])
    @ (if nonempty (mc_prompt_name c) then [measured ''mcp_prompt_gets'' (PInt 1) ?a] else [])
    @ [measured ''mcp_errors'' (PInt (if mc_is_error c then 1 else 0)) (dput ''mcp.error'' (PBool (mc_is_error c)) ?a),
       measured ''mcp_operation_success_rate'' (PFloat (if mc_is_error c then 0 else 1)) ?a]"
  have present: "dmem k metrics_dict" if "k \<in> set histogram_keys \<or> k \<in> set counter_keys" for k
    using that by (rule metric_key_present)
  have "metrics_dict \<noteq> []" by (simp add: metrics_dict_def)
  then have run: "record_mcp_metrics (Some metrics_dict) c ms = (Inr (), ms @ new)"
    unfolding record_mcp_metrics_def Let_def new_def if_in_def ptry_def
    by (simp add: record_metric_emit add_metric_emit histogram_keys_def counter_keys_def present)
  have attrs: "dget ?a MCP_OPERATION = Some (PStr (mc_operation c)) \<and> dget ?a MCP_METHOD = Some (PStr (mc_method c))"
    unfolding mcp_attributes_def Let_def
    by (simp add: dget_opt_attr dict_of_def dupdate_def semconv)
  have "list_all (\<lambda>m. dget (me_attributes m) MCP_OPERATION = Some (PStr (mc_operation c))
          \<and> dget (me_attributes m) MCP_METHOD = Some (PStr (mc_method c))) new"
    using attrs by (auto simp: new_def semconv list_all_iff)
  moreover have "filter (\<lambda>m. me_metric m = ''mcp_requests'') new = [measured ''mcp_requests'' (PInt 1) ?a]"
    "filter (\<lambda>m. me_metric m = ''mcp_client_operation_duration'') new
       = [measured ''mcp_client_operation_duration'' (PFloat (mc_end_time c - mc_start_time c)) ?a]"
    "map me_value (filter (\<lambda>m. me_metric m = ''mcp_errors'') new) = [PInt (if mc_is_error c then 1 else 0)]"
    "map me_value (filter (\<lambda>m. me_metric m = ''mcp_operation_success_rate'') new)
       = [PFloat (if mc_is_error c then 0 else 1)]"
    by (simp_all add: new_def)
  moreover have "(\<exists>m\<in>set new. me_metric m = ''mcp_tool_calls'') = nonempty (mc_tool_name c)"
    "(\<exists>m\<in>set new. me_metric m = ''mcp_resource_reads'') = nonempty (mc_resource_uri c)"
    "(\<exists>m\<in>set new. me_metric m = ''mcp_prompt_gets'') = nonempty (mc_prompt_name c)"
    by (auto simp: new_def split: if_splits)
  ultimately show ?thesis using run by (intro exI [of _ new]) simp
qed

section \<open>Streaming times\<close>



section \<open>Agent contexts nest\<close>

text \<open>Tokens are numbered in issue order, and a used token was issued.\<close>

definition ctx_wf :: "'v ctxvar \<Rightarrow> bool" where
  "ctx_wf cv \<longleftrightarrow> (\<forall>i\<in>set (cv_used cv). i < cv_issued cv)"

text \<open>A body that resets only tokens it obtained itself.\<close>

definition disciplined :: "(ambient, 'a) prog \<Rightarrow> bool" where
  "disciplined body \<longleftrightarrow> (\<forall>am. ctx_wf (am_agent_name am) \<longrightarrow>
     (let cv = am_agent_name am; cv' = am_agent_name (snd (body am)) in
      ctx_wf cv' \<and> cv_issued cv \<le> cv_issued cv'
      \<and> (\<forall>i\<in>set (cv_used cv'). i \<in> set (cv_used cv) \<or> cv_issued cv \<le> i)))"

lemma disciplinedD:
  assumes "disciplined body" and "ctx_wf (am_agent_name am)" and "body am = (r, am')"
  shows "ctx_wf (am_agent_name am')" and "cv_issued (am_agent_name am) \<le> cv_issued (am_agent_name am')"
    and "i \<in> set (cv_used (am_agent_name am')) \<Longrightarrow>
      i \<in> set (cv_used (am_agent_name am)) \<or> cv_issued (am_agent_name am) \<le> i"
proof -
  have "snd (body am) = am'" using assms(3) by simp
  with assms(1,2) show "ctx_wf (am_agent_name am')"
    "cv_issued (am_agent_name am) \<le> cv_issued (am_agent_name am')"
    "i \<in> set (cv_used (am_agent_name am')) \<Longrightarrow>
      i \<in> set (cv_used (am_agent_name am)) \<or> cv_issued (am_agent_name am) \<le> i"
    unfolding disciplined_def Let_def by blast+
qed

lemma agent_context_run:
  assumes "disciplined body" and "ctx_wf (am_agent_name am)"
    and "set_agent_name name am = (tok, am1)" and "body am1 = (r, am2)"
  shows "\<exists>am3. agent_context name body am = (r, am3) \<and> get_agent_name am3 = get_agent_name am
     \<and> ctx_wf (am_agent_name am3) \<and> cv_issued (am_agent_name am) \<le> cv_issued (am_agent_name am3)
     \<and> (\<forall>i\<in>set (cv_used (am_agent_name am3)). i \<in> set (cv_used (am_agent_name am)) \<or> cv_issued (am_agent_name am) \<le> i)"
proof -
  from assms(3) have tok: "tok_id tok = cv_issued (am_agent_name am)" "tok_old tok = get_agent_name am"
    and am1: "cv_issued (am_agent_name am1) = Suc (cv_issued (am_agent_name am))"
      "cv_used (am_agent_name am1) = cv_used (am_agent_name am)"
    by (auto simp: set_agent_name_def ctx_set_def get_agent_name_def ctx_get_def)
  from assms(2) am1 have wf1: "ctx_wf (am_agent_name am1)" by (auto simp: ctx_wf_def)
  note body = disciplinedD [OF assms(1) wf1 assms(4)]
  have fresh: "tok_id tok \<notin> set (cv_used (am_agent_name am2))"
    using body(3) [of "tok_id tok"] am1 tok assms(2) by (auto simp: ctx_wf_def)
  then have "agent_context name body am = (r, am2\<lparr>am_agent_name := (am_agent_name am2)
      \<lparr>cv_value := tok_old tok, cv_used := tok_id tok # cv_used (am_agent_name am2)\<rparr>\<rparr>)"
    using assms(3,4) by (simp add: agent_context_def reset_agent_name_def ctx_reset_def)
  moreover have "\<forall>i\<in>set (cv_used (am_agent_name am2)).
      i \<in> set (cv_used (am_agent_name am)) \<or> cv_issued (am_agent_name am) \<le> i"
    using body(3) am1 by (metis Suc_leD)
  ultimately show ?thesis
    using body(1,2) am1 tok by (simp add: get_agent_name_def ctx_get_def ctx_wf_def Suc_le_eq)
qed

text \<open>C33: \<open>agent_context\<close> runs its body under the given agent name, returns or raises exactly what the
  body does, restores the previous name on both exits, and is itself disciplined, so that contexts
  nest to any depth.\<close>

theorem agent_context_brackets:
  assumes "disciplined body" and "ctx_wf (am_agent_name am)"
  shows "\<exists>am1 am3. get_agent_name am1 = name
     \<and> agent_context name body am = (fst (body am1), am3)
     \<and> get_agent_name am3 = get_agent_name am
     \<and> disciplined (agent_context name body)"
proof -
  obtain tok am1 where set: "set_agent_name name am = (tok, am1)" by force
  obtain r am2 where run: "body am1 = (r, am2)" by force
  have "get_agent_name am1 = name"
    using set by (auto simp: set_agent_name_def get_agent_name_def ctx_set_def ctx_get_def)
  moreover have "disciplined (agent_context name body)"
    unfolding disciplined_def Let_def
  proof (intro allI impI)
    fix a :: ambient assume wf: "ctx_wf (am_agent_name a)"
    obtain t a1 where s: "set_agent_name name a = (t, a1)" by force
    obtain r2 a2 where b: "body a1 = (r2, a2)" by force
    from agent_context_run [OF assms(1) wf s b]
    show "ctx_wf (am_agent_name (snd (agent_context name body a)))
        \<and> cv_issued (am_agent_name a) \<le> cv_issued (am_agent_name (snd (agent_context name body a)))
        \<and> (\<forall>i\<in>set (cv_used (am_agent_name (snd (agent_context name body a)))).
              i \<in> set (cv_used (am_agent_name a)) \<or> cv_issued (am_agent_name a) \<le> i)"
      by auto
  qed
  ultimately show ?thesis using agent_context_run [OF assms set run] run by auto
qed

lemma disciplined_pgets: "disciplined (pgets f)"
  by (simp add: disciplined_def Let_def)

lemma ctx_wf_initial: "ctx_wf (am_agent_name initial_ambient)"
  by (simp add: ctx_wf_def initial_ambient_def fresh_var_def)

theorem agent_context_brackets_witness:
  "\<exists>am1 am3. get_agent_name am1 = Some ''planner''
     \<and> agent_context (Some ''planner'') (pgets get_agent_name) initial_ambient = (fst (pgets get_agent_name am1), am3)
     \<and> get_agent_name am3 = get_agent_name initial_ambient
     \<and> disciplined (agent_context (Some ''planner'') (pgets get_agent_name))"
  by (rule agent_context_brackets [OF disciplined_pgets ctx_wf_initial])

end
