(* ===== verification/Content.thy ===== *)
theory Content
  imports Pricing
begin

text \<open>
  Content handling in \<open>openlit/__helpers.py\<close>: truncation, the normalisation of response objects and
  the formatting of chat messages.  An object's methods the sources call without arguments
  (\<open>model_dump\<close>, \<open>parse\<close>) are attributes holding what the call returns.
\<close>

section \<open>int(x)\<close>

definition digits_value :: "string \<Rightarrow> int option" where
  "digits_value ds = (let pieces = py_split CHR ''_'' ds in
     if list_all (\<lambda>p. p \<noteq> [] \<and> list_all is_digit p) pieces then Some (int (parse_nat (concat pieces))) else None)"

fun py_int :: "pyval \<Rightarrow> int res" where
  "py_int (PInt i) = Inr i"
| "py_int (PBool b) = Inr (if b then 1 else 0)"
| "py_int (PFloat r) = Inr (if 0 \<le> r then \<lfloor>r\<rfloor> else \<lceil>r\<rceil>)"
| "py_int (PStr s) =
     (let t = py_strip s;
          (neg, ds) = (case t of [] \<Rightarrow> (False, []) | c # cs \<Rightarrow>
             (if c = CHR ''-'' then (True, cs) else if c = CHR ''+'' then (False, cs) else (False, t)))
      in case digits_value ds of
           Some n \<Rightarrow> Inr (if neg then - n else n)
         | None \<Rightarrow> Inl (PyExc ValueError ''invalid literal for int()''))"
| "py_int v = Inl (PyExc TypeError ''int() argument must be a string or a number'')"

section \<open>Truncation\<close>

definition truncate_str :: "pyval \<Rightarrow> string \<Rightarrow> string" where
  "truncate_str raw_limit s =
     (if raw_limit = PNone then s
      else case py_int raw_limit of
        Inl e \<Rightarrow> s
      | Inr limit \<Rightarrow>
          (if limit \<le> 0 then s
           else if int (length s) > limit then take (nat limit) s @ ''...'' else s))"

definition truncate_content :: "(pyval \<Rightarrow> string) \<Rightarrow> pyval \<Rightarrow> pyval \<Rightarrow> string" where
  "truncate_content repr raw_limit text =
     truncate_str raw_limit (if text \<noteq> PNone then py_str repr text else [])"

text \<open>\<open>if k in part and isinstance(part[k], str): part[k] = truncate_content(part[k])\<close>.\<close>

definition truncate_field :: "pyval \<Rightarrow> string \<Rightarrow> (string \<times> pyval) list \<Rightarrow> (string \<times> pyval) list" where
  "truncate_field raw_limit k part =
     (case dget part k of Some (PStr s) \<Rightarrow> dput k (PStr (truncate_str raw_limit s)) part | _ \<Rightarrow> part)"

fun truncate_part :: "pyval \<Rightarrow> pyval \<Rightarrow> pyval" where
  "truncate_part raw_limit (PDict part) =
     PDict (truncate_field raw_limit ''response'' (truncate_field raw_limit ''content'' part))"
| "truncate_part raw_limit v = v"

text \<open>One message: its \<open>parts\<close> are updated in place; parts that cannot be iterated raise, and a string
  or a dict iterates over values that are not dicts.\<close>

definition truncate_message :: "pyval \<Rightarrow> pyval \<Rightarrow> pyval res" where
  "truncate_message raw_limit msg =
     (case msg of
        PDict d \<Rightarrow>
          (case dget d ''parts'' of
             None \<Rightarrow> Inr msg
           | Some (PList parts) \<Rightarrow> Inr (PDict (dput ''parts'' (PList (map (truncate_part raw_limit) parts)) d))
           | Some (PStr s) \<Rightarrow> Inr msg
           | Some (PDict e) \<Rightarrow> Inr msg
           | Some v \<Rightarrow> Inl (PyExc TypeError (py_type v @ '' is not iterable'')))
      | _ \<Rightarrow> Inr msg)"

text \<open>The list as the loop leaves it, and whether it raised: messages before the failing one keep
  their truncation.\<close>

fun truncate_loop :: "pyval \<Rightarrow> pyval list \<Rightarrow> pyval list \<times> unit res" where
  "truncate_loop raw_limit [] = ([], Inr ())"
| "truncate_loop raw_limit (msg # msgs) =
     (case truncate_message raw_limit msg of
        Inl e \<Rightarrow> (msg # msgs, Inl e)
      | Inr msg' \<Rightarrow> (case truncate_loop raw_limit msgs of (msgs', r) \<Rightarrow> (msg' # msgs', r)))"

definition truncate_message_content :: "pyval \<Rightarrow> pyval \<Rightarrow> pyval \<times> unit res" where
  "truncate_message_content raw_limit messages =
     (case messages of
        PList msgs \<Rightarrow> (case truncate_loop raw_limit msgs of (msgs', r) \<Rightarrow> (PList msgs', r))
      | _ \<Rightarrow> (messages, Inr ()))"

section \<open>Responses as dicts\<close>

lemma size_dget: "dget a k = Some v \<Longrightarrow> size v < Suc (size_list (size_prod (\<lambda>_. 0) size) a)"
  by (induction a) (auto split: if_splits)

text \<open>The wrapper objects of the client libraries: \<open>model_dump\<close> first, then \<open>parse\<close> recursively; a
  coroutine that was not awaited becomes the empty dict.\<close>

function response_as_dict :: "pyval \<Rightarrow> pyval" where
  "response_as_dict (PObj c a) =
     (if c = ''coroutine'' then PDict []
      else case dget a ''model_dump'' of
        Some v \<Rightarrow> v
      | None \<Rightarrow> (case dget a ''parse'' of Some v \<Rightarrow> response_as_dict v | None \<Rightarrow> PObj c a))"
| "response_as_dict PNone = PNone"
| "response_as_dict (PBool b) = PBool b"
| "response_as_dict (PInt i) = PInt i"
| "response_as_dict (PFloat r) = PFloat r"
| "response_as_dict (PStr s) = PStr s"
| "response_as_dict (PList xs) = PList xs"
| "response_as_dict (PDict d) = PDict d"
  by pat_completeness auto
termination
  by (relation "measure size") (auto dest: size_dget)

section \<open>Message formatting\<close>

definition fixed_roles :: "string list" where
  "fixed_roles = [''user'', ''assistant'', ''system'', ''tool'', ''developer'']"

text \<open>A formatted entry is the pair of its role and content fields.\<close>

type_synonym 'k formatted = "('k, 'k \<times> pyval) dict"

definition empty_formatted :: "string formatted" where
  "empty_formatted = map (\<lambda>role_key. (role_key, ([], PStr []))) fixed_roles"

text \<open>\<open>entry["content"] += " " + content_str\<close>.\<close>

definition append_content :: "pyval \<Rightarrow> pyval \<Rightarrow> pyval res" where
  "append_content old content_str =
     (if py_truth old then res_bind (py_add (PStr '' '') content_str) (py_add old) else Inr content_str)"

definition extract_step :: "(pyval \<Rightarrow> string) \<Rightarrow> pyval \<Rightarrow> string formatted \<Rightarrow> string formatted res" where
  "extract_step repr message formatted_messages =
     (let message = response_as_dict message in
      res_bind (py_get message ''role'' PNone) (\<lambda>role.
      case role of
        PStr r \<Rightarrow>
          (if r \<notin> set fixed_roles then Inr formatted_messages
           else res_bind (py_get message ''content'' (PStr [])) (\<lambda>content.
             let content_str = (case content of
                   PList items \<Rightarrow> PStr (py_join '', '' (map (py_str repr) items)) | _ \<Rightarrow> content);
                 (role_field, old) = dget_or formatted_messages r ([], PStr []) in
             res_bind (append_content old content_str) (\<lambda>new.
               Inr (dput r (if role_field = [] then r else role_field, new) formatted_messages))))
      | _ \<Rightarrow> Inr formatted_messages))"

fun extract_loop :: "(pyval \<Rightarrow> string) \<Rightarrow> pyval list \<Rightarrow> string formatted \<Rightarrow> string formatted res" where
  "extract_loop repr [] f = Inr f"
| "extract_loop repr (m # ms) f = res_bind (extract_step repr m f) (extract_loop repr ms)"

text \<open>Iterating a value: lists, the characters of a string, the keys of a dict.\<close>

fun py_iter :: "pyval \<Rightarrow> pyval list res" where
  "py_iter (PList xs) = Inr xs"
| "py_iter (PStr s) = Inr (map (\<lambda>c. PStr [c]) s)"
| "py_iter (PDict d) = Inr (map PStr (dkeys d))"
| "py_iter v = Inl (PyExc TypeError (py_type v @ '' is not iterable''))"

definition extract_and_format_input :: "(pyval \<Rightarrow> string) \<Rightarrow> pyval \<Rightarrow> string formatted res" where
  "extract_and_format_input repr messages =
     (case messages of
        PStr s \<Rightarrow> Inr (dput ''user'' (''user'', PStr s) empty_formatted)
      | _ \<Rightarrow> res_bind (py_iter messages) (\<lambda>ms. extract_loop repr ms empty_formatted))"

text \<open>\<open>sep.join(values)\<close>: every value must be a string.\<close>

definition join_values :: "string \<Rightarrow> pyval list \<Rightarrow> string res" where
  "join_values sep vs = res_bind (res_map (\<lambda>v. case v of PStr s \<Rightarrow> Inr s
      | _ \<Rightarrow> Inl (PyExc TypeError ''sequence item: expected str instance'')) vs) (\<lambda>ss. Inr (py_join sep ss))"

definition concatenate_all_contents :: "string formatted \<Rightarrow> string res" where
  "concatenate_all_contents formatted_messages =
     join_values '' '' (filter py_truth (map snd (dvalues formatted_messages)))"

text \<open>The text of one content item of the second formatter: only dicts contribute, their \<open>text\<close> and
  \<open>image_url\<close> fields.\<close>

definition item_texts :: "pyval \<Rightarrow> pyval list" where
  "item_texts item = (case item of
     PDict d \<Rightarrow> [dget_or d ''text'' (PStr []), dget_or d ''image_url'' (PStr [])] | _ \<Rightarrow> [])"

definition hashable :: "pyval \<Rightarrow> bool" where
  "hashable v \<longleftrightarrow> (case v of PList xs \<Rightarrow> False | PDict d \<Rightarrow> False | _ \<Rightarrow> True)"

definition format_step :: "pyval \<Rightarrow> pyval formatted \<Rightarrow> pyval formatted res" where
  "format_step message formatted_messages =
     (let message = response_as_dict message in
      res_bind (py_get message ''role'' (PStr ''unknown'')) (\<lambda>role.
      res_bind (py_get message ''content'' (PStr [])) (\<lambda>content.
      if \<not> hashable role then Inl (PyExc TypeError ''unhashable type'')
      else let formatted_messages = (if dmem role formatted_messages then formatted_messages
                 else dput role (role, PStr []) formatted_messages) in
        res_bind (case content of
            PList items \<Rightarrow> res_bind (join_values '', '' (filter py_truth (concat (map item_texts items)))) (\<lambda>s. Inr (PStr s))
          | _ \<Rightarrow> Inr content) (\<lambda>content_str.
        let (role_field, old) = dget_or formatted_messages role (role, PStr []) in
        res_bind (append_content old content_str) (\<lambda>new. Inr (dput role (role_field, new) formatted_messages))))))"

fun format_loop :: "pyval list \<Rightarrow> pyval formatted \<Rightarrow> pyval formatted res" where
  "format_loop [] f = Inr f"
| "format_loop (m # ms) f = res_bind (format_step m f) (format_loop ms)"

definition render_formatted :: "(pyval \<Rightarrow> string) \<Rightarrow> pyval formatted \<Rightarrow> string" where
  "render_formatted repr f = py_join '' ''
     (map (\<lambda>(role, content). py_str repr role @ '': '' @ py_str repr content)
       (filter (\<lambda>(role, content). py_truth content) (dvalues f)))"

definition format_and_concatenate :: "(pyval \<Rightarrow> string) \<Rightarrow> pyval \<Rightarrow> string res" where
  "format_and_concatenate repr messages =
     (case messages of
        PStr s \<Rightarrow> Inr (render_formatted repr [(PStr ''user'', (PStr ''user'', PStr s))])
      | PList ms \<Rightarrow>
          (if list_all (\<lambda>m. py_type m = ''str'') ms then
             res_bind (join_values '' '' ms) (\<lambda>user_content.
               Inr (render_formatted repr [(PStr ''user'', (PStr ''user'', PStr user_content))]))
           else res_bind (format_loop ms []) (\<lambda>f. Inr (render_formatted repr f)))
      | _ \<Rightarrow> res_bind (py_iter messages) (\<lambda>ms. res_bind (format_loop ms []) (\<lambda>f. Inr (render_formatted repr f))))"

end
