(* ===== verification/ContentProps.thy ===== *)
theory ContentProps
  imports Content
begin

text \<open>
  What the content helpers promise: truncation keeps a prefix, is bounded and can be applied again
  without effect; message formatting yields the fixed roles, each with its messages' texts joined in
  order.
\<close>

section \<open>Truncation\<close>

lemma truncate_str_cases:
  obtains (kept) "\<And>s. truncate_str raw_limit s = s"
  | (cut) limit where "0 < limit" "\<And>s. truncate_str raw_limit s =
      (if int (length s) > limit then take (nat limit) s @ ''...'' else s)"
proof (cases "raw_limit = PNone")
  case True
  then show ?thesis using kept by (simp add: truncate_str_def)
next
  case False
  show ?thesis
  proof (cases "py_int raw_limit")
    case (Inl e)
    with False show ?thesis using kept by (simp add: truncate_str_def)
  next
    case (Inr limit)
    with False show ?thesis using kept cut [of limit] by (cases "limit \<le> 0") (simp_all add: truncate_str_def)
  qed
qed

lemma truncate_str_idem [simp]: "truncate_str raw_limit (truncate_str raw_limit s) = truncate_str raw_limit s"
  by (rule truncate_str_cases [of raw_limit]) auto

lemma dput_same: "dget d k = Some v \<Longrightarrow> dput k v d = d"
  by (induction d) (auto split: if_splits)

lemma truncate_field_other: "j \<noteq> k \<Longrightarrow> dget (truncate_field raw_limit k part) j = dget part j"
  by (auto simp: truncate_field_def split: option.split pyval.split)

lemma truncate_field_at:
  "dget (truncate_field raw_limit k part) k
     = (case dget part k of Some (PStr s) \<Rightarrow> Some (PStr (truncate_str raw_limit s)) | v \<Rightarrow> v)"
  by (auto simp: truncate_field_def split: option.split pyval.split)

lemma truncate_field_done:
  "(\<And>s. dget part k = Some (PStr s) \<Longrightarrow> truncate_str raw_limit s = s) \<Longrightarrow> truncate_field raw_limit k part = part"
  by (auto simp: truncate_field_def dput_same split: option.split pyval.split)

lemma truncate_part_idem: "truncate_part raw_limit (truncate_part raw_limit v) = truncate_part raw_limit v"
proof (cases v)
  case (PDict part)
  let ?t = "truncate_field raw_limit ''response'' (truncate_field raw_limit ''content'' part)"
  have "truncate_field raw_limit ''content'' ?t = ?t"
    by (rule truncate_field_done)
      (auto simp: truncate_field_other truncate_field_at split: option.splits pyval.splits)
  moreover have "truncate_field raw_limit ''response'' ?t = ?t"
    by (rule truncate_field_done) (auto simp: truncate_field_at split: option.splits pyval.splits)
  ultimately show ?thesis by (simp add: PDict)
qed simp_all

lemma truncate_message_idem:
  "truncate_message raw_limit msg = Inr msg' \<Longrightarrow> truncate_message raw_limit msg' = Inr msg'"
  by (auto simp: truncate_message_def truncate_part_idem dput_same o_def split: pyval.splits option.splits)

lemma truncate_loop_idem:
  "truncate_loop raw_limit msgs = (msgs', Inr ()) \<Longrightarrow> truncate_loop raw_limit msgs' = (msgs', Inr ())"
  by (induction msgs arbitrary: msgs')
    (auto simp: truncate_message_idem split: sum.splits prod.splits)

text \<open>C40: Truncation keeps at most the configured number of characters and marks the cut by three dots,
  leaves a text within the limit alone, and is idempotent: a message list that has been truncated is
  not changed by truncating it again, whatever the limit is set to.\<close>

theorem truncation_bounded_idempotent:
  "(0 < n \<longrightarrow> truncate_str (PInt n) s = (if int (length s) \<le> n then s else take (nat n) s @ ''...''))
   \<and> (0 < n \<longrightarrow> int (length (truncate_str (PInt n) s)) \<le> n + 3)
   \<and> (truncate_message_content raw_limit m = (m', Inr ()) \<longrightarrow> truncate_message_content raw_limit m' = (m', Inr ()))"
  by (auto simp: truncate_str_def truncate_message_content_def dest: truncate_loop_idem
      split: pyval.splits prod.splits)

theorem truncation_bounded_idempotent_witness:
  "truncate_str (PInt 3) ''abcdef'' = ''abc...''
   \<and> truncate_message_content (PInt 3) (PList [PDict [(''parts'', PList [PDict [(''content'', PStr ''abc...'')]])]])
     = (PList [PDict [(''parts'', PList [PDict [(''content'', PStr ''abc...'')]])]], Inr ())"
proof -
  have "truncate_message_content (PInt 3) (PList [PDict [(''parts'', PList [PDict [(''content'', PStr ''abcdef'')]])]])
     = (PList [PDict [(''parts'', PList [PDict [(''content'', PStr ''abc...'')]])]], Inr ())"
    by (simp add: truncate_message_content_def truncate_message_def truncate_field_def truncate_str_def)
  then show ?thesis
    using truncation_bounded_idempotent [of 3 "''abcdef''" "PInt 3"] by (simp add: numeral_3_eq_3)
qed

section \<open>Formatting\<close>

lemma py_join_snoc: "py_join sep (xs @ [x]) = (if xs = [] then x else py_join sep xs @ sep @ x)"
proof (induction xs)
  case (Cons y ys)
  then show ?case by (cases ys) auto
qed simp

lemma py_join_nonempty: "xs \<noteq> [] \<Longrightarrow> [] \<notin> set xs \<Longrightarrow> py_join sep xs \<noteq> []"
  by (cases xs rule: remdups_adj.cases) auto

text \<open>A message with a string content.\<close>

definition chat_message :: "string \<times> string \<Rightarrow> pyval" where
  "chat_message m = PDict [(''role'', PStr (fst m)), (''content'', PStr (snd m))]"

definition texts_of :: "string \<Rightarrow> (string \<times> string) list \<Rightarrow> string list" where
  "texts_of r ms = map snd (filter (\<lambda>m. fst m = r) ms)"

text \<open>The invariant of the loop: the dict has the fixed roles, and each holds the joined texts of the
  messages read so far.\<close>

definition formats :: "(string \<times> string) list \<Rightarrow> string formatted \<Rightarrow> bool" where
  "formats ms f \<longleftrightarrow> dkeys f = fixed_roles \<and>
     (\<forall>r \<in> set fixed_roles. \<exists>field. dget f r = Some (field, PStr (py_join '' '' (texts_of r ms))))"

lemma formats_empty: "formats [] empty_formatted"
  by (simp add: formats_def empty_formatted_def fixed_roles_def texts_of_def)

lemma texts_of_snoc: "texts_of r (ms @ [m]) = texts_of r ms @ (if fst m = r then [snd m] else [])"
  by (simp add: texts_of_def)

lemma extract_step_formats:
  assumes "formats ms f" and "fst m \<in> set fixed_roles" and "[] \<notin> set (texts_of (fst m) ms)"
  shows "\<exists>f'. extract_step repr (chat_message m) f = Inr f' \<and> formats (ms @ [m]) f'"
proof -
  let ?r = "fst m"
  let ?old = "py_join '' '' (texts_of ?r ms)"
  from assms obtain field where field: "dget f ?r = Some (field, PStr ?old)"
    unfolding formats_def by blast
  let ?f' = "dput ?r (if field = [] then ?r else field, PStr (py_join '' '' (texts_of ?r ms @ [snd m]))) f"
  have "append_content (PStr ?old) (PStr (snd m)) = Inr (PStr (py_join '' '' (texts_of ?r ms @ [snd m])))"
    using py_join_nonempty [OF _ assms(3), of "'' ''"]
    by (cases "texts_of ?r ms = []") (simp_all add: append_content_def py_add_def py_join_snoc)
  then have "extract_step repr (chat_message m) f = Inr ?f'"
    using assms(2) field by (simp add: extract_step_def chat_message_def dget_or_def)
  moreover have "formats (ms @ [m]) ?f'"
    using assms(1,2) by (auto simp: formats_def dkeys_dput texts_of_snoc)
  ultimately show ?thesis by blast
qed

lemma extract_loop_formats:
  assumes "formats done f" and "\<forall>m \<in> set ms. fst m \<in> set fixed_roles" and "\<forall>m \<in> set (done @ ms). snd m \<noteq> []"
  shows "\<exists>f'. extract_loop repr (map chat_message ms) f = Inr f' \<and> formats (done @ ms) f'"
  using assms
proof (induction ms arbitrary: "done" f)
  case (Cons m ms)
  from Cons.prems(3) have "[] \<notin> set (texts_of (fst m) done)" by (force simp: texts_of_def)
  with extract_step_formats [OF Cons.prems(1), of m repr] Cons.prems(2) obtain f1 where
    f1: "extract_step repr (chat_message m) f = Inr f1" "formats (done @ [m]) f1" by auto
  from Cons.IH [OF f1(2)] Cons.prems(2,3) f1(1) show ?case by auto
qed simp

text \<open>Formatting a chat of messages with text contents never raises; the result has the five fixed
  roles in their order, and the content of each is the texts of that role's messages, in order, joined
  by single spaces.\<close>

theorem format_chat_messages:
  assumes "\<forall>m \<in> set ms. fst m \<in> set fixed_roles \<and> snd m \<noteq> []"
  shows "\<exists>f. extract_and_format_input repr (PList (map chat_message ms)) = Inr f
     \<and> dkeys f = fixed_roles
     \<and> (\<forall>r \<in> set fixed_roles. \<exists>field. dget f r = Some (field, PStr (py_join '' '' (texts_of r ms))))"
  using extract_loop_formats [OF formats_empty, of ms repr] assms
  by (auto simp: extract_and_format_input_def formats_def)

theorem format_chat_messages_witness:
  "\<exists>f. extract_and_format_input (\<lambda>_. []) (PList (map chat_message
          [(''user'', ''hi''), (''assistant'', ''yes''), (''user'', ''bye'')])) = Inr f
     \<and> (\<exists>field. dget f ''user'' = Some (field, PStr ''hi bye''))"
proof -
  let ?ms = "[(''user'', ''hi''), (''assistant'', ''yes''), (''user'', ''bye'')]"
  have "py_join '' '' (texts_of ''user'' ?ms) = ''hi bye''" by (simp add: texts_of_def)
  then show ?thesis
    using format_chat_messages [of ?ms "\<lambda>_. []"] by (fastforce simp: fixed_roles_def)
qed

text \<open>The second formatter cannot join an image part whose \<open>image_url\<close> is an object, the form the
  OpenAI API uses: it raises \<open>TypeError\<close> for every such user message.\<close>

theorem format_image_object_raises:
  "format_and_concatenate repr (PList [PDict [(''role'', PStr ''user''),
     (''content'', PList [PDict [(''type'', PStr ''image_url''), (''image_url'', PDict [(''url'', PStr u)])]])]])
   = Inl (PyExc TypeError ''sequence item: expected str instance'')"
  by (simp add: format_and_concatenate_def format_step_def hashable_def item_texts_def join_values_def dmem_def)

end
