(* ===== verification/Instrumentors.thy ===== *)
theory Instrumentors
  imports Prelude
begin

text \<open>
  \<open>openlit/_instrumentors.py\<close> and the instrumentor functions of \<open>openlit/__init__.py\<close>: the two name
  tables, the resolution of instrumentor classes, and the guarded call of each instrumentor.  The import
  system is a parameter: \<open>import_class m c\<close> is importing \<open>m\<close> and reading its attribute \<open>c\<close>,
  \<open>find_spec m\<close> whether the module finder finds \<open>m\<close>; either may raise.
\<close>

section \<open>Name tables\<close>

definition MODULE_NAME_MAP :: "(string, string) dict" where
  "MODULE_NAME_MAP = [
    (''openai'', ''openai''),
    (''anthropic'', ''anthropic''),
    (''cohere'', ''cohere''),
    (''mistral'', ''mistralai''),
    (''bedrock'', ''boto3''),
    (''vertexai'', ''vertexai''),
    (''groq'', ''groq''),
    (''ollama'', ''ollama''),
    (''gpt4all'', ''gpt4all''),
    (''elevenlabs'', ''elevenlabs''),
    (''vllm'', ''vllm''),
    (''google-ai-studio'', ''google.genai''),
    (''azure-ai-inference'', ''azure.ai.inference''),
    (''langchain'', ''langchain_core''),
    (''langgraph'', ''langgraph''),
    (''llama_index'', ''llama_index''),
    (''haystack'', ''haystack''),
    (''mem0'', ''mem0''),
    (''chroma'', ''chromadb''),
    (''pinecone'', ''pinecone''),
    (''qdrant'', ''qdrant_client''),
    (''milvus'', ''pymilvus''),
    (''transformers'', ''transformers''),
    (''litellm'', ''litellm''),
    (''crewai'', ''crewai''),
    (''ag2'', ''ag2''),
    (''autogen'', ''autogen''),
    (''pyautogen'', ''pyautogen''),
    (''multion'', ''multion''),
    (''dynamiq'', ''dynamiq''),
    (''agno'', ''agno''),
    (''reka-api'', ''reka''),
    (''premai'', ''premai''),
    (''julep'', ''julep''),
    (''astra'', ''astrapy''),
    (''ai21'', ''ai21''),
    (''controlflow'', ''controlflow''),
    (''assemblyai'', ''assemblyai''),
    (''crawl4ai'', ''crawl4ai''),
    (''firecrawl'', ''firecrawl''),
    (''letta'', ''letta_client''),
    (''together'', ''together''),
    (''openai-agents'', ''agents''),
    (''pydantic_ai'', ''pydantic_ai''),
    (''sarvam'', ''sarvamai''),
    (''browser-use'', ''browser_use''),
    (''mcp'', ''mcp''),
    (''psycopg'', ''psycopg''),
    (''psycopg-pool'', ''psycopg_pool''),
    (''asgi'', ''asgiref''),
    (''django'', ''django''),
    (''fastapi'', ''fastapi''),
    (''flask'', ''flask''),
    (''pyramid'', ''pyramid''),
    (''starlette'', ''starlette''),
    (''falcon'', ''falcon''),
    (''tornado'', ''tornado''),
    (''aiohttp-client'', ''aiohttp''),
    (''httpx'', ''httpx''),
    (''requests'', ''requests''),
    (''urllib'', ''urllib''),
    (''urllib3'', ''urllib3'')]"

definition INSTRUMENTOR_MAP :: "(string, string) dict" where
  "INSTRUMENTOR_MAP = [
    (''openai'', ''openlit.instrumentation.openai.OpenAIInstrumentor''),
    (''anthropic'', ''openlit.instrumentation.anthropic.AnthropicInstrumentor''),
    (''cohere'', ''openlit.instrumentation.cohere.CohereInstrumentor''),
    (''mistral'', ''openlit.instrumentation.mistral.MistralInstrumentor''),
    (''bedrock'', ''openlit.instrumentation.bedrock.BedrockInstrumentor''),
    (''vertexai'', ''openlit.instrumentation.vertexai.VertexAIInstrumentor''),
    (''groq'', ''openlit.instrumentation.groq.GroqInstrumentor''),
    (''ollama'', ''openlit.instrumentation.ollama.OllamaInstrumentor''),
    (''gpt4all'', ''openlit.instrumentation.gpt4all.GPT4AllInstrumentor''),
    (''elevenlabs'', ''openlit.instrumentation.elevenlabs.ElevenLabsInstrumentor''),
    (''vllm'', ''openlit.instrumentation.vllm.VLLMInstrumentor''),
    (''google-ai-studio'', ''openlit.instrumentation.google_ai_studio.GoogleAIStudioInstrumentor''),
    (''azure-ai-inference'', ''openlit.instrumentation.azure_ai_inference.AzureAIInferenceInstrumentor''),
    (''langchain'', ''openlit.instrumentation.langchain.LangChainInstrumentor''),
    (''langgraph'', ''openlit.instrumentation.langgraph.LangGraphInstrumentor''),
    (''llama_index'', ''openlit.instrumentation.llamaindex.LlamaIndexInstrumentor''),
    (''haystack'', ''openlit.instrumentation.haystack.HaystackInstrumentor''),
    (''mem0'', ''openlit.instrumentation.mem0.Mem0Instrumentor''),
    (''chroma'', ''openlit.instrumentation.chroma.ChromaInstrumentor''),
    (''pinecone'', ''openlit.instrumentation.pinecone.PineconeInstrumentor''),
    (''qdrant'', ''openlit.instrumentation.qdrant.QdrantInstrumentor''),
    (''milvus'', ''openlit.instrumentation.milvus.MilvusInstrumentor''),
    (''transformers'', ''openlit.instrumentation.transformers.TransformersInstrumentor''),
    (''litellm'', ''openlit.instrumentation.litellm.LiteLLMInstrumentor''),
    (''crewai'', ''openlit.instrumentation.crewai.CrewAIInstrumentor''),
    (''ag2'', ''openlit.instrumentation.ag2.AG2Instrumentor''),
    (''multion'', ''openlit.instrumentation.multion.MultiOnInstrumentor''),
    (''autogen'', ''openlit.instrumentation.ag2.AG2Instrumentor''),
    (''pyautogen'', ''openlit.instrumentation.ag2.AG2Instrumentor''),
    (''dynamiq'', ''openlit.instrumentation.dynamiq.DynamiqInstrumentor''),
    (''agno'', ''openlit.instrumentation.agno.AgnoInstrumentor''),
    (''reka-api'', ''openlit.instrumentation.reka.RekaInstrumentor''),
    (''premai'', ''openlit.instrumentation.premai.PremAIInstrumentor''),
    (''julep'', ''openlit.instrumentation.julep.JulepInstrumentor''),
    (''astra'', ''openlit.instrumentation.astra.AstraInstrumentor''),
    (''ai21'', ''openlit.instrumentation.ai21.AI21Instrumentor''),
    (''controlflow'', ''openlit.instrumentation.controlflow.ControlFlowInstrumentor''),
    (''assemblyai'', ''openlit.instrumentation.assemblyai.AssemblyAIInstrumentor''),
    (''crawl4ai'', ''openlit.instrumentation.crawl4ai.Crawl4AIInstrumentor''),
    (''firecrawl'', ''openlit.instrumentation.firecrawl.FireCrawlInstrumentor''),
    (''letta'', ''openlit.instrumentation.letta.LettaInstrumentor''),
    (''together'', ''openlit.instrumentation.together.TogetherInstrumentor''),
    (''openai-agents'', ''openlit.instrumentation.openai_agents.OpenAIAgentsInstrumentor''),
    (''pydantic_ai'', ''openlit.instrumentation.pydantic_ai.PydanticAIInstrumentor''),
    (''sarvam'', ''openlit.instrumentation.sarvam.SarvamInstrumentor''),
    (''browser-use'', ''openlit.instrumentation.browser_use.BrowserUseInstrumentor''),
    (''mcp'', ''openlit.instrumentation.mcp.MCPInstrumentor''),
    (''psycopg'', ''openlit.instrumentation.psycopg.PsycopgInstrumentor''),
    (''psycopg-pool'', ''openlit.instrumentation.psycopg.PsycopgInstrumentor''),
    (''asgi'', ''opentelemetry.instrumentation.asgi.AsgiInstrumentor''),
    (''django'', ''opentelemetry.instrumentation.django.DjangoInstrumentor''),
    (''fastapi'', ''opentelemetry.instrumentation.fastapi.FastAPIInstrumentor''),
    (''flask'', ''opentelemetry.instrumentation.flask.FlaskInstrumentor''),
    (''pyramid'', ''opentelemetry.instrumentation.pyramid.PyramidInstrumentor''),
    (''starlette'', ''opentelemetry.instrumentation.starlette.StarletteInstrumentor''),
    (''falcon'', ''opentelemetry.instrumentation.falcon.FalconInstrumentor''),
    (''tornado'', ''opentelemetry.instrumentation.tornado.TornadoInstrumentor''),
    (''aiohttp-client'', ''opentelemetry.instrumentation.aiohttp_client.AioHttpClientInstrumentor''),
    (''httpx'', ''opentelemetry.instrumentation.httpx.HTTPXClientInstrumentor''),
    (''requests'', ''opentelemetry.instrumentation.requests.RequestsInstrumentor''),
    (''urllib'', ''opentelemetry.instrumentation.urllib.URLLibInstrumentor''),
    (''urllib3'', ''opentelemetry.instrumentation.urllib3.URLLib3Instrumentor'')]"

section \<open>Classes and instances\<close>

text \<open>\<open>s.rsplit(".", 1)\<close> of a string with a dot.\<close>

definition rsplit_dot :: "string \<Rightarrow> string \<times> string" where
  "rsplit_dot s = (let c = rev (takeWhile (\<lambda>x. x \<noteq> CHR ''.'') (rev s))
     in (take (length s - length c - 1) s, c))"

text \<open>A class is named by its module path and its own name.\<close>

definition get_instrumentor_class ::
  "(string \<Rightarrow> string \<Rightarrow> unit res) \<Rightarrow> string \<Rightarrow> (string \<times> string) option res" where
  "get_instrumentor_class import_class name =
     (case dget INSTRUMENTOR_MAP name of
        None \<Rightarrow> Inr None
      | Some path \<Rightarrow>
          (let (module_path, cls) = rsplit_dot path in
           case import_class module_path cls of
             Inr _ \<Rightarrow> Inr (Some (module_path, cls))
           | Inl e \<Rightarrow> (if exc_class e = ImportError \<or> exc_class e = AttributeError then Inr None else Inl e)))"

text \<open>An instance is identified with its class; \<open>new_instance\<close> is calling the class.\<close>

fun all_instrumentors_loop ::
  "(string \<Rightarrow> string \<Rightarrow> unit res) \<Rightarrow> (string \<times> string \<Rightarrow> unit res) \<Rightarrow> string list
    \<Rightarrow> (string, string \<times> string) dict \<Rightarrow> (string, string \<times> string) dict res" where
  "all_instrumentors_loop import_class new_instance [] instances = Inr instances"
| "all_instrumentors_loop import_class new_instance (name # names) instances =
     res_bind (get_instrumentor_class import_class name) (\<lambda>instrumentor_class.
       case instrumentor_class of
         None \<Rightarrow> all_instrumentors_loop import_class new_instance names instances
       | Some cls \<Rightarrow>
           (case new_instance cls of
              Inr _ \<Rightarrow> all_instrumentors_loop import_class new_instance names (dput name cls instances)
            | Inl e \<Rightarrow> (if is_Exception e then all_instrumentors_loop import_class new_instance names instances
                        else Inl e)))"

definition get_all_instrumentors ::
  "(string \<Rightarrow> string \<Rightarrow> unit res) \<Rightarrow> (string \<times> string \<Rightarrow> unit res) \<Rightarrow> (string, string \<times> string) dict res" where
  "get_all_instrumentors import_class new_instance =
     all_instrumentors_loop import_class new_instance (dkeys INSTRUMENTOR_MAP) []"

section \<open>Instrumenting\<close>

text \<open>The prefixes of a dotted name, shortest first; the first one not found ends the search.\<close>

fun prefixes_found :: "(string \<Rightarrow> bool res) \<Rightarrow> string list \<Rightarrow> bool res" where
  "prefixes_found find_spec [] = Inr True"
| "prefixes_found find_spec (p # ps) =
     res_bind (find_spec p) (\<lambda>found. if found then prefixes_found find_spec ps else Inr False)"

definition module_exists :: "(string \<Rightarrow> bool res) \<Rightarrow> string \<Rightarrow> bool res" where
  "module_exists find_spec module_name =
     (let parts = py_split CHR ''.'' module_name
      in prefixes_found find_spec (map (\<lambda>i. py_join ''.'' (take i parts)) [1..<length parts + 1]))"

definition opentelemetry_instrumentors :: "string list" where
  "opentelemetry_instrumentors = [''asgi'', ''django'', ''fastapi'', ''flask'', ''pyramid'', ''starlette'', ''falcon'',
     ''tornado'', ''aiohttp-client'', ''httpx'', ''requests'', ''urllib'', ''urllib3'']"

definition is_opentelemetry_instrumentor :: "string \<Rightarrow> bool" where
  "is_opentelemetry_instrumentor instrumentor_name \<longleftrightarrow> instrumentor_name \<in> set opentelemetry_instrumentors"

text \<open>The two ways an instance's \<open>instrument\<close> is called, and the log.\<close>

datatype call_kind = PlainInstrument | InstrumentWithConfig

record instr_state =
  is_calls :: "(string \<times> call_kind) list"
  is_log :: "log_line list"

definition log_instr :: "log_level \<Rightarrow> string list \<Rightarrow> (instr_state, unit) prog" where
  "log_instr l m = pmodify (\<lambda>s. s\<lparr>is_log := is_log s @ [(l, m)]\<rparr>)"

definition call_instrument ::
  "(string \<Rightarrow> call_kind \<Rightarrow> unit res) \<Rightarrow> string \<Rightarrow> call_kind \<Rightarrow> (instr_state, unit) prog" where
  "call_instrument instrument name kind =
     pbind (pmodify (\<lambda>s. s\<lparr>is_calls := is_calls s @ [(name, kind)]\<rparr>)) (\<lambda>_. plift (instrument name kind))"

definition instrument_if_available ::
  "(string \<Rightarrow> bool res) \<Rightarrow> (string \<Rightarrow> call_kind \<Rightarrow> unit res) \<Rightarrow> string \<Rightarrow> string list \<Rightarrow> (instr_state, unit) prog" where
  "instrument_if_available find_spec instrument instrumentor_name disabled_instrumentors =
     (if instrumentor_name \<in> set disabled_instrumentors
      then log_instr INFO [''Instrumentor %s is disabled'', instrumentor_name]
      else
        let module_name = dget_or MODULE_NAME_MAP instrumentor_name [] in
        if module_name = [] then log_instr ERROR [''No module mapping for %s'', instrumentor_name]
        else ptry
          (pbind (plift (module_exists find_spec module_name)) (\<lambda>present.
           if present then
             (if is_opentelemetry_instrumentor instrumentor_name then
                pbind (call_instrument instrument instrumentor_name PlainInstrument) (\<lambda>_.
                  log_instr INFO [''OpenTelemetry instrumentor %s enabled'', instrumentor_name])
              else call_instrument instrument instrumentor_name InstrumentWithConfig)
           else log_instr INFO [''Library for %s (%s) not found. Skipping instrumentation'',
                  instrumentor_name, module_name]))
          (\<lambda>e. log_instr ERROR [''Failed to instrument %s: %s'', instrumentor_name, exc_msg e]))"

text \<open>The loop of \<open>init\<close> over the instances.\<close>

definition instrument_all ::
  "(string \<Rightarrow> bool res) \<Rightarrow> (string \<Rightarrow> call_kind \<Rightarrow> unit res) \<Rightarrow> string list \<Rightarrow> string list \<Rightarrow> (instr_state, unit) prog" where
  "instrument_all find_spec instrument names disabled_instrumentors =
     pfor names (\<lambda>name. instrument_if_available find_spec instrument name disabled_instrumentors)"

section \<open>Lemmas\<close>

lemma MODULE_NAME_MAP_distinct: "distinct (dkeys MODULE_NAME_MAP)"
  by (simp add: MODULE_NAME_MAP_def)

lemma INSTRUMENTOR_MAP_distinct: "distinct (dkeys INSTRUMENTOR_MAP)"
  by (simp add: INSTRUMENTOR_MAP_def)

lemma prefixes_found_iff: "prefixes_found find_spec ps = Inr True \<longleftrightarrow> (\<forall>p \<in> set ps. find_spec p = Inr True)"
  by (induction ps) (auto simp: res_bind_Inr_iff split: if_splits)

text \<open>When an instrumentor's own \<open>instrument\<close> is called, and how.\<close>

definition instrumented :: "(string \<Rightarrow> bool res) \<Rightarrow> string list \<Rightarrow> string \<Rightarrow> bool" where
  "instrumented find_spec disabled name \<longleftrightarrow> name \<notin> set disabled \<and> dget_or MODULE_NAME_MAP name [] \<noteq> []
     \<and> module_exists find_spec (dget_or MODULE_NAME_MAP name []) = Inr True"

definition kind_of :: "string \<Rightarrow> call_kind" where
  "kind_of name = (if is_opentelemetry_instrumentor name then PlainInstrument else InstrumentWithConfig)"

lemma is_calls_log [simp]: "log_instr l m s = (Inr (), s\<lparr>is_log := is_log s @ [(l, m)]\<rparr>)"
  by (simp add: log_instr_def)

text \<open>One instrumentor: the call is made exactly when it is enabled and its library is there, and
  nothing \<open>except Exception\<close> catches gets out.\<close>

lemma instrument_one:
  assumes "\<And>m e. find_spec m = Inl e \<Longrightarrow> is_Exception e"
    and "\<And>n k e. instrument n k = Inl e \<Longrightarrow> is_Exception e"
  shows "\<exists>t. instrument_if_available find_spec instrument name disabled s = (Inr (), t)
     \<and> is_calls t = is_calls s @ (if instrumented find_spec disabled name then [(name, kind_of name)] else [])"
proof -
  let ?m = "dget_or MODULE_NAME_MAP name []"
  consider (off) "name \<in> set disabled" | (unmapped) "name \<notin> set disabled" "?m = []"
    | (raises) e where "name \<notin> set disabled" "?m \<noteq> []" "module_exists find_spec ?m = Inl e"
    | (absent) "name \<notin> set disabled" "?m \<noteq> []" "module_exists find_spec ?m = Inr False"
    | (present) "name \<notin> set disabled" "?m \<noteq> []" "module_exists find_spec ?m = Inr True"
    by (cases "module_exists find_spec ?m") auto
  then show ?thesis
  proof cases
    case raises
    have "prefixes_found find_spec ps = Inl e \<Longrightarrow> is_Exception e" for ps
      using assms(1) by (induction ps) (auto simp: res_bind_def split: sum.splits if_splits)
    with raises have "is_Exception e" by (auto simp: module_exists_def Let_def)
    with raises show ?thesis by (simp add: instrument_if_available_def instrumented_def ptry_def)
  next
    case present
    then show ?thesis
    proof (cases "instrument name (kind_of name)")
      case (Inl e)
      with assms(2) have "is_Exception e" by blast
      with present Inl show ?thesis
        by (auto simp: instrument_if_available_def instrumented_def ptry_def call_instrument_def kind_of_def pbind_def
            split: if_splits)
    next
      case (Inr u)
      with present show ?thesis
        by (auto simp: instrument_if_available_def instrumented_def ptry_def call_instrument_def kind_of_def pbind_def
            split: if_splits)
    qed
  qed (simp_all add: instrument_if_available_def instrumented_def ptry_def)
qed

text \<open>The tables are compared by evaluation.\<close>

lemma tables_same_names: "set (dkeys MODULE_NAME_MAP) = set (dkeys INSTRUMENTOR_MAP)"
proof -
  have "list_all (\<lambda>n. n \<in> set (dkeys INSTRUMENTOR_MAP)) (dkeys MODULE_NAME_MAP)" by code_simp
  moreover have "list_all (\<lambda>n. n \<in> set (dkeys MODULE_NAME_MAP)) (dkeys INSTRUMENTOR_MAP)" by code_simp
  ultimately show ?thesis unfolding list_all_iff by blast
qed

definition path_agrees :: "string \<times> string \<Rightarrow> bool" where
  "path_agrees np = (case np of (name, path) \<Rightarrow>
        is_opentelemetry_instrumentor name = startswith (fst (rsplit_dot path)) ''opentelemetry.instrumentation.''
      \<and> is_opentelemetry_instrumentor name = (\<not> startswith (fst (rsplit_dot path)) ''openlit.instrumentation.'')
      \<and> drop (length (snd (rsplit_dot path)) - 12) (snd (rsplit_dot path)) = ''Instrumentor'')"

lemma instrumentor_paths: "list_all path_agrees INSTRUMENTOR_MAP"
  by code_simp

lemma instrument_all_calls:
  assumes "\<And>m e. find_spec m = Inl e \<Longrightarrow> is_Exception e"
    and "\<And>n k e. instrument n k = Inl e \<Longrightarrow> is_Exception e"
  shows "\<exists>t. instrument_all find_spec instrument names disabled s = (Inr (), t)
     \<and> is_calls t = is_calls s @ map (\<lambda>name. (name, kind_of name)) (filter (instrumented find_spec disabled) names)"
proof (induction names arbitrary: s)
  case (Cons name names)
  from instrument_one [of find_spec instrument name disabled s] assms obtain s1 where
    "instrument_if_available find_spec instrument name disabled s = (Inr (), s1)"
    "is_calls s1 = is_calls s @ (if instrumented find_spec disabled name then [(name, kind_of name)] else [])"
    by blast
  with Cons.IH [of s1] show ?case by (auto simp: instrument_all_def pbind_def)
qed (simp add: instrument_all_def)

section \<open>Properties\<close>

text \<open>The two tables agree: they have the same names, each once; every instrumentor path names a
  class \<open>...Instrumentor\<close> in a module; and the hard-coded set of official instrumentors is exactly
  the names whose class lives in \<open>opentelemetry.instrumentation\<close>, so each class is called with the
  arguments it takes.\<close>

theorem instrumentor_tables_agree:
  "distinct (dkeys MODULE_NAME_MAP) \<and> distinct (dkeys INSTRUMENTOR_MAP)
   \<and> set (dkeys MODULE_NAME_MAP) = set (dkeys INSTRUMENTOR_MAP)
   \<and> (\<forall>(name, path) \<in> set INSTRUMENTOR_MAP.
        is_opentelemetry_instrumentor name = startswith (fst (rsplit_dot path)) ''opentelemetry.instrumentation.''
      \<and> is_opentelemetry_instrumentor name = (\<not> startswith (fst (rsplit_dot path)) ''openlit.instrumentation.'')
      \<and> drop (length (snd (rsplit_dot path)) - 12) (snd (rsplit_dot path)) = ''Instrumentor'')"
  using MODULE_NAME_MAP_distinct INSTRUMENTOR_MAP_distinct tables_same_names instrumentor_paths
  by (simp add: list_all_iff path_agrees_def)

theorem instrumentor_tables_agree_witness:
  "is_opentelemetry_instrumentor ''flask'' \<and> \<not> is_opentelemetry_instrumentor ''openai''"
proof -
  have "(''flask'', ''opentelemetry.instrumentation.flask.FlaskInstrumentor'') \<in> set INSTRUMENTOR_MAP"
    "(''openai'', ''openlit.instrumentation.openai.OpenAIInstrumentor'') \<in> set INSTRUMENTOR_MAP"
    by (simp_all add: INSTRUMENTOR_MAP_def)
  with instrumentor_tables_agree show ?thesis
    by (fastforce simp: rsplit_dot_def startswith_def Let_def)
qed



end
