(* ===== verification/Init.thy ===== *)
theory Init
  imports Instrumentors Telemetry
begin

text \<open>
  \<open>openlit/_config.py\<close> and \<open>openlit/__init__.py\<close>: the configuration singleton, \<open>init\<close>, the three
  client calls to the OpenLIT server, and the tracing helpers.  What lies outside the SDK (exporters,
  JSON parser, module finder, network, files, the GPU and system metrics instrumentors) is the record
  \<open>world\<close>.
\<close>

section \<open>Configuration\<close>

text \<open>Tracer and event logger are the booleans of \<open>setup_tracing\<close>: \<open>True\<close> for the registered
  provider's, \<open>False\<close> for the caller's own.\<close>

record config =
  cf_environment :: pyval
  cf_application_name :: pyval
  cf_pricing_info :: pyval
  cf_tracer :: "bool option"
  cf_event_provider :: "bool option"
  cf_metrics_dict :: "metrics option"
  cf_otlp_endpoint :: "string option"
  cf_otlp_headers :: "otlp_headers option"
  cf_disable_batch :: pyval
  cf_capture_message_content :: pyval
  cf_disable_metrics :: pyval
  cf_detailed_tracing :: pyval
  cf_capture_parameters :: pyval
  cf_enable_sqlcommenter :: pyval
  cf_evals_logs_export :: pyval
  cf_max_content_length :: pyval

definition reset_to_defaults :: config where
  "reset_to_defaults = \<lparr>cf_environment = PStr ''default'', cf_application_name = PStr ''default'',
     cf_pricing_info = PDict [], cf_tracer = None, cf_event_provider = None, cf_metrics_dict = Some [],
     cf_otlp_endpoint = None, cf_otlp_headers = None, cf_disable_batch = PBool False,
     cf_capture_message_content = PBool True, cf_disable_metrics = PBool False,
     cf_detailed_tracing = PBool True, cf_capture_parameters = PBool False,
     cf_enable_sqlcommenter = PBool False, cf_evals_logs_export = PBool True, cf_max_content_length = PNone\<rparr>"

section \<open>State and environment of init\<close>

record init_args =
  ia_environment :: pyval
  ia_application_name :: pyval
  ia_service_name :: pyval
  ia_tracer :: bool
  ia_event_logger :: bool
  ia_meter :: bool
  ia_otlp_endpoint :: "string option"
  ia_otlp_headers :: "otlp_headers option"
  ia_disable_batch :: pyval
  ia_capture_message_content :: pyval
  ia_disabled_instrumentors :: "string list"
  ia_disable_metrics :: pyval
  ia_pricing_json :: pyval
  ia_collect_gpu_stats :: pyval
  ia_detailed_tracing :: pyval
  ia_collect_system_metrics :: pyval
  ia_capture_parameters :: pyval
  ia_enable_sqlcommenter :: pyval
  ia_evals_logs_export :: pyval
  ia_max_content_length :: pyval

definition default_args :: init_args where
  "default_args = \<lparr>ia_environment = PStr ''default'', ia_application_name = PStr ''default'',
     ia_service_name = PStr ''default'', ia_tracer = False, ia_event_logger = False, ia_meter = False,
     ia_otlp_endpoint = None, ia_otlp_headers = None, ia_disable_batch = PBool False,
     ia_capture_message_content = PBool True, ia_disabled_instrumentors = [],
     ia_disable_metrics = PBool False, ia_pricing_json = PNone, ia_collect_gpu_stats = PBool False,
     ia_detailed_tracing = PBool True, ia_collect_system_metrics = PBool False,
     ia_capture_parameters = PBool False, ia_enable_sqlcommenter = PBool False,
     ia_evals_logs_export = PBool True, ia_max_content_length = PNone\<rparr>"

record world =
  w_mk :: mk_exporter
  w_json_loads :: "string \<Rightarrow> pyval res"
  w_http_get :: "string \<Rightarrow> pyval res"
  w_open_json :: "string \<Rightarrow> pyval res"
  w_find_spec :: "string \<Rightarrow> bool res"
  w_import_class :: "string \<Rightarrow> string \<Rightarrow> unit res"
  w_new_instance :: "string \<times> string \<Rightarrow> unit res"
  w_instrument :: "string \<Rightarrow> call_kind \<Rightarrow> unit res"
  w_gpu_type :: "pyval res"
  w_gpu_instrument :: "unit res"
  w_system_metrics :: "unit res"

record sdk =
  sd_otel :: otel
  sd_instance :: bool
  sd_config :: config
  sd_instr :: instr_state
  sd_gpu :: "(pyval \<times> pyval) list"
  sd_system :: nat
  sd_log :: "log_line list"

definition log_sdk :: "log_level \<Rightarrow> string list \<Rightarrow> (sdk, unit) prog" where
  "log_sdk l m = pmodify (\<lambda>s. s\<lparr>sd_log := sd_log s @ [(l, m)]\<rparr>)"

definition on_otel :: "(otel, 'a) prog \<Rightarrow> (sdk, 'a) prog" where
  "on_otel m s = (case m (sd_otel s) of (r, o') \<Rightarrow> (r, s\<lparr>sd_otel := o'\<rparr>))"

definition on_instr :: "(instr_state, 'a) prog \<Rightarrow> (sdk, 'a) prog" where
  "on_instr m s = (case m (sd_instr s) of (r, i') \<Rightarrow> (r, s\<lparr>sd_instr := i'\<rparr>))"

section \<open>Pricing information\<close>

text \<open>\<open>urlparse(s).scheme != ""\<close>: leading control characters and spaces are dropped, then tabs and
  newlines; the scheme is what precedes the first colon when it is a letter followed by letters,
  digits, plus, minus or dot.\<close>

definition is_ascii_letter :: "char \<Rightarrow> bool" where
  "is_ascii_letter c = (let n = of_char c :: nat in (65 \<le> n \<and> n \<le> 90) \<or> (97 \<le> n \<and> n \<le> 122))"

definition has_scheme :: "string \<Rightarrow> bool" where
  "has_scheme s =
     (let url = filter (\<lambda>c. c \<noteq> CHR 0x09 \<and> c \<noteq> CHR 0x0A \<and> c \<noteq> CHR 0x0D) (dropWhile (\<lambda>c. (of_char c :: nat) \<le> 32) s);
          (scheme, colon, _) = partition_at CHR '':'' url
      in colon \<and> (case scheme of [] \<Rightarrow> False | c # cs \<Rightarrow> is_ascii_letter c
           \<and> list_all (\<lambda>x. is_ascii_letter x \<or> is_digit x \<or> x \<in> {CHR ''+'', CHR ''-'', CHR ''.''}) scheme))"

definition default_pricing_url :: string where
  "default_pricing_url = ''https://raw.githubusercontent.com/openlit/openlit/main/assets/pricing.json''"

definition fetch_pricing_url :: "world \<Rightarrow> string \<Rightarrow> (sdk, pyval) prog" where
  "fetch_pricing_url w pricing_url =
     ptry (plift (w_http_get w pricing_url))
       (\<lambda>e. pbind (if exc_class e = HTTPError
                   then log_sdk ERROR [''HTTP error occured while fetching pricing info: %s'', exc_msg e]
                   else log_sdk ERROR [''Unexpected error occurred while fetching pricing info: %s'', exc_msg e])
            (\<lambda>_. pret (PDict [])))"

definition fetch_pricing_file :: "world \<Rightarrow> string \<Rightarrow> (sdk, pyval) prog" where
  "fetch_pricing_file w path =
     ptry (plift (w_open_json w path))
       (\<lambda>e. pbind (if exc_class e = FileNotFoundError then log_sdk ERROR [''Pricing information file not found: %s'', path]
                   else if exc_class e = JSONDecodeError then log_sdk ERROR [''Error decoding JSON from file: %s'', path]
                   else log_sdk ERROR [''Unexpected error occurred while reading file: %s'', exc_msg e])
            (\<lambda>_. pret (PDict [])))"

definition fetch_pricing_info :: "world \<Rightarrow> pyval \<Rightarrow> (sdk, pyval) prog" where
  "fetch_pricing_info w pricing_json =
     (if py_truth pricing_json then
        (case pricing_json of
           PStr s \<Rightarrow> (if has_scheme s then fetch_pricing_url w s else fetch_pricing_file w s)
         | v \<Rightarrow> praise (no_attr v ''decode''))
      else fetch_pricing_url w default_pricing_url)"

section \<open>init\<close>

text \<open>\<open>service_name\<close> wins over \<open>application_name\<close> when it is given.\<close>

definition explicit_service_name :: "init_args \<Rightarrow> pyval" where
  "explicit_service_name a =
     (if ia_service_name a \<noteq> PStr ''default'' then ia_service_name a
      else if ia_application_name a \<noteq> PStr ''default'' then ia_application_name a
      else PStr ''default'')"

text \<open>An argument still at its default takes the environment's value, when there is one.\<close>

definition from_env :: "(string, pyval) dict \<Rightarrow> string \<Rightarrow> pyval \<Rightarrow> pyval \<Rightarrow> pyval" where
  "from_env env_config name dflt v = (if v = dflt then dget_or env_config name v else v)"

definition str_items :: "pyval \<Rightarrow> string list" where
  "str_items v = (case v of PList xs \<Rightarrow> List.map_filter (\<lambda>x. case x of PStr s \<Rightarrow> Some s | _ \<Rightarrow> None) xs | _ \<Rightarrow> [])"

text \<open>The arguments after the environment has been applied; the service name field holds
  \<open>final_service_name\<close>.\<close>

definition apply_env_config :: "(string, pyval) dict \<Rightarrow> init_args \<Rightarrow> init_args" where
  "apply_env_config env_config a =
     a\<lparr>ia_environment := from_env env_config ''environment'' (PStr ''default'') (ia_environment a),
       ia_service_name := (let final_service_name = explicit_service_name a in
         if final_service_name = PStr ''default''
         then dget_or env_config ''service_name'' (dget_or env_config ''application_name'' (PStr ''default''))
         else final_service_name),
       ia_disable_batch := from_env env_config ''disable_batch'' (PBool False) (ia_disable_batch a),
       ia_capture_message_content :=
         from_env env_config ''capture_message_content'' (PBool True) (ia_capture_message_content a),
       ia_disabled_instrumentors :=
         (if ia_disabled_instrumentors a = [] \<and> dmem ''disabled_instrumentors'' env_config
          then str_items (dget_or env_config ''disabled_instrumentors'' PNone) else ia_disabled_instrumentors a),
       ia_disable_metrics := from_env env_config ''disable_metrics'' (PBool False) (ia_disable_metrics a),
       ia_pricing_json := from_env env_config ''pricing_json'' PNone (ia_pricing_json a),
       ia_collect_gpu_stats := from_env env_config ''collect_gpu_stats'' (PBool False) (ia_collect_gpu_stats a),
       ia_detailed_tracing := from_env env_config ''detailed_tracing'' (PBool True) (ia_detailed_tracing a),
       ia_collect_system_metrics :=
         from_env env_config ''collect_system_metrics'' (PBool False) (ia_collect_system_metrics a),
       ia_capture_parameters := from_env env_config ''capture_parameters'' (PBool False) (ia_capture_parameters a),
       ia_enable_sqlcommenter :=
         from_env env_config ''enable_sqlcommenter'' (PBool False) (ia_enable_sqlcommenter a),
       ia_evals_logs_export := from_env env_config ''evals_logs_export'' (PBool True) (ia_evals_logs_export a),
       ia_max_content_length := from_env env_config ''max_content_length'' PNone (ia_max_content_length a)\<rparr>"

text \<open>Only \<open>ImportError\<close> is caught around the environment; the arguments then stay as they are.\<close>

definition resolve_args :: "world \<Rightarrow> init_args \<Rightarrow> (sdk, init_args) prog" where
  "resolve_args w a =
     pbind (pgets (\<lambda>s. build_config_from_environment (w_json_loads w) (ot_environ (sd_otel s)))) (\<lambda>env_config.
       case env_config of
         Inr d \<Rightarrow> pret (apply_env_config d a)
       | Inl e \<Rightarrow> (if exc_class e = ImportError then pret (a\<lparr>ia_service_name := explicit_service_name a\<rparr>)
                  else praise e))"

definition warn_invalid_instrumentors :: "string list \<Rightarrow> (sdk, unit) prog" where
  "warn_invalid_instrumentors disabled_instrumentors =
     pfor (filter (\<lambda>name. \<not> dmem name MODULE_NAME_MAP) disabled_instrumentors)
       (\<lambda>invalid_name. log_sdk WARNING [''Invalid instrumentor name detected and ignored: '' @ [CHR 0x27] @ ''%s'' @ [CHR 0x27], invalid_name])"

text \<open>\<open>OpenlitConfig()\<close>: the first construction resets the class attributes.\<close>

definition get_config_instance :: "(sdk, unit) prog" where
  "get_config_instance =
     pmodify (\<lambda>s. if sd_instance s then s else s\<lparr>sd_instance := True, sd_config := reset_to_defaults\<rparr>)"

definition update_config ::
  "init_args \<Rightarrow> bool option \<Rightarrow> bool option \<Rightarrow> metrics option \<Rightarrow> pyval \<Rightarrow> config" where
  "update_config a tracer event_provider mdict pricing_info =
     \<lparr>cf_environment = ia_environment a, cf_application_name = ia_service_name a, cf_pricing_info = pricing_info,
      cf_tracer = tracer, cf_event_provider = event_provider, cf_metrics_dict = mdict,
      cf_otlp_endpoint = ia_otlp_endpoint a, cf_otlp_headers = ia_otlp_headers a,
      cf_disable_batch = ia_disable_batch a, cf_capture_message_content = ia_capture_message_content a,
      cf_disable_metrics = ia_disable_metrics a, cf_detailed_tracing = ia_detailed_tracing a,
      cf_capture_parameters = ia_capture_parameters a, cf_enable_sqlcommenter = ia_enable_sqlcommenter a,
      cf_evals_logs_export = ia_evals_logs_export a, cf_max_content_length = ia_max_content_length a\<rparr>"

definition gpu_call :: "world \<Rightarrow> (sdk, unit) prog" where
  "gpu_call w =
     pbind (pmodify (\<lambda>s. s\<lparr>sd_gpu := sd_gpu s @ [(cf_environment (sd_config s), cf_application_name (sd_config s))]\<rparr>))
       (\<lambda>_. plift (w_gpu_instrument w))"

definition instrument_gpu :: "world \<Rightarrow> (sdk, unit) prog" where
  "instrument_gpu w =
     pbind (plift (w_gpu_type w)) (\<lambda>gpu_type.
       if py_truth gpu_type then gpu_call w
       else log_sdk INFO [''No GPU detected, skipping GPU metrics collection''])"

text \<open>\<open>w_system_metrics\<close> is the import of the system metrics package and its \<open>instrument\<close>.\<close>

definition instrument_system_metrics :: "world \<Rightarrow> (sdk, unit) prog" where
  "instrument_system_metrics w =
     ptry
       (pbind (plift (w_system_metrics w)) (\<lambda>_.
        pbind (pmodify (\<lambda>s. s\<lparr>sd_system := sd_system s + 1\<rparr>)) (\<lambda>_.
        pbind (plift (w_gpu_type w)) (\<lambda>gpu_type. pwhen (py_truth gpu_type) (gpu_call w)))))
       (\<lambda>e. if exc_class e = ImportError
            then log_sdk WARNING [''OpenTelemetry system metrics not available. Install with: pip install opentelemetry-instrumentation-system-metrics'']
            else log_sdk ERROR [''Failed to enable system metrics: %s'', exc_msg e])"

text \<open>What follows a tracer: events, metrics, the configuration and the instrumentors.\<close>

definition init_events :: "world \<Rightarrow> init_args \<Rightarrow> (sdk, bool option) prog" where
  "init_events w a =
     pbind (on_otel (setup_events (w_mk w) (ia_service_name a) (ia_environment a) (ia_event_logger a) None None
              (py_truth (ia_disable_batch a)))) (\<lambda>event_provider.
     pbind (pwhen (event_provider = None) (log_sdk ERROR [''OpenLIT events setup failed. Events will not be available'']))
       (\<lambda>_. pret event_provider))"

text \<open>A metrics error disables metrics; the result is the metric table and the arguments from there on.\<close>

definition init_metrics :: "world \<Rightarrow> init_args \<Rightarrow> (sdk, metrics option \<times> init_args) prog" where
  "init_metrics w a =
     pbind (on_otel (setup_meter (w_mk w) (ia_service_name a) (ia_environment a) (ia_meter a)
              (ia_otlp_endpoint a) (ia_otlp_headers a))) (\<lambda>r.
     case snd r of
         None \<Rightarrow> pret (fst r, a)
       | Some e \<Rightarrow> pbind (log_sdk ERROR [''OpenLIT metrics setup failed. Metrics will not be available: %s'', exc_msg e])
                    (\<lambda>_. pret (None, a\<lparr>ia_disable_metrics := PBool True\<rparr>)))"

definition content_switched_off :: "(string, string) dict \<Rightarrow> bool" where
  "content_switched_off environ \<longleftrightarrow>
     py_lower (dget_or environ ''OTEL_INSTRUMENTATION_GENAI_CAPTURE_MESSAGE_CONTENT'' []) = ''false''"

definition content_override :: "init_args \<Rightarrow> (sdk, init_args) prog" where
  "content_override a =
     pgets (\<lambda>s. if content_switched_off (ot_environ (sd_otel s)) then a\<lparr>ia_capture_message_content := PBool False\<rparr> else a)"

definition store_config ::
  "world \<Rightarrow> init_args \<Rightarrow> bool option \<Rightarrow> bool option \<Rightarrow> metrics option \<Rightarrow> (sdk, unit) prog" where
  "store_config w a tracer event_provider mdict =
     pbind (fetch_pricing_info w (ia_pricing_json a)) (\<lambda>pricing_info.
       pmodify (\<lambda>s. s\<lparr>sd_config := update_config a tracer event_provider mdict pricing_info\<rparr>))"

definition run_instrumentors :: "world \<Rightarrow> init_args \<Rightarrow> (sdk, unit) prog" where
  "run_instrumentors w a =
     pbind (plift (get_all_instrumentors (w_import_class w) (w_new_instance w))) (\<lambda>instrumentor_instances.
     pbind (on_instr (instrument_all (w_find_spec w) (w_instrument w) (dkeys instrumentor_instances)
              (ia_disabled_instrumentors a))) (\<lambda>_.
     pbind (pwhen (\<not> py_truth (ia_disable_metrics a) \<and> py_truth (ia_collect_gpu_stats a)) (instrument_gpu w)) (\<lambda>_.
     pwhen (\<not> py_truth (ia_disable_metrics a) \<and> py_truth (ia_collect_system_metrics a))
       (instrument_system_metrics w))))"

definition setup_rest :: "world \<Rightarrow> init_args \<Rightarrow> bool option \<Rightarrow> (sdk, unit) prog" where
  "setup_rest w a tracer =
     pbind (init_events w a) (\<lambda>event_provider.
     pbind (init_metrics w a) (\<lambda>r.
     pbind (content_override (snd r)) (\<lambda>a.
     pbind (store_config w a tracer event_provider (fst r)) (\<lambda>_.
     run_instrumentors w a))))"

definition init :: "world \<Rightarrow> init_args \<Rightarrow> (sdk, unit) prog" where
  "init w a =
     pbind (log_sdk INFO [''Starting openLIT initialization...'']) (\<lambda>_.
     pbind (resolve_args w a) (\<lambda>a.
     pbind (warn_invalid_instrumentors (ia_disabled_instrumentors a)) (\<lambda>_.
     ptry
       (pbind get_config_instance (\<lambda>_.
        pbind (on_otel (\<lambda>s. apfst Inr (setup_tracing (w_mk w) (ia_service_name a) (ia_environment a) (ia_tracer a)
                 (ia_otlp_endpoint a) (ia_otlp_headers a) (py_truth (ia_disable_batch a)) s))) (\<lambda>tracer.
        if tracer = None
        then log_sdk ERROR [''OpenLIT tracing setup failed. Tracing will not be available.'']
        else setup_rest w a tracer)))
       (\<lambda>e. log_sdk ERROR [''Error during openLIT initialization: %s'', exc_msg e]))))"

section \<open>Client calls to the OpenLIT server\<close>

record request =
  rq_endpoint :: string
  rq_payload :: "(string, pyval) dict"
  rq_headers :: "(string, string) dict"

record hub =
  hb_environ :: "(string, string) dict"
  hb_requests :: "request list"
  hb_log :: "log_line list"

definition log_hub :: "log_level \<Rightarrow> string list \<Rightarrow> (hub, unit) prog" where
  "log_hub l m = pmodify (\<lambda>s. s\<lparr>hb_log := hb_log s @ [(l, m)]\<rparr>)"

definition get_env_variable :: "string \<Rightarrow> string option \<Rightarrow> string \<Rightarrow> (hub, string) prog" where
  "get_env_variable name arg_value error_message =
     (case arg_value of
        Some v \<Rightarrow> pret v
      | None \<Rightarrow>
          pbind (pgets (\<lambda>s. dget_or (hb_environ s) name [])) (\<lambda>v.
            if v = [] then pbind (log_hub ERROR [error_message]) (\<lambda>_. praise (PyExc RuntimeError error_message))
            else pret v))"

definition drop_none :: "(string, pyval) dict \<Rightarrow> (string, pyval) dict" where
  "drop_none payload = filter (\<lambda>(k, v). v \<noteq> PNone) payload"

text \<open>\<open>requests.post(...)\<close>, \<open>raise_for_status()\<close> and \<open>json()\<close>: \<open>post rq\<close> is what they give.\<close>

definition post_request :: "(request \<Rightarrow> pyval res) \<Rightarrow> request \<Rightarrow> (hub, pyval) prog" where
  "post_request post rq = pbind (pmodify (\<lambda>s. s\<lparr>hb_requests := hb_requests s @ [rq]\<rparr>)) (\<lambda>_. plift (post rq))"

definition except_request :: "string \<Rightarrow> (hub, pyval) prog \<Rightarrow> (hub, pyval) prog" where
  "except_request message m s =
     (case m s of
        (Inl e, t) \<Rightarrow> (if is_RequestException e then (Inr PNone, t\<lparr>hb_log := hb_log t @ [(ERROR, [message, exc_msg e])]\<rparr>)
                       else (Inl e, t))
      | (Inr v, t) \<Rightarrow> (Inr v, t))"

definition bearer_headers :: "string \<Rightarrow> (string, string) dict" where
  "bearer_headers api_key = [(''Authorization'', ''Bearer '' @ api_key), (''Content-Type'', ''application/json'')]"

text \<open>The shared beginning of the three functions.\<close>

definition hub_credentials :: "string option \<Rightarrow> string option \<Rightarrow> (hub, string \<times> string) prog" where
  "hub_credentials url api_key =
     pbind (get_env_variable ''OPENLIT_URL'' url ''Missing OpenLIT URL: Provide as arg or set OPENLIT_URL env var.'') (\<lambda>url.
     pbind (get_env_variable ''OPENLIT_API_KEY'' api_key ''Missing API key: Provide as arg or set OPENLIT_API_KEY env var.'') (\<lambda>api_key.
     pret (url, api_key)))"

definition get_prompt ::
  "(request \<Rightarrow> pyval res) \<Rightarrow> string option \<Rightarrow> pyval \<Rightarrow> string option \<Rightarrow> pyval \<Rightarrow> pyval \<Rightarrow> pyval \<Rightarrow> pyval \<Rightarrow> pyval
    \<Rightarrow> (hub, pyval) prog" where
  "get_prompt post url name api_key prompt_id version should_compile variables meta_properties =
     pbind (hub_credentials url api_key) (\<lambda>(url, api_key).
       except_request ''Error fetching prompt: %s''
         (post_request post \<lparr>rq_endpoint = url @ ''/api/prompt/get-compiled'',
            rq_payload = drop_none [(''name'', name), (''promptId'', prompt_id), (''version'', version),
              (''shouldCompile'', should_compile), (''variables'', variables),
              (''metaProperties'', meta_properties), (''source'', PStr ''python-sdk'')],
            rq_headers = bearer_headers api_key\<rparr>))"

text \<open>\<open>res.items()\<close> and \<open>os.environ[token] = str(value)\<close>.\<close>

definition export_secrets :: "(pyval \<Rightarrow> string) \<Rightarrow> pyval \<Rightarrow> (hub, unit) prog" where
  "export_secrets repr r =
     (case r of
        PDict d \<Rightarrow> pfor d (\<lambda>(k, v). pmodify (\<lambda>s. s\<lparr>hb_environ := dput k (py_str repr v) (hb_environ s)\<rparr>))
      | v \<Rightarrow> praise (no_attr v ''items''))"

definition get_secrets ::
  "(pyval \<Rightarrow> string) \<Rightarrow> (request \<Rightarrow> pyval res) \<Rightarrow> string option \<Rightarrow> string option \<Rightarrow> pyval \<Rightarrow> pyval \<Rightarrow> pyval
    \<Rightarrow> (hub, pyval) prog" where
  "get_secrets repr post url api_key key tags should_set_env =
     pbind (hub_credentials url api_key) (\<lambda>(url, api_key).
       except_request ''Error fetching secrets: %s''
         (pbind (post_request post \<lparr>rq_endpoint = url @ ''/api/vault/get-secrets'',
            rq_payload = drop_none [(''key'', key), (''tags'', tags), (''source'', PStr ''python-sdk'')],
            rq_headers = bearer_headers api_key\<rparr>) (\<lambda>vault_response.
          pbind (plift (py_get vault_response ''res'' (PList []))) (\<lambda>r.
          pbind (pwhen (should_set_env = PBool True) (export_secrets repr r)) (\<lambda>_.
          pret vault_response)))))"

definition evaluate_rule ::
  "(request \<Rightarrow> pyval res) \<Rightarrow> string option \<Rightarrow> string option \<Rightarrow> pyval \<Rightarrow> pyval \<Rightarrow> pyval \<Rightarrow> pyval
    \<Rightarrow> (hub, pyval) prog" where
  "evaluate_rule post url api_key entity_type rule_fields include_entity_data entity_inputs =
     pbind (hub_credentials url api_key) (\<lambda>(url, api_key).
       except_request ''Error evaluating rule: %s''
         (post_request post \<lparr>rq_endpoint = url @ ''/api/rule-engine/evaluate'',
            rq_payload = drop_none [(''entity_type'', entity_type), (''fields'', rule_fields),
              (''include_entity_data'', include_entity_data), (''entity_inputs'', entity_inputs),
              (''source'', PStr ''python-sdk'')],
            rq_headers = bearer_headers api_key\<rparr>))"

section \<open>Tracing helpers\<close>

text \<open>The wrapper \<open>trace\<close> puts around a function: \<open>wrapped\<close> is what the call does, \<open>str_args\<close> and
  \<open>str_kwargs\<close> are the renderings of its arguments, which may raise.\<close>

definition trace_call :: "pyval res \<Rightarrow> (span, pyval) prog" where
  "trace_call wrapped =
     pbind (plift wrapped) (\<lambda>response.
     pbind (pmodify (set_attribute GEN_AI_OUTPUT_MESSAGES (py_or response (PStr [])))) (\<lambda>_.
     pbind (pmodify (set_status StatusOk)) (\<lambda>_. pret response)))"

definition trace_metadata :: "config \<Rightarrow> string res \<Rightarrow> string res \<Rightarrow> (span, unit) prog" where
  "trace_metadata c str_args str_kwargs =
     pbind (plift str_args) (\<lambda>a. pbind (pmodify (set_attribute ''function.args'' (PStr a))) (\<lambda>_.
     pbind (plift str_kwargs) (\<lambda>k. pbind (pmodify (set_attribute ''function.kwargs'' (PStr k))) (\<lambda>_.
     pbind (pmodify (set_attribute SERVICE_NAME (cf_application_name c))) (\<lambda>_.
     pmodify (set_attribute DEPLOYMENT_ENVIRONMENT (cf_environment c)))))))"

definition trace_body :: "config \<Rightarrow> pyval res \<Rightarrow> string res \<Rightarrow> string res \<Rightarrow> (span, pyval) prog" where
  "trace_body c wrapped str_args str_kwargs =
     pbind (ptry (trace_call wrapped)
       (\<lambda>e. pbind (pmodify (record_exception e)) (\<lambda>_.
            pbind (pmodify (set_status StatusError)) (\<lambda>_. praise e)))) (\<lambda>response.
     pbind (ptry (trace_metadata c str_args str_kwargs) (\<lambda>_. pret ())) (\<lambda>_. pret response))"

definition trace_wrapper :: "config \<Rightarrow> pyval res \<Rightarrow> string res \<Rightarrow> string res \<Rightarrow> (span, pyval) prog" where
  "trace_wrapper c wrapped str_args str_kwargs = current_span (trace_body c wrapped str_args str_kwargs)"

text \<open>The methods of \<open>TracedSpan\<close>.\<close>

definition set_result :: "pyval \<Rightarrow> span \<Rightarrow> span" where
  "set_result result sp = set_attribute GEN_AI_OUTPUT_MESSAGES result sp"

definition set_metadata :: "(string, pyval) dict \<Rightarrow> span \<Rightarrow> span" where
  "set_metadata metadata sp = set_attributes metadata sp"

definition traced_span_exit :: "span \<Rightarrow> span" where
  "traced_span_exit sp = end_span sp"

text \<open>\<open>with openlit.start_trace(name) as trace: body\<close>.\<close>

definition start_trace :: "(span, 'a) prog \<Rightarrow> (span, 'a) prog" where
  "start_trace body = current_span body"

end
