(* ===== verification/InitProps.thy ===== *)
theory InitProps
  imports Init ConfigProps OtelProps
begin

text \<open>
  What \<open>init\<close> promises: it never breaks the application, leaves the configuration alone when tracing
  cannot be set up, and otherwise stores the explicit argument, else the environment's value, else the
  default.  The client calls send what they were given and turn request errors into \<open>None\<close>.
\<close>

section \<open>Rules for the lifted computations\<close>

lemma keeps_on_otel [keeps_intros]:
  "(\<And>s o'. f (s\<lparr>sd_otel := o'\<rparr>) = f s) \<Longrightarrow> keeps f (on_otel m)"
  by (simp add: keeps_def on_otel_def split: prod.split)

lemma keeps_on_instr [keeps_intros]:
  "(\<And>s i'. f (s\<lparr>sd_instr := i'\<rparr>) = f s) \<Longrightarrow> keeps f (on_instr m)"
  by (simp add: keeps_def on_instr_def split: prod.split)

lemma keeps_log_sdk [keeps_intros]:
  "(\<And>s l. f (s\<lparr>sd_log := l\<rparr>) = f s) \<Longrightarrow> keeps f (log_sdk l m)"
  by (simp add: keeps_def log_sdk_def)

lemma raises_only_on_otel [raises_intros]: "raises_only P m \<Longrightarrow> raises_only P (on_otel m)"
  by (auto simp: raises_only_def on_otel_def split: prod.splits)

lemma raises_only_on_instr [raises_intros]: "raises_only P m \<Longrightarrow> raises_only P (on_instr m)"
  by (auto simp: raises_only_def on_instr_def split: prod.splits)

lemma raises_only_log_sdk [raises_intros]: "raises_only P (log_sdk l m)"
  by (simp add: raises_only_def log_sdk_def)

section \<open>A world that raises ordinary exceptions\<close>

definition tame :: "world \<Rightarrow> bool" where
  "tame w \<longleftrightarrow>
     (\<forall>sg x e. w_mk w sg x = Inl e \<longrightarrow> is_Exception e)
   \<and> (\<forall>x e. w_json_loads w x = Inl e \<longrightarrow> exc_class e = JSONDecodeError)
   \<and> (\<forall>x e. w_http_get w x = Inl e \<longrightarrow> is_Exception e)
   \<and> (\<forall>x e. w_open_json w x = Inl e \<longrightarrow> is_Exception e)
   \<and> (\<forall>x e. w_find_spec w x = Inl e \<longrightarrow> is_Exception e)
   \<and> (\<forall>x y e. w_import_class w x y = Inl e \<longrightarrow> is_Exception e)
   \<and> (\<forall>x e. w_new_instance w x = Inl e \<longrightarrow> is_Exception e)
   \<and> (\<forall>x y e. w_instrument w x y = Inl e \<longrightarrow> is_Exception e)
   \<and> (\<forall>e. w_gpu_type w = Inl e \<longrightarrow> is_Exception e)
   \<and> (\<forall>e. w_gpu_instrument w = Inl e \<longrightarrow> is_Exception e)
   \<and> (\<forall>e. w_system_metrics w = Inl e \<longrightarrow> is_Exception e)"

lemma resolve_args_ok:
  assumes "tame w"
  obtains d where "build_config_from_environment (w_json_loads w) (ot_environ (sd_otel s)) = Inr d"
    and "resolve_args w a s = (Inr (apply_env_config d a), s)"
proof -
  from assms env_config_loop_total [of "w_json_loads w" "ot_environ (sd_otel s)" PARAMETER_CONFIG "[]"]
  obtain d where "build_config_from_environment (w_json_loads w) (ot_environ (sd_otel s)) = Inr d"
    by (auto simp: tame_def build_config_from_environment_def)
  with that show ?thesis by (simp add: resolve_args_def)
qed

lemma setup_tracer_provider_raises:
  assumes "\<And>sg x e. mk sg x = Inl e \<Longrightarrow> P e"
  shows "raises_only P (setup_tracer_provider mk app environment ep hdr d)"
    and "raises_only P (setup_logger_provider mk app environment ep hdr d)"
    and "raises_only P (setup_meter_provider mk app environment ep hdr)"
  unfolding setup_tracer_provider_def setup_trace_exporters_def trace_exporter_step_def
    setup_logger_provider_def setup_event_exporters_def event_exporter_step_def
    setup_meter_provider_def setup_metric_readers_def metric_exporter_step_def split_def
  by (rule raises_intros assms | assumption)+

lemma no_attr_exception [simp]: "is_Exception (no_attr v n)"
  by (simp add: no_attr_def)

lemma setup_events_returns:
  assumes "\<And>sg x e. mk sg x = Inl e \<Longrightarrow> is_Exception e"
  shows "returns (setup_events mk app environment l ep hdr d)"
  unfolding setup_events_def
  by (rule raises_intros setup_tracer_provider_raises | use assms in simp)+

lemma setup_meter_returns:
  assumes "\<And>sg x e. mk sg x = Inl e \<Longrightarrow> is_Exception e"
  shows "returns (setup_meter mk app environment m ep hdr)"
  unfolding setup_meter_def
  by (rule raises_intros setup_tracer_provider_raises | use assms in simp)+

lemma fetch_pricing_info_raises:
  assumes "tame w"
  shows "raises_only is_Exception (fetch_pricing_info w v)"
    and "v = PNone \<or> v = PStr u \<Longrightarrow> returns (fetch_pricing_info w v)"
proof -
  have url: "returns (fetch_pricing_url w u)" for u
    unfolding fetch_pricing_url_def by (rule raises_intros | use assms in \<open>simp add: tame_def\<close>)+
  have from_file: "returns (fetch_pricing_file w u)" for u
    unfolding fetch_pricing_file_def by (rule raises_intros | use assms in \<open>simp add: tame_def\<close>)+
  note exc = raises_only_mono [OF url, of is_Exception] raises_only_mono [OF from_file, of is_Exception]
  show "raises_only is_Exception (fetch_pricing_info w v)"
    by (cases v) (auto simp: fetch_pricing_info_def intro!: exc raises_only_praise)
  show "returns (fetch_pricing_info w v)" if "v = PNone \<or> v = PStr u"
    using that url from_file by (auto simp: fetch_pricing_info_def)
qed

lemma all_instrumentors_raises:
  assumes "tame w" and "all_instrumentors_loop (w_import_class w) (w_new_instance w) names acc = Inl e"
  shows "is_Exception e"
  using assms(2)
proof (induction names arbitrary: acc)
  case (Cons n names)
  have cls: "is_Exception e'" if "get_instrumentor_class (w_import_class w) n = Inl e'" for e'
    using that assms(1)
    by (auto simp: get_instrumentor_class_def tame_def split: option.splits sum.splits if_splits prod.splits)
  from Cons cls assms(1) show ?case
    by (auto simp: res_bind_def tame_def split: sum.splits option.splits if_splits)
qed simp

lemma instrument_all_returns:
  assumes "tame w"
  shows "returns (instrument_all (w_find_spec w) (w_instrument w) names disabled)"
proof -
  have "\<exists>t. instrument_all (w_find_spec w) (w_instrument w) names disabled s = (Inr (), t)" for s
    using instrument_all_calls [of "w_find_spec w" "w_instrument w" names disabled s] assms
    by (auto simp: tame_def)
  then show ?thesis unfolding raises_only_def by (metis prod.inject sum.distinct(1))
qed

lemma gpu_call_raises: "tame w \<Longrightarrow> raises_only is_Exception (gpu_call w)"
  unfolding gpu_call_def by (rule raises_intros | simp add: tame_def)+

lemma instrument_gpu_raises: "tame w \<Longrightarrow> raises_only is_Exception (instrument_gpu w)"
  unfolding instrument_gpu_def by (rule raises_intros raises_only_log_sdk gpu_call_raises | simp add: tame_def)+

lemma instrument_system_metrics_returns: "tame w \<Longrightarrow> returns (instrument_system_metrics w)"
  unfolding instrument_system_metrics_def
  by (rule raises_intros raises_only_log_sdk | simp add: tame_def gpu_call_raises)+

lemma returns_exception: "returns m \<Longrightarrow> raises_only is_Exception m"
  by (auto simp: raises_only_def)

lemma init_events_returns: "tame w \<Longrightarrow> returns (init_events w a)"
  unfolding init_events_def
  by (rule raises_intros raises_only_log_sdk setup_events_returns | simp add: tame_def)+

lemma init_metrics_returns: "tame w \<Longrightarrow> returns (init_metrics w a)"
  unfolding init_metrics_def
  by (rule raises_intros raises_only_log_sdk setup_meter_returns | simp add: tame_def)+

lemma store_config_raises: "tame w \<Longrightarrow> raises_only is_Exception (store_config w a tracer ev md)"
  unfolding store_config_def
  by (rule raises_intros fetch_pricing_info_raises(1) | assumption)+

lemma run_instrumentors_raises: "tame w \<Longrightarrow> raises_only is_Exception (run_instrumentors w a)"
  unfolding run_instrumentors_def get_all_instrumentors_def
  by (rule raises_intros instrument_gpu_raises instrument_system_metrics_returns [THEN returns_exception]
        instrument_all_returns [THEN returns_exception] all_instrumentors_raises | assumption)+

lemma setup_rest_raises: "tame w \<Longrightarrow> raises_only is_Exception (setup_rest w a tracer)"
  unfolding setup_rest_def content_override_def
  by (rule init_events_returns [THEN returns_exception] init_metrics_returns [THEN returns_exception]
        store_config_raises run_instrumentors_raises raises_intros | assumption)+

lemma init_body_raises:
  assumes "tame w"
  shows "raises_only is_Exception (pbind get_config_instance (\<lambda>_.
        pbind (on_otel (\<lambda>s. apfst Inr (setup_tracing (w_mk w) app environment t ep hdr d s))) (\<lambda>tracer.
        if tracer = None
        then log_sdk ERROR [''OpenLIT tracing setup failed. Tracing will not be available.'']
        else setup_rest w a tracer)))"
proof -
  have tracing: "raises_only is_Exception (\<lambda>s. apfst Inr (setup_tracing (w_mk w) app environment t ep hdr d s) :: bool option res \<times> otel)"
    by (auto simp: raises_only_def apfst_def map_prod_def split: prod.splits)
  show ?thesis
    unfolding get_config_instance_def
    by (rule raises_intros raises_only_log_sdk setup_rest_raises [OF assms] tracing)+
qed

text \<open>C1: \<open>init\<close> never breaks the application: as long as the exporters, the network, the files, the
  imports and the instrumentors raise ordinary exceptions and the header variable fails only to be
  valid JSON, the call returns, whatever its arguments and whatever state it starts from.\<close>

theorem init_returns:
  assumes "tame w"
  shows "\<exists>t. init w a s = (Inr (), t)"
proof -
  have warn: "returns (warn_invalid_instrumentors ds)" for ds
    unfolding warn_invalid_instrumentors_def by (rule raises_intros raises_only_log_sdk)+
  have resolve: "returns (resolve_args w a)"
    unfolding raises_only_def using resolve_args_ok [OF assms] by (metis prod.inject sum.distinct(1))
  have "returns (init w a)"
    unfolding init_def
    by (rule warn resolve init_body_raises [OF assms, THEN raises_only_mono] | rule raises_intros raises_only_log_sdk
        | assumption | simp)+
  then show ?thesis by (metis (full_types) returnsE old.unit.exhaust)
qed

section \<open>The configuration init stores\<close>

text \<open>The set-ups write three environment variables and no other.\<close>

lemma keeps_env_tracing:
  assumes "v \<notin> {''OTEL_EXPORTER_OTLP_ENDPOINT'', ''OTEL_EXPORTER_OTLP_HEADERS''}"
  shows "keeps (\<lambda>s. dget (ot_environ s) v) (setup_tracer_provider mk app environment ep hdr d)"
    and "keeps (\<lambda>s. dget (ot_environ s) v) (setup_logger_provider mk app environment ep hdr d)"
    and "keeps (\<lambda>s. dget (ot_environ s) v) (setup_meter_provider mk app environment ep hdr)"
proof -
  have env: "dget (ot_environ (set_otlp_env ep hdr s)) v = dget (ot_environ s) v" for ep hdr s
    using assms by (simp add: set_otlp_env_def setenv_def split: option.split)
  show "keeps (\<lambda>s. dget (ot_environ s) v) (setup_tracer_provider mk app environment ep hdr d)"
    unfolding setup_tracer_provider_def setup_trace_exporters_def trace_exporter_step_def split_def
    by (rule keeps_intros | force simp: env add_span_processor_def)+
  show "keeps (\<lambda>s. dget (ot_environ s) v) (setup_logger_provider mk app environment ep hdr d)"
    unfolding setup_logger_provider_def setup_event_exporters_def event_exporter_step_def split_def
    by (rule keeps_intros | force simp: env)+
  show "keeps (\<lambda>s. dget (ot_environ s) v) (setup_meter_provider mk app environment ep hdr)"
    unfolding setup_meter_provider_def setup_metric_readers_def metric_exporter_step_def split_def
    by (rule keeps_intros | force simp: env)+
qed

lemma setup_tracing_env:
  assumes "v \<notin> {''OTEL_EXPORTER_OTLP_ENDPOINT'', ''OTEL_EXPORTER_OTLP_HEADERS'', ''HAYSTACK_AUTO_TRACE_ENABLED''}"
    and "setup_tracing mk app environment False ep hdr d s = (r, t)"
  shows "dget (ot_environ t) v = dget (ot_environ s) v"
proof -
  let ?m = "pbind (pmodify (setenv ''HAYSTACK_AUTO_TRACE_ENABLED'' ''false'')) (\<lambda>_.
               pbind (pgets ot_tracer_set) (\<lambda>done.
                 pwhen (\<not> done) (setup_tracer_provider mk app environment ep hdr d)))"
  have k: "keeps (\<lambda>s. dget (ot_environ s) v) ?m"
    by (rule keeps_intros keeps_env_tracing | use assms(1) in \<open>simp add: setenv_def\<close>)+
  show ?thesis
    using assms(2) keepsD [OF k, of s] by (cases "?m s") (auto simp: setup_tracing_def split: sum.splits)
qed

lemma setup_events_env:
  assumes "v \<notin> {''OTEL_EXPORTER_OTLP_ENDPOINT'', ''OTEL_EXPORTER_OTLP_HEADERS''}"
    and "setup_events mk app environment l ep hdr d s = (r, t)"
  shows "dget (ot_environ t) v = dget (ot_environ s) v"
proof -
  have "keeps (\<lambda>s. dget (ot_environ s) v) (setup_events mk app environment l ep hdr d)"
    unfolding setup_events_def
    by (rule keeps_intros keeps_env_tracing assms | simp)+
  then show ?thesis using assms(2) by (auto dest: keepsD)
qed

lemma setup_meter_env:
  assumes "v \<notin> {''OTEL_EXPORTER_OTLP_ENDPOINT'', ''OTEL_EXPORTER_OTLP_HEADERS''}"
    and "setup_meter mk app environment m ep hdr s = (r, t)"
  shows "dget (ot_environ t) v = dget (ot_environ s) v"
proof -
  have "keeps (\<lambda>s. dget (ot_environ s) v) (setup_meter mk app environment m ep hdr)"
    unfolding setup_meter_def
    by (rule keeps_intros keeps_env_tracing assms | simp)+
  then show ?thesis using assms(2) by (auto dest: keepsD)
qed

text \<open>The last steps keep the configuration.\<close>

lemma keeps_run_instrumentors: "keeps sd_config (run_instrumentors w a)"
  unfolding run_instrumentors_def instrument_gpu_def instrument_system_metrics_def gpu_call_def
  by (rule keeps_intros | simp)+

lemma keeps_fetch_pricing: "keeps (\<lambda>s. (sd_otel s, sd_config s)) (fetch_pricing_info w v)"
  by (cases v) (auto simp: fetch_pricing_info_def fetch_pricing_url_def fetch_pricing_file_def intro!: keeps_intros)

definition effective_args :: "(string, pyval) dict \<Rightarrow> (string, string) dict \<Rightarrow> init_args \<Rightarrow> init_args" where
  "effective_args d environ a =
     (if content_switched_off environ then (apply_env_config d a)\<lparr>ia_capture_message_content := PBool False\<rparr>
      else apply_env_config d a)"

lemma setup_rest_config:
  assumes w: "tame w"
    and ev: "setup_events (w_mk w) (ia_service_name a) (ia_environment a) (ia_event_logger a) None None
        (py_truth (ia_disable_batch a)) (sd_otel s) = (Inr (Some b), o2)"
    and me: "setup_meter (w_mk w) (ia_service_name a) (ia_environment a) (ia_meter a)
        (ia_otlp_endpoint a) (ia_otlp_headers a) o2 = (Inr (Some mdict, None), o3)"
    and pricing: "ia_pricing_json a = PNone \<or> ia_pricing_json a = PStr u"
    and a': "a' = (if content_switched_off (ot_environ o3) then a\<lparr>ia_capture_message_content := PBool False\<rparr> else a)"
  shows "\<exists>r t p. setup_rest w a tracer s = (r, t) \<and> (\<forall>e. r = Inl e \<longrightarrow> is_Exception e)
     \<and> sd_config t = update_config a' tracer (Some b) (Some mdict) p"
proof -
  let ?s3 = "s\<lparr>sd_otel := o3\<rparr>"
  have 1: "init_events w a s = (Inr (Some b), s\<lparr>sd_otel := o2\<rparr>)"
    by (simp add: init_events_def on_otel_def pbind_def ev)
  have 2: "init_metrics w a (s\<lparr>sd_otel := o2\<rparr>) = (Inr (Some mdict, a), ?s3)"
    by (simp add: init_metrics_def on_otel_def pbind_def me)
  have 3: "content_override a ?s3 = (Inr a', ?s3)" by (simp add: content_override_def a')
  have "ia_pricing_json a' = ia_pricing_json a" by (simp add: a')
  with fetch_pricing_info_raises(2) [OF w] pricing have "returns (fetch_pricing_info w (ia_pricing_json a'))" by metis
  then obtain p s4 where 4: "fetch_pricing_info w (ia_pricing_json a') ?s3 = (Inr p, s4)" by (rule returnsE)
  let ?s5 = "s4\<lparr>sd_config := update_config a' tracer (Some b) (Some mdict) p\<rparr>"
  obtain r t where 5: "run_instrumentors w a' ?s5 = (r, t)" by fastforce
  from 1 2 3 4 5 have "setup_rest w a tracer s = (r, t)"
    by (simp add: setup_rest_def pbind_def store_config_def)
  moreover have "sd_config t = update_config a' tracer (Some b) (Some mdict) p"
    using keepsD [OF keeps_run_instrumentors 5] by simp
  moreover have "\<forall>e. r = Inl e \<longrightarrow> is_Exception e"
    using raises_onlyD [OF run_instrumentors_raises [OF w]] 5 by blast
  ultimately show ?thesis by blast
qed

lemma apply_env_config_same [simp]:
  "ia_tracer (apply_env_config d a) = ia_tracer a"
  "ia_event_logger (apply_env_config d a) = ia_event_logger a"
  "ia_meter (apply_env_config d a) = ia_meter a"
  by (simp_all add: apply_env_config_def)

text \<open>The arguments \<open>init\<close> works with, up to the try block: the state keeps its pipelines.\<close>

lemma init_prefix:
  assumes "build_config_from_environment (w_json_loads w) (ot_environ (sd_otel s)) = Inr d"
  shows "\<exists>s1. sd_otel s1 = sd_otel s \<and> sd_config s1 = sd_config s \<and> sd_instr s1 = sd_instr s
     \<and> sd_instance s1 = sd_instance s \<and> init w a s =
       ptry
       (pbind get_config_instance (\<lambda>_.
        pbind (on_otel (\<lambda>s. apfst Inr (setup_tracing (w_mk w) (ia_service_name (apply_env_config d a))
                 (ia_environment (apply_env_config d a)) (ia_tracer a)
                 (ia_otlp_endpoint (apply_env_config d a)) (ia_otlp_headers (apply_env_config d a))
                 (py_truth (ia_disable_batch (apply_env_config d a))) s))) (\<lambda>tracer.
        if tracer = None
        then log_sdk ERROR [''OpenLIT tracing setup failed. Tracing will not be available.'']
        else setup_rest w (apply_env_config d a) tracer)))
       (\<lambda>e. log_sdk ERROR [''Error during openLIT initialization: %s'', exc_msg e]) s1"
proof -
  let ?s0 = "s\<lparr>sd_log := sd_log s @ [(INFO, [''Starting openLIT initialization...''])]\<rparr>"
  let ?ds = "ia_disabled_instrumentors (apply_env_config d a)"
  have k: "keeps (\<lambda>s. (sd_otel s, sd_config s, sd_instr s, sd_instance s)) (warn_invalid_instrumentors ?ds)"
    unfolding warn_invalid_instrumentors_def by (rule keeps_intros | simp)+
  have "returns (warn_invalid_instrumentors ?ds)"
    unfolding warn_invalid_instrumentors_def by (rule raises_intros raises_only_log_sdk)+
  then obtain u s1 where s1: "warn_invalid_instrumentors ?ds ?s0 = (Inr u, s1)" by (rule returnsE)
  have "resolve_args w a ?s0 = (Inr (apply_env_config d a), ?s0)" by (simp add: resolve_args_def assms)
  with keepsD [OF k s1] s1 show ?thesis
    by (intro exI [of _ s1]) (simp add: init_def log_sdk_def pbind_def)
qed

lemma init_final_config:
  assumes w: "tame w" "w_mk w = mk_ok" and fresh: "fresh (sd_otel s)"
    and own: "\<not> ia_tracer a" "\<not> ia_event_logger a" "\<not> ia_meter a"
    and d: "build_config_from_environment (w_json_loads w) (ot_environ (sd_otel s)) = Inr d"
    and pricing: "ia_pricing_json (apply_env_config d a) = PNone \<or> ia_pricing_json (apply_env_config d a) = PStr u"
  shows "\<exists>t p. init w a s = (Inr (), t) \<and> sd_config t =
     update_config (effective_args d (ot_environ (sd_otel s)) a) (Some True) (Some True) (Some metrics_dict) p"
proof -
  let ?a = "apply_env_config d a" and ?cv = "''OTEL_INSTRUMENTATION_GENAI_CAPTURE_MESSAGE_CONTENT''"
  from init_prefix [OF d, of a] obtain s1 where
    s1: "sd_otel s1 = sd_otel s" and body: "init w a s =
       ptry
       (pbind get_config_instance (\<lambda>_.
        pbind (on_otel (\<lambda>s. apfst Inr (setup_tracing (w_mk w) (ia_service_name ?a) (ia_environment ?a) (ia_tracer a)
                 (ia_otlp_endpoint ?a) (ia_otlp_headers ?a) (py_truth (ia_disable_batch ?a)) s))) (\<lambda>tracer.
        if tracer = None
        then log_sdk ERROR [''OpenLIT tracing setup failed. Tracing will not be available.'']
        else setup_rest w ?a tracer)))
       (\<lambda>e. log_sdk ERROR [''Error during openLIT initialization: %s'', exc_msg e]) s1" by blast
  define s2 where "s2 = (if sd_instance s1 then s1 else s1\<lparr>sd_instance := True, sd_config := reset_to_defaults\<rparr>)"
  have s2: "sd_otel s2 = sd_otel s" by (simp add: s2_def s1)
  from first_setup [OF fresh, of "ia_service_name ?a" "ia_environment ?a" "ia_otlp_endpoint ?a" "ia_otlp_headers ?a"
      "py_truth (ia_disable_batch ?a)"] obtain o1 where
    o1: "setup_tracing mk_ok (ia_service_name ?a) (ia_environment ?a) False (ia_otlp_endpoint ?a) (ia_otlp_headers ?a)
        (py_truth (ia_disable_batch ?a)) (sd_otel s) = (Some True, o1)" by blast
  have "logs_part o1 = (None, False)" and mp1: "meter_part o1 = (None, False)"
    using setup_tracing_frame [OF o1] fresh by (simp_all add: fresh_def)
  then have "\<not> ot_events_set o1" "ot_logger_provider o1 = None" by (simp_all add: parts)
  from setup_events_first [OF this] obtain o2 where
    o2: "setup_events mk_ok (ia_service_name ?a) (ia_environment ?a) False None None (py_truth (ia_disable_batch ?a)) o1
        = (Inr (Some True), o2)" by blast
  have "meter_part o2 = (None, False)" using setup_events_frame [OF o2] mp1 by simp
  then have "\<not> ot_meter_set o2" "ot_meter_provider o2 = None" by (simp_all add: parts)
  from setup_meter_first [OF this] obtain o3 where
    o3: "setup_meter mk_ok (ia_service_name ?a) (ia_environment ?a) False (ia_otlp_endpoint ?a) (ia_otlp_headers ?a) o2
        = (Inr (Some metrics_dict, None), o3)" by blast
  have "dget (ot_environ o3) ?cv = dget (ot_environ (sd_otel s)) ?cv"
    using setup_tracing_env [OF _ o1, of ?cv] setup_events_env [OF _ o2, of ?cv] setup_meter_env [OF _ o3, of ?cv]
    by simp
  then have off: "content_switched_off (ot_environ o3) = content_switched_off (ot_environ (sd_otel s))"
    by (simp add: content_switched_off_def dget_or_def)
  let ?s3 = "s2\<lparr>sd_otel := o1\<rparr>"
  from setup_rest_config [OF w(1), of ?a ?s3 True o2 metrics_dict o3 u _ "Some True", OF _ _ pricing refl] o2 o3 w(2) own
  obtain r t p where rest: "setup_rest w ?a (Some True) ?s3 = (r, t)" "\<forall>e. r = Inl e \<longrightarrow> is_Exception e"
    "sd_config t = update_config (effective_args d (ot_environ (sd_otel s)) a) (Some True) (Some True) (Some metrics_dict) p"
    by (auto simp: off effective_args_def)
  have "init w a s = (case (r, t) of (Inl e, t) \<Rightarrow> log_sdk ERROR [''Error during openLIT initialization: %s'', exc_msg e] t
      | (Inr x, t) \<Rightarrow> (Inr x, t))"
    using rest(1,2) own o1 w(2) s2
    by (cases r) (simp_all add: body ptry_def pbind_def get_config_instance_def on_otel_def s2_def [symmetric])
  with rest(3) show ?thesis
    by (cases r) (auto simp: log_sdk_def)
qed

text \<open>A variable that is set and not empty.\<close>

definition env_set :: "(string, string) dict \<Rightarrow> string \<Rightarrow> string option" where
  "env_set environ v = (case dget environ v of None \<Rightarrow> None | Some x \<Rightarrow> if x = [] then None else Some x)"

definition env_or :: "(string, string) dict \<Rightarrow> string \<Rightarrow> (string \<Rightarrow> pyval) \<Rightarrow> pyval \<Rightarrow> pyval" where
  "env_or environ v f dflt = (case env_set environ v of None \<Rightarrow> dflt | Some x \<Rightarrow> f x)"

lemma env_config_value:
  assumes "build_config_from_environment jl environ = Inr d"
    and "dget PARAMETER_CONFIG n = Some p" and "pc_env_var p \<noteq> None"
  shows "pc_cli_type p = CliBool \<Longrightarrow> dget_or d n x = env_or environ (the (pc_env_var p)) (\<lambda>s. PBool (parse_bool s)) x"
    and "pc_cli_type p \<noteq> CliBool \<Longrightarrow> pc_parser p = None \<Longrightarrow> dget_or d n x = env_or environ (the (pc_env_var p)) PStr x"
  using build_config_entries [OF assms(1), of n] assms(2,3)
  by (auto simp: env_entry_def get_env_var_for_parameter_def parse_env_value_def env_or_def env_set_def dget_or_def
      split: option.splits if_splits)

lemma table_lookups:
  "dget PARAMETER_CONFIG ''environment'' = Some (plain_param (PStr ''default'') ''OTEL_DEPLOYMENT_ENVIRONMENT''
       ''Deployment environment'' CliStr)"
  "dget PARAMETER_CONFIG ''service_name'' = Some (plain_param (PStr ''default'') ''OTEL_SERVICE_NAME''
       ''Service name for tracing'' CliStr)"
  "dget PARAMETER_CONFIG ''disable_batch'' = Some (plain_param (PBool False) ''OPENLIT_DISABLE_BATCH''
       ''Disable batch span processing'' CliBool)"
  "dget PARAMETER_CONFIG ''capture_message_content'' = Some
       ((plain_param (PBool True) ''OTEL_INSTRUMENTATION_GENAI_CAPTURE_MESSAGE_CONTENT''
       ''Enable capture of message content'' CliBool)\<lparr>pc_has_negation := True\<rparr>)"
  "dget PARAMETER_CONFIG ''pricing_json'' = Some (plain_param PNone ''OPENLIT_PRICING_JSON''
       ''File path or URL to pricing JSON'' CliStr)"
  "dget PARAMETER_CONFIG ''max_content_length'' = Some (plain_param PNone ''OPENLIT_MAX_CONTENT_LENGTH''
       ''Maximum character length for captured content (None = no limit)'' CliInt)"
  "dget PARAMETER_CONFIG ''application_name'' = Some ((plain_param (PStr ''default'') ''OTEL_SERVICE_NAME''
       ''Application name for tracing (deprecated, use service_name)'' CliStr)\<lparr>pc_deprecated := True\<rparr>)"
  by (simp_all add: PARAMETER_CONFIG_def)


definition quiet_world :: world where
  "quiet_world = \<lparr>w_mk = mk_ok, w_json_loads = (\<lambda>s. Inl (PyExc JSONDecodeError s)),
     w_http_get = (\<lambda>u. Inl (PyExc RequestException u)), w_open_json = (\<lambda>p. Inl (PyExc FileNotFoundError p)),
     w_find_spec = (\<lambda>m. Inr False), w_import_class = (\<lambda>m c. Inl (PyExc ImportError m)), w_new_instance = (\<lambda>c. Inr ()),
     w_instrument = (\<lambda>n k. Inr ()), w_gpu_type = Inr PNone, w_gpu_instrument = Inr (),
     w_system_metrics = Inl (PyExc ImportError [])\<rparr>"

lemma tame_quiet_world: "tame quiet_world"
  by (simp add: tame_def quiet_world_def mk_ok_def)

definition start_state :: "(string, string) dict \<Rightarrow> sdk" where
  "start_state environ = \<lparr>sd_otel = \<lparr>ot_environ = environ, ot_tracer_set = False, ot_events_set = False, ot_meter_set = False,
        ot_tracer_provider = None, ot_logger_provider = None, ot_meter_provider = None, ot_log = []\<rparr>,
     sd_instance = False, sd_config = reset_to_defaults, sd_instr = \<lparr>is_calls = [], is_log = []\<rparr>,
     sd_gpu = [], sd_system = 0, sd_log = []\<rparr>"

lemma fresh_start_state: "fresh (sd_otel (start_state environ))"
  by (simp add: fresh_def parts start_state_def)

theorem init_returns_witness: "\<exists>t. init quiet_world default_args (start_state []) = (Inr (), t)"
  by (rule init_returns) (rule tame_quiet_world)


lemma setup_tracing_no_exporter:
  assumes "\<And>e. \<exists>err. mk Traces e = Inl err" and "\<not> ot_tracer_set s"
    and "dget (ot_environ s) ''OTEL_TRACES_EXPORTER'' = None"
    and "setup_tracing mk app environment False ep hdr d s = (r, t)"
  shows "r = None"
proof -
  have fails: "\<exists>e t. setup_trace_exporters mk d' s' = (Inl e, t)"
    if "dget (ot_environ s') ''OTEL_TRACES_EXPORTER'' = None" for s' d'
  proof -
    obtain e1 e2 where "mk Traces OtlpExporter = Inl e1" "mk Traces ConsoleExporter = Inl e2"
      using assms(1) by metis
    with that show ?thesis
      by (simp add: setup_trace_exporters_def parse_exporters_def pbind_def)
  qed
  let ?s = "set_otlp_env ep hdr ((setenv ''HAYSTACK_AUTO_TRACE_ENABLED'' ''false'' s)
      \<lparr>ot_tracer_provider := set_once (ot_tracer_provider s)
         \<lparr>pv_resource = make_resource app environment, pv_processors = []\<rparr>\<rparr>)"
  have "dget (ot_environ ?s) ''OTEL_TRACES_EXPORTER'' = None"
    using assms(3) by (simp add: set_otlp_env_def setenv_def Let_def split: option.split)
  with fails obtain e t' where "setup_trace_exporters mk d ?s = (Inl e, t')" by blast
  with assms(2,4) show ?thesis
    by (auto simp: setup_tracing_def setup_tracer_provider_def pbind_def setenv_def)
qed

text \<open>When no tracer can be had, \<open>init\<close> stops there: it still returns, calls no instrumentor and leaves
  the configuration at what it was, or at the defaults when it had never been made.\<close>

theorem init_without_tracer:
  assumes "tame w" and "\<And>e. \<exists>err. w_mk w Traces e = Inl err" and "fresh (sd_otel s)" and "\<not> ia_tracer a"
    and "dget (ot_environ (sd_otel s)) ''OTEL_TRACES_EXPORTER'' = None"
  shows "\<exists>t. init w a s = (Inr (), t) \<and> sd_instr t = sd_instr s
     \<and> sd_config t = (if sd_instance s then sd_config s else reset_to_defaults)"
proof -
  from resolve_args_ok [OF assms(1)] obtain d where
    d: "build_config_from_environment (w_json_loads w) (ot_environ (sd_otel s)) = Inr d" by metis
  let ?a = "apply_env_config d a"
  from init_prefix [OF d, of a] obtain s1 where s1: "sd_otel s1 = sd_otel s" "sd_config s1 = sd_config s"
    "sd_instr s1 = sd_instr s" "sd_instance s1 = sd_instance s" and body: "init w a s =
       ptry
       (pbind get_config_instance (\<lambda>_.
        pbind (on_otel (\<lambda>s. apfst Inr (setup_tracing (w_mk w) (ia_service_name ?a) (ia_environment ?a) (ia_tracer a)
                 (ia_otlp_endpoint ?a) (ia_otlp_headers ?a) (py_truth (ia_disable_batch ?a)) s))) (\<lambda>tracer.
        if tracer = None
        then log_sdk ERROR [''OpenLIT tracing setup failed. Tracing will not be available.'']
        else setup_rest w ?a tracer)))
       (\<lambda>e. log_sdk ERROR [''Error during openLIT initialization: %s'', exc_msg e]) s1" by blast
  have nf: "\<not> ot_tracer_set (sd_otel s)" using assms(3) by (simp add: fresh_def parts)
  obtain r o1 where o1: "setup_tracing (w_mk w) (ia_service_name ?a) (ia_environment ?a) False (ia_otlp_endpoint ?a)
      (ia_otlp_headers ?a) (py_truth (ia_disable_batch ?a)) (sd_otel s) = (r, o1)" by fastforce
  have "r = None"
    by (rule setup_tracing_no_exporter [OF assms(2) nf assms(5) o1])
  then show ?thesis
    using o1 s1 assms(4)
    by (simp add: body ptry_def pbind_def get_config_instance_def on_otel_def log_sdk_def)
qed

theorem init_without_tracer_witness:
  "\<exists>t. init (quiet_world\<lparr>w_mk := \<lambda>sg x. Inl (PyExc RuntimeError [])\<rparr>) default_args (start_state []) = (Inr (), t)
     \<and> sd_instr t = sd_instr (start_state []) \<and> sd_config t = reset_to_defaults"
  using init_without_tracer [of "quiet_world\<lparr>w_mk := \<lambda>sg x. Inl (PyExc RuntimeError [])\<rparr>" "start_state []" default_args]
    tame_quiet_world fresh_start_state [of "[]"]
  by (simp add: tame_def default_args_def start_state_def)

section \<open>The OpenLIT server\<close>

lemma drop_none_values: "(k, v) \<in> set (drop_none p) \<Longrightarrow> v \<noteq> PNone"
  by (simp add: drop_none_def)

lemma drop_none_get: "distinct (map fst p) \<Longrightarrow> (k, v) \<in> set p \<Longrightarrow> v \<noteq> PNone \<Longrightarrow> dget (drop_none p) k = Some v"
  by (simp add: drop_none_def dget_def distinct_map_filter)

lemma get_env_variable_given [simp]: "get_env_variable n (Some v) m = pret v"
  by (simp add: get_env_variable_def)

text \<open>\<open>get_prompt\<close> with its credentials sends exactly one request, to the prompt endpoint of the given
  server, with every argument that is not \<open>None\<close> under its wire name, the source and no \<open>None\<close>
  value; it returns the server's answer, \<open>None\<close> when the request failed, and lets any other error
  through.\<close>

theorem get_prompt_request:
  "\<exists>t rq. get_prompt post (Some u) name (Some key) pid version compile variables meta s
       = (case post rq of Inr v \<Rightarrow> Inr v | Inl e \<Rightarrow> if is_RequestException e then Inr PNone else Inl e, t)
     \<and> hb_requests t = hb_requests s @ [rq] \<and> hb_environ t = hb_environ s
     \<and> rq_endpoint rq = u @ ''/api/prompt/get-compiled''
     \<and> dget (rq_headers rq) ''Authorization'' = Some (''Bearer '' @ key)
     \<and> PNone \<notin> snd ` set (rq_payload rq)
     \<and> dget (rq_payload rq) ''source'' = Some (PStr ''python-sdk'')
     \<and> (pid \<noteq> PNone \<longrightarrow> dget (rq_payload rq) ''promptId'' = Some pid)
     \<and> (name \<noteq> PNone \<longrightarrow> dget (rq_payload rq) ''name'' = Some name)"
proof -
  let ?p = "[(''name'', name), (''promptId'', pid), (''version'', version),
              (''shouldCompile'', compile), (''variables'', variables),
              (''metaProperties'', meta), (''source'', PStr ''python-sdk'')]"
  let ?rq = "\<lparr>rq_endpoint = u @ ''/api/prompt/get-compiled'', rq_payload = drop_none ?p, rq_headers = bearer_headers key\<rparr>"
  have d: "distinct (map fst ?p)" by simp
  have facts: "PNone \<notin> snd ` set (rq_payload ?rq)"
    "dget (rq_payload ?rq) ''source'' = Some (PStr ''python-sdk'')"
    "pid \<noteq> PNone \<longrightarrow> dget (rq_payload ?rq) ''promptId'' = Some pid"
    "name \<noteq> PNone \<longrightarrow> dget (rq_payload ?rq) ''name'' = Some name"
    "dget (rq_headers ?rq) ''Authorization'' = Some (''Bearer '' @ key)"
    using drop_none_values [of _ _ ?p] drop_none_get [OF d] by (force simp: bearer_headers_def)+
  have "\<exists>t. get_prompt post (Some u) name (Some key) pid version compile variables meta s
       = (case post ?rq of Inr v \<Rightarrow> Inr v | Inl e \<Rightarrow> if is_RequestException e then Inr PNone else Inl e, t)
     \<and> hb_requests t = hb_requests s @ [?rq] \<and> hb_environ t = hb_environ s"
    by (cases "post ?rq")
      (auto simp: get_prompt_def hub_credentials_def except_request_def post_request_def pbind_def)
  then obtain t where "get_prompt post (Some u) name (Some key) pid version compile variables meta s
       = (case post ?rq of Inr v \<Rightarrow> Inr v | Inl e \<Rightarrow> if is_RequestException e then Inr PNone else Inl e, t)"
     "hb_requests t = hb_requests s @ [?rq]" "hb_environ t = hb_environ s" by blast
  with facts show ?thesis by (intro exI [of _ t] exI [of _ ?rq]) simp
qed

theorem get_prompt_request_witness:
  "\<exists>t rq. get_prompt (\<lambda>rq. Inl (PyExc HTTPError ''500'')) (Some ''http://h'') (PStr ''greeting'') (Some ''k'') PNone PNone PNone PNone PNone
        \<lparr>hb_environ = [], hb_requests = [], hb_log = []\<rparr> = (Inr PNone, t)
     \<and> hb_requests t = [rq] \<and> dget (rq_payload rq) ''name'' = Some (PStr ''greeting'')"
  using get_prompt_request [of "\<lambda>rq. Inl (PyExc HTTPError ''500'')" "''http://h''" "PStr ''greeting''" "''k''" PNone PNone PNone PNone PNone
      "\<lparr>hb_environ = [], hb_requests = [], hb_log = []\<rparr>"]
  by fastforce

text \<open>\<open>get_secrets\<close> asked to set the environment stores every secret of the answer under its name, the
  last value for a repeated name and all other variables unchanged; but an answer without \<open>res\<close> makes
  it raise \<open>AttributeError\<close>, since the default is a list and only request errors are caught.\<close>

theorem get_secrets_environment:
  "(post_answer = PDict d \<and> dget d ''res'' = Some (PDict secrets) \<longrightarrow>
      (\<exists>t. get_secrets repr (\<lambda>_. Inr post_answer) (Some u) (Some key) k tags (PBool True) s = (Inr post_answer, t)
        \<and> hb_environ t = dict.puts (map (\<lambda>(n, v). (n, py_str repr v)) secrets) (hb_environ s)))
   \<and> (post_answer = PDict d \<and> dget d ''res'' = None \<longrightarrow>
      fst (get_secrets repr (\<lambda>_. Inr post_answer) (Some u) (Some key) k tags (PBool True) s)
        = Inl (no_attr (PList []) ''items''))"
proof -
  have loop: "pfor secrets (\<lambda>(n, v). pmodify (\<lambda>s. s\<lparr>hb_environ := dput n (py_str repr v) (hb_environ s)\<rparr>)) s
      = (Inr (), s\<lparr>hb_environ := dict.puts (map (\<lambda>(n, v). (n, py_str repr v)) secrets) (hb_environ s)\<rparr>)" for s
    by (induction secrets arbitrary: s) (auto simp: pbind_def)
  show ?thesis
    by (auto simp: get_secrets_def hub_credentials_def except_request_def post_request_def pbind_def
        export_secrets_def dget_or_def loop no_attr_def)
qed

theorem get_secrets_environment_witness:
  "\<exists>t. get_secrets (\<lambda>_. []) (\<lambda>_. Inr (PDict [(''res'', PDict [(''A'', PInt 7)])])) (Some ''u'') (Some ''k'') PNone PNone (PBool True)
       \<lparr>hb_environ = [], hb_requests = [], hb_log = []\<rparr> = (Inr (PDict [(''res'', PDict [(''A'', PInt 7)])]), t)
     \<and> hb_environ t = dict.puts [(''A'', show_int 7)] []"
  using get_secrets_environment [of "PDict [(''res'', PDict [(''A'', PInt 7)])]" "[(''res'', PDict [(''A'', PInt 7)])]"
     "[(''A'', PInt 7)]" "\<lambda>_. []" "''u''" "''k''" PNone PNone "\<lparr>hb_environ = [], hb_requests = [], hb_log = []\<rparr>"]
  by simp

section \<open>The trace decorator\<close>

lemma trace_metadata_status:
  "trace_metadata c sa sk sp = (r, sp') \<Longrightarrow> sp_status sp' = sp_status sp \<and> sp_exceptions sp' = sp_exceptions sp"
proof -
  have "keeps (\<lambda>s. (sp_status s, sp_exceptions s)) (trace_metadata c sa sk)"
    unfolding trace_metadata_def by (rule keeps_intros | simp add: set_attribute_def)+
  then show "trace_metadata c sa sk sp = (r, sp') \<Longrightarrow> ?thesis" by (auto dest: keepsD)
qed

text \<open>The \<open>trace\<close> decorator is transparent: the wrapped call's result is returned, or its exception
  raised again, unchanged, even when rendering the arguments fails; the span is ended, with status OK, or
  with status ERROR and the exception recorded, twice, by the wrapper and by the span's context manager.\<close>

theorem trace_transparent:
  assumes "\<And>e. str_args = Inl e \<Longrightarrow> is_Exception e" and "\<And>e. str_kwargs = Inl e \<Longrightarrow> is_Exception e"
  shows "\<exists>sp. trace_wrapper c wrapped str_args str_kwargs fresh_span = (wrapped, sp) \<and> sp_ended sp
     \<and> (case wrapped of Inr v \<Rightarrow> sp_status sp = StatusOk \<and> sp_exceptions sp = []
        | Inl e \<Rightarrow> is_Exception e \<longrightarrow> sp_status sp = StatusError \<and> sp_exceptions sp = [e, e])"
proof (cases wrapped)
  case (Inl e)
  then show ?thesis
    by (cases "is_Exception e")
      (simp_all add: trace_wrapper_def trace_body_def trace_call_def ptry_def pbind_def record_exception_def
        set_status_def current_span_def leave_span_def end_span_def fresh_span_def)
next
  case (Inr v)
  let ?sp = "set_status StatusOk (set_attribute GEN_AI_OUTPUT_MESSAGES (py_or v (PStr [])) fresh_span)"
  have "raises_only (\<lambda>e. is_Exception e \<or> False) (trace_metadata c str_args str_kwargs)"
    unfolding trace_metadata_def by (rule raises_intros | use assms in simp)+
  then have r: "returns (ptry (trace_metadata c str_args str_kwargs) (\<lambda>_. pret ()))"
    by (rule raises_only_ptry) (rule raises_intros)
  obtain u sp' where sp': "ptry (trace_metadata c str_args str_kwargs) (\<lambda>_. pret ()) ?sp = (Inr u, sp')"
    by (rule returnsE [OF r])
  have "sp_status sp' = sp_status ?sp \<and> sp_exceptions sp' = sp_exceptions ?sp"
    using sp' trace_metadata_status [of c str_args str_kwargs ?sp]
    by (auto simp: ptry_def split: prod.splits sum.splits if_splits)
  moreover have "trace_body c wrapped str_args str_kwargs fresh_span = (Inr v, sp')"
    using Inr sp' by (simp add: trace_body_def trace_call_def ptry_def pbind_def)
  ultimately show ?thesis
    using Inr by (simp add: trace_wrapper_def current_span_def leave_span_def end_span_def set_status_def
        set_attribute_def fresh_span_def)
qed

theorem trace_transparent_witness:
  "\<exists>sp. trace_wrapper reset_to_defaults (Inr (PStr ''r'')) (Inl (PyExc ValueError [])) (Inr ''{}'') fresh_span
       = (Inr (PStr ''r''), sp) \<and> sp_ended sp \<and> sp_status sp = StatusOk"
  using trace_transparent [of "Inl (PyExc ValueError [])" "Inr ''{}''" reset_to_defaults "Inr (PStr ''r'')"]
  by auto

end
