(* ===== verification/Guard.thy ===== *)
theory Guard
  imports Prompts Pricing SemConv
begin

text \<open>
  \<open>openlit/guard\<close>: provider set-up, prompt formatting, the LLM call and the parsing of its answer,
  custom rules, and the four guards.  The record \<open>llm_world\<close> holds what is outside the SDK: the two
  client libraries, \<open>json.loads\<close>, \<open>re.search\<close> and pydantic's validation of \<open>JsonOutput\<close>.
\<close>

section \<open>State and environment\<close>

record json_output =
  jo_score :: rat
  jo_verdict :: string
  jo_guard :: string
  jo_classification :: string
  jo_explanation :: string

record llm_world =
  lw_openai_chat :: "string option \<Rightarrow> (string, pyval) dict \<Rightarrow> pyval res"
  lw_anthropic_create :: "(string, pyval) dict \<Rightarrow> pyval list res"
  lw_json_loads :: "string \<Rightarrow> pyval res"
  lw_search :: "pyval \<Rightarrow> string \<Rightarrow> bool res"
  lw_validate :: "(string, pyval) dict \<Rightarrow> json_output res"

record guard_state =
  gs_environ :: "(string, string) dict"
  gs_counts :: "(int \<times> (string, pyval) dict) list"
  gs_log :: "log_line list"

definition log_guard :: "log_level \<Rightarrow> string list \<Rightarrow> (guard_state, unit) prog" where
  "log_guard l m = pmodify (\<lambda>s. s\<lparr>gs_log := gs_log s @ [(l, m)]\<rparr>)"

section \<open>Provider set-up\<close>

definition provider_configs :: "(string, string) dict" where
  "provider_configs = [(''openai'', ''OPENAI_API_KEY''), (''anthropic'', ''ANTHROPIC_API_KEY'')]"

definition setup_provider ::
  "string option \<Rightarrow> string option \<Rightarrow> string option \<Rightarrow> string option
    \<Rightarrow> (guard_state, string option \<times> string option \<times> string option) prog" where
  "setup_provider provider api_key model base_url =
     (case provider of
        None \<Rightarrow> pret (None, None, None)
      | Some p \<Rightarrow>
          (let p = py_lower p in
           case dget provider_configs p of
             None \<Rightarrow> praise (PyExc ValueError (''Unsupported provider: '' @ p))
           | Some env_var \<Rightarrow>
               pbind (case api_key of
                   None \<Rightarrow> pret ()
                 | Some k \<Rightarrow> pwhen (k \<noteq> []) (pmodify (\<lambda>s. s\<lparr>gs_environ := dput env_var k (gs_environ s)\<rparr>))) (\<lambda>_.
               pbind (pgets (\<lambda>s. dget_or (gs_environ s) env_var [])) (\<lambda>k.
               if k = [] then praise (PyExc ValueError (''API key required via '' @ [CHR 0x27] @ ''api_key'' @ [CHR 0x27]
                   @ '' parameter or '' @ [CHR 0x27] @ env_var @ [CHR 0x27] @ '' environment variable''))
               else pret (Some k, model, base_url)))))"

section \<open>Prompts\<close>

definition format_prompt :: "string \<Rightarrow> string \<Rightarrow> string" where
  "format_prompt system_prompt text = py_replace ''{{prompt}}'' text system_prompt"

definition bullet_list :: "string list \<Rightarrow> string" where
  "bullet_list topics = unlines (map (\<lambda>topic. ''- '' @ topic) topics)"

definition category_lines :: "(string, string) dict \<Rightarrow> string" where
  "category_lines categories = unlines (map (\<lambda>(key, v). ''- '' @ key @ '': '' @ v) categories)"

text \<open>The optional paragraph on custom categories: nothing for \<open>None\<close> and for the empty dict.\<close>

definition custom_paragraph :: "string \<Rightarrow> (string, string) dict option \<Rightarrow> string" where
  "custom_paragraph heading custom_categories =
     (case custom_categories of
        None \<Rightarrow> []
      | Some categories \<Rightarrow> (if categories = [] then []
          else CHR 0x0A # ''    '' @ heading @ CHR 0x0A # category_lines categories))"

definition topic_paragraph :: "string \<Rightarrow> string list option \<Rightarrow> string" where
  "topic_paragraph otherwise topics =
     (case topics of None \<Rightarrow> otherwise | Some ts \<Rightarrow> (if ts = [] then otherwise else bullet_list ts))"

definition injection_system_prompt :: "(string, string) dict option \<Rightarrow> string" where
  "injection_system_prompt custom_categories =
     INJECTION_1 @ custom_paragraph ''Additional Categories:'' custom_categories @ INJECTION_2"

definition sensitive_system_prompt :: "(string, string) dict option \<Rightarrow> string" where
  "sensitive_system_prompt custom_categories =
     SENSITIVE_1 @ custom_paragraph ''Additional Categories:'' custom_categories @ SENSITIVE_2"

definition topics_system_prompt :: "string list option \<Rightarrow> string list option \<Rightarrow> string" where
  "topics_system_prompt valid_topics invalid_topics =
     TOPICS_1
     @ topic_paragraph ''- No valid categories. All topics are considered invalid unless specified under valid topics.'' valid_topics
     @ TOPICS_2
     @ topic_paragraph ''- No predefined invalid categories.'' invalid_topics
     @ TOPICS_3"

definition get_all_system_prompt ::
  "string list option \<Rightarrow> string list option \<Rightarrow> (string, string) dict option \<Rightarrow> string" where
  "get_all_system_prompt valid_topics invalid_topics custom_categories =
     GUARD_ALL_1 @ custom_paragraph ''Additional Prompt Injection Categories:'' custom_categories
     @ GUARD_ALL_2 @ topic_paragraph ''- None specified.'' valid_topics
     @ GUARD_ALL_3 @ topic_paragraph ''- None specified.'' invalid_topics
     @ GUARD_ALL_4 @ custom_paragraph ''Additional Sensitive Topics Categories:'' custom_categories
     @ GUARD_ALL_5"

section \<open>The LLM call\<close>

definition user_message :: "string \<Rightarrow> pyval" where
  "user_message prompt = PList [PDict [(''role'', PStr ''user''), (''content'', PStr prompt)]]"

definition llm_response_openai :: "llm_world \<Rightarrow> string \<Rightarrow> string option \<Rightarrow> string option \<Rightarrow> pyval res" where
  "llm_response_openai w prompt model base_url =
     lw_openai_chat w base_url
       [(''model'', PStr (case model of None \<Rightarrow> ''gpt-4o'' | Some m \<Rightarrow> m)),
        (''messages'', user_message prompt),
        (''temperature'', PFloat 0),
        (''response_format'', PDict [(''type'', PStr ''json_object'')])]"

definition tool_property :: "string \<Rightarrow> string \<Rightarrow> pyval" where
  "tool_property ty description = PDict [(''type'', PStr ty), (''description'', PStr description)]"

definition analysis_tool :: "(string, pyval) dict \<Rightarrow> pyval" where
  "analysis_tool properties = PList [PDict
     [(''name'', PStr ''prompt_analysis''),
      (''description'', PStr ''Prints the Prompt Injection score of a given prompt.''),
      (''input_schema'', PDict [(''type'', PStr ''object''), (''properties'', PDict properties),
         (''required'', PList (map PStr (dkeys properties)))])]]"

definition guard_tools :: pyval where
  "guard_tools = analysis_tool
     [(''verdict'', tool_property ''string'' ''Verdict of guardrail''),
      (''guard'', tool_property ''string'' ''Type of guard''),
      (''score'', tool_property ''number'' ''Prompt score from Guard.''),
      (''classification'', tool_property ''string'' ''Incorrect prompt type''),
      (''explanation'', tool_property ''string'' ''Reason for classification'')]"

text \<open>The input of the first content block that uses the tool; without one the message itself is the
  result.\<close>

fun first_analysis :: "pyval list \<Rightarrow> pyval option" where
  "first_analysis [] = None"
| "first_analysis (c # cs) =
     (if py_getattr c ''type'' PNone = PStr ''tool_use'' \<and> py_getattr c ''name'' PNone = PStr ''prompt_analysis''
      then Some (py_getattr c ''input'' PNone) else first_analysis cs)"

definition llm_response_anthropic :: "llm_world \<Rightarrow> string \<Rightarrow> string option \<Rightarrow> pyval res" where
  "llm_response_anthropic w prompt model =
     res_bind (lw_anthropic_create w
       [(''model'', PStr (case model of None \<Rightarrow> ''claude-3-opus-20240229'' | Some m \<Rightarrow> m)),
        (''messages'', user_message prompt),
        (''max_tokens'', PInt 2000),
        (''temperature'', PFloat 0),
        (''tools'', guard_tools),
        (''stream'', PBool False)]) (\<lambda>blocks.
     Inr (case first_analysis blocks of Some v \<Rightarrow> v | None \<Rightarrow> PObj ''Message'' [(''content'', PList blocks)]))"

definition llm_response :: "llm_world \<Rightarrow> string \<Rightarrow> string \<Rightarrow> string option \<Rightarrow> string option \<Rightarrow> pyval res" where
  "llm_response w provider prompt model base_url =
     (if py_lower provider = ''openai'' then llm_response_openai w prompt model base_url
      else if py_lower provider = ''anthropic'' then llm_response_anthropic w prompt model
      else Inl (PyExc ValueError (''Unsupported provider: '' @ provider)))"

section \<open>Answers\<close>

definition neutral_output :: json_output where
  "neutral_output = \<lparr>jo_score = 0, jo_verdict = ''none'', jo_guard = ''none'', jo_classification = ''none'',
     jo_explanation = ''none''\<rparr>"

text \<open>The body of the try: \<open>JsonOutput(**data)\<close> raises \<open>TypeError\<close> for data that is not a mapping.\<close>

definition parse_data :: "llm_world \<Rightarrow> pyval \<Rightarrow> json_output res" where
  "parse_data w response =
     res_bind (case response of
         PStr s \<Rightarrow> lw_json_loads w s
       | PDict d \<Rightarrow> Inr (PDict d)
       | _ \<Rightarrow> Inl (PyExc TypeError ''Response must be a JSON string or a dictionary.'')) (\<lambda>data.
     case data of
       PDict d \<Rightarrow> lw_validate w d
     | _ \<Rightarrow> Inl (PyExc TypeError ''argument after ** must be a mapping''))"

definition parse_llm_response :: "llm_world \<Rightarrow> pyval \<Rightarrow> (guard_state, json_output) prog" where
  "parse_llm_response w response =
     (case parse_data w response of
        Inr out \<Rightarrow> pret out
      | Inl e \<Rightarrow> (if exc_class e = JSONDecodeError \<or> exc_class e = TypeError
                  then pbind (log_guard ERROR [''Error parsing LLM response: %s'', exc_msg e]) (\<lambda>_. pret neutral_output)
                  else praise e))"

section \<open>Custom rules\<close>

definition rule_output :: "(string, pyval) dict \<Rightarrow> (string, pyval) dict" where
  "rule_output rule =
     [(''verdict'', dget_or rule ''verdict'' (PStr ''yes'')),
      (''guard'', dget_or rule ''guard'' (PStr ''prompt_injection'')),
      (''score'', dget_or rule ''score'' (PFloat (1/2))),
      (''classification'', dget_or rule ''classification'' (PStr ''custom'')),
      (''explanation'', dget_or rule ''explanation'' (PStr ''Matched custom rule pattern.''))]"

fun custom_rule_detection :: "llm_world \<Rightarrow> string \<Rightarrow> (string, pyval) dict list \<Rightarrow> json_output res" where
  "custom_rule_detection w text [] = Inr neutral_output"
| "custom_rule_detection w text (rule # rules) =
     (case dget rule ''pattern'' of
        None \<Rightarrow> Inl (PyExc KeyError ''pattern'')
      | Some pattern \<Rightarrow>
          res_bind (lw_search w pattern text) (\<lambda>matched.
            if matched then lw_validate w (rule_output rule) else custom_rule_detection w text rules))"

section \<open>Metrics\<close>

definition guard_metric_attributes ::
  "string \<Rightarrow> rat \<Rightarrow> string \<Rightarrow> string \<Rightarrow> string \<Rightarrow> (string, pyval) dict" where
  "guard_metric_attributes verdict score validator classification explanation = dict_of
     [(TELEMETRY_SDK_NAME, PStr ''openlit''),
      (GUARD_VERDICT, PStr verdict),
      (GUARD_SCORE, PFloat score),
      (GUARD_VALIDATOR, PStr validator),
      (GUARD_CLASSIFICATION, PStr classification),
      (GUARD_EXPLANATION, PStr explanation)]"

text \<open>\<open>guard_metrics().add(1, attributes)\<close>.\<close>

definition count_guard :: "(string, pyval) dict \<Rightarrow> (guard_state, unit) prog" where
  "count_guard attributes = pmodify (\<lambda>s. s\<lparr>gs_counts := gs_counts s @ [(1, attributes)]\<rparr>)"

section \<open>The guards\<close>

record guard_obj =
  go_provider :: "string option"
  go_model :: "string option"
  go_base_url :: "string option"
  go_system_prompt :: string
  go_custom_rules :: "(string, pyval) dict list"
  go_threshold_score :: rat
  go_collect_metrics :: bool

definition make_guard ::
  "string option \<Rightarrow> string option \<Rightarrow> string option \<Rightarrow> string option \<Rightarrow> string
    \<Rightarrow> (string, pyval) dict list option \<Rightarrow> rat \<Rightarrow> bool \<Rightarrow> (guard_state, guard_obj) prog" where
  "make_guard provider api_key model base_url system_prompt custom_rules threshold_score collect_metrics =
     pbind (setup_provider provider api_key model base_url) (\<lambda>(api_key, model, base_url).
     pret \<lparr>go_provider = provider, go_model = model, go_base_url = base_url, go_system_prompt = system_prompt,
        go_custom_rules = (case custom_rules of None \<Rightarrow> [] | Some rules \<Rightarrow> rules),
        go_threshold_score = threshold_score, go_collect_metrics = collect_metrics\<rparr>)"

definition PromptInjection_init ::
  "string option \<Rightarrow> string option \<Rightarrow> string option \<Rightarrow> string option \<Rightarrow> (string, pyval) dict list option
    \<Rightarrow> (string, string) dict option \<Rightarrow> rat \<Rightarrow> bool \<Rightarrow> (guard_state, guard_obj) prog" where
  "PromptInjection_init provider api_key model base_url custom_rules custom_categories threshold_score collect_metrics =
     make_guard provider api_key model base_url (injection_system_prompt custom_categories) custom_rules
       threshold_score collect_metrics"

definition SensitiveTopic_init ::
  "string option \<Rightarrow> string option \<Rightarrow> string option \<Rightarrow> string option \<Rightarrow> (string, pyval) dict list option
    \<Rightarrow> (string, string) dict option \<Rightarrow> rat \<Rightarrow> bool \<Rightarrow> (guard_state, guard_obj) prog" where
  "SensitiveTopic_init provider api_key model base_url custom_rules custom_categories threshold_score collect_metrics =
     make_guard provider api_key model base_url (sensitive_system_prompt custom_categories) custom_rules
       threshold_score collect_metrics"

text \<open>\<open>max(a, b, key=score)\<close>: the first of two equal scores.\<close>

definition max_score :: "json_output \<Rightarrow> json_output \<Rightarrow> json_output" where
  "max_score a b = (if jo_score b > jo_score a then b else a)"

text \<open>The LLM's opinion, or the given one when the guard has no provider.\<close>

definition llm_opinion :: "llm_world \<Rightarrow> guard_obj \<Rightarrow> string \<Rightarrow> json_output \<Rightarrow> (guard_state, json_output) prog" where
  "llm_opinion w g text llm_result =
     (case go_provider g of
        None \<Rightarrow> pret llm_result
      | Some provider \<Rightarrow>
          (if provider = [] then pret llm_result
           else pbind (plift (llm_response w provider (format_prompt (go_system_prompt g) text) (go_model g) (go_base_url g)))
                  (parse_llm_response w)))"

definition PromptInjection_detect :: "llm_world \<Rightarrow> guard_obj \<Rightarrow> string \<Rightarrow> (guard_state, json_output) prog" where
  "PromptInjection_detect w g text =
     pbind (plift (custom_rule_detection w text (go_custom_rules g))) (\<lambda>custom_rule_result.
     pbind (llm_opinion w g text neutral_output) (\<lambda>llm_result.
     let result = max_score custom_rule_result llm_result;
         score = (if jo_classification result = ''none'' then 0 else jo_score result);
         verdict = (if score > go_threshold_score g then ''yes'' else ''no'')
     in pbind (pwhen (go_collect_metrics g) (count_guard
            (guard_metric_attributes verdict score (jo_guard result) (jo_classification result) (jo_explanation result)))) (\<lambda>_.
        pret \<lparr>jo_score = score, jo_verdict = verdict, jo_guard = jo_guard result,
          jo_classification = jo_classification result, jo_explanation = jo_explanation result\<rparr>)))"

definition SensitiveTopic_detect :: "llm_world \<Rightarrow> guard_obj \<Rightarrow> string \<Rightarrow> (guard_state, json_output) prog" where
  "SensitiveTopic_detect w g text =
     pbind (plift (custom_rule_detection w text (go_custom_rules g))) (\<lambda>custom_rule_result.
     pbind (llm_opinion w g text (neutral_output\<lparr>jo_verdict := ''no''\<rparr>)) (\<lambda>llm_result.
     let result = max_score custom_rule_result llm_result;
         score = (if jo_classification result = ''none'' then 0 else jo_score result);
         verdict = (if score > go_threshold_score g then ''yes'' else ''no'')
     in pbind (pwhen (go_collect_metrics g) (count_guard
            (guard_metric_attributes verdict score (jo_guard result) (jo_classification result) (jo_explanation result)))) (\<lambda>_.
        pret \<lparr>jo_score = score, jo_verdict = verdict, jo_guard = jo_guard result,
          jo_classification = jo_classification result, jo_explanation = jo_explanation result\<rparr>)))"

definition TopicRestriction_init ::
  "string option \<Rightarrow> string list option \<Rightarrow> string option \<Rightarrow> string option \<Rightarrow> string option \<Rightarrow> string list option
    \<Rightarrow> bool \<Rightarrow> (guard_state, guard_obj) prog" where
  "TopicRestriction_init provider valid_topics api_key model base_url invalid_topics collect_metrics =
     (if provider = None then praise (PyExc ValueError ''An LLM provider must be specified for TopicRestriction Validator'')
      else pbind (make_guard provider api_key model base_url (topics_system_prompt valid_topics invalid_topics) None 0
                    collect_metrics) (\<lambda>g.
        if valid_topics = None then praise (PyExc ValueError ''Valid Topics must be specified for TopicRestriction Validator'')
        else pret g))"

text \<open>\<open>provider.lower()\<close> raises on \<open>None\<close>; the constructor has refused it.\<close>

definition TopicRestriction_detect :: "llm_world \<Rightarrow> guard_obj \<Rightarrow> string \<Rightarrow> (guard_state, json_output) prog" where
  "TopicRestriction_detect w g text =
     pbind (plift (case go_provider g of
         None \<Rightarrow> Inl (no_attr PNone ''lower'')
       | Some provider \<Rightarrow> llm_response w provider (format_prompt (go_system_prompt g) text) (go_model g) (go_base_url g))) (\<lambda>response.
     pbind (parse_llm_response w response) (\<lambda>llm_result.
     let result = (if jo_classification llm_result = ''valid_topic''
           then \<lparr>jo_score = 0, jo_verdict = ''no'', jo_guard = ''topic_restriction'', jo_classification = ''valid_topic'',
                 jo_explanation = ''Text fits into a valid topic.''\<rparr>
           else \<lparr>jo_score = 1, jo_verdict = ''yes'', jo_guard = ''topic_restriction'', jo_classification = ''invalid_topic'',
                 jo_explanation = ''Text does not match any valid categories.''\<rparr>)
     in pbind (pwhen (go_collect_metrics g) (count_guard (guard_metric_attributes (jo_verdict result) (jo_score result)
            (jo_guard result) (jo_classification result) (jo_explanation result)))) (\<lambda>_. pret result)))"

definition GuardAll_init ::
  "string option \<Rightarrow> string option \<Rightarrow> string option \<Rightarrow> string option \<Rightarrow> (string, pyval) dict list option
    \<Rightarrow> (string, string) dict option \<Rightarrow> string list option \<Rightarrow> string list option \<Rightarrow> bool \<Rightarrow> (guard_state, guard_obj) prog" where
  "GuardAll_init provider api_key model base_url custom_rules custom_categories valid_topics invalid_topics collect_metrics =
     make_guard provider api_key model base_url (get_all_system_prompt valid_topics invalid_topics custom_categories)
       custom_rules 0 collect_metrics"

definition GuardAll_detect :: "llm_world \<Rightarrow> guard_obj \<Rightarrow> string \<Rightarrow> (guard_state, json_output) prog" where
  "GuardAll_detect w g text =
     pbind (plift (custom_rule_detection w text (go_custom_rules g))) (\<lambda>custom_rule_result.
     pbind (llm_opinion w g text (neutral_output\<lparr>jo_verdict := ''no''\<rparr>)) (\<lambda>llm_result.
     let result = max_score custom_rule_result llm_result
     in pbind (pwhen (go_collect_metrics g) (count_guard (guard_metric_attributes (jo_verdict result) (jo_score result)
            (jo_guard result) (jo_classification result) (jo_explanation result)))) (\<lambda>_. pret result)))"

end
