(* ===== verification/GuardProps.thy ===== *)
theory GuardProps
  imports Guard
begin

text \<open>
  What the guards promise: a verdict that follows the threshold, the higher of the two opinions, a
  prompt that carries the user's text unchanged, and credentials that are checked before any call.
\<close>

section \<open>Thresholded guards\<close>

text \<open>The verdict a thresholded guard gives to an assessment.\<close>

definition judge :: "rat \<Rightarrow> json_output \<Rightarrow> json_output" where
  "judge threshold r =
     (let score = (if jo_classification r = ''none'' then 0 else jo_score r)
      in r\<lparr>jo_score := score, jo_verdict := (if score > threshold then ''yes'' else ''no'')\<rparr>)"

definition attributes_of :: "json_output \<Rightarrow> (string, pyval) dict" where
  "attributes_of r = guard_metric_attributes (jo_verdict r) (jo_score r) (jo_guard r) (jo_classification r) (jo_explanation r)"

definition metered :: "guard_obj \<Rightarrow> json_output \<Rightarrow> guard_state \<Rightarrow> guard_state" where
  "metered g r s = (if go_collect_metrics g then s\<lparr>gs_counts := gs_counts s @ [(1, attributes_of r)]\<rparr> else s)"

text \<open>The assessment before the verdict: the custom rules and, with a provider, the LLM.\<close>

definition assess :: "json_output \<Rightarrow> llm_world \<Rightarrow> guard_obj \<Rightarrow> string \<Rightarrow> (guard_state, json_output) prog" where
  "assess fallback w g text =
     pbind (plift (custom_rule_detection w text (go_custom_rules g))) (\<lambda>custom_rule_result.
     pbind (llm_opinion w g text fallback) (\<lambda>llm_result. pret (max_score custom_rule_result llm_result)))"

text \<open>A guard that judges an assessment which does not look at its threshold.\<close>

locale threshold_guard =
  fixes detect :: "guard_obj \<Rightarrow> string \<Rightarrow> (guard_state, json_output) prog"
    and assessment :: "guard_obj \<Rightarrow> string \<Rightarrow> (guard_state, json_output) prog"
  assumes detect_judges: "detect g text s =
      (case assessment g text s of (Inl e, t) \<Rightarrow> (Inl e, t)
       | (Inr r, t) \<Rightarrow> (Inr (judge (go_threshold_score g) r), metered g (judge (go_threshold_score g) r) t))"
    and assessment_threshold: "assessment (g\<lparr>go_threshold_score := x\<rparr>) text = assessment g text"
begin

lemma detectE:
  assumes "detect g text s = (Inr r, t)"
  obtains a u where "assessment g text s = (Inr a, u)" and "r = judge (go_threshold_score g) a" and "t = metered g r u"
  using assms by (auto simp: detect_judges split: prod.splits sum.splits)

lemma verdict_iff:
  assumes "detect g text s = (Inr r, t)"
  shows "jo_verdict r = (if jo_score r > go_threshold_score g then ''yes'' else ''no'')"
  using assms by (rule detectE) (simp add: judge_def Let_def)

lemma none_scores_zero:
  assumes "detect g text s = (Inr r, t)" and "jo_classification r = ''none''"
  shows "jo_score r = 0"
  using assms(1) by (rule detectE) (use assms(2) in \<open>simp add: judge_def Let_def\<close>)

text \<open>A lower threshold refuses at least as much, with the same score.\<close>

lemma lower_threshold:
  assumes "detect g text s = (Inr r, t)" and "x \<le> go_threshold_score g"
  shows "\<exists>r' t'. detect (g\<lparr>go_threshold_score := x\<rparr>) text s = (Inr r', t') \<and> jo_score r' = jo_score r
     \<and> (jo_verdict r = ''yes'' \<longrightarrow> jo_verdict r' = ''yes'')"
  using assms(1)
proof (rule detectE)
  fix a u assume "assessment g text s = (Inr a, u)" "r = judge (go_threshold_score g) a"
  with assms(2) show ?thesis
    by (auto simp: detect_judges assessment_threshold judge_def Let_def)
qed

lemma metric_counts:
  assumes "detect g text s = (Inr r, t)" and "go_collect_metrics g"
  shows "\<exists>cs. gs_counts t = cs @ [(1, attributes_of r)]"
  using assms(1) by (rule detectE) (use assms(2) in \<open>simp add: metered_def\<close>)

end

lemma llm_opinion_threshold: "llm_opinion w (g\<lparr>go_threshold_score := x\<rparr>) text r = llm_opinion w g text r"
  by (simp add: llm_opinion_def split: option.split)

lemma assess_threshold: "assess fb w (g\<lparr>go_threshold_score := x\<rparr>) text = assess fb w g text"
  by (simp add: assess_def llm_opinion_threshold)

lemma judged_tail:
  "(let result = r; score = (if jo_classification result = ''none'' then 0 else jo_score result);
         verdict = (if score > go_threshold_score g then ''yes'' else ''no'')
     in pbind (pwhen (go_collect_metrics g) (count_guard
            (guard_metric_attributes verdict score (jo_guard result) (jo_classification result) (jo_explanation result)))) (\<lambda>_.
        pret \<lparr>jo_score = score, jo_verdict = verdict, jo_guard = jo_guard result,
          jo_classification = jo_classification result, jo_explanation = jo_explanation result\<rparr>))
   = (\<lambda>s. (Inr (judge (go_threshold_score g) r), metered g (judge (go_threshold_score g) r) s))"
  by (rule ext, cases "go_collect_metrics g")
    (simp_all add: judge_def metered_def attributes_of_def count_guard_def pbind_def Let_def)

lemma detect_is_assess_then_judge:
  "PromptInjection_detect w g text s =
     (case assess neutral_output w g text s of (Inl e, t) \<Rightarrow> (Inl e, t)
       | (Inr r, t) \<Rightarrow> (Inr (judge (go_threshold_score g) r), metered g (judge (go_threshold_score g) r) t))"
  "SensitiveTopic_detect w g text s =
     (case assess (neutral_output\<lparr>jo_verdict := ''no''\<rparr>) w g text s of (Inl e, t) \<Rightarrow> (Inl e, t)
       | (Inr r, t) \<Rightarrow> (Inr (judge (go_threshold_score g) r), metered g (judge (go_threshold_score g) r) t))"
  unfolding PromptInjection_detect_def SensitiveTopic_detect_def judged_tail assess_def
  by (simp_all add: pbind_def split: prod.split sum.split)

interpretation injection_guard: threshold_guard "PromptInjection_detect w" "assess neutral_output w" for w
  by unfold_locales (simp_all only: detect_is_assess_then_judge assess_threshold)

interpretation sensitive_guard: threshold_guard "SensitiveTopic_detect w" "assess (neutral_output\<lparr>jo_verdict := ''no''\<rparr>) w" for w
  by unfold_locales (simp_all only: detect_is_assess_then_judge assess_threshold)

text \<open>C38: The verdict of the prompt-injection and the sensitive-topic guard is yes exactly when the score it
  reports exceeds the guard's threshold; an assessment classified none reports the score 0; and the
  counted metric carries the reported verdict and score.\<close>

theorem guard_verdict_follows_score:
  assumes "detect = PromptInjection_detect w \<or> detect = SensitiveTopic_detect w"
    and "detect g text s = (Inr r, t)"
  shows "jo_verdict r = (if jo_score r > go_threshold_score g then ''yes'' else ''no'')
     \<and> (jo_classification r = ''none'' \<longrightarrow> jo_score r = 0)
     \<and> (go_collect_metrics g \<longrightarrow> (\<exists>cs. gs_counts t = cs @ [(1, attributes_of r)]))"
  using assms injection_guard.verdict_iff injection_guard.none_scores_zero injection_guard.metric_counts
    sensitive_guard.verdict_iff sensitive_guard.none_scores_zero sensitive_guard.metric_counts
  by metis

text \<open>Guards are monotone in their threshold: with a lower threshold the same guard reports the same score
  for the same text, and refuses whatever it refused before.\<close>

theorem guard_threshold_monotone:
  assumes "detect = PromptInjection_detect w \<or> detect = SensitiveTopic_detect w"
    and "detect g text s = (Inr r, t)" and "x \<le> go_threshold_score g"
  shows "\<exists>r' t'. detect (g\<lparr>go_threshold_score := x\<rparr>) text s = (Inr r', t') \<and> jo_score r' = jo_score r
     \<and> (jo_verdict r = ''yes'' \<longrightarrow> jo_verdict r' = ''yes'')"
  using assms injection_guard.lower_threshold sensitive_guard.lower_threshold by metis

text \<open>A guard with one custom rule and no provider, in a world that matches and validates everything.\<close>

definition sample_output :: json_output where
  "sample_output = \<lparr>jo_score = 1/2, jo_verdict = ''yes'', jo_guard = ''prompt_injection'',
     jo_classification = ''custom'', jo_explanation = ''Matched custom rule pattern.''\<rparr>"

definition sample_world :: llm_world where
  "sample_world = \<lparr>lw_openai_chat = (\<lambda>u rq. Inr (PStr ''{}'')), lw_anthropic_create = (\<lambda>rq. Inr []),
     lw_json_loads = (\<lambda>s. Inl (PyExc JSONDecodeError s)), lw_search = (\<lambda>p t. Inr True),
     lw_validate = (\<lambda>d. Inr sample_output)\<rparr>"

definition sample_guard :: guard_obj where
  "sample_guard = \<lparr>go_provider = None, go_model = None, go_base_url = None, go_system_prompt = [],
     go_custom_rules = [[(''pattern'', PStr ''drop table'')]], go_threshold_score = 1/4, go_collect_metrics = True\<rparr>"

definition sample_state :: guard_state where
  "sample_state = \<lparr>gs_environ = [], gs_counts = [], gs_log = []\<rparr>"

lemma sample_detect: "\<exists>r t. PromptInjection_detect sample_world sample_guard ''x'' sample_state = (Inr r, t)"
  by (simp add: PromptInjection_detect_def sample_world_def sample_guard_def pbind_def llm_opinion_def
      count_guard_def Let_def)

theorem guard_verdict_follows_score_witness:
  "\<exists>r t. PromptInjection_detect sample_world sample_guard ''x'' sample_state = (Inr r, t)
     \<and> jo_verdict r = (if jo_score r > 1/4 then ''yes'' else ''no'')"
proof -
  from sample_detect obtain r t where
    d: "PromptInjection_detect sample_world sample_guard ''x'' sample_state = (Inr r, t)" by blast
  from guard_verdict_follows_score [OF disjI1 [OF refl] d] d show ?thesis
    by (auto simp: sample_guard_def)
qed

theorem guard_threshold_monotone_witness:
  "\<exists>r t. PromptInjection_detect sample_world (sample_guard\<lparr>go_threshold_score := 0\<rparr>) ''x'' sample_state = (Inr r, t)"
proof -
  from sample_detect obtain r t where
    d: "PromptInjection_detect sample_world sample_guard ''x'' sample_state = (Inr r, t)" by blast
  have "0 \<le> go_threshold_score sample_guard" by (simp add: sample_guard_def)
  from guard_threshold_monotone [OF disjI1 [OF refl] d this] show ?thesis by blast
qed

section \<open>Prompts\<close>

text \<open>The first placeholder is the only one: what precedes it holds no brace, what follows not the
  placeholder.\<close>

lemma py_replace_brace:
  assumes "CHR ''{'' \<notin> set a" and "\<not> py_contains ''{{prompt}}'' b"
  shows "py_replace ''{{prompt}}'' new (a @ ''{{prompt}}'' @ b) = a @ new @ b"
  using assms(1)
proof (induction a)
  case Nil
  have "py_replace ''{{prompt}}'' new (''{{prompt}}'' @ b)
      = new @ py_replace ''{{prompt}}'' new b"
    by (simp add: startswith_def)
  with py_replace_absent [OF assms(2)] show ?case by simp
next
  case (Cons c a)
  then have "c \<noteq> CHR ''{''" by auto
  then have "\<not> startswith (c # a @ ''{{prompt}}'' @ b) ''{{prompt}}''" by (simp add: startswith_def)
  with Cons show ?case by simp
qed

text \<open>A text without two braces in a row that does not begin with one.\<close>

fun brace_scan :: "bool \<Rightarrow> string \<Rightarrow> bool" where
  "brace_scan after [] = True"
| "brace_scan after (c # s) = (if c = CHR ''{'' then \<not> after \<and> brace_scan True s else brace_scan False s)"

definition brace_free :: "string \<Rightarrow> bool" where
  "brace_free s \<longleftrightarrow> CHR ''{'' \<notin> set s"

lemma brace_scan_weaken: "brace_scan True s \<Longrightarrow> brace_scan b s"
  by (cases s) (auto split: if_splits)

lemma brace_scan_append: "brace_scan b s \<Longrightarrow> brace_scan True t \<Longrightarrow> brace_scan b (s @ t)"
  by (induction s arbitrary: b) (auto simp: brace_scan_weaken split: if_splits)

lemma brace_scan_free: "brace_free s \<Longrightarrow> brace_scan b s"
  by (induction s arbitrary: b) (auto simp: brace_free_def)

lemma brace_scan_no_placeholder: "brace_scan b s \<Longrightarrow> \<not> py_contains ''{{prompt}}'' s"
proof (induction s arbitrary: b)
  case (Cons c s)
  have "\<not> startswith (c # s) ''{{prompt}}''"
  proof
    assume "startswith (c # s) ''{{prompt}}''"
    then obtain t where "c # s = ''{{prompt}}'' @ t" by (auto simp: startswith_iff)
    with Cons.prems show False by simp
  qed
  moreover have "\<not> py_contains ''{{prompt}}'' s"
    using Cons.prems Cons.IH by (auto split: if_splits)
  ultimately show ?case by simp
qed simp

definition prompt_head :: "string \<Rightarrow> string" where
  "prompt_head p = takeWhile (\<lambda>c. c \<noteq> CHR ''{'') p"

definition prompt_tail :: "string \<Rightarrow> string" where
  "prompt_tail p = drop 10 (dropWhile (\<lambda>c. c \<noteq> CHR ''{'') p)"

definition has_placeholder :: "string \<Rightarrow> bool" where
  "has_placeholder p \<longleftrightarrow> take 10 (dropWhile (\<lambda>c. c \<noteq> CHR ''{'') p) = ''{{prompt}}'' \<and> brace_scan True (prompt_tail p)"

lemma format_prompt_embeds:
  assumes "has_placeholder p" and "brace_scan True rest"
  shows "format_prompt (p @ rest) text = prompt_head p @ text @ prompt_tail p @ rest"
proof -
  have "p = prompt_head p @ ''{{prompt}}'' @ prompt_tail p"
    using assms(1) unfolding has_placeholder_def prompt_head_def prompt_tail_def
    by (metis append_take_drop_id takeWhile_dropWhile_id)
  then have p: "p @ rest = prompt_head p @ ''{{prompt}}'' @ prompt_tail p @ rest" by (metis append.assoc)
  have "CHR ''{'' \<notin> set (prompt_head p)" by (auto simp: prompt_head_def dest: set_takeWhileD)
  moreover have "\<not> py_contains ''{{prompt}}'' (prompt_tail p @ rest)"
    by (rule brace_scan_no_placeholder [OF brace_scan_append [of True]])
      (use assms in \<open>simp_all add: has_placeholder_def\<close>)
  ultimately show ?thesis unfolding format_prompt_def by (subst p) (rule py_replace_brace)
qed

text \<open>Line by line, so that the prompts are checked in small steps.\<close>

lemma unlines_Cons: "unlines (l # ls) = l @ (if ls = [] then [] else CHR 0x0A # unlines ls)"
  by (cases ls) (simp_all add: unlines_def)

lemma unlines_Nil [simp]: "unlines [] = []"
  by (simp add: unlines_def)

lemma brace_scan_lines: "list_all (brace_scan False) ls \<Longrightarrow> brace_scan False (unlines ls)"
proof (induction ls)
  case (Cons l ls)
  have "brace_scan True (CHR 0x0A # unlines ls)" using Cons by simp
  with Cons.prems brace_scan_append [of False l] show ?case by (simp add: unlines_Cons)
qed simp

definition piece_ok :: "string list \<Rightarrow> bool" where
  "piece_ok ls \<longleftrightarrow> (case ls of l # k # ks \<Rightarrow> l = [] \<and> list_all (brace_scan False) (k # ks) | _ \<Rightarrow> False)"

lemma piece_ok_scan: "piece_ok ls \<Longrightarrow> brace_scan True (unlines ls)"
proof -
  assume "piece_ok ls"
  then obtain k ks where ls: "ls = [] # k # ks" "list_all (brace_scan False) (k # ks)"
    by (auto simp: piece_ok_def split: list.splits)
  have "unlines ls = CHR 0x0A # unlines (k # ks)" by (simp add: ls(1) unlines_def)
  with brace_scan_lines [OF ls(2)] show ?thesis by simp
qed

fun placeholder_lines :: "string list \<Rightarrow> bool" where
  "placeholder_lines [] = False"
| "placeholder_lines (l # ls) =
     (if l = ''    {{prompt}}'' then list_all (brace_scan False) ls
      else list_all (\<lambda>c. c \<noteq> CHR ''{'') l \<and> ls \<noteq> [] \<and> placeholder_lines ls)"

lemma dropWhile_list_all: "list_all P a \<Longrightarrow> dropWhile P (a @ b) = dropWhile P b"
  by (induction a) simp_all

lemma placeholder_lines_ok: "placeholder_lines ls \<Longrightarrow> has_placeholder (unlines ls)"
proof (induction ls)
  case (Cons l ls)
  show ?case
  proof (cases "l = ''    {{prompt}}''")
    case True
    with Cons.prems have "brace_scan False (unlines ls)" using brace_scan_lines by simp
    with True show ?thesis by (simp add: unlines_Cons has_placeholder_def prompt_tail_def)
  next
    case False
    with Cons have "list_all (\<lambda>c. c \<noteq> CHR ''{'') l" "ls \<noteq> []" "has_placeholder (unlines ls)" by auto
    then show ?thesis
      by (simp add: unlines_Cons has_placeholder_def prompt_tail_def dropWhile_list_all)
  qed
qed simp

lemma placeholders:
  "has_placeholder INJECTION_1" "has_placeholder SENSITIVE_1" "has_placeholder TOPICS_1" "has_placeholder GUARD_ALL_1"
  unfolding INJECTION_1_def SENSITIVE_1_def TOPICS_1_def GUARD_ALL_1_def
  by (rule placeholder_lines_ok, simp)+

lemma later_pieces:
  "brace_scan True INJECTION_2" "brace_scan True SENSITIVE_2" "brace_scan True TOPICS_2" "brace_scan True TOPICS_3"
  "brace_scan True GUARD_ALL_2" "brace_scan True GUARD_ALL_3" "brace_scan True GUARD_ALL_4" "brace_scan True GUARD_ALL_5"
  unfolding INJECTION_2_def SENSITIVE_2_def TOPICS_2_def TOPICS_3_def
    GUARD_ALL_2_def GUARD_ALL_3_def GUARD_ALL_4_def GUARD_ALL_5_def
  by (rule piece_ok_scan, simp add: piece_ok_def)+

lemma brace_free_simps [simp]:
  "brace_free []"
  "brace_free (c # s) \<longleftrightarrow> c \<noteq> CHR ''{'' \<and> brace_free s"
  "brace_free (s @ t) \<longleftrightarrow> brace_free s \<and> brace_free t"
  by (auto simp: brace_free_def)

lemma brace_free_unlines: "list_all brace_free ls \<Longrightarrow> brace_free (unlines ls)"
  by (induction ls) (simp_all add: unlines_Cons)

definition plain_categories :: "(string, string) dict option \<Rightarrow> bool" where
  "plain_categories cats \<longleftrightarrow> (case cats of None \<Rightarrow> True | Some d \<Rightarrow> list_all (\<lambda>(k, v). brace_free k \<and> brace_free v) d)"

definition plain_topics :: "string list option \<Rightarrow> bool" where
  "plain_topics ts \<longleftrightarrow> (case ts of None \<Rightarrow> True | Some d \<Rightarrow> list_all brace_free d)"

lemma brace_free_custom: "plain_categories cats \<Longrightarrow> brace_free h \<Longrightarrow> brace_free (custom_paragraph h cats)"
  by (auto simp: custom_paragraph_def plain_categories_def category_lines_def list_all_iff
      intro!: brace_free_unlines split: option.split) fastforce+

lemma brace_free_topics: "plain_topics ts \<Longrightarrow> brace_free h \<Longrightarrow> brace_free (topic_paragraph h ts)"
  by (auto simp: topic_paragraph_def plain_topics_def bullet_list_def list_all_iff
      intro!: brace_free_unlines split: option.split)

text \<open>Every guard asks the LLM about the very text it was given: with custom categories and topics
  that hold no brace, the formatted prompt is the guard's instructions with the text, unchanged and
  only there, between them.\<close>

theorem guard_prompt_embeds_text:
  assumes "plain_categories cats" and "plain_topics valid" and "plain_topics invalid"
    and "p \<in> {injection_system_prompt cats, sensitive_system_prompt cats,
       topics_system_prompt valid invalid, get_all_system_prompt valid invalid cats}"
  shows "\<exists>before after. \<forall>text. format_prompt p text = before @ text @ after"
proof -
  have pieces: "brace_scan True (custom_paragraph ''Additional Categories:'' cats)"
    "brace_scan True (custom_paragraph ''Additional Prompt Injection Categories:'' cats)"
    "brace_scan True (custom_paragraph ''Additional Sensitive Topics Categories:'' cats)"
    "brace_scan True (topic_paragraph ''- None specified.'' valid)"
    "brace_scan True (topic_paragraph ''- None specified.'' invalid)"
    "brace_scan True (topic_paragraph ''- No valid categories. All topics are considered invalid unless specified under valid topics.'' valid)"
    "brace_scan True (topic_paragraph ''- No predefined invalid categories.'' invalid)"
    using assms(1-3) by (simp_all add: brace_scan_free brace_free_custom brace_free_topics)
  have "\<exists>q rest. p = q @ rest \<and> has_placeholder q \<and> brace_scan True rest"
    using assms(4) placeholders
    unfolding injection_system_prompt_def sensitive_system_prompt_def topics_system_prompt_def get_all_system_prompt_def
    by (elim insertE emptyE) (auto intro!: exI brace_scan_append later_pieces pieces)
  then show ?thesis using format_prompt_embeds by blast
qed

theorem guard_prompt_embeds_text_witness:
  "\<exists>before after. \<forall>text. format_prompt (get_all_system_prompt (Some [''billing'']) None (Some [(''spam'', ''ads'')])) text
      = before @ text @ after"
  by (rule guard_prompt_embeds_text [of "Some [(''spam'', ''ads'')]" "Some [''billing'']" None])
     (simp_all add: plain_categories_def plain_topics_def)

section \<open>Credentials\<close>

text \<open>A guard can only be made with usable credentials: a known provider in any letter case, and a key
  that was given, which is then exported to the provider's variable, or was already in the environment.
  Any other provider and a missing key raise \<open>ValueError\<close> and change nothing; the key written is the
  only change ever made to the environment.\<close>

theorem setup_provider_credentials:
  assumes "setup_provider (Some p) api_key model base_url s = (r, t)"
  shows "(dget provider_configs (py_lower p) = None \<longrightarrow>
            r = Inl (PyExc ValueError (''Unsupported provider: '' @ py_lower p)) \<and> t = s)
     \<and> (\<forall>v. dget provider_configs (py_lower p) = Some v \<longrightarrow>
          (\<forall>k. api_key = Some k \<and> k \<noteq> [] \<longrightarrow> r = Inr (Some k, model, base_url)
                \<and> t = s\<lparr>gs_environ := dput v k (gs_environ s)\<rparr>)
        \<and> (api_key = None \<or> api_key = Some [] \<longrightarrow> t = s \<and>
             (case dget_or (gs_environ s) v [] of
                [] \<Rightarrow> (\<exists>m. r = Inl (PyExc ValueError m))
              | c # cs \<Rightarrow> r = Inr (Some (c # cs), model, base_url))))"
  using assms
  by (auto simp: setup_provider_def Let_def pbind_def split: option.splits list.splits if_splits)

theorem setup_provider_credentials_witness:
  "\<exists>t. setup_provider (Some ''OpenAI'') (Some ''sk'') None None sample_state = (Inr (Some ''sk'', None, None), t)
     \<and> dget (gs_environ t) ''OPENAI_API_KEY'' = Some ''sk''"
proof -
  have l: "py_lower ''OpenAI'' = ''openai''" by (simp add: py_lower_def lower_char_def Let_def char_of_def bit_0)
  obtain r t where rt: "setup_provider (Some ''OpenAI'') (Some ''sk'') None None sample_state = (r, t)" by fastforce
  with setup_provider_credentials [OF rt] show ?thesis
    by (auto simp: l provider_configs_def)
qed

text \<open>The combined guard keeps the opinion with the higher score and, on a tie, the custom rule's, even
  when no rule matched: with no provider and no matching rule its verdict is none, not no.\<close>

theorem guard_all_no_opinion:
  assumes "go_provider g = None" and "\<And>rule. rule \<in> set (go_custom_rules g) \<Longrightarrow>
      \<exists>pattern. dget rule ''pattern'' = Some pattern \<and> lw_search w pattern text = Inr False"
    and "\<not> go_collect_metrics g"
  shows "GuardAll_detect w g text s = (Inr neutral_output, s) \<and> jo_verdict neutral_output = ''none''"
proof -
  have "custom_rule_detection w text rules = Inr neutral_output" if "set rules \<subseteq> set (go_custom_rules g)" for rules
    using that
  proof (induction rules)
    case (Cons rule rules)
    with assms(2) [of rule] show ?case by auto
  qed simp
  with assms(1,3) show ?thesis
    by (simp add: GuardAll_detect_def llm_opinion_def max_score_def neutral_output_def pbind_def Let_def)
qed

theorem guard_all_no_opinion_witness:
  "GuardAll_detect (sample_world\<lparr>lw_search := \<lambda>p t. Inr False\<rparr>) (sample_guard\<lparr>go_collect_metrics := False\<rparr>) ''x'' sample_state
     = (Inr neutral_output, sample_state)"
  using guard_all_no_opinion [of "sample_guard\<lparr>go_collect_metrics := False\<rparr>" "sample_world\<lparr>lw_search := \<lambda>p t. Inr False\<rparr>" "''x''" sample_state]
  by (simp add: sample_guard_def sample_world_def)

text \<open>An answer of the LLM that is not a JSON object never breaks a guard: text that is no JSON, JSON that
  is no object, and a message without the tool's result all give the neutral output; an object is
  passed to the schema, whose refusal is not caught.\<close>

theorem parse_llm_response_cases:
  "(\<forall>e. lw_json_loads w x = Inl e \<and> exc_class e = JSONDecodeError \<longrightarrow>
       fst (parse_llm_response w (PStr x) s) = Inr neutral_output)
   \<and> (\<forall>v. lw_json_loads w x = Inr v \<and> py_type v \<noteq> ''dict'' \<and> (\<forall>c a. v \<noteq> PObj c a) \<longrightarrow>
       fst (parse_llm_response w (PStr x) s) = Inr neutral_output)
   \<and> fst (parse_llm_response w (PObj c a) s) = Inr neutral_output
   \<and> (\<forall>e. lw_validate w d = Inl e \<and> exc_class e = ValueError \<longrightarrow>
       parse_llm_response w (PDict d) s = (Inl e, s))
   \<and> (\<forall>out. lw_validate w d = Inr out \<longrightarrow> parse_llm_response w (PDict d) s = (Inr out, s))"
  by (auto simp: parse_llm_response_def parse_data_def log_guard_def pbind_def split: pyval.splits)

theorem parse_llm_response_cases_witness:
  "fst (parse_llm_response sample_world (PStr ''nope'') sample_state) = Inr neutral_output
   \<and> parse_llm_response sample_world (PDict []) sample_state = (Inr sample_output, sample_state)"
  using parse_llm_response_cases [of sample_world "''nope''" sample_state "''Message''" "[]" "[]"]
  by (simp add: sample_world_def)

end
