(* ===== verification/Evals.thy ===== *)
theory Evals
  imports Guard Telemetry
begin

text \<open>
  \<open>openlit/evals\<close>: the prompt, the LLM call, the parsed answer, the evaluation event and the four
  evaluators.  The provider set-up, the choice of the provider and the tool block search are the same
  code as in the guards and are taken from there; pydantic's validation, \<open>json.dumps\<close> and the
  emitting of the log record or event are parameters.
\<close>

record eval_output =
  eo_verdict :: string
  eo_evaluation :: string
  eo_score :: rat
  eo_classification :: string
  eo_explanation :: string

datatype emission = LogRecord string | OtelEvent "(string, pyval) dict"

record eval_world =
  ew_llm :: llm_world
  ew_validate :: "(string, pyval) dict \<Rightarrow> eval_output res"
  ew_json_dumps :: "(string, pyval) dict \<Rightarrow> string res"
  ew_emit :: "emission \<Rightarrow> unit res"
  ew_repr :: "pyval \<Rightarrow> string"

text \<open>The two configuration values the evaluators read at call time.\<close>

record eval_state =
  es_event_provider :: bool
  es_logs_export :: bool
  es_emitted :: "emission list"
  es_log :: "log_line list"

definition log_eval :: "log_level \<Rightarrow> string list \<Rightarrow> (eval_state, unit) prog" where
  "log_eval l m = pmodify (\<lambda>s. s\<lparr>es_log := es_log s @ [(l, m)]\<rparr>)"

section \<open>Prompts\<close>

definition bias_system_prompt :: "(pyval \<Rightarrow> string) \<Rightarrow> (string, string) dict option \<Rightarrow> rat \<Rightarrow> string" where
  "bias_system_prompt repr custom_categories threshold_score =
     BIAS_1 @ py_str repr (PFloat threshold_score) @ BIAS_2
     @ custom_paragraph ''Additional Bias Categories:'' custom_categories @ BIAS_3"

text \<open>The base prompt of the hallucination evaluator is no format string: the threshold is not put in.\<close>

definition hallucination_system_prompt :: "(pyval \<Rightarrow> string) \<Rightarrow> (string, string) dict option \<Rightarrow> rat \<Rightarrow> string" where
  "hallucination_system_prompt repr custom_categories threshold_score =
     HALLUCINATION_1 @ custom_paragraph ''Additional Hallucination Categories:'' custom_categories @ HALLUCINATION_2"

definition toxicity_system_prompt :: "(pyval \<Rightarrow> string) \<Rightarrow> (string, string) dict option \<Rightarrow> rat \<Rightarrow> string" where
  "toxicity_system_prompt repr custom_categories threshold_score =
     TOXICITY_1 @ py_str repr (PFloat threshold_score) @ TOXICITY_2
     @ custom_paragraph ''Additional Toxicity Categories:'' custom_categories @ TOXICITY_3"

definition eval_all_system_prompt :: "(pyval \<Rightarrow> string) \<Rightarrow> (string, string) dict option \<Rightarrow> rat \<Rightarrow> string" where
  "eval_all_system_prompt repr custom_categories threshold_score =
     EVAL_ALL_1 @ py_str repr (PFloat threshold_score) @ EVAL_ALL_2
     @ custom_paragraph ''Additional Hallucination Categories:'' custom_categories @ EVAL_ALL_3"

definition quoted_item :: "(pyval \<Rightarrow> string) \<Rightarrow> pyval \<Rightarrow> string" where
  "quoted_item repr c = [CHR ''-'', CHR '' '', CHR 0x22] @ py_str repr c @ [CHR 0x22]"

text \<open>\<open>[... for c in contexts]\<close>: lists, the characters of a string and the keys of a dict can be iterated.\<close>

definition iterate_contexts :: "pyval \<Rightarrow> pyval list res" where
  "iterate_contexts v = (case v of
     PList xs \<Rightarrow> Inr xs
   | PStr s \<Rightarrow> Inr (map (\<lambda>c. PStr [c]) s)
   | PDict d \<Rightarrow> Inr (map PStr (dkeys d))
   | _ \<Rightarrow> Inl (PyExc TypeError (py_type v @ '' is not iterable'')))"

definition eval_format_prompt ::
  "(pyval \<Rightarrow> string) \<Rightarrow> string \<Rightarrow> pyval \<Rightarrow> pyval \<Rightarrow> pyval \<Rightarrow> string res" where
  "eval_format_prompt repr system_prompt prompt contexts text =
     res_bind (iterate_contexts contexts) (\<lambda>cs.
     let context_str = unlines (map (quoted_item repr) cs) in
     case prompt of
       PStr p \<Rightarrow>
         (let formatted_prompt = py_replace ''{{prompt}}'' p system_prompt;
              formatted_prompt = py_replace ''{{context}}'' context_str formatted_prompt
          in Inr (py_replace ''{{text}}'' (quoted_item repr text) formatted_prompt))
     | _ \<Rightarrow> Inl (PyExc TypeError ''replace() argument 2 must be str''))"

section \<open>The LLM call\<close>

definition eval_llm_response_openai :: "llm_world \<Rightarrow> string \<Rightarrow> string option \<Rightarrow> string option \<Rightarrow> pyval res" where
  "eval_llm_response_openai w prompt model base_url =
     lw_openai_chat w base_url
       [(''model'', PStr (case model of None \<Rightarrow> ''gpt-4o-mini'' | Some m \<Rightarrow> m)),
        (''messages'', user_message prompt),
        (''response_format'', PDict [(''type'', PStr ''json_object'')])]"

definition eval_tools :: pyval where
  "eval_tools = analysis_tool
     [(''verdict'', tool_property ''string'' ''Evaluation verdict''),
      (''evaluation'', tool_property ''string'' ''Evaluation type''),
      (''score'', tool_property ''number'' ''Evaluation score''),
      (''classification'', tool_property ''string'' ''Evaluation category''),
      (''explanation'', tool_property ''string'' ''Evaluation reason'')]"

definition eval_llm_response_anthropic :: "llm_world \<Rightarrow> string \<Rightarrow> string option \<Rightarrow> pyval res" where
  "eval_llm_response_anthropic w prompt model =
     res_bind (lw_anthropic_create w
       [(''model'', PStr (case model of None \<Rightarrow> ''claude-3-opus-20240229'' | Some m \<Rightarrow> m)),
        (''messages'', user_message prompt),
        (''max_tokens'', PInt 2000),
        (''tools'', eval_tools),
        (''stream'', PBool False)]) (\<lambda>blocks.
     Inr (case first_analysis blocks of Some v \<Rightarrow> v | None \<Rightarrow> PObj ''Message'' [(''content'', PList blocks)]))"

definition eval_llm_response ::
  "llm_world \<Rightarrow> string \<Rightarrow> string \<Rightarrow> string option \<Rightarrow> string option \<Rightarrow> pyval res" where
  "eval_llm_response w provider prompt model base_url =
     (if py_lower provider = ''openai'' then eval_llm_response_openai w prompt model base_url
      else if py_lower provider = ''anthropic'' then eval_llm_response_anthropic w prompt model
      else Inl (PyExc ValueError (''Unsupported provider: '' @ provider)))"

definition eval_neutral :: eval_output where
  "eval_neutral = \<lparr>eo_verdict = ''no'', eo_evaluation = ''none'', eo_score = 0, eo_classification = ''none'',
     eo_explanation = ''none''\<rparr>"

definition eval_parse_data :: "eval_world \<Rightarrow> pyval \<Rightarrow> eval_output res" where
  "eval_parse_data w response =
     res_bind (case response of
         PStr s \<Rightarrow> lw_json_loads (ew_llm w) s
       | PDict d \<Rightarrow> Inr (PDict d)
       | _ \<Rightarrow> Inl (PyExc TypeError ''Response must be a JSON string or a dictionary.'')) (\<lambda>data.
     case data of
       PDict d \<Rightarrow> ew_validate w d
     | _ \<Rightarrow> Inl (PyExc TypeError ''argument after ** must be a mapping''))"

definition eval_parse_llm_response :: "eval_world \<Rightarrow> pyval \<Rightarrow> (eval_state, eval_output) prog" where
  "eval_parse_llm_response w response =
     (case eval_parse_data w response of
        Inr out \<Rightarrow> pret out
      | Inl e \<Rightarrow> (if exc_class e = JSONDecodeError \<or> exc_class e = TypeError
                  then pbind (log_eval ERROR [''Error parsing LLM response: %s'', exc_msg e]) (\<lambda>_. pret eval_neutral)
                  else praise e))"

section \<open>The evaluation event\<close>

definition evaluation_attributes ::
  "string \<Rightarrow> rat option \<Rightarrow> string option \<Rightarrow> string option \<Rightarrow> string option \<Rightarrow> string option \<Rightarrow> (string, pyval) dict" where
  "evaluation_attributes evaluation_name score_value score_label explanation response_id error_type =
     (let attributes = dput GEN_AI_EVALUATION_NAME (PStr evaluation_name) [];
          attributes = (if nonempty error_type then dput ERROR_TYPE (PStr (the error_type)) attributes
            else let attributes = (case score_value of None \<Rightarrow> attributes
                     | Some v \<Rightarrow> dput GEN_AI_EVALUATION_SCORE_VALUE (PFloat v) attributes)
                 in opt_attr GEN_AI_EVALUATION_SCORE_LABEL score_label attributes);
          attributes = opt_attr GEN_AI_EVALUATION_EXPLANATION explanation attributes
      in opt_attr GEN_AI_RESPONSE_ID response_id attributes)"

definition emit_out :: "eval_world \<Rightarrow> emission \<Rightarrow> (eval_state, unit) prog" where
  "emit_out w x = pbind (plift (ew_emit w x)) (\<lambda>_. pmodify (\<lambda>s. s\<lparr>es_emitted := es_emitted s @ [x]\<rparr>))"

definition emit_evaluation_event ::
  "eval_world \<Rightarrow> bool \<Rightarrow> string \<Rightarrow> rat option \<Rightarrow> string option \<Rightarrow> string option \<Rightarrow> string option \<Rightarrow> string option
    \<Rightarrow> (eval_state, unit) prog" where
  "emit_evaluation_event w event_provider evaluation_name score_value score_label explanation response_id error_type =
     ptry
       (if \<not> event_provider then pret ()
        else
          let attributes = evaluation_attributes evaluation_name score_value score_label explanation response_id error_type
          in pbind (pgets es_logs_export) (\<lambda>logs_export.
             if logs_export then pbind (plift (ew_json_dumps w attributes)) (\<lambda>body. emit_out w (LogRecord body))
             else emit_out w (OtelEvent attributes)))
       (\<lambda>e. log_eval WARNING [''Failed to emit evaluation event: %s'', exc_msg e])"

section \<open>Evaluators\<close>

record evaluator =
  ev_provider :: string
  ev_model :: "string option"
  ev_base_url :: "string option"
  ev_system_prompt :: string
  ev_threshold_score :: rat
  ev_event_provider :: bool

text \<open>The constructor of all four classes, with its own message and prompt.\<close>

definition make_evaluator ::
  "string \<Rightarrow> ((string, string) dict option \<Rightarrow> rat \<Rightarrow> string) \<Rightarrow> string option \<Rightarrow> string option \<Rightarrow> string option
    \<Rightarrow> string option \<Rightarrow> (string, string) dict option \<Rightarrow> rat \<Rightarrow> bool \<Rightarrow> (guard_state, evaluator) prog" where
  "make_evaluator message get_system_prompt provider api_key model base_url custom_categories threshold_score event_provider =
     (case provider of
        None \<Rightarrow> praise (PyExc ValueError message)
      | Some p \<Rightarrow>
          pbind (setup_provider provider api_key model base_url) (\<lambda>(api_key, model, base_url).
          pret \<lparr>ev_provider = p, ev_model = model, ev_base_url = base_url,
            ev_system_prompt = get_system_prompt custom_categories threshold_score,
            ev_threshold_score = threshold_score, ev_event_provider = event_provider\<rparr>))"

definition BiasDetector_init where
  "BiasDetector_init repr = make_evaluator ''An LLM provider must be specified for Bias detection.'' (bias_system_prompt repr)"

definition Hallucination_init where
  "Hallucination_init repr =
     make_evaluator ''An LLM provider must be specified for Hallucination detection.'' (hallucination_system_prompt repr)"

definition ToxicityDetector_init where
  "ToxicityDetector_init repr =
     make_evaluator ''An LLM provider must be specified for toxicity detection.'' (toxicity_system_prompt repr)"

definition EvalAll_init where
  "EvalAll_init repr = make_evaluator ''An LLM provider must be specified evaluation.'' (eval_all_system_prompt repr)"

text \<open>The body of the try in \<open>measure\<close>, up to the result.\<close>

definition measure_result ::
  "eval_world \<Rightarrow> evaluator \<Rightarrow> pyval \<Rightarrow> pyval \<Rightarrow> pyval \<Rightarrow> (eval_state, eval_output) prog" where
  "measure_result w ev prompt contexts text =
     pbind (plift (eval_format_prompt (ew_repr w) (ev_system_prompt ev) prompt contexts text)) (\<lambda>llm_prompt.
     pbind (plift (eval_llm_response (ew_llm w) (ev_provider ev) llm_prompt (ev_model ev) (ev_base_url ev))) (\<lambda>response.
     pbind (eval_parse_llm_response w response) (\<lambda>llm_result.
     pret (llm_result\<lparr>eo_verdict := (if eo_score llm_result > ev_threshold_score ev then ''yes'' else ''no'')\<rparr>))))"

text \<open>\<open>measure\<close> of an evaluator whose failures are reported under \<open>name\<close>.\<close>

definition measure_with ::
  "string \<Rightarrow> string \<Rightarrow> eval_world \<Rightarrow> evaluator \<Rightarrow> pyval \<Rightarrow> pyval \<Rightarrow> pyval \<Rightarrow> string option
    \<Rightarrow> (eval_state, eval_output) prog" where
  "measure_with name message w ev prompt contexts text response_id =
     pbind (pgets (\<lambda>s. ev_event_provider ev \<or> es_event_provider s)) (\<lambda>event_provider.
     ptry
       (pbind (measure_result w ev prompt contexts text) (\<lambda>result.
        pbind (pwhen event_provider (emit_evaluation_event w event_provider (eo_evaluation result) (Some (eo_score result))
            (Some (if eo_score result \<le> ev_threshold_score ev then ''pass'' else ''fail''))
            (Some (eo_explanation result)) response_id None)) (\<lambda>_.
        pret result)))
       (\<lambda>e.
        pbind (log_eval ERROR [message, exc_msg e]) (\<lambda>_.
        pbind (pwhen event_provider (emit_evaluation_event w event_provider name None None None response_id
            (Some (if py_contains ''provider'' (py_lower (exc_msg e)) then ''provider_error'' else ''unknown'')))) (\<lambda>_.
        pret \<lparr>eo_verdict = ''no'', eo_evaluation = name, eo_score = 0, eo_classification = ''error'',
          eo_explanation = ''Evaluation failed: '' @ exc_msg e\<rparr>))))"

definition BiasDetector_measure where
  "BiasDetector_measure = measure_with ''bias_detection'' ''Bias detection failed: %s''"

definition Hallucination_measure where
  "Hallucination_measure = measure_with ''hallucination'' ''Hallucination detection failed: %s''"

definition ToxicityDetector_measure where
  "ToxicityDetector_measure = measure_with ''toxicity_detection'' ''Toxicity detection failed: %s''"

definition EvalAll_measure where
  "EvalAll_measure = measure_with ''evaluation'' ''Evaluation failed: %s''"

end
