(* ===== verification/EvalsProps.thy ===== *)
theory EvalsProps
  imports Evals
begin

text \<open>
  What the evaluators promise: \<open>measure\<close> returns a result whatever fails, its verdict follows the
  score and the threshold, and the event it emits says the same thing.
\<close>

section \<open>The contract of measure\<close>

text \<open>A measurement that falls back: the attempt's result when it has one, the failure's otherwise.\<close>

locale guarded_measure =
  fixes measure :: "evaluator \<Rightarrow> pyval \<Rightarrow> pyval \<Rightarrow> pyval \<Rightarrow> string option \<Rightarrow> (eval_state, eval_output) prog"
    and attempt :: "evaluator \<Rightarrow> pyval \<Rightarrow> pyval \<Rightarrow> pyval \<Rightarrow> (eval_state, eval_output) prog"
    and failed :: "pyexc \<Rightarrow> eval_output"
    and emits :: bool
  assumes measure_ok: "emits \<Longrightarrow> attempt ev p c x s = (Inr r, t) \<Longrightarrow> fst (measure ev p c x rid s) = Inr r"
    and measure_failed: "emits \<Longrightarrow> attempt ev p c x s = (Inl e, t) \<Longrightarrow> is_Exception e \<Longrightarrow>
        fst (measure ev p c x rid s) = Inr (failed e)"
    and attempt_verdict: "attempt ev p c x s = (Inr r, t) \<Longrightarrow>
        eo_verdict r = (if eo_score r > ev_threshold_score ev then ''yes'' else ''no'')"
    and failed_neutral: "eo_score (failed e) = 0 \<and> eo_verdict (failed e) = ''no'' \<and> eo_classification (failed e) = ''error''"
begin

lemma measure_cases:
  assumes emits and "raises_only is_Exception (attempt ev p c x)"
  obtains (result) r t where "attempt ev p c x s = (Inr r, t)" "fst (measure ev p c x rid s) = Inr r"
  | (failure) e t where "attempt ev p c x s = (Inl e, t)" "fst (measure ev p c x rid s) = Inr (failed e)"
proof (cases "attempt ev p c x s")
  case (Pair r t)
  then show ?thesis
  proof (cases r)
    case (Inl e)
    with Pair assms(2) have "is_Exception e" by (auto dest: raises_onlyD)
    with Pair Inl assms(1) measure_failed failure show ?thesis by metis
  next
    case (Inr v)
    with Pair assms(1) measure_ok result show ?thesis by metis
  qed
qed

lemma measure_returns:
  assumes emits and "raises_only is_Exception (attempt ev p c x)" and "0 \<le> ev_threshold_score ev"
  shows "\<exists>r. fst (measure ev p c x rid s) = Inr r
     \<and> eo_verdict r = (if eo_score r > ev_threshold_score ev then ''yes'' else ''no'')"
  by (rule measure_cases [OF assms(1,2), of s rid])
    (use assms(3) attempt_verdict failed_neutral in \<open>fastforce+\<close>)

lemma measure_failure:
  assumes emits and "attempt ev p c x s = (Inl e, t)" and "is_Exception e"
  shows "\<exists>r. fst (measure ev p c x rid s) = Inr r \<and> eo_classification r = ''error'' \<and> eo_score r = 0
     \<and> eo_verdict r = ''no''"
  using measure_failed [OF assms] failed_neutral by auto

end

definition failed_output :: "string \<Rightarrow> pyexc \<Rightarrow> eval_output" where
  "failed_output name e = \<lparr>eo_verdict = ''no'', eo_evaluation = name, eo_score = 0, eo_classification = ''error'',
          eo_explanation = ''Evaluation failed: '' @ exc_msg e\<rparr>"

definition emission_tame :: "eval_world \<Rightarrow> bool" where
  "emission_tame w \<longleftrightarrow> (\<forall>d e. ew_json_dumps w d = Inl e \<longrightarrow> is_Exception e) \<and> (\<forall>x e. ew_emit w x = Inl e \<longrightarrow> is_Exception e)"

text \<open>What a world must do for every evaluator to be covered: raise ordinary exceptions only.\<close>

definition judge_tame :: "eval_world \<Rightarrow> bool" where
  "judge_tame w \<longleftrightarrow> emission_tame w
   \<and> (\<forall>u rq e. lw_openai_chat (ew_llm w) u rq = Inl e \<longrightarrow> is_Exception e)
   \<and> (\<forall>rq e. lw_anthropic_create (ew_llm w) rq = Inl e \<longrightarrow> is_Exception e)
   \<and> (\<forall>x e. lw_json_loads (ew_llm w) x = Inl e \<longrightarrow> is_Exception e)
   \<and> (\<forall>d e. ew_validate w d = Inl e \<longrightarrow> is_Exception e)"

lemma log_eval_returns: "returns (log_eval l m)"
  by (simp add: log_eval_def raises_only_basic)

lemma emit_returns:
  assumes "emission_tame w"
  shows "returns (emit_evaluation_event w p n v l x rid et)"
  unfolding emit_evaluation_event_def Let_def emit_out_def
  by (rule raises_intros log_eval_returns | use assms in \<open>simp add: emission_tame_def\<close>)+

lemma measure_with_ok:
  assumes "emission_tame w" and "measure_result w ev p c x s = (Inr r, t)"
  shows "fst (measure_with name message w ev p c x rid s) = Inr r"
proof -
  let ?b = "ev_event_provider ev \<or> es_event_provider s"
  have "returns (pwhen ?b (emit_evaluation_event w ?b (eo_evaluation r) (Some (eo_score r))
            (Some (if eo_score r \<le> ev_threshold_score ev then ''pass'' else ''fail'')) (Some (eo_explanation r)) rid None))"
    by (rule raises_intros emit_returns assms)+
  then obtain u t' where "pwhen ?b (emit_evaluation_event w ?b (eo_evaluation r) (Some (eo_score r))
            (Some (if eo_score r \<le> ev_threshold_score ev then ''pass'' else ''fail'')) (Some (eo_explanation r)) rid None) t
      = (Inr u, t')" by (rule returnsE)
  with assms(2) show ?thesis by (simp add: measure_with_def ptry_def pbind_def)
qed

lemma measure_with_failed:
  assumes "emission_tame w" and "measure_result w ev p c x s = (Inl e, t)" and "is_Exception e"
  shows "fst (measure_with name message w ev p c x rid s) = Inr (failed_output name e)"
proof -
  let ?b = "ev_event_provider ev \<or> es_event_provider s"
  let ?m = "pbind (log_eval ERROR [message, exc_msg e]) (\<lambda>_. pwhen ?b (emit_evaluation_event w ?b name None None None rid
            (Some (if py_contains ''provider'' (py_lower (exc_msg e)) then ''provider_error'' else ''unknown''))))"
  have "returns ?m"
    by (rule raises_intros emit_returns assms log_eval_returns)+
  then obtain u t' where m: "?m t = (Inr u, t')" by (rule returnsE)
  have "pbind ?m (\<lambda>_. pret (failed_output name e)) t = (Inr (failed_output name e), t')"
    by (subst pbind_def) (simp only: m, simp)
  then have h: "pbind (log_eval ERROR [message, exc_msg e]) (\<lambda>_. pbind (pwhen ?b (emit_evaluation_event w ?b name None None None rid
            (Some (if py_contains ''provider'' (py_lower (exc_msg e)) then ''provider_error'' else ''unknown''))))
            (\<lambda>_. pret (failed_output name e))) t = (Inr (failed_output name e), t')"
    by (simp only: pbind_assoc)
  have attempted: "pbind (measure_result w ev p c x) k s = (Inl e, t)" for k :: "eval_output \<Rightarrow> (eval_state, eval_output) prog"
    using assms(2) by (simp add: pbind_def)
  show ?thesis
    using assms(3) h unfolding measure_with_def failed_output_def pbind_simps(4) ptry_def attempted by simp
qed

lemma measure_result_verdict:
  "measure_result w ev p c x s = (Inr r, t) \<Longrightarrow>
     eo_verdict r = (if eo_score r > ev_threshold_score ev then ''yes'' else ''no'')"
  by (auto simp: measure_result_def pbind_def split: prod.splits sum.splits)

lemma measure_contract:
  "guarded_measure (measure_with name message w) (measure_result w) (failed_output name) (emission_tame w)"
  by unfold_locales
    (simp_all add: measure_with_ok measure_with_failed measure_result_verdict failed_output_def)

interpretation bias: guarded_measure "BiasDetector_measure w" "measure_result w" "failed_output ''bias_detection''"
  "emission_tame w" for w
  unfolding BiasDetector_measure_def by (rule measure_contract)

interpretation hallucination: guarded_measure "Hallucination_measure w" "measure_result w"
  "failed_output ''hallucination''" "emission_tame w" for w
  unfolding Hallucination_measure_def by (rule measure_contract)

interpretation toxicity: guarded_measure "ToxicityDetector_measure w" "measure_result w"
  "failed_output ''toxicity_detection''" "emission_tame w" for w
  unfolding ToxicityDetector_measure_def by (rule measure_contract)

interpretation eval_all: guarded_measure "EvalAll_measure w" "measure_result w" "failed_output ''evaluation''"
  "emission_tame w" for w
  unfolding EvalAll_measure_def by (rule measure_contract)

lemma measure_result_raises:
  assumes "judge_tame w"
  shows "raises_only is_Exception (measure_result w ev p c x)"
proof -
  have fmt: "is_Exception e" if "eval_format_prompt r sp p c x = Inl e" for r sp e
    using that by (auto simp: eval_format_prompt_def iterate_contexts_def Let_def res_bind_def split: pyval.splits sum.splits)
  have resp: "is_Exception e" if "eval_llm_response (ew_llm w) pr q m u = Inl e" for pr q m u e
    using that assms
    by (auto simp: eval_llm_response_def eval_llm_response_openai_def eval_llm_response_anthropic_def judge_tame_def
        res_bind_def split: if_splits sum.splits)
  have pd: "is_Exception e" if "eval_parse_data w v = Inl e" for v e
    using that assms by (auto simp: eval_parse_data_def judge_tame_def res_bind_def split: pyval.splits sum.splits)
  have parse: "raises_only is_Exception (eval_parse_llm_response w v)" for v
    unfolding eval_parse_llm_response_def
    by (cases "eval_parse_data w v")
      (auto simp: pd intro!: raises_intros log_eval_returns [THEN raises_only_mono])
  show ?thesis
    unfolding measure_result_def
    by (rule raises_intros parse | erule fmt resp)+
qed

section \<open>Properties\<close>

definition evaluators :: "(eval_world \<Rightarrow> evaluator \<Rightarrow> pyval \<Rightarrow> pyval \<Rightarrow> pyval \<Rightarrow> string option \<Rightarrow> (eval_state, eval_output) prog) list" where
  "evaluators = [BiasDetector_measure, Hallucination_measure, ToxicityDetector_measure, EvalAll_measure]"


definition sample_eval_world :: eval_world where
  "sample_eval_world = \<lparr>ew_llm = \<lparr>lw_openai_chat = (\<lambda>u rq. Inr (PStr ''{}'')), lw_anthropic_create = (\<lambda>rq. Inr []),
       lw_json_loads = (\<lambda>s. Inr (PDict [])), lw_search = (\<lambda>p t. Inr False),
       lw_validate = (\<lambda>d. Inl (PyExc ValueError []))\<rparr>,
     ew_validate = (\<lambda>d. Inr \<lparr>eo_verdict = ''yes'', eo_evaluation = ''bias_detection'', eo_score = 4/5,
        eo_classification = ''age'', eo_explanation = ''old''\<rparr>),
     ew_json_dumps = (\<lambda>d. Inr []), ew_emit = (\<lambda>x. Inr ()), ew_repr = (\<lambda>v. [])\<rparr>"

definition sample_evaluator :: evaluator where
  "sample_evaluator = \<lparr>ev_provider = ''openai'', ev_model = None, ev_base_url = None, ev_system_prompt = ''{{prompt}}'',
     ev_threshold_score = 1/2, ev_event_provider = True\<rparr>"

definition sample_eval_state :: eval_state where
  "sample_eval_state = \<lparr>es_event_provider = False, es_logs_export = False, es_emitted = [], es_log = []\<rparr>"

lemma sample_judge_tame: "judge_tame sample_eval_world"
  by (simp add: judge_tame_def emission_tame_def sample_eval_world_def)


text \<open>Left at its default, \<open>contexts\<close> is \<open>None\<close>, which the prompt cannot be formatted with: the bias, the
  hallucination and the combined evaluator then give the neutral error result for every text, without
  asking the LLM.\<close>

theorem measure_without_contexts:
  assumes "m \<in> {BiasDetector_measure, Hallucination_measure, EvalAll_measure}" and "emission_tame w"
  shows "\<exists>r. fst (m w ev prompt PNone text rid s) = Inr r
     \<and> eo_classification r = ''error'' \<and> eo_score r = 0 \<and> eo_verdict r = ''no''"
proof -
  have f: "measure_result w ev prompt PNone text s = (Inl (PyExc TypeError ''NoneType is not iterable''), s)"
    by (simp add: measure_result_def eval_format_prompt_def iterate_contexts_def)
  from assms(1) consider "m = BiasDetector_measure" | "m = Hallucination_measure" | "m = EvalAll_measure" by auto
  then show ?thesis
    using bias.measure_failure [OF assms(2) f] hallucination.measure_failure [OF assms(2) f]
      eval_all.measure_failure [OF assms(2) f] by cases auto
qed

theorem measure_without_contexts_witness:
  "\<exists>r. fst (BiasDetector_measure sample_eval_world sample_evaluator (PStr []) PNone (PStr ''t'') None sample_eval_state) = Inr r
     \<and> eo_classification r = ''error''"
  using measure_without_contexts [of BiasDetector_measure sample_eval_world sample_evaluator "PStr []" "PStr ''t''" None sample_eval_state]
    sample_judge_tame by (auto simp: judge_tame_def)

lemma evaluation_attributes_get:
  "dget (evaluation_attributes n (Some v) (Some l) ex rid None) GEN_AI_EVALUATION_SCORE_VALUE = Some (PFloat v)"
  "l \<noteq> [] \<Longrightarrow> dget (evaluation_attributes n (Some v) (Some l) ex rid None) GEN_AI_EVALUATION_SCORE_LABEL = Some (PStr l)"
  "dget (evaluation_attributes n (Some v) (Some l) ex rid None) GEN_AI_EVALUATION_NAME = Some (PStr n)"
  "dget (evaluation_attributes n (Some v) (Some l) ex rid None) ERROR_TYPE = None"
  by (auto simp: evaluation_attributes_def nonempty_def opt_attr_def semconv Let_def split: option.splits)

text \<open>The emitted evaluation event agrees with the returned result: exporting events, a successful
  measurement emits one event whose score is the result's, whose label is fail exactly when the verdict
  is yes, and which carries no error type.\<close>

theorem measure_event_agrees:
  assumes "measure_result w ev prompt contexts text s = (Inr r, t)" and "ev_event_provider ev"
    and "\<not> es_logs_export t" and "\<And>x. ew_emit w x = Inr ()"
  shows "\<exists>t' a. measure_with name message w ev prompt contexts text rid s = (Inr r, t')
     \<and> es_emitted t' = es_emitted t @ [OtelEvent a]
     \<and> dget a GEN_AI_EVALUATION_SCORE_VALUE = Some (PFloat (eo_score r))
     \<and> dget a GEN_AI_EVALUATION_SCORE_LABEL = Some (PStr (if eo_verdict r = ''yes'' then ''fail'' else ''pass''))
     \<and> dget a ERROR_TYPE = None"
proof -
  let ?l = "if eo_score r \<le> ev_threshold_score ev then ''pass'' else ''fail''"
  let ?a = "evaluation_attributes (eo_evaluation r) (Some (eo_score r)) (Some ?l) (Some (eo_explanation r)) rid None"
  let ?t = "t\<lparr>es_emitted := es_emitted t @ [OtelEvent ?a]\<rparr>"
  have "emit_evaluation_event w True (eo_evaluation r) (Some (eo_score r)) (Some ?l) (Some (eo_explanation r)) rid None t
      = (Inr (), ?t)"
    using assms(3,4) by (simp add: emit_evaluation_event_def ptry_def pbind_def emit_out_def Let_def)
  with assms(1,2) have "measure_with name message w ev prompt contexts text rid s = (Inr r, ?t)"
    by (simp add: measure_with_def ptry_def pbind_def)
  moreover have "?l = (if eo_verdict r = ''yes'' then ''fail'' else ''pass'')"
    using measure_result_verdict [OF assms(1)] by auto
  moreover have "?l \<noteq> []" by simp
  ultimately show ?thesis
    using evaluation_attributes_get(1) evaluation_attributes_get(2) [of ?l] evaluation_attributes_get(4)
    by (intro exI [of _ ?t] exI [of _ ?a]) simp
qed

theorem measure_event_agrees_witness:
  "\<exists>r t' a. measure_with ''bias_detection'' [] sample_eval_world sample_evaluator (PStr []) (PList []) (PStr ''t'') None
        sample_eval_state = (Inr r, t') \<and> es_emitted t' = [OtelEvent a]
     \<and> dget a GEN_AI_EVALUATION_SCORE_LABEL = Some (PStr ''fail'')"
proof -
  have "\<exists>r t. measure_result sample_eval_world sample_evaluator (PStr []) (PList []) (PStr ''t'') sample_eval_state = (Inr r, t)
     \<and> eo_verdict r = ''yes'' \<and> t = sample_eval_state"
    by (simp add: measure_result_def pbind_def eval_format_prompt_def iterate_contexts_def eval_llm_response_def
        eval_llm_response_openai_def eval_parse_llm_response_def eval_parse_data_def sample_eval_world_def
        sample_evaluator_def py_lower_def lower_char_def Let_def char_of_def bit_0)
  then obtain r where r: "measure_result sample_eval_world sample_evaluator (PStr []) (PList []) (PStr ''t'') sample_eval_state
      = (Inr r, sample_eval_state)" "eo_verdict r = ''yes''" by blast
  from measure_event_agrees [OF r(1), of "''bias_detection''" "[]" None] r(2) show ?thesis
    by (fastforce simp: sample_evaluator_def sample_eval_state_def sample_eval_world_def)
qed

text \<open>The evaluators substitute their placeholders one after the other in the same string, so a user
  prompt that contains the placeholder of the text is itself filled with the text.\<close>

theorem eval_prompt_placeholder_leak:
  "eval_format_prompt repr ''{{prompt}}|{{text}}'' (PStr ''{{text}}'') (PList []) (PStr t)
     = Inr (quoted_item repr (PStr t) @ ''|'' @ quoted_item repr (PStr t))"
  by (simp add: eval_format_prompt_def iterate_contexts_def startswith_def Let_def)

end
