(* ===== verification/OpenAIMessages.thy ===== *)
theory OpenAIMessages
  imports Content
begin

text \<open>
  The message conversions of \<open>openlit/instrumentation/openai/utils.py\<close>: request messages and responses
  to text and to the OpenTelemetry message structure.  Values are dynamic, so that a field of the wrong
  type raises where it does in the source; \<open>repr\<close> renders what \<open>str\<close> does not.
\<close>

section \<open>Field access\<close>

definition handle_not_given :: "pyval \<Rightarrow> pyval \<Rightarrow> pyval" where
  "handle_not_given v dflt = (if py_type v = ''NotGiven'' then dflt else if v = PNone then dflt else v)"

text \<open>\<open>x.get(n, d) if isinstance(x, dict) else getattr(x, n, d)\<close>.\<close>

definition msg_field :: "pyval \<Rightarrow> string \<Rightarrow> pyval \<Rightarrow> pyval" where
  "msg_field v n d = (case v of PDict x \<Rightarrow> dget_or x n d | _ \<Rightarrow> py_getattr v n d)"

definition py_startswith :: "pyval \<Rightarrow> string \<Rightarrow> bool res" where
  "py_startswith v p = (case v of PStr s \<Rightarrow> Inr (startswith s p) | _ \<Rightarrow> Inl (no_attr v ''startswith''))"

text \<open>\<open>key in x\<close>.\<close>

definition py_in :: "string \<Rightarrow> pyval \<Rightarrow> bool res" where
  "py_in k v = (case v of
     PDict d \<Rightarrow> Inr (dmem k d)
   | PStr s \<Rightarrow> Inr (py_contains k s)
   | PList xs \<Rightarrow> Inr (PStr k \<in> set xs)
   | _ \<Rightarrow> Inl (PyExc TypeError (''argument of type '' @ py_type v @ '' is not iterable'')))"

section \<open>Text of the request\<close>

definition text_item :: "(pyval \<Rightarrow> string) \<Rightarrow> pyval \<Rightarrow> string list res" where
  "text_item repr item =
     res_bind (py_get item ''text'' (PStr [])) (\<lambda>t. Inr [''text: '' @ py_str repr t])"

definition image_item_url :: "pyval \<Rightarrow> pyval res" where
  "image_item_url item = res_bind (py_get item ''image_url'' (PDict [])) (\<lambda>i. py_get i ''url'' (PStr []))"

definition format_item :: "(pyval \<Rightarrow> string) \<Rightarrow> pyval \<Rightarrow> string list res" where
  "format_item repr item =
     res_bind (py_get item ''type'' PNone) (\<lambda>item_type.
     if item_type = PStr ''text'' then text_item repr item
     else if item_type = PStr ''image_url'' then
       res_bind (image_item_url item) (\<lambda>url.
       res_bind (py_startswith url ''data:'') (\<lambda>inline.
       if inline then Inr []
       else res_bind (py_index item (PStr ''image_url'')) (\<lambda>i. res_bind (py_index i (PStr ''url'')) (\<lambda>u.
              Inr [''image_url: '' @ py_str repr u]))))
     else if item_type = PStr ''input_text'' then text_item repr item
     else if item_type = PStr ''input_image'' then
       res_bind (py_get item ''image_url'' (PStr [])) (\<lambda>image_url.
       if py_truth image_url then
         res_bind (py_startswith image_url ''data:'') (\<lambda>inline.
           Inr (if inline then [] else [''image_url: '' @ py_str repr image_url]))
       else Inr [])
     else Inr [])"

text \<open>Role and content of one message; counting the tool calls is the only step that can raise.\<close>

definition role_and_content :: "(pyval \<Rightarrow> string) \<Rightarrow> pyval \<Rightarrow> pyval \<times> pyval" where
  "role_and_content repr message =
     (case message of
        PDict d \<Rightarrow>
          (let role = py_or (dget_or d ''role'' (PStr ''user'')) (PStr ''user'');
               content = dget_or d ''content'' PNone;
               tool_calls = dget_or d ''tool_calls'' PNone
           in if content \<noteq> PNone then (role, content)
              else if py_truth tool_calls then
                (case py_len tool_calls of
                   Inr n \<Rightarrow> (role, PStr (''['' @ show_nat n @ '' tool call(s)]''))
                 | Inl e \<Rightarrow> (PStr ''user'', PStr (py_str repr message)))
              else (role, PStr []))
      | _ \<Rightarrow>
          (let role = py_or (py_getattr message ''role'' (PStr ''user'')) (PStr ''user'');
               content = py_getattr message ''content'' PNone
           in (role, if content = PNone then PStr [] else content)))"

definition format_message :: "(pyval \<Rightarrow> string) \<Rightarrow> pyval \<Rightarrow> string res" where
  "format_message repr message =
     (let (role, content) = role_and_content repr message in
      case content of
        PList items \<Rightarrow> res_bind (res_map (format_item repr) items) (\<lambda>texts.
          Inr (py_str repr role @ '': '' @ py_join '', '' (concat texts)))
      | _ \<Rightarrow> Inr (py_str repr role @ '': '' @ py_str repr content))"

definition format_content :: "(pyval \<Rightarrow> string) \<Rightarrow> pyval \<Rightarrow> string res" where
  "format_content repr messages =
     (if \<not> py_truth messages then Inr []
      else case messages of
        PStr s \<Rightarrow> Inr s
      | _ \<Rightarrow> res_bind (py_iter messages) (\<lambda>ms.
          res_bind (res_map (format_message repr) ms) (\<lambda>lines. Inr (py_join [CHR 0x0A] lines))))"

section \<open>Input messages\<close>

definition text_part :: "pyval \<Rightarrow> pyval" where
  "text_part content = PDict [(''type'', PStr ''text''), (''content'', content)]"

definition uri_part :: "pyval \<Rightarrow> pyval" where
  "uri_part url = PDict [(''type'', PStr ''uri''), (''modality'', PStr ''image''), (''uri'', url)]"

definition tool_call_part :: "pyval \<Rightarrow> pyval \<Rightarrow> pyval \<Rightarrow> pyval" where
  "tool_call_part i n a = PDict [(''type'', PStr ''tool_call''), (''id'', i), (''name'', n), (''arguments'', a)]"

definition text_parts :: "pyval \<Rightarrow> pyval list res" where
  "text_parts item = (let t = msg_field item ''text'' (PStr []) in Inr (if py_truth t then [text_part t] else []))"

definition url_parts :: "pyval \<Rightarrow> pyval list res" where
  "url_parts url =
     (if py_truth url then res_bind (py_startswith url ''data:'') (\<lambda>inline. Inr (if inline then [] else [uri_part url]))
      else Inr [])"

definition input_parts :: "pyval \<Rightarrow> pyval list res" where
  "input_parts item =
     (let item_type = msg_field item ''type'' PNone in
      if item_type = PStr ''text'' then text_parts item
      else if item_type = PStr ''image_url'' then
        (let image_url_obj = msg_field item ''image_url'' (PDict [])
         in url_parts (msg_field image_url_obj ''url'' (PStr [])))
      else if item_type = PStr ''input_text'' then text_parts item
      else if item_type = PStr ''input_image'' then url_parts (msg_field item ''image_url'' (PStr []))
      else if item_type = PStr ''tool_call'' then
        Inr [tool_call_part (msg_field item ''id'' (PStr [])) (msg_field item ''name'' (PStr []))
               (msg_field item ''arguments'' (PDict []))]
      else Inr [])"

text \<open>One message: \<open>None\<close> when it has no parts.\<close>

definition input_message :: "(pyval \<Rightarrow> string) \<Rightarrow> pyval \<Rightarrow> pyval option res" where
  "input_message repr message =
     (let role = msg_field message ''role'' (PStr ''user'');
          content = msg_field message ''content'' (PStr [])
      in res_bind (case content of
             PList items \<Rightarrow> res_bind (res_map input_parts items) (\<lambda>ps. Inr (concat ps))
           | PStr s \<Rightarrow> Inr (if s \<noteq> [] then [text_part content] else [])
           | _ \<Rightarrow> Inr []) (\<lambda>parts.
         let parts = (if role = PStr ''tool'' then
               [PDict [(''type'', PStr ''tool_call_response''), (''id'', msg_field message ''tool_call_id'' (PStr [])),
                  (''response'', PStr (py_str repr content))]]
             else parts);
             name = msg_field message ''name'' PNone
         in Inr (if parts = [] then None
                 else Some (PDict ([(''role'', role), (''parts'', PList parts)]
                        @ (if py_truth name then [(''name'', name)] else []))))))"

type_synonym 'a logged = "(log_line list, 'a) prog"

definition log_warning :: "string list \<Rightarrow> unit logged" where
  "log_warning m = pmodify (\<lambda>l. l @ [(WARNING, m)])"

fun input_messages_loop :: "(pyval \<Rightarrow> string) \<Rightarrow> pyval list \<Rightarrow> pyval list \<Rightarrow> pyval list logged" where
  "input_messages_loop repr [] acc = pret acc"
| "input_messages_loop repr (m # ms) acc =
     (case input_message repr m of
        Inr None \<Rightarrow> input_messages_loop repr ms acc
      | Inr (Some v) \<Rightarrow> input_messages_loop repr ms (acc @ [v])
      | Inl e \<Rightarrow> pbind (log_warning [''Failed to process input message: %s'', exc_msg e])
                    (\<lambda>_. input_messages_loop repr ms acc))"

definition build_input_messages :: "(pyval \<Rightarrow> string) \<Rightarrow> pyval \<Rightarrow> pyval list logged" where
  "build_input_messages repr messages =
     (if \<not> py_truth messages then pret []
      else case messages of
        PStr s \<Rightarrow> pret [PDict [(''role'', PStr ''user''), (''parts'', PList [text_part (PStr s)])]]
      | _ \<Rightarrow> pbind (plift (py_iter messages)) (\<lambda>ms. input_messages_loop repr ms []))"

section \<open>Output messages\<close>

text \<open>\<open>json.loads\<close> on a string of arguments; any \<open>Exception\<close> keeps the raw text.\<close>

definition parse_tool_args :: "(string \<Rightarrow> pyval res) \<Rightarrow> pyval \<Rightarrow> pyval res" where
  "parse_tool_args json_loads tool_args =
     (case tool_args of
        PStr s \<Rightarrow> (case json_loads s of
            Inr v \<Rightarrow> Inr v
          | Inl e \<Rightarrow> (if is_Exception e then Inr (PDict [(''raw'', tool_args)]) else Inl e))
      | _ \<Rightarrow> Inr tool_args)"

definition output_tool_call :: "(string \<Rightarrow> pyval res) \<Rightarrow> pyval \<Rightarrow> pyval res" where
  "output_tool_call json_loads tool_call =
     res_bind (parse_tool_args json_loads (msg_field tool_call ''arguments'' (PDict []))) (\<lambda>tool_args.
       Inr (tool_call_part (msg_field tool_call ''id'' (PStr [])) (msg_field tool_call ''name'' (PStr [])) tool_args))"

definition finish_reason_map :: "(string, string) dict" where
  "finish_reason_map = [(''stop'', ''stop''), (''length'', ''length''), (''content_filter'', ''content_filter''),
     (''tool_calls'', ''tool_call''), (''function_call'', ''tool_call'')]"

text \<open>\<open>finish_reason_map.get(r, r or "stop")\<close>; an unhashable key raises.\<close>

definition otel_finish_reason :: "pyval \<Rightarrow> pyval res" where
  "otel_finish_reason r =
     (if \<not> hashable r then Inl (PyExc TypeError ''unhashable type'')
      else Inr (case r of
          PStr s \<Rightarrow> (case dget finish_reason_map s of Some v \<Rightarrow> PStr v | None \<Rightarrow> py_or r (PStr ''stop''))
        | _ \<Rightarrow> py_or r (PStr ''stop'')))"

definition assistant_message :: "pyval list \<Rightarrow> pyval \<Rightarrow> pyval" where
  "assistant_message parts reason =
     PDict [(''role'', PStr ''assistant''), (''parts'', PList parts), (''finish_reason'', reason)]"

definition build_output_messages ::
  "(string \<Rightarrow> pyval res) \<Rightarrow> pyval \<Rightarrow> pyval \<Rightarrow> pyval \<Rightarrow> pyval list logged" where
  "build_output_messages json_loads response_text finish_reason tool_calls =
     ptry
       (pbind (plift (case tool_calls of
            PList tcs \<Rightarrow> res_map (output_tool_call json_loads) tcs
          | _ \<Rightarrow> Inr [])) (\<lambda>tool_parts.
        pbind (plift (otel_finish_reason finish_reason)) (\<lambda>reason.
        pret [assistant_message ((if py_truth response_text then [text_part response_text] else []) @ tool_parts) reason])))
       (\<lambda>e. pbind (log_warning [''Failed to build output messages: %s'', exc_msg e])
              (\<lambda>_. pret [assistant_message [] (PStr ''stop'')]))"

section \<open>Tools and system instructions\<close>

text \<open>One tool: a dict reads its \<open>function\<close> entry with \<open>get\<close>, an object its attributes.\<close>

definition tool_definition :: "pyval \<Rightarrow> pyval option res" where
  "tool_definition tool =
     (let definition_of = (\<lambda>n d p. PDict [(''type'', PStr ''function''), (''name'', n), (''description'', d), (''parameters'', p)]) in
      case tool of
        PDict t \<Rightarrow>
          (if dget_or t ''type'' PNone = PStr ''function'' \<and> dmem ''function'' t then
             (let func = dget_or t ''function'' PNone in
              res_bind (py_get func ''name'' (PStr [])) (\<lambda>n.
              res_bind (py_get func ''description'' (PStr [])) (\<lambda>d.
              res_bind (py_get func ''parameters'' (PDict [])) (\<lambda>p. Inr (Some (definition_of n d p))))))
           else Inr None)
      | _ \<Rightarrow>
          (if py_getattr tool ''type'' PNone = PStr ''function'' then
             (let func = py_getattr tool ''function'' PNone in
              if py_truth func then Inr (Some (definition_of (py_getattr func ''name'' (PStr []))
                (py_getattr func ''description'' (PStr [])) (py_getattr func ''parameters'' (PDict []))))
              else Inr None)
           else Inr None))"

fun tool_definitions_loop :: "pyval list \<Rightarrow> pyval list \<Rightarrow> pyval list logged" where
  "tool_definitions_loop [] acc = pret acc"
| "tool_definitions_loop (t # ts) acc =
     (case tool_definition t of
        Inr None \<Rightarrow> tool_definitions_loop ts acc
      | Inr (Some v) \<Rightarrow> tool_definitions_loop ts (acc @ [v])
      | Inl e \<Rightarrow> pbind (log_warning [''Failed to process tool definition: %s'', exc_msg e])
                    (\<lambda>_. tool_definitions_loop ts acc))"

definition build_tool_definitions :: "pyval \<Rightarrow> pyval list option logged" where
  "build_tool_definitions tools =
     (if \<not> py_truth tools then pret None
      else ptry
        (pbind (plift (py_iter tools)) (\<lambda>ts. pbind (tool_definitions_loop ts []) (\<lambda>defs.
           pret (if defs = [] then None else Some defs))))
        (\<lambda>e. pbind (log_warning [''Failed to build tool definitions: %s'', exc_msg e]) (\<lambda>_. pret None)))"

definition system_parts :: "(pyval \<Rightarrow> string) \<Rightarrow> pyval \<Rightarrow> pyval list" where
  "system_parts repr msg =
     (if msg_field msg ''role'' (PStr []) \<noteq> PStr ''system'' then []
      else let content = msg_field msg ''content'' (PStr []) in
        case content of
          PList items \<Rightarrow> concat (map (\<lambda>part. case part of
              PDict p \<Rightarrow> (if dget_or p ''type'' PNone = PStr ''text'' \<and> py_truth (dget_or p ''text'' (PStr []))
                          then [text_part (dget_or p ''text'' (PStr []))] else [])
            | _ \<Rightarrow> []) items)
        | _ \<Rightarrow> (if py_truth content then [text_part (PStr (py_str repr content))] else []))"

definition build_system_instructions_from_messages :: "(pyval \<Rightarrow> string) \<Rightarrow> pyval \<Rightarrow> pyval list option res" where
  "build_system_instructions_from_messages repr messages =
     (if \<not> py_truth messages then Inr None
      else res_bind (py_iter messages) (\<lambda>ms.
        let instructions = concat (map (system_parts repr) ms)
        in Inr (if instructions = [] then None else Some instructions)))"

end
