(* ===== verification/OpenAIStream.thy ===== *)
theory OpenAIStream
  imports OpenAIMessages Telemetry
begin

text \<open>
  Streaming in \<open>openlit/instrumentation/openai\<close>: the two chunk processors of \<open>utils.py\<close> and the stream
  wrapper of \<open>openai.py\<close>.  The scope is the wrapper object's state; \<open>now\<close> is what \<open>time.time()\<close> gives.
  A processor that raises leaves the updates it has made.
\<close>

section \<open>The scope\<close>

record chat_scope =
  sc_start_time :: rat
  sc_timestamps :: "rat list"
  sc_ttft :: rat
  sc_llmresponse :: string
  sc_response_id :: pyval
  sc_response_model :: pyval
  sc_finish_reason :: pyval
  sc_system_fingerprint :: pyval
  sc_service_tier :: pyval
  sc_tools :: pyval

definition initial_chat_scope :: "rat \<Rightarrow> chat_scope" where
  "initial_chat_scope start_time = \<lparr>sc_start_time = start_time, sc_timestamps = [], sc_ttft = 0, sc_llmresponse = [],
     sc_response_id = PStr [], sc_response_model = PStr [], sc_finish_reason = PStr [],
     sc_system_fingerprint = PStr [], sc_service_tier = PStr ''auto'', sc_tools = PNone\<rparr>"

text \<open>The first chunk also sets the time to the first token.\<close>

definition stamp :: "rat \<Rightarrow> chat_scope \<Rightarrow> chat_scope" where
  "stamp now s =
     (let s = s\<lparr>sc_timestamps := sc_timestamps s @ [now]\<rparr>
      in if length (sc_timestamps s) = 1 then s\<lparr>sc_ttft := calculate_ttft (sc_timestamps s) (sc_start_time s)\<rparr> else s)"

text \<open>\<open>self._llmresponse += x\<close>.\<close>

definition append_response :: "pyval \<Rightarrow> (chat_scope, unit) prog" where
  "append_response x =
     (case x of
        PStr s \<Rightarrow> pmodify (\<lambda>sc. sc\<lparr>sc_llmresponse := sc_llmresponse sc @ s\<rparr>)
      | _ \<Rightarrow> praise (PyExc TypeError ''can only concatenate str''))"

section \<open>Tool calls of a chat stream\<close>

text \<open>The list of tools: absent, or a Python list.\<close>

definition tool_list :: "pyval \<Rightarrow> pyval list" where
  "tool_list v = (case v of PList xs \<Rightarrow> xs | _ \<Rightarrow> [])"

definition tools_now :: "chat_scope \<Rightarrow> pyval list" where
  "tools_now s = tool_list (sc_tools s)"

definition extend_tools :: "int \<Rightarrow> pyval list \<Rightarrow> pyval list" where
  "extend_tools idx tools = tools @ replicate (nat (idx + 1 - int (length tools))) (PDict [])"

text \<open>A position of a Python list: a negative index counts from the end.\<close>

definition list_position :: "'a list \<Rightarrow> int \<Rightarrow> nat option" where
  "list_position xs i =
     (let j = (if i < 0 then int (length xs) + i else i)
      in if 0 \<le> j \<and> j < int (length xs) then Some (nat j) else None)"

definition out_of_range :: pyexc where
  "out_of_range = PyExc IndexError ''list index out of range''"

definition new_tool :: "pyval \<Rightarrow> pyval res" where
  "new_tool tool =
     res_bind (py_get tool ''function'' (PDict [])) (\<lambda>func.
     res_bind (py_index tool (PStr ''id'')) (\<lambda>i.
     res_bind (py_get func ''name'' PNone) (\<lambda>n.
     res_bind (py_get func ''arguments'' PNone) (\<lambda>a.
     res_bind (py_get tool ''type'' (PStr ''function'')) (\<lambda>t.
       Inr (PDict [(''id'', i),
         (''function'', PDict [(''name'', py_or n (PStr [])), (''arguments'', py_or a (PStr []))]),
         (''type'', t)]))))))"

text \<open>The stored tool with the new arguments appended.\<close>

definition append_tool_args :: "pyval \<Rightarrow> pyval \<Rightarrow> pyval res" where
  "append_tool_args stored tool =
     res_bind (py_index tool (PStr ''function'')) (\<lambda>func.
     res_bind (py_get func ''arguments'' PNone) (\<lambda>a.
     let new_args = py_or a (PStr []) in
     res_bind (py_index stored (PStr ''function'')) (\<lambda>f.
     res_bind (py_index f (PStr ''arguments'')) (\<lambda>old.
     res_bind (if old = PNone then Inr new_args else py_add old new_args) (\<lambda>v.
       case (stored, f) of
         (PDict sd, PDict fd) \<Rightarrow> Inr (PDict (dput ''function'' (PDict (dput ''arguments'' v fd)) sd))
       | _ \<Rightarrow> Inl (PyExc TypeError ''object does not support item assignment''))))))"

definition process_tool_delta :: "pyval \<Rightarrow> (chat_scope, unit) prog" where
  "process_tool_delta tool =
     pbind (plift (py_get tool ''index'' (PInt 0))) (\<lambda>i.
     case as_int i of
       None \<Rightarrow> praise (PyExc TypeError ''unsupported operand'')
     | Some idx \<Rightarrow>
         pbind (pmodify (\<lambda>s. s\<lparr>sc_tools := PList (extend_tools idx (tools_now s))\<rparr>)) (\<lambda>_.
         pbind (plift (py_get tool ''id'' PNone)) (\<lambda>tid.
         pbind (pgets tools_now) (\<lambda>tools.
         if py_truth tid then
           pbind (plift (new_tool tool)) (\<lambda>t.
             case list_position tools idx of
               None \<Rightarrow> praise out_of_range
             | Some k \<Rightarrow> pmodify (\<lambda>s. s\<lparr>sc_tools := PList (tools[k := t])\<rparr>))
         else
           (case list_position tools idx of
              None \<Rightarrow> praise out_of_range
            | Some k \<Rightarrow>
                (if \<not> py_truth (tools ! k) then pret ()
                 else pbind (plift (py_in ''function'' tool)) (\<lambda>has_function.
                   pwhen has_function (pbind (plift (append_tool_args (tools ! k) tool)) (\<lambda>t.
                     pmodify (\<lambda>s. s\<lparr>sc_tools := PList (tools[k := t])\<rparr>))))))))))"

section \<open>Chat chunks\<close>

text \<open>The test of the content branch: there is a first choice and it has a delta.\<close>

definition first_delta :: "pyval \<Rightarrow> pyval option res" where
  "first_delta chunked =
     res_bind (py_get chunked ''choices'' (PList [])) (\<lambda>choices.
     res_bind (py_len choices) (\<lambda>n.
     if n > 0 then
       res_bind (py_index choices (PInt 0)) (\<lambda>c.
       res_bind (py_in ''delta'' c) (\<lambda>has_delta.
       if has_delta then res_bind (py_index c (PStr ''delta'')) (\<lambda>d. Inr (Some d)) else Inr None))
     else Inr None))"

definition process_delta :: "pyval \<Rightarrow> (chat_scope, unit) prog" where
  "process_delta delta =
     pbind (plift (py_get delta ''content'' PNone)) (\<lambda>content.
     pbind (pwhen (py_truth content) (append_response content)) (\<lambda>_.
     pbind (plift (py_get delta ''tool_calls'' PNone)) (\<lambda>delta_tools.
     pwhen (py_truth delta_tools)
       (pbind (pmodify (\<lambda>s. s\<lparr>sc_tools := PList (tools_now s)\<rparr>)) (\<lambda>_.
        pbind (plift (py_iter delta_tools)) (\<lambda>ts. pfor ts process_tool_delta))))))"

text \<open>\<open>chunked.get("choices", [])[0].get("finish_reason")\<close>.\<close>

definition chunk_finish_reason :: "pyval \<Rightarrow> pyval res" where
  "chunk_finish_reason chunked =
     res_bind (py_get chunked ''choices'' (PList [])) (\<lambda>choices.
     res_bind (py_index choices (PInt 0)) (\<lambda>c. py_get c ''finish_reason'' PNone))"

definition update_finish_reason :: "pyval \<Rightarrow> (chat_scope, unit) prog" where
  "update_finish_reason chunked =
     (case chunk_finish_reason chunked of
        Inr r \<Rightarrow> pmodify (\<lambda>s. s\<lparr>sc_finish_reason := py_or r (sc_finish_reason s)\<rparr>)
      | Inl e \<Rightarrow> (if exc_class e \<in> {IndexError, AttributeError, TypeError}
                  then pmodify (\<lambda>s. s\<lparr>sc_finish_reason := PStr ''stop''\<rparr>) else praise e))"

definition process_chat_chunk :: "rat \<Rightarrow> pyval \<Rightarrow> (chat_scope, unit) prog" where
  "process_chat_chunk now chunk =
     pbind (pmodify (stamp now)) (\<lambda>_.
     let chunked = response_as_dict chunk in
     pbind (plift (first_delta chunked)) (\<lambda>delta.
     pbind (case delta of None \<Rightarrow> pret () | Some d \<Rightarrow> process_delta d) (\<lambda>_.
     pbind (plift (py_get chunked ''id'' PNone)) (\<lambda>i.
     pbind (pmodify (\<lambda>s. s\<lparr>sc_response_id := py_or i (sc_response_id s)\<rparr>)) (\<lambda>_.
     pbind (plift (py_get chunked ''model'' PNone)) (\<lambda>m.
     pbind (pmodify (\<lambda>s. s\<lparr>sc_response_model := py_or m (sc_response_model s)\<rparr>)) (\<lambda>_.
     pbind (update_finish_reason chunked) (\<lambda>_.
     pbind (plift (py_get chunked ''system_fingerprint'' PNone)) (\<lambda>f.
     pbind (pmodify (\<lambda>s. s\<lparr>sc_system_fingerprint := py_or f (sc_system_fingerprint s)\<rparr>)) (\<lambda>_.
     pbind (plift (py_get chunked ''service_tier'' PNone)) (\<lambda>t.
     pmodify (\<lambda>s. s\<lparr>sc_service_tier := py_or t (sc_service_tier s)\<rparr>))))))))))))"

section \<open>Response chunks\<close>

record response_scope =
  rs_start_time :: rat
  rs_timestamps :: "rat list"
  rs_ttft :: rat
  rs_llmresponse :: string
  rs_response_id :: pyval
  rs_response_model :: pyval
  rs_finish_reason :: pyval
  rs_instructions :: pyval
  rs_input_tokens :: pyval
  rs_output_tokens :: pyval
  rs_reasoning_tokens :: pyval
  rs_cache_read_input_tokens :: "pyval option"
  rs_tools :: "(string, pyval) dict list option"

definition rs_stamp :: "rat \<Rightarrow> response_scope \<Rightarrow> response_scope" where
  "rs_stamp now s =
     (let s = s\<lparr>rs_timestamps := rs_timestamps s @ [now]\<rparr>
      in if length (rs_timestamps s) = 1 then s\<lparr>rs_ttft := calculate_ttft (rs_timestamps s) (rs_start_time s)\<rparr> else s)"

definition rs_text_delta :: "pyval \<Rightarrow> (response_scope, unit) prog" where
  "rs_text_delta chunked =
     pbind (plift (py_get chunked ''delta'' (PStr []))) (\<lambda>d.
       case d of
         PStr x \<Rightarrow> pmodify (\<lambda>s. s\<lparr>rs_llmresponse := rs_llmresponse s @ x\<rparr>)
       | _ \<Rightarrow> praise (PyExc TypeError ''can only concatenate str''))"

definition rs_new_tool :: "pyval \<Rightarrow> (string, pyval) dict res" where
  "rs_new_tool item =
     res_bind (py_get item ''id'' (PStr [])) (\<lambda>i.
     res_bind (py_get item ''call_id'' (PStr [])) (\<lambda>c.
     res_bind (py_get item ''name'' (PStr [])) (\<lambda>n.
     res_bind (py_get item ''type'' (PStr ''function_call'')) (\<lambda>t.
     res_bind (py_get item ''arguments'' (PStr [])) (\<lambda>a.
     res_bind (py_get item ''status'' (PStr ''in_progress'')) (\<lambda>st.
       Inr [(''id'', i), (''call_id'', c), (''name'', n), (''type'', t), (''arguments'', a), (''status'', st)]))))))"

definition rs_item_added :: "pyval \<Rightarrow> (response_scope, unit) prog" where
  "rs_item_added chunked =
     pbind (pmodify (\<lambda>s. if rs_tools s = None then s\<lparr>rs_tools := Some []\<rparr> else s)) (\<lambda>_.
     pbind (plift (py_get chunked ''item'' (PDict []))) (\<lambda>item.
     pbind (plift (py_get item ''type'' PNone)) (\<lambda>t.
     pwhen (t = PStr ''function_call'')
       (pbind (plift (rs_new_tool item)) (\<lambda>tool.
          pmodify (\<lambda>s. s\<lparr>rs_tools := map_option (\<lambda>ts. ts @ [tool]) (rs_tools s)\<rparr>))))))"

text \<open>The first tool with the given id is updated; the loop then breaks.\<close>

fun update_tool ::
  "pyval \<Rightarrow> ((string, pyval) dict \<Rightarrow> (string, pyval) dict res) \<Rightarrow> (string, pyval) dict list
    \<Rightarrow> (string, pyval) dict list res" where
  "update_tool item_id f [] = Inr []"
| "update_tool item_id f (tool # tools) =
     (if dget_or tool ''id'' PNone = item_id then res_bind (f tool) (\<lambda>t. Inr (t # tools))
      else res_bind (update_tool item_id f tools) (\<lambda>ts. Inr (tool # ts)))"

definition rs_update_tool ::
  "pyval \<Rightarrow> ((string, pyval) dict \<Rightarrow> (string, pyval) dict res) \<Rightarrow> (response_scope, unit) prog" where
  "rs_update_tool item_id f =
     pbind (pgets (\<lambda>s. case rs_tools s of None \<Rightarrow> [] | Some ts \<Rightarrow> ts)) (\<lambda>tools.
     pbind (plift (update_tool item_id f tools)) (\<lambda>ts. pmodify (\<lambda>s. s\<lparr>rs_tools := Some ts\<rparr>)))"

definition rs_has_tools :: "response_scope \<Rightarrow> bool" where
  "rs_has_tools s \<longleftrightarrow> rs_tools s \<noteq> None \<and> rs_tools s \<noteq> Some []"

definition rs_arguments_delta :: "pyval \<Rightarrow> (response_scope, unit) prog" where
  "rs_arguments_delta chunked =
     pbind (pgets rs_has_tools) (\<lambda>has. pwhen has
       (pbind (plift (py_get chunked ''item_id'' (PStr []))) (\<lambda>item_id.
        pbind (plift (py_get chunked ''delta'' (PStr []))) (\<lambda>delta.
        rs_update_tool item_id (\<lambda>tool.
          (case dget tool ''arguments'' of
             None \<Rightarrow> Inl (PyExc KeyError ''arguments'')
           | Some old \<Rightarrow> res_bind (py_add old delta) (\<lambda>v. Inr (dput ''arguments'' v tool))))))))"

definition rs_arguments_done :: "pyval \<Rightarrow> (response_scope, unit) prog" where
  "rs_arguments_done chunked =
     pbind (pgets rs_has_tools) (\<lambda>has. pwhen has
       (pbind (plift (py_get chunked ''item_id'' (PStr []))) (\<lambda>item_id.
        pbind (plift (py_get chunked ''arguments'' (PStr []))) (\<lambda>final_arguments.
        rs_update_tool item_id (\<lambda>tool. Inr (dput ''arguments'' final_arguments tool))))))"

definition rs_item_done :: "pyval \<Rightarrow> (response_scope, unit) prog" where
  "rs_item_done chunked =
     pbind (pgets rs_has_tools) (\<lambda>has. pwhen has
       (pbind (plift (py_get chunked ''item'' (PDict []))) (\<lambda>item.
        pbind (plift (py_get item ''id'' (PStr []))) (\<lambda>item_id.
        rs_update_tool item_id (\<lambda>tool.
          res_bind (py_get item ''call_id'' (dget_or tool ''call_id'' (PStr []))) (\<lambda>c.
          res_bind (py_get item ''name'' (dget_or tool ''name'' (PStr []))) (\<lambda>n.
          res_bind (py_get item ''arguments'' (dget_or tool ''arguments'' (PStr []))) (\<lambda>a.
          res_bind (py_get item ''status'' (PStr ''completed'')) (\<lambda>st.
            Inr (dupdate tool [(''call_id'', c), (''name'', n), (''arguments'', a), (''status'', st)]))))))))))"

definition rs_completed :: "pyval \<Rightarrow> (response_scope, unit) prog" where
  "rs_completed chunked =
     pbind (plift (py_get chunked ''response'' (PDict []))) (\<lambda>response_data.
     pbind (plift (py_get response_data ''id'' PNone)) (\<lambda>i.
     pbind (pmodify (\<lambda>s. s\<lparr>rs_response_id := py_or i (rs_response_id s)\<rparr>)) (\<lambda>_.
     pbind (plift (py_get response_data ''model'' PNone)) (\<lambda>m.
     pbind (pmodify (\<lambda>s. s\<lparr>rs_response_model := py_or m (rs_response_model s)\<rparr>)) (\<lambda>_.
     pbind (plift (py_get response_data ''status'' PNone)) (\<lambda>st.
     pbind (pmodify (\<lambda>s. s\<lparr>rs_finish_reason := st\<rparr>)) (\<lambda>_.
     pbind (plift (py_get response_data ''instructions'' PNone)) (\<lambda>instr.
     pbind (pmodify (\<lambda>s. s\<lparr>rs_instructions := (if py_truth instr then PList [text_part instr] else PNone)\<rparr>)) (\<lambda>_.
     pbind (plift (py_get response_data ''usage'' (PDict []))) (\<lambda>usage.
     pbind (plift (py_get usage ''input_tokens'' (PInt 0))) (\<lambda>it.
     pbind (pmodify (\<lambda>s. s\<lparr>rs_input_tokens := it\<rparr>)) (\<lambda>_.
     pbind (plift (py_get usage ''output_tokens'' (PInt 0))) (\<lambda>ot.
     pbind (pmodify (\<lambda>s. s\<lparr>rs_output_tokens := ot\<rparr>)) (\<lambda>_.
     pbind (plift (py_get usage ''output_tokens_details'' (PDict []))) (\<lambda>od.
     pbind (plift (py_get od ''reasoning_tokens'' (PInt 0))) (\<lambda>rt.
     pbind (pmodify (\<lambda>s. s\<lparr>rs_reasoning_tokens := rt\<rparr>)) (\<lambda>_.
     pbind (plift (py_get usage ''input_tokens_details'' (PDict []))) (\<lambda>idt.
     pbind (plift (py_get idt ''cached_tokens'' (PInt 0))) (\<lambda>ct.
     pmodify (\<lambda>s. s\<lparr>rs_cache_read_input_tokens := Some ct\<rparr>))))))))))))))))))))"

definition process_response_chunk :: "rat \<Rightarrow> pyval \<Rightarrow> (response_scope, unit) prog" where
  "process_response_chunk now chunk =
     pbind (pmodify (rs_stamp now)) (\<lambda>_.
     let chunked = response_as_dict chunk in
     pbind (plift (py_get chunked ''type'' PNone)) (\<lambda>t.
     if t = PStr ''response.output_text.delta'' then rs_text_delta chunked
     else if t = PStr ''response.output_item.added'' then rs_item_added chunked
     else if t = PStr ''response.function_call_arguments.delta'' then rs_arguments_delta chunked
     else if t = PStr ''response.function_call_arguments.done'' then rs_arguments_done chunked
     else if t = PStr ''response.output_item.done'' then rs_item_done chunked
     else if t = PStr ''response.completed'' then rs_completed chunked
     else pret ()))"

section \<open>The stream wrapper\<close>

text \<open>
  \<open>TracedSyncStream\<close>: the wrapped iterator is the list of what its next calls give, an exhausted one
  raises \<open>StopIteration\<close> forever.  \<open>process\<close> is the chunk processor, \<open>finish\<close> the end-of-stream
  processing over scope and telemetry (\<open>process_streaming_..._response\<close>).
\<close>

record 's stream =
  st_wrapped :: "pyval res list"
  st_scope :: 's
  st_tele :: tele
  st_finished :: nat

text \<open>\<open>with self._span: ...\<close>: an exception is recorded before the span ends and goes on.\<close>

definition with_span :: "('s \<times> tele, unit) prog \<Rightarrow> ('s \<times> tele, unit) prog" where
  "with_span m x =
     (case m x of
        (Inr _, (s, t)) \<Rightarrow> (Inr (), (s, on_span (leave_span None) t))
      | (Inl e, (s, t)) \<Rightarrow> (Inl e, (s, on_span (leave_span (Some e)) t)))"

definition finish_stream :: "('s \<times> tele, unit) prog \<Rightarrow> ('s stream, unit) prog" where
  "finish_stream finish st =
     (case ptry (with_span finish) (\<lambda>e. pmodify (\<lambda>(s, t). (s, on_span (handle_exception e) t))) (st_scope st, st_tele st) of
        (r, (s, t)) \<Rightarrow> (r, st\<lparr>st_scope := s, st_tele := t, st_finished := st_finished st + 1\<rparr>))"

definition stop_iteration :: pyexc where
  "stop_iteration = PyExc StopIteration []"

definition stream_next ::
  "(rat \<Rightarrow> pyval \<Rightarrow> ('s, unit) prog) \<Rightarrow> ('s \<times> tele, unit) prog \<Rightarrow> rat \<Rightarrow> ('s stream, pyval) prog" where
  "stream_next process finish now st =
     (let (r, st1) =
        (case st_wrapped st of
           [] \<Rightarrow> (Inl stop_iteration, st)
         | Inl e # rest \<Rightarrow> (Inl e, st\<lparr>st_wrapped := rest\<rparr>)
         | Inr chunk # rest \<Rightarrow>
             (case process now chunk (st_scope st) of
                (Inr _, s) \<Rightarrow> (Inr chunk, st\<lparr>st_wrapped := rest, st_scope := s\<rparr>)
              | (Inl e, s) \<Rightarrow> (Inl e, st\<lparr>st_wrapped := rest, st_scope := s\<rparr>)))
      in case r of
           Inr chunk \<Rightarrow> (Inr chunk, st1)
         | Inl e \<Rightarrow>
             (if exc_class e = StopIteration then
                (case finish_stream finish st1 of
                   (Inr _, st2) \<Rightarrow> (Inl e, st2)
                 | (Inl e', st2) \<Rightarrow> (Inl e', st2))
              else (Inl e, st1)))"

text \<open>A \<open>for\<close> loop over the stream with the given clock readings: what the caller receives, and the
  exception that ended it.\<close>

fun consume ::
  "(rat \<Rightarrow> pyval \<Rightarrow> ('s, unit) prog) \<Rightarrow> ('s \<times> tele, unit) prog \<Rightarrow> rat list \<Rightarrow> 's stream
    \<Rightarrow> pyval list \<times> pyexc option \<times> 's stream" where
  "consume process finish [] st = ([], None, st)"
| "consume process finish (now # clock) st =
     (case stream_next process finish now st of
        (Inr chunk, st') \<Rightarrow> (case consume process finish clock st' of (cs, e, st'') \<Rightarrow> (chunk # cs, e, st''))
      | (Inl e, st') \<Rightarrow> ([], Some e, st'))"

end
