(* ===== verification/OpenAIProps.thy ===== *)
theory OpenAIProps
  imports OpenAIStream
begin

text \<open>
  What the OpenAI stream wrapper promises: the caller sees the wrapped stream unchanged, the text and
  the tool calls are the concatenation of the deltas, the timestamps are the chunks' arrival times and
  the span is ended once at the end of the stream; and where the code falls short of it.
\<close>

section \<open>Sample data\<close>

text \<open>A chunk that carries text.\<close>

definition text_chunk :: "string \<Rightarrow> string \<Rightarrow> string \<Rightarrow> pyval" where
  "text_chunk i m content = PDict [(''id'', PStr i), (''model'', PStr m),
     (''choices'', PList [PDict [(''index'', PInt 0), (''delta'', PDict [(''content'', PStr content)]),
        (''finish_reason'', PNone)]])]"

text \<open>A stream of two chunks, as it stands before its first chunk.\<close>

definition sample_stream :: "chat_scope stream" where
  "sample_stream = \<lparr>st_wrapped = [Inr (text_chunk ''c1'' ''gpt-4o'' ''Hel''), Inr (text_chunk ''c1'' ''gpt-4o'' ''lo'')],
     st_scope = initial_chat_scope 100, st_tele = fresh_tele, st_finished = 0\<rparr>"

section \<open>Chunk processors\<close>

text \<open>What the timing metrics need of a chunk processor, whether it returns or raises.\<close>

locale timed_processor =
  fixes process :: "rat \<Rightarrow> pyval \<Rightarrow> ('s, unit) prog"
    and timestamps :: "'s \<Rightarrow> rat list"
    and ttft :: "'s \<Rightarrow> rat"
    and start :: "'s \<Rightarrow> rat"
  assumes stamps: "process now c s = (r, t) \<Longrightarrow> timestamps t = timestamps s @ [now] \<and> start t = start s
      \<and> ttft t = (if timestamps s = [] then now - start s else ttft s)"
begin

lemma consume_running:
  assumes "consume process finish clock st = (cs, None, st')"
  shows "length cs = length clock \<and> timestamps (st_scope st') = timestamps (st_scope st) @ clock
     \<and> start (st_scope st') = start (st_scope st)
     \<and> ttft (st_scope st') = (if timestamps (st_scope st) = [] \<and> clock \<noteq> [] then hd clock - start (st_scope st)
         else ttft (st_scope st))"
  using assms
proof (induction clock arbitrary: st cs)
  case (Cons now clock)
  from Cons.prems obtain chunk st1 cs' where
    1: "stream_next process finish now st = (Inr chunk, st1)"
    and 2: "consume process finish clock st1 = (cs', None, st')" "cs = chunk # cs'"
    by (auto split: prod.splits sum.splits)
  from 1 obtain u where "process now chunk (st_scope st) = (Inr u, st_scope st1)"
    by (auto simp: stream_next_def Let_def split: list.splits sum.splits prod.splits if_splits)
  from stamps [OF this] Cons.IH [OF 2(1)] 2(2) show ?case by auto
qed simp

end

lemma keeps_time_tool: "keeps (\<lambda>s. (sc_timestamps s, sc_ttft s, sc_start_time s)) (process_tool_delta tool)"
  unfolding process_tool_delta_def
  by (rule keeps_intros | simp split: option.split)+

lemma keeps_time_delta: "keeps (\<lambda>s. (sc_timestamps s, sc_ttft s, sc_start_time s)) (process_delta d)"
  unfolding process_delta_def append_response_def
  by (rule keeps_intros keeps_time_tool | simp split: pyval.split add: keeps_basic keeps_pmodify)+

lemma keeps_time_finish: "keeps (\<lambda>s. (sc_timestamps s, sc_ttft s, sc_start_time s)) (update_finish_reason c)"
  unfolding update_finish_reason_def
  by (cases "chunk_finish_reason c") (auto intro!: keeps_intros)

lemma stamp_fields:
  "sc_timestamps (stamp now s) = sc_timestamps s @ [now] \<and> sc_start_time (stamp now s) = sc_start_time s
   \<and> sc_ttft (stamp now s) = (if sc_timestamps s = [] then now - sc_start_time s else sc_ttft s)"
  by (auto simp: stamp_def Let_def calculate_ttft_def split: list.split)

lemma process_chat_chunk_time:
  assumes "process_chat_chunk now c s = (r, t)"
  shows "sc_timestamps t = sc_timestamps s @ [now] \<and> sc_start_time t = sc_start_time s
      \<and> sc_ttft t = (if sc_timestamps s = [] then now - sc_start_time s else sc_ttft s)"
proof -
  define rest where "rest = (let chunked = response_as_dict c in
     pbind (plift (first_delta chunked)) (\<lambda>delta.
     pbind (case delta of None \<Rightarrow> pret () | Some d \<Rightarrow> process_delta d) (\<lambda>_.
     pbind (plift (py_get chunked ''id'' PNone)) (\<lambda>i.
     pbind (pmodify (\<lambda>s. s\<lparr>sc_response_id := py_or i (sc_response_id s)\<rparr>)) (\<lambda>_.
     pbind (plift (py_get chunked ''model'' PNone)) (\<lambda>m.
     pbind (pmodify (\<lambda>s. s\<lparr>sc_response_model := py_or m (sc_response_model s)\<rparr>)) (\<lambda>_.
     pbind (update_finish_reason chunked) (\<lambda>_.
     pbind (plift (py_get chunked ''system_fingerprint'' PNone)) (\<lambda>f.
     pbind (pmodify (\<lambda>s. s\<lparr>sc_system_fingerprint := py_or f (sc_system_fingerprint s)\<rparr>)) (\<lambda>_.
     pbind (plift (py_get chunked ''service_tier'' PNone)) (\<lambda>t.
     pmodify (\<lambda>s. s\<lparr>sc_service_tier := py_or t (sc_service_tier s)\<rparr>))))))))))))"
  have k: "keeps (\<lambda>s. (sc_timestamps s, sc_ttft s, sc_start_time s)) rest"
    unfolding rest_def Let_def
    by (rule keeps_intros keeps_time_delta keeps_time_finish | simp)+
  have "rest (stamp now s) = (r, t)" using assms by (simp add: process_chat_chunk_def rest_def)
  from keepsD [OF k this] stamp_fields [of now s] show ?thesis by simp
qed

interpretation chat_timing: timed_processor process_chat_chunk sc_timestamps sc_ttft sc_start_time
  by unfold_locales (rule process_chat_chunk_time)

lemma keeps_time_rs:
  defines "f \<equiv> \<lambda>s. (rs_timestamps s, rs_ttft s, rs_start_time s)"
  shows "keeps f (rs_text_delta c)" "keeps f (rs_item_added c)" "keeps f (rs_arguments_delta c)"
    "keeps f (rs_arguments_done c)" "keeps f (rs_item_done c)" "keeps f (rs_completed c)"
  unfolding rs_text_delta_def rs_item_added_def rs_arguments_delta_def rs_arguments_done_def rs_item_done_def
    rs_completed_def rs_update_tool_def f_def
  by (rule keeps_intros | simp split: pyval.split add: keeps_basic keeps_pmodify)+

lemma rs_stamp_fields:
  "rs_timestamps (rs_stamp now s) = rs_timestamps s @ [now] \<and> rs_start_time (rs_stamp now s) = rs_start_time s
   \<and> rs_ttft (rs_stamp now s) = (if rs_timestamps s = [] then now - rs_start_time s else rs_ttft s)"
  by (auto simp: rs_stamp_def Let_def calculate_ttft_def split: list.split)

lemma process_response_chunk_time:
  assumes "process_response_chunk now c s = (r, t)"
  shows "rs_timestamps t = rs_timestamps s @ [now] \<and> rs_start_time t = rs_start_time s
      \<and> rs_ttft t = (if rs_timestamps s = [] then now - rs_start_time s else rs_ttft s)"
proof -
  define rest where "rest = (let chunked = response_as_dict c in
     pbind (plift (py_get chunked ''type'' PNone)) (\<lambda>t.
     if t = PStr ''response.output_text.delta'' then rs_text_delta chunked
     else if t = PStr ''response.output_item.added'' then rs_item_added chunked
     else if t = PStr ''response.function_call_arguments.delta'' then rs_arguments_delta chunked
     else if t = PStr ''response.function_call_arguments.done'' then rs_arguments_done chunked
     else if t = PStr ''response.output_item.done'' then rs_item_done chunked
     else if t = PStr ''response.completed'' then rs_completed chunked
     else pret ()))"
  have k: "keeps (\<lambda>s. (rs_timestamps s, rs_ttft s, rs_start_time s)) rest"
    unfolding rest_def Let_def by (rule keeps_intros keeps_time_rs)+
  have "rest (rs_stamp now s) = (r, t)" using assms by (simp add: process_response_chunk_def rest_def)
  from keepsD [OF k this] rs_stamp_fields [of now s] show ?thesis by simp
qed

interpretation response_timing: timed_processor process_response_chunk rs_timestamps rs_ttft rs_start_time
  by unfold_locales (rule process_response_chunk_time)

lemma process_text_chunk:
  "process_chat_chunk now (text_chunk i m content) s = (Inr (), (stamp now s)
     \<lparr>sc_llmresponse := sc_llmresponse s @ content,
      sc_response_id := py_or (PStr i) (sc_response_id s), sc_response_model := py_or (PStr m) (sc_response_model s)\<rparr>)"
proof -
  have stamped: "sc_llmresponse (stamp now s) = sc_llmresponse s" "sc_response_id (stamp now s) = sc_response_id s"
    "sc_response_model (stamp now s) = sc_response_model s"
    by (simp_all add: stamp_def Let_def)
  show ?thesis
    by (cases "content = []")
      (simp_all add: process_chat_chunk_def text_chunk_def first_delta_def py_in_def dmem_def process_delta_def
        append_response_def update_finish_reason_def chunk_finish_reason_def py_or_def pbind_def stamped)
qed

lemma process_text_chunk_returns: "\<exists>s'. process_chat_chunk now (text_chunk i m content) s = (Inr (), s')"
  by (simp add: process_text_chunk)

text \<open>While a chat stream is consumed, the wrapper's timestamps are exactly the arrival times of the
  chunks handed out, the time to the first token is that of the first chunk after the start, and the
  mean time between tokens is the elapsed time divided by one less than the number of chunks.\<close>

theorem chat_stream_timing:
  assumes "consume process_chat_chunk finish clock st = (cs, None, st')"
    and "sc_timestamps (st_scope st) = []" and "length clock > 1"
  shows "length cs = length clock \<and> sc_timestamps (st_scope st') = clock
     \<and> sc_ttft (st_scope st') = hd clock - sc_start_time (st_scope st)
     \<and> calculate_tbt (sc_timestamps (st_scope st')) = (last clock - hd clock) / of_nat (length clock - 1)"
proof -
  have "clock \<noteq> []" using assms(3) by auto
  then obtain c cl where clock: "clock = c # cl" by (cases clock) auto
  have "calculate_tbt clock = (last clock - hd clock) / of_nat (length clock - 1)"
    using assms(3) by (simp add: calculate_tbt_def clock sum_time_diffs)
  then show ?thesis
    using chat_timing.consume_running [OF assms(1)] assms(2) clock by auto
qed

theorem chat_stream_timing_witness:
  "\<exists>st'. consume process_chat_chunk (pret ()) [101, 103] sample_stream
       = ([text_chunk ''c1'' ''gpt-4o'' ''Hel'', text_chunk ''c1'' ''gpt-4o'' ''lo''], None, st')
     \<and> sc_timestamps (st_scope st') = [101, 103] \<and> sc_ttft (st_scope st') = 1
     \<and> calculate_tbt (sc_timestamps (st_scope st')) = 2"
proof -
  obtain st' where c: "consume process_chat_chunk (pret ()) [101, 103] sample_stream
       = ([text_chunk ''c1'' ''gpt-4o'' ''Hel'', text_chunk ''c1'' ''gpt-4o'' ''lo''], None, st')"
    by (simp add: sample_stream_def stream_next_def process_text_chunk)
  have start: "sc_timestamps (st_scope sample_stream) = []" "sc_start_time (st_scope sample_stream) = 100"
    by (simp_all add: sample_stream_def initial_chat_scope_def)
  have "length [101, 103 :: rat] > 1" by simp
  note t = chat_stream_timing [OF c start(1) this]
  have "sc_timestamps (st_scope st') = [101, 103]" "sc_ttft (st_scope st') = 1" using t start(2) by simp_all
  moreover have "calculate_tbt (sc_timestamps (st_scope st')) = (last [101, 103] - hd [101, 103]) / rat_of_nat (length [101, 103 :: rat] - 1)"
    using t by (elim conjE)
  then have "calculate_tbt (sc_timestamps (st_scope st')) = 2" by (rule trans) simp
  ultimately show ?thesis using c by blast
qed

section \<open>The caller's view\<close>

lemma consume_prefix:
  "consume process finish clock st = (cs, e, st') \<Longrightarrow> map Inr cs = take (length cs) (st_wrapped st)"
proof (induction clock arbitrary: st cs e st')
  case (Cons now clock)
  show ?case
  proof (cases "stream_next process finish now st")
    case (Pair r st1)
    show ?thesis
    proof (cases r)
      case (Inl e1)
      with Cons.prems Pair show ?thesis by auto
    next
      case (Inr chunk)
      with Pair have w: "st_wrapped st = Inr chunk # st_wrapped st1"
        by (auto simp: stream_next_def Let_def split: list.splits sum.splits prod.splits if_splits)
      obtain cs' e' st2 where c: "consume process finish clock st1 = (cs', e', st2)" by (cases "consume process finish clock st1")
      with Cons.prems Pair Inr have "cs = chunk # cs'" by simp
      with Cons.IH [OF c] w show ?thesis by simp
    qed
  qed
qed simp

lemma finish_stream_span:
  "finish_stream finish st = (r, st') \<Longrightarrow> sp_ended (tl_span (st_tele st')) \<and> st_finished st' = st_finished st + 1
     \<and> st_wrapped st' = st_wrapped st"
  by (auto simp: finish_stream_def ptry_def with_span_def on_span_def leave_span_def end_span_def handle_exception_def Let_def
      record_exception_def set_status_def set_attribute_def split: prod.splits sum.splits if_splits)

lemma finish_stream_returns:
  assumes "raises_only is_Exception finish"
  shows "fst (finish_stream finish st) = Inr ()"
proof -
  have "raises_only is_Exception (with_span finish)"
    using assms unfolding raises_only_def with_span_def by (auto split: prod.splits sum.splits) blast
  then have "returns (ptry (with_span finish) (\<lambda>e. pmodify (\<lambda>(s, t). (s, on_span (handle_exception e) t))))"
    by (intro raises_intros) (auto simp: raises_only_def)
  then obtain u x where "ptry (with_span finish) (\<lambda>e. pmodify (\<lambda>(s, t). (s, on_span (handle_exception e) t))) (st_scope st, st_tele st)
      = (Inr u, x)" by (rule returnsE)
  then show ?thesis by (simp add: finish_stream_def split: prod.split)
qed

text \<open>A stream whose chunks can all be processed, under an invariant of the scope.\<close>

lemma stream_delivers:
  assumes "st_wrapped st = map Inr chunks" and "length clock > length chunks" and "I (st_scope st)"
    and "\<And>now c s. c \<in> set chunks \<Longrightarrow> I s \<Longrightarrow> \<exists>s'. process now c s = (Inr (), s') \<and> I s'"
    and "raises_only is_Exception finish"
  shows "\<exists>st'. consume process finish clock st = (chunks, Some stop_iteration, st')
     \<and> sp_ended (tl_span (st_tele st')) \<and> st_finished st' = st_finished st + 1"
  using assms(1-4)
proof (induction chunks arbitrary: clock st)
  case Nil
  then obtain now cl where clock: "clock = now # cl" by (cases clock) auto
  obtain r st' where f: "finish_stream finish st = (r, st')" by fastforce
  with finish_stream_returns [OF assms(5), of st] have "r = Inr ()" by simp
  with f finish_stream_span [OF f] Nil(1) clock show ?case
    by (simp add: stream_next_def stop_iteration_def)
next
  case (Cons chunk chunks)
  then obtain now cl where clock: "clock = now # cl" by (cases clock) auto
  from Cons.prems(3,4) obtain s' where s': "process now chunk (st_scope st) = (Inr (), s')" "I s'" by force
  let ?st = "st\<lparr>st_wrapped := map Inr chunks, st_scope := s'\<rparr>"
  have n: "stream_next process finish now st = (Inr chunk, ?st)"
    using Cons.prems(1) s' by (simp add: stream_next_def)
  have "\<exists>st'. consume process finish cl ?st = (chunks, Some stop_iteration, st')
     \<and> sp_ended (tl_span (st_tele st')) \<and> st_finished st' = st_finished ?st + 1"
    using Cons.prems clock s'(2) by (intro Cons.IH) auto
  then show ?case using n clock by auto
qed

text \<open>C16: The traced stream is transparent: when every chunk can be processed and the end-of-stream processing
  raises ordinary exceptions only, the caller receives all chunks of the wrapped stream, unchanged and in
  order, and then \<open>StopIteration\<close>, with the span ended and the end processed once.\<close>

theorem stream_transparent:
  assumes "st_wrapped st = map Inr chunks" and "length clock > length chunks"
    and "\<And>now c s. c \<in> set chunks \<Longrightarrow> \<exists>s'. process now c s = (Inr (), s')"
    and "raises_only is_Exception finish"
  shows "\<exists>st'. consume process finish clock st = (chunks, Some stop_iteration, st')
     \<and> sp_ended (tl_span (st_tele st')) \<and> st_finished st' = st_finished st + 1"
  using stream_delivers [OF assms(1,2), where I = "\<lambda>_. True" and process = process and finish = finish] assms(3,4)
  by simp

theorem stream_transparent_witness:
  "\<exists>st'. consume process_chat_chunk (pret ()) [101, 103, 104] sample_stream
       = ([text_chunk ''c1'' ''gpt-4o'' ''Hel'', text_chunk ''c1'' ''gpt-4o'' ''lo''], Some stop_iteration, st')
     \<and> sp_ended (tl_span (st_tele st')) \<and> st_finished st' = 1"
proof -
  let ?chunks = "[text_chunk ''c1'' ''gpt-4o'' ''Hel'', text_chunk ''c1'' ''gpt-4o'' ''lo'']"
  have w: "st_wrapped sample_stream = map Inr ?chunks" by (simp add: sample_stream_def)
  have l: "length ?chunks < length [101, 103, 104 :: rat]" by simp
  have p: "\<And>now c s. c \<in> set ?chunks \<Longrightarrow> \<exists>s'. process_chat_chunk now c s = (Inr (), s')"
    by (auto simp: process_text_chunk)
  have "st_finished sample_stream = 0" by (simp add: sample_stream_def)
  with stream_transparent [OF w l p raises_only_basic(1)] show ?thesis by (simp only: plus_nat.add_0)
qed

text \<open>An exception of the wrapped stream other than \<open>StopIteration\<close>, such as a lost connection, reaches the
  caller, but the wrapper does not notice it: the span is neither ended nor given an error, and no
  metric is recorded.\<close>

theorem stream_error_leaves_span_open:
  assumes "st_wrapped st = Inl e # rest" and "exc_class e \<noteq> StopIteration"
  shows "stream_next process finish now st = (Inl e, st\<lparr>st_wrapped := rest\<rparr>)"
  using assms by (simp add: stream_next_def)

theorem stream_error_leaves_span_open_witness:
  "stream_next process_chat_chunk (pret ()) 101
     (sample_stream\<lparr>st_wrapped := [Inl (PyExc (OtherException ''APIConnectionError'') ''lost'')]\<rparr>)
     = (Inl (PyExc (OtherException ''APIConnectionError'') ''lost''), sample_stream\<lparr>st_wrapped := []\<rparr>)"
  using stream_error_leaves_span_open [of
      "sample_stream\<lparr>st_wrapped := [Inl (PyExc (OtherException ''APIConnectionError'') ''lost'')]\<rparr>"
      "PyExc (OtherException ''APIConnectionError'') ''lost''" "[]" process_chat_chunk "pret ()" 101]
  by simp

text \<open>Every call on an exhausted stream processes its end again: two calls to next finish the stream
  twice, and with it record its metrics twice.\<close>

theorem exhausted_stream_finishes_again:
  assumes "st_wrapped st = []" and "raises_only is_Exception finish"
  shows "\<exists>st1 st2. stream_next process finish now st = (Inl stop_iteration, st1)
     \<and> stream_next process finish now' st1 = (Inl stop_iteration, st2) \<and> st_finished st2 = st_finished st + 2"
proof -
  obtain r1 st1 where 1: "finish_stream finish st = (r1, st1)" by fastforce
  obtain r2 st2 where 2: "finish_stream finish st1 = (r2, st2)" by fastforce
  have "r1 = Inr ()" "r2 = Inr ()"
    using finish_stream_returns [OF assms(2), of st] finish_stream_returns [OF assms(2), of st1] 1 2 by simp_all
  with 1 2 finish_stream_span [OF 1] finish_stream_span [OF 2] assms(1) show ?thesis
    by (simp add: stream_next_def stop_iteration_def)
qed

theorem exhausted_stream_finishes_again_witness:
  "\<exists>st1 st2. stream_next process_chat_chunk (pret ()) 105 (sample_stream\<lparr>st_wrapped := []\<rparr>) = (Inl stop_iteration, st1)
     \<and> stream_next process_chat_chunk (pret ()) 106 st1 = (Inl stop_iteration, st2) \<and> st_finished st2 = 2"
  using exhausted_stream_finishes_again [of "sample_stream\<lparr>st_wrapped := []\<rparr>" "pret ()" process_chat_chunk 105 106]
  by (simp add: raises_only_basic sample_stream_def numeral_2_eq_2)

section \<open>Accumulation\<close>

text \<open>C29: The text of a chat stream is the concatenation of its deltas: consuming a stream of text chunks
  hands every chunk out and appends their contents, in order, to the recorded response.\<close>

theorem chat_text_concatenates:
  assumes "st_wrapped st = map (\<lambda>x. Inr (text_chunk i m x)) texts" and "length clock = length texts"
  shows "\<exists>st'. consume process_chat_chunk finish clock st = (map (text_chunk i m) texts, None, st')
     \<and> sc_llmresponse (st_scope st') = sc_llmresponse (st_scope st) @ concat texts
     \<and> sc_timestamps (st_scope st') = sc_timestamps (st_scope st) @ clock"
  using assms
proof (induction texts arbitrary: clock st)
  case (Cons x texts)
  then obtain now cl where clock: "clock = now # cl" by (cases clock) auto
  obtain s1 where s1: "process_chat_chunk now (text_chunk i m x) (st_scope st) = (Inr (), s1)"
    "sc_llmresponse s1 = sc_llmresponse (st_scope st) @ x"
    using process_text_chunk [of now i m x "st_scope st"] by simp
  let ?st = "st\<lparr>st_wrapped := map (\<lambda>x. Inr (text_chunk i m x)) texts, st_scope := s1\<rparr>"
  have n: "stream_next process_chat_chunk finish now st = (Inr (text_chunk i m x), ?st)"
    using Cons.prems(1) s1(1) by (simp add: stream_next_def)
  have "\<exists>st'. consume process_chat_chunk finish cl ?st = (map (text_chunk i m) texts, None, st')
     \<and> sc_llmresponse (st_scope st') = sc_llmresponse (st_scope ?st) @ concat texts
     \<and> sc_timestamps (st_scope st') = sc_timestamps (st_scope ?st) @ cl"
    using Cons.prems(2) clock by (intro Cons.IH) simp_all
  then show ?case
    using n clock s1(2) process_chat_chunk_time [OF s1(1)] by auto
qed simp

theorem chat_text_concatenates_witness:
  "\<exists>st'. consume process_chat_chunk (pret ()) [101, 103] sample_stream
       = ([text_chunk ''c1'' ''gpt-4o'' ''Hel'', text_chunk ''c1'' ''gpt-4o'' ''lo''], None, st')
     \<and> sc_llmresponse (st_scope st') = ''Hello'' \<and> sc_timestamps (st_scope st') = [101, 103]"
  using chat_text_concatenates [of sample_stream "''c1''" "''gpt-4o''" "[''Hel'', ''lo'']" "[101, 103]" "pret ()"]
  by (simp del: consume.simps add: sample_stream_def initial_chat_scope_def)

text \<open>A tool as the stream stores it, and a delta that carries more of its arguments.\<close>

definition stored_tool :: "string \<Rightarrow> string \<Rightarrow> string \<Rightarrow> pyval" where
  "stored_tool i n a = PDict [(''id'', PStr i),
     (''function'', PDict [(''name'', PStr n), (''arguments'', PStr a)]), (''type'', PStr ''function'')]"

definition open_delta :: "nat \<Rightarrow> string \<Rightarrow> string \<Rightarrow> string \<Rightarrow> pyval" where
  "open_delta k i n a = PDict [(''index'', PInt (int k)), (''id'', PStr i),
     (''function'', PDict [(''name'', PStr n), (''arguments'', PStr a)]), (''type'', PStr ''function'')]"

definition args_delta :: "nat \<Rightarrow> string \<Rightarrow> pyval" where
  "args_delta k a = PDict [(''index'', PInt (int k)), (''function'', PDict [(''arguments'', PStr a)])]"

lemma py_or_str: "py_or (PStr a) (PStr []) = PStr a"
  by (cases a) (simp_all add: py_or_def)

lemma tools_now_list [simp]: "tools_now (s\<lparr>sc_tools := PList xs\<rparr>) = xs"
  by (simp add: tools_now_def tool_list_def)

lemma process_new_tool:
  assumes "py_get tool ''index'' (PInt 0) = Inr (PInt idx)" and "py_get tool ''id'' PNone = Inr tid" and "py_truth tid"
    and "new_tool tool = Inr t" and "list_position (extend_tools idx (tools_now s)) idx = Some k"
  shows "process_tool_delta tool s = (Inr (), s\<lparr>sc_tools := PList ((extend_tools idx (tools_now s))[k := t])\<rparr>)"
  using assms by (simp add: process_tool_delta_def)

lemma process_tool_args:
  assumes "py_get tool ''index'' (PInt 0) = Inr (PInt idx)" and "py_get tool ''id'' PNone = Inr tid" and "\<not> py_truth tid"
    and "list_position (extend_tools idx (tools_now s)) idx = Some k" and "py_truth (extend_tools idx (tools_now s) ! k)"
    and "py_in ''function'' tool = Inr True"
    and "append_tool_args (extend_tools idx (tools_now s) ! k) tool = Inr t"
  shows "process_tool_delta tool s = (Inr (), s\<lparr>sc_tools := PList ((extend_tools idx (tools_now s))[k := t])\<rparr>)"
  using assms by (simp add: process_tool_delta_def)

lemma open_delta_stores:
  assumes "i \<noteq> []" and "length (tools_now s) \<le> k"
  shows "process_tool_delta (open_delta k i n a) s = (Inr (),
     s\<lparr>sc_tools := PList (tools_now s @ replicate (k - length (tools_now s)) (PDict []) @ [stored_tool i n a])\<rparr>)"
proof -
  have e: "extend_tools (int k) (tools_now s)
      = tools_now s @ replicate (k - length (tools_now s)) (PDict []) @ [PDict []]"
  proof -
    have "nat (int k + 1 - int (length (tools_now s))) = Suc (k - length (tools_now s))" using assms(2) by simp
    then show ?thesis by (simp add: extend_tools_def replicate_append_same)
  qed
  have new: "new_tool (open_delta k i n a) = Inr (stored_tool i n a)"
    by (simp add: new_tool_def open_delta_def stored_tool_def py_or_str)
  have p: "list_position (tools_now s @ replicate (k - length (tools_now s)) (PDict []) @ [PDict []]) (int k) = Some k"
    using assms(2) by (simp add: list_position_def)
  have u: "(tools_now s @ replicate (k - length (tools_now s)) (PDict []) @ [PDict []])[k := stored_tool i n a]
      = tools_now s @ replicate (k - length (tools_now s)) (PDict []) @ [stored_tool i n a]"
    using assms(2) by (simp add: list_update_append)
  have "process_tool_delta (open_delta k i n a) s
      = (Inr (), s\<lparr>sc_tools := PList ((extend_tools (int k) (tools_now s))[k := stored_tool i n a])\<rparr>)"
    by (rule process_new_tool [where tid = "PStr i"])
      (simp_all add: assms(1) new e p, simp_all add: open_delta_def)
  then show ?thesis by (simp only: e u)
qed

lemma args_delta_appends:
  assumes "tools_now s = before @ stored_tool i n a # after"
  shows "process_tool_delta (args_delta (length before) b) s
     = (Inr (), s\<lparr>sc_tools := PList (before @ stored_tool i n (a @ b) # after)\<rparr>)"
proof -
  have e: "extend_tools (int (length before)) (tools_now s) = before @ stored_tool i n a # after"
    by (simp add: extend_tools_def assms)
  have p: "list_position (before @ stored_tool i n a # after) (int (length before)) = Some (length before)"
    by (simp add: list_position_def)
  have ap: "append_tool_args (stored_tool i n a) (args_delta (length before) b) = Inr (stored_tool i n (a @ b))"
    by (simp add: append_tool_args_def stored_tool_def args_delta_def py_or_str py_add_def)
  have t: "py_truth (stored_tool i n a)" by (simp add: stored_tool_def)
  have "process_tool_delta (args_delta (length before) b) s
      = (Inr (), s\<lparr>sc_tools := PList ((extend_tools (int (length before)) (tools_now s))[length before := stored_tool i n (a @ b)])\<rparr>)"
  proof (rule process_tool_args [where tid = PNone])
    show "py_in ''function'' (args_delta (length before) b) = Inr True"
      by (simp add: args_delta_def py_in_def dmem_def)
  qed (simp_all add: e p t ap, simp_all add: args_delta_def)
  then show ?thesis by (simp only: e list_update_length)
qed

text \<open>C30: A streamed tool call is reassembled: its opening delta stores identity, name and first arguments at
  its index, filling skipped positions with empty tools, and the argument deltas that follow append to
  it in order, leaving every other tool alone.\<close>

theorem tool_call_reassembled:
  assumes "i \<noteq> []" and "length (tools_now s) \<le> k"
  shows "pfor (open_delta k i n a # map (args_delta k) pieces) process_tool_delta s = (Inr (),
     s\<lparr>sc_tools := PList (tools_now s @ replicate (k - length (tools_now s)) (PDict [])
         @ [stored_tool i n (a @ concat pieces)])\<rparr>)"
proof -
  let ?before = "tools_now s @ replicate (k - length (tools_now s)) (PDict [])"
  have k: "length ?before = k" using assms(2) by simp
  have loop: "pfor (map (args_delta k) pieces) process_tool_delta (s\<lparr>sc_tools := PList (?before @ [stored_tool i n a])\<rparr>)
      = (Inr (), s\<lparr>sc_tools := PList (?before @ [stored_tool i n (a @ concat pieces)])\<rparr>)" for a
  proof (induction pieces arbitrary: a)
    case (Cons b pieces)
    have "process_tool_delta (args_delta (length ?before) b) (s\<lparr>sc_tools := PList (?before @ [stored_tool i n a])\<rparr>)
        = (Inr (), s\<lparr>sc_tools := PList (?before @ [stored_tool i n (a @ b)])\<rparr>)"
      using args_delta_appends [of "s\<lparr>sc_tools := PList (?before @ [stored_tool i n a])\<rparr>" ?before i n a "[]" b]
      by simp
    with Cons.IH [of "a @ b"] k show ?case by (simp add: pbind_def)
  qed simp
  from open_delta_stores [OF assms] loop [of a] show ?thesis by (simp add: pbind_def)
qed

theorem tool_call_reassembled_witness:
  "pfor [open_delta 1 ''call_1'' ''weather'' [], args_delta 1 ''{city:'', args_delta 1 ''Rome}''] process_tool_delta
       (initial_chat_scope 100)
     = (Inr (), (initial_chat_scope 100)\<lparr>sc_tools := PList [PDict [], stored_tool ''call_1'' ''weather'' ''{city:Rome}'']\<rparr>)"
  using tool_call_reassembled [of "''call_1''" "initial_chat_scope 100" 1 "''weather''" "[]" "[''{city:'', ''Rome}'']"]
  by (simp add: tools_now_def tool_list_def initial_chat_scope_def)

text \<open>A chunk without choices, such as the final usage chunk, overwrites the finish reason with stop,
  whatever the stream had reported before.\<close>

theorem empty_choices_reset_finish_reason:
  "\<exists>s'. process_chat_chunk now (PDict [(''id'', i), (''model'', m), (''choices'', PList []), (''usage'', u)]) s
     = (Inr (), s') \<and> sc_finish_reason s' = PStr ''stop''"
  by (simp add: process_chat_chunk_def first_delta_def update_finish_reason_def chunk_finish_reason_def pbind_def)

section \<open>Messages\<close>

definition plain_message :: "string \<times> string \<Rightarrow> pyval" where
  "plain_message m = PDict [(''role'', PStr (fst m)), (''content'', PStr (snd m))]"

definition otel_message :: "string \<times> string \<Rightarrow> pyval" where
  "otel_message m = PDict [(''role'', PStr (fst m)), (''parts'', PList [text_part (PStr (snd m))])]"

lemma input_message_plain:
  "fst m \<noteq> ''tool'' \<Longrightarrow> input_message repr (plain_message m) = Inr (if snd m = [] then None else Some (otel_message m))"
  by (simp add: input_message_def plain_message_def otel_message_def msg_field_def Let_def)

text \<open>The input messages of a chat of plain texts are, in order, one message per non-empty text, with its
  role and the text as its only part; nothing is logged and nothing raises.\<close>

theorem input_messages_of_chat:
  assumes "\<forall>m \<in> set ms. fst m \<noteq> ''tool''"
  shows "build_input_messages repr (PList (map plain_message ms)) l
     = (Inr (map otel_message (filter (\<lambda>m. snd m \<noteq> []) ms)), l)"
proof -
  have "input_messages_loop repr (map plain_message ms) acc l
      = (Inr (acc @ map otel_message (filter (\<lambda>m. snd m \<noteq> []) ms)), l)" for acc
    using assms by (induction ms arbitrary: acc) (simp_all add: input_message_plain)
  then show ?thesis by (cases "ms = []") (simp_all add: build_input_messages_def)
qed

theorem input_messages_of_chat_witness:
  "build_input_messages (\<lambda>_. [])
       (PList (map plain_message [(''system'', ''Be brief''), (''user'', ''Hi''), (''assistant'', [])])) []
     = (Inr (map otel_message [(''system'', ''Be brief''), (''user'', ''Hi'')]), [])"
  using input_messages_of_chat [of "[(''system'', ''Be brief''), (''user'', ''Hi''), (''assistant'', [])]" "\<lambda>_. []" "[]"]
  by simp

text \<open>A tool call as the stream reassembles it loses its name and its arguments in the output message: the
  converter reads them beside the identity, where the stream nests them under function.\<close>

theorem streamed_tool_call_loses_name:
  "output_tool_call json_loads (stored_tool i n a) = Inr (tool_call_part (PStr i) (PStr []) (PDict []))"
  by (simp add: output_tool_call_def stored_tool_def msg_field_def parse_tool_args_def)

end
