(* ===== verification/InferenceEvent.thy ===== *)
theory InferenceEvent
  imports OpenAIMessages Telemetry
begin

text \<open>
  What the processing functions of \<open>openlit/instrumentation/openai/utils.py\<close> share: the closure variables
  of a wrapper together with the outside world, the steps on span, metrics, events and log, the message
  attributes of the span and the inference event.
\<close>

section \<open>Environment and steps\<close>

text \<open>The first eight fields are the arguments of the wrapper factories; then the agent name of the context,
  \<open>OpenlitConfig.max_content_length\<close>, the rendering and JSON functions and the event provider's \<open>emit\<close>.\<close>

record instr_env =
  ie_version :: string
  ie_environment :: string
  ie_application_name :: string
  ie_pricing_info :: pyval
  ie_capture_message_content :: bool
  ie_metrics :: "metrics option"
  ie_disable_metrics :: bool
  ie_event_provider :: bool
  ie_agent_name :: "string option"
  ie_max_content_length :: pyval
  ie_repr :: "pyval \<Rightarrow> string"
  ie_json_dumps :: "pyval \<Rightarrow> string res"
  ie_json_loads :: "string \<Rightarrow> pyval res"
  ie_emit :: "(string, pyval) dict \<Rightarrow> unit res"

definition span_step :: "(span \<Rightarrow> span) \<Rightarrow> (tele, unit) prog" where
  "span_step f = pmodify (on_span f)"

definition span_attr :: "string \<Rightarrow> pyval \<Rightarrow> (tele, unit) prog" where
  "span_attr k v = span_step (set_attribute k v)"

definition log_step :: "'a logged \<Rightarrow> (tele, 'a) prog" where
  "log_step m t = (case m (tl_log t) of (r, l) \<Rightarrow> (r, t\<lparr>tl_log := l\<rparr>))"

text \<open>A recorder applied to \<open>metrics\<close>; indexing \<open>None\<close> raises.\<close>

definition metric_step :: "instr_env \<Rightarrow> (metrics \<Rightarrow> unit recording) \<Rightarrow> (tele, unit) prog" where
  "metric_step env rec t =
     (case ie_metrics env of
        None \<Rightarrow> praise (PyExc TypeError ''NoneType object is not subscriptable'') t
      | Some m \<Rightarrow> (case rec m (tl_measurements t) of (r, ms) \<Rightarrow> (r, t\<lparr>tl_measurements := ms\<rparr>)))"

definition emit_step :: "instr_env \<Rightarrow> (string, pyval) dict \<Rightarrow> (tele, unit) prog" where
  "emit_step env attributes =
     pbind (plift (ie_emit env attributes)) (\<lambda>_. pmodify (\<lambda>t. t\<lparr>tl_events := tl_events t @ [attributes]\<rparr>))"

definition warn_step :: "string \<Rightarrow> pyexc \<Rightarrow> (tele, unit) prog" where
  "warn_step message e = log_step (log_warning [message, exc_msg e])"

section \<open>Message attributes of the span\<close>

definition message_attribute :: "instr_env \<Rightarrow> string \<Rightarrow> pyval \<Rightarrow> (tele, unit) prog" where
  "message_attribute env k messages =
     (if messages = PNone then pret ()
      else pbind (plift (case messages of
          PList ms \<Rightarrow> res_bind (ie_json_dumps env messages) (\<lambda>s. Inr (PStr s))
        | _ \<Rightarrow> Inr messages)) (span_attr k))"

text \<open>Truncation works in place: the caller's lists are the result.\<close>

definition set_span_messages_as_array :: "instr_env \<Rightarrow> pyval \<Rightarrow> pyval \<Rightarrow> (tele, pyval \<times> pyval) prog" where
  "set_span_messages_as_array env input_messages output_messages =
     (let (inp, r1) = truncate_message_content (ie_max_content_length env) input_messages;
          (outp, r2) = (case r1 of
             Inl e \<Rightarrow> (output_messages, Inr ())
           | Inr _ \<Rightarrow> truncate_message_content (ie_max_content_length env) output_messages)
      in pbind (ptry
           (pbind (plift r1) (\<lambda>_. pbind (plift r2) (\<lambda>_.
            pbind (message_attribute env GEN_AI_INPUT_MESSAGES inp) (\<lambda>_.
            message_attribute env GEN_AI_OUTPUT_MESSAGES outp))))
           (warn_step ''Failed to set span message attributes: %s'')) (\<lambda>_. pret (inp, outp)))"

section \<open>The inference event\<close>

text \<open>The chain of comparisons on the names of the extra attributes; any other name passes through.\<close>

definition extra_key :: "string \<Rightarrow> string" where
  "extra_key key = dget_or [
     (''response_id'', GEN_AI_RESPONSE_ID),
     (''finish_reasons'', GEN_AI_RESPONSE_FINISH_REASON),
     (''output_type'', GEN_AI_OUTPUT_TYPE),
     (''conversation_id'', ''gen_ai.conversation.id''),
     (''temperature'', GEN_AI_REQUEST_TEMPERATURE),
     (''max_tokens'', GEN_AI_REQUEST_MAX_TOKENS),
     (''top_p'', GEN_AI_REQUEST_TOP_P),
     (''frequency_penalty'', GEN_AI_REQUEST_FREQUENCY_PENALTY),
     (''presence_penalty'', GEN_AI_REQUEST_PRESENCE_PENALTY),
     (''stop_sequences'', GEN_AI_REQUEST_STOP_SEQUENCES),
     (''seed'', GEN_AI_REQUEST_SEED),
     (''choice_count'', GEN_AI_REQUEST_CHOICE_COUNT),
     (''n'', GEN_AI_REQUEST_CHOICE_COUNT),
     (''input_tokens'', GEN_AI_USAGE_INPUT_TOKENS),
     (''output_tokens'', GEN_AI_USAGE_OUTPUT_TOKENS),
     (''cache_creation_input_tokens'', GEN_AI_USAGE_CACHE_CREATION_INPUT_TOKENS),
     (''cache_read_input_tokens'', GEN_AI_USAGE_CACHE_READ_INPUT_TOKENS),
     (''error_type'', ERROR_TYPE),
     (''system_instructions'', GEN_AI_SYSTEM_INSTRUCTIONS)] key key"

text \<open>\<open>v == 1\<close>.\<close>

definition equals_one :: "pyval \<Rightarrow> bool" where
  "equals_one v \<longleftrightarrow> as_num v = Some 1"

definition add_extra :: "string \<times> pyval \<Rightarrow> (string, pyval) dict \<Rightarrow> (string, pyval) dict" where
  "add_extra kv attributes =
     (case kv of (key, v) \<Rightarrow>
        (if v = PNone then attributes
         else if (key = ''choice_count'' \<or> key = ''n'') \<and> equals_one v then attributes
         else dput (extra_key key) v attributes))"

text \<open>\<open>if v:\<close> and \<open>if v is not None:\<close> before an assignment.\<close>

definition put_truthy :: "string \<Rightarrow> pyval \<Rightarrow> (string, pyval) dict \<Rightarrow> (string, pyval) dict" where
  "put_truthy k v d = (if py_truth v then dput k v d else d)"

definition put_given :: "string \<Rightarrow> pyval \<Rightarrow> (string, pyval) dict \<Rightarrow> (string, pyval) dict" where
  "put_given k v d = (if v \<noteq> PNone then dput k v d else d)"

record inference =
  if_operation_name :: string
  if_request_model :: pyval
  if_response_model :: pyval
  if_input_messages :: pyval
  if_output_messages :: pyval
  if_tool_definitions :: pyval
  if_server_address :: pyval
  if_server_port :: pyval

definition inference_attributes :: "inference \<Rightarrow> (string \<times> pyval) list \<Rightarrow> (string, pyval) dict" where
  "inference_attributes i extra_attrs =
     (let attributes = [(GEN_AI_OPERATION, PStr (if_operation_name i))];
          attributes = put_truthy GEN_AI_REQUEST_MODEL (if_request_model i) attributes;
          attributes = put_truthy GEN_AI_RESPONSE_MODEL (if_response_model i) attributes;
          attributes = put_truthy SERVER_ADDRESS (if_server_address i) attributes;
          attributes = put_truthy SERVER_PORT (if_server_port i) attributes;
          attributes = put_given GEN_AI_INPUT_MESSAGES (if_input_messages i) attributes;
          attributes = put_given GEN_AI_OUTPUT_MESSAGES (if_output_messages i) attributes;
          attributes = put_given GEN_AI_TOOL_DEFINITIONS (if_tool_definitions i) attributes
      in fold add_extra extra_attrs attributes)"

definition emit_inference_event :: "instr_env \<Rightarrow> inference \<Rightarrow> (string \<times> pyval) list \<Rightarrow> (tele, unit) prog" where
  "emit_inference_event env i extra_attrs =
     ptry (pwhen (ie_event_provider env) (emit_step env (inference_attributes i extra_attrs)))
       (warn_step ''Failed to emit inference event: %s'')"

section \<open>Lemmas\<close>

text \<open>Steps change one field.\<close>

lemma keeps_span_step [keeps_intros]: "(\<And>t. f (on_span g t) = f t) \<Longrightarrow> keeps f (span_step g)"
  by (simp add: span_step_def keeps_pmodify)

lemma keeps_log_step [keeps_intros]: "(\<And>t l. f (t\<lparr>tl_log := l\<rparr>) = f t) \<Longrightarrow> keeps f (log_step m)"
  by (simp add: keeps_def log_step_def split: prod.split)

lemma keeps_metric_step [keeps_intros]:
  "(\<And>t ms. f (t\<lparr>tl_measurements := ms\<rparr>) = f t) \<Longrightarrow> keeps f (metric_step env rec)"
  by (simp add: keeps_def metric_step_def split: prod.split option.split)

lemma keeps_emit_step [keeps_intros]:
  "(\<And>t es. f (t\<lparr>tl_events := es\<rparr>) = f t) \<Longrightarrow> keeps f (emit_step env a)"
  by (simp add: emit_step_def) (rule keeps_intros | simp)+

text \<open>A result that can only be an ordinary exception: what \<open>except Exception\<close> catches.\<close>

named_theorems ordinary_intros \<open>results without BaseException\<close>

definition ordinary :: "'a res \<Rightarrow> bool" where
  "ordinary r \<longleftrightarrow> (\<forall>e. r = Inl e \<longrightarrow> is_Exception e)"

lemma ordinary_basic [ordinary_intros]: "ordinary (Inr x)" "is_Exception e \<Longrightarrow> ordinary (Inl e)"
  by (simp_all add: ordinary_def)

lemma ordinary_bind [ordinary_intros]: "ordinary r \<Longrightarrow> (\<And>x. ordinary (f x)) \<Longrightarrow> ordinary (res_bind r f)"
  by (cases r) (auto simp: ordinary_def)

lemma ordinary_map [ordinary_intros]: "(\<And>x. ordinary (f x)) \<Longrightarrow> ordinary (res_map f xs)"
  by (induction xs) (simp_all add: ordinary_basic ordinary_bind)

lemma ordinary_if [ordinary_intros]: "(b \<Longrightarrow> ordinary r) \<Longrightarrow> (\<not> b \<Longrightarrow> ordinary q) \<Longrightarrow> ordinary (if b then r else q)"
  by simp

lemma ordinary_py_get [ordinary_intros]: "ordinary (py_get v k d)"
  by (cases v) (simp_all add: ordinary_def no_attr_def)

lemma ordinary_py_index [ordinary_intros]: "ordinary (py_index v k)"
  by (cases "(v, k)" rule: py_index.cases) (auto simp: ordinary_def Let_def split: option.splits if_splits)

lemma ordinary_py_len [ordinary_intros]: "ordinary (py_len v)"
  by (cases v) (simp_all add: ordinary_def)

lemma ordinary_py_iter [ordinary_intros]: "ordinary (py_iter v)"
  by (cases v) (simp_all add: ordinary_def)

lemma ordinary_py_in [ordinary_intros]: "ordinary (py_in k v)"
  by (cases v) (simp_all add: py_in_def ordinary_def)

lemma ordinary_py_attr [ordinary_intros]: "ordinary (py_attr v k)"
  by (cases v) (auto simp: ordinary_def no_attr_def split: option.split)

lemma ordinary_py_int [ordinary_intros]: "ordinary (py_int v)"
  by (cases v) (auto simp: ordinary_def Let_def split: option.splits prod.splits)

lemma ordinary_py_add [ordinary_intros]: "ordinary (py_add x y)"
  by (auto simp: ordinary_def py_add_def unsupported_def split: option.splits pyval.splits)

lemma ordinary_join [ordinary_intros]: "ordinary (join_values sep vs)"
  unfolding join_values_def by (rule ordinary_intros | simp add: ordinary_def split: pyval.split)+

lemma ordinary_startswith [ordinary_intros]: "ordinary (py_startswith v p)"
  by (simp add: ordinary_def py_startswith_def no_attr_def split: pyval.split)

lemma raises_ordinary [raises_intros]: "ordinary r \<Longrightarrow> raises_only is_Exception (plift r)"
  by (simp add: ordinary_def raises_only_def)

lemma raises_span_step [raises_intros]: "raises_only P (span_step f)"
  by (simp add: span_step_def raises_only_def)

lemma raises_log_step [raises_intros]: "raises_only P m \<Longrightarrow> raises_only P (log_step m)"
  by (auto simp: raises_only_def log_step_def split: prod.splits)

lemma returns_warn_step [raises_intros]: "raises_only P (warn_step m e)"
  unfolding warn_step_def log_warning_def by (rule raises_intros)+

end
