(* ===== verification/TracedCall.thy ===== *)
theory TracedCall
  imports InferenceEvent
begin

text \<open>
  What the call wrappers of every instrumentation share: the span around the wrapped call, the processing
  of its result inside a try block, the processing of a failure, and the contract under which the caller
  does not notice any of it.
\<close>

section \<open>The wrapper\<close>

text \<open>What the wrapped call gives: a response, or for a streaming call an iterator with the results of its
  next calls.\<close>

datatype api_result = ApiValue pyval | ApiStream "pyval res list"

fun api_object :: "api_result \<Rightarrow> pyval" where
  "api_object (ApiValue v) = v"
| "api_object (ApiStream items) = PObj ''Stream'' []"

fun api_items :: "api_result \<Rightarrow> pyval res list" where
  "api_items (ApiValue v) = [Inl (no_attr v ''__next__'')]"
| "api_items (ApiStream items) = items"

text \<open>\<open>with tracer.start_as_current_span(...) as span\<close> on the telemetry of the call.\<close>

definition in_current_span :: "(tele, 'a) prog \<Rightarrow> (tele, 'a) prog" where
  "in_current_span body t =
     (case body (on_span (\<lambda>_. fresh_span) t) of
        (Inr v, t) \<Rightarrow> (Inr v, on_span (leave_span None) t)
      | (Inl e, t) \<Rightarrow> (Inl e, on_span (leave_span (if is_Exception e then Some e else None)) t))"

text \<open>The wrapped call runs inside the span and outside the try block; the response is handed back as it is.\<close>

definition guarded_call ::
  "api_result res \<Rightarrow> (api_result \<Rightarrow> (tele, unit) prog) \<Rightarrow> (pyexc \<Rightarrow> (tele, unit) prog) \<Rightarrow> (tele, api_result) prog" where
  "guarded_call wrapped process failure =
     in_current_span (pbind (plift wrapped) (\<lambda>r. pbind (ptry (process r) failure) (\<lambda>_. pret r)))"

text \<open>The four clock readings of one call.\<close>

record clock =
  ck_start :: rat
  ck_end :: rat
  ck_logic :: rat
  ck_failure :: rat

text \<open>The arguments of the call, the address of its client and the clock.\<close>

record call =
  ca_kwargs :: "(string, pyval) dict"
  ca_server_address :: pyval
  ca_server_port :: pyval
  ca_clock :: clock

text \<open>What the wrappers do when processing the response fails.\<close>

definition failed_completion :: "metric_args \<Rightarrow> rat \<Rightarrow> rat \<Rightarrow> pyexc \<Rightarrow> completion" where
  "failed_completion args start_time end_time e =
     \<lparr>co_args = args, co_start_time = start_time, co_end_time = end_time, co_input_tokens = Some 0, co_output_tokens = Some 0,
      co_cost = PInt 0, co_tbt = None, co_ttft = None,
      co_error_type = Some (if class_name (exc_class e) = [] then ''_OTHER'' else class_name (exc_class e)),
      co_is_stream = False, co_time_per_chunk = None\<rparr>"

definition completion_failure :: "instr_env \<Rightarrow> metric_args \<Rightarrow> rat \<Rightarrow> rat \<Rightarrow> pyexc \<Rightarrow> (tele, unit) prog" where
  "completion_failure env args start_time end_time e =
     pbind (span_step (handle_exception e)) (\<lambda>_.
     pwhen (\<not> ie_disable_metrics env \<and> \<not> falsy_metrics (ie_metrics env))
       (metric_step env (\<lambda>m. record_completion_metrics (ie_agent_name env) m (failed_completion args start_time end_time e))))"

section \<open>Lemmas\<close>

text \<open>What the outside world may raise: the JSON functions and the event provider raise no
  \<open>KeyboardInterrupt\<close> or \<open>SystemExit\<close>.\<close>

definition tame :: "instr_env \<Rightarrow> bool" where
  "tame env \<longleftrightarrow> (\<forall>v. ordinary (ie_json_dumps env v)) \<and> (\<forall>s. ordinary (ie_json_loads env s))
     \<and> (\<forall>a. ordinary (ie_emit env a))"

lemma ordinary_pyval [ordinary_intros]:
  assumes "ordinary a" "\<And>b. ordinary (f1 b)" "\<And>i. ordinary (f2 i)" "\<And>r. ordinary (f3 r)" "\<And>s. ordinary (f4 s)"
    "\<And>l. ordinary (f5 l)" "\<And>d. ordinary (f6 d)" "\<And>c x. ordinary (f7 c x)"
  shows "ordinary (case v of PNone \<Rightarrow> a | PBool b \<Rightarrow> f1 b | PInt i \<Rightarrow> f2 i | PFloat r \<Rightarrow> f3 r | PStr s \<Rightarrow> f4 s
    | PList l \<Rightarrow> f5 l | PDict d \<Rightarrow> f6 d | PObj c x \<Rightarrow> f7 c x)"
  using assms by (cases v) simp_all

lemma raises_metric_step:
  assumes "ie_metrics env = None \<or> ie_metrics env = Some metrics_dict"
  shows "raises_only is_Exception (metric_step env (\<lambda>m. record_completion_metrics agent m c))"
  using assms by (auto simp: raises_only_def metric_step_def record_completion_full)

lemma returns_log_warning [raises_intros]: "raises_only P (log_warning m)"
  by (simp add: log_warning_def raises_only_basic)

lemma tameD:
  assumes "tame env"
  shows "ordinary (ie_json_dumps env v)" "ordinary (ie_json_loads env s)" "ordinary (ie_emit env a)"
  using assms by (simp_all add: tame_def)

lemma raises_span_attr [raises_intros]: "raises_only P (span_attr k v)"
  by (simp add: span_attr_def raises_span_step)

lemma returns_span_messages [raises_intros]:
  assumes "tame env"
  shows "raises_only P (set_span_messages_as_array env i out)"
proof -
  have msg: "ordinary (truncate_message l m)" for l m
    by (auto simp: truncate_message_def ordinary_def split: pyval.splits option.splits)
  have "ordinary (snd (truncate_loop l ms))" for l ms
    using msg by (induction ms) (auto simp: ordinary_def split: sum.splits prod.splits)
  then have trunc: "ordinary (snd (truncate_message_content l v))" for l v
    by (auto simp: truncate_message_content_def ordinary_def split: pyval.splits prod.splits)
      (metis snd_conv)
  have attr: "raises_only is_Exception (message_attribute env k v)" for k v
    unfolding message_attribute_def
    by (rule raises_intros ordinary_intros tameD [OF assms] | simp)+
  show ?thesis
    unfolding set_span_messages_as_array_def Let_def case_prod_beta
    by (intro raises_intros raises_only_mono [OF attr] raises_ordinary trunc raises_only_plift)
      (use trunc in \<open>auto simp: ordinary_def split: sum.splits\<close>)
qed

lemma returns_emit_inference [raises_intros]:
  assumes "tame env"
  shows "raises_only P (emit_inference_event env i extra)"
  using tameD(3) [OF assms] unfolding emit_inference_event_def emit_step_def ordinary_def
  by (auto intro!: raises_intros)

lemma returns_completion_failure:
  assumes "ie_metrics env = None \<or> ie_metrics env = Some metrics_dict"
  shows "raises_only P (completion_failure env args t0 t1 e)"
  using assms unfolding completion_failure_def
  by (auto simp: raises_only_def metric_step_def record_completion_full falsy_metrics_def pbind_def span_step_def
      pwhen_def split: if_splits)

section \<open>The span of a call\<close>

lemma in_current_span_fst: "fst (in_current_span body t) = fst (body (on_span (\<lambda>_. fresh_span) t))"
  by (auto simp: in_current_span_def split: prod.split sum.split)

lemma in_current_span_ended: "sp_ended (tl_span (snd (in_current_span body t)))"
  by (auto simp: in_current_span_def leave_span_def end_span_def on_span_def split: prod.split sum.split)

text \<open>The environment, the client and the arguments used to apply the theorems: no capture, the full set of
  metrics, one price.\<close>

definition sample_env :: instr_env where
  "sample_env = \<lparr>ie_version = ''1.0.0'', ie_environment = ''prod'', ie_application_name = ''shop'',
     ie_pricing_info = PDict [(''chat'', PDict [(''gpt-4o'', PDict [(''promptPrice'', PFloat 2), (''completionPrice'', PFloat 4)])])],
     ie_capture_message_content = False, ie_metrics = Some metrics_dict, ie_disable_metrics = False,
     ie_event_provider = True, ie_agent_name = None, ie_max_content_length = PNone, ie_repr = (\<lambda>_. ''<object>''),
     ie_json_dumps = (\<lambda>_. Inr ''[]''), ie_json_loads = (\<lambda>_. Inr PNone), ie_emit = (\<lambda>_. Inr ())\<rparr>"

definition sample_clock :: clock where
  "sample_clock = \<lparr>ck_start = 100, ck_end = 102, ck_logic = 103, ck_failure = 104\<rparr>"

lemma sample_env_tame: "tame sample_env" "ie_metrics sample_env = None \<or> ie_metrics sample_env = Some metrics_dict"
  by (simp_all add: tame_def sample_env_def ordinary_def)

lemma sample_address: "set_server_address_and_port PNone ''api.openai.com'' 443 = Inr (PStr ''api.openai.com'', PInt 443)"
  by (simp add: set_server_address_and_port_def base_url_of_def)

definition content_keys :: "string list" where
  "content_keys = [GEN_AI_INPUT_MESSAGES, GEN_AI_OUTPUT_MESSAGES, GEN_AI_SYSTEM_INSTRUCTIONS]"

text \<open>What the span holds under the given keys, and the events.\<close>

definition span_view :: "string list \<Rightarrow> tele \<Rightarrow> pyval option list" where
  "span_view ks t = map (dget (sp_attributes (tl_span t))) ks"

lemma span_view_set_attribute: "k \<notin> set ks \<Longrightarrow> span_view ks (on_span (set_attribute k v) t) = span_view ks t"
  by (auto simp: span_view_def on_span_def set_attribute_def)

lemma span_view_status: "span_view ks (on_span (set_status st) t) = span_view ks t"
  by (simp add: span_view_def on_span_def set_status_def)

lemma keeps_view_attr [keeps_intros]: "k \<notin> set ks \<Longrightarrow> keeps (span_view ks) (span_attr k v)"
  by (simp add: span_attr_def keeps_def span_view_set_attribute span_step_def)

definition common_keys :: "string list" where
  "common_keys = [TELEMETRY_SDK_NAME, GEN_AI_OPERATION, GEN_AI_PROVIDER_NAME, SERVER_ADDRESS, SERVER_PORT,
     GEN_AI_REQUEST_MODEL, GEN_AI_RESPONSE_MODEL, DEPLOYMENT_ENVIRONMENT, SERVICE_NAME, GEN_AI_REQUEST_IS_STREAM,
     GEN_AI_SERVER_TBT, GEN_AI_SERVER_TTFT, GEN_AI_SDK_VERSION]"

lemma dget_set_attribute_other:
  "k' \<noteq> k \<Longrightarrow> dget (sp_attributes (set_attribute k v sp)) k' = dget (sp_attributes sp) k'"
  by (simp add: set_attribute_def)

lemma common_span_attributes_other:
  "k \<notin> set common_keys \<Longrightarrow> dget (sp_attributes (common_span_attributes c sp)) k = dget (sp_attributes sp) k"
  by (simp add: common_span_attributes_def common_keys_def Let_def dget_set_attribute_other)

lemma span_view_common: "set common_keys \<inter> set ks = {} \<Longrightarrow> span_view ks (on_span (common_span_attributes c) t) = span_view ks t"
  by (auto simp: span_view_def on_span_def intro!: common_span_attributes_other)

lemma keeps_view_other [keeps_intros]:
  "set common_keys \<inter> set ks = {} \<Longrightarrow> keeps (span_view ks) (span_step (common_span_attributes c))"
  "keeps (span_view ks) (span_step (set_status st))"
  by (simp_all add: keeps_def span_step_def span_view_common span_view_status)

lemma content_keys_fresh: "set common_keys \<inter> set content_keys = {}"
  by (simp add: common_keys_def content_keys_def semconv)

lemma keeps_events:
  "keeps tl_events (span_step f)" "keeps tl_events (span_attr k v)"
  by (simp_all add: span_attr_def keeps_def span_step_def on_span_def)

lemma in_current_span_keeps:
  assumes "keeps f m" and "f (on_span (\<lambda>_. fresh_span) t) = x" and "\<And>y t. f (on_span (leave_span y) t) = f t"
  shows "f (snd (in_current_span m t)) = x"
proof -
  obtain r u where m: "m (on_span (\<lambda>_. fresh_span) t) = (r, u)" by fastforce
  from keepsD [OF assms(1) this] assms(2,3) m show ?thesis
    by (cases r) (simp_all add: in_current_span_def)
qed

lemma content_view_span:
  "span_view content_keys (on_span (leave_span y) t) = span_view content_keys t"
  "span_view content_keys (on_span (\<lambda>_. fresh_span) t) = [None, None, None]"
  "tl_events (on_span f t) = tl_events t"
  by (simp_all add: span_view_def on_span_def leave_span_def end_span_def set_status_def record_exception_def
      fresh_span_def content_keys_def split: option.split)

lemma keeps_completion_failure:
  "keeps (span_view content_keys) (completion_failure env args t0 t1 e)" "keeps tl_events (completion_failure env args t0 t1 e)"
proof -
  have "span_view content_keys (on_span (handle_exception e) t) = span_view content_keys t" for t
    by (simp add: span_view_def on_span_def handle_exception_def Let_def set_attribute_def set_status_def
        record_exception_def content_keys_def semconv)
  then show "keeps (span_view content_keys) (completion_failure env args t0 t1 e)"
    unfolding completion_failure_def
    by (intro keeps_pbind keeps_pwhen keeps_metric_step keeps_span_step) (simp_all add: span_view_def)
  show "keeps tl_events (completion_failure env args t0 t1 e)"
    unfolding completion_failure_def
    by (intro keeps_pbind keeps_pwhen keeps_metric_step keeps_events) simp
qed

definition usage_keys :: "string list" where
  "usage_keys = [GEN_AI_USAGE_INPUT_TOKENS, GEN_AI_USAGE_OUTPUT_TOKENS, GEN_AI_CLIENT_TOKEN_USAGE, GEN_AI_USAGE_COST]"

text \<open>What the attribute steps leave alone.\<close>

definition call_view :: "tele \<Rightarrow> bool \<times> pyexc list \<times> measurement list" where
  "call_view t = (sp_ended (tl_span t), sp_exceptions (tl_span t), tl_measurements t)"

lemma keeps_call_attr [keeps_intros]: "keeps call_view (span_attr k v)"
  by (simp add: span_attr_def keeps_def span_step_def call_view_def on_span_def set_attribute_def)

lemma keeps_call_common [keeps_intros]: "keeps call_view (span_step (common_span_attributes c))"
proof -
  have k: "sp_ended (set_attribute k v sp) = sp_ended sp" "sp_exceptions (set_attribute k v sp) = sp_exceptions sp"
    for k v sp by (simp_all add: set_attribute_def)
  have c: "sp_ended (common_span_attributes c sp) = sp_ended sp" "sp_exceptions (common_span_attributes c sp) = sp_exceptions sp"
    for sp by (simp_all add: common_span_attributes_def Let_def k)
  show ?thesis by (simp add: keeps_def span_step_def call_view_def on_span_def c)
qed

lemma keeps_call_status [keeps_intros]: "keeps call_view (span_step (set_status st))"
  by (simp add: keeps_def span_step_def call_view_def on_span_def set_status_def)

lemma keeps_messages:
  assumes "\<And>k v. k \<in> {GEN_AI_INPUT_MESSAGES, GEN_AI_OUTPUT_MESSAGES} \<Longrightarrow> keeps f (span_attr k v)"
    and "\<And>t l. f (t\<lparr>tl_log := l\<rparr>) = f t"
  shows "keeps f (set_span_messages_as_array env i out)"
  unfolding set_span_messages_as_array_def message_attribute_def warn_step_def Let_def case_prod_beta
  by (intro keeps_pbind keeps_ptry keeps_basic keeps_if keeps_log_step) (auto intro: assms)

lemma recorded_measurements:
  assumes "ie_metrics env = Some metrics_dict"
  shows "pwhen (\<not> ie_disable_metrics env) (metric_step env (\<lambda>m. record_completion_metrics agent m c)) t
    = (Inr (), t\<lparr>tl_measurements := tl_measurements t @ (if ie_disable_metrics env then [] else completion_measurements agent c)\<rparr>)"
  using assms by (simp add: pwhen_def metric_step_def record_completion_full)

lemma returns_unit: "returns m \<Longrightarrow> \<exists>u. m t = (Inr (), u)"
  by (erule returnsE [of m t]) simp

lemma pret_unit: "raises_only P (Pair (Inr ()))"
  by (simp add: raises_only_def)

lemma ptry_praise: "is_Exception e \<Longrightarrow> ptry (praise e) h = h e"
  by (simp add: ptry_def fun_eq_iff)


text \<open>Attribute steps on a span that is still open.\<close>

lemma sp_ended_steps:
  "sp_ended (set_attribute k v sp) = sp_ended sp" "sp_ended (set_status st sp) = sp_ended sp"
  "sp_ended (common_span_attributes c sp) = sp_ended sp"
proof -
  show a: "sp_ended (set_attribute k v sp) = sp_ended sp" for k v sp by (simp add: set_attribute_def)
  show "sp_ended (set_status st sp) = sp_ended sp" by (simp add: set_status_def)
  show "sp_ended (common_span_attributes c sp) = sp_ended sp" by (simp add: common_span_attributes_def Let_def a)
qed

lemma tl_on_span:
  "tl_span (on_span f t) = f (tl_span t)" "tl_measurements (on_span f t) = tl_measurements t"
  "tl_events (on_span f t) = tl_events t" "tl_log (on_span f t) = tl_log t"
  by (simp_all add: on_span_def)

lemma dget_set_attribute:
  "\<not> sp_ended sp \<Longrightarrow> dget (sp_attributes (set_attribute k v sp)) k' = (if k' = k then Some v else dget (sp_attributes sp) k')"
  by (simp add: set_attribute_def)

lemma pbind_span_step:
  "pbind (span_step f) g t = g () (on_span f t)" "pbind (span_attr k v) g t = g () (on_span (set_attribute k v) t)"
  by (simp_all add: span_step_def span_attr_def)

lemmas span_run = sp_ended_steps tl_on_span dget_set_attribute pbind_span_step

section \<open>The contract of a traced operation\<close>

text \<open>The environment of a call whose telemetry can only fail in ordinary ways.\<close>

definition usable :: "instr_env \<Rightarrow> bool" where
  "usable env \<longleftrightarrow> tame env \<and> (ie_metrics env = None \<or> ie_metrics env = Some metrics_dict)"

text \<open>An operation processes the response of a call and the failure of that processing.\<close>

locale traced_operation =
  fixes process :: "instr_env \<Rightarrow> call \<Rightarrow> api_result \<Rightarrow> (tele, unit) prog"
    and failure :: "instr_env \<Rightarrow> call \<Rightarrow> pyexc \<Rightarrow> (tele, unit) prog"
  assumes process_ordinary: "usable env \<Longrightarrow> raises_only is_Exception (process env c r)"
    and failure_returns: "usable env \<Longrightarrow> returns (failure env c e)"
    and process_private: "\<not> ie_capture_message_content env \<Longrightarrow>
      keeps (span_view content_keys) (process env c r) \<and> keeps tl_events (process env c r)"
    and failure_private: "keeps (span_view content_keys) (failure env c e) \<and> keeps tl_events (failure env c e)"
begin

text \<open>The caller gets what the wrapped call gives.\<close>

lemma transparent:
  assumes "usable env"
  shows "fst (guarded_call wrapped (process env c) (failure env c) t) = wrapped"
proof (cases wrapped)
  case (Inl e)
  then show ?thesis by (simp add: guarded_call_def in_current_span_fst)
next
  case (Inr r)
  have "returns (ptry (process env c r) (failure env c))"
    by (intro raises_only_ptry failure_returns [OF assms])
      (use process_ordinary [OF assms] in \<open>auto elim: raises_only_mono\<close>)
  then obtain x u where "ptry (process env c r) (failure env c) (on_span (\<lambda>_. fresh_span) t) = (Inr x, u)"
    by (rule returnsE)
  with Inr show ?thesis by (simp add: guarded_call_def in_current_span_fst pbind_def)
qed

lemma span_ended: "sp_ended (tl_span (snd (guarded_call wrapped (process env c) (failure env c) t)))"
  by (simp add: guarded_call_def in_current_span_ended)

text \<open>Without capture nothing of the content is recorded.\<close>

lemma uncaptured:
  assumes "\<not> ie_capture_message_content env"
  shows "span_view content_keys (snd (guarded_call wrapped (process env c) (failure env c) t)) = [None, None, None]"
    and "tl_events (snd (guarded_call wrapped (process env c) (failure env c) t)) = tl_events t"
  using process_private [OF assms] failure_private unfolding guarded_call_def
  by (auto intro!: in_current_span_keeps keeps_pbind keeps_ptry keeps_basic content_view_span)

text \<open>A wrapped call that raises leaves its exception on the span and nothing else.\<close>

lemma failed_call:
  assumes "is_Exception e"
  shows "\<exists>t'. guarded_call (Inl e) (process env c) (failure env c) t = (Inl e, t')
     \<and> tl_span t' = \<lparr>sp_attributes = [], sp_status = StatusError, sp_exceptions = [e], sp_events = [], sp_ended = True\<rparr>
     \<and> tl_measurements t' = tl_measurements t \<and> tl_events t' = tl_events t"
  using assms by (simp add: guarded_call_def in_current_span_def on_span_def leave_span_def end_span_def
      set_status_def record_exception_def fresh_span_def)

end

end
