(* ===== verification/OpenAIChat.thy ===== *)
theory OpenAIChat
  imports TracedCall OpenAIStream
begin

text \<open>
  Chat completions of \<open>openlit/instrumentation/openai\<close>: \<open>common_chat_logic\<close> and its two callers in
  \<open>utils.py\<close>, and the call wrapper of \<open>openai.py\<close>, over the telemetry of one call.
\<close>

section \<open>The scope common_chat_logic reads\<close>

text \<open>Optional fields are those the code tests with \<open>hasattr\<close>: a stream has no token counts.\<close>

record llm_scope =
  ls_kwargs :: "(string, pyval) dict"
  ls_start_time :: rat
  ls_timestamps :: "rat list"
  ls_ttft :: rat
  ls_tbt :: rat
  ls_llmresponse :: string
  ls_response_id :: pyval
  ls_response_model :: pyval
  ls_finish_reason :: pyval
  ls_system_fingerprint :: pyval
  ls_service_tier :: pyval
  ls_tools :: pyval
  ls_tokens :: "(pyval \<times> pyval) option"
  ls_cache_read_input_tokens :: "pyval option"
  ls_operation_responses :: bool
  ls_server_address :: pyval
  ls_server_port :: pyval

definition kwarg :: "(string, pyval) dict \<Rightarrow> string \<Rightarrow> pyval \<Rightarrow> pyval" where
  "kwarg kwargs k dflt = handle_not_given (dget_or kwargs k PNone) dflt"

definition scope_input :: "llm_scope \<Rightarrow> pyval" where
  "scope_input scope =
     (if ls_operation_responses scope then dget_or (ls_kwargs scope) ''input'' (PStr [])
      else dget_or (ls_kwargs scope) ''messages'' (PList []))"

definition scope_model :: "llm_scope \<Rightarrow> pyval" where
  "scope_model scope = dget_or (ls_kwargs scope) ''model'' (PStr ''gpt-4o'')"

text \<open>The reported token counts, or half the characters of the prompt and of the response.\<close>

definition chat_tokens :: "string \<Rightarrow> llm_scope \<Rightarrow> pyval \<times> pyval" where
  "chat_tokens prompt scope =
     (case ls_tokens scope of
        Some (input_tokens, output_tokens) \<Rightarrow>
          (if py_truth input_tokens then (input_tokens, output_tokens)
           else (PInt (general_tokens prompt), PInt (general_tokens (ls_llmresponse scope))))
      | None \<Rightarrow> (PInt (general_tokens prompt), PInt (general_tokens (ls_llmresponse scope))))"

definition scope_tbt :: "llm_scope \<Rightarrow> rat" where
  "scope_tbt scope = (if length (ls_timestamps scope) > 1 then calculate_tbt (ls_timestamps scope) else ls_tbt scope)"

section \<open>Span attributes\<close>

definition chat_common_span :: "instr_env \<Rightarrow> bool \<Rightarrow> llm_scope \<Rightarrow> common_span" where
  "chat_common_span env is_stream scope =
     \<lparr>cs_operation = GEN_AI_OPERATION_TYPE_CHAT, cs_provider = GEN_AI_SYSTEM_OPENAI,
      cs_server_address = ls_server_address scope, cs_server_port = ls_server_port scope,
      cs_request_model = scope_model scope, cs_response_model = ls_response_model scope,
      cs_environment = ie_environment env, cs_application_name = ie_application_name env,
      cs_is_stream = is_stream, cs_tbt = scope_tbt scope, cs_ttft = ls_ttft scope, cs_version = ie_version env\<rparr>"

text \<open>\<open>int(seed) if seed else 0\<close>.\<close>

definition seed_value :: "(string, pyval) dict \<Rightarrow> pyval res" where
  "seed_value kwargs =
     (let seed = kwarg kwargs ''seed'' PNone in
      if py_truth seed then res_bind (py_int seed) (\<lambda>n. Inr (PInt n)) else Inr (PInt 0))"

definition chat_request_attributes :: "(string, pyval) dict \<Rightarrow> (tele, unit) prog" where
  "chat_request_attributes kwargs =
     pbind (span_attr OPENAI_API_TYPE (PStr ''chat_completions'')) (\<lambda>_.
     pbind (plift (seed_value kwargs)) (\<lambda>seed.
     pbind (span_attr GEN_AI_REQUEST_SEED seed) (\<lambda>_.
     pbind (span_attr GEN_AI_REQUEST_FREQUENCY_PENALTY (kwarg kwargs ''frequency_penalty'' (PFloat 0))) (\<lambda>_.
     pbind (span_attr GEN_AI_REQUEST_MAX_TOKENS (kwarg kwargs ''max_tokens'' (PInt (-1)))) (\<lambda>_.
     pbind (span_attr GEN_AI_REQUEST_PRESENCE_PENALTY (kwarg kwargs ''presence_penalty'' (PFloat 0))) (\<lambda>_.
     pbind (span_attr GEN_AI_REQUEST_STOP_SEQUENCES (kwarg kwargs ''stop'' (PList []))) (\<lambda>_.
     pbind (span_attr GEN_AI_REQUEST_TEMPERATURE (kwarg kwargs ''temperature'' (PFloat 1))) (\<lambda>_.
     pbind (span_attr GEN_AI_REQUEST_TOP_P (kwarg kwargs ''top_p'' (PFloat 1))) (\<lambda>_.
     span_attr GEN_AI_REQUEST_USER (kwarg kwargs ''user'' (PStr [])))))))))))"

definition chat_response_attributes :: "llm_scope \<Rightarrow> (tele, unit) prog" where
  "chat_response_attributes scope =
     pbind (pwhen (py_truth (ls_response_id scope)) (span_attr GEN_AI_RESPONSE_ID (ls_response_id scope))) (\<lambda>_.
     pbind (span_attr GEN_AI_RESPONSE_FINISH_REASON (PList [ls_finish_reason scope])) (\<lambda>_.
     span_attr GEN_AI_OUTPUT_TYPE (PStr ''text'')))"

definition chat_openai_attributes :: "instr_env \<Rightarrow> llm_scope \<Rightarrow> (tele, unit) prog" where
  "chat_openai_attributes env scope =
     (let kwargs = ls_kwargs scope; repr = ie_repr env;
          req_tier = kwarg kwargs ''service_tier'' PNone;
          n_choices = kwarg kwargs ''n'' (PInt 1)
      in pbind (pwhen (py_truth (ls_system_fingerprint scope))
           (span_attr GEN_AI_RESPONSE_SYSTEM_FINGERPRINT (ls_system_fingerprint scope))) (\<lambda>_.
         pbind (pwhen (py_truth (ls_service_tier scope))
           (span_attr OPENAI_RESPONSE_SERVICE_TIER (ls_service_tier scope))) (\<lambda>_.
         pbind (pwhen (py_truth req_tier \<and> py_str repr req_tier \<noteq> ''auto'')
           (span_attr OPENAI_REQUEST_SERVICE_TIER (PStr (py_str repr req_tier)))) (\<lambda>_.
         pwhen (\<not> equals_one n_choices)
           (pbind (plift (py_int n_choices)) (\<lambda>n. span_attr GEN_AI_REQUEST_CHOICE_COUNT (PInt n)))))))"

text \<open>Name, id and arguments of every tool call that is a non-empty dict.\<close>

definition tool_row :: "(pyval \<Rightarrow> string) \<Rightarrow> pyval \<Rightarrow> (pyval \<times> string \<times> string) res" where
  "tool_row repr t =
     res_bind (py_get t ''function'' (PDict [])) (\<lambda>f.
     res_bind (py_get f ''name'' (PStr [])) (\<lambda>n.
     res_bind (py_get t ''id'' (PStr [])) (\<lambda>i.
     res_bind (py_get f ''arguments'' (PStr [])) (\<lambda>a.
       Inr (n, py_str repr i, py_str repr a)))))"

definition is_filled_dict :: "pyval \<Rightarrow> bool" where
  "is_filled_dict t \<longleftrightarrow> (case t of PDict d \<Rightarrow> d \<noteq> [] | _ \<Rightarrow> False)"

definition nonempty_join :: "string list \<Rightarrow> string" where
  "nonempty_join ss = py_join '', '' (filter (\<lambda>s. s \<noteq> []) ss)"

text \<open>Unpacking \<open>zip(*rows)\<close> into three names raises when there are no rows.\<close>

definition chat_tool_attributes :: "instr_env \<Rightarrow> llm_scope \<Rightarrow> (tele, unit) prog" where
  "chat_tool_attributes env scope =
     pwhen (py_truth (ls_tools scope))
       (let tools = (case ls_tools scope of PList ts \<Rightarrow> ts | v \<Rightarrow> [v]) in
        pbind (plift (res_map (tool_row (ie_repr env)) (filter is_filled_dict tools))) (\<lambda>rows.
        if rows = [] then praise (PyExc ValueError ''not enough values to unpack (expected 3, got 0)'')
        else
          pbind (plift (join_values '', '' (filter py_truth (map fst rows)))) (\<lambda>names.
          pbind (span_attr GEN_AI_TOOL_NAME (PStr names)) (\<lambda>_.
          pbind (span_attr GEN_AI_TOOL_CALL_ID (PStr (nonempty_join (map (fst \<circ> snd) rows)))) (\<lambda>_.
          span_attr GEN_AI_TOOL_ARGS (PStr (nonempty_join (map (snd \<circ> snd) rows))))))))"

definition chat_usage_attributes :: "llm_scope \<Rightarrow> pyval \<times> pyval \<Rightarrow> pyval \<Rightarrow> (tele, unit) prog" where
  "chat_usage_attributes scope tokens cost =
     pbind (span_attr GEN_AI_USAGE_INPUT_TOKENS (fst tokens)) (\<lambda>_.
     pbind (span_attr GEN_AI_USAGE_OUTPUT_TOKENS (snd tokens)) (\<lambda>_.
     pbind (plift (py_add (fst tokens) (snd tokens))) (\<lambda>total.
     pbind (span_attr GEN_AI_CLIENT_TOKEN_USAGE total) (\<lambda>_.
     pbind (span_attr GEN_AI_USAGE_COST cost) (\<lambda>_.
     case ls_cache_read_input_tokens scope of
       None \<Rightarrow> pret ()
     | Some n \<Rightarrow> span_attr GEN_AI_USAGE_CACHE_READ_INPUT_TOKENS n)))))"

section \<open>Content and event\<close>

text \<open>The dict \<open>extra\<close>; nothing in the OpenAI instrumentation sets a cache creation count.\<close>

definition chat_event_extra :: "llm_scope \<Rightarrow> pyval \<times> pyval \<Rightarrow> pyval list option \<Rightarrow> (string \<times> pyval) list res" where
  "chat_event_extra scope tokens system_instr =
     (let kwargs = ls_kwargs scope; seed = kwarg kwargs ''seed'' PNone in
      res_bind (if py_truth seed then res_bind (py_int seed) (\<lambda>n. Inr (PInt n)) else Inr PNone) (\<lambda>seed.
      Inr ([(''response_id'', ls_response_id scope),
        (''finish_reasons'', PList [ls_finish_reason scope]),
        (''output_type'', PStr ''text''),
        (''temperature'', kwarg kwargs ''temperature'' (PFloat 1)),
        (''max_tokens'', kwarg kwargs ''max_tokens'' (PInt (-1))),
        (''top_p'', kwarg kwargs ''top_p'' (PFloat 1)),
        (''frequency_penalty'', kwarg kwargs ''frequency_penalty'' (PFloat 0)),
        (''presence_penalty'', kwarg kwargs ''presence_penalty'' (PFloat 0)),
        (''stop_sequences'', kwarg kwargs ''stop'' (PList [])),
        (''seed'', seed),
        (''choice_count'', dget_or kwargs ''n'' (PInt 1)),
        (''input_tokens'', fst tokens),
        (''output_tokens'', snd tokens),
        (''cache_read_input_tokens'', case ls_cache_read_input_tokens scope of None \<Rightarrow> PInt 0 | Some n \<Rightarrow> n),
        (''cache_creation_input_tokens'', PInt 0)]
       @ (case system_instr of None \<Rightarrow> [] | Some l \<Rightarrow> [(''system_instructions'', PList l)]))))"

definition chat_emit ::
  "instr_env \<Rightarrow> llm_scope \<Rightarrow> pyval \<times> pyval \<Rightarrow> pyval \<Rightarrow> pyval \<Rightarrow> pyval list option \<Rightarrow> (tele, unit) prog" where
  "chat_emit env scope tokens input_msgs output_msgs system_instr =
     ptry
       (pbind (log_step (build_tool_definitions (dget_or (ls_kwargs scope) ''tools'' PNone))) (\<lambda>tool_defs.
        pbind (plift (chat_event_extra scope tokens system_instr)) (\<lambda>extra.
        emit_inference_event env
          \<lparr>if_operation_name = GEN_AI_OPERATION_TYPE_CHAT, if_request_model = scope_model scope,
           if_response_model = ls_response_model scope, if_input_messages = input_msgs, if_output_messages = output_msgs,
           if_tool_definitions = (case tool_defs of None \<Rightarrow> PNone | Some l \<Rightarrow> PList l),
           if_server_address = ls_server_address scope, if_server_port = ls_server_port scope\<rparr> extra)))
       (warn_step ''Failed to emit inference event: %s'')"

definition chat_content :: "instr_env \<Rightarrow> llm_scope \<Rightarrow> pyval \<times> pyval \<Rightarrow> (tele, unit) prog" where
  "chat_content env scope tokens =
     pbind (log_step (build_input_messages (ie_repr env) (scope_input scope))) (\<lambda>input_msgs.
     pbind (log_step (build_output_messages (ie_json_loads env) (PStr (ls_llmresponse scope)) (ls_finish_reason scope)
              (ls_tools scope))) (\<lambda>output_msgs.
     pbind (set_span_messages_as_array env (PList input_msgs) (PList output_msgs)) (\<lambda>msgs.
     pbind (plift (build_system_instructions_from_messages (ie_repr env)
              (dget_or (ls_kwargs scope) ''messages'' (PList [])))) (\<lambda>system_instr.
     pbind (case system_instr of
         None \<Rightarrow> pret ()
       | Some l \<Rightarrow> pbind (plift (ie_json_dumps env (PList l))) (\<lambda>s. span_attr GEN_AI_SYSTEM_INSTRUCTIONS (PStr s))) (\<lambda>_.
     pwhen (ie_event_provider env) (chat_emit env scope tokens (fst msgs) (snd msgs) system_instr))))))"

section \<open>Metrics\<close>

text \<open>The recorders count tokens in integers, which is what the client library reports.\<close>

definition chat_metric_args :: "instr_env \<Rightarrow> pyval \<Rightarrow> pyval \<Rightarrow> pyval \<Rightarrow> pyval \<Rightarrow> metric_args" where
  "chat_metric_args env server_address server_port request_model response_model =
     \<lparr>ma_service_name = ie_application_name env, ma_environment = ie_environment env,
      ma_operation = GEN_AI_OPERATION_TYPE_CHAT, ma_system = GEN_AI_SYSTEM_OPENAI, ma_request_model = request_model,
      ma_server_address = server_address, ma_server_port = server_port, ma_response_model = response_model\<rparr>"

definition chat_completion :: "instr_env \<Rightarrow> bool \<Rightarrow> rat \<Rightarrow> llm_scope \<Rightarrow> pyval \<times> pyval \<Rightarrow> pyval \<Rightarrow> completion" where
  "chat_completion env is_stream end_time scope tokens cost =
     \<lparr>co_args = chat_metric_args env (ls_server_address scope) (ls_server_port scope) (scope_model scope)
        (ls_response_model scope),
      co_start_time = ls_start_time scope, co_end_time = end_time,
      co_input_tokens = as_int (fst tokens), co_output_tokens = as_int (snd tokens), co_cost = cost,
      co_tbt = Some (scope_tbt scope), co_ttft = Some (ls_ttft scope), co_error_type = None, co_is_stream = is_stream,
      co_time_per_chunk = (if length (ls_timestamps scope) > 1 then Some (time_diffs (ls_timestamps scope)) else None)\<rparr>"

section \<open>The logic\<close>

text \<open>\<open>end_time\<close> is the clock at the start of the function.\<close>

definition common_chat_logic :: "instr_env \<Rightarrow> bool \<Rightarrow> rat \<Rightarrow> llm_scope \<Rightarrow> (tele, unit) prog" where
  "common_chat_logic env is_stream end_time scope =
     pbind (plift (format_content (ie_repr env) (scope_input scope))) (\<lambda>prompt.
     let tokens = chat_tokens prompt scope;
         cost = get_chat_model_cost (scope_model scope) (ie_pricing_info env) (fst tokens) (snd tokens)
     in pbind (span_step (common_span_attributes (chat_common_span env is_stream scope))) (\<lambda>_.
        pbind (chat_request_attributes (ls_kwargs scope)) (\<lambda>_.
        pbind (chat_response_attributes scope) (\<lambda>_.
        pbind (chat_openai_attributes env scope) (\<lambda>_.
        pbind (chat_tool_attributes env scope) (\<lambda>_.
        pbind (chat_usage_attributes scope tokens cost) (\<lambda>_.
        pbind (pwhen (ie_capture_message_content env) (chat_content env scope tokens)) (\<lambda>_.
        pbind (span_step (set_status StatusOk)) (\<lambda>_.
        pwhen (\<not> ie_disable_metrics env)
          (metric_step env (\<lambda>m. record_completion_metrics (ie_agent_name env) m
             (chat_completion env is_stream end_time scope tokens cost))))))))))))"

definition stream_scope :: "(string, pyval) dict \<Rightarrow> pyval \<Rightarrow> pyval \<Rightarrow> chat_scope \<Rightarrow> llm_scope" where
  "stream_scope kwargs server_address server_port s =
     \<lparr>ls_kwargs = kwargs, ls_start_time = sc_start_time s, ls_timestamps = sc_timestamps s, ls_ttft = sc_ttft s, ls_tbt = 0,
      ls_llmresponse = sc_llmresponse s, ls_response_id = sc_response_id s, ls_response_model = sc_response_model s,
      ls_finish_reason = sc_finish_reason s, ls_system_fingerprint = sc_system_fingerprint s,
      ls_service_tier = sc_service_tier s, ls_tools = sc_tools s, ls_tokens = None, ls_cache_read_input_tokens = None,
      ls_operation_responses = False, ls_server_address = server_address, ls_server_port = server_port\<rparr>"

text \<open>The end-of-stream processing of the stream wrapper.\<close>

definition process_streaming_chat_response ::
  "instr_env \<Rightarrow> (string, pyval) dict \<Rightarrow> pyval \<Rightarrow> pyval \<Rightarrow> rat \<Rightarrow> (chat_scope \<times> tele, unit) prog" where
  "process_streaming_chat_response env kwargs server_address server_port end_time st =
     (case common_chat_logic env True end_time (stream_scope kwargs server_address server_port (fst st)) (snd st) of
        (r, t) \<Rightarrow> (r, (fst st, t)))"

section \<open>Responses\<close>

text \<open>\<open>" ".join((choice.get("message", {}).get("content") or "") for choice in choices)\<close>.\<close>

definition response_text :: "pyval \<Rightarrow> string res" where
  "response_text response_dict =
     res_bind (py_get response_dict ''choices'' (PList [])) (\<lambda>choices.
     res_bind (py_iter choices) (\<lambda>cs.
     res_bind (res_map (\<lambda>c. res_bind (py_get c ''message'' (PDict [])) (\<lambda>m.
        res_bind (py_get m ''content'' PNone) (\<lambda>v. Inr (py_or v (PStr []))))) cs) (join_values '' '')))"

definition response_finish_reason :: "(pyval \<Rightarrow> string) \<Rightarrow> pyval \<Rightarrow> pyval res" where
  "response_finish_reason repr response_dict =
     res_bind (py_get response_dict ''choices'' PNone) (\<lambda>choices.
     if py_truth choices then
       res_bind (py_index choices (PInt 0)) (\<lambda>c.
       res_bind (py_get c ''finish_reason'' (PStr [])) (\<lambda>r. Inr (PStr (py_str repr r))))
     else Inr (PStr []))"

definition response_tools :: "(string, pyval) dict \<Rightarrow> pyval \<Rightarrow> pyval res" where
  "response_tools kwargs response_dict =
     (if py_truth (dget_or kwargs ''tools'' PNone) then
        res_bind (py_get response_dict ''choices'' (PList [PDict []])) (\<lambda>choices.
        res_bind (py_index choices (PInt 0)) (\<lambda>c.
        res_bind (py_get c ''message'' (PDict [])) (\<lambda>m. py_get m ''tool_calls'' PNone)))
      else Inr PNone)"

definition response_scope_of ::
  "instr_env \<Rightarrow> pyval \<Rightarrow> pyval \<Rightarrow> pyval \<Rightarrow> rat \<Rightarrow> rat \<Rightarrow> (string, pyval) dict \<Rightarrow> llm_scope res" where
  "response_scope_of env response_dict server_address server_port start_time end_time kwargs =
     res_bind (response_text response_dict) (\<lambda>text.
     res_bind (py_get response_dict ''id'' (PStr [])) (\<lambda>i.
     res_bind (py_get response_dict ''model'' (PStr [])) (\<lambda>m.
     res_bind (py_get response_dict ''usage'' (PDict [])) (\<lambda>usage.
     res_bind (py_get usage ''prompt_tokens'' (PInt 0)) (\<lambda>input_tokens.
     res_bind (py_get usage ''completion_tokens'' (PInt 0)) (\<lambda>output_tokens.
     res_bind (py_get usage ''prompt_tokens_details'' (PDict [])) (\<lambda>details.
     res_bind (py_get details ''cached_tokens'' (PInt 0)) (\<lambda>cached.
     res_bind (py_get response_dict ''system_fingerprint'' (PStr [])) (\<lambda>fingerprint.
     res_bind (py_get response_dict ''service_tier'' (PStr ''auto'')) (\<lambda>tier.
     res_bind (response_finish_reason (ie_repr env) response_dict) (\<lambda>reason.
     res_bind (response_tools kwargs response_dict) (\<lambda>tools.
     Inr \<lparr>ls_kwargs = kwargs, ls_start_time = start_time, ls_timestamps = [], ls_ttft = end_time - start_time, ls_tbt = 0,
       ls_llmresponse = text, ls_response_id = i, ls_response_model = m, ls_finish_reason = reason,
       ls_system_fingerprint = fingerprint, ls_service_tier = tier, ls_tools = tools,
       ls_tokens = Some (input_tokens, output_tokens), ls_cache_read_input_tokens = Some cached,
       ls_operation_responses = (dget_or kwargs ''_operation_type'' PNone = PStr ''responses''),
       ls_server_address = server_address, ls_server_port = server_port\<rparr>))))))))))))"

text \<open>The response is handed back; \<open>end_time\<close> and \<open>end_time'\<close> are the two readings of the clock.\<close>

definition process_chat_response ::
  "instr_env \<Rightarrow> pyval \<Rightarrow> pyval \<Rightarrow> pyval \<Rightarrow> rat \<Rightarrow> rat \<Rightarrow> rat \<Rightarrow> (string, pyval) dict \<Rightarrow> (tele, pyval) prog" where
  "process_chat_response env response server_address server_port start_time end_time end_time' kwargs =
     pbind (plift (response_scope_of env (response_as_dict response) server_address server_port start_time end_time kwargs)) (\<lambda>scope.
     pbind (common_chat_logic env False end_time' scope) (\<lambda>_. pret response))"

section \<open>The call wrapper\<close>

record 's traced_stream =
  ts_stream :: "'s stream"
  ts_kwargs :: "(string, pyval) dict"
  ts_server_address :: pyval
  ts_server_port :: pyval

text \<open>What the wrapper gives: the result, or a traced stream of it.\<close>

datatype 's reply = Plain api_result | Traced "'s traced_stream"

text \<open>The processing of a completion and of its failure, over the call.\<close>

definition chat_process :: "instr_env \<Rightarrow> call \<Rightarrow> api_result \<Rightarrow> (tele, unit) prog" where
  "chat_process env c r =
     (let ck = ca_clock c in
      pbind (process_chat_response env (api_object r) (ca_server_address c) (ca_server_port c)
        (ck_start ck) (ck_end ck) (ck_logic ck) (ca_kwargs c)) (\<lambda>_. pret ()))"

definition call_failure :: "instr_env \<Rightarrow> pyval \<Rightarrow> pyval \<Rightarrow> call \<Rightarrow> pyexc \<Rightarrow> (tele, unit) prog" where
  "call_failure env request_model response_model c =
     completion_failure env (chat_metric_args env (ca_server_address c) (ca_server_port c) request_model response_model)
       (ck_start (ca_clock c)) (ck_failure (ca_clock c))"

definition chat_failure :: "instr_env \<Rightarrow> call \<Rightarrow> pyexc \<Rightarrow> (tele, unit) prog" where
  "chat_failure env c =
     call_failure env (dget_or (ca_kwargs c) ''model'' (PStr ''gpt-4o'')) (dget_or (ca_kwargs c) ''model'' (PStr ''unknown'')) c"

definition chat_completions ::
  "instr_env \<Rightarrow> bool \<Rightarrow> pyval \<Rightarrow> api_result res \<Rightarrow> (string, pyval) dict \<Rightarrow> clock \<Rightarrow> (tele, chat_scope reply) prog" where
  "chat_completions env framework_llm_active client wrapped kwargs ck =
     (if framework_llm_active then pbind (plift wrapped) (\<lambda>r. pret (Plain r))
      else
        pbind (plift (set_server_address_and_port client ''api.openai.com'' 443)) (\<lambda>(server_address, server_port).
        if py_truth (dget_or kwargs ''stream'' (PBool False)) then
          pbind (plift wrapped) (\<lambda>r.
          pbind (pgets (\<lambda>t. on_span (\<lambda>_. fresh_span) t)) (\<lambda>t.
          pret (Traced \<lparr>ts_stream = \<lparr>st_wrapped = api_items r, st_scope = initial_chat_scope (ck_start ck), st_tele = t,
              st_finished = 0\<rparr>,
            ts_kwargs = kwargs, ts_server_address = server_address, ts_server_port = server_port\<rparr>)))
        else
          let c = \<lparr>ca_kwargs = kwargs, ca_server_address = server_address, ca_server_port = server_port, ca_clock = ck\<rparr>
          in pbind (guarded_call wrapped (chat_process env c) (chat_failure env c)) (\<lambda>r. pret (Plain r))))"

text \<open>\<open>chat.completions.parse\<close>: no framework test, no streaming, and another response model on failure.\<close>

definition parse_failure :: "instr_env \<Rightarrow> call \<Rightarrow> pyexc \<Rightarrow> (tele, unit) prog" where
  "parse_failure env c =
     call_failure env (dget_or (ca_kwargs c) ''model'' (PStr ''gpt-4o'')) (PStr ''unknown'') c"

definition chat_completions_parse ::
  "instr_env \<Rightarrow> pyval \<Rightarrow> api_result res \<Rightarrow> (string, pyval) dict \<Rightarrow> clock \<Rightarrow> (tele, api_result) prog" where
  "chat_completions_parse env client wrapped kwargs ck =
     pbind (plift (set_server_address_and_port client ''api.openai.com'' 443)) (\<lambda>(server_address, server_port).
     let c = \<lparr>ca_kwargs = kwargs, ca_server_address = server_address, ca_server_port = server_port, ca_clock = ck\<rparr>
     in guarded_call wrapped (chat_process env c) (parse_failure env c))"

text \<open>The end-of-stream processing bound to the call the stream was opened by.\<close>

definition traced_finish :: "instr_env \<Rightarrow> chat_scope traced_stream \<Rightarrow> rat \<Rightarrow> (chat_scope \<times> tele, unit) prog" where
  "traced_finish env ts end_time =
     process_streaming_chat_response env (ts_kwargs ts) (ts_server_address ts) (ts_server_port ts) end_time"

end
