(* ===== verification/OpenAIChatProps.thy ===== *)
theory OpenAIChatProps
  imports OpenAIChat OpenAIProps
begin

text \<open>
  What a traced chat completion promises: the caller gets what the wrapped call gives, the telemetry is
  that of the response, nothing of the conversation is recorded when capture is off; and the responses
  on which the processing fails.
\<close>

section \<open>Only ordinary exceptions\<close>

lemma ordinary_format_item [ordinary_intros]: "ordinary (format_item repr item)"
  unfolding format_item_def text_item_def image_item_url_def
  by (rule ordinary_intros | simp)+

lemma ordinary_format_content [ordinary_intros]: "ordinary (format_content repr messages)"
  unfolding format_content_def format_message_def Let_def case_prod_beta
  by (rule ordinary_intros | simp)+

lemma ordinary_tool_row [ordinary_intros]: "ordinary (tool_row repr t)"
  unfolding tool_row_def by (rule ordinary_intros | simp)+

lemma ordinary_seed [ordinary_intros]: "ordinary (seed_value kwargs)"
  unfolding seed_value_def Let_def by (rule ordinary_intros | simp)+

lemma ordinary_extra [ordinary_intros]: "ordinary (chat_event_extra scope tokens system_instr)"
  unfolding chat_event_extra_def Let_def by (rule ordinary_intros | simp)+

lemma ordinary_system_instructions [ordinary_intros]: "ordinary (build_system_instructions_from_messages repr ms)"
  unfolding build_system_instructions_from_messages_def Let_def by (rule ordinary_intros | simp)+

lemma ordinary_scope_of [ordinary_intros]:
  "ordinary (response_scope_of env d a p t0 t1 kwargs)"
  unfolding response_scope_of_def response_text_def response_finish_reason_def response_tools_def
  by (rule ordinary_intros | simp)+

lemma returns_input_messages_loop [raises_intros]: "raises_only P (input_messages_loop repr ms acc)"
  by (induction ms arbitrary: acc)
    (auto simp: raises_only_basic log_warning_def split: sum.split option.split intro!: raises_only_pbind)

lemma raises_input_messages [raises_intros]: "raises_only is_Exception (build_input_messages repr ms)"
proof -
  have "raises_only is_Exception (plift (py_iter ms) :: pyval list logged)" by (rule raises_intros ordinary_intros)+
  then show ?thesis
    unfolding build_input_messages_def
    by (auto split: pyval.split intro!: raises_intros)
qed

lemma returns_output_messages [raises_intros]:
  assumes "\<And>s. ordinary (loads s)"
  shows "raises_only P (build_output_messages loads txt reason tcs)"
proof -
  have call: "ordinary (output_tool_call loads tc)" for tc
    using assms unfolding output_tool_call_def parse_tool_args_def
    by (auto simp: ordinary_def split: pyval.splits sum.splits)
  have "ordinary (otel_finish_reason reason)" by (simp add: otel_finish_reason_def ordinary_def)
  moreover have "ordinary (case tcs of PList tcs \<Rightarrow> res_map (output_tool_call loads) tcs | _ \<Rightarrow> Inr [])"
    by (rule ordinary_intros call | simp)+
  ultimately show ?thesis
    unfolding build_output_messages_def
    by (auto simp: ordinary_def intro!: raises_intros)
qed

lemma returns_tool_definitions [raises_intros]: "raises_only P (build_tool_definitions tools)"
proof -
  have loop: "raises_only Q (tool_definitions_loop ts acc)" for Q ts acc
    by (induction ts arbitrary: acc)
      (auto simp: raises_only_basic log_warning_def split: sum.split option.split intro!: raises_only_pbind)
  have "ordinary (py_iter tools)" by (rule ordinary_intros)
  then show ?thesis
    unfolding build_tool_definitions_def
    by (auto simp: ordinary_def intro!: raises_intros loop)
qed

lemma returns_chat_emit [raises_intros]:
  assumes "tame env"
  shows "raises_only P (chat_emit env scope tokens i out instr)"
  using ordinary_extra [of scope tokens instr] unfolding chat_emit_def ordinary_def
  by (auto intro!: raises_intros assms)

lemma raises_chat_content [raises_intros]:
  assumes "tame env"
  shows "raises_only is_Exception (chat_content env scope tokens)"
  unfolding chat_content_def
  by (rule raises_intros ordinary_intros tameD [OF assms] assms | simp)+

lemma raises_chat_attributes [raises_intros]:
  "raises_only is_Exception (chat_request_attributes kwargs)"
  "raises_only is_Exception (chat_response_attributes scope)"
  "raises_only is_Exception (chat_openai_attributes env scope)"
  "raises_only is_Exception (chat_tool_attributes env scope)"
  "raises_only is_Exception (chat_usage_attributes scope tokens cost)"
  unfolding chat_request_attributes_def chat_response_attributes_def chat_openai_attributes_def
    chat_tool_attributes_def chat_usage_attributes_def Let_def
  by (rule raises_intros ordinary_intros | simp)+

lemma raises_chat_logic [raises_intros]:
  assumes "tame env" and "ie_metrics env = None \<or> ie_metrics env = Some metrics_dict"
  shows "raises_only is_Exception (common_chat_logic env is_stream end_time scope)"
  unfolding common_chat_logic_def Let_def
  by (rule raises_intros ordinary_intros raises_metric_step [OF assms(2)] assms(1))+

lemma raises_process_chat [raises_intros]:
  assumes "tame env" and "ie_metrics env = None \<or> ie_metrics env = Some metrics_dict"
  shows "raises_only is_Exception (process_chat_response env r a p t0 t1 t2 kwargs)"
  unfolding process_chat_response_def
  by (rule raises_intros ordinary_intros assms)+

section \<open>Captured content\<close>

lemma keeps_view_of_attributes:
  "keeps (span_view content_keys) (chat_request_attributes kwargs)"
  "keeps (span_view content_keys) (chat_response_attributes scope)"
  "keeps (span_view content_keys) (chat_openai_attributes env scope)"
  "keeps (span_view content_keys) (chat_tool_attributes env scope)"
  "keeps (span_view content_keys) (chat_usage_attributes scope tokens cost)"
  unfolding chat_request_attributes_def chat_response_attributes_def chat_openai_attributes_def
    chat_tool_attributes_def chat_usage_attributes_def Let_def
  by (rule keeps_intros | (simp add: content_keys_def semconv; fail))+

lemma keeps_events_of_attributes:
  "keeps tl_events (chat_request_attributes kwargs)"
  "keeps tl_events (chat_response_attributes scope)"
  "keeps tl_events (chat_openai_attributes env scope)"
  "keeps tl_events (chat_tool_attributes env scope)"
  "keeps tl_events (chat_usage_attributes scope tokens cost)"
  unfolding chat_request_attributes_def chat_response_attributes_def chat_openai_attributes_def
    chat_tool_attributes_def chat_usage_attributes_def Let_def
  by (rule keeps_events keeps_intros)+

lemma keeps_logic_uncaptured:
  assumes "\<not> ie_capture_message_content env"
  shows "keeps (span_view content_keys) (common_chat_logic env is_stream end_time scope)"
    and "keeps tl_events (common_chat_logic env is_stream end_time scope)"
  unfolding common_chat_logic_def Let_def
  using assms
  by (auto intro!: keeps_pbind keeps_basic keeps_pwhen keeps_metric_step keeps_view_other keeps_view_of_attributes
      keeps_events keeps_events_of_attributes content_keys_fresh simp: span_view_def)

lemma keeps_process_chat:
  assumes "\<And>st t s. keeps f (common_chat_logic env st t s)"
  shows "keeps f (chat_process env c r)"
  unfolding chat_process_def process_chat_response_def Let_def by (rule keeps_intros assms)+

lemma call_failure_laws:
  "usable env \<Longrightarrow> returns (call_failure env rq rs c e)"
  "keeps (span_view content_keys) (call_failure env rq rs c e)" "keeps tl_events (call_failure env rq rs c e)"
  by (simp_all add: call_failure_def usable_def returns_completion_failure keeps_completion_failure)

lemma raises_chat_process: "usable env \<Longrightarrow> raises_only is_Exception (chat_process env c r)"
  unfolding chat_process_def Let_def usable_def by (elim conjE) (rule raises_intros | assumption)+

interpretation chat: traced_operation chat_process chat_failure
  by unfold_locales
    (simp_all add: raises_chat_process chat_failure_def call_failure_laws keeps_process_chat keeps_logic_uncaptured)

interpretation parse: traced_operation chat_process parse_failure
  by unfold_locales
    (simp_all add: raises_chat_process parse_failure_def call_failure_laws keeps_process_chat keeps_logic_uncaptured)

text \<open>What a completion that does not stream comes to.\<close>

lemma chat_completions_plain:
  assumes "set_server_address_and_port client ''api.openai.com'' 443 = Inr (a, p)"
    and "\<not> py_truth (dget_or kwargs ''stream'' (PBool False))"
    and "c = \<lparr>ca_kwargs = kwargs, ca_server_address = a, ca_server_port = p, ca_clock = ck\<rparr>"
  shows "chat_completions env False client wrapped kwargs ck t
     = (case guarded_call wrapped (chat_process env c) (chat_failure env c) t of (r, t') \<Rightarrow> (map_sum id Plain r, t'))"
  using assms by (auto simp: chat_completions_def Let_def pbind_def split: prod.split sum.split)

section \<open>Transparency\<close>



text \<open>When the wrapped call itself raises, the exception is on the span, which is marked as failed, but no
  metric and no error type is recorded.\<close>

theorem failed_call_unmeasured:
  assumes "set_server_address_and_port client ''api.openai.com'' 443 = Inr (a, p)" and "is_Exception e"
    and "\<not> py_truth (dget_or kwargs ''stream'' (PBool False))"
  shows "\<exists>t'. chat_completions env False client (Inl e) kwargs ck t = (Inl e, t')
     \<and> tl_span t' = \<lparr>sp_attributes = [], sp_status = StatusError, sp_exceptions = [e], sp_events = [], sp_ended = True\<rparr>
     \<and> tl_measurements t' = tl_measurements t \<and> tl_events t' = tl_events t"
  using chat.failed_call [OF assms(2), of env "\<lparr>ca_kwargs = kwargs, ca_server_address = a, ca_server_port = p, ca_clock = ck\<rparr>" t]
  by (auto simp: chat_completions_plain [OF assms(1,3) refl])

theorem failed_call_unmeasured_witness:
  "\<exists>t'. chat_completions sample_env False PNone (Inl (PyExc ValueError ''bad'')) [] sample_clock fresh_tele
       = (Inl (PyExc ValueError ''bad''), t') \<and> tl_measurements t' = []"
  using failed_call_unmeasured [OF sample_address, of "PyExc ValueError ''bad''" "[]" sample_env sample_clock fresh_tele]
  by (auto simp: fresh_tele_def)



section \<open>A successful completion\<close>

lemma keeps_call_attributes:
  "keeps call_view (chat_request_attributes kwargs)" "keeps call_view (chat_response_attributes scope)"
  "keeps call_view (chat_openai_attributes env scope)" "keeps call_view (chat_tool_attributes env scope)"
  unfolding chat_request_attributes_def chat_response_attributes_def chat_openai_attributes_def
    chat_tool_attributes_def Let_def
  by (rule keeps_intros)+

lemma keeps_chat_content:
  assumes "\<And>k v. k \<in> set content_keys \<Longrightarrow> keeps f (span_attr k v)"
    and "\<And>t l. f (t\<lparr>tl_log := l\<rparr>) = f t" and "\<And>t l. f (t\<lparr>tl_events := l\<rparr>) = f t"
  shows "keeps f (chat_content env scope tokens)"
  unfolding chat_content_def chat_emit_def emit_inference_event_def warn_step_def
  by (intro keeps_pbind keeps_ptry keeps_basic keeps_if keeps_log_step keeps_option keeps_pwhen keeps_messages keeps_emit_step)
    (auto intro: assms simp: content_keys_def)

lemma usage_attributes:
  assumes "\<not> sp_ended (tl_span t)" and "py_add (fst tokens) (snd tokens) = Inr n"
  shows "\<exists>t'. chat_usage_attributes scope tokens cost t = (Inr (), t')
     \<and> span_view usage_keys t' = [Some (fst tokens), Some (snd tokens), Some n, Some cost] \<and> call_view t' = call_view t"
proof -
  have "keeps call_view (chat_usage_attributes scope tokens cost)"
    unfolding chat_usage_attributes_def by (rule keeps_intros)+
  moreover have "\<exists>t'. chat_usage_attributes scope tokens cost t = (Inr (), t')
     \<and> span_view usage_keys t' = [Some (fst tokens), Some (snd tokens), Some n, Some cost]"
    using assms by (cases "ls_cache_read_input_tokens scope")
      (simp_all add: chat_usage_attributes_def span_attr_def span_step_def on_span_def set_attribute_def
        span_view_def usage_keys_def semconv)
  ultimately show ?thesis by (metis keepsD)
qed

text \<open>The logic on any scope whose attributes can be set.\<close>

lemma common_chat_logic_success:
  assumes prompt: "format_content (ie_repr env) (scope_input scope) = Inr prompt"
    and steps: "returns (chat_request_attributes (ls_kwargs scope))" "returns (chat_openai_attributes env scope)"
      "returns (chat_tool_attributes env scope)"
    and tokens: "chat_tokens prompt scope = tokens" "py_add (fst tokens) (snd tokens) = Inr n"
    and content: "ie_capture_message_content env \<Longrightarrow> returns (chat_content env scope tokens)"
    and metrics: "ie_metrics env = Some metrics_dict"
    and open_span: "\<not> sp_ended (tl_span t)" "sp_status (tl_span t) \<noteq> StatusOk"
  defines "cost \<equiv> get_chat_model_cost (scope_model scope) (ie_pricing_info env) (fst tokens) (snd tokens)"
  shows "\<exists>t'. common_chat_logic env is_stream end_time scope t = (Inr (), t')
     \<and> sp_status (tl_span t') = StatusOk \<and> sp_exceptions (tl_span t') = sp_exceptions (tl_span t)
     \<and> span_view usage_keys t' = [Some (fst tokens), Some (snd tokens), Some n, Some cost]
     \<and> tl_measurements t' = tl_measurements t @ (if ie_disable_metrics env then []
         else completion_measurements (ie_agent_name env) (chat_completion env is_stream end_time scope tokens cost))"
proof -
  let ?t1 = "on_span (common_span_attributes (chat_common_span env is_stream scope)) t"
  have v1: "call_view ?t1 = call_view t"
    using keepsD [OF keeps_call_common, of "chat_common_span env is_stream scope" t] by (simp add: span_step_def)
  obtain t2 where 2: "chat_request_attributes (ls_kwargs scope) ?t1 = (Inr (), t2)" using returns_unit [OF steps(1)] by blast
  have r3: "returns (chat_response_attributes scope)"
    unfolding chat_response_attributes_def by (rule raises_intros)+
  obtain t3 where 3: "chat_response_attributes scope t2 = (Inr (), t3)" using returns_unit [OF r3] by blast
  obtain t4 where 4: "chat_openai_attributes env scope t3 = (Inr (), t4)" using returns_unit [OF steps(2)] by blast
  obtain t5 where 5: "chat_tool_attributes env scope t4 = (Inr (), t5)" using returns_unit [OF steps(3)] by blast
  have v5: "call_view t5 = call_view t"
    using keepsD [OF keeps_call_attributes(1) 2] keepsD [OF keeps_call_attributes(2) 3]
      keepsD [OF keeps_call_attributes(3) 4] keepsD [OF keeps_call_attributes(4) 5] v1 by simp
  with open_span(1) have "\<not> sp_ended (tl_span t5)" by (simp add: call_view_def)
  from usage_attributes [OF this tokens(2), of scope cost] obtain t6 where
    6: "chat_usage_attributes scope tokens cost t5 = (Inr (), t6)"
      "span_view usage_keys t6 = [Some (fst tokens), Some (snd tokens), Some n, Some cost]" "call_view t6 = call_view t"
    using v5 by auto
  have r7: "returns (pwhen (ie_capture_message_content env) (chat_content env scope tokens))"
    using content by (rule raises_only_pwhen)
  obtain t7 where 7: "pwhen (ie_capture_message_content env) (chat_content env scope tokens) t6 = (Inr (), t7)"
    using returns_unit [OF r7] by blast
  have "keeps (\<lambda>t. (span_view usage_keys t, call_view t)) (chat_content env scope tokens)"
    by (rule keeps_chat_content)
      (auto simp: keeps_def span_attr_def span_step_def span_view_def call_view_def on_span_def set_attribute_def
        content_keys_def usage_keys_def semconv)
  then have "keeps (\<lambda>t. (span_view usage_keys t, call_view t)) (pwhen (ie_capture_message_content env) (chat_content env scope tokens))"
    by (rule keeps_pwhen)
  from keepsD [OF this 7] 6 have v7: "span_view usage_keys t7 = [Some (fst tokens), Some (snd tokens), Some n, Some cost]"
    "call_view t7 = call_view t" by simp_all
  let ?t8 = "on_span (set_status StatusOk) t7"
  have v8: "span_view usage_keys ?t8 = [Some (fst tokens), Some (snd tokens), Some n, Some cost]"
    "call_view ?t8 = call_view t" "sp_status (tl_span ?t8) = StatusOk"
    using v7 open_span(1)
    by (simp_all add: span_view_status) (auto simp: call_view_def on_span_def set_status_def)
  let ?ms = "if ie_disable_metrics env then []
         else completion_measurements (ie_agent_name env) (chat_completion env is_stream end_time scope tokens cost)"
  have "common_chat_logic env is_stream end_time scope t = (Inr (), ?t8\<lparr>tl_measurements := tl_measurements ?t8 @ ?ms\<rparr>)"
    by (simp add: common_chat_logic_def prompt tokens(1) Let_def pbind_def 2 3 4 5 6(1) [unfolded cost_def] 7
        span_step_def recorded_measurements [OF metrics] cost_def)
  then show ?thesis using v8 by (auto simp: call_view_def span_view_def)
qed

text \<open>A request that names a model and gives its messages as plain texts, and the response to it.\<close>

definition chat_request :: "string \<Rightarrow> (string \<times> string) list \<Rightarrow> bool \<Rightarrow> (string, pyval) dict" where
  "chat_request m ms stream =
     [(''model'', PStr m), (''messages'', PList (map plain_message ms)), (''stream'', PBool stream)]"

definition chat_answer :: "string \<Rightarrow> string \<Rightarrow> string \<Rightarrow> int \<Rightarrow> int \<Rightarrow> pyval \<Rightarrow> pyval" where
  "chat_answer i m content prompt_tokens completion_tokens details =
     PDict [(''id'', PStr i), (''model'', PStr m),
       (''choices'', PList [PDict [(''message'', PDict [(''role'', PStr ''assistant''), (''content'', PStr content)]),
          (''finish_reason'', PStr ''stop'')]]),
       (''usage'', PDict [(''prompt_tokens'', PInt prompt_tokens), (''completion_tokens'', PInt completion_tokens),
          (''prompt_tokens_details'', details)])]"

definition answer_scope ::
  "string \<Rightarrow> string \<Rightarrow> string \<Rightarrow> int \<Rightarrow> int \<Rightarrow> int \<Rightarrow> (string, pyval) dict \<Rightarrow> pyval \<Rightarrow> pyval \<Rightarrow> rat \<Rightarrow> rat \<Rightarrow> llm_scope" where
  "answer_scope i m content pt ct cached kwargs a p t0 t1 =
     \<lparr>ls_kwargs = kwargs, ls_start_time = t0, ls_timestamps = [], ls_ttft = t1 - t0, ls_tbt = 0, ls_llmresponse = content,
      ls_response_id = PStr i, ls_response_model = PStr m, ls_finish_reason = PStr ''stop'', ls_system_fingerprint = PStr [],
      ls_service_tier = PStr ''auto'', ls_tools = PNone, ls_tokens = Some (PInt pt, PInt ct),
      ls_cache_read_input_tokens = Some (PInt cached), ls_operation_responses = False, ls_server_address = a,
      ls_server_port = p\<rparr>"

lemma scope_of_answer:
  "response_scope_of env (chat_answer i m content pt ct (PDict [(''cached_tokens'', PInt cached)])) a p t0 t1 (chat_request q ms b)
     = Inr (answer_scope i m content pt ct cached (chat_request q ms b) a p t0 t1)"
  by (simp add: response_scope_of_def response_text_def response_finish_reason_def response_tools_def chat_answer_def
      chat_request_def answer_scope_def join_values_def py_or_def)

definition message_line :: "string \<times> string \<Rightarrow> string" where
  "message_line m = (if fst m = [] then ''user'' else fst m) @ '': '' @ snd m"

lemma prompt_of_request:
  assumes "scope_input scope = PList (map plain_message ms)"
  shows "format_content repr (scope_input scope) = Inr (py_join [CHR 0x0A] (map message_line ms))"
proof -
  have "format_message repr (plain_message m) = Inr (message_line m)" for m
    by (simp add: format_message_def role_and_content_def plain_message_def message_line_def py_or_def)
  then have "res_map (format_message repr) (map plain_message ms) = Inr (map message_line ms)"
    by (induction ms) simp_all
  then show ?thesis using assms by (cases ms) (simp_all add: format_content_def)
qed

lemma returns_chat_content:
  assumes "tame env" and "\<And>v. \<exists>s. ie_json_dumps env v = Inr s"
    and "scope_input scope = PList ms" and "dget_or (ls_kwargs scope) ''messages'' (PList []) = PList ms'"
  shows "returns (chat_content env scope tokens)"
proof -
  have "returns (build_input_messages (ie_repr env) (PList ms))"
    by (simp add: build_input_messages_def returns_input_messages_loop raises_only_basic)
  moreover have "\<exists>x. build_system_instructions_from_messages (ie_repr env) (PList ms') = Inr x"
    by (cases "ms' = []") (simp_all add: build_system_instructions_from_messages_def Let_def)
  moreover have "ie_json_dumps env v \<noteq> Inl e" for v e
    using assms(2) [of v] by auto
  ultimately show ?thesis
    using assms(1,3,4) unfolding chat_content_def
    by (auto intro!: raises_intros tameD)
qed

lemma request_attributes_return:
  assumes "ls_kwargs scope = chat_request m ms b" and "ls_tools scope = PNone"
  shows "returns (chat_request_attributes (ls_kwargs scope))" "returns (chat_openai_attributes env scope)"
    "returns (chat_tool_attributes env scope)"
  using assms unfolding chat_request_attributes_def chat_openai_attributes_def chat_tool_attributes_def
  by (auto simp: seed_value_def kwarg_def handle_not_given_def chat_request_def equals_one_def Let_def pret_unit
      intro!: raises_intros)

lemma answer_scope_sel:
  "scope_input (answer_scope i m c pt ct cached (chat_request q ms b) a p t0 t1) = PList (map plain_message ms)"
  "scope_model (answer_scope i m c pt ct cached (chat_request q ms b) a p t0 t1) = PStr q"
  "ls_kwargs (answer_scope i m c pt ct cached (chat_request q ms b) a p t0 t1) = chat_request q ms b"
  "ls_tools (answer_scope i m c pt ct cached kw a p t0 t1) = PNone"
  "pt \<noteq> 0 \<Longrightarrow> chat_tokens prompt (answer_scope i m c pt ct cached kw a p t0 t1) = (PInt pt, PInt ct)"
  by (simp_all add: scope_input_def scope_model_def answer_scope_def chat_request_def chat_tokens_def)

text \<open>C12: A chat of plain texts whose answer reports its usage: the caller gets the answer; the span ends with
  status OK and without exceptions and carries the reported tokens, their sum and the cost at the
  configured prices; and the completion is measured once with the same numbers.\<close>

theorem plain_completion_telemetry:
  assumes env: "tame env" "\<And>v. \<exists>s. ie_json_dumps env v = Inr s" "ie_metrics env = Some metrics_dict"
    and address: "set_server_address_and_port client ''api.openai.com'' 443 = Inr (a, p)"
    and usage: "pt \<noteq> 0"
  shows "\<exists>t'. chat_completions env False client
         (Inr (ApiValue (chat_answer i m content pt ct (PDict [(''cached_tokens'', PInt cached)])))) (chat_request q ms False) ck t
       = (Inr (Plain (ApiValue (chat_answer i m content pt ct (PDict [(''cached_tokens'', PInt cached)])))), t')
     \<and> sp_status (tl_span t') = StatusOk \<and> sp_ended (tl_span t') \<and> sp_exceptions (tl_span t') = []
     \<and> span_view usage_keys t' = [Some (PInt pt), Some (PInt ct), Some (PInt (pt + ct)),
         Some (get_chat_model_cost (PStr q) (ie_pricing_info env) (PInt pt) (PInt ct))]
     \<and> tl_measurements t' = tl_measurements t @ (if ie_disable_metrics env then [] else
         completion_measurements (ie_agent_name env) (chat_completion env False (ck_logic ck)
           (answer_scope i m content pt ct cached (chat_request q ms False) a p (ck_start ck) (ck_end ck))
           (PInt pt, PInt ct) (get_chat_model_cost (PStr q) (ie_pricing_info env) (PInt pt) (PInt ct))))"
proof -
  let ?answer = "chat_answer i m content pt ct (PDict [(''cached_tokens'', PInt cached)])"
  let ?scope = "answer_scope i m content pt ct cached (chat_request q ms False) a p (ck_start ck) (ck_end ck)"
  let ?t = "on_span (\<lambda>_. fresh_span) t"
  have content: "returns (chat_content env ?scope (PInt pt, PInt ct))"
    by (rule returns_chat_content [OF env(1,2) answer_scope_sel(1)])
      (simp add: answer_scope_def chat_request_def)
  have fresh: "\<not> sp_ended (tl_span ?t)" "sp_status (tl_span ?t) \<noteq> StatusOk" "sp_exceptions (tl_span ?t) = []"
    "tl_measurements ?t = tl_measurements t"
    by (simp_all add: on_span_def fresh_span_def)
  have add: "py_add (fst (PInt pt, PInt ct)) (snd (PInt pt, PInt ct)) = Inr (PInt (pt + ct))" by (simp add: py_add_def)
  note steps = request_attributes_return [OF answer_scope_sel(3,4)]
  from common_chat_logic_success [OF prompt_of_request [OF answer_scope_sel(1)] steps answer_scope_sel(5) [OF usage] add
      content env(3) fresh(1,2), of False "ck_logic ck"] fresh(3,4)
  obtain u where u: "common_chat_logic env False (ck_logic ck) ?scope ?t = (Inr (), u)"
    "sp_status (tl_span u) = StatusOk" "sp_exceptions (tl_span u) = []"
    "span_view usage_keys u = [Some (PInt pt), Some (PInt ct), Some (PInt (pt + ct)),
       Some (get_chat_model_cost (PStr q) (ie_pricing_info env) (PInt pt) (PInt ct))]"
    "tl_measurements u = tl_measurements t @ (if ie_disable_metrics env then [] else
       completion_measurements (ie_agent_name env) (chat_completion env False (ck_logic ck) ?scope (PInt pt, PInt ct)
         (get_chat_model_cost (PStr q) (ie_pricing_info env) (PInt pt) (PInt ct))))"
    by (auto simp: answer_scope_sel(2))
  have dict: "response_as_dict ?answer = ?answer" by (simp add: chat_answer_def)
  have "\<not> py_truth (dget_or (chat_request q ms False) ''stream'' (PBool False))" by (simp add: chat_request_def)
  then have "chat_completions env False client (Inr (ApiValue ?answer)) (chat_request q ms False) ck t
      = (Inr (Plain (ApiValue ?answer)), on_span (leave_span None) u)"
    using u(1) by (simp add: chat_completions_plain [OF address _ refl] guarded_call_def in_current_span_def chat_process_def
        process_chat_response_def dict scope_of_answer pbind_def ptry_def)
  then show ?thesis
    using u(2-5) by (simp add: span_view_def on_span_def leave_span_def end_span_def)
qed

theorem plain_completion_telemetry_witness:
  "\<exists>t'. chat_completions sample_env False PNone
         (Inr (ApiValue (chat_answer ''r1'' ''gpt-4o'' ''Hello'' 1000 500 (PDict [(''cached_tokens'', PInt 0)]))))
         (chat_request ''gpt-4o'' [(''user'', ''Hi'')] False) sample_clock fresh_tele
       = (Inr (Plain (ApiValue (chat_answer ''r1'' ''gpt-4o'' ''Hello'' 1000 500 (PDict [(''cached_tokens'', PInt 0)])))), t')
     \<and> sp_status (tl_span t') = StatusOk
     \<and> span_view usage_keys t' = [Some (PInt 1000), Some (PInt 500), Some (PInt 1500), Some (PFloat 4)]"
proof -
  have cost: "get_chat_model_cost (PStr ''gpt-4o'') (ie_pricing_info sample_env) (PInt 1000) (PInt 500) = PFloat 4"
    by (simp add: get_chat_model_cost_def sample_env_def per_thousand_def model_price_def py_mul_def py_add_def or_zero_def)
  have dumps: "\<exists>s. ie_json_dumps sample_env v = Inr s" for v by (simp add: sample_env_def)
  have metrics: "ie_metrics sample_env = Some metrics_dict" by (simp add: sample_env_def)
  have "(1000 :: int) \<noteq> 0" "(1000 :: int) + 500 = 1500" by simp_all
  with plain_completion_telemetry [OF sample_env_tame(1) dumps metrics sample_address, of 1000 "''r1''" "''gpt-4o''"
      "''Hello''" 500 0 "''gpt-4o''" "[(''user'', ''Hi'')]" sample_clock fresh_tele]
  show ?thesis unfolding cost by metis
qed

text \<open>An answer whose \<open>prompt_tokens_details\<close> is null, which the API may send, has no cached count to read:
  the processing raises \<open>AttributeError\<close>, the caller still gets the answer, and the span ends with an
  error and without tokens.\<close>

theorem null_details_fail_processing:
  assumes metrics: "ie_metrics env = Some metrics_dict"
    and address: "set_server_address_and_port client ''api.openai.com'' 443 = Inr (a, p)"
  shows "\<exists>t'. chat_completions env False client (Inr (ApiValue (chat_answer i m content pt ct PNone)))
         (chat_request q ms False) ck t
       = (Inr (Plain (ApiValue (chat_answer i m content pt ct PNone))), t')
     \<and> sp_status (tl_span t') = StatusError
     \<and> dget (sp_attributes (tl_span t')) ERROR_TYPE = Some (PStr ''AttributeError'')
     \<and> span_view usage_keys t' = [None, None, None, None]"
proof -
  let ?answer = "chat_answer i m content pt ct PNone"
  have scope: "response_scope_of env (response_as_dict ?answer) a p t0 t1 kwargs = Inl (no_attr PNone ''get'')" for t0 t1 kwargs
    by (simp add: response_scope_of_def response_text_def chat_answer_def join_values_def py_or_def)
  have nostream: "\<not> py_truth (dget_or (chat_request q ms False) ''stream'' (PBool False))" by (simp add: chat_request_def)
  have exc: "is_Exception (no_attr PNone ''get'')" "exc_class (no_attr PNone ''get'') = AttributeError"
    by (simp_all add: no_attr_def)
  let ?c = "\<lparr>ca_kwargs = chat_request q ms False, ca_server_address = a, ca_server_port = p, ca_clock = ck\<rparr>"
  have process: "chat_process env ?c (ApiValue ?answer) = praise (no_attr PNone ''get'')"
    by (simp add: chat_process_def process_chat_response_def scope)
  let ?sp = "handle_exception (no_attr PNone ''get'') fresh_span"
  obtain l where "chat_failure env ?c (no_attr PNone ''get'') (on_span (\<lambda>_. fresh_span) t)
      = (Inr (), t\<lparr>tl_span := ?sp, tl_measurements := l\<rparr>)"
    by (cases t; cases "ie_disable_metrics env \<or> falsy_metrics (ie_metrics env)")
      (auto simp: chat_failure_def call_failure_def completion_failure_def span_step_def on_span_def metric_step_def metrics
        record_completion_full)
  then show ?thesis
    by (simp add: chat_completions_plain [OF address nostream refl] guarded_call_def process ptry_praise exc(1)
        in_current_span_def pbind_def)
      (simp add: on_span_def leave_span_def end_span_def span_view_def
        handle_exception_def Let_def exc set_attribute_def set_status_def record_exception_def fresh_span_def
        usage_keys_def semconv)
qed

theorem null_details_fail_processing_witness:
  "\<exists>t'. chat_completions sample_env False PNone (Inr (ApiValue (chat_answer ''r1'' ''gpt-4o'' ''Hello'' 9 5 PNone)))
         (chat_request ''gpt-4o'' [(''user'', ''Hi'')] False) sample_clock fresh_tele
       = (Inr (Plain (ApiValue (chat_answer ''r1'' ''gpt-4o'' ''Hello'' 9 5 PNone))), t')
     \<and> sp_status (tl_span t') = StatusError"
proof -
  have "ie_metrics sample_env = Some metrics_dict" by (simp add: sample_env_def)
  from null_details_fail_processing [OF this sample_address, of "''r1''" "''gpt-4o''" "''Hello''" 9 5 "''gpt-4o''"
      "[(''user'', ''Hi'')]" sample_clock fresh_tele]
  show ?thesis by blast
qed

section \<open>A streamed completion\<close>

lemma consume_texts:
  assumes "st_wrapped st = map (\<lambda>x. Inr (text_chunk i m x)) texts" and "length clock = length texts"
  shows "\<exists>s'. consume process_chat_chunk finish clock st
       = (map (text_chunk i m) texts, None, st\<lparr>st_wrapped := [], st_scope := s'\<rparr>)
     \<and> sc_llmresponse s' = sc_llmresponse (st_scope st) @ concat texts \<and> sc_tools s' = sc_tools (st_scope st)
     \<and> sc_timestamps s' = sc_timestamps (st_scope st) @ clock"
  using assms
proof (induction texts arbitrary: clock st)
  case Nil
  then show ?case by (cases st) auto
next
  case (Cons x texts)
  then obtain now cl where clock: "clock = now # cl" by (cases clock) auto
  let ?s = "(stamp now (st_scope st))\<lparr>sc_llmresponse := sc_llmresponse (st_scope st) @ x,
      sc_response_id := py_or (PStr i) (sc_response_id (st_scope st)),
      sc_response_model := py_or (PStr m) (sc_response_model (st_scope st))\<rparr>"
  let ?st = "st\<lparr>st_wrapped := map (\<lambda>x. Inr (text_chunk i m x)) texts, st_scope := ?s\<rparr>"
  have "stream_next process_chat_chunk finish now st = (Inr (text_chunk i m x), ?st)"
    using Cons.prems(1) by (simp add: stream_next_def process_text_chunk)
  moreover have "sc_tools ?s = sc_tools (st_scope st)" "sc_timestamps ?s = sc_timestamps (st_scope st) @ [now]"
    by (simp_all add: stamp_def Let_def)
  ultimately show ?case
    using Cons.IH [of ?st cl] Cons.prems(2) clock by auto
qed

lemma consume_end:
  "consume process finish clock st = (cs, None, st1) \<Longrightarrow> stream_next process finish now st1 = (Inl e, st2)
     \<Longrightarrow> consume process finish (clock @ [now]) st = (cs, Some e, st2)"
  by (induction clock arbitrary: st cs) (auto split: prod.splits sum.splits)

text \<open>C14: A streamed chat from end to end: the wrapper hands out a stream; reading it to its end gives the caller
  every chunk and then \<open>StopIteration\<close>; the span ends with status OK and with token counts estimated from
  the characters of the prompt and of the text received, and the completion is measured once, with the
  chunks' arrival times.\<close>

theorem streamed_completion_telemetry:
  assumes env: "tame env" "\<And>v. \<exists>s. ie_json_dumps env v = Inr s" "ie_metrics env = Some metrics_dict"
    and address: "set_server_address_and_port client ''api.openai.com'' 443 = Inr (a, p)"
    and clock: "length clock = length texts"
    and kwargs_def: "kwargs = chat_request q ms True"
    and tokens_def: "tokens = (PInt (general_tokens (py_join [CHR 0x0A] (map message_line ms))), PInt (general_tokens (concat texts)))"
    and cost_def: "cost = get_chat_model_cost (PStr q) (ie_pricing_info env) (fst tokens) (snd tokens)"
  shows "\<exists>ts s st'. chat_completions env False client (Inr (ApiStream (map (\<lambda>x. Inr (text_chunk i m x)) texts))) kwargs ck t
       = (Inr (Traced ts), t)
     \<and> consume process_chat_chunk (traced_finish env ts end_time) (clock @ [now]) (ts_stream ts)
       = (map (text_chunk i m) texts, Some stop_iteration, st')
     \<and> sp_status (tl_span (st_tele st')) = StatusOk \<and> sp_ended (tl_span (st_tele st'))
     \<and> span_view usage_keys (st_tele st') = [Some (fst tokens), Some (snd tokens),
         Some (PInt (general_tokens (py_join [CHR 0x0A] (map message_line ms)) + general_tokens (concat texts))), Some cost]
     \<and> sc_timestamps s = clock \<and> sc_llmresponse s = concat texts
     \<and> tl_measurements (st_tele st') = tl_measurements t @ (if ie_disable_metrics env then [] else
         completion_measurements (ie_agent_name env)
           (chat_completion env True end_time (stream_scope kwargs a p s) tokens cost))"
proof -
  let ?t = "on_span (\<lambda>_. fresh_span) t"
  let ?ts = "\<lparr>ts_stream = \<lparr>st_wrapped = map (\<lambda>x. Inr (text_chunk i m x)) texts, st_scope = initial_chat_scope (ck_start ck),
      st_tele = ?t, st_finished = 0\<rparr>, ts_kwargs = kwargs, ts_server_address = a, ts_server_port = p\<rparr>"
  let ?finish = "traced_finish env ?ts end_time"
  have call: "chat_completions env False client (Inr (ApiStream (map (\<lambda>x. Inr (text_chunk i m x)) texts))) kwargs ck t
      = (Inr (Traced ?ts), t)"
    using address by (simp add: chat_completions_def kwargs_def chat_request_def)
  obtain s where s: "consume process_chat_chunk ?finish clock (ts_stream ?ts)
       = (map (text_chunk i m) texts, None, (ts_stream ?ts)\<lparr>st_wrapped := [], st_scope := s\<rparr>)"
    "sc_llmresponse s = concat texts" "sc_tools s = PNone" "sc_timestamps s = clock"
    using consume_texts [of "ts_stream ?ts" i m texts clock ?finish] clock by (auto simp: initial_chat_scope_def)
  let ?scope = "stream_scope kwargs a p s"
  have sel: "scope_input ?scope = PList (map plain_message ms)" "ls_kwargs ?scope = chat_request q ms True"
    "ls_tools ?scope = PNone" "dget_or (ls_kwargs ?scope) ''messages'' (PList []) = PList (map plain_message ms)"
    "scope_model ?scope = PStr q"
    using s(3) by (simp_all add: scope_input_def scope_model_def stream_scope_def kwargs_def chat_request_def)
  have tokens: "chat_tokens (py_join [CHR 0x0A] (map message_line ms)) ?scope = tokens"
    using s(2) by (simp add: chat_tokens_def stream_scope_def tokens_def)
  have add: "py_add (fst tokens) (snd tokens)
      = Inr (PInt (general_tokens (py_join [CHR 0x0A] (map message_line ms)) + general_tokens (concat texts)))"
    by (simp add: py_add_def tokens_def)
  have fresh: "\<not> sp_ended (tl_span ?t)" "sp_status (tl_span ?t) \<noteq> StatusOk" "tl_measurements ?t = tl_measurements t"
    by (simp_all add: on_span_def fresh_span_def)
  from common_chat_logic_success [OF prompt_of_request [OF sel(1)] request_attributes_return [OF sel(2,3)] tokens add
      returns_chat_content [OF env(1,2) sel(1,4)] env(3) fresh(1,2), of True end_time] fresh(3)
  obtain u where u: "common_chat_logic env True end_time ?scope ?t = (Inr (), u)" "sp_status (tl_span u) = StatusOk"
    "span_view usage_keys u = [Some (fst tokens), Some (snd tokens),
       Some (PInt (general_tokens (py_join [CHR 0x0A] (map message_line ms)) + general_tokens (concat texts))), Some cost]"
    "tl_measurements u = tl_measurements t @ (if ie_disable_metrics env then [] else
       completion_measurements (ie_agent_name env) (chat_completion env True end_time ?scope tokens cost))"
    by (auto simp: sel(5) cost_def)
  let ?st = "\<lparr>st_wrapped = [], st_scope = s, st_tele = on_span (leave_span None) u, st_finished = 1\<rparr>"
  have "stream_next process_chat_chunk ?finish now ((ts_stream ?ts)\<lparr>st_wrapped := [], st_scope := s\<rparr>) = (Inl stop_iteration, ?st)"
    using u(1) by (simp add: stream_next_def finish_stream_def traced_finish_def process_streaming_chat_response_def
        ptry_def with_span_def stop_iteration_def)
  from consume_end [OF s(1) this] call s(2,4) u(2-4)
  show ?thesis
    by (intro exI [of _ ?ts] exI [of _ s] exI [of _ ?st])
      (simp add: span_view_def on_span_def leave_span_def end_span_def)
qed

theorem streamed_completion_telemetry_witness:
  "\<exists>ts st'. chat_completions sample_env False PNone
         (Inr (ApiStream (map (\<lambda>x. Inr (text_chunk ''c1'' ''gpt-4o'' x)) [''Hel'', ''lo''])))
         (chat_request ''gpt-4o'' [(''user'', ''Hi'')] True) sample_clock fresh_tele = (Inr (Traced ts), fresh_tele)
     \<and> consume process_chat_chunk (traced_finish sample_env ts 104) ([101, 102] @ [103]) (ts_stream ts)
       = (map (text_chunk ''c1'' ''gpt-4o'') [''Hel'', ''lo''], Some stop_iteration, st')
     \<and> sp_status (tl_span (st_tele st')) = StatusOk \<and> sp_ended (tl_span (st_tele st'))"
proof -
  have dumps: "\<exists>s. ie_json_dumps sample_env v = Inr s" for v by (simp add: sample_env_def)
  have metrics: "ie_metrics sample_env = Some metrics_dict" by (simp add: sample_env_def)
  have l: "length [101, 102 :: rat] = length [''Hel'', ''lo'']" by simp
  show ?thesis
    using streamed_completion_telemetry [OF sample_env_tame(1) dumps metrics sample_address l refl refl refl,
      of "''c1''" "''gpt-4o''" "''gpt-4o''" "[(''user'', ''Hi'')]" sample_clock fresh_tele 104 103] by blast
qed

section \<open>Tools\<close>

text \<open>The names, ids and arguments of the tool calls are recorded whatever the capture setting: the arguments
  the model wrote reach the span also when content capture is off.\<close>

theorem tool_arguments_always_recorded:
  assumes "ls_tools scope = PList (map (\<lambda>(i, n, a). stored_tool i n a) calls)" and "calls \<noteq> []"
    and "\<not> sp_ended (tl_span t)"
  shows "\<exists>t'. chat_tool_attributes env scope t = (Inr (), t')
     \<and> span_view [GEN_AI_TOOL_NAME, GEN_AI_TOOL_CALL_ID, GEN_AI_TOOL_ARGS] t' =
        [Some (PStr (nonempty_join (map (\<lambda>(i, n, a). n) calls))), Some (PStr (nonempty_join (map (\<lambda>(i, n, a). i) calls))),
         Some (PStr (nonempty_join (map (\<lambda>(i, n, a). a) calls)))]"
proof -
  let ?tool = "\<lambda>(i, n, a). stored_tool i n a"
  have filled: "filter is_filled_dict (map ?tool calls) = map ?tool calls"
    by (auto simp: filter_id_conv is_filled_dict_def stored_tool_def)
  have rows: "res_map (tool_row (ie_repr env)) (map ?tool calls) = Inr (map (\<lambda>(i, n, a). (PStr n, i, a)) calls)"
    by (induction calls) (auto simp: tool_row_def stored_tool_def)
  have strings: "res_map (\<lambda>v. case v of PStr s \<Rightarrow> Inr s
      | _ \<Rightarrow> Inl (PyExc TypeError ''sequence item: expected str instance'')) (map PStr ss) = Inr ss" for ss
    by (induction ss) simp_all
  have "filter py_truth (map fst (map (\<lambda>(i, n, a). (PStr n, i, a)) calls))
      = map PStr (filter (\<lambda>s. s \<noteq> []) (map (\<lambda>(i, n, a). n) calls))"
    by (induction calls) auto
  then have names: "join_values '', '' (filter py_truth (map fst (map (\<lambda>(i, n, a). (PStr n, i, a)) calls)))
      = Inr (nonempty_join (map (\<lambda>(i, n, a). n) calls))"
    by (simp only: join_values_def strings nonempty_join_def) simp
  have sel: "map (fst \<circ> snd) (map (\<lambda>(i, n, a). (PStr n, i, a)) calls) = map (\<lambda>(i, n, a). i) calls"
    "map (snd \<circ> snd) (map (\<lambda>(i, n, a). (PStr n, i, a)) calls) = map (\<lambda>(i, n, a). a) calls"
    by (induction calls) auto
  have "chat_tool_attributes env scope t =
     pbind (span_attr GEN_AI_TOOL_NAME (PStr (nonempty_join (map (\<lambda>(i, n, a). n) calls)))) (\<lambda>_.
     pbind (span_attr GEN_AI_TOOL_CALL_ID (PStr (nonempty_join (map (\<lambda>(i, n, a). i) calls)))) (\<lambda>_.
     span_attr GEN_AI_TOOL_ARGS (PStr (nonempty_join (map (\<lambda>(i, n, a). a) calls))))) t"
    using assms(2) by (simp only: chat_tool_attributes_def assms(1) Let_def pyval.case filled rows pbind_simps names sel)
      simp
  then show ?thesis
    using assms(3) by (simp add: span_attr_def span_step_def on_span_def set_attribute_def span_view_def semconv)
qed

theorem tool_arguments_always_recorded_witness:
  "\<exists>scope t'. \<not> ie_capture_message_content sample_env \<and> chat_tool_attributes sample_env scope fresh_tele = (Inr (), t')
     \<and> dget (sp_attributes (tl_span t')) GEN_AI_TOOL_ARGS = Some (PStr ''{secret: 1}'')"
proof -
  let ?scope = "(answer_scope [] [] [] 0 0 0 [] PNone PNone 0 0)\<lparr>ls_tools := PList (map (\<lambda>(i, n, a). stored_tool i n a)
      [(''call1'', ''lookup'', ''{secret: 1}'')])\<rparr>"
  have "ls_tools ?scope = PList (map (\<lambda>(i, n, a). stored_tool i n a) [(''call1'', ''lookup'', ''{secret: 1}'')])"
    "[(''call1'', ''lookup'', ''{secret: 1}'')] \<noteq> []" "\<not> sp_ended (tl_span fresh_tele)"
    by (simp_all add: fresh_tele_def fresh_span_def)
  from tool_arguments_always_recorded [OF this, of sample_env] obtain t' where
    "chat_tool_attributes sample_env ?scope fresh_tele = (Inr (), t')"
    "dget (sp_attributes (tl_span t')) GEN_AI_TOOL_ARGS = Some (PStr ''{secret: 1}'')"
    by (auto simp: span_view_def nonempty_join_def)
  moreover have "\<not> ie_capture_message_content sample_env" by (simp add: sample_env_def)
  ultimately show ?thesis by blast
qed

text \<open>A tools value without any filled dict, such as the typed objects of the parse API before they are
  dumped, leaves nothing to unpack: the processing raises \<open>ValueError\<close>.\<close>

theorem tools_without_dicts_raise:
  assumes "py_truth (ls_tools scope)"
    and "list_all (\<lambda>t. \<not> is_filled_dict t) (case ls_tools scope of PList ts \<Rightarrow> ts | v \<Rightarrow> [v])"
  shows "\<exists>e. chat_tool_attributes env scope t = (Inl e, t) \<and> exc_class e = ValueError"
proof -
  have "filter is_filled_dict (case ls_tools scope of PList ts \<Rightarrow> ts | v \<Rightarrow> [v]) = []"
    using assms(2) by (simp add: list_all_iff filter_empty_conv)
  with assms(1) show ?thesis by (simp add: chat_tool_attributes_def Let_def)
qed

theorem tools_without_dicts_raise_witness:
  "\<exists>e. chat_tool_attributes sample_env ((answer_scope [] [] [] 0 0 0 [] PNone PNone 0 0)
       \<lparr>ls_tools := PList [PObj ''ToolCall'' []]\<rparr>) fresh_tele = (Inl e, fresh_tele) \<and> exc_class e = ValueError"
  by (rule tools_without_dicts_raise) (simp_all add: is_filled_dict_def)

text \<open>A client whose base URL has a malformed port is refused by the instrumentation: the wrapper raises
  before the wrapped call is made.\<close>

theorem malformed_base_url_blocks_call:
  assumes "set_server_address_and_port client ''api.openai.com'' 443 = Inl e"
  shows "chat_completions env False client wrapped kwargs ck t = (Inl e, t)"
    and "chat_completions_parse env client wrapped kwargs ck t = (Inl e, t)"
  using assms by (simp_all add: chat_completions_def chat_completions_parse_def)

end
