(* ===== verification/OpenAIResponses.thy ===== *)
theory OpenAIResponses
  imports OpenAIChat
begin

text \<open>
  The responses API of \<open>openlit/instrumentation/openai\<close>: \<open>common_response_logic\<close> and its two callers in
  \<open>utils.py\<close>, and the call wrapper of \<open>openai.py\<close>.
\<close>

section \<open>The scope common_response_logic reads\<close>

record rl_scope =
  rl_kwargs :: "(string, pyval) dict"
  rl_start_time :: rat
  rl_timestamps :: "rat list"
  rl_ttft :: rat
  rl_llmresponse :: pyval
  rl_response_id :: pyval
  rl_response_model :: pyval
  rl_finish_reason :: pyval
  rl_service_tier :: pyval
  rl_tools :: pyval
  rl_input_tokens :: pyval
  rl_output_tokens :: pyval
  rl_reasoning_tokens :: pyval
  rl_cache_read_input_tokens :: "pyval option"
  rl_instructions :: pyval
  rl_server_address :: pyval
  rl_server_port :: pyval

definition rl_input :: "rl_scope \<Rightarrow> pyval" where
  "rl_input scope = dget_or (rl_kwargs scope) ''input'' (PStr [])"

definition rl_model :: "rl_scope \<Rightarrow> pyval" where
  "rl_model scope = dget_or (rl_kwargs scope) ''model'' (PStr ''gpt-4o'')"

definition rl_tbt :: "rl_scope \<Rightarrow> rat" where
  "rl_tbt scope = (if length (rl_timestamps scope) > 1 then calculate_tbt (rl_timestamps scope) else 0)"

text \<open>\<open>general_tokens\<close> on a value: \<open>len\<close> may raise.\<close>

definition value_tokens :: "pyval \<Rightarrow> pyval res" where
  "value_tokens v = res_bind (py_len v) (\<lambda>n. Inr (PInt \<lceil>rat_of_nat n / 2\<rceil>))"

lemma ordinary_value_tokens [ordinary_intros]: "ordinary (value_tokens v)"
  unfolding value_tokens_def by (rule ordinary_intros)+

definition rl_tokens :: "string \<Rightarrow> rl_scope \<Rightarrow> (pyval \<times> pyval) res" where
  "rl_tokens prompt scope =
     (if py_truth (rl_input_tokens scope) then Inr (rl_input_tokens scope, rl_output_tokens scope)
      else res_bind (value_tokens (rl_llmresponse scope)) (\<lambda>n. Inr (PInt (general_tokens prompt), n)))"

section \<open>Span attributes\<close>

definition response_common_span :: "instr_env \<Rightarrow> bool \<Rightarrow> rl_scope \<Rightarrow> common_span" where
  "response_common_span env is_stream scope =
     \<lparr>cs_operation = GEN_AI_OPERATION_TYPE_CHAT, cs_provider = GEN_AI_SYSTEM_OPENAI,
      cs_server_address = rl_server_address scope, cs_server_port = rl_server_port scope,
      cs_request_model = rl_model scope, cs_response_model = rl_response_model scope,
      cs_environment = ie_environment env, cs_application_name = ie_application_name env,
      cs_is_stream = is_stream, cs_tbt = rl_tbt scope, cs_ttft = rl_ttft scope, cs_version = ie_version env\<rparr>"

definition response_request_attributes :: "(string, pyval) dict \<Rightarrow> (tele, unit) prog" where
  "response_request_attributes kwargs =
     (let reasoning = dget_or kwargs ''reasoning'' (PDict []) in
      pbind (span_attr OPENAI_API_TYPE (PStr ''responses'')) (\<lambda>_.
      pbind (span_attr GEN_AI_REQUEST_TEMPERATURE (kwarg kwargs ''temperature'' (PFloat 1))) (\<lambda>_.
      pbind (span_attr GEN_AI_REQUEST_TOP_P (kwarg kwargs ''top_p'' (PFloat 1))) (\<lambda>_.
      pbind (span_attr GEN_AI_REQUEST_MAX_TOKENS (kwarg kwargs ''max_output_tokens'' (PInt (-1)))) (\<lambda>_.
      pwhen (py_truth reasoning)
        (pbind (plift (py_get reasoning ''effort'' PNone)) (\<lambda>effort.
         pwhen (py_truth effort) (span_attr ''gen_ai.request.reasoning_effort'' effort))))))))"

definition response_tier_attributes :: "instr_env \<Rightarrow> rl_scope \<Rightarrow> (tele, unit) prog" where
  "response_tier_attributes env scope =
     (let kwargs = rl_kwargs scope; repr = ie_repr env;
          req_tier = kwarg kwargs ''service_tier'' PNone;
          n_choices = kwarg kwargs ''n'' (PInt 1)
      in pbind (pwhen (py_truth (rl_service_tier scope))
           (span_attr OPENAI_RESPONSE_SERVICE_TIER (rl_service_tier scope))) (\<lambda>_.
         pbind (pwhen (py_truth req_tier \<and> py_str repr req_tier \<noteq> ''auto'')
           (span_attr OPENAI_REQUEST_SERVICE_TIER (PStr (py_str repr req_tier)))) (\<lambda>_.
         pwhen (\<not> equals_one n_choices)
           (pbind (plift (py_int n_choices)) (\<lambda>n. span_attr GEN_AI_REQUEST_CHOICE_COUNT (PInt n))))))"

definition response_id_attributes :: "rl_scope \<Rightarrow> (tele, unit) prog" where
  "response_id_attributes scope =
     pbind (pwhen (py_truth (rl_response_id scope)) (span_attr GEN_AI_RESPONSE_ID (rl_response_id scope))) (\<lambda>_.
     pbind (span_attr GEN_AI_RESPONSE_FINISH_REASON (PList [rl_finish_reason scope])) (\<lambda>_.
     span_attr GEN_AI_OUTPUT_TYPE (PStr ''text'')))"

text \<open>The tools of a response carry their name and arguments beside the call id.\<close>

definition response_tool_row :: "(pyval \<Rightarrow> string) \<Rightarrow> pyval \<Rightarrow> (pyval \<times> string \<times> string) res" where
  "response_tool_row repr t =
     res_bind (py_get t ''name'' (PStr [])) (\<lambda>n.
     res_bind (py_get t ''call_id'' (PStr [])) (\<lambda>i.
     res_bind (py_get t ''arguments'' (PStr [])) (\<lambda>a.
       Inr (n, py_str repr i, py_str repr a))))"

definition response_tool_attributes :: "instr_env \<Rightarrow> rl_scope \<Rightarrow> (tele, unit) prog" where
  "response_tool_attributes env scope =
     pwhen (py_truth (rl_tools scope))
       (let tools = (case rl_tools scope of PList ts \<Rightarrow> ts | v \<Rightarrow> [v]) in
        pbind (plift (res_map (response_tool_row (ie_repr env)) (filter is_filled_dict tools))) (\<lambda>rows.
        if rows = [] then praise (PyExc ValueError ''not enough values to unpack (expected 3, got 0)'')
        else
          pbind (plift (join_values '', '' (filter py_truth (map fst rows)))) (\<lambda>names.
          pbind (span_attr GEN_AI_TOOL_NAME (PStr names)) (\<lambda>_.
          pbind (span_attr GEN_AI_TOOL_CALL_ID (PStr (nonempty_join (map (fst \<circ> snd) rows)))) (\<lambda>_.
          span_attr GEN_AI_TOOL_ARGS (PStr (nonempty_join (map (snd \<circ> snd) rows))))))))"

text \<open>\<open>v > 0\<close>.\<close>

definition py_positive :: "pyval \<Rightarrow> bool res" where
  "py_positive v = (case as_num v of Some n \<Rightarrow> Inr (n > 0) | None \<Rightarrow> unsupported ''>'' v (PInt 0))"

definition response_usage_attributes :: "rl_scope \<Rightarrow> pyval \<times> pyval \<Rightarrow> pyval \<Rightarrow> (tele, unit) prog" where
  "response_usage_attributes scope tokens cost =
     pbind (span_attr GEN_AI_USAGE_INPUT_TOKENS (fst tokens)) (\<lambda>_.
     pbind (span_attr GEN_AI_USAGE_OUTPUT_TOKENS (snd tokens)) (\<lambda>_.
     pbind (plift (py_add (fst tokens) (snd tokens))) (\<lambda>total.
     pbind (span_attr GEN_AI_CLIENT_TOKEN_USAGE total) (\<lambda>_.
     pbind (span_attr GEN_AI_USAGE_COST cost) (\<lambda>_.
     pbind (plift (py_positive (rl_reasoning_tokens scope))) (\<lambda>reasoned.
     pbind (pwhen reasoned (span_attr ''gen_ai.usage.reasoning_tokens'' (rl_reasoning_tokens scope))) (\<lambda>_.
     case rl_cache_read_input_tokens scope of
       None \<Rightarrow> pret ()
     | Some n \<Rightarrow> span_attr GEN_AI_USAGE_CACHE_READ_INPUT_TOKENS n)))))))"

section \<open>Content and event\<close>

definition response_event_extra :: "rl_scope \<Rightarrow> pyval \<times> pyval \<Rightarrow> (string \<times> pyval) list" where
  "response_event_extra scope tokens =
     (let kwargs = rl_kwargs scope in
      [(''response_id'', rl_response_id scope),
       (''finish_reasons'', PList [rl_finish_reason scope]),
       (''output_type'', PStr ''text''),
       (''temperature'', kwarg kwargs ''temperature'' (PFloat 1)),
       (''max_tokens'', kwarg kwargs ''max_output_tokens'' (PInt (-1))),
       (''top_p'', kwarg kwargs ''top_p'' (PFloat 1)),
       (''input_tokens'', fst tokens),
       (''output_tokens'', snd tokens),
       (''cache_read_input_tokens'', case rl_cache_read_input_tokens scope of None \<Rightarrow> PInt 0 | Some n \<Rightarrow> n),
       (''cache_creation_input_tokens'', PInt 0)]
      @ (if py_truth (rl_instructions scope) then [(''system_instructions'', rl_instructions scope)] else []))"

definition response_emit :: "instr_env \<Rightarrow> rl_scope \<Rightarrow> pyval \<times> pyval \<Rightarrow> pyval \<Rightarrow> pyval \<Rightarrow> (tele, unit) prog" where
  "response_emit env scope tokens input_msgs output_msgs =
     ptry
       (emit_inference_event env
          \<lparr>if_operation_name = GEN_AI_OPERATION_TYPE_CHAT, if_request_model = rl_model scope,
           if_response_model = rl_response_model scope, if_input_messages = input_msgs, if_output_messages = output_msgs,
           if_tool_definitions = PNone, if_server_address = rl_server_address scope,
           if_server_port = rl_server_port scope\<rparr> (response_event_extra scope tokens))
       (warn_step ''Failed to emit inference event: %s'')"

definition response_content :: "instr_env \<Rightarrow> rl_scope \<Rightarrow> pyval \<times> pyval \<Rightarrow> (tele, unit) prog" where
  "response_content env scope tokens =
     pbind (log_step (build_input_messages (ie_repr env) (rl_input scope))) (\<lambda>input_msgs.
     pbind (log_step (build_output_messages (ie_json_loads env) (rl_llmresponse scope) (rl_finish_reason scope)
              (rl_tools scope))) (\<lambda>output_msgs.
     pbind (set_span_messages_as_array env (PList input_msgs) (PList output_msgs)) (\<lambda>msgs.
     pbind (pwhen (py_truth (rl_instructions scope))
       (pbind (plift (ie_json_dumps env (rl_instructions scope))) (\<lambda>s. span_attr GEN_AI_SYSTEM_INSTRUCTIONS (PStr s)))) (\<lambda>_.
     pwhen (ie_event_provider env) (response_emit env scope tokens (fst msgs) (snd msgs))))))"

section \<open>The logic\<close>

definition response_completion :: "instr_env \<Rightarrow> bool \<Rightarrow> rat \<Rightarrow> rl_scope \<Rightarrow> pyval \<times> pyval \<Rightarrow> pyval \<Rightarrow> completion" where
  "response_completion env is_stream end_time scope tokens cost =
     \<lparr>co_args = chat_metric_args env (rl_server_address scope) (rl_server_port scope) (rl_model scope)
        (rl_response_model scope),
      co_start_time = rl_start_time scope, co_end_time = end_time,
      co_input_tokens = as_int (fst tokens), co_output_tokens = as_int (snd tokens), co_cost = cost,
      co_tbt = Some (rl_tbt scope), co_ttft = Some (rl_ttft scope), co_error_type = None, co_is_stream = is_stream,
      co_time_per_chunk = (if length (rl_timestamps scope) > 1 then Some (time_diffs (rl_timestamps scope)) else None)\<rparr>"

definition common_response_logic :: "instr_env \<Rightarrow> bool \<Rightarrow> rat \<Rightarrow> rl_scope \<Rightarrow> (tele, unit) prog" where
  "common_response_logic env is_stream end_time scope =
     pbind (plift (format_content (ie_repr env) (rl_input scope))) (\<lambda>prompt.
     pbind (plift (rl_tokens prompt scope)) (\<lambda>tokens.
     let cost = get_chat_model_cost (rl_model scope) (ie_pricing_info env) (fst tokens) (snd tokens)
     in pbind (span_step (common_span_attributes (response_common_span env is_stream scope))) (\<lambda>_.
        pbind (response_request_attributes (rl_kwargs scope)) (\<lambda>_.
        pbind (response_tier_attributes env scope) (\<lambda>_.
        pbind (response_id_attributes scope) (\<lambda>_.
        pbind (response_tool_attributes env scope) (\<lambda>_.
        pbind (response_usage_attributes scope tokens cost) (\<lambda>_.
        pbind (pwhen (ie_capture_message_content env) (response_content env scope tokens)) (\<lambda>_.
        pbind (span_step (set_status StatusOk)) (\<lambda>_.
        pwhen (\<not> ie_disable_metrics env)
          (metric_step env (\<lambda>m. record_completion_metrics (ie_agent_name env) m
             (response_completion env is_stream end_time scope tokens cost)))))))))))))"

text \<open>The scope of a stream: its tier stays \<open>default\<close>, and a tool list that was never started is \<open>None\<close>.\<close>

definition rl_of_stream :: "(string, pyval) dict \<Rightarrow> pyval \<Rightarrow> pyval \<Rightarrow> response_scope \<Rightarrow> rl_scope" where
  "rl_of_stream kwargs server_address server_port s =
     \<lparr>rl_kwargs = kwargs, rl_start_time = rs_start_time s, rl_timestamps = rs_timestamps s, rl_ttft = rs_ttft s,
      rl_llmresponse = PStr (rs_llmresponse s), rl_response_id = rs_response_id s, rl_response_model = rs_response_model s,
      rl_finish_reason = rs_finish_reason s, rl_service_tier = PStr ''default'',
      rl_tools = (case rs_tools s of None \<Rightarrow> PNone | Some ts \<Rightarrow> PList (map PDict ts)),
      rl_input_tokens = rs_input_tokens s, rl_output_tokens = rs_output_tokens s,
      rl_reasoning_tokens = rs_reasoning_tokens s, rl_cache_read_input_tokens = rs_cache_read_input_tokens s,
      rl_instructions = rs_instructions s, rl_server_address = server_address, rl_server_port = server_port\<rparr>"

definition process_streaming_response_response ::
  "instr_env \<Rightarrow> (string, pyval) dict \<Rightarrow> pyval \<Rightarrow> pyval \<Rightarrow> rat \<Rightarrow> (response_scope \<times> tele, unit) prog" where
  "process_streaming_response_response env kwargs server_address server_port end_time st =
     (case common_response_logic env True end_time (rl_of_stream kwargs server_address server_port (fst st)) (snd st) of
        (r, t) \<Rightarrow> (r, (fst st, t)))"

section \<open>Responses\<close>

definition output_tool :: "pyval \<Rightarrow> pyval res" where
  "output_tool item =
     res_bind (py_get item ''id'' (PStr [])) (\<lambda>i.
     res_bind (py_get item ''call_id'' (PStr [])) (\<lambda>c.
     res_bind (py_get item ''name'' (PStr [])) (\<lambda>n.
     res_bind (py_get item ''type'' (PStr ''function_call'')) (\<lambda>t.
     res_bind (py_get item ''arguments'' (PStr [])) (\<lambda>a.
     res_bind (py_get item ''status'' (PStr [])) (\<lambda>st.
       Inr (PDict [(''id'', i), (''call_id'', c), (''name'', n), (''type'', t), (''arguments'', a), (''status'', st)])))))))"

text \<open>The loop over the output items stops at the first message; a later function call replaces an earlier
  one.\<close>

fun scan_output :: "pyval list \<Rightarrow> pyval \<Rightarrow> (pyval \<times> pyval) res" where
  "scan_output [] tools = Inr (PNone, tools)"
| "scan_output (item # items) tools =
     res_bind (py_get item ''type'' PNone) (\<lambda>t.
     if t = PStr ''message'' then Inr (item, tools)
     else if t = PStr ''function_call'' then res_bind (output_tool item) (\<lambda>tool. scan_output items (PList [tool]))
     else scan_output items tools)"

definition message_item_text :: "pyval \<Rightarrow> pyval res" where
  "message_item_text message_item =
     (if py_truth message_item then
        res_bind (py_get message_item ''content'' (PList [])) (\<lambda>content.
        if py_truth content then
          res_bind (py_len content) (\<lambda>n.
          if n > 0 then res_bind (py_index content (PInt 0)) (\<lambda>c. py_get c ''text'' (PStr []))
          else Inr (PStr []))
        else Inr (PStr []))
      else Inr (PStr []))"

definition output_text_and_tools :: "pyval \<Rightarrow> (pyval \<times> pyval) res" where
  "output_text_and_tools output =
     (if py_truth output then
        res_bind (py_iter output) (\<lambda>items.
        res_bind (scan_output items PNone) (\<lambda>(message_item, tools).
        res_bind (message_item_text message_item) (\<lambda>text. Inr (text, tools))))
      else Inr (PStr [], PNone))"

definition rl_of_response :: "pyval \<Rightarrow> call \<Rightarrow> rl_scope res" where
  "rl_of_response response_dict c =
     res_bind (py_get response_dict ''output'' (PList [])) (\<lambda>output.
     res_bind (output_text_and_tools output) (\<lambda>(text, tools).
     res_bind (py_get response_dict ''id'' (PStr [])) (\<lambda>i.
     res_bind (py_get response_dict ''model'' (PStr [])) (\<lambda>m.
     res_bind (py_get response_dict ''usage'' (PDict [])) (\<lambda>usage.
     res_bind (py_get usage ''input_tokens'' (PInt 0)) (\<lambda>it.
     res_bind (py_get usage ''output_tokens'' (PInt 0)) (\<lambda>ot.
     res_bind (py_get usage ''output_tokens_details'' (PDict [])) (\<lambda>od.
     res_bind (py_get od ''reasoning_tokens'' (PInt 0)) (\<lambda>rt.
     res_bind (py_get usage ''input_tokens_details'' (PDict [])) (\<lambda>idt.
     res_bind (py_get idt ''cached_tokens'' (PInt 0)) (\<lambda>cached.
     res_bind (py_get response_dict ''service_tier'' (PStr ''default'')) (\<lambda>tier.
     res_bind (py_get response_dict ''status'' (PStr ''completed'')) (\<lambda>status.
     res_bind (py_get response_dict ''instructions'' PNone) (\<lambda>instr.
     Inr \<lparr>rl_kwargs = ca_kwargs c, rl_start_time = ck_start (ca_clock c), rl_timestamps = [],
       rl_ttft = ck_end (ca_clock c) - ck_start (ca_clock c), rl_llmresponse = text, rl_response_id = i,
       rl_response_model = m, rl_finish_reason = status, rl_service_tier = tier, rl_tools = tools,
       rl_input_tokens = it, rl_output_tokens = ot, rl_reasoning_tokens = rt, rl_cache_read_input_tokens = Some cached,
       rl_instructions = (if py_truth instr then PList [text_part instr] else PNone),
       rl_server_address = ca_server_address c, rl_server_port = ca_server_port c\<rparr>))))))))))))))"

definition process_response_response :: "instr_env \<Rightarrow> call \<Rightarrow> api_result \<Rightarrow> (tele, unit) prog" where
  "process_response_response env c response =
     pbind (plift (rl_of_response (response_as_dict (api_object response)) c)) (\<lambda>scope.
     common_response_logic env False (ck_logic (ca_clock c)) scope)"

section \<open>The call wrapper\<close>

definition initial_response_scope :: "rat \<Rightarrow> response_scope" where
  "initial_response_scope start_time =
     \<lparr>rs_start_time = start_time, rs_timestamps = [], rs_ttft = 0, rs_llmresponse = [], rs_response_id = PStr [],
      rs_response_model = PStr [], rs_finish_reason = PStr [], rs_instructions = PNone, rs_input_tokens = PInt 0,
      rs_output_tokens = PInt 0, rs_reasoning_tokens = PInt 0, rs_cache_read_input_tokens = None, rs_tools = None\<rparr>"

definition responses ::
  "instr_env \<Rightarrow> pyval \<Rightarrow> api_result res \<Rightarrow> (string, pyval) dict \<Rightarrow> clock \<Rightarrow> (tele, response_scope reply) prog" where
  "responses env client wrapped kwargs ck =
     pbind (plift (set_server_address_and_port client ''api.openai.com'' 443)) (\<lambda>(server_address, server_port).
     if py_truth (dget_or kwargs ''stream'' (PBool False)) then
       pbind (plift wrapped) (\<lambda>r.
       pbind (pgets (\<lambda>t. on_span (\<lambda>_. fresh_span) t)) (\<lambda>t.
       pret (Traced \<lparr>ts_stream = \<lparr>st_wrapped = api_items r, st_scope = initial_response_scope (ck_start ck), st_tele = t,
           st_finished = 0\<rparr>,
         ts_kwargs = kwargs, ts_server_address = server_address, ts_server_port = server_port\<rparr>)))
     else
       let c = \<lparr>ca_kwargs = kwargs, ca_server_address = server_address, ca_server_port = server_port, ca_clock = ck\<rparr>
       in pbind (guarded_call wrapped (process_response_response env c) (chat_failure env c)) (\<lambda>r. pret (Plain r)))"

definition responses_finish :: "instr_env \<Rightarrow> response_scope traced_stream \<Rightarrow> rat \<Rightarrow> (response_scope \<times> tele, unit) prog" where
  "responses_finish env ts end_time =
     process_streaming_response_response env (ts_kwargs ts) (ts_server_address ts) (ts_server_port ts) end_time"

end
