(* ===== verification/OpenAIMedia.thy ===== *)
theory OpenAIMedia
  imports OpenAIChat
begin

text \<open>
  Embeddings, images and speech of \<open>openlit/instrumentation/openai\<close>: the three \<open>common_..._logic\<close> functions
  and their callers in \<open>utils.py\<close>, and the call wrappers of \<open>openai.py\<close>.
\<close>

section \<open>What the three have in common\<close>

definition media_common_span :: "instr_env \<Rightarrow> string \<Rightarrow> pyval \<Rightarrow> call \<Rightarrow> common_span" where
  "media_common_span env operation request_model c =
     \<lparr>cs_operation = operation, cs_provider = GEN_AI_SYSTEM_OPENAI,
      cs_server_address = ca_server_address c, cs_server_port = ca_server_port c,
      cs_request_model = request_model, cs_response_model = request_model,
      cs_environment = ie_environment env, cs_application_name = ie_application_name env, cs_is_stream = False,
      cs_tbt = 0, cs_ttft = ck_end (ca_clock c) - ck_start (ca_clock c), cs_version = ie_version env\<rparr>"

definition media_metric_args :: "instr_env \<Rightarrow> string \<Rightarrow> call \<Rightarrow> pyval \<Rightarrow> pyval \<Rightarrow> metric_args" where
  "media_metric_args env operation c request_model response_model =
     \<lparr>ma_service_name = ie_application_name env, ma_environment = ie_environment env,
      ma_operation = operation, ma_system = GEN_AI_SYSTEM_OPENAI, ma_request_model = request_model,
      ma_server_address = ca_server_address c, ma_server_port = ca_server_port c, ma_response_model = response_model\<rparr>"

definition role_message :: "string \<Rightarrow> pyval list \<Rightarrow> pyval" where
  "role_message role parts = PDict [(''role'', PStr role), (''parts'', PList parts)]"

definition media_emit ::
  "instr_env \<Rightarrow> string \<Rightarrow> pyval \<Rightarrow> call \<Rightarrow> pyval \<Rightarrow> pyval \<Rightarrow> (string \<times> pyval) list \<Rightarrow> (tele, unit) prog" where
  "media_emit env operation request_model c input_msgs output_msgs extra =
     pwhen (ie_event_provider env)
       (ptry
         (emit_inference_event env
            \<lparr>if_operation_name = operation, if_request_model = request_model, if_response_model = request_model,
             if_input_messages = input_msgs, if_output_messages = output_msgs, if_tool_definitions = PNone,
             if_server_address = ca_server_address c, if_server_port = ca_server_port c\<rparr> extra)
         (warn_step ''Failed to emit inference event: %s''))"

section \<open>Embeddings\<close>

text \<open>\<open>int(dim_count)\<close> raises \<open>TypeError\<close> or \<open>ValueError\<close> only, which are caught.\<close>

definition dimension_attribute :: "(string, pyval) dict \<Rightarrow> pyval \<Rightarrow> (tele, unit) prog" where
  "dimension_attribute kwargs embedding_dimension =
     (let dim_count = kwarg kwargs ''dimensions'' PNone;
          dim_count = (if dim_count = PNone \<and> embedding_dimension \<noteq> PNone then embedding_dimension else dim_count)
      in pwhen (dim_count \<noteq> PNone)
           (case py_int dim_count of
              Inr n \<Rightarrow> span_attr GEN_AI_EMBEDDINGS_DIMENSION_COUNT (PInt n)
            | Inl e \<Rightarrow> pret ()))"

definition embedding_input_messages :: "(pyval \<Rightarrow> string) \<Rightarrow> pyval \<Rightarrow> pyval list" where
  "embedding_input_messages repr input_data =
     (case input_data of
        PList items \<Rightarrow> map (\<lambda>item. role_message ''user'' [text_part (PStr (py_str repr item))]) items
      | _ \<Rightarrow> [role_message ''user'' [text_part (PStr (py_str repr input_data))]])"

definition embedding_content :: "instr_env \<Rightarrow> pyval \<Rightarrow> pyval \<Rightarrow> call \<Rightarrow> (tele, unit) prog" where
  "embedding_content env request_model input_tokens c =
     pbind (set_span_messages_as_array env
       (PList (embedding_input_messages (ie_repr env) (dget_or (ca_kwargs c) ''input'' (PStr [])))) PNone) (\<lambda>msgs.
     media_emit env GEN_AI_OPERATION_TYPE_EMBEDDING request_model c (fst msgs) PNone [(''input_tokens'', input_tokens)])"

definition common_embedding_logic :: "instr_env \<Rightarrow> pyval \<Rightarrow> pyval \<Rightarrow> pyval \<Rightarrow> call \<Rightarrow> (tele, unit) prog" where
  "common_embedding_logic env request_model input_tokens embedding_dimension c =
     (let kwargs = ca_kwargs c;
          cost = get_embed_model_cost request_model (ie_pricing_info env) input_tokens
      in pbind (span_step (common_span_attributes (media_common_span env GEN_AI_OPERATION_TYPE_EMBEDDING request_model c))) (\<lambda>_.
         pbind (span_attr GEN_AI_REQUEST_ENCODING_FORMATS (PList [kwarg kwargs ''encoding_format'' (PStr ''float'')])) (\<lambda>_.
         pbind (span_attr GEN_AI_REQUEST_USER (kwarg kwargs ''user'' (PStr []))) (\<lambda>_.
         pbind (dimension_attribute kwargs embedding_dimension) (\<lambda>_.
         pbind (span_attr GEN_AI_USAGE_INPUT_TOKENS input_tokens) (\<lambda>_.
         pbind (span_attr GEN_AI_CLIENT_TOKEN_USAGE input_tokens) (\<lambda>_.
         pbind (span_attr GEN_AI_USAGE_COST cost) (\<lambda>_.
         pbind (pwhen (ie_capture_message_content env) (embedding_content env request_model input_tokens c)) (\<lambda>_.
         pbind (span_step (set_status StatusOk)) (\<lambda>_.
         pwhen (\<not> ie_disable_metrics env)
           (metric_step env (\<lambda>m. record_embedding_metrics m
              (media_metric_args env GEN_AI_OPERATION_TYPE_EMBEDDING c request_model request_model)
              (ck_start (ca_clock c)) (ck_end (ca_clock c)) (as_int input_tokens) cost None))))))))))))"

text \<open>The length of the first embedding, when the response holds one.\<close>

definition response_dimension :: "pyval \<Rightarrow> pyval res" where
  "response_dimension data =
     (if py_truth data then
        res_bind (py_index data (PInt 0)) (\<lambda>d0.
        case d0 of
          PDict d \<Rightarrow> (if py_truth (dget_or d ''embedding'' PNone)
            then res_bind (py_len (dget_or d ''embedding'' PNone)) (\<lambda>n. Inr (PInt (int n))) else Inr PNone)
        | _ \<Rightarrow> Inr PNone)
      else Inr PNone)"

definition embedding_usage :: "pyval \<Rightarrow> (pyval \<times> pyval) res" where
  "embedding_usage response_dict =
     res_bind (py_get response_dict ''usage'' (PDict [])) (\<lambda>usage.
     res_bind (py_get usage ''prompt_tokens'' (PInt 0)) (\<lambda>input_tokens.
     res_bind (py_get response_dict ''data'' (PList [])) (\<lambda>data.
     res_bind (response_dimension data) (\<lambda>dim. Inr (input_tokens, dim)))))"

definition process_embedding_response :: "instr_env \<Rightarrow> pyval \<Rightarrow> call \<Rightarrow> api_result \<Rightarrow> (tele, unit) prog" where
  "process_embedding_response env request_model c response =
     pbind (plift (embedding_usage (response_as_dict (api_object response)))) (\<lambda>(input_tokens, dim).
     common_embedding_logic env request_model input_tokens dim c)"

section \<open>Images\<close>

definition image_content :: "pyval \<Rightarrow> pyval list res" where
  "image_content img =
     res_bind (py_get img ''url'' PNone) (\<lambda>u.
     if py_truth u then Inr [u]
     else res_bind (py_get img ''b64_json'' PNone) (\<lambda>b.
       Inr (if py_truth b then [PStr ''[base64_image_data]''] else [])))"

text \<open>The data of the response as the loops see it.\<close>

definition images_of :: "pyval \<Rightarrow> pyval list res" where
  "images_of images_data = (if py_truth images_data then py_iter images_data else Inr [])"

definition image_data_attribute :: "pyval \<Rightarrow> (tele, unit) prog" where
  "image_data_attribute images_data =
     pbind (plift (images_of images_data)) (\<lambda>images.
     pbind (plift (res_map image_content images)) (\<lambda>contents.
     pwhen (concat contents \<noteq> []) (span_attr GEN_AI_RESPONSE_IMAGE (PList (concat contents)))))"

definition revised_prompt :: "pyval \<Rightarrow> pyval list res" where
  "revised_prompt img =
     res_bind (py_get img ''revised_prompt'' PNone) (\<lambda>r. Inr (if py_truth r then [r] else []))"

definition image_message :: "pyval \<Rightarrow> pyval list res" where
  "image_message img =
     res_bind (revised_prompt img) (\<lambda>r.
     res_bind (py_get img ''url'' PNone) (\<lambda>u.
     let parts = map text_part r @ (if py_truth u then [uri_part u] else [])
     in Inr (if parts = [] then [] else [assistant_message parts (PStr ''stop'')])))"

definition prompt_messages :: "pyval \<Rightarrow> pyval list" where
  "prompt_messages prompt = (if py_truth prompt then [role_message ''user'' [text_part prompt]] else [])"

definition image_record :: "instr_env \<Rightarrow> pyval \<Rightarrow> pyval \<Rightarrow> call \<Rightarrow> pyval list \<Rightarrow> (tele, unit) prog" where
  "image_record env request_model response_created c output_msgs =
     pbind (set_span_messages_as_array env (PList (prompt_messages (dget_or (ca_kwargs c) ''prompt'' (PStr []))))
       (if output_msgs = [] then PNone else PList output_msgs)) (\<lambda>msgs.
     media_emit env GEN_AI_OPERATION_TYPE_IMAGE request_model c (fst msgs) (snd msgs)
       [(''response_id'', if py_truth response_created then PStr (py_str (ie_repr env) response_created) else PNone),
        (''output_type'', PStr ''image''),
        (''choice_count'', dget_or (ca_kwargs c) ''n'' (PInt 1))])"

definition image_content_attributes :: "instr_env \<Rightarrow> pyval \<Rightarrow> pyval \<Rightarrow> pyval \<Rightarrow> call \<Rightarrow> (tele, unit) prog" where
  "image_content_attributes env request_model images_data response_created c =
     pbind (plift (images_of images_data)) (\<lambda>images.
     pbind (plift (res_map revised_prompt images)) (\<lambda>revised.
     pbind (pwhen (concat revised \<noteq> []) (span_attr GEN_AI_CONTENT_REVISED_PROMPT (PList (concat revised)))) (\<lambda>_.
     pbind (plift (res_map image_message images)) (\<lambda>output_msgs.
     image_record env request_model response_created c (concat output_msgs)))))"

definition image_request_attributes :: "(string, pyval) dict \<Rightarrow> (tele, unit) prog" where
  "image_request_attributes kwargs =
     pbind (span_attr GEN_AI_REQUEST_IMAGE_SIZE (kwarg kwargs ''size'' (PStr ''1024x1024''))) (\<lambda>_.
     pbind (span_attr GEN_AI_REQUEST_IMAGE_QUALITY (kwarg kwargs ''quality'' (PStr ''standard''))) (\<lambda>_.
     span_attr GEN_AI_REQUEST_USER (kwarg kwargs ''user'' (PStr []))))"

text \<open>The five fields the logic reads of the response, in the order it reads them.\<close>

definition image_fields :: "pyval \<Rightarrow> (pyval \<times> pyval \<times> pyval \<times> pyval \<times> pyval) res" where
  "image_fields response_dict =
     res_bind (py_get response_dict ''data'' (PList [])) (\<lambda>images_data.
     res_bind (py_get response_dict ''created'' PNone) (\<lambda>created.
     res_bind (py_get response_dict ''size'' PNone) (\<lambda>size.
     res_bind (py_get response_dict ''quality'' PNone) (\<lambda>quality.
     res_bind (py_get response_dict ''output_format'' PNone) (\<lambda>fmt. Inr (images_data, created, size, quality, fmt))))))"

definition common_image_logic :: "instr_env \<Rightarrow> pyval \<Rightarrow> pyval \<Rightarrow> call \<Rightarrow> (tele, unit) prog" where
  "common_image_logic env request_model response_dict c =
     (let kwargs = ca_kwargs c;
          cost = get_image_model_cost request_model (ie_pricing_info env) (dget_or kwargs ''size'' (PStr ''1024x1024''))
            (dget_or kwargs ''quality'' (PStr ''standard''))
      in pbind (span_step (common_span_attributes (media_common_span env GEN_AI_OPERATION_TYPE_IMAGE request_model c))) (\<lambda>_.
         pbind (image_request_attributes kwargs) (\<lambda>_.
         pbind (plift (image_fields response_dict)) (\<lambda>(images_data, created, size, quality, fmt).
         pbind (pwhen (py_truth created) (span_attr GEN_AI_RESPONSE_ID (PStr (py_str (ie_repr env) created)))) (\<lambda>_.
         pbind (image_data_attribute images_data) (\<lambda>_.
         pbind (pwhen (py_truth size) (span_attr ''gen_ai.response.image_size'' size)) (\<lambda>_.
         pbind (pwhen (py_truth quality) (span_attr ''gen_ai.response.image_quality'' quality)) (\<lambda>_.
         pbind (pwhen (py_truth fmt) (span_attr ''gen_ai.response.output_format'' fmt)) (\<lambda>_.
         pbind (span_attr GEN_AI_USAGE_COST cost) (\<lambda>_.
         pbind (pwhen (ie_capture_message_content env)
           (image_content_attributes env request_model images_data created c)) (\<lambda>_.
         pbind (span_step (set_status StatusOk)) (\<lambda>_.
         pwhen (\<not> ie_disable_metrics env)
           (metric_step env (\<lambda>m. record_image_metrics m
              (media_metric_args env GEN_AI_OPERATION_TYPE_IMAGE c request_model request_model)
              (ck_start (ca_clock c)) (ck_end (ca_clock c)) cost))))))))))))))"

definition process_image_response :: "instr_env \<Rightarrow> pyval \<Rightarrow> call \<Rightarrow> api_result \<Rightarrow> (tele, unit) prog" where
  "process_image_response env request_model c response =
     common_image_logic env request_model (response_as_dict (api_object response)) c"

section \<open>Speech\<close>

definition audio_content :: "instr_env \<Rightarrow> pyval \<Rightarrow> call \<Rightarrow> (tele, unit) prog" where
  "audio_content env request_model c =
     pbind (set_span_messages_as_array env (PList (prompt_messages (dget_or (ca_kwargs c) ''input'' (PStr []))))
       (PList [assistant_message [text_part (PStr ''[audio generated]'')] (PStr ''stop'')])) (\<lambda>msgs.
     media_emit env GEN_AI_OPERATION_TYPE_AUDIO request_model c (fst msgs) (snd msgs) [])"

definition common_audio_logic :: "instr_env \<Rightarrow> pyval \<Rightarrow> call \<Rightarrow> (tele, unit) prog" where
  "common_audio_logic env request_model c =
     (let kwargs = ca_kwargs c;
          cost = get_audio_model_cost request_model (ie_pricing_info env) (dget_or kwargs ''input'' (PStr [])) PNone
      in pbind (span_step (common_span_attributes (media_common_span env GEN_AI_OPERATION_TYPE_AUDIO request_model c))) (\<lambda>_.
         pbind (span_attr GEN_AI_REQUEST_AUDIO_VOICE (kwarg kwargs ''voice'' (PStr ''alloy''))) (\<lambda>_.
         pbind (span_attr GEN_AI_REQUEST_AUDIO_RESPONSE_FORMAT (kwarg kwargs ''response_format'' (PStr ''mp3''))) (\<lambda>_.
         pbind (span_attr GEN_AI_REQUEST_AUDIO_SPEED (kwarg kwargs ''speed'' (PFloat 1))) (\<lambda>_.
         pbind (span_attr GEN_AI_USAGE_COST cost) (\<lambda>_.
         pbind (pwhen (ie_capture_message_content env) (audio_content env request_model c)) (\<lambda>_.
         pbind (span_step (set_status StatusOk)) (\<lambda>_.
         pwhen (\<not> ie_disable_metrics env)
           (metric_step env (\<lambda>m. record_audio_metrics m
              (media_metric_args env GEN_AI_OPERATION_TYPE_AUDIO c request_model request_model)
              (ck_start (ca_clock c)) (ck_end (ca_clock c)) cost))))))))))"

definition process_audio_response :: "instr_env \<Rightarrow> pyval \<Rightarrow> call \<Rightarrow> api_result \<Rightarrow> (tele, unit) prog" where
  "process_audio_response env request_model c response = common_audio_logic env request_model c"

section \<open>The call wrappers\<close>

definition embedding_model :: "call \<Rightarrow> pyval" where
  "embedding_model c = dget_or (ca_kwargs c) ''model'' (PStr ''text-embedding-ada-002'')"

definition image_model :: "call \<Rightarrow> pyval" where
  "image_model c = dget_or (ca_kwargs c) ''model'' (PStr ''dall-e-2'')"

definition audio_model :: "call \<Rightarrow> pyval" where
  "audio_model c = dget_or (ca_kwargs c) ''model'' (PStr ''tts-1'')"

definition embedding_failure :: "instr_env \<Rightarrow> call \<Rightarrow> pyexc \<Rightarrow> (tele, unit) prog" where
  "embedding_failure env c e =
     pbind (span_step (handle_exception e)) (\<lambda>_.
     pwhen (\<not> ie_disable_metrics env \<and> \<not> falsy_metrics (ie_metrics env))
       (metric_step env (\<lambda>m. record_embedding_metrics m
          (media_metric_args env GEN_AI_OPERATION_TYPE_EMBEDDING c (embedding_model c) (PStr ''unknown''))
          (ck_start (ca_clock c)) (ck_failure (ca_clock c)) (Some 0) (PInt 0)
          (Some (if class_name (exc_class e) = [] then ''_OTHER'' else class_name (exc_class e))))))"

text \<open>Images and speech reuse the recorder of completions, with the end time read after the call.\<close>

definition media_failure :: "instr_env \<Rightarrow> string \<Rightarrow> pyval \<Rightarrow> call \<Rightarrow> pyexc \<Rightarrow> (tele, unit) prog" where
  "media_failure env operation request_model c =
     completion_failure env (media_metric_args env operation c request_model (PStr ''unknown''))
       (ck_start (ca_clock c)) (ck_end (ca_clock c))"

text \<open>Address, span, call, processing.\<close>

definition media_wrapper ::
  "(call \<Rightarrow> api_result \<Rightarrow> (tele, unit) prog) \<Rightarrow> (call \<Rightarrow> pyexc \<Rightarrow> (tele, unit) prog)
    \<Rightarrow> pyval \<Rightarrow> api_result res \<Rightarrow> (string, pyval) dict \<Rightarrow> clock \<Rightarrow> (tele, api_result) prog" where
  "media_wrapper process failure client wrapped kwargs ck =
     pbind (plift (set_server_address_and_port client ''api.openai.com'' 443)) (\<lambda>(server_address, server_port).
     let c = \<lparr>ca_kwargs = kwargs, ca_server_address = server_address, ca_server_port = server_port, ca_clock = ck\<rparr>
     in guarded_call wrapped (process c) (failure c))"

definition embedding :: "instr_env \<Rightarrow> pyval \<Rightarrow> api_result res \<Rightarrow> (string, pyval) dict \<Rightarrow> clock \<Rightarrow> (tele, api_result) prog" where
  "embedding env = media_wrapper (\<lambda>c. process_embedding_response env (embedding_model c) c) (embedding_failure env)"

definition image_generate :: "instr_env \<Rightarrow> pyval \<Rightarrow> api_result res \<Rightarrow> (string, pyval) dict \<Rightarrow> clock \<Rightarrow> (tele, api_result) prog" where
  "image_generate env = media_wrapper (\<lambda>c. process_image_response env (image_model c) c)
     (\<lambda>c. media_failure env GEN_AI_OPERATION_TYPE_IMAGE (image_model c) c)"

definition image_variatons :: "instr_env \<Rightarrow> pyval \<Rightarrow> api_result res \<Rightarrow> (string, pyval) dict \<Rightarrow> clock \<Rightarrow> (tele, api_result) prog" where
  "image_variatons env = media_wrapper (\<lambda>c. process_image_response env (image_model c) c)
     (\<lambda>c. media_failure env GEN_AI_OPERATION_TYPE_IMAGE (image_model c) c)"

definition audio_create :: "instr_env \<Rightarrow> pyval \<Rightarrow> api_result res \<Rightarrow> (string, pyval) dict \<Rightarrow> clock \<Rightarrow> (tele, api_result) prog" where
  "audio_create env = media_wrapper (\<lambda>c. process_audio_response env (audio_model c) c)
     (\<lambda>c. media_failure env GEN_AI_OPERATION_TYPE_AUDIO (audio_model c) c)"

end
