(* ===== verification/OpenAIMediaProps.thy ===== *)
theory OpenAIMediaProps
  imports OpenAIResponses OpenAIMedia OpenAIChatProps
begin

text \<open>
  The responses API, embeddings, images and speech satisfy the contract of a traced operation; what each
  reads of its response; and where the code falls short.
\<close>

section \<open>Only ordinary exceptions\<close>

lemma ordinary_rl_tokens [ordinary_intros]: "ordinary (rl_tokens prompt scope)"
  unfolding rl_tokens_def by (rule ordinary_intros)+

lemma ordinary_positive [ordinary_intros]: "ordinary (py_positive v)"
  by (simp add: py_positive_def ordinary_def unsupported_def split: option.split)

lemma ordinary_response_tool_row [ordinary_intros]: "ordinary (response_tool_row repr t)"
  unfolding response_tool_row_def by (rule ordinary_intros)+

lemma ordinary_output_tool [ordinary_intros]: "ordinary (output_tool item)"
  unfolding output_tool_def by (rule ordinary_intros)+

lemma ordinary_scan [ordinary_intros]: "ordinary (scan_output items tools)"
  by (induction items arbitrary: tools) (simp_all, (rule ordinary_intros | assumption)+)

lemma ordinary_prod [ordinary_intros]: "(\<And>x y. ordinary (f x y)) \<Longrightarrow> ordinary (case p of (x, y) \<Rightarrow> f x y)"
  by (cases p) simp

lemma ordinary_rl_of_response [ordinary_intros]: "ordinary (rl_of_response d c)"
  unfolding rl_of_response_def output_text_and_tools_def message_item_text_def
  by (rule ordinary_intros)+

lemma ordinary_media [ordinary_intros]:
  "ordinary (embedding_usage d)" "ordinary (image_content img)" "ordinary (images_of d)" "ordinary (revised_prompt img)"
  "ordinary (image_message img)" "ordinary (image_fields d)"
  unfolding embedding_usage_def response_dimension_def image_content_def images_of_def revised_prompt_def
    image_message_def image_fields_def Let_def
  by (rule ordinary_intros)+

lemma raises_prod [raises_intros]: "(\<And>x y. raises_only P (f x y)) \<Longrightarrow> raises_only P (case p of (x, y) \<Rightarrow> f x y)"
  by (cases p) simp

lemma keeps_prod [keeps_intros]: "(\<And>x y. keeps g (f x y)) \<Longrightarrow> keeps g (case p of (x, y) \<Rightarrow> f x y)"
  by (cases p) simp

section \<open>Responses\<close>

lemma raises_response_logic:
  assumes "usable env"
  shows "raises_only is_Exception (common_response_logic env is_stream end_time scope)"
proof -
  have t: "tame env" and m: "ie_metrics env = None \<or> ie_metrics env = Some metrics_dict" using assms by (simp_all add: usable_def)
  have attrs: "raises_only is_Exception (response_request_attributes kwargs)"
    "raises_only is_Exception (response_tier_attributes env scope)" "raises_only is_Exception (response_id_attributes scope)"
    "raises_only is_Exception (response_tool_attributes env scope)"
    "raises_only is_Exception (response_usage_attributes scope tokens cost)" for kwargs tokens cost
    unfolding response_request_attributes_def response_tier_attributes_def response_id_attributes_def
      response_tool_attributes_def response_usage_attributes_def Let_def
    by (rule raises_intros ordinary_intros | simp)+
  have emit: "raises_only P (response_emit env scope tokens i out)" for P tokens i out
    unfolding response_emit_def by (rule raises_intros t)+
  have content: "raises_only is_Exception (response_content env scope tokens)" for tokens
    unfolding response_content_def by (rule raises_intros ordinary_intros tameD [OF t] emit t | simp)+
  show ?thesis
    unfolding common_response_logic_def Let_def
    by (rule raises_intros ordinary_intros attrs content raises_metric_step [OF m])+
qed

lemma keeps_response_uncaptured:
  assumes "\<not> ie_capture_message_content env"
  shows "keeps (span_view content_keys) (common_response_logic env is_stream end_time scope)"
    and "keeps tl_events (common_response_logic env is_stream end_time scope)"
proof -
  have view: "keeps (span_view content_keys) (response_request_attributes kwargs)"
    "keeps (span_view content_keys) (response_tier_attributes env scope)"
    "keeps (span_view content_keys) (response_id_attributes scope)"
    "keeps (span_view content_keys) (response_tool_attributes env scope)"
    "keeps (span_view content_keys) (response_usage_attributes scope tokens cost)" for kwargs tokens cost
    unfolding response_request_attributes_def response_tier_attributes_def response_id_attributes_def
      response_tool_attributes_def response_usage_attributes_def Let_def
    by (rule keeps_intros | (simp add: content_keys_def semconv; fail))+
  have events: "keeps tl_events (response_request_attributes kwargs)"
    "keeps tl_events (response_tier_attributes env scope)" "keeps tl_events (response_id_attributes scope)"
    "keeps tl_events (response_tool_attributes env scope)"
    "keeps tl_events (response_usage_attributes scope tokens cost)" for kwargs tokens cost
    unfolding response_request_attributes_def response_tier_attributes_def response_id_attributes_def
      response_tool_attributes_def response_usage_attributes_def Let_def
    by (rule keeps_events keeps_intros)+
  show "keeps (span_view content_keys) (common_response_logic env is_stream end_time scope)"
    unfolding common_response_logic_def Let_def using assms
    by (auto intro!: keeps_pbind keeps_basic keeps_pwhen keeps_metric_step keeps_view_other view content_keys_fresh
        simp: span_view_def)
  show "keeps tl_events (common_response_logic env is_stream end_time scope)"
    unfolding common_response_logic_def Let_def using assms
    by (auto intro!: keeps_pbind keeps_basic keeps_pwhen keeps_metric_step keeps_events events)
qed

interpretation response: traced_operation process_response_response chat_failure
proof unfold_locales
  fix env c r
  show "usable env \<Longrightarrow> raises_only is_Exception (process_response_response env c r)"
    unfolding process_response_response_def by (rule raises_intros ordinary_intros raises_response_logic | assumption)+
  show "\<not> ie_capture_message_content env \<Longrightarrow> keeps (span_view content_keys) (process_response_response env c r)
      \<and> keeps tl_events (process_response_response env c r)"
    unfolding process_response_response_def by (intro conjI keeps_pbind keeps_basic keeps_response_uncaptured)
qed (simp_all add: chat.failure_returns chat.failure_private)

section \<open>Embeddings, images and speech\<close>

text \<open>A recorder on the full set of instruments, or on none, raises nothing but \<open>TypeError\<close>.\<close>

lemma embedding_metrics_full:
  "record_embedding_metrics metrics_dict args t0 t1 n cost et ms = (Inr (), ms
     @ (if truthy n then [measured ''genai_client_usage_tokens'' (PInt (the n))
          (token_attributes GEN_AI_TOKEN_TYPE_INPUT (create_metrics_attributes None args None et False))] else [])
     @ [measured ''genai_client_operation_duration'' (PFloat (t1 - t0)) (create_metrics_attributes None args None et False),
        measured ''genai_cost'' cost (create_metrics_attributes None args None et False)])"
proof -
  have "dmem ''genai_cost'' metrics_dict" by (simp add: metric_key_present histogram_keys_def)
  then show ?thesis
    by (simp add: record_embedding_metrics_def Let_def record_metric_emit histogram_keys_def)
qed

lemma media_metrics_full:
  "record_image_metrics metrics_dict args t0 t1 cost ms = (Inr (), ms
     @ [measured ''genai_client_operation_duration'' (PFloat (t1 - t0)) (create_metrics_attributes None args None None False),
        measured ''genai_cost'' cost (create_metrics_attributes None args None None False)])"
  "record_audio_metrics metrics_dict args t0 t1 cost ms = (Inr (), ms
     @ [measured ''genai_client_operation_duration'' (PFloat (t1 - t0)) (create_metrics_attributes None args None None False),
        measured ''genai_cost'' cost (create_metrics_attributes None args None None False)])"
proof -
  have "dmem ''genai_cost'' metrics_dict" by (simp add: metric_key_present histogram_keys_def)
  then show
    "record_image_metrics metrics_dict args t0 t1 cost ms = (Inr (), ms
     @ [measured ''genai_client_operation_duration'' (PFloat (t1 - t0)) (create_metrics_attributes None args None None False),
        measured ''genai_cost'' cost (create_metrics_attributes None args None None False)])"
    "record_audio_metrics metrics_dict args t0 t1 cost ms = (Inr (), ms
     @ [measured ''genai_client_operation_duration'' (PFloat (t1 - t0)) (create_metrics_attributes None args None None False),
        measured ''genai_cost'' cost (create_metrics_attributes None args None None False)])"
    by (simp_all add: record_image_metrics_def record_audio_metrics_def Let_def record_metric_emit histogram_keys_def)
qed

lemma raises_media_metrics:
  assumes "ie_metrics env = None \<or> ie_metrics env = Some metrics_dict"
  shows "raises_only is_Exception (metric_step env (\<lambda>m. record_embedding_metrics m args t0 t1 n cost et))"
    "raises_only is_Exception (metric_step env (\<lambda>m. record_image_metrics m args t0 t1 cost))"
    "raises_only is_Exception (metric_step env (\<lambda>m. record_audio_metrics m args t0 t1 cost))"
  using assms by (auto simp: raises_only_def metric_step_def embedding_metrics_full media_metrics_full)

lemma raises_dimension [raises_intros]: "raises_only P (dimension_attribute kwargs d)"
  unfolding dimension_attribute_def Let_def
  by (rule raises_only_pwhen) (auto split: sum.split intro!: raises_intros)

lemma returns_media_emit: "tame env \<Longrightarrow> raises_only P (media_emit env op m c i out extra)"
  unfolding media_emit_def by (rule raises_intros | assumption)+

lemma raises_media:
  assumes "usable env"
  shows "raises_only is_Exception (process_embedding_response env m c r)"
    and "raises_only is_Exception (process_image_response env m c r)"
    and "raises_only is_Exception (process_audio_response env m c r)"
proof -
  have t: "tame env" and mt: "ie_metrics env = None \<or> ie_metrics env = Some metrics_dict" using assms by (simp_all add: usable_def)
  have content: "raises_only is_Exception (embedding_content env m n c)"
    "raises_only is_Exception (image_content_attributes env m d cr c)"
    "raises_only is_Exception (audio_content env m c)" for n d cr
    unfolding embedding_content_def image_content_attributes_def image_record_def audio_content_def
    by (rule raises_intros ordinary_intros returns_media_emit t)+
  have attrs: "raises_only is_Exception (image_request_attributes kw)" "raises_only is_Exception (image_data_attribute d)" for kw d
    unfolding image_request_attributes_def image_data_attribute_def by (rule raises_intros ordinary_intros)+
  show "raises_only is_Exception (process_embedding_response env m c r)"
    "raises_only is_Exception (process_image_response env m c r)"
    "raises_only is_Exception (process_audio_response env m c r)"
    unfolding process_embedding_response_def common_embedding_logic_def process_image_response_def common_image_logic_def
      process_audio_response_def common_audio_logic_def Let_def
    by (rule raises_intros ordinary_intros content attrs raises_media_metrics [OF mt])+
qed

lemma keeps_media_uncaptured:
  assumes "\<not> ie_capture_message_content env"
    and attr: "\<And>k v. k \<notin> set content_keys \<Longrightarrow> keeps f (span_attr k v)"
    and common: "\<And>c. keeps f (span_step (common_span_attributes c))" "keeps f (span_step (set_status StatusOk))"
    and metrics: "\<And>t ms. f (t\<lparr>tl_measurements := ms\<rparr>) = f t"
  shows "keeps f (process_embedding_response env m c r)"
    and "keeps f (process_image_response env m c r)"
    and "keeps f (process_audio_response env m c r)"
proof -
  have sets: "keeps f (image_request_attributes kw)" "keeps f (image_data_attribute d)" "keeps f (dimension_attribute kw d)" for kw d
    unfolding image_request_attributes_def image_data_attribute_def dimension_attribute_def Let_def
    by (auto intro!: keeps_intros attr simp: content_keys_def semconv split: sum.split)
  show "keeps f (process_embedding_response env m c r)"
    "keeps f (process_image_response env m c r)"
    "keeps f (process_audio_response env m c r)"
    unfolding process_embedding_response_def common_embedding_logic_def process_image_response_def common_image_logic_def
      process_audio_response_def common_audio_logic_def Let_def
    by (auto intro!: keeps_pbind keeps_basic keeps_pwhen keeps_prod keeps_metric_step sets common attr metrics
        simp: assms(1) content_keys_def semconv)
qed

lemma private_media:
  assumes "\<not> ie_capture_message_content env"
  shows "keeps (span_view content_keys) (process_embedding_response env m c r) \<and> keeps tl_events (process_embedding_response env m c r)"
    and "keeps (span_view content_keys) (process_image_response env m c r) \<and> keeps tl_events (process_image_response env m c r)"
    and "keeps (span_view content_keys) (process_audio_response env m c r) \<and> keeps tl_events (process_audio_response env m c r)"
  by (intro conjI keeps_media_uncaptured [OF assms] keeps_view_attr keeps_view_other content_keys_fresh keeps_events;
      simp add: span_view_def)+

lemma media_failure_laws:
  "usable env \<Longrightarrow> returns (media_failure env op m c e)"
  "keeps (span_view content_keys) (media_failure env op m c e) \<and> keeps tl_events (media_failure env op m c e)"
  by (simp_all add: media_failure_def usable_def returns_completion_failure keeps_completion_failure)

lemma embedding_failure_laws:
  "usable env \<Longrightarrow> returns (embedding_failure env c e)"
  "keeps (span_view content_keys) (embedding_failure env c e) \<and> keeps tl_events (embedding_failure env c e)"
proof -
  show "usable env \<Longrightarrow> returns (embedding_failure env c e)"
    unfolding embedding_failure_def
    by (auto simp: raises_only_def usable_def metric_step_def embedding_metrics_full falsy_metrics_def pbind_def span_step_def
        pwhen_def split: if_splits)
  have "span_view content_keys (on_span (handle_exception e) t) = span_view content_keys t" for t
    by (simp add: span_view_def on_span_def handle_exception_def Let_def set_attribute_def set_status_def
        record_exception_def content_keys_def semconv)
  then show "keeps (span_view content_keys) (embedding_failure env c e) \<and> keeps tl_events (embedding_failure env c e)"
    unfolding embedding_failure_def
    by (intro conjI keeps_pbind keeps_pwhen keeps_metric_step keeps_span_step keeps_events) (simp_all add: span_view_def)
qed

interpretation embeddings: traced_operation "\<lambda>env c. process_embedding_response env (embedding_model c) c" embedding_failure
  by unfold_locales (simp_all add: raises_media private_media embedding_failure_laws)

interpretation images: traced_operation "\<lambda>env c. process_image_response env (image_model c) c"
    "\<lambda>env c. media_failure env GEN_AI_OPERATION_TYPE_IMAGE (image_model c) c"
  by unfold_locales (simp_all add: raises_media private_media media_failure_laws)

interpretation speech: traced_operation "\<lambda>env c. process_audio_response env (audio_model c) c"
    "\<lambda>env c. media_failure env GEN_AI_OPERATION_TYPE_AUDIO (audio_model c) c"
  by unfold_locales (simp_all add: raises_media private_media media_failure_laws)

section \<open>Properties\<close>

lemma media_wrapper_address:
  assumes "set_server_address_and_port client ''api.openai.com'' 443 = Inr (a, p)"
    and "c = \<lparr>ca_kwargs = kwargs, ca_server_address = a, ca_server_port = p, ca_clock = ck\<rparr>"
  shows "media_wrapper process failure client wrapped kwargs ck = guarded_call wrapped (process c) (failure c)"
  using assms by (simp add: media_wrapper_def Let_def)

text \<open>Every wrapper of the OpenAI client that does not stream gives exactly what the wrapped call gives, its
  value or its exception, and ends its span, whatever the response looks like.\<close>

theorem openai_wrappers_transparent:
  assumes env: "usable env" and address: "set_server_address_and_port client ''api.openai.com'' 443 = Inr (a, p)"
    and "\<not> py_truth (dget_or kwargs ''stream'' (PBool False))"
  shows "list_all (\<lambda>m. fst (m t) = wrapped \<and> sp_ended (tl_span (snd (m t))))
      [chat_completions_parse env client wrapped kwargs ck, embedding env client wrapped kwargs ck,
       image_generate env client wrapped kwargs ck, image_variatons env client wrapped kwargs ck,
       audio_create env client wrapped kwargs ck]
    \<and> fst (responses env client wrapped kwargs ck t) = map_sum id Plain wrapped
    \<and> sp_ended (tl_span (snd (responses env client wrapped kwargs ck t)))"
proof -
  let ?c = "\<lparr>ca_kwargs = kwargs, ca_server_address = a, ca_server_port = p, ca_clock = ck\<rparr>"
  have "chat_completions_parse env client wrapped kwargs ck = guarded_call wrapped (chat_process env ?c) (parse_failure env ?c)"
    using address by (simp add: chat_completions_parse_def Let_def)
  moreover have "responses env client wrapped kwargs ck
      = pbind (guarded_call wrapped (process_response_response env ?c) (chat_failure env ?c)) (\<lambda>r. pret (Plain r))"
    using address assms(3) by (simp add: responses_def Let_def)
  then have "responses env client wrapped kwargs ck t
      = (case guarded_call wrapped (process_response_response env ?c) (chat_failure env ?c) t of (r, t') \<Rightarrow> (map_sum id Plain r, t'))"
    by (auto simp: pbind_def split: prod.split sum.split)
  ultimately show ?thesis
    using parse.transparent [OF env] parse.span_ended response.transparent [OF env, of wrapped ?c t]
      response.span_ended [of wrapped env ?c t] embeddings.transparent [OF env] embeddings.span_ended
      images.transparent [OF env] images.span_ended speech.transparent [OF env] speech.span_ended
    by (auto simp: embedding_def image_generate_def image_variatons_def audio_create_def media_wrapper_address [OF address refl]
        split: prod.splits)
qed

lemma sample_env_usable: "usable sample_env"
  using sample_env_tame by (simp add: usable_def)

theorem openai_wrappers_transparent_witness:
  "fst (embedding sample_env PNone (Inr (ApiValue (PInt 7))) [] sample_clock fresh_tele) = Inr (ApiValue (PInt 7))
   \<and> fst (responses sample_env PNone (Inl (PyExc ValueError [])) [] sample_clock fresh_tele) = Inl (PyExc ValueError [])"
proof -
  have plain: "\<not> py_truth (dget_or [] ''stream'' (PBool False))" by simp
  show ?thesis
    using openai_wrappers_transparent [OF sample_env_usable sample_address plain, of fresh_tele "Inr (ApiValue (PInt 7))" sample_clock]
      openai_wrappers_transparent [OF sample_env_usable sample_address plain, of fresh_tele "Inl (PyExc ValueError [])" sample_clock]
    by simp
qed

definition embedding_answer :: "int \<Rightarrow> pyval list \<Rightarrow> pyval" where
  "embedding_answer n xs = PDict [(''data'', PList [PDict [(''embedding'', PList xs)]]),
     (''usage'', PDict [(''prompt_tokens'', PInt n)])]"

text \<open>An embedding whose response reports its usage and holds a vector: the span ends with status OK and
  carries the reported tokens, the cost and the length of the first vector, and the call is measured once.\<close>

theorem embedding_telemetry:
  assumes env: "tame env" "ie_metrics env = Some metrics_dict"
    and address: "set_server_address_and_port client ''api.openai.com'' 443 = Inr (a, p)" and "xs \<noteq> []"
    and cost_def: "cost = get_embed_model_cost (PStr m) (ie_pricing_info env) (PInt n)"
    and args_def: "args = media_metric_args env GEN_AI_OPERATION_TYPE_EMBEDDING
        \<lparr>ca_kwargs = [(''model'', PStr m), (''input'', v)], ca_server_address = a, ca_server_port = p, ca_clock = ck\<rparr> (PStr m) (PStr m)"
  shows "\<exists>t'. embedding env client (Inr (ApiValue (embedding_answer n xs))) [(''model'', PStr m), (''input'', v)] ck t
       = (Inr (ApiValue (embedding_answer n xs)), t')
     \<and> sp_status (tl_span t') = StatusOk \<and> sp_ended (tl_span t') \<and> sp_exceptions (tl_span t') = []
     \<and> span_view [GEN_AI_USAGE_INPUT_TOKENS, GEN_AI_USAGE_COST, GEN_AI_EMBEDDINGS_DIMENSION_COUNT] t'
         = [Some (PInt n), Some cost, Some (PInt (int (length xs)))]
     \<and> tl_measurements t' = tl_measurements t @ (if ie_disable_metrics env then [] else
         snd (record_embedding_metrics metrics_dict args (ck_start ck) (ck_end ck) (Some n) cost None []))"
proof -
  let ?kw = "[(''model'', PStr m), (''input'', v)]"
  let ?c = "\<lparr>ca_kwargs = ?kw, ca_server_address = a, ca_server_port = p, ca_clock = ck\<rparr>"
  let ?keys = "[GEN_AI_USAGE_INPUT_TOKENS, GEN_AI_USAGE_COST, GEN_AI_EMBEDDINGS_DIMENSION_COUNT]"
  have model: "embedding_model ?c = PStr m" by (simp add: embedding_model_def)
  have usage: "embedding_usage (embedding_answer n xs) = Inr (PInt n, PInt (int (length xs)))"
    using \<open>xs \<noteq> []\<close> by (simp add: embedding_usage_def embedding_answer_def response_dimension_def)
  define t6 where "t6 = on_span (set_attribute GEN_AI_USAGE_COST cost) (on_span (set_attribute GEN_AI_CLIENT_TOKEN_USAGE (PInt n))
     (on_span (set_attribute GEN_AI_USAGE_INPUT_TOKENS (PInt n))
     (on_span (set_attribute GEN_AI_EMBEDDINGS_DIMENSION_COUNT (PInt (int (length xs))))
     (on_span (set_attribute GEN_AI_REQUEST_USER (PStr [])) (on_span (set_attribute GEN_AI_REQUEST_ENCODING_FORMATS (PList [PStr ''float'']))
     (on_span (common_span_attributes (media_common_span env GEN_AI_OPERATION_TYPE_EMBEDDING (PStr m) ?c))
     (on_span (\<lambda>_. fresh_span) t)))))))"
  have "returns (pwhen (ie_capture_message_content env) (embedding_content env (PStr m) (PInt n) ?c))"
    unfolding embedding_content_def by (rule raises_intros returns_media_emit env(1))+
  from returns_unit [OF this] obtain t7 where
    7: "pwhen (ie_capture_message_content env) (embedding_content env (PStr m) (PInt n) ?c) t6 = (Inr (), t7)" by blast
  have "keeps (\<lambda>t. (span_view ?keys t, call_view t)) (pwhen (ie_capture_message_content env) (embedding_content env (PStr m) (PInt n) ?c))"
    unfolding embedding_content_def media_emit_def emit_inference_event_def warn_step_def
    by (intro keeps_pwhen keeps_pbind keeps_ptry keeps_basic keeps_messages keeps_emit_step keeps_log_step)
      (auto simp: keeps_def span_attr_def span_step_def span_view_def call_view_def tl_on_span set_attribute_def semconv)
  from keepsD [OF this 7] have v7: "span_view ?keys t7 = span_view ?keys t6" "call_view t7 = call_view t6" by simp_all
  have attr: "sp_exceptions (set_attribute k w sp) = sp_exceptions sp" for k w sp by (simp add: set_attribute_def)
  have common: "sp_exceptions (common_span_attributes cs sp) = sp_exceptions sp" for sp cs
    by (simp add: common_span_attributes_def Let_def attr)
  have v6: "span_view ?keys t6 = [Some (PInt n), Some cost, Some (PInt (int (length xs)))]"
    "call_view t6 = (False, [], tl_measurements t)"
    by (simp_all add: t6_def span_view_def call_view_def span_run fresh_span_def semconv attr common)
  let ?ms = "if ie_disable_metrics env then [] else
       snd (record_embedding_metrics metrics_dict args (ck_start ck) (ck_end ck) (Some n) cost None [])"
  let ?t8 = "(on_span (set_status StatusOk) t7)\<lparr>tl_measurements := tl_measurements t @ ?ms\<rparr>"
  have "process_embedding_response env (PStr m) ?c (ApiValue (embedding_answer n xs)) (on_span (\<lambda>_. fresh_span) t) = (Inr (), ?t8)"
    using 7 usage v7(2) v6(2)
    by (simp add: process_embedding_response_def embedding_answer_def common_embedding_logic_def Let_def kwarg_def
        handle_not_given_def dimension_attribute_def cost_def [symmetric] pbind_span_step t6_def [symmetric])
      (simp add: pbind_def span_step_def pwhen_def metric_step_def env(2) embedding_metrics_full args_def call_view_def tl_on_span)
  then show ?thesis
    using v7 v6 by (auto simp: embedding_def media_wrapper_address [OF address refl] guarded_call_def in_current_span_def
        model pbind_def ptry_def leave_span_def end_span_def span_view_def call_view_def set_status_def tl_on_span)
qed

theorem embedding_telemetry_witness:
  "\<exists>t'. embedding sample_env PNone (Inr (ApiValue (embedding_answer 8 [PFloat 1, PFloat 2, PFloat 3])))
         [(''model'', PStr ''text-embedding-3-small''), (''input'', PStr ''Hi'')] sample_clock fresh_tele
       = (Inr (ApiValue (embedding_answer 8 [PFloat 1, PFloat 2, PFloat 3])), t')
     \<and> sp_status (tl_span t') = StatusOk
     \<and> dget (sp_attributes (tl_span t')) GEN_AI_EMBEDDINGS_DIMENSION_COUNT = Some (PInt 3)"
proof -
  have "ie_metrics sample_env = Some metrics_dict" by (simp add: sample_env_def)
  moreover have "[PFloat 1, PFloat 2, PFloat 3] \<noteq> []" by simp
  ultimately show ?thesis
    using embedding_telemetry [OF sample_env_tame(1) _ sample_address _ refl refl, where xs = "[PFloat 1, PFloat 2, PFloat 3]"
        and m = "''text-embedding-3-small''" and n = 8 and v = "PStr ''Hi''" and ck = sample_clock and t = fresh_tele]
    by (fastforce simp: span_view_def)
qed

definition call_item :: "string \<times> string \<times> string \<Rightarrow> pyval" where
  "call_item x = (case x of (i, n, a) \<Rightarrow> PDict [(''type'', PStr ''function_call''), (''id'', PStr i), (''call_id'', PStr i),
     (''name'', PStr n), (''arguments'', PStr a), (''status'', PStr ''completed'')])"

definition call_tool :: "string \<times> string \<times> string \<Rightarrow> pyval" where
  "call_tool x = (case x of (i, n, a) \<Rightarrow> PDict [(''id'', PStr i), (''call_id'', PStr i), (''name'', PStr n),
     (''type'', PStr ''function_call''), (''arguments'', PStr a), (''status'', PStr ''completed'')])"

definition message_item :: "string \<Rightarrow> pyval" where
  "message_item s = PDict [(''type'', PStr ''message''), (''content'', PList [PDict [(''type'', PStr ''output_text''), (''text'', PStr s)]])]"

lemma scan_calls:
  "scan_output (map call_item calls @ items) tools
     = scan_output items (if calls = [] then tools else PList [call_tool (last calls)])"
  by (induction calls arbitrary: tools) (auto simp: call_item_def call_tool_def output_tool_def)

text \<open>Of the output items of a response the first message gives the text, and the tools are at most one: the
  last function call before that message.  Earlier calls, and calls after it, are not recorded.\<close>

theorem output_keeps_last_call_before_message:
  "output_text_and_tools (PList (map call_item before @ message_item s # map call_item after))
     = Inr (PStr s, if before = [] then PNone else PList [call_tool (last before)])
   \<and> output_text_and_tools (PList (map call_item (c # calls))) = Inr (PStr [], PList [call_tool (last (c # calls))])"
proof
  have "scan_output (message_item s # items) tools = Inr (message_item s, tools)" for items tools
    by (simp add: message_item_def)
  then show "output_text_and_tools (PList (map call_item before @ message_item s # map call_item after))
     = Inr (PStr s, if before = [] then PNone else PList [call_tool (last before)])"
    by (simp add: output_text_and_tools_def scan_calls) (simp add: message_item_def message_item_text_def)
  show "output_text_and_tools (PList (map call_item (c # calls))) = Inr (PStr [], PList [call_tool (last (c # calls))])"
    using scan_calls [of "c # calls" "[]" PNone] by (simp add: output_text_and_tools_def message_item_text_def)
qed

definition image_row :: "string \<times> string \<Rightarrow> pyval" where
  "image_row x = PDict [(''b64_json'', PStr (snd x)), (''url'', PStr (fst x))]"

text \<open>Base64 image data never reaches the span: an image without a URL is represented by a fixed
  placeholder.  URLs are recorded also when content capture is off.\<close>

theorem image_data_replaced:
  assumes "\<not> sp_ended (tl_span t)" and "list_all (\<lambda>x. fst x \<noteq> [] \<or> snd x \<noteq> []) rows" and "rows \<noteq> []"
  shows "\<exists>t'. image_data_attribute (PList (map image_row rows)) t = (Inr (), t')
     \<and> dget (sp_attributes (tl_span t')) GEN_AI_RESPONSE_IMAGE =
        Some (PList (map (\<lambda>x. PStr (if fst x \<noteq> [] then fst x else ''[base64_image_data]'')) rows))"
proof -
  let ?v = "\<lambda>x. PStr (if fst x \<noteq> [] then fst x else ''[base64_image_data]'')"
  have contents: "res_map image_content (map image_row rows) = Inr (map (\<lambda>x. [?v x]) rows)"
    using assms(2) by (induction rows) (auto simp: image_content_def image_row_def)
  have "concat (map (\<lambda>x. [?v x]) rows) = map ?v rows" by (induction rows) auto
  moreover have "(\<exists>u d. (u, d) \<in> set rows) = True" using assms(3) by (cases rows) auto
  ultimately show ?thesis using contents assms(1,3)
    by (simp add: image_data_attribute_def images_of_def span_attr_def span_step_def span_run)
qed

theorem image_data_replaced_witness:
  "\<exists>t'. image_data_attribute (PList (map image_row [(''https://x/1.png'', []), ([], ''iVBORw0'')])) fresh_tele = (Inr (), t')
     \<and> dget (sp_attributes (tl_span t')) GEN_AI_RESPONSE_IMAGE =
        Some (PList [PStr ''https://x/1.png'', PStr ''[base64_image_data]''])"
  using image_data_replaced [of fresh_tele "[(''https://x/1.png'', []), ([], ''iVBORw0'')]"]
  by (simp add: fresh_tele_def fresh_span_def)

definition delta_event :: "string \<Rightarrow> pyval" where
  "delta_event s = PDict [(''type'', PStr ''response.output_text.delta''), (''delta'', PStr s)]"

definition completed_event :: "string \<Rightarrow> string \<Rightarrow> int \<Rightarrow> int \<Rightarrow> pyval" where
  "completed_event i m it ot = PDict [(''type'', PStr ''response.completed''),
     (''response'', PDict [(''id'', PStr i), (''model'', PStr m), (''status'', PStr ''completed''),
        (''usage'', PDict [(''input_tokens'', PInt it), (''output_tokens'', PInt ot)])])]"

lemma process_delta_event:
  "process_response_chunk now (delta_event s) sc = (Inr (), (rs_stamp now sc)\<lparr>rs_llmresponse := rs_llmresponse sc @ s\<rparr>)"
proof -
  have "rs_llmresponse (rs_stamp now sc) = rs_llmresponse sc" by (simp add: rs_stamp_def Let_def)
  then show ?thesis by (simp add: process_response_chunk_def delta_event_def rs_text_delta_def)
qed

lemma process_completed_event:
  "\<exists>sc'. process_response_chunk now (completed_event i m it ot) sc = (Inr (), sc')
     \<and> rs_llmresponse sc' = rs_llmresponse sc \<and> rs_input_tokens sc' = PInt it \<and> rs_output_tokens sc' = PInt ot
     \<and> rs_finish_reason sc' = PStr ''completed''"
  by (simp add: process_response_chunk_def completed_event_def rs_completed_def) (simp add: rs_stamp_def Let_def)

text \<open>The end of a response stream reports the usage: after the text deltas and the completed event, the
  scope holds the concatenated text, and the tokens are those of the event.\<close>

theorem response_stream_reports_usage:
  assumes "st_wrapped st = map (Inr \<circ> delta_event) texts @ [Inr (completed_event i m it ot)]"
    and "length clock = length texts" and "it \<noteq> 0"
  shows "\<exists>s. consume process_response_chunk finish (clock @ [now]) st
       = (map delta_event texts @ [completed_event i m it ot], None, st\<lparr>st_wrapped := [], st_scope := s\<rparr>)
     \<and> rs_llmresponse s = rs_llmresponse (st_scope st) @ concat texts
     \<and> rl_tokens prompt (rl_of_stream kwargs a p s) = Inr (PInt it, PInt ot)"
  using assms(1,2)
proof (induction texts arbitrary: clock st)
  case Nil
  obtain s where s: "process_response_chunk now (completed_event i m it ot) (st_scope st) = (Inr (), s)"
    "rs_llmresponse s = rs_llmresponse (st_scope st)" "rs_input_tokens s = PInt it" "rs_output_tokens s = PInt ot"
    using process_completed_event [of now i m it ot "st_scope st"] by blast
  with Nil assms(3) show ?case
    by (intro exI [of _ s]) (simp add: stream_next_def rl_tokens_def rl_of_stream_def)
next
  case (Cons x texts)
  then obtain now' cl where clock: "clock = now' # cl" by (cases clock) auto
  let ?s = "(rs_stamp now' (st_scope st))\<lparr>rs_llmresponse := rs_llmresponse (st_scope st) @ x\<rparr>"
  let ?st = "st\<lparr>st_wrapped := map (Inr \<circ> delta_event) texts @ [Inr (completed_event i m it ot)], st_scope := ?s\<rparr>"
  have "stream_next process_response_chunk finish now' st = (Inr (delta_event x), ?st)"
    using Cons.prems(1) by (simp add: stream_next_def process_delta_event)
  then show ?case using Cons.IH [of ?st cl] Cons.prems(2) clock by auto
qed

theorem response_stream_reports_usage_witness:
  "\<exists>s st'. consume process_response_chunk (pret ()) ([101, 102] @ [103])
       \<lparr>st_wrapped = map (Inr \<circ> delta_event) [''Hel'', ''lo''] @ [Inr (completed_event ''r1'' ''gpt-4o'' 9 2)],
        st_scope = initial_response_scope 100, st_tele = fresh_tele, st_finished = 0\<rparr>
       = (map delta_event [''Hel'', ''lo''] @ [completed_event ''r1'' ''gpt-4o'' 9 2], None, st')
     \<and> st_scope st' = s \<and> rs_llmresponse s = ''Hello''"
proof -
  let ?st = "\<lparr>st_wrapped = map (Inr \<circ> delta_event) [''Hel'', ''lo''] @ [Inr (completed_event ''r1'' ''gpt-4o'' 9 2)],
        st_scope = initial_response_scope 100, st_tele = fresh_tele, st_finished = 0\<rparr>"
  have w: "st_wrapped ?st = map (Inr \<circ> delta_event) [''Hel'', ''lo''] @ [Inr (completed_event ''r1'' ''gpt-4o'' 9 2)]" by simp
  have l: "length [101, 102 :: rat] = length [''Hel'', ''lo'']" by simp
  have "(9 :: int) \<noteq> 0" by simp
  from response_stream_reports_usage [OF w l this] obtain s where
    "consume process_response_chunk (pret ()) ([101, 102] @ [103]) ?st
       = (map delta_event [''Hel'', ''lo''] @ [completed_event ''r1'' ''gpt-4o'' 9 2], None, ?st\<lparr>st_wrapped := [], st_scope := s\<rparr>)"
    "rs_llmresponse s = rs_llmresponse (st_scope ?st) @ concat [''Hel'', ''lo'']" by blast
  then show ?thesis by (auto simp del: consume.simps simp: initial_response_scope_def)
qed

end
