(* ===== verification/OpenAIInstrumentor.thy ===== *)
theory OpenAIInstrumentor
  imports OpenAIMediaProps
begin

text \<open>
  \<open>openlit/instrumentation/openai/async_openai.py\<close> and \<open>__init__.py\<close>: the asynchronous wrappers and the table
  of wrapped methods; every wrapper of the table is transparent.
\<close>

section \<open>Asynchronous wrappers\<close>

text \<open>The asynchronous wrappers await the wrapped call and are otherwise the code of the synchronous ones,
  with three differences: \<open>async_responses\<close> reports an unknown response model on failure, the media
  wrappers do not hand on their event provider, and their streams end with \<open>StopAsyncIteration\<close>.\<close>

definition async_chat_completions ::
  "instr_env \<Rightarrow> bool \<Rightarrow> pyval \<Rightarrow> api_result res \<Rightarrow> (string, pyval) dict \<Rightarrow> clock \<Rightarrow> (tele, chat_scope reply) prog" where
  "async_chat_completions env framework_llm_active client awaited kwargs ck =
     (if framework_llm_active then pbind (plift awaited) (\<lambda>r. pret (Plain r))
      else
        pbind (plift (set_server_address_and_port client ''api.openai.com'' 443)) (\<lambda>(server_address, server_port).
        if py_truth (dget_or kwargs ''stream'' (PBool False)) then
          pbind (plift awaited) (\<lambda>r.
          pbind (pgets (\<lambda>t. on_span (\<lambda>_. fresh_span) t)) (\<lambda>t.
          pret (Traced \<lparr>ts_stream = \<lparr>st_wrapped = api_items r, st_scope = initial_chat_scope (ck_start ck), st_tele = t,
              st_finished = 0\<rparr>,
            ts_kwargs = kwargs, ts_server_address = server_address, ts_server_port = server_port\<rparr>)))
        else
          let c = \<lparr>ca_kwargs = kwargs, ca_server_address = server_address, ca_server_port = server_port, ca_clock = ck\<rparr>
          in pbind (guarded_call awaited (chat_process env c) (chat_failure env c)) (\<lambda>r. pret (Plain r))))"

definition async_responses ::
  "instr_env \<Rightarrow> pyval \<Rightarrow> api_result res \<Rightarrow> (string, pyval) dict \<Rightarrow> clock \<Rightarrow> (tele, response_scope reply) prog" where
  "async_responses env client awaited kwargs ck =
     pbind (plift (set_server_address_and_port client ''api.openai.com'' 443)) (\<lambda>(server_address, server_port).
     if py_truth (dget_or kwargs ''stream'' (PBool False)) then
       pbind (plift awaited) (\<lambda>r.
       pbind (pgets (\<lambda>t. on_span (\<lambda>_. fresh_span) t)) (\<lambda>t.
       pret (Traced \<lparr>ts_stream = \<lparr>st_wrapped = api_items r, st_scope = initial_response_scope (ck_start ck), st_tele = t,
           st_finished = 0\<rparr>,
         ts_kwargs = kwargs, ts_server_address = server_address, ts_server_port = server_port\<rparr>)))
     else
       let c = \<lparr>ca_kwargs = kwargs, ca_server_address = server_address, ca_server_port = server_port, ca_clock = ck\<rparr>
       in pbind (guarded_call awaited (process_response_response env c) (parse_failure env c)) (\<lambda>r. pret (Plain r)))"

definition async_chat_completions_parse ::
  "instr_env \<Rightarrow> pyval \<Rightarrow> api_result res \<Rightarrow> (string, pyval) dict \<Rightarrow> clock \<Rightarrow> (tele, api_result) prog" where
  "async_chat_completions_parse env = media_wrapper (chat_process env) (parse_failure env)"

definition without_events :: "instr_env \<Rightarrow> instr_env" where
  "without_events env = env\<lparr>ie_event_provider := False\<rparr>"

definition async_embedding ::
  "instr_env \<Rightarrow> pyval \<Rightarrow> api_result res \<Rightarrow> (string, pyval) dict \<Rightarrow> clock \<Rightarrow> (tele, api_result) prog" where
  "async_embedding env = media_wrapper
     (\<lambda>c. process_embedding_response (without_events env) (embedding_model c) c) (embedding_failure env)"

definition async_image_generate ::
  "instr_env \<Rightarrow> pyval \<Rightarrow> api_result res \<Rightarrow> (string, pyval) dict \<Rightarrow> clock \<Rightarrow> (tele, api_result) prog" where
  "async_image_generate env = media_wrapper
     (\<lambda>c. process_image_response (without_events env) (image_model c) c)
     (\<lambda>c. media_failure env GEN_AI_OPERATION_TYPE_IMAGE (image_model c) c)"

definition async_image_variations ::
  "instr_env \<Rightarrow> pyval \<Rightarrow> api_result res \<Rightarrow> (string, pyval) dict \<Rightarrow> clock \<Rightarrow> (tele, api_result) prog" where
  "async_image_variations env = media_wrapper
     (\<lambda>c. process_image_response (without_events env) (image_model c) c)
     (\<lambda>c. media_failure env GEN_AI_OPERATION_TYPE_IMAGE (image_model c) c)"

definition async_audio_create ::
  "instr_env \<Rightarrow> pyval \<Rightarrow> api_result res \<Rightarrow> (string, pyval) dict \<Rightarrow> clock \<Rightarrow> (tele, api_result) prog" where
  "async_audio_create env = media_wrapper
     (\<lambda>c. process_audio_response (without_events env) (audio_model c) c)
     (\<lambda>c. media_failure env GEN_AI_OPERATION_TYPE_AUDIO (audio_model c) c)"

section \<open>The table of wrapped methods\<close>

datatype openai_wrapper =
    ChatCompletions | AsyncChatCompletions | ChatCompletionsParse | AsyncChatCompletionsParse
  | Responses | AsyncResponses | Embedding | AsyncEmbedding | ImageGenerate | AsyncImageGenerate
  | ImageVariations | AsyncImageVariations | AudioCreate | AsyncAudioCreate

definition openai_wrappers :: "(string \<times> string \<times> openai_wrapper) list" where
  "openai_wrappers = [
     (''openai.resources.chat.completions'', ''Completions.create'', ChatCompletions),
     (''openai.resources.chat.completions'', ''AsyncCompletions.create'', AsyncChatCompletions),
     (''openai.resources.chat.completions'', ''Completions.parse'', ChatCompletionsParse),
     (''openai.resources.chat.completions'', ''AsyncCompletions.parse'', AsyncChatCompletionsParse),
     (''openai.resources.responses.responses'', ''Responses.create'', Responses),
     (''openai.resources.responses.responses'', ''AsyncResponses.create'', AsyncResponses),
     (''openai.resources.embeddings'', ''Embeddings.create'', Embedding),
     (''openai.resources.embeddings'', ''AsyncEmbeddings.create'', AsyncEmbedding),
     (''openai.resources.images'', ''Images.generate'', ImageGenerate),
     (''openai.resources.images'', ''AsyncImages.generate'', AsyncImageGenerate),
     (''openai.resources.images'', ''Images.create_variation'', ImageVariations),
     (''openai.resources.images'', ''AsyncImages.create_variation'', AsyncImageVariations),
     (''openai.resources.audio.speech'', ''Speech.create'', AudioCreate),
     (''openai.resources.audio.speech'', ''AsyncSpeech.create'', AsyncAudioCreate)]"

text \<open>The arguments \<open>_instrument\<close> takes out of its keywords, and the environment the wrappers close over;
  \<open>world\<close> gives the fields that are not arguments.\<close>

record instrument_kwargs =
  ik_environment :: "string option"
  ik_application_name :: "string option"
  ik_pricing_info :: "pyval option"
  ik_capture_message_content :: "bool option"
  ik_metrics_dict :: "metrics option"
  ik_disable_metrics :: "bool option"
  ik_event_provider :: bool

definition option_or :: "'a option \<Rightarrow> 'a \<Rightarrow> 'a" where
  "option_or x d = (case x of None \<Rightarrow> d | Some v \<Rightarrow> v)"

definition wrapper_env :: "string \<Rightarrow> instrument_kwargs \<Rightarrow> instr_env \<Rightarrow> instr_env" where
  "wrapper_env version kwargs world = world
     \<lparr>ie_version := version,
      ie_environment := option_or (ik_environment kwargs) ''default'',
      ie_application_name := option_or (ik_application_name kwargs) ''default'',
      ie_pricing_info := option_or (ik_pricing_info kwargs) (PDict []),
      ie_capture_message_content := option_or (ik_capture_message_content kwargs) False,
      ie_metrics := ik_metrics_dict kwargs,
      ie_disable_metrics := option_or (ik_disable_metrics kwargs) False,
      ie_event_provider := ik_event_provider kwargs\<rparr>"

datatype openai_reply = ChatReply "chat_scope reply" | ResponsesReply "response_scope reply" | ValueReply api_result

text \<open>What a call of a wrapped method does.\<close>

fun run_wrapper ::
  "openai_wrapper \<Rightarrow> instr_env \<Rightarrow> bool \<Rightarrow> pyval \<Rightarrow> api_result res \<Rightarrow> (string, pyval) dict \<Rightarrow> clock \<Rightarrow> (tele, openai_reply) prog" where
  "run_wrapper ChatCompletions env active client wrapped kwargs ck =
     pbind (chat_completions env active client wrapped kwargs ck) (\<lambda>r. pret (ChatReply r))"
| "run_wrapper AsyncChatCompletions env active client wrapped kwargs ck =
     pbind (async_chat_completions env active client wrapped kwargs ck) (\<lambda>r. pret (ChatReply r))"
| "run_wrapper ChatCompletionsParse env active client wrapped kwargs ck =
     pbind (chat_completions_parse env client wrapped kwargs ck) (\<lambda>r. pret (ValueReply r))"
| "run_wrapper AsyncChatCompletionsParse env active client wrapped kwargs ck =
     pbind (async_chat_completions_parse env client wrapped kwargs ck) (\<lambda>r. pret (ValueReply r))"
| "run_wrapper Responses env active client wrapped kwargs ck =
     pbind (responses env client wrapped kwargs ck) (\<lambda>r. pret (ResponsesReply r))"
| "run_wrapper AsyncResponses env active client wrapped kwargs ck =
     pbind (async_responses env client wrapped kwargs ck) (\<lambda>r. pret (ResponsesReply r))"
| "run_wrapper Embedding env active client wrapped kwargs ck =
     pbind (embedding env client wrapped kwargs ck) (\<lambda>r. pret (ValueReply r))"
| "run_wrapper AsyncEmbedding env active client wrapped kwargs ck =
     pbind (async_embedding env client wrapped kwargs ck) (\<lambda>r. pret (ValueReply r))"
| "run_wrapper ImageGenerate env active client wrapped kwargs ck =
     pbind (image_generate env client wrapped kwargs ck) (\<lambda>r. pret (ValueReply r))"
| "run_wrapper AsyncImageGenerate env active client wrapped kwargs ck =
     pbind (async_image_generate env client wrapped kwargs ck) (\<lambda>r. pret (ValueReply r))"
| "run_wrapper ImageVariations env active client wrapped kwargs ck =
     pbind (image_variatons env client wrapped kwargs ck) (\<lambda>r. pret (ValueReply r))"
| "run_wrapper AsyncImageVariations env active client wrapped kwargs ck =
     pbind (async_image_variations env client wrapped kwargs ck) (\<lambda>r. pret (ValueReply r))"
| "run_wrapper AudioCreate env active client wrapped kwargs ck =
     pbind (audio_create env client wrapped kwargs ck) (\<lambda>r. pret (ValueReply r))"
| "run_wrapper AsyncAudioCreate env active client wrapped kwargs ck =
     pbind (async_audio_create env client wrapped kwargs ck) (\<lambda>r. pret (ValueReply r))"

text \<open>The value the caller sees, when it is not a stream.\<close>

fun reply_value :: "openai_reply \<Rightarrow> api_result option" where
  "reply_value (ChatReply (Plain r)) = Some r"
| "reply_value (ResponsesReply (Plain r)) = Some r"
| "reply_value (ValueReply r) = Some r"
| "reply_value _ = None"

section \<open>Contracts\<close>

lemma without_events_laws:
  "usable (without_events env) \<longleftrightarrow> usable env"
  "ie_capture_message_content (without_events env) = ie_capture_message_content env"
  by (simp_all add: usable_def tame_def without_events_def)

interpretation async_response: traced_operation process_response_response parse_failure
  by unfold_locales
    (simp_all add: response.process_ordinary response.process_private parse.failure_returns parse.failure_private)

interpretation async_embeddings: traced_operation
    "\<lambda>env c. process_embedding_response (without_events env) (embedding_model c) c" embedding_failure
  by unfold_locales (simp_all add: raises_media private_media embedding_failure_laws without_events_laws)

interpretation async_images: traced_operation
    "\<lambda>env c. process_image_response (without_events env) (image_model c) c"
    "\<lambda>env c. media_failure env GEN_AI_OPERATION_TYPE_IMAGE (image_model c) c"
  by unfold_locales (simp_all add: raises_media private_media media_failure_laws without_events_laws)

interpretation async_speech: traced_operation
    "\<lambda>env c. process_audio_response (without_events env) (audio_model c) c"
    "\<lambda>env c. media_failure env GEN_AI_OPERATION_TYPE_AUDIO (audio_model c) c"
  by unfold_locales (simp_all add: raises_media private_media media_failure_laws without_events_laws)

lemma pbind_pret: "pbind m (\<lambda>r. pret (f r)) t = (case m t of (r, t') \<Rightarrow> (map_sum id f r, t'))"
  by (auto simp: pbind_def split: prod.split sum.split)

lemma fst_pbind_pret: "fst (pbind m (\<lambda>r. pret (f r)) t) = map_sum id f (fst (m t))"
  by (simp add: pbind_pret split: prod.split)



lemma keeps_events_without:
  "keeps tl_events (process_embedding_response (without_events env) m c r)"
  "keeps tl_events (process_image_response (without_events env) m c r)"
  "keeps tl_events (process_audio_response (without_events env) m c r)"
proof -
  have messages: "keeps tl_events (set_span_messages_as_array e i out)" for e i out
    by (rule keeps_messages) (simp_all add: keeps_events)
  have emit: "keeps tl_events (media_emit (without_events env) op m c i out extra)" for op i out extra
    by (simp add: media_emit_def without_events_def keeps_basic)
  have sets: "keeps tl_events (image_request_attributes kw)" "keeps tl_events (image_data_attribute d)"
    "keeps tl_events (dimension_attribute kw d)" for kw d
    unfolding image_request_attributes_def image_data_attribute_def dimension_attribute_def Let_def
    by (auto intro!: keeps_events keeps_intros split: sum.split)
  show "keeps tl_events (process_embedding_response (without_events env) m c r)"
    "keeps tl_events (process_image_response (without_events env) m c r)"
    "keeps tl_events (process_audio_response (without_events env) m c r)"
    unfolding process_embedding_response_def common_embedding_logic_def process_image_response_def common_image_logic_def
      process_audio_response_def common_audio_logic_def embedding_content_def image_content_attributes_def image_record_def
      audio_content_def Let_def
    by (intro keeps_pbind keeps_basic keeps_pwhen keeps_prod keeps_metric_step sets messages emit keeps_events; simp)+
qed

text \<open>The asynchronous media wrappers accept an event provider and ignore it: no event is ever emitted, with
  content capture on or off.\<close>

theorem async_media_emit_no_event:
  assumes "w \<in> {AsyncEmbedding, AsyncImageGenerate, AsyncImageVariations, AsyncAudioCreate}"
  shows "tl_events (snd (run_wrapper w env active client wrapped kwargs ck t)) = tl_events t"
proof -
  have guarded: "tl_events (snd (guarded_call wrapped process failure t)) = tl_events t"
    if "\<And>r. keeps tl_events (process r)" "\<And>e. keeps tl_events (failure e)" for process failure
    unfolding guarded_call_def
    by (rule in_current_span_keeps) (use that in \<open>auto intro!: keeps_intros content_view_span\<close>)
  have wrapper: "tl_events (snd (pbind (media_wrapper process failure client wrapped kwargs ck) (\<lambda>r. pret (ValueReply r)) t)) = tl_events t"
    if "\<And>c r. keeps tl_events (process c r)" "\<And>c e. keeps tl_events (failure c e)" for process failure
  proof -
    have "tl_events (snd (guarded_call wrapped (process c) (failure c) t)) = tl_events t" for c
      by (rule guarded) (rule that)+
    then show ?thesis
      by (cases "set_server_address_and_port client ''api.openai.com'' 443")
        (auto simp: media_wrapper_def Let_def pbind_pret case_prod_beta)
  qed
  show ?thesis
    using assms keeps_events_without media_failure_laws(2) embedding_failure_laws(2)
    by (auto simp: async_embedding_def async_image_generate_def async_image_variations_def async_audio_create_def
        intro!: wrapper)
qed

theorem async_media_emit_no_event_witness:
  "tl_events (snd (run_wrapper AsyncAudioCreate (sample_env\<lparr>ie_capture_message_content := True\<rparr>) False PNone
     (Inr (ApiValue PNone)) [(''input'', PStr ''Hi'')] sample_clock fresh_tele)) = []"
proof -
  have "tl_events fresh_tele = []" by (simp add: fresh_tele_def)
  with async_media_emit_no_event [of AsyncAudioCreate] show ?thesis by simp
qed

text \<open>The table: every wrapper is installed exactly once, no method is wrapped twice, and every method has its
  asynchronous counterpart, whose name is prefixed with \<open>Async\<close>.\<close>

fun async_of :: "openai_wrapper \<Rightarrow> openai_wrapper option" where
  "async_of ChatCompletions = Some AsyncChatCompletions"
| "async_of ChatCompletionsParse = Some AsyncChatCompletionsParse"
| "async_of Responses = Some AsyncResponses"
| "async_of Embedding = Some AsyncEmbedding"
| "async_of ImageGenerate = Some AsyncImageGenerate"
| "async_of ImageVariations = Some AsyncImageVariations"
| "async_of AudioCreate = Some AsyncAudioCreate"
| "async_of _ = None"

theorem wrapper_table_complete:
  "distinct (map (\<lambda>(m, n, w). (m, n)) openai_wrappers)"
  "distinct (map (\<lambda>(m, n, w). w) openai_wrappers)"
  "(\<exists>m n. (m, n, w) \<in> set openai_wrappers)
   \<and> (\<forall>w'. async_of w = Some w' \<longrightarrow> (\<exists>m n. (m, n, w) \<in> set openai_wrappers \<and> (m, ''Async'' @ n, w') \<in> set openai_wrappers))"
proof -
  show "distinct (map (\<lambda>(m, n, w). (m, n)) openai_wrappers)" "distinct (map (\<lambda>(m, n, w). w) openai_wrappers)"
    by (simp_all add: openai_wrappers_def)
  show "(\<exists>m n. (m, n, w) \<in> set openai_wrappers)
   \<and> (\<forall>w'. async_of w = Some w' \<longrightarrow> (\<exists>m n. (m, n, w) \<in> set openai_wrappers \<and> (m, ''Async'' @ n, w') \<in> set openai_wrappers))"
    by (cases w) (simp_all add: openai_wrappers_def)
qed

end
