(* ===== verification/LangChainModel.thy ===== *)
theory LangChainModel
  imports TracedCall
begin

text \<open>
  The pure part of \<open>openlit/instrumentation/langchain/__init__.py\<close>: the name of the model, its parameters and
  its provider, the kind of a run, its name and its conversation, read from what LangChain hands to a
  callback.  \<open>serialized\<close> is a dict or \<open>None\<close>; a value of another type raises where it does in the source.
\<close>

section \<open>Model names\<close>

datatype select_from = Serialized | Kwargs

definition MODEL_PATHS_BY_ID :: "(string \<times> string list \<times> select_from) list" where
  "MODEL_PATHS_BY_ID = [
     (''ChatGoogleGenerativeAI'', [''kwargs'', ''model''], Serialized),
     (''ChatVertexAI'', [''kwargs'', ''model_name''], Serialized),
     (''ChatMistralAI'', [''kwargs'', ''model''], Serialized),
     (''OpenAI'', [''invocation_params'', ''model_name''], Kwargs),
     (''ChatOpenAI'', [''invocation_params'', ''model_name''], Kwargs),
     (''AzureChatOpenAI'', [''invocation_params'', ''model''], Kwargs),
     (''AzureChatOpenAI'', [''invocation_params'', ''model_name''], Kwargs),
     (''AzureChatOpenAI'', [''invocation_params'', ''azure_deployment''], Kwargs),
     (''HuggingFacePipeline'', [''invocation_params'', ''model_id''], Kwargs),
     (''BedrockChat'', [''kwargs'', ''model_id''], Serialized),
     (''Bedrock'', [''kwargs'', ''model_id''], Serialized),
     (''BedrockLLM'', [''kwargs'', ''model_id''], Serialized),
     (''ChatBedrock'', [''kwargs'', ''model_id''], Serialized),
     (''ChatBedrockConverse'', [''kwargs'', ''model_id''], Serialized),
     (''LlamaCpp'', [''invocation_params'', ''model_path''], Kwargs),
     (''WatsonxLLM'', [''invocation_params'', ''model_id''], Kwargs)]"

definition MODEL_PATTERNS :: "(string \<times> string \<times> string option) list" where
  "MODEL_PATTERNS = [
     (''ChatAnthropic'', ''model'', Some ''anthropic''),
     (''Anthropic'', ''model'', Some ''anthropic''),
     (''ChatTongyi'', ''model_name'', None),
     (''ChatCohere'', ''model'', None),
     (''Cohere'', ''model'', None),
     (''HuggingFaceHub'', ''model'', None),
     (''ChatAnyscale'', ''model_name'', None),
     (''TextGen'', ''model'', Some ''text-gen''),
     (''Ollama'', ''model'', None),
     (''OllamaLLM'', ''model'', None),
     (''ChatOllama'', ''model'', None),
     (''ChatFireworks'', ''model'', None),
     (''ChatPerplexity'', ''model'', None),
     (''VLLM'', ''model'', None),
     (''Xinference'', ''model_uid'', None),
     (''ChatOCIGenAI'', ''model_id'', None),
     (''DeepInfra'', ''model_id'', None)]"

definition FALLBACK_PATHS :: "(string list \<times> select_from) list" where
  "FALLBACK_PATHS = [
     ([''kwargs'', ''model_name''], Serialized),
     ([''kwargs'', ''model''], Serialized),
     ([''kwargs'', ''model_id''], Serialized),
     ([''invocation_params'', ''model_name''], Kwargs),
     ([''invocation_params'', ''model''], Kwargs),
     ([''invocation_params'', ''model_id''], Kwargs)]"

text \<open>Following the keys: \<open>None\<close> as soon as a value is no dict or the key is missing.\<close>

fun path_value :: "pyval \<Rightarrow> string list \<Rightarrow> pyval" where
  "path_value v [] = v"
| "path_value (PDict d) (k # ks) = path_value (dget_or d k PNone) ks"
| "path_value v (k # ks) = PNone"

definition extract_by_path ::
  "(pyval \<Rightarrow> string) \<Rightarrow> pyval \<Rightarrow> (string, pyval) dict \<Rightarrow> string list \<Rightarrow> select_from \<Rightarrow> string option" where
  "extract_by_path repr serialized kwargs keys select_from =
     (let v = path_value (case select_from of Kwargs \<Rightarrow> PDict kwargs | Serialized \<Rightarrow> serialized) keys
      in if py_truth v then Some (py_str repr v) else None)"

definition get_class_name :: "pyval \<Rightarrow> pyval res" where
  "get_class_name serialized =
     (if \<not> py_truth serialized then Inr PNone
      else res_bind (py_get serialized ''id'' PNone) (\<lambda>i.
        Inr (case i of PList xs \<Rightarrow> (if xs \<noteq> [] then last xs else PNone) | _ \<Rightarrow> PNone)))"

text \<open>\<open>re.search(rf"{pattern}='(.*?)'", s)\<close>: the leftmost match of the prefix that a quote on the same line
  closes.\<close>

fun quoted_after :: "string \<Rightarrow> string \<Rightarrow> string option" where
  "quoted_after lead [] = None"
| "quoted_after lead (c # s) =
     (if startswith (c # s) lead then
        (let rest = drop (length lead) (c # s);
             group = takeWhile (\<lambda>x. x \<noteq> CHR 0x27 \<and> x \<noteq> CHR 0x0A) rest
         in (if take 1 (drop (length group) rest) = [CHR 0x27] then Some group else quoted_after lead s))
      else quoted_after lead s)"

definition extract_model_from_repr :: "pyval \<Rightarrow> string \<Rightarrow> string option res" where
  "extract_model_from_repr serialized pattern =
     (if \<not> py_truth serialized then Inr None
      else res_bind (py_get serialized ''repr'' (PStr [])) (\<lambda>repr_str.
        if py_truth repr_str then
          (case repr_str of
             PStr s \<Rightarrow> Inr (quoted_after (pattern @ ''='' @ [CHR 0x27]) s)
           | _ \<Rightarrow> Inl (PyExc TypeError ''expected string or bytes-like object''))
        else Inr None))"

text \<open>The three loops return the first result that is a non-empty string.\<close>

fun first_result :: "('a \<Rightarrow> string option res) \<Rightarrow> 'a list \<Rightarrow> string option res" where
  "first_result f [] = Inr None"
| "first_result f (x # xs) = res_bind (f x) (\<lambda>r.
     case r of
       Some s \<Rightarrow> (if s \<noteq> [] then Inr (Some s) else first_result f xs)
     | None \<Rightarrow> first_result f xs)"

definition known_path ::
  "(pyval \<Rightarrow> string) \<Rightarrow> pyval \<Rightarrow> (string, pyval) dict \<Rightarrow> pyval \<Rightarrow> string \<times> string list \<times> select_from \<Rightarrow> string option res" where
  "known_path repr serialized kwargs class_id entry =
     (case entry of (model_id, keys, select_from) \<Rightarrow>
        Inr (if class_id = PStr model_id then extract_by_path repr serialized kwargs keys select_from else None))"

definition known_pattern :: "pyval \<Rightarrow> pyval \<Rightarrow> string \<times> string \<times> string option \<Rightarrow> string option res" where
  "known_pattern serialized class_id entry =
     (case entry of (model_id, pattern, dflt) \<Rightarrow>
        if class_id = PStr model_id then
          res_bind (extract_model_from_repr serialized pattern) (\<lambda>r.
            Inr (case r of Some s \<Rightarrow> (if s \<noteq> [] then Some s else dflt) | None \<Rightarrow> dflt))
        else Inr None)"

definition extract_model_name :: "(pyval \<Rightarrow> string) \<Rightarrow> pyval \<Rightarrow> (string, pyval) dict \<Rightarrow> pyval res" where
  "extract_model_name repr serialized kwargs =
     res_bind (get_class_name serialized) (\<lambda>class_id.
     res_bind (first_result (known_path repr serialized kwargs class_id) MODEL_PATHS_BY_ID) (\<lambda>by_path.
     case by_path of Some s \<Rightarrow> Inr (PStr s) | None \<Rightarrow>
     res_bind (first_result (known_pattern serialized class_id) MODEL_PATTERNS) (\<lambda>by_pattern.
     case by_pattern of Some s \<Rightarrow> Inr (PStr s) | None \<Rightarrow>
     res_bind (first_result (\<lambda>(keys, select_from). Inr (extract_by_path repr serialized kwargs keys select_from))
       FALLBACK_PATHS) (\<lambda>by_fallback.
     case by_fallback of Some s \<Rightarrow> Inr (PStr s) | None \<Rightarrow> Inr (py_or class_id (PStr ''unknown''))))))"

section \<open>Parameters and provider\<close>

definition param_keys :: "string list" where
  "param_keys = [''temperature'', ''max_tokens'', ''max_completion_tokens'', ''top_p'', ''top_k'',
     ''frequency_penalty'', ''presence_penalty'', ''request_timeout'', ''stop_sequences'', ''seed'']"

definition extract_model_parameters :: "(string, pyval) dict \<Rightarrow> (string, pyval) dict res" where
  "extract_model_parameters kwargs =
     (let invocation_params = dget_or kwargs ''invocation_params'' (PDict []) in
      res_bind (res_map (\<lambda>k. res_bind (py_get invocation_params k PNone) (\<lambda>v. Inr (k, v))) param_keys) (\<lambda>kvs.
        Inr (dict_of (filter (\<lambda>kv. snd kv \<noteq> PNone) kvs))))"

definition PROVIDER_MAP :: "(string, string) dict" where
  "PROVIDER_MAP = [
     (''anthropic'', ''anthropic''),
     (''azure'', ''azure''),
     (''bedrock'', ''aws.bedrock''),
     (''bedrock_converse'', ''aws.bedrock''),
     (''cohere'', ''cohere''),
     (''google'', ''google''),
     (''google_genai'', ''google''),
     (''google_vertexai'', ''google''),
     (''groq'', ''groq''),
     (''mistralai'', ''mistral_ai''),
     (''ollama'', ''ollama''),
     (''openai'', ''openai''),
     (''together'', ''together''),
     (''vertexai'', ''google''),
     (''fireworks'', ''fireworks''),
     (''perplexity'', ''perplexity''),
     (''huggingface'', ''huggingface''),
     (''deepinfra'', ''deepinfra''),
     (''anyscale'', ''anyscale'')]"

text \<open>The first entry whose key occurs in the class path.\<close>

definition provider_in :: "string \<Rightarrow> string \<Rightarrow> string" where
  "provider_in dflt class_path =
     (case find (\<lambda>e. py_contains (fst e) class_path) PROVIDER_MAP of Some e \<Rightarrow> snd e | None \<Rightarrow> dflt)"

definition detect_provider :: "pyval \<Rightarrow> string res" where
  "detect_provider serialized =
     (if \<not> py_truth serialized then Inr GEN_AI_SYSTEM_LANGCHAIN
      else res_bind (py_get serialized ''id'' (PList [])) (\<lambda>class_id.
        case class_id of
          PList xs \<Rightarrow> res_bind (join_values ''.'' xs) (\<lambda>s. Inr (provider_in GEN_AI_SYSTEM_LANGCHAIN (py_lower s)))
        | _ \<Rightarrow> Inr GEN_AI_SYSTEM_LANGCHAIN))"

section \<open>The kind and the name of a run\<close>

definition SKIP_CHAIN_CLASS_PREFIXES :: "string list" where
  "SKIP_CHAIN_CLASS_PREFIXES = [''RunnableSequence'', ''RunnableParallel'', ''RunnableLambda'', ''RunnablePassthrough'',
     ''RunnableAssign'', ''RunnablePick'', ''RunnableBranch'', ''RunnableEach'', ''Prompt'', ''PromptTemplate'',
     ''ChatPromptTemplate'', ''MessagesPlaceholder'', ''SystemMessagePromptTemplate'', ''HumanMessagePromptTemplate'',
     ''AIMessagePromptTemplate'', ''BasePromptTemplate'', ''StrOutputParser'', ''JsonOutputParser'', ''PydanticOutputParser'']"

text \<open>\<open>serialized and "id" in serialized\<close>, and the value then read.\<close>

definition serialized_id :: "pyval \<Rightarrow> pyval option res" where
  "serialized_id serialized =
     (if \<not> py_truth serialized then Inr None
      else res_bind (py_in ''id'' serialized) (\<lambda>present.
        if present then res_bind (py_index serialized (PStr ''id'')) (\<lambda>v. Inr (Some v)) else Inr None))"

definition internal_class :: "(pyval \<Rightarrow> string) \<Rightarrow> pyval option \<Rightarrow> bool" where
  "internal_class repr class_path =
     (case class_path of
        Some (PList xs) \<Rightarrow>
          xs \<noteq> [] \<and> (let class_id = py_str repr (last xs)
                      in class_id \<in> set SKIP_CHAIN_CLASS_PREFIXES \<or> startswith class_id ''Runnable'')
      | _ \<Rightarrow> False)"

definition is_internal_chain :: "(pyval \<Rightarrow> string) \<Rightarrow> pyval \<Rightarrow> pyval \<Rightarrow> bool res" where
  "is_internal_chain repr serialized name =
     res_bind (serialized_id serialized) (\<lambda>class_path.
     if internal_class repr class_path then Inr True
     else if \<not> hashable name then Inl (PyExc TypeError ''unhashable type'')
     else Inr (name \<in> PStr ` set SKIP_CHAIN_CLASS_PREFIXES))"

datatype observation = ObsTool | ObsRetriever | ObsGeneration | ObsAgent | ObsChain | ObsSpan

definition agent_class :: "(pyval \<Rightarrow> string) \<Rightarrow> pyval option \<Rightarrow> bool res" where
  "agent_class repr class_path =
     (case class_path of
        None \<Rightarrow> Inr False
      | Some v \<Rightarrow> res_bind (py_iter v) (\<lambda>parts.
          Inr (list_ex (\<lambda>part. py_contains ''agent'' (py_lower (py_str repr part))) parts)))"

definition agent_name :: "pyval \<Rightarrow> bool res" where
  "agent_name name =
     (if \<not> py_truth name then Inr False
      else case name of
        PStr s \<Rightarrow> Inr (py_contains ''agent'' (py_lower s))
      | _ \<Rightarrow> Inl (no_attr name ''lower''))"

definition detect_observation_type :: "(pyval \<Rightarrow> string) \<Rightarrow> pyval \<Rightarrow> string \<Rightarrow> pyval \<Rightarrow> observation res" where
  "detect_observation_type repr serialized callback_type name =
     (if callback_type = ''tool'' then Inr ObsTool
      else if callback_type = ''retriever'' then Inr ObsRetriever
      else if callback_type = ''llm'' then Inr ObsGeneration
      else if callback_type = ''chain'' then
        res_bind (serialized_id serialized) (\<lambda>class_path.
        res_bind (agent_class repr class_path) (\<lambda>by_class.
        if by_class then Inr ObsAgent
        else res_bind (agent_name name) (\<lambda>by_name. Inr (if by_name then ObsAgent else ObsChain))))
      else Inr ObsSpan)"

text \<open>The first truthy of some fields of a dict.\<close>

fun first_field :: "pyval \<Rightarrow> string list \<Rightarrow> pyval res" where
  "first_field v [] = Inr PNone"
| "first_field v (k # ks) = res_bind (py_get v k PNone) (\<lambda>x. if py_truth x then Inr x else first_field v ks)"

definition resolve_conversation_id :: "(pyval \<Rightarrow> string) \<Rightarrow> pyval \<Rightarrow> string option res" where
  "resolve_conversation_id repr metadata =
     (if \<not> py_truth metadata then Inr None
      else res_bind (first_field metadata [''thread_id'', ''conversation_id'', ''session_id'']) (\<lambda>v.
        if py_truth v then Inr (Some (py_str repr v))
        else res_bind (py_get metadata ''configurable'' (PDict [])) (\<lambda>configurable.
          res_bind (first_field configurable [''thread_id'', ''conversation_id'']) (\<lambda>v.
            Inr (if py_truth v then Some (py_str repr v) else None)))))"

definition get_name_from_callback :: "pyval \<Rightarrow> (string, pyval) dict \<Rightarrow> pyval res" where
  "get_name_from_callback serialized kwargs =
     (if py_truth (dget_or kwargs ''name'' PNone) then Inr (dget_or kwargs ''name'' PNone)
      else if \<not> py_truth serialized then Inr (PStr ''unknown'')
      else
        res_bind (py_in ''kwargs'' serialized) (\<lambda>has_kwargs.
        res_bind (if has_kwargs then res_bind (py_index serialized (PStr ''kwargs'')) (\<lambda>k. py_get k ''name'' PNone)
                  else Inr PNone) (\<lambda>kw_name.
        if py_truth kw_name then Inr kw_name
        else res_bind (py_get serialized ''name'' PNone) (\<lambda>n.
          if py_truth n then Inr n
          else res_bind (serialized_id serialized) (\<lambda>class_id.
            Inr (case class_id of
                Some (PList xs) \<Rightarrow> (if xs \<noteq> [] then last xs else PStr ''unknown'')
              | _ \<Rightarrow> PStr ''unknown''))))))"

end
