(* ===== verification/LangChainMessages.thy ===== *)
theory LangChainMessages
  imports LangChainModel
begin

text \<open>
  \<open>openlit/instrumentation/langchain/utils.py\<close>: messages and prompts to text and to the OpenTelemetry message
  structure, the inference event, and \<open>common_chat_logic\<close>, the telemetry of one finished chat run.
\<close>

section \<open>Text and message structure\<close>

definition log_debug :: "string list \<Rightarrow> unit logged" where
  "log_debug m = pmodify (\<lambda>l. l @ [(DEBUG, m)])"

text \<open>\<open>f"{role}: {content}"\<close>.\<close>

definition lc_message_line :: "(pyval \<Rightarrow> string) \<Rightarrow> pyval \<Rightarrow> pyval \<Rightarrow> string" where
  "lc_message_line repr default_role msg =
     py_str repr (py_getattr msg ''type'' default_role) @ '': ''
       @ py_str repr (py_getattr msg ''content'' (PStr (py_str repr msg)))"

definition item_lines :: "(pyval \<Rightarrow> string) \<Rightarrow> pyval \<Rightarrow> string list" where
  "item_lines repr item =
     (case item of
        PStr s \<Rightarrow> [s]
      | PList msgs \<Rightarrow> map (\<lambda>msg. lc_message_line repr (py_getattr msg ''role'' (PStr ''user'')) msg) msgs
      | _ \<Rightarrow> [py_str repr item])"

definition lc_format_content :: "(pyval \<Rightarrow> string) \<Rightarrow> pyval \<Rightarrow> string res" where
  "lc_format_content repr messages_or_prompts =
     (if \<not> py_truth messages_or_prompts then Inr []
      else case messages_or_prompts of
        PStr s \<Rightarrow> Inr s
      | _ \<Rightarrow> res_bind (py_iter messages_or_prompts) (\<lambda>items.
          Inr (py_join [CHR 0x0A] (concat (map (item_lines repr) items)))))"

definition image_part :: "pyval \<Rightarrow> pyval" where
  "image_part url = PDict [(''type'', PStr ''image''), (''url'', url)]"

definition build_part :: "(pyval \<Rightarrow> string) \<Rightarrow> pyval \<Rightarrow> pyval list" where
  "build_part repr part =
     (case part of
        PDict d \<Rightarrow>
          (let ptype = dget_or d ''type'' (PStr ''text'') in
           if ptype = PStr ''text'' then [text_part (dget_or d ''text'' (PStr []))]
           else if ptype = PStr ''image_url'' then
             (case dget_or d ''image_url'' (PDict []) of
                PStr url \<Rightarrow> [image_part (PStr url)]
              | PDict u \<Rightarrow> [image_part (dget_or u ''url'' (PStr []))]
              | _ \<Rightarrow> [])
           else [PDict [(''type'', ptype), (''content'', PStr (py_str repr part))]])
      | PStr s \<Rightarrow> [text_part part]
      | _ \<Rightarrow> [text_part (PStr (py_str repr part))])"

definition build_parts :: "(pyval \<Rightarrow> string) \<Rightarrow> pyval \<Rightarrow> pyval list" where
  "build_parts repr content =
     (case content of
        PStr s \<Rightarrow> [text_part content]
      | PList ps \<Rightarrow> (let parts = concat (map (build_part repr) ps) in if parts \<noteq> [] then parts else [text_part (PStr [])])
      | _ \<Rightarrow> [text_part (PStr (py_str repr content))])"

definition role_mapping :: "(string, string) dict" where
  "role_mapping = [(''system'', ''system''), (''human'', ''user''), (''ai'', ''assistant''), (''tool'', ''tool''),
     (''function'', ''tool'')]"

definition otel_role :: "pyval \<Rightarrow> string res" where
  "otel_role role =
     (if \<not> hashable role then Inl (PyExc TypeError ''unhashable type'')
      else Inr (case role of PStr s \<Rightarrow> dget_or role_mapping s ''user'' | _ \<Rightarrow> ''user''))"

definition langchain_message :: "(pyval \<Rightarrow> string) \<Rightarrow> pyval \<Rightarrow> pyval res" where
  "langchain_message repr msg =
     res_bind (otel_role (py_getattr msg ''type'' (PStr ''user''))) (\<lambda>role.
       Inr (PDict [(''role'', PStr role),
         (''parts'', PList (build_parts repr (py_getattr msg ''content'' (PStr (py_str repr msg)))))]))"

text \<open>The message lists of a batch, one after the other.\<close>

definition flat_messages :: "pyval \<Rightarrow> pyval list res" where
  "flat_messages messages = res_bind (py_iter messages) (\<lambda>lists. res_bind (res_map py_iter lists) (\<lambda>ls. Inr (concat ls)))"

definition build_input_messages_from_langchain :: "(pyval \<Rightarrow> string) \<Rightarrow> pyval \<Rightarrow> pyval list logged" where
  "build_input_messages_from_langchain repr messages =
     ptry (pbind (plift (flat_messages messages)) (\<lambda>msgs. plift (res_map (langchain_message repr) msgs)))
       (\<lambda>e. pbind (log_debug [''Error building input messages from LangChain: %s'', exc_msg e]) (\<lambda>_. pret []))"

definition prompt_message :: "(pyval \<Rightarrow> string) \<Rightarrow> pyval \<Rightarrow> pyval" where
  "prompt_message repr prompt = PDict [(''role'', PStr ''user''), (''parts'', PList [text_part (PStr (py_str repr prompt))])]"

definition build_input_messages_from_prompts :: "(pyval \<Rightarrow> string) \<Rightarrow> pyval list \<Rightarrow> pyval list" where
  "build_input_messages_from_prompts repr prompts = map (prompt_message repr) prompts"

definition lc_build_input_messages :: "(pyval \<Rightarrow> string) \<Rightarrow> pyval \<Rightarrow> pyval list logged" where
  "lc_build_input_messages repr messages_or_prompts =
     (case messages_or_prompts of
        PList (PList (m # ms) # rest) \<Rightarrow>
          (if has_attr m ''content'' then build_input_messages_from_langchain repr messages_or_prompts
           else pret (build_input_messages_from_prompts repr (PList (m # ms) # rest)))
      | PList items \<Rightarrow> pret (build_input_messages_from_prompts repr items)
      | _ \<Rightarrow> pret [])"

definition output_tool_part :: "pyval \<Rightarrow> pyval list" where
  "output_tool_part tc =
     (case tc of
        PDict d \<Rightarrow>
          (case dget_or d ''function'' (dget_or d ''function_call'' (PDict [])) of
             PDict func \<Rightarrow> [tool_call_part (dget_or d ''id'' (PStr [])) (dget_or func ''name'' (PStr []))
                (dget_or func ''arguments'' (dget_or func ''args'' (PDict [])))]
           | _ \<Rightarrow> [])
      | _ \<Rightarrow> [])"

definition lc_build_output_messages :: "(pyval \<Rightarrow> string) \<Rightarrow> pyval \<Rightarrow> pyval \<Rightarrow> pyval \<Rightarrow> pyval list" where
  "lc_build_output_messages repr response_text finish_reason tool_calls =
     (let texts = (if py_truth response_text then [text_part (PStr (py_str repr response_text))] else []);
          calls = (if py_truth tool_calls then
              concat (map output_tool_part (case tool_calls of PList tcs \<Rightarrow> tcs | _ \<Rightarrow> [tool_calls])) else []);
          parts = texts @ calls
      in if parts = [] then [] else [assistant_message parts finish_reason])"

section \<open>The inference event\<close>

text \<open>Here a name without a case is dropped, where the OpenAI instrumentation passes it through.\<close>

definition lc_extra_keys :: "(string, string) dict" where
  "lc_extra_keys = [
     (''response_id'', GEN_AI_RESPONSE_ID),
     (''finish_reasons'', GEN_AI_RESPONSE_FINISH_REASON),
     (''output_type'', GEN_AI_OUTPUT_TYPE),
     (''temperature'', GEN_AI_REQUEST_TEMPERATURE),
     (''max_tokens'', GEN_AI_REQUEST_MAX_TOKENS),
     (''top_p'', GEN_AI_REQUEST_TOP_P),
     (''top_k'', GEN_AI_REQUEST_TOP_K),
     (''frequency_penalty'', GEN_AI_REQUEST_FREQUENCY_PENALTY),
     (''presence_penalty'', GEN_AI_REQUEST_PRESENCE_PENALTY),
     (''stop_sequences'', GEN_AI_REQUEST_STOP_SEQUENCES),
     (''seed'', GEN_AI_REQUEST_SEED),
     (''choice_count'', GEN_AI_REQUEST_CHOICE_COUNT),
     (''n'', GEN_AI_REQUEST_CHOICE_COUNT),
     (''input_tokens'', GEN_AI_USAGE_INPUT_TOKENS),
     (''output_tokens'', GEN_AI_USAGE_OUTPUT_TOKENS),
     (''cache_read_input_tokens'', GEN_AI_USAGE_CACHE_READ_INPUT_TOKENS),
     (''cache_creation_input_tokens'', GEN_AI_USAGE_CACHE_CREATION_INPUT_TOKENS),
     (''system_instructions'', GEN_AI_SYSTEM_INSTRUCTIONS),
     (''error_type'', ERROR_TYPE),
     (''conversation_id'', GEN_AI_CONVERSATION_ID)]"

text \<open>The class of names has no \<open>GEN_AI_USAGE_REASONING_TOKENS\<close>: the case of \<open>reasoning_tokens\<close> raises.\<close>

fun lc_add_extras :: "(string \<times> pyval) list \<Rightarrow> (string, pyval) dict \<Rightarrow> (string, pyval) dict res" where
  "lc_add_extras [] attributes = Inr attributes"
| "lc_add_extras ((key, v) # extra_attrs) attributes =
     (if v = PNone then lc_add_extras extra_attrs attributes
      else if key = ''reasoning_tokens'' then Inl (PyExc AttributeError ''GEN_AI_USAGE_REASONING_TOKENS'')
      else if (key = ''choice_count'' \<or> key = ''n'') \<and> equals_one v then lc_add_extras extra_attrs attributes
      else lc_add_extras extra_attrs
        (case dget lc_extra_keys key of None \<Rightarrow> attributes | Some k \<Rightarrow> dput k v attributes))"

definition lc_inference_attributes :: "inference \<Rightarrow> (string \<times> pyval) list \<Rightarrow> (string, pyval) dict res" where
  "lc_inference_attributes i extra_attrs =
     (let attributes = [(GEN_AI_OPERATION, PStr (if_operation_name i))];
          attributes = put_truthy GEN_AI_REQUEST_MODEL (if_request_model i) attributes;
          attributes = put_truthy GEN_AI_RESPONSE_MODEL (if_response_model i) attributes;
          attributes = put_truthy SERVER_ADDRESS (if_server_address i) attributes;
          attributes = put_given SERVER_PORT (if_server_port i) attributes;
          attributes = put_given GEN_AI_INPUT_MESSAGES (if_input_messages i) attributes;
          attributes = put_given GEN_AI_OUTPUT_MESSAGES (if_output_messages i) attributes;
          attributes = put_given GEN_AI_TOOL_DEFINITIONS (if_tool_definitions i) attributes
      in lc_add_extras extra_attrs attributes)"

definition lc_emit_inference_event :: "instr_env \<Rightarrow> inference \<Rightarrow> (string \<times> pyval) list \<Rightarrow> (tele, unit) prog" where
  "lc_emit_inference_event env i extra_attrs =
     ptry (pwhen (ie_event_provider env)
         (pbind (plift (lc_inference_attributes i extra_attrs)) (emit_step env)))
       (warn_step ''Failed to emit inference event: %s'')"

section \<open>The scope of a finished run\<close>

text \<open>The attributes \<open>on_llm_end\<close> sets; \<open>_kwargs\<close> and \<open>_model_parameters\<close> are the same dict.\<close>

record lc_scope =
  lk_params :: "(string, pyval) dict"
  lk_start_time :: rat
  lk_server_address :: string
  lk_server_port :: int
  lk_request_model :: pyval
  lk_response_model :: pyval
  lk_response_id :: pyval
  lk_llmresponse :: pyval
  lk_finish_reason :: pyval
  lk_tools :: pyval
  lk_input_tokens :: pyval
  lk_output_tokens :: pyval
  lk_cache_read :: pyval
  lk_cache_creation :: pyval
  lk_timestamps :: "rat list"
  lk_tbt :: rat
  lk_ttft :: rat
  lk_input_messages_raw :: pyval
  lk_prompts :: pyval
  lk_system_instructions :: pyval
  lk_tool_definitions :: pyval
  lk_provider :: string

definition lk_input :: "lc_scope \<Rightarrow> pyval" where
  "lk_input scope = py_or (lk_input_messages_raw scope) (py_or (lk_prompts scope) (PList []))"

definition lk_model :: "lc_scope \<Rightarrow> pyval" where
  "lk_model scope = py_or (lk_request_model scope) (PStr ''unknown'')"

text \<open>\<open>general_tokens\<close> on a value: half its length.\<close>

definition value_general_tokens :: "pyval \<Rightarrow> pyval res" where
  "value_general_tokens v = res_bind (py_len v) (\<lambda>n. Inr (PInt \<lceil>rat_of_nat n / 2\<rceil>))"

definition lk_tokens :: "string \<Rightarrow> lc_scope \<Rightarrow> (pyval \<times> pyval) res" where
  "lk_tokens prompt scope =
     (if lk_input_tokens scope \<noteq> PNone \<and> lk_output_tokens scope \<noteq> PNone
      then Inr (lk_input_tokens scope, lk_output_tokens scope)
      else res_bind (value_general_tokens (lk_llmresponse scope)) (\<lambda>n. Inr (PInt (general_tokens prompt), n)))"

definition lk_provider_name :: "lc_scope \<Rightarrow> string" where
  "lk_provider_name scope = (if lk_provider scope = [] then GEN_AI_SYSTEM_LANGCHAIN else lk_provider scope)"

definition lk_tbt_now :: "lc_scope \<Rightarrow> rat" where
  "lk_tbt_now scope = (if length (lk_timestamps scope) > 1 then calculate_tbt (lk_timestamps scope) else lk_tbt scope)"

section \<open>Span attributes of a finished run\<close>

definition lk_common_span :: "instr_env \<Rightarrow> bool \<Rightarrow> lc_scope \<Rightarrow> common_span" where
  "lk_common_span env is_stream scope =
     \<lparr>cs_operation = GEN_AI_OPERATION_TYPE_CHAT, cs_provider = lk_provider_name scope,
      cs_server_address = PStr (lk_server_address scope), cs_server_port = PInt (lk_server_port scope),
      cs_request_model = lk_model scope, cs_response_model = lk_response_model scope,
      cs_environment = ie_environment env, cs_application_name = ie_application_name env,
      cs_is_stream = is_stream, cs_tbt = lk_tbt_now scope, cs_ttft = lk_ttft scope, cs_version = ie_version env\<rparr>"

definition attr_given :: "string \<Rightarrow> pyval \<Rightarrow> (tele, unit) prog" where
  "attr_given k v = pwhen (v \<noteq> PNone) (span_attr k v)"

definition lk_request_attributes :: "(string, pyval) dict \<Rightarrow> (tele, unit) prog" where
  "lk_request_attributes params =
     (let param = (\<lambda>k. dget_or params k PNone);
          max_tokens = py_or (param ''max_tokens'') (param ''max_completion_tokens'');
          stop = py_or (param ''stop'') (param ''stop_sequences'')
      in pbind (attr_given GEN_AI_REQUEST_TEMPERATURE (param ''temperature'')) (\<lambda>_.
         pbind (attr_given GEN_AI_REQUEST_TOP_P (param ''top_p'')) (\<lambda>_.
         pbind (attr_given GEN_AI_REQUEST_FREQUENCY_PENALTY (param ''frequency_penalty'')) (\<lambda>_.
         pbind (attr_given GEN_AI_REQUEST_PRESENCE_PENALTY (param ''presence_penalty'')) (\<lambda>_.
         pbind (attr_given GEN_AI_REQUEST_MAX_TOKENS max_tokens) (\<lambda>_.
         pbind (pwhen (param ''seed'' \<noteq> PNone)
           (pbind (plift (py_int (param ''seed''))) (\<lambda>n. span_attr GEN_AI_REQUEST_SEED (PInt n)))) (\<lambda>_.
         pwhen (py_truth stop)
           (span_attr GEN_AI_REQUEST_STOP_SEQUENCES (case stop of PList l \<Rightarrow> stop | _ \<Rightarrow> PList [stop])))))))))"

definition output_type :: "pyval \<Rightarrow> pyval" where
  "output_type llmresponse = PStr (case llmresponse of PStr s \<Rightarrow> ''text'' | _ \<Rightarrow> ''json'')"

definition lk_response_attributes :: "lc_scope \<Rightarrow> (tele, unit) prog" where
  "lk_response_attributes scope =
     pbind (pwhen (py_truth (lk_response_id scope)) (span_attr GEN_AI_RESPONSE_ID (lk_response_id scope))) (\<lambda>_.
     pbind (span_attr GEN_AI_RESPONSE_FINISH_REASON (PList [lk_finish_reason scope])) (\<lambda>_.
     span_attr GEN_AI_OUTPUT_TYPE (output_type (lk_llmresponse scope))))"

definition lk_tool_row :: "(pyval \<Rightarrow> string) \<Rightarrow> pyval \<Rightarrow> (pyval \<times> string \<times> string) res" where
  "lk_tool_row repr t =
     res_bind (py_get t ''function'' (PDict [])) (\<lambda>f.
     res_bind (py_get t ''name'' (PStr [])) (\<lambda>outer_name.
     res_bind (py_get f ''name'' outer_name) (\<lambda>n.
     res_bind (py_get t ''id'' (PStr [])) (\<lambda>i.
     res_bind (py_get t ''arguments'' (PStr [])) (\<lambda>outer_args.
     res_bind (py_get f ''arguments'' outer_args) (\<lambda>a.
       Inr (n, py_str repr i, py_str repr a)))))))"

definition lk_tool_attributes :: "instr_env \<Rightarrow> lc_scope \<Rightarrow> (tele, unit) prog" where
  "lk_tool_attributes env scope =
     pwhen (py_truth (lk_tools scope))
       (let tools = (case lk_tools scope of PList ts \<Rightarrow> ts | v \<Rightarrow> [v]) in
        pbind (plift (res_map (lk_tool_row (ie_repr env))
          (filter (\<lambda>t. case t of PDict d \<Rightarrow> d \<noteq> [] | _ \<Rightarrow> False) tools))) (\<lambda>rows.
        if rows = [] then praise (PyExc ValueError ''not enough values to unpack (expected 3, got 0)'')
        else
          pbind (plift (join_values '', '' (filter py_truth (map fst rows)))) (\<lambda>names.
          pbind (span_attr GEN_AI_TOOL_NAME (PStr names)) (\<lambda>_.
          pbind (span_attr GEN_AI_TOOL_CALL_ID
            (PStr (py_join '', '' (filter (\<lambda>s. s \<noteq> []) (map (fst \<circ> snd) rows))))) (\<lambda>_.
          span_attr GEN_AI_TOOL_CALL_ARGUMENTS
            (PStr (py_join '', '' (filter (\<lambda>s. s \<noteq> []) (map (snd \<circ> snd) rows)))))))))"

definition lk_usage_attributes :: "lc_scope \<Rightarrow> pyval \<times> pyval \<Rightarrow> pyval \<Rightarrow> (tele, unit) prog" where
  "lk_usage_attributes scope tokens cost =
     pbind (span_attr GEN_AI_USAGE_INPUT_TOKENS (fst tokens)) (\<lambda>_.
     pbind (span_attr GEN_AI_USAGE_OUTPUT_TOKENS (snd tokens)) (\<lambda>_.
     pbind (plift (py_add (fst tokens) (snd tokens))) (\<lambda>total.
     pbind (span_attr GEN_AI_CLIENT_TOKEN_USAGE total) (\<lambda>_.
     pbind (span_attr GEN_AI_USAGE_COST cost) (\<lambda>_.
     pbind (span_attr GEN_AI_USAGE_CACHE_READ_INPUT_TOKENS (lk_cache_read scope)) (\<lambda>_.
     span_attr GEN_AI_USAGE_CACHE_CREATION_INPUT_TOKENS (lk_cache_creation scope)))))))"

section \<open>Content, event and metrics\<close>

definition lk_event_extra :: "lc_scope \<Rightarrow> pyval \<times> pyval \<Rightarrow> (string \<times> pyval) list" where
  "lk_event_extra scope tokens =
     (let param = (\<lambda>k. dget_or (lk_params scope) k PNone) in
      [(''cache_read_input_tokens'', lk_cache_read scope),
       (''cache_creation_input_tokens'', lk_cache_creation scope),
       (''response_id'', lk_response_id scope),
       (''finish_reasons'', PList [lk_finish_reason scope]),
       (''output_type'', output_type (lk_llmresponse scope)),
       (''temperature'', param ''temperature''),
       (''max_tokens'', dget_or (lk_params scope) ''max_tokens'' (param ''max_completion_tokens'')),
       (''top_p'', param ''top_p''),
       (''frequency_penalty'', param ''frequency_penalty''),
       (''presence_penalty'', param ''presence_penalty''),
       (''stop_sequences'', dget_or (lk_params scope) ''stop'' (param ''stop_sequences'')),
       (''seed'', param ''seed''),
       (''input_tokens'', fst tokens),
       (''output_tokens'', snd tokens)]
      @ (if py_truth (lk_system_instructions scope) then [(''system_instructions'', lk_system_instructions scope)] else []))"

definition lk_content :: "instr_env \<Rightarrow> lc_scope \<Rightarrow> pyval \<times> pyval \<Rightarrow> (tele, unit) prog" where
  "lk_content env scope tokens =
     pbind (log_step (lc_build_input_messages (ie_repr env) (lk_input scope))) (\<lambda>input_msgs.
     pbind (set_span_messages_as_array env (PList input_msgs)
       (PList (lc_build_output_messages (ie_repr env) (lk_llmresponse scope) (lk_finish_reason scope) (lk_tools scope)))) (\<lambda>msgs.
     pwhen (ie_event_provider env)
       (ptry
          (lc_emit_inference_event env
            \<lparr>if_operation_name = GEN_AI_OPERATION_TYPE_CHAT, if_request_model = lk_model scope,
             if_response_model = lk_response_model scope, if_input_messages = fst msgs, if_output_messages = snd msgs,
             if_tool_definitions = lk_tool_definitions scope, if_server_address = PStr (lk_server_address scope),
             if_server_port = PInt (lk_server_port scope)\<rparr> (lk_event_extra scope tokens))
          (warn_step ''Failed to emit inference event: %s''))))"

definition lk_completion :: "instr_env \<Rightarrow> rat \<Rightarrow> lc_scope \<Rightarrow> pyval \<times> pyval \<Rightarrow> pyval \<Rightarrow> completion" where
  "lk_completion env end_time scope tokens cost =
     \<lparr>co_args = \<lparr>ma_service_name = ie_application_name env, ma_environment = ie_environment env,
        ma_operation = GEN_AI_OPERATION_TYPE_CHAT, ma_system = lk_provider_name scope, ma_request_model = lk_model scope,
        ma_server_address = PStr (lk_server_address scope), ma_server_port = PInt (lk_server_port scope),
        ma_response_model = lk_response_model scope\<rparr>,
      co_start_time = lk_start_time scope, co_end_time = end_time,
      co_input_tokens = as_int (fst tokens), co_output_tokens = as_int (snd tokens), co_cost = cost,
      co_tbt = Some (lk_tbt_now scope), co_ttft = Some (lk_ttft scope), co_error_type = None, co_is_stream = False,
      co_time_per_chunk = None\<rparr>"

definition debug_step :: "string \<Rightarrow> pyexc \<Rightarrow> (tele, unit) prog" where
  "debug_step message e = log_step (log_debug [message, exc_msg e])"

definition lk_metrics :: "instr_env \<Rightarrow> rat \<Rightarrow> lc_scope \<Rightarrow> pyval \<times> pyval \<Rightarrow> pyval \<Rightarrow> (tele, unit) prog" where
  "lk_metrics env end_time scope tokens cost =
     pwhen (\<not> ie_disable_metrics env \<and> \<not> falsy_metrics (ie_metrics env))
       (ptry (metric_step env (\<lambda>m. record_completion_metrics (ie_agent_name env) m (lk_completion env end_time scope tokens cost)))
          (debug_step ''Error recording completion metrics: %s''))"

section \<open>The logic\<close>

text \<open>\<open>end_time\<close> is the clock at the start of the function.\<close>

definition lc_common_chat_logic :: "instr_env \<Rightarrow> bool \<Rightarrow> rat \<Rightarrow> lc_scope \<Rightarrow> (tele, unit) prog" where
  "lc_common_chat_logic env is_stream end_time scope =
     pbind (plift (lc_format_content (ie_repr env) (lk_input scope))) (\<lambda>prompt.
     pbind (plift (lk_tokens prompt scope)) (\<lambda>tokens.
     let cost = get_chat_model_cost (lk_model scope) (ie_pricing_info env) (fst tokens) (snd tokens)
     in pbind (span_step (common_span_attributes (lk_common_span env is_stream scope))) (\<lambda>_.
        pbind (lk_request_attributes (lk_params scope)) (\<lambda>_.
        pbind (lk_response_attributes scope) (\<lambda>_.
        pbind (lk_tool_attributes env scope) (\<lambda>_.
        pbind (lk_usage_attributes scope tokens cost) (\<lambda>_.
        pbind (pwhen (ie_capture_message_content env) (lk_content env scope tokens)) (\<lambda>_.
        pbind (span_step (set_status StatusOk)) (\<lambda>_.
        lk_metrics env end_time scope tokens cost)))))))))"

end
