(* ===== verification/LangChain.thy ===== *)
theory LangChain
  imports LangChainMessages
begin

text \<open>
  The state of \<open>OpenLITCallbackHandler\<close> in \<open>openlit/instrumentation/langchain/__init__.py\<close>, its span table, and
  the callbacks of chains, tools, retrievers, agents and retries.  Spans live in a store and are referred
  to by their index, since a span outlives its table entry.  The callbacks run one at a time, as the
  handler's lock and \<open>run_inline\<close> make them, and in one context, so that a token of a context variable
  can be reset by a later callback.
\<close>

section \<open>State\<close>

type_synonym run_id = nat

text \<open>A span with what the tracer was told when it was started.\<close>

record run_span =
  rs_name :: string
  rs_client :: bool
  rs_parent :: "nat option"
  rs_span :: span

text \<open>\<open>SpanHolder\<close>.\<close>

record holder =
  hd_span :: nat
  hd_token :: "(bool token \<times> nat option token) option"
  hd_start_time :: rat
  hd_children :: "run_id list"
  hd_workflow_name :: string
  hd_entity_name :: string
  hd_streaming_content :: "pyval list"
  hd_input_tokens :: int
  hd_first_token_time :: "rat option"
  hd_token_timestamps :: "rat list"
  hd_model_name :: pyval
  hd_model_parameters :: "(string, pyval) dict"
  hd_prompt_content :: string
  hd_input_messages :: "pyval list"
  hd_cache_read_input_tokens :: pyval
  hd_cache_creation_input_tokens :: pyval
  hd_input_messages_raw :: pyval
  hd_prompts :: pyval
  hd_system_instructions :: pyval
  hd_tool_definitions :: pyval
  hd_provider :: string
  hd_server_address :: string
  hd_server_port :: int
  hd_tool_calls :: pyval
  hd_finish_reason :: pyval

definition new_holder :: "nat \<Rightarrow> rat \<Rightarrow> holder" where
  "new_holder i now =
     \<lparr>hd_span = i, hd_token = None, hd_start_time = now, hd_children = [], hd_workflow_name = [], hd_entity_name = [],
      hd_streaming_content = [], hd_input_tokens = 0, hd_first_token_time = None, hd_token_timestamps = [],
      hd_model_name = PStr ''unknown'', hd_model_parameters = [], hd_prompt_content = [], hd_input_messages = [],
      hd_cache_read_input_tokens = PInt 0, hd_cache_creation_input_tokens = PInt 0, hd_input_messages_raw = PNone,
      hd_prompts = PList [], hd_system_instructions = PNone, hd_tool_definitions = PNone, hd_provider = [],
      hd_server_address = [], hd_server_port = 0, hd_tool_calls = PNone, hd_finish_reason = PStr ''stop''\<rparr>"

definition get_duration :: "holder \<Rightarrow> rat \<Rightarrow> rat" where
  "get_duration h now = now - hd_start_time h"

definition is_streaming :: "holder \<Rightarrow> bool" where
  "is_streaming h \<longleftrightarrow> length (hd_streaming_content h) > 0"

text \<open>The handler's two tables, the span store, the context (the variables of the helpers and the current
  span), and what has been recorded.\<close>

record lc_state =
  lc_spans :: "(run_id, holder) dict"
  lc_skipped :: "(run_id, run_id option) dict"
  lc_store :: "run_span list"
  lc_ambient :: ambient
  lc_current :: "nat option ctxvar"
  lc_measurements :: "measurement list"
  lc_events :: "(string, pyval) dict list"
  lc_log :: "log_line list"

definition initial_handler :: lc_state where
  "initial_handler = \<lparr>lc_spans = [], lc_skipped = [], lc_store = [], lc_ambient = initial_ambient,
     lc_current = fresh_var None, lc_measurements = [], lc_events = [], lc_log = []\<rparr>"

text \<open>The configuration of the handler and the outside world: beside the parameters of every
  instrumentation, \<open>json.dumps(x, default=str)\<close> and the \<open>exception()\<close> method of a retry outcome.\<close>

record lc_env =
  le_env :: instr_env
  le_dumps_str :: "pyval \<Rightarrow> string res"
  le_exception :: "pyval \<Rightarrow> pyexc option res"

type_synonym 'a handler = "(lc_state, 'a) prog"

section \<open>Steps\<close>

text \<open>A program on the telemetry of one span of the store.\<close>

definition tele_of :: "nat \<Rightarrow> lc_state \<Rightarrow> tele" where
  "tele_of i s = \<lparr>tl_span = rs_span (lc_store s ! i), tl_measurements = lc_measurements s, tl_events = lc_events s,
     tl_log = lc_log s\<rparr>"

definition with_tele :: "nat \<Rightarrow> tele \<Rightarrow> lc_state \<Rightarrow> lc_state" where
  "with_tele i t s = s\<lparr>lc_store := (lc_store s)[i := (lc_store s ! i)\<lparr>rs_span := tl_span t\<rparr>],
     lc_measurements := tl_measurements t, lc_events := tl_events t, lc_log := tl_log t\<rparr>"

definition on_tele :: "nat \<Rightarrow> (tele, 'a) prog \<Rightarrow> 'a handler" where
  "on_tele i m s = (case m (tele_of i s) of (r, t) \<Rightarrow> (r, with_tele i t s))"

definition lc_attr :: "nat \<Rightarrow> string \<Rightarrow> pyval \<Rightarrow> unit handler" where
  "lc_attr i k v = on_tele i (span_attr k v)"

definition lc_debug :: "string list \<Rightarrow> unit handler" where
  "lc_debug m = pmodify (\<lambda>s. s\<lparr>lc_log := lc_log s @ [(DEBUG, m)]\<rparr>)"

text \<open>\<open>self.spans[run_id]\<close>.\<close>

definition entry :: "run_id \<Rightarrow> holder handler" where
  "entry run s = (case dget (lc_spans s) run of
     Some h \<Rightarrow> (Inr h, s) | None \<Rightarrow> (Inl (PyExc KeyError ''run_id''), s))"

text \<open>A program on the holder object of a run.\<close>

definition on_entry :: "run_id \<Rightarrow> (holder, 'a) prog \<Rightarrow> 'a handler" where
  "on_entry run m s = (case dget (lc_spans s) run of
     Some h \<Rightarrow> (case m h of (r, h') \<Rightarrow> (r, s\<lparr>lc_spans := dput run h' (lc_spans s)\<rparr>))
   | None \<Rightarrow> (Inl (PyExc KeyError ''run_id''), s))"

definition upd_entry :: "run_id \<Rightarrow> (holder \<Rightarrow> holder) \<Rightarrow> unit handler" where
  "upd_entry run f = on_entry run (pmodify f)"

text \<open>\<open>if run_id in self.spans\<close>.\<close>

definition when_entry :: "run_id \<Rightarrow> (holder \<Rightarrow> unit handler) \<Rightarrow> unit handler" where
  "when_entry run f s = (case dget (lc_spans s) run of Some h \<Rightarrow> f h s | None \<Rightarrow> (Inr (), s))"

text \<open>The body of every callback runs in \<open>try ... except Exception as e: logger.debug(...)\<close>.\<close>

definition guarded :: "string \<Rightarrow> unit handler \<Rightarrow> unit handler" where
  "guarded name body = ptry body (\<lambda>e. lc_debug [''Error in '' @ name @ '': %s'', exc_msg e])"

section \<open>The span table\<close>

text \<open>The \<open>while\<close> loop over skipped runs: each turn visits one more of them.\<close>

function resolve_parent :: "(run_id, run_id option) dict \<Rightarrow> run_id list \<Rightarrow> run_id option \<Rightarrow> run_id option" where
  "resolve_parent skipped visited None = None"
| "resolve_parent skipped visited (Some r) =
     (case dget skipped r of
        None \<Rightarrow> Some r
      | Some p \<Rightarrow> (if r \<in> set visited then Some r else resolve_parent skipped (r # visited) p))"
  by pat_completeness auto
termination
proof (relation "measure (\<lambda>(skipped, visited, current). card (set (dkeys skipped) - set visited))", simp)
  fix skipped :: "(run_id, run_id option) dict" and visited r p
  assume a: "dget skipped r = Some p" "r \<notin> set visited"
  then have "r \<in> set (dkeys skipped) - set visited" by (metis DiffI dget_None_iff option.distinct(1))
  then have "card (set (dkeys skipped) - set (r # visited)) < card (set (dkeys skipped) - set visited)"
    by (intro psubset_card_mono) auto
  then show "((skipped, r # visited, p), (skipped, visited, Some r))
     \<in> measure (\<lambda>(skipped, visited, current). card (set (dkeys skipped) - set visited))" by simp
qed

definition resolve_parent_run_id :: "run_id option \<Rightarrow> lc_state \<Rightarrow> run_id option" where
  "resolve_parent_run_id parent s = resolve_parent (lc_skipped s) [] parent"

text \<open>A span started without a parent context has the current span as its parent.\<close>

definition parent_span :: "run_id option \<Rightarrow> lc_state \<Rightarrow> nat option" where
  "parent_span parent s =
     (case parent of
        None \<Rightarrow> ctx_get (lc_current s)
      | Some p \<Rightarrow> (case dget (lc_spans s) p of Some h \<Rightarrow> Some (hd_span h) | None \<Rightarrow> ctx_get (lc_current s)))"

definition add_child :: "run_id option \<Rightarrow> run_id \<Rightarrow> (run_id, holder) dict \<Rightarrow> (run_id, holder) dict" where
  "add_child parent run spans =
     (case parent of
        None \<Rightarrow> spans
      | Some p \<Rightarrow> (case dget spans p of
          Some h \<Rightarrow> dput p (h\<lparr>hd_children := hd_children h @ [run]\<rparr>) spans
        | None \<Rightarrow> spans))"

definition create_span :: "run_id \<Rightarrow> run_id option \<Rightarrow> string \<Rightarrow> bool \<Rightarrow> rat \<Rightarrow> nat handler" where
  "create_span run parent name client now s =
     (let parent = resolve_parent_run_id parent s;
          i = length (lc_store s);
          sp = \<lparr>rs_name = name, rs_client = client, rs_parent = parent_span parent s, rs_span = fresh_span\<rparr>
      in (Inr i, s\<lparr>lc_store := lc_store s @ [sp],
           lc_spans := add_child parent run (dput run (new_holder i now) (lc_spans s))\<rparr>))"

definition on_stored :: "nat \<Rightarrow> (span \<Rightarrow> span) \<Rightarrow> run_span list \<Rightarrow> run_span list" where
  "on_stored i f store = store[i := (store ! i)\<lparr>rs_span := f (rs_span (store ! i))\<rparr>]"

definition end_child :: "(run_id, holder) dict \<Rightarrow> run_id \<Rightarrow> run_span list \<Rightarrow> run_span list" where
  "end_child spans child store =
     (case dget spans child of
        Some h \<Rightarrow> (if sp_ended (rs_span (store ! hd_span h)) then store else on_stored (hd_span h) end_span store)
      | None \<Rightarrow> store)"

text \<open>\<open>if error:\<close> is false for an empty message too.  The entries of the children stay in the table.\<close>

definition finish_span :: "run_id \<Rightarrow> string option \<Rightarrow> unit handler" where
  "finish_span run error =
     when_entry run (\<lambda>h. pmodify (\<lambda>s.
       let store = fold (end_child (lc_spans s)) (hd_children h) (lc_store s);
           status = (case error of None \<Rightarrow> StatusOk | Some m \<Rightarrow> (if m \<noteq> [] then StatusError else StatusOk))
       in s\<lparr>lc_store := on_stored (hd_span h) (\<lambda>sp. end_span (set_status status sp)) store,
            lc_spans := ddel run (lc_spans s)\<rparr>))"

section \<open>Attributes shared by the callbacks\<close>

definition common_attributes :: "lc_env \<Rightarrow> nat \<Rightarrow> string \<Rightarrow> unit handler" where
  "common_attributes env i operation =
     pbind (lc_attr i GEN_AI_OPERATION (PStr operation)) (\<lambda>_.
     pbind (lc_attr i GEN_AI_ENVIRONMENT (PStr (ie_environment (le_env env)))) (\<lambda>_.
     pbind (lc_attr i GEN_AI_APPLICATION_NAME (PStr (ie_application_name (le_env env)))) (\<lambda>_.
     lc_attr i GEN_AI_SDK_VERSION (PStr (ie_version (le_env env))))))"

definition lc_truncate :: "lc_env \<Rightarrow> pyval \<Rightarrow> pyval" where
  "lc_truncate env v = PStr (truncate_content (ie_repr (le_env env)) (ie_max_content_length (le_env env)) v)"

definition conversation_attribute :: "lc_env \<Rightarrow> nat \<Rightarrow> pyval \<Rightarrow> unit handler" where
  "conversation_attribute env i metadata =
     pbind (plift (resolve_conversation_id (ie_repr (le_env env)) metadata)) (\<lambda>conv_id.
     case conv_id of
       Some c \<Rightarrow> pwhen (c \<noteq> []) (lc_attr i GEN_AI_CONVERSATION_ID (PStr c))
     | None \<Rightarrow> pret ())"

text \<open>\<open>truncate_content(json.dumps(x, default=str))\<close>, or of \<open>x\<close> itself when that fails.\<close>

definition dumped_text :: "lc_env \<Rightarrow> pyval \<Rightarrow> pyval res" where
  "dumped_text env v =
     (case le_dumps_str env v of
        Inr s \<Rightarrow> Inr (lc_truncate env (PStr s))
      | Inl e \<Rightarrow> (if is_Exception e then Inr (lc_truncate env v) else Inl e))"

definition captured :: "lc_env \<Rightarrow> pyval \<Rightarrow> unit handler \<Rightarrow> unit handler" where
  "captured env v m = pwhen (ie_capture_message_content (le_env env) \<and> py_truth v) m"

definition framework_args :: "instr_env \<Rightarrow> string \<Rightarrow> metric_args" where
  "framework_args env operation =
     \<lparr>ma_service_name = ie_application_name env, ma_environment = ie_environment env, ma_operation = operation,
      ma_system = GEN_AI_SYSTEM_LANGCHAIN, ma_request_model = PNone, ma_server_address = PStr [], ma_server_port = PInt 0,
      ma_response_model = PNone\<rparr>"

definition framework_metrics :: "lc_env \<Rightarrow> nat \<Rightarrow> string \<Rightarrow> string \<Rightarrow> rat \<Rightarrow> rat \<Rightarrow> unit handler" where
  "framework_metrics env i message operation start_time end_time =
     (let e = le_env env in
      pwhen (\<not> ie_disable_metrics e \<and> \<not> falsy_metrics (ie_metrics e))
        (on_tele i (ptry
          (metric_step e (\<lambda>m. record_framework_metrics m (framework_args e operation) start_time end_time))
          (debug_step message))))"

text \<open>What the error callbacks share: the message on the span, then its end.\<close>

definition error_attribute :: "lc_env \<Rightarrow> pyexc \<Rightarrow> run_id \<Rightarrow> unit handler" where
  "error_attribute env error run =
     when_entry run (\<lambda>h. lc_attr (hd_span h) GEN_AI_FRAMEWORK_ERROR_MESSAGE (lc_truncate env (PStr (exc_msg error))))"

definition run_error :: "lc_env \<Rightarrow> pyexc \<Rightarrow> run_id \<Rightarrow> unit handler" where
  "run_error env error run =
     pbind (error_attribute env error run) (\<lambda>_. finish_span run (Some (exc_msg error)))"

section \<open>Chains\<close>

definition skip_run :: "run_id \<Rightarrow> run_id option \<Rightarrow> unit handler" where
  "skip_run run parent = pmodify (\<lambda>s. s\<lparr>lc_skipped := dput run parent (lc_skipped s)\<rparr>)"

definition open_chain ::
  "lc_env \<Rightarrow> pyval \<Rightarrow> bool \<Rightarrow> pyval \<Rightarrow> run_id \<Rightarrow> run_id option \<Rightarrow> pyval \<Rightarrow> rat \<Rightarrow> unit handler" where
  "open_chain env name agent inputs run parent metadata now =
     (let label = py_str (ie_repr (le_env env)) name in
      pbind (create_span run parent ((if agent then ''invoke_agent '' else ''invoke_workflow '') @ label) False now) (\<lambda>i.
      pbind (lc_attr i GEN_AI_PROVIDER_NAME (PStr GEN_AI_SYSTEM_LANGCHAIN)) (\<lambda>_.
      pbind (common_attributes env i (if agent then GEN_AI_OPERATION_TYPE_AGENT else GEN_AI_OPERATION_TYPE_FRAMEWORK)) (\<lambda>_.
      pbind (lc_attr i (if agent then GEN_AI_AGENT_NAME else GEN_AI_WORKFLOW_NAME) name) (\<lambda>_.
      pbind (conversation_attribute env i metadata) (\<lambda>_.
      captured env inputs (pbind (plift (dumped_text env inputs)) (lc_attr i GEN_AI_WORKFLOW_INPUT))))))))"

definition on_chain_start ::
  "lc_env \<Rightarrow> pyval \<Rightarrow> pyval \<Rightarrow> run_id \<Rightarrow> run_id option \<Rightarrow> pyval \<Rightarrow> (string, pyval) dict \<Rightarrow> rat \<Rightarrow> unit handler" where
  "on_chain_start env serialized inputs run parent metadata kwargs now =
     (let repr = ie_repr (le_env env) in
      guarded ''on_chain_start''
        (pbind (plift (get_name_from_callback serialized kwargs)) (\<lambda>name.
         pbind (plift (detect_observation_type repr serialized ''chain'' name)) (\<lambda>obs.
         pbind (if obs \<noteq> ObsAgent then plift (is_internal_chain repr serialized name) else pret False) (\<lambda>internal.
         pbind (pgets (\<lambda>s. is_langgraph_wrapper_active (lc_ambient s))) (\<lambda>langgraph.
         if obs \<noteq> ObsAgent \<and> internal then skip_run run parent
         else if obs \<noteq> ObsAgent \<and> langgraph \<and> parent = None then skip_run run parent
         else if obs \<noteq> ObsAgent \<and> parent \<noteq> None then skip_run run parent
         else open_chain env name (obs = ObsAgent) inputs run parent metadata now))))))"

definition unskip_run :: "run_id \<Rightarrow> unit handler" where
  "unskip_run run = pmodify (\<lambda>s. s\<lparr>lc_skipped := ddel run (lc_skipped s)\<rparr>)"

definition on_chain_end :: "lc_env \<Rightarrow> pyval \<Rightarrow> run_id \<Rightarrow> rat \<Rightarrow> rat \<Rightarrow> unit handler" where
  "on_chain_end env outputs run now now' =
     guarded ''on_chain_end''
       (pbind (unskip_run run) (\<lambda>_.
        when_entry run (\<lambda>h.
          let i = hd_span h in
          pbind (lc_attr i GEN_AI_CLIENT_OPERATION_DURATION (PFloat (now - hd_start_time h))) (\<lambda>_.
          pbind (captured env outputs (pbind (plift (dumped_text env outputs)) (lc_attr i GEN_AI_WORKFLOW_OUTPUT))) (\<lambda>_.
          pbind (framework_metrics env i ''Error recording chain metrics: %s'' GEN_AI_OPERATION_TYPE_FRAMEWORK
                   (hd_start_time h) now') (\<lambda>_.
          finish_span run None))))))"

definition on_chain_error :: "lc_env \<Rightarrow> pyexc \<Rightarrow> run_id \<Rightarrow> unit handler" where
  "on_chain_error env error run =
     guarded ''on_chain_error'' (pbind (unskip_run run) (\<lambda>_. run_error env error run))"

section \<open>Tools\<close>

definition on_tool_start ::
  "lc_env \<Rightarrow> pyval \<Rightarrow> pyval \<Rightarrow> run_id \<Rightarrow> run_id option \<Rightarrow> pyval \<Rightarrow> (string, pyval) dict \<Rightarrow> rat \<Rightarrow> unit handler" where
  "on_tool_start env serialized input_str run parent metadata kwargs now =
     (let repr = ie_repr (le_env env) in
      guarded ''on_tool_start''
        (pbind (plift (get_name_from_callback serialized kwargs)) (\<lambda>name.
         pbind (create_span run parent (''execute_tool '' @ py_str repr name) False now) (\<lambda>i.
         pbind (common_attributes env i GEN_AI_OPERATION_TYPE_TOOLS) (\<lambda>_.
         pbind (lc_attr i GEN_AI_TOOL_NAME name) (\<lambda>_.
         pbind (lc_attr i GEN_AI_TOOL_TYPE (PStr ''function'')) (\<lambda>_.
         pbind (plift (py_get (py_or serialized (PDict [])) ''description'' PNone)) (\<lambda>description.
         pbind (pwhen (py_truth description)
           (lc_attr i GEN_AI_TOOL_DESCRIPTION (PStr (py_str repr description)))) (\<lambda>_.
         pbind (conversation_attribute env i metadata) (\<lambda>_.
         captured env input_str (lc_attr i GEN_AI_TOOL_CALL_ARGUMENTS (lc_truncate env input_str))))))))))))"

definition is_quote :: "char \<Rightarrow> bool" where
  "is_quote c \<longleftrightarrow> c = CHR 0x27 \<or> c = CHR 0x22"

text \<open>The search for \<open>tool_call_id=\<close>, a quote, characters that are no quotes, and a quote.\<close>

fun tool_call_id_in :: "string \<Rightarrow> string option" where
  "tool_call_id_in [] = None"
| "tool_call_id_in (c # s) =
     (let key = ''tool_call_id='';
          rest = drop (length key) (c # s);
          group = takeWhile (\<lambda>x. \<not> is_quote x) (drop 1 rest)
      in if startswith (c # s) key \<and> rest \<noteq> [] \<and> is_quote (rest ! 0) \<and> group \<noteq> []
            \<and> drop (length group) (drop 1 rest) \<noteq> []
         then Some group else tool_call_id_in s)"

definition tool_call_id_of :: "pyval \<Rightarrow> pyval" where
  "tool_call_id_of output =
     (if has_attr output ''tool_call_id'' then py_getattr output ''tool_call_id'' PNone
      else case output of
        PStr s \<Rightarrow> (if py_contains ''tool_call_id'' s then
            (case tool_call_id_in s of Some g \<Rightarrow> PStr g | None \<Rightarrow> PNone) else PNone)
      | _ \<Rightarrow> PNone)"

definition on_tool_end :: "lc_env \<Rightarrow> pyval \<Rightarrow> run_id \<Rightarrow> rat \<Rightarrow> rat \<Rightarrow> unit handler" where
  "on_tool_end env output run now now' =
     guarded ''on_tool_end''
       (when_entry run (\<lambda>h.
          let i = hd_span h; tool_call_id = tool_call_id_of output in
          pbind (lc_attr i GEN_AI_CLIENT_OPERATION_DURATION (PFloat (now - hd_start_time h))) (\<lambda>_.
          pbind (pwhen (py_truth tool_call_id) (lc_attr i GEN_AI_TOOL_CALL_ID tool_call_id)) (\<lambda>_.
          pbind (captured env output (lc_attr i GEN_AI_TOOL_CALL_RESULT (lc_truncate env output))) (\<lambda>_.
          pbind (framework_metrics env i ''Error recording tool metrics: %s'' GEN_AI_OPERATION_TYPE_TOOLS
                   (hd_start_time h) now') (\<lambda>_.
          finish_span run None))))))"

definition on_tool_error :: "lc_env \<Rightarrow> pyexc \<Rightarrow> run_id \<Rightarrow> unit handler" where
  "on_tool_error env error run = guarded ''on_tool_error'' (run_error env error run)"

section \<open>Retrievers\<close>

definition on_retriever_start ::
  "lc_env \<Rightarrow> pyval \<Rightarrow> pyval \<Rightarrow> run_id \<Rightarrow> run_id option \<Rightarrow> pyval \<Rightarrow> (string, pyval) dict \<Rightarrow> rat \<Rightarrow> unit handler" where
  "on_retriever_start env serialized query run parent metadata kwargs now =
     guarded ''on_retriever_start''
       (pbind (plift (get_name_from_callback serialized kwargs)) (\<lambda>name.
        pbind (create_span run parent (''retrieval '' @ py_str (ie_repr (le_env env)) name) True now) (\<lambda>i.
        pbind (lc_attr i GEN_AI_PROVIDER_NAME (PStr GEN_AI_SYSTEM_LANGCHAIN)) (\<lambda>_.
        pbind (common_attributes env i GEN_AI_OPERATION_TYPE_RETRIEVE) (\<lambda>_.
        pbind (lc_attr i GEN_AI_DATA_SOURCE_ID name) (\<lambda>_.
        pbind (conversation_attribute env i metadata) (\<lambda>_.
        captured env query (lc_attr i GEN_AI_RETRIEVAL_QUERY_TEXT (lc_truncate env query)))))))))"

definition document_entry :: "lc_env \<Rightarrow> pyval \<Rightarrow> pyval" where
  "document_entry env doc =
     (let repr = ie_repr (le_env env);
          content = py_getattr doc ''page_content'' (PStr (py_str repr doc));
          doc_id = (case py_getattr doc ''metadata'' PNone of
              PDict m \<Rightarrow> py_or (dget_or m ''id'' PNone) (dget_or m ''source'' PNone) | _ \<Rightarrow> PNone)
      in PDict ([(''content'', lc_truncate env content)]
           @ (if py_truth doc_id then [(''id'', PStr (py_str repr doc_id))] else [])))"

text \<open>\<open>documents[:3]\<close>.\<close>

definition first_three :: "pyval \<Rightarrow> pyval list res" where
  "first_three v =
     (case v of
        PList xs \<Rightarrow> Inr (take 3 xs)
      | PStr s \<Rightarrow> Inr (map (\<lambda>c. PStr [c]) (take 3 s))
      | _ \<Rightarrow> Inl (PyExc TypeError ''unhashable type: slice''))"

definition on_retriever_end :: "lc_env \<Rightarrow> pyval \<Rightarrow> run_id \<Rightarrow> rat \<Rightarrow> rat \<Rightarrow> unit handler" where
  "on_retriever_end env documents run now now' =
     guarded ''on_retriever_end''
       (when_entry run (\<lambda>h.
          let i = hd_span h in
          pbind (lc_attr i GEN_AI_CLIENT_OPERATION_DURATION (PFloat (now - hd_start_time h))) (\<lambda>_.
          pbind (plift (py_len documents)) (\<lambda>n.
          pbind (lc_attr i GEN_AI_RETRIEVAL_DOCUMENT_COUNT (PInt (int n))) (\<lambda>_.
          pbind (captured env documents
            (pbind (plift (first_three documents)) (\<lambda>docs.
             pbind (plift (ie_json_dumps (le_env env) (PList (map (document_entry env) docs)))) (\<lambda>s.
             lc_attr i GEN_AI_RETRIEVAL_DOCUMENTS (PStr s))))) (\<lambda>_.
          pbind (framework_metrics env i ''Error recording retriever metrics: %s'' GEN_AI_OPERATION_TYPE_RETRIEVE
                   (hd_start_time h) now') (\<lambda>_.
          finish_span run None)))))))"

definition on_retriever_error :: "lc_env \<Rightarrow> pyexc \<Rightarrow> run_id \<Rightarrow> unit handler" where
  "on_retriever_error env error run = guarded ''on_retriever_error'' (run_error env error run)"

section \<open>Agents and retries\<close>

definition on_agent_action :: "lc_env \<Rightarrow> pyval \<Rightarrow> run_id \<Rightarrow> unit handler" where
  "on_agent_action env action run =
     guarded ''on_agent_action''
       (when_entry run (\<lambda>h.
          let i = hd_span h; log = py_getattr action ''log'' (PStr []) in
          pbind (lc_attr i GEN_AI_OPERATION (PStr GEN_AI_OPERATION_TYPE_AGENT)) (\<lambda>_.
          pwhen (ie_capture_message_content (le_env env))
            (pbind (lc_attr i GEN_AI_AGENT_ACTION_TOOL
               (lc_truncate env (py_getattr action ''tool'' (PStr (py_str (ie_repr (le_env env)) action))))) (\<lambda>_.
             pbind (lc_attr i GEN_AI_AGENT_ACTION_TOOL_INPUT
               (lc_truncate env (py_getattr action ''tool_input'' (PStr [])))) (\<lambda>_.
             pwhen (py_truth log) (lc_attr i GEN_AI_AGENT_ACTION_LOG (lc_truncate env log))))))))"

definition on_agent_finish :: "lc_env \<Rightarrow> pyval \<Rightarrow> run_id \<Rightarrow> unit handler" where
  "on_agent_finish env finish run =
     guarded ''on_agent_finish''
       (when_entry run (\<lambda>h.
          let i = hd_span h; log = py_getattr finish ''log'' (PStr []) in
          pwhen (ie_capture_message_content (le_env env))
            (pbind (lc_attr i GEN_AI_AGENT_FINISH_OUTPUT
               (lc_truncate env (py_getattr finish ''return_values'' (PStr (py_str (ie_repr (le_env env)) finish))))) (\<lambda>_.
             pwhen (py_truth log) (lc_attr i GEN_AI_AGENT_FINISH_LOG (lc_truncate env log))))))"

text \<open>\<open>int(sleep * 1000)\<close>; a bool is an int.\<close>

definition retry_delay :: "pyval \<Rightarrow> (string \<times> pyval) list" where
  "retry_delay sleep =
     (case as_num sleep of
        Some r \<Rightarrow> [(''retry.delay_ms'', PInt (let ms = r * 1000 in if 0 \<le> ms then \<lfloor>ms\<rfloor> else \<lceil>ms\<rceil>))]
      | None \<Rightarrow> [])"

text \<open>The exception of the outcome, \<open>None\<close> when asking for it fails.\<close>

definition retry_error :: "lc_env \<Rightarrow> pyval \<Rightarrow> (string \<times> pyval) list res" where
  "retry_error env outcome =
     (if outcome = PNone then Inr []
      else case le_exception env outcome of
        Inr (Some e) \<Rightarrow> Inr [(''retry.error.type'', PStr (class_name (exc_class e))),
            (''retry.error.message'', PStr (take 256 (exc_msg e)))]
      | Inr None \<Rightarrow> Inr []
      | Inl e \<Rightarrow> (if is_Exception e then Inr [] else Inl e))"

definition retry_attributes :: "lc_env \<Rightarrow> pyval \<Rightarrow> (string, pyval) dict res" where
  "retry_attributes env retry_state =
     (let next_action = py_getattr retry_state ''next_action'' PNone;
          sleep = (if py_truth next_action then py_getattr next_action ''sleep'' PNone else PNone);
          retry_object = py_getattr retry_state ''retry_object'' PNone;
          stop_policy = (if py_truth retry_object then py_getattr retry_object ''stop'' PNone else PNone);
          max_attempts = py_getattr stop_policy ''max_attempt_number'' PNone
      in res_bind (retry_error env (py_getattr retry_state ''outcome'' PNone)) (\<lambda>error.
         Inr ([(''retry.attempt'', py_getattr retry_state ''attempt_number'' (PInt 0))]
           @ retry_delay sleep @ error
           @ (case as_int max_attempts of Some n \<Rightarrow> [(''retry.max_attempts'', max_attempts)] | None \<Rightarrow> []))))"

definition on_retry :: "lc_env \<Rightarrow> pyval \<Rightarrow> run_id \<Rightarrow> unit handler" where
  "on_retry env retry_state run =
     guarded ''on_retry''
       (when_entry run (\<lambda>h.
          pbind (plift (retry_attributes env retry_state)) (\<lambda>attributes.
          pmodify (\<lambda>s. s\<lparr>lc_store := on_stored (hd_span h) (add_event ''retry'' attributes) (lc_store s)\<rparr>))))"

end
