(* ===== verification/LangChainLlm.thy ===== *)
theory LangChainLlm
  imports LangChain
begin

text \<open>
  The LLM callbacks of \<open>OpenLITCallbackHandler\<close>: a run opens a client span, marks the context as owned by the
  framework, collects streamed tokens, and at its end reads token counts, tool calls and the text from the
  result and hands them to \<open>lc_common_chat_logic\<close>.
\<close>

section \<open>The server of a run\<close>

text \<open>The host is stored before the port is read: a malformed port leaves the old one.\<close>

definition base_address :: "pyval \<Rightarrow> string \<times> int \<Rightarrow> string \<times> int" where
  "base_address api_base old =
     (case api_base of
        PStr s \<Rightarrow>
          (case url_authority s of
             None \<Rightarrow> ([], 443)
           | Some u \<Rightarrow>
               (case urlparse_ok u of
                  Inl e \<Rightarrow> old
                | Inr _ \<Rightarrow>
                    (case url_hostname u of Some host \<Rightarrow> host | None \<Rightarrow> [],
                     case url_port u of
                       Inl e \<Rightarrow> snd old
                     | Inr port \<Rightarrow> (case port of Some p \<Rightarrow> (if p = 0 then 443 else p) | None \<Rightarrow> 443))))
      | _ \<Rightarrow> old)"

definition resolve_server :: "pyval \<Rightarrow> string \<Rightarrow> string \<times> int \<Rightarrow> string \<times> int" where
  "resolve_server api_base provider old =
     (let addr = (if py_truth api_base then base_address api_base old else old);
          dflt = get_server_address_for_provider provider
      in if fst addr = [] \<and> fst dflt \<noteq> [] then dflt else addr)"

definition set_server :: "string \<times> int \<Rightarrow> holder \<Rightarrow> holder" where
  "set_server addr h = h\<lparr>hd_server_address := fst addr, hd_server_port := snd addr\<rparr>"

section \<open>Start of a run\<close>

definition attach_llm :: "run_id \<Rightarrow> nat \<Rightarrow> unit handler" where
  "attach_llm run i =
     pbind (\<lambda>s. case set_framework_llm_active (lc_ambient s) of (fw, am) \<Rightarrow>
        case ctx_set (Some i) (lc_current s) of (tok, cur) \<Rightarrow>
          (Inr (fw, tok), s\<lparr>lc_ambient := am, lc_current := cur\<rparr>)) (\<lambda>tokens.
     upd_entry run (\<lambda>h. h\<lparr>hd_token := Some tokens\<rparr>))"

definition lc_attr_given :: "nat \<Rightarrow> string \<Rightarrow> pyval \<Rightarrow> unit handler" where
  "lc_attr_given i k v = pwhen (v \<noteq> PNone) (lc_attr i k v)"

definition model_parameters :: "nat \<Rightarrow> (string, pyval) dict \<Rightarrow> unit handler" where
  "model_parameters i params =
     (let given = (\<lambda>attr k. lc_attr_given i attr (dget_or params k PNone)) in
      pbind (given GEN_AI_REQUEST_TEMPERATURE ''temperature'') (\<lambda>_.
      pbind (given GEN_AI_REQUEST_MAX_TOKENS ''max_tokens'') (\<lambda>_.
      pbind (given GEN_AI_REQUEST_TOP_P ''top_p'') (\<lambda>_.
      pbind (given GEN_AI_REQUEST_TOP_K ''top_k'') (\<lambda>_.
      pbind (given GEN_AI_REQUEST_FREQUENCY_PENALTY ''frequency_penalty'') (\<lambda>_.
      pbind (given GEN_AI_REQUEST_PRESENCE_PENALTY ''presence_penalty'') (\<lambda>_.
      given GEN_AI_REQUEST_SEED ''seed'')))))))"

text \<open>What \<open>on_llm_start\<close> and \<open>on_chat_model_start\<close> do alike; only the first stores the prompts.\<close>

definition open_llm ::
  "lc_env \<Rightarrow> pyval \<Rightarrow> pyval option \<Rightarrow> run_id \<Rightarrow> run_id option \<Rightarrow> pyval \<Rightarrow> (string, pyval) dict \<Rightarrow> rat \<Rightarrow> nat handler" where
  "open_llm env serialized prompts run parent metadata kwargs now =
     (let repr = ie_repr (le_env env);
          invocation_params = dget_or kwargs ''invocation_params'' (PDict [])
      in pbind (plift (extract_model_name repr serialized kwargs)) (\<lambda>model.
         pbind (plift (extract_model_parameters kwargs)) (\<lambda>params.
         pbind (plift (detect_provider serialized)) (\<lambda>provider.
         pbind (create_span run parent (''chat '' @ py_str repr model) True now) (\<lambda>i.
         pbind (attach_llm run i) (\<lambda>_.
         pbind (lc_attr i GEN_AI_PROVIDER_NAME (PStr provider)) (\<lambda>_.
         pbind (common_attributes env i GEN_AI_OPERATION_TYPE_CHAT) (\<lambda>_.
         pbind (lc_attr i GEN_AI_REQUEST_MODEL model) (\<lambda>_.
         pbind (model_parameters i params) (\<lambda>_.
         pbind (conversation_attribute env i metadata) (\<lambda>_.
         pbind (upd_entry run (\<lambda>h. h\<lparr>hd_model_name := model, hd_model_parameters := params,
           hd_prompts := (case prompts of Some v \<Rightarrow> py_or v (PList []) | None \<Rightarrow> hd_prompts h), hd_provider := provider\<rparr>)) (\<lambda>_.
         pbind (plift (py_get invocation_params ''api_base'' PNone)) (\<lambda>a.
         pbind (plift (if py_truth a then Inr a else py_get invocation_params ''base_url'' PNone)) (\<lambda>api_base.
         pbind (upd_entry run (\<lambda>h. set_server (resolve_server api_base provider (hd_server_address h, hd_server_port h)) h)) (\<lambda>_.
         pret i)))))))))))))))"

text \<open>Messages built for the holder; a failure is logged and leaves the holder alone.\<close>

definition store_messages :: "lc_env \<Rightarrow> nat \<Rightarrow> run_id \<Rightarrow> string \<Rightarrow> pyval \<Rightarrow> unit handler" where
  "store_messages env i run message messages_or_prompts =
     ptry (pbind (on_tele i (log_step (lc_build_input_messages (ie_repr (le_env env)) messages_or_prompts))) (\<lambda>ms.
           upd_entry run (\<lambda>h. h\<lparr>hd_input_messages := ms\<rparr>)))
       (\<lambda>e. lc_debug [message, exc_msg e])"

definition on_llm_start ::
  "lc_env \<Rightarrow> pyval \<Rightarrow> pyval \<Rightarrow> run_id \<Rightarrow> run_id option \<Rightarrow> pyval \<Rightarrow> (string, pyval) dict \<Rightarrow> rat \<Rightarrow> unit handler" where
  "on_llm_start env serialized prompts run parent metadata kwargs now =
     (let e = le_env env in
      guarded ''on_llm_start''
        (pbind (open_llm env serialized (Some prompts) run parent metadata kwargs now) (\<lambda>i.
         pwhen (py_truth prompts)
           (pbind (plift (res_bind (py_iter prompts) (join_values [CHR 0x0A]))) (\<lambda>text.
            let prompt_str = truncate_content (ie_repr e) (ie_max_content_length e) (PStr text) in
            pbind (upd_entry run (\<lambda>h. h\<lparr>hd_input_tokens := general_tokens prompt_str\<rparr>)) (\<lambda>_.
            pwhen (ie_capture_message_content e)
              (store_messages env i run ''Error building structured prompts: %s'' prompts)))))))"

definition system_instructions :: "(pyval \<Rightarrow> string) \<Rightarrow> pyval list \<Rightarrow> pyval list" where
  "system_instructions repr msgs =
     concat (map (\<lambda>msg.
       let content = py_getattr msg ''content'' (PStr []) in
       if py_getattr msg ''type'' (PStr []) = PStr ''system'' \<and> py_truth content
       then [PDict [(''type'', PStr ''text''), (''content'', PStr (py_str repr content))]] else []) msgs)"

definition system_attribute :: "lc_env \<Rightarrow> nat \<Rightarrow> run_id \<Rightarrow> pyval list \<Rightarrow> unit handler" where
  "system_attribute env i run msgs =
     (let e = le_env env; instrs = system_instructions (ie_repr e) msgs in
      pwhen (ie_capture_message_content e \<and> instrs \<noteq> [])
        (pbind (upd_entry run (\<lambda>h. h\<lparr>hd_system_instructions := PList instrs\<rparr>)) (\<lambda>_.
         pbind (plift (ie_json_dumps e (PList instrs))) (\<lambda>s.
         lc_attr i GEN_AI_SYSTEM_INSTRUCTIONS (PStr s)))))"

definition tools_attribute :: "lc_env \<Rightarrow> nat \<Rightarrow> run_id \<Rightarrow> (string, pyval) dict \<Rightarrow> unit handler" where
  "tools_attribute env i run kwargs =
     (let invocation_params = dget_or kwargs ''invocation_params'' (PDict []) in
      pbind (plift (py_get invocation_params ''tools'' PNone)) (\<lambda>ts.
      pbind (plift (if py_truth ts then Inr ts else py_get invocation_params ''functions'' PNone)) (\<lambda>tools.
      case tools of
        PList l \<Rightarrow> pwhen (l \<noteq> [])
          (pbind (upd_entry run (\<lambda>h. h\<lparr>hd_tool_definitions := tools\<rparr>)) (\<lambda>_.
           pbind (plift (le_dumps_str env tools)) (\<lambda>s.
           lc_attr i GEN_AI_TOOL_DEFINITIONS (PStr s))))
      | _ \<Rightarrow> pret ())))"

definition on_chat_model_start ::
  "lc_env \<Rightarrow> pyval \<Rightarrow> pyval \<Rightarrow> run_id \<Rightarrow> run_id option \<Rightarrow> pyval \<Rightarrow> (string, pyval) dict \<Rightarrow> rat \<Rightarrow> unit handler" where
  "on_chat_model_start env serialized messages run parent metadata kwargs now =
     (let e = le_env env in
      guarded ''on_chat_model_start''
        (pbind (open_llm env serialized None run parent metadata kwargs now) (\<lambda>i.
         pwhen (py_truth messages)
           (pbind (plift (flat_messages messages)) (\<lambda>msgs.
            let prompt_str = truncate_content (ie_repr e) (ie_max_content_length e)
                  (PStr (py_join [CHR 0x0A] (map (lc_message_line (ie_repr e) (PStr ''unknown'')) msgs))) in
            pbind (upd_entry run (\<lambda>h. h\<lparr>hd_prompt_content := prompt_str, hd_input_tokens := general_tokens prompt_str,
              hd_input_messages_raw := messages\<rparr>)) (\<lambda>_.
            pbind (system_attribute env i run msgs) (\<lambda>_.
            pbind (tools_attribute env i run kwargs) (\<lambda>_.
            store_messages env i run ''Error building structured messages: %s'' messages))))))))"

section \<open>Streamed tokens\<close>

definition token_item :: "(pyval \<Rightarrow> string) \<Rightarrow> pyval \<Rightarrow> string" where
  "token_item repr item =
     (case item of
        PStr s \<Rightarrow> s
      | PDict d \<Rightarrow> (case dget d ''text'' of Some t \<Rightarrow> py_str repr t | None \<Rightarrow> py_str repr item)
      | PObj c a \<Rightarrow> (case dget a ''text'' of Some t \<Rightarrow> py_str repr t | None \<Rightarrow> py_str repr item)
      | _ \<Rightarrow> py_str repr item)"

text \<open>\<open>None\<close> and the empty string are both false where the result is tested.\<close>

definition extract_str :: "(pyval \<Rightarrow> string) \<Rightarrow> pyval \<Rightarrow> string" where
  "extract_str repr content =
     (case content of
        PNone \<Rightarrow> []
      | PStr s \<Rightarrow> s
      | PList items \<Rightarrow> concat (map (token_item repr) items)
      | _ \<Rightarrow> py_str repr content)"

definition chunk_text :: "(pyval \<Rightarrow> string) \<Rightarrow> pyval \<Rightarrow> string" where
  "chunk_text repr chunk =
     (let content = py_getattr chunk ''content'' PNone; text = py_getattr chunk ''text'' PNone in
      if py_truth content then extract_str repr content
      else if py_truth text then extract_str repr text
      else let inner = py_getattr (py_getattr chunk ''message'' PNone) ''content'' PNone
           in if py_truth inner then extract_str repr inner else [])"

definition token_text :: "(pyval \<Rightarrow> string) \<Rightarrow> pyval \<Rightarrow> pyval \<Rightarrow> string" where
  "token_text repr token chunk =
     (let s = extract_str repr token in if s = [] \<and> chunk \<noteq> PNone then chunk_text repr chunk else s)"

definition add_token :: "string \<Rightarrow> rat \<Rightarrow> holder \<Rightarrow> holder" where
  "add_token s now h =
     h\<lparr>hd_first_token_time := (case hd_first_token_time h of None \<Rightarrow> Some now | Some t \<Rightarrow> Some t),
       hd_token_timestamps := hd_token_timestamps h @ [now],
       hd_streaming_content := hd_streaming_content h @ (if s = [] then [] else [PStr s])\<rparr>"

definition on_llm_new_token :: "lc_env \<Rightarrow> pyval \<Rightarrow> pyval \<Rightarrow> run_id \<Rightarrow> rat \<Rightarrow> unit handler" where
  "on_llm_new_token env token chunk run now =
     guarded ''on_llm_new_token''
       (when_entry run (\<lambda>h. upd_entry run (add_token (token_text (ie_repr (le_env env)) token chunk) now)))"

section \<open>The result of a run\<close>

definition flatten_item :: "(pyval \<Rightarrow> string) \<Rightarrow> pyval list \<Rightarrow> string list" where
  "flatten_item repr items = map (py_str repr) (filter py_truth items)"

definition join_streaming_content :: "(pyval \<Rightarrow> string) \<Rightarrow> pyval list \<Rightarrow> string" where
  "join_streaming_content repr streaming_content =
     concat (concat (map (\<lambda>item. case item of
         PList sub \<Rightarrow> flatten_item repr sub
       | _ \<Rightarrow> (if py_truth item then [py_str repr item] else [])) streaming_content))"

definition generation_content :: "(pyval \<Rightarrow> string) \<Rightarrow> pyval \<Rightarrow> pyval" where
  "generation_content repr gen =
     (let text = py_getattr gen ''text'' PNone in
      if py_truth text then text
      else let content = py_getattr (py_getattr gen ''message'' PNone) ''content'' PNone
           in if py_truth content then PStr (py_str repr content) else PNone)"

text \<open>\<open>d.get(k1) or d.get(k2) or v\<close>, and \<open>d.get(k, 0) or 0\<close>.\<close>

definition get_either :: "pyval \<Rightarrow> string \<Rightarrow> string \<Rightarrow> pyval \<Rightarrow> pyval res" where
  "get_either d k1 k2 v =
     res_bind (py_get d k1 PNone) (\<lambda>a. if py_truth a then Inr a else res_bind (py_get d k2 PNone) (\<lambda>b. Inr (py_or b v)))"

definition get_count :: "pyval \<Rightarrow> string \<Rightarrow> pyval res" where
  "get_count d k = res_bind (py_get d k (PInt 0)) (\<lambda>v. Inr (py_or v (PInt 0)))"

definition is_zero :: "pyval \<Rightarrow> bool" where
  "is_zero v \<longleftrightarrow> as_num v = Some 0"

text \<open>The cached token counts of a usage dict, in OpenAI's or in LangChain's layout.\<close>

definition cache_counts :: "pyval \<Rightarrow> (pyval \<times> pyval) res" where
  "cache_counts usage =
     res_bind (get_either usage ''prompt_tokens_details'' ''input_tokens_details'' (PDict [])) (\<lambda>prompt_details.
     res_bind (get_count prompt_details ''cached_tokens'') (\<lambda>cached.
     res_bind (py_get usage ''input_tokens_details'' PNone) (\<lambda>i.
     res_bind (get_count (py_or i (PDict [])) ''cache_creation_tokens'') (\<lambda>creation.
     res_bind (py_get usage ''input_token_details'' PNone) (\<lambda>l.
     let langchain_input = py_or l (PDict []) in
     res_bind (if is_zero cached then get_count langchain_input ''cache_read'' else Inr cached) (\<lambda>cached.
     res_bind (if is_zero creation then get_count langchain_input ''cache_creation'' else Inr creation) (\<lambda>creation.
     Inr (cached, creation))))))))"

type_synonym tokens = "pyval \<times> pyval"

definition set_cache :: "pyval \<times> pyval \<Rightarrow> holder \<Rightarrow> holder" where
  "set_cache c h = h\<lparr>hd_cache_read_input_tokens := fst c, hd_cache_creation_input_tokens := snd c\<rparr>"

definition usage_metadata :: "pyval \<Rightarrow> tokens \<Rightarrow> (holder, tokens) prog" where
  "usage_metadata usage tokens =
     pbind (plift (get_either usage ''input_tokens'' ''prompt_tokens'' (fst tokens))) (\<lambda>inp.
     pbind (plift (get_either usage ''output_tokens'' ''completion_tokens'' (snd tokens))) (\<lambda>outp.
     pbind (plift (cache_counts usage)) (\<lambda>c.
     pbind (pmodify (set_cache c)) (\<lambda>_. pret (inp, outp)))))"

definition token_usage :: "pyval \<Rightarrow> tokens \<Rightarrow> (holder, tokens) prog" where
  "token_usage usage tokens =
     pbind (plift (get_either usage ''prompt_tokens'' ''input_tokens'' (fst tokens))) (\<lambda>inp.
     pbind (plift (get_either usage ''completion_tokens'' ''output_tokens'' (snd tokens))) (\<lambda>outp.
     pbind (plift (get_either usage ''prompt_tokens_details'' ''input_tokens_details'' (PDict []))) (\<lambda>prompt_details.
     pbind (pgets (\<lambda>h. is_zero (hd_cache_read_input_tokens h))) (\<lambda>no_read.
     pbind (pwhen no_read (pbind (plift (get_count prompt_details ''cached_tokens'')) (\<lambda>n.
       pmodify (\<lambda>h. h\<lparr>hd_cache_read_input_tokens := n\<rparr>)))) (\<lambda>_.
     pbind (plift (py_get usage ''input_tokens_details'' PNone)) (\<lambda>i.
     pbind (pgets (\<lambda>h. is_zero (hd_cache_creation_input_tokens h))) (\<lambda>no_creation.
     pbind (pwhen no_creation (pbind (plift (get_count (py_or i (PDict [])) ''cache_creation_tokens'')) (\<lambda>n.
       pmodify (\<lambda>h. h\<lparr>hd_cache_creation_input_tokens := n\<rparr>)))) (\<lambda>_.
     pret (inp, outp)))))))))"

text \<open>\<open>d.get(k1, d.get(k2, v))\<close>.\<close>

definition get_nested :: "pyval \<Rightarrow> string \<Rightarrow> string \<Rightarrow> pyval \<Rightarrow> pyval res" where
  "get_nested d k1 k2 v = res_bind (py_get d k2 v) (py_get d k1)"

definition bedrock_usage :: "(string, pyval) dict \<Rightarrow> tokens \<Rightarrow> tokens res" where
  "bedrock_usage metadata tokens =
     (case dget metadata ''usage'' of
        None \<Rightarrow> Inr tokens
      | Some usage \<Rightarrow>
          res_bind (get_nested usage ''inputTokens'' ''input_tokens'' (fst tokens)) (\<lambda>inp.
          res_bind (get_nested usage ''outputTokens'' ''output_tokens'' (snd tokens)) (\<lambda>outp. Inr (inp, outp))))"

definition titan_usage :: "(string, pyval) dict \<Rightarrow> tokens \<Rightarrow> tokens res" where
  "titan_usage metadata tokens =
     (case dget metadata ''amazon-bedrock-invocationMetrics'' of
        None \<Rightarrow> Inr tokens
      | Some m \<Rightarrow>
          res_bind (py_get m ''inputTokenCount'' (fst tokens)) (\<lambda>inp.
          res_bind (py_get m ''outputTokenCount'' (snd tokens)) (\<lambda>outp. Inr (inp, outp))))"

definition extract_message_usage :: "pyval \<Rightarrow> tokens \<Rightarrow> (holder, tokens) prog" where
  "extract_message_usage gen tokens =
     (let msg = py_getattr gen ''message'' PNone;
          usage = py_getattr msg ''usage_metadata'' PNone;
          metadata = py_getattr msg ''response_metadata'' PNone
      in if \<not> py_truth msg then pret tokens
         else pbind (if py_truth usage then usage_metadata usage tokens else pret tokens) (\<lambda>tokens.
           case metadata of
             PDict m \<Rightarrow>
               (let u = dget_or m ''token_usage'' PNone in
                pbind (if py_truth u then token_usage u tokens else pret tokens) (\<lambda>tokens.
                pbind (plift (bedrock_usage m tokens)) (\<lambda>tokens. plift (titan_usage m tokens))))
           | _ \<Rightarrow> pret tokens))"

definition generation_info_usage :: "pyval \<Rightarrow> tokens \<Rightarrow> tokens res" where
  "generation_info_usage gen tokens =
     (let info = py_getattr gen ''generation_info'' PNone in
      if \<not> py_truth info then Inr tokens
      else res_bind (py_in ''usage'' info) (\<lambda>present.
        if present then
          res_bind (py_index info (PStr ''usage'')) (\<lambda>usage.
          res_bind (py_get usage ''input_tokens'' (fst tokens)) (\<lambda>inp.
          res_bind (py_get usage ''output_tokens'' (snd tokens)) (\<lambda>outp. Inr (inp, outp))))
        else Inr tokens))"

text \<open>The longest generation replaces the text; usage is read from every one.\<close>

definition longer_content :: "pyval \<Rightarrow> pyval \<Rightarrow> pyval res" where
  "longer_content gen_content completion =
     (if \<not> py_truth gen_content then Inr completion
      else if \<not> py_truth completion then Inr gen_content
      else res_bind (py_len gen_content) (\<lambda>n. res_bind (py_len completion) (\<lambda>m.
        Inr (if n > m then gen_content else completion))))"

fun generations_loop :: "(pyval \<Rightarrow> string) \<Rightarrow> pyval list \<Rightarrow> tokens \<times> pyval \<Rightarrow> (holder, tokens \<times> pyval) prog" where
  "generations_loop repr [] acc = pret acc"
| "generations_loop repr (gen # gens) (tokens, completion) =
     pbind (plift (longer_content (generation_content repr gen) completion)) (\<lambda>completion.
     pbind (extract_message_usage gen tokens) (\<lambda>tokens.
     pbind (plift (generation_info_usage gen tokens)) (\<lambda>tokens.
     generations_loop repr gens (tokens, completion))))"

fun prompts_loop :: "(pyval \<Rightarrow> string) \<Rightarrow> pyval list \<Rightarrow> tokens \<times> pyval \<Rightarrow> (holder, tokens \<times> pyval) prog" where
  "prompts_loop repr [] acc = pret acc"
| "prompts_loop repr (gen_list # gen_lists) acc =
     pbind (plift (py_iter gen_list)) (\<lambda>gens.
     pbind (generations_loop repr gens acc) (prompts_loop repr gen_lists))"

text \<open>The lists of generations of a result, one per prompt.\<close>

definition generations_of :: "pyval \<Rightarrow> pyval list res" where
  "generations_of response =
     res_bind (py_attr response ''generations'') (\<lambda>g. if py_truth g then py_iter g else Inr [])"

definition format_tool_call :: "instr_env \<Rightarrow> pyval \<Rightarrow> pyval res" where
  "format_tool_call env call =
     res_bind (case msg_field call ''args'' PNone of
         PDict d \<Rightarrow> ie_json_dumps env (PDict d)
       | _ \<Rightarrow> Inr (py_str (ie_repr env) (msg_field call ''args'' (PStr [])))) (\<lambda>args.
       Inr (PDict [(''id'', msg_field call ''id'' (PStr [])),
         (''function'', PDict [(''name'', msg_field call ''name'' (PStr [])), (''arguments'', PStr args)])]))"

definition finish_fields :: "instr_env \<Rightarrow> pyval \<Rightarrow> (holder, unit) prog" where
  "finish_fields env gen =
     (let msg = py_getattr gen ''message'' PNone; tc = py_getattr msg ''tool_calls'' PNone in
      pwhen (py_truth msg)
        (pbind (pwhen (py_truth tc)
           (pbind (plift (py_iter tc)) (\<lambda>calls.
            pbind (plift (res_map (format_tool_call env) calls)) (\<lambda>formatted.
            pwhen (formatted \<noteq> []) (pmodify (\<lambda>h. h\<lparr>hd_tool_calls := PList formatted\<rparr>)))))) (\<lambda>_.
         case py_getattr msg ''response_metadata'' (PDict []) of
           PDict m \<Rightarrow> (let fr = dget_or m ''finish_reason'' PNone in
             pwhen (py_truth fr) (pmodify (\<lambda>h. h\<lparr>hd_finish_reason := fr\<rparr>)))
         | _ \<Rightarrow> pret ())))"

definition llm_output_usage :: "pyval \<Rightarrow> tokens \<Rightarrow> (holder, tokens) prog" where
  "llm_output_usage llm_output tokens =
     (if \<not> py_truth llm_output then pret tokens
      else
        pbind (plift (py_get llm_output ''token_usage'' PNone)) (\<lambda>u.
        pbind (plift (if py_truth u then Inr u else py_get llm_output ''usage'' (PDict []))) (\<lambda>usage.
        if \<not> py_truth usage then pret tokens
        else
          pbind (plift (get_either usage ''prompt_tokens'' ''input_tokens'' (fst tokens))) (\<lambda>inp.
          pbind (plift (get_either usage ''completion_tokens'' ''output_tokens'' (snd tokens))) (\<lambda>outp.
          pbind (plift (cache_counts usage)) (\<lambda>c.
          pbind (pmodify (set_cache c)) (\<lambda>_. pret (inp, outp))))))))"

text \<open>Counts that are missing are estimated from the text; a failure is logged.\<close>

definition estimated :: "lc_env \<Rightarrow> string \<Rightarrow> pyval \<Rightarrow> pyval \<Rightarrow> pyval handler" where
  "estimated env message count text =
     ptry (if is_zero count \<and> py_truth text then plift (value_general_tokens text) else pret count)
       (\<lambda>e. pbind (lc_debug [message, exc_msg e]) (\<lambda>_. pret count))"

definition response_model_of :: "pyval \<Rightarrow> pyval \<Rightarrow> pyval res" where
  "response_model_of llm_output model =
     (if \<not> py_truth llm_output then Inr model
      else res_bind (py_get llm_output ''model_name'' PNone) (\<lambda>m.
        if py_truth m then Inr m else py_get llm_output ''model'' model))"

definition response_id_of :: "pyval \<Rightarrow> pyval res" where
  "response_id_of llm_output =
     res_bind (py_get (py_or llm_output (PDict [])) ''id'' PNone) (\<lambda>i. Inr (py_or i PNone))"

definition scope_of_run :: "holder \<Rightarrow> pyval \<Rightarrow> pyval \<Rightarrow> tokens \<Rightarrow> pyval \<Rightarrow> rat \<Rightarrow> rat \<Rightarrow> lc_scope" where
  "scope_of_run h response_model response_id tokens completion tbt ttft =
     \<lparr>lk_params = hd_model_parameters h, lk_start_time = hd_start_time h,
      lk_server_address = (if hd_server_address h = [] then ''localhost'' else hd_server_address h),
      lk_server_port = (if hd_server_port h = 0 then 443 else hd_server_port h),
      lk_request_model = hd_model_name h, lk_response_model = response_model, lk_response_id = response_id,
      lk_llmresponse = py_or completion (PStr []), lk_finish_reason = hd_finish_reason h, lk_tools = hd_tool_calls h,
      lk_input_tokens = fst tokens, lk_output_tokens = snd tokens, lk_cache_read = hd_cache_read_input_tokens h,
      lk_cache_creation = hd_cache_creation_input_tokens h, lk_timestamps = hd_token_timestamps h, lk_tbt = tbt,
      lk_ttft = ttft, lk_input_messages_raw = hd_input_messages_raw h, lk_prompts = hd_prompts h,
      lk_system_instructions = hd_system_instructions h, lk_tool_definitions = hd_tool_definitions h,
      lk_provider = hd_provider h\<rparr>"

section \<open>End of a run\<close>

text \<open>\<open>detach\<close> never raises; resetting the flag raises when its token has been used.\<close>

definition detach_llm :: "run_id \<Rightarrow> unit handler" where
  "detach_llm run =
     pbind (entry run) (\<lambda>h.
     case hd_token h of
       None \<Rightarrow> pret ()
     | Some (fw, tok) \<Rightarrow>
         pbind (pmodify (\<lambda>s. s\<lparr>lc_current := snd (ctx_reset tok (lc_current s))\<rparr>)) (\<lambda>_.
         \<lambda>s. case reset_framework_llm_active fw (lc_ambient s) of (r, am) \<Rightarrow> (r, s\<lparr>lc_ambient := am\<rparr>)))"

text \<open>Reading the result; the clock readings are \<open>end_time\<close> and that of \<open>lc_common_chat_logic\<close>.\<close>

definition run_result :: "lc_env \<Rightarrow> pyval \<Rightarrow> run_id \<Rightarrow> holder \<Rightarrow> rat \<Rightarrow> lc_scope handler" where
  "run_result env response run h0 end_time =
     (let e = le_env env; repr = ie_repr e;
          streamed = is_streaming h0;
          ttft = (if streamed then calculate_ttft (hd_token_timestamps h0) (hd_start_time h0) else end_time - hd_start_time h0);
          tbt = (if streamed then calculate_tbt (hd_token_timestamps h0) else 0);
          text = PStr (join_streaming_content repr (hd_streaming_content h0))
      in pbind (plift (generations_of response)) (\<lambda>gen_lists.
         pbind (on_entry run (prompts_loop repr gen_lists ((PInt (hd_input_tokens h0), PInt 0), text))) (\<lambda>acc.
         pbind (on_entry run (pfor gen_lists (\<lambda>l. pbind (plift (py_iter l)) (\<lambda>gens. pfor gens (finish_fields e))))) (\<lambda>_.
         pbind (plift (py_attr response ''llm_output'')) (\<lambda>llm_output.
         pbind (on_entry run (llm_output_usage llm_output (fst acc))) (\<lambda>tokens.
         pbind (estimated env ''Error calculating output tokens: %s'' (snd tokens) (snd acc)) (\<lambda>outp.
         pbind (estimated env ''Error calculating input tokens: %s'' (fst tokens) (PStr (hd_prompt_content h0))) (\<lambda>inp.
         pbind (plift (response_model_of llm_output (hd_model_name h0))) (\<lambda>response_model.
         pbind (plift (response_id_of llm_output)) (\<lambda>response_id.
         pbind (entry run) (\<lambda>h.
         pret (scope_of_run h response_model response_id (inp, outp) (snd acc) tbt ttft))))))))))))"

definition on_llm_end :: "lc_env \<Rightarrow> pyval \<Rightarrow> run_id \<Rightarrow> rat \<Rightarrow> rat \<Rightarrow> unit handler" where
  "on_llm_end env response run now now' =
     guarded ''on_llm_end''
       (when_entry run (\<lambda>h.
          pbind (lc_attr (hd_span h) GEN_AI_CLIENT_OPERATION_DURATION (PFloat (now - hd_start_time h))) (\<lambda>_.
          pbind (run_result env response run h now) (\<lambda>scope.
          pbind (on_tele (hd_span h) (lc_common_chat_logic (le_env env) (is_streaming h) now' scope)) (\<lambda>_.
          pbind (detach_llm run) (\<lambda>_.
          finish_span run None))))))"

definition on_llm_error :: "lc_env \<Rightarrow> pyexc \<Rightarrow> run_id \<Rightarrow> unit handler" where
  "on_llm_error env error run =
     guarded ''on_llm_error''
       (pbind (when_entry run (\<lambda>h. pbind (error_attribute env error run) (\<lambda>_. detach_llm run))) (\<lambda>_.
        finish_span run (Some (exc_msg error))))"

section \<open>The handler as a state machine\<close>

text \<open>The callbacks LangChain makes, with their clock readings.\<close>

datatype callback =
    ChainStart pyval pyval run_id "run_id option" pyval "(string, pyval) dict" rat
  | ChainEnd pyval run_id rat rat
  | ChainError pyexc run_id
  | LlmStart pyval pyval run_id "run_id option" pyval "(string, pyval) dict" rat
  | ChatModelStart pyval pyval run_id "run_id option" pyval "(string, pyval) dict" rat
  | LlmNewToken pyval pyval run_id rat
  | LlmEnd pyval run_id rat rat
  | LlmError pyexc run_id
  | ToolStart pyval pyval run_id "run_id option" pyval "(string, pyval) dict" rat
  | ToolEnd pyval run_id rat rat
  | ToolError pyexc run_id
  | RetrieverStart pyval pyval run_id "run_id option" pyval "(string, pyval) dict" rat
  | RetrieverEnd pyval run_id rat rat
  | RetrieverError pyexc run_id
  | AgentAction pyval run_id
  | AgentFinish pyval run_id
  | Retry pyval run_id

fun dispatch :: "lc_env \<Rightarrow> callback \<Rightarrow> unit handler" where
  "dispatch env (ChainStart serialized inputs run parent metadata kwargs now) =
     on_chain_start env serialized inputs run parent metadata kwargs now"
| "dispatch env (ChainEnd outputs run now now') = on_chain_end env outputs run now now'"
| "dispatch env (ChainError error run) = on_chain_error env error run"
| "dispatch env (LlmStart serialized prompts run parent metadata kwargs now) =
     on_llm_start env serialized prompts run parent metadata kwargs now"
| "dispatch env (ChatModelStart serialized messages run parent metadata kwargs now) =
     on_chat_model_start env serialized messages run parent metadata kwargs now"
| "dispatch env (LlmNewToken token chunk run now) = on_llm_new_token env token chunk run now"
| "dispatch env (LlmEnd response run now now') = on_llm_end env response run now now'"
| "dispatch env (LlmError error run) = on_llm_error env error run"
| "dispatch env (ToolStart serialized input_str run parent metadata kwargs now) =
     on_tool_start env serialized input_str run parent metadata kwargs now"
| "dispatch env (ToolEnd output run now now') = on_tool_end env output run now now'"
| "dispatch env (ToolError error run) = on_tool_error env error run"
| "dispatch env (RetrieverStart serialized query run parent metadata kwargs now) =
     on_retriever_start env serialized query run parent metadata kwargs now"
| "dispatch env (RetrieverEnd documents run now now') = on_retriever_end env documents run now now'"
| "dispatch env (RetrieverError error run) = on_retriever_error env error run"
| "dispatch env (AgentAction action run) = on_agent_action env action run"
| "dispatch env (AgentFinish finish run) = on_agent_finish env finish run"
| "dispatch env (Retry retry_state run) = on_retry env retry_state run"

end
