(* ===== verification/LangChainTracker.thy ===== *)
theory LangChainTracker
  imports LangChainLlm
begin

text \<open>
  An abstract specification of the callback handler: a tracker of runs and spans that opens a span per run,
  marks LLM runs as owning the context, and closes a run together with its children.  The handler refines
  it: a callback makes at most one step of the tracker.
\<close>

section \<open>The tracker\<close>

text \<open>A run has its span and, for an LLM run, the two context tokens; a span knows whether it has ended and its
  parent.\<close>

type_synonym run_tokens = "bool token \<times> nat option token"

record tracker =
  tr_runs :: "run_id \<Rightarrow> (nat \<times> run_tokens option) option"
  tr_spans :: "(bool \<times> nat option) list"
  tr_flag :: "bool ctxvar"
  tr_current :: "nat option ctxvar"

definition initial_tracker :: tracker where
  "initial_tracker = \<lparr>tr_runs = (\<lambda>_. None), tr_spans = [], tr_flag = fresh_var False, tr_current = fresh_var None\<rparr>"

definition open_run :: "run_id \<Rightarrow> nat option \<Rightarrow> tracker \<Rightarrow> tracker" where
  "open_run run parent t =
     t\<lparr>tr_runs := (tr_runs t)(run \<mapsto> (length (tr_spans t), None)), tr_spans := tr_spans t @ [(False, parent)]\<rparr>"

definition own_context :: "run_id \<Rightarrow> nat \<Rightarrow> tracker \<Rightarrow> tracker" where
  "own_context run i t =
     (case ctx_set True (tr_flag t) of (fw, flag) \<Rightarrow>
        case ctx_set (Some i) (tr_current t) of (tok, cur) \<Rightarrow>
          t\<lparr>tr_flag := flag, tr_current := cur, tr_runs := (tr_runs t)(run \<mapsto> (i, Some (fw, tok)))\<rparr>)"

definition give_context :: "run_tokens \<Rightarrow> tracker \<Rightarrow> tracker" where
  "give_context tokens t =
     t\<lparr>tr_current := snd (ctx_reset (snd tokens) (tr_current t)), tr_flag := snd (ctx_reset (fst tokens) (tr_flag t))\<rparr>"

definition end_spans :: "nat set \<Rightarrow> (bool \<times> nat option) list \<Rightarrow> (bool \<times> nat option) list" where
  "end_spans I spans = map (\<lambda>j. (fst (spans ! j) \<or> j \<in> I, snd (spans ! j))) [0..<length spans]"

definition close_run :: "run_id \<Rightarrow> nat set \<Rightarrow> tracker \<Rightarrow> tracker" where
  "close_run run I t = t\<lparr>tr_runs := (tr_runs t)(run := None), tr_spans := end_spans I (tr_spans t)\<rparr>"

text \<open>The spans of a run that closes: its own, and some of runs still in the table.\<close>

definition closes :: "run_id \<Rightarrow> nat set \<Rightarrow> tracker \<Rightarrow> bool" where
  "closes run I t \<longleftrightarrow> (\<forall>i tok. tr_runs t run = Some (i, tok) \<longrightarrow> i \<in> I)"

text \<open>The steps, labelled with what happened to which run.\<close>

datatype label = Opened run_id | OpenedLlm run_id | Closed run_id | ClosedLlm run_id

definition give_back :: "run_tokens option \<Rightarrow> tracker \<Rightarrow> tracker" where
  "give_back tokens t = (case tokens of None \<Rightarrow> t | Some tk \<Rightarrow> give_context tk t)"

inductive track :: "label \<Rightarrow> tracker \<Rightarrow> tracker \<Rightarrow> bool" where
  opens: "tr_runs t run = None \<Longrightarrow> (\<And>j. parent = Some j \<Longrightarrow> j < length (tr_spans t)) \<Longrightarrow>
     track (Opened run) t (open_run run parent t)"
| opens_llm: "tr_runs t run = None \<Longrightarrow> (\<And>j. parent = Some j \<Longrightarrow> j < length (tr_spans t)) \<Longrightarrow>
     track (OpenedLlm run) t (own_context run (length (tr_spans t)) (open_run run parent t))"
| closed: "closes run I t \<Longrightarrow> track (Closed run) t (close_run run I t)"
| closed_llm: "tr_runs t run = Some (i, tokens) \<Longrightarrow> closes run I t \<Longrightarrow>
     track (ClosedLlm run) t (close_run run I (give_back tokens t))"

inductive_cases openedE: "track (Opened run) t u"
inductive_cases opened_llmE: "track (OpenedLlm run) t u"
inductive_cases closedE: "track (Closed run) t u"
inductive_cases closed_llmE: "track (ClosedLlm run) t u"

inductive tracked :: "tracker \<Rightarrow> bool" where
  start: "tracked initial_tracker"
| step: "tracked t \<Longrightarrow> track l t u \<Longrightarrow> tracked u"

section \<open>Its invariant\<close>

text \<open>Runs have spans of their own; a span without a run has ended; parents were started earlier; the tokens of
  open runs are distinct and have not been used.\<close>

definition runs_ok :: "tracker \<Rightarrow> bool" where
  "runs_ok t \<longleftrightarrow> (\<forall>r i tok. tr_runs t r = Some (i, tok) \<longrightarrow> i < length (tr_spans t))
     \<and> (\<forall>r r' i tok tok'. tr_runs t r = Some (i, tok) \<longrightarrow> tr_runs t r' = Some (i, tok') \<longrightarrow> r = r')"

definition spans_ok :: "tracker \<Rightarrow> bool" where
  "spans_ok t \<longleftrightarrow> (\<forall>i < length (tr_spans t). fst (tr_spans t ! i) \<or> (\<exists>r tok. tr_runs t r = Some (i, tok)))"

definition parents_ok :: "tracker \<Rightarrow> bool" where
  "parents_ok t \<longleftrightarrow> (\<forall>i < length (tr_spans t). \<forall>j. snd (tr_spans t ! i) = Some j \<longrightarrow> j < i)
     \<and> (\<forall>j. cv_value (tr_current t) = Some j \<longrightarrow> j < length (tr_spans t))
     \<and> (\<forall>r i fw tok j. tr_runs t r = Some (i, Some (fw, tok)) \<longrightarrow> tok_old tok = Some j \<longrightarrow> j < length (tr_spans t))"

definition owns_token :: "tracker \<Rightarrow> run_id \<Rightarrow> nat \<Rightarrow> bool" where
  "owns_token t r n \<longleftrightarrow> (\<exists>i fw tok. tr_runs t r = Some (i, Some (fw, tok)) \<and> tok_id fw = n)"

definition tokens_ok :: "tracker \<Rightarrow> bool" where
  "tokens_ok t \<longleftrightarrow> (\<forall>n \<in> set (cv_used (tr_flag t)). n < cv_issued (tr_flag t))
     \<and> (\<forall>r n. owns_token t r n \<longrightarrow> n < cv_issued (tr_flag t) \<and> n \<notin> set (cv_used (tr_flag t)))
     \<and> (\<forall>r r' n. owns_token t r n \<longrightarrow> owns_token t r' n \<longrightarrow> r = r')"

definition tracker_ok :: "tracker \<Rightarrow> bool" where
  "tracker_ok t \<longleftrightarrow> runs_ok t \<and> spans_ok t \<and> parents_ok t \<and> tokens_ok t"

lemma length_end_spans [simp]: "length (end_spans I spans) = length spans"
  by (simp add: end_spans_def)

lemma nth_end_spans [simp]:
  "i < length spans \<Longrightarrow> end_spans I spans ! i = (fst (spans ! i) \<or> i \<in> I, snd (spans ! i))"
  by (simp add: end_spans_def)

lemmas tracker_ops = open_run_def own_context_def give_context_def close_run_def ctx_set_def ctx_reset_def

lemma owns_token_ops [simp]:
  "owns_token (open_run run parent t) r n \<longleftrightarrow> r \<noteq> run \<and> owns_token t r n"
  "owns_token (own_context run i t) r n \<longleftrightarrow> (if r = run then n = cv_issued (tr_flag t) else owns_token t r n)"
  "owns_token (close_run run I t) r n \<longleftrightarrow> r \<noteq> run \<and> owns_token t r n"
  "owns_token (give_context tokens t) r n \<longleftrightarrow> owns_token t r n"
  by (auto simp: owns_token_def tracker_ops)

lemma flag_ops [simp]:
  "tr_flag (open_run run parent t) = tr_flag t" "tr_flag (close_run run I t) = tr_flag t"
  "tr_runs (give_context tokens t) = tr_runs t" "tr_spans (give_context tokens t) = tr_spans t"
  by (simp_all add: tracker_ops)

lemma initial_ok: "tracker_ok initial_tracker"
  by (simp add: owns_token_def tracker_ok_def runs_ok_def spans_ok_def parents_ok_def tokens_ok_def initial_tracker_def fresh_var_def)

lemma open_ok:
  assumes "tracker_ok t" "tr_runs t run = None" "\<And>j. parent = Some j \<Longrightarrow> j < length (tr_spans t)"
  shows "tracker_ok (open_run run parent t)"
proof -
  have "runs_ok (open_run run parent t)"
    using assms by (auto simp: tracker_ok_def runs_ok_def open_run_def less_Suc_eq split: if_splits)
  moreover have "spans_ok (open_run run parent t)"
    using assms by (auto simp: tracker_ok_def spans_ok_def open_run_def less_Suc_eq nth_append)
      (metis option.distinct(1))
  moreover have "parents_ok (open_run run parent t)"
    using assms by (auto simp: tracker_ok_def parents_ok_def open_run_def less_Suc_eq nth_append split: if_splits)
  moreover have "tokens_ok (open_run run parent t)"
    using assms unfolding tracker_ok_def tokens_ok_def by auto
  ultimately show ?thesis by (simp add: tracker_ok_def)
qed

lemma own_ok:
  assumes "tracker_ok t" "tr_runs t run = Some (i, None)"
  shows "tracker_ok (own_context run i t)"
proof -
  have "runs_ok (own_context run i t)"
    using assms by (auto simp: tracker_ok_def runs_ok_def own_context_def ctx_set_def split: if_splits)
  moreover have "spans_ok (own_context run i t)"
    using assms by (auto simp: tracker_ok_def spans_ok_def own_context_def ctx_set_def) (metis Pair_inject option.inject)
  moreover have "parents_ok (own_context run i t)"
    using assms by (auto simp: tracker_ok_def parents_ok_def runs_ok_def own_context_def ctx_set_def split: if_splits)
  moreover have "tokens_ok (own_context run i t)"
    using assms unfolding tracker_ok_def tokens_ok_def
    by (auto simp: less_Suc_eq split: if_splits) (auto simp: own_context_def ctx_set_def less_Suc_eq)
  ultimately show ?thesis by (simp add: tracker_ok_def)
qed

lemma close_ok:
  assumes "tracker_ok t" "closes run I t"
  shows "tracker_ok (close_run run I t)"
proof -
  have "runs_ok (close_run run I t)"
    using assms by (auto simp: tracker_ok_def runs_ok_def close_run_def split: if_splits)
  moreover have "spans_ok (close_run run I t)"
    using assms by (auto simp: tracker_ok_def spans_ok_def close_run_def closes_def) metis
  moreover have "parents_ok (close_run run I t)"
    using assms by (auto simp: tracker_ok_def parents_ok_def close_run_def split: if_splits)
  moreover have "tokens_ok (close_run run I t)"
    using assms unfolding tracker_ok_def tokens_ok_def by auto
  ultimately show ?thesis by (simp add: tracker_ok_def)
qed

lemma close_llm_ok:
  assumes ok: "tracker_ok t" and run: "tr_runs t run = Some (i, Some tokens)" and I: "closes run I t"
  shows "tracker_ok (close_run run I (give_context tokens t))"
proof -
  let ?u = "close_run run I (give_context tokens t)"
  obtain fw tok where tokens: "tokens = (fw, tok)" by fastforce
  have runs: "tr_runs ?u = (tr_runs t)(run := None)" "tr_spans ?u = end_spans I (tr_spans t)"
    "tr_flag ?u = snd (ctx_reset fw (tr_flag t))" "tr_current ?u = snd (ctx_reset tok (tr_current t))"
    by (simp_all add: close_run_def give_context_def tokens)
  have "runs_ok ?u"
    using ok unfolding tracker_ok_def runs_ok_def runs by (auto split: if_splits)
  moreover have "spans_ok ?u"
    using close_ok [OF ok I] unfolding tracker_ok_def spans_ok_def runs by (simp add: close_run_def)
  moreover have "parents_ok ?u"
    using ok run [unfolded tokens] unfolding tracker_ok_def parents_ok_def runs
    by (auto simp: ctx_reset_def split: if_splits)
  moreover have "tokens_ok ?u"
  proof -
    have own: "owns_token t run (tok_id fw)" using run tokens by (auto simp: owns_token_def)
    then have "\<not> owns_token t r (tok_id fw)" if "r \<noteq> run" for r
      using ok that by (auto simp: tracker_ok_def tokens_ok_def)
    with ok own show ?thesis unfolding tracker_ok_def tokens_ok_def runs
      by (auto simp: ctx_reset_def)
  qed
  ultimately show ?thesis by (simp add: tracker_ok_def)
qed

lemma track_ok: "track l t u \<Longrightarrow> tracker_ok t \<Longrightarrow> tracker_ok u"
proof (induction rule: track.induct)
  case (opens t run parent)
  then show ?case by (intro open_ok)
next
  case (opens_llm t run parent)
  then show ?case by (intro own_ok open_ok) (auto simp: open_run_def)
next
  case (closed run I t)
  then show ?case by (intro close_ok)
next
  case (closed_llm t run i tokens I)
  then show ?case by (cases tokens) (auto simp: give_back_def intro: close_ok close_llm_ok)
qed

lemma tracked_ok: "tracked t \<Longrightarrow> tracker_ok t"
  by (induction rule: tracked.induct) (auto intro: initial_ok track_ok)

end
