(* ===== verification/LangChainRefine.thy ===== *)
theory LangChainRefine
  imports LangChainTracker
begin

text \<open>
  The callback handler refines the tracker: the abstraction of its state, what leaves the abstraction alone,
  and the step of the tracker that each callback makes.
\<close>

section \<open>Abstraction\<close>

definition span_of :: "run_span \<Rightarrow> bool \<times> nat option" where
  "span_of sp = (sp_ended (rs_span sp), rs_parent sp)"

definition run_of :: "holder \<Rightarrow> nat \<times> run_tokens option" where
  "run_of h = (hd_span h, hd_token h)"

definition tracker_of :: "lc_state \<Rightarrow> tracker" where
  "tracker_of s = \<lparr>tr_runs = (\<lambda>r. map_option run_of (dget (lc_spans s) r)), tr_spans = map span_of (lc_store s),
     tr_flag = am_framework_llm (lc_ambient s), tr_current = lc_current s\<rparr>"

lemma tracker_of_initial: "tracker_of initial_handler = initial_tracker"
  by (simp add: tracker_of_def initial_handler_def initial_tracker_def initial_ambient_def fresh_var_def)

lemma tracker_of_sel [simp]:
  "tr_runs (tracker_of s) r = map_option run_of (dget (lc_spans s) r)" "tr_spans (tracker_of s) = map span_of (lc_store s)"
  "tr_flag (tracker_of s) = am_framework_llm (lc_ambient s)" "tr_current (tracker_of s) = lc_current s"
  by (simp_all add: tracker_of_def)

lemma tracker_of_upd [simp]:
  "tracker_of (s\<lparr>lc_skipped := sk\<rparr>) = tracker_of s" "tracker_of (s\<lparr>lc_log := l\<rparr>) = tracker_of s"
  "tracker_of (s\<lparr>lc_measurements := ms\<rparr>) = tracker_of s" "tracker_of (s\<lparr>lc_events := es\<rparr>) = tracker_of s"
  by (simp_all add: tracker_of_def)

section \<open>What leaves the tracker alone\<close>

abbreviation ended_of :: "tele \<Rightarrow> bool" where
  "ended_of t \<equiv> sp_ended (tl_span t)"

lemma keeps_tracker_tele [keeps_intros]: "keeps ended_of m \<Longrightarrow> keeps tracker_of (on_tele i m)"
proof -
  assume "keeps ended_of m"
  then have "map span_of ((lc_store s)[i := (lc_store s ! i)\<lparr>rs_span := tl_span (snd (m (tele_of i s)))\<rparr>])
      = map span_of (lc_store s)" for s
    by (cases "i < length (lc_store s)")
      (auto simp: keeps_def tele_of_def span_of_def map_update intro!: nth_equalityI simp: nth_list_update)
  then show ?thesis
    by (auto simp: keeps_def on_tele_def with_tele_def tracker_of_def split: prod.split) (metis snd_conv)
qed

lemma keeps_ended [keeps_intros]: "keeps ended_of (span_attr k v)" "keeps ended_of (span_step (common_span_attributes c))"
  "keeps ended_of (span_step (set_status st))"
proof -
  have "keeps ended_of m" if "keeps call_view m" for m :: "(tele, unit) prog"
    using that by (auto simp: keeps_def call_view_def)
  then show "keeps ended_of (span_attr k v)" "keeps ended_of (span_step (common_span_attributes c))"
    "keeps ended_of (span_step (set_status st))"
    by (simp_all add: keeps_call_attr keeps_call_common keeps_call_status)
qed

lemma keeps_tracker_attr [keeps_intros]: "keeps tracker_of (lc_attr i k v)"
  unfolding lc_attr_def by (rule keeps_intros)+

lemma keeps_tracker_entry [keeps_intros]:
  assumes "keeps run_of m"
  shows "keeps tracker_of (on_entry run m)"
proof -
  have "run_of h' = run_of h" if "m h = (r, h')" for h h' r
    using keepsD [OF assms that] .
  then show ?thesis
    by (auto simp: keeps_def on_entry_def tracker_of_def fun_eq_iff split: option.split prod.split)
qed

lemma keeps_tracker_upd [keeps_intros]: "(\<And>h. run_of (f h) = run_of h) \<Longrightarrow> keeps tracker_of (upd_entry run f)"
  unfolding upd_entry_def by (intro keeps_intros)

lemma keeps_tracker_when [keeps_intros]: "(\<And>h. keeps f (g h)) \<Longrightarrow> keeps f (when_entry run g)"
  by (auto simp: keeps_def when_entry_def split: option.split)

lemma keeps_tracker_read [keeps_intros]: "keeps f (entry run)"
  by (auto simp: keeps_def entry_def split: option.split)

lemma keeps_tracker_debug [keeps_intros]: "keeps tracker_of (lc_debug m)"
  by (simp add: lc_debug_def keeps_pmodify)

lemma keeps_let [keeps_intros]: "keeps f (g v) \<Longrightarrow> keeps f (Let v g)"
  by simp

lemma keeps_pyval [keeps_intros]:
  assumes "keeps f a" "\<And>b. keeps f (f1 b)" "\<And>i. keeps f (f2 i)" "\<And>r. keeps f (f3 r)"
    "\<And>s. keeps f (f4 s)" "\<And>l. keeps f (f5 l)" "\<And>d. keeps f (f6 d)" "\<And>c x. keeps f (f7 c x)"
  shows "keeps f (case v of PNone \<Rightarrow> a | PBool b \<Rightarrow> f1 b | PInt i \<Rightarrow> f2 i | PFloat r \<Rightarrow> f3 r | PStr s \<Rightarrow> f4 s
    | PList l \<Rightarrow> f5 l | PDict d \<Rightarrow> f6 d | PObj c x \<Rightarrow> f7 c x)"
  using assms by (cases v) simp_all

lemma keeps_shared [keeps_intros]:
  "keeps tracker_of (common_attributes env i op)" "keeps tracker_of (conversation_attribute env i md)"
  "keeps tracker_of (framework_metrics env i msg op t0 t1)" "keeps tracker_of (error_attribute env e run)"
  "keeps tracker_of m \<Longrightarrow> keeps tracker_of (captured env v m)" "keeps tracker_of (skip_run run parent)"
  "keeps tracker_of (unskip_run run)" "keeps tracker_of (model_parameters i ps)"
  unfolding common_attributes_def conversation_attribute_def framework_metrics_def error_attribute_def captured_def
    skip_run_def unskip_run_def model_parameters_def lc_attr_given_def debug_step_def Let_def
  by (rule keeps_intros | simp)+

lemma keeps_tracker_chat_logic [keeps_intros]: "keeps tracker_of (on_tele i (lc_common_chat_logic env is_stream now scope))"
proof -
  have messages: "keeps ended_of (set_span_messages_as_array env v w)" for v w
    by (rule keeps_messages) (auto intro: keeps_intros)
  have "keeps ended_of (lc_common_chat_logic env is_stream now scope)"
    unfolding lc_common_chat_logic_def lk_request_attributes_def lk_response_attributes_def lk_tool_attributes_def
      lk_usage_attributes_def lk_content_def lk_metrics_def lc_emit_inference_event_def attr_given_def warn_step_def debug_step_def Let_def
    by (rule messages keeps_intros | simp)+
  then show ?thesis by (rule keeps_tracker_tele)
qed

lemma keeps_holder_results [keeps_intros]:
  "keeps run_of (prompts_loop repr gls acc)" "keeps run_of (finish_fields e g)" "keeps run_of (llm_output_usage out tokens)"
proof -
  have upd: "keeps run_of (pmodify (set_cache c))" "keeps run_of (pmodify (\<lambda>h. h\<lparr>hd_cache_read_input_tokens := n\<rparr>))"
    "keeps run_of (pmodify (\<lambda>h. h\<lparr>hd_cache_creation_input_tokens := n\<rparr>))"
    "keeps run_of (pmodify (\<lambda>h. h\<lparr>hd_tool_calls := n\<rparr>))" "keeps run_of (pmodify (\<lambda>h. h\<lparr>hd_finish_reason := n\<rparr>))" for c n
    by (auto intro!: keeps_pmodify simp: run_of_def set_cache_def)
  have "keeps run_of (extract_message_usage g tokens)" for g tokens
    unfolding extract_message_usage_def usage_metadata_def token_usage_def Let_def
    by (rule upd keeps_basic keeps_pbind keeps_pwhen keeps_if keeps_pyval)+
  then have "keeps run_of (generations_loop repr gs acc)" for gs acc
    by (induction gs arbitrary: acc) (auto intro!: keeps_basic keeps_pbind)
  then show "keeps run_of (prompts_loop repr gls acc)"
    by (induction gls arbitrary: acc) (auto intro!: keeps_basic keeps_pbind)
  show "keeps run_of (finish_fields e g)" "keeps run_of (llm_output_usage out tokens)"
    unfolding finish_fields_def llm_output_usage_def Let_def
    by (rule upd keeps_basic keeps_pbind keeps_pwhen keeps_if keeps_pyval)+
qed

lemma keeps_tracker_result [keeps_intros]: "keeps tracker_of (run_result env response run h now)"
  unfolding run_result_def estimated_def Let_def by (rule keeps_intros)+

lemma keeps_tracker_messages [keeps_intros]:
  "keeps tracker_of (store_messages env i run m v)" "keeps tracker_of (system_attribute env i run msgs)"
  "keeps tracker_of (tools_attribute env i run kw)"
  unfolding store_messages_def system_attribute_def tools_attribute_def Let_def
  by (rule keeps_intros | simp add: run_of_def)+

section \<open>The operations on the span table\<close>

lemma run_of_add_child: "map_option run_of (dget (add_child parent run spans) r) = map_option run_of (dget spans r)"
  by (auto simp: add_child_def run_of_def split: option.split)

lemma create_tracker:
  assumes "dget (lc_spans s) run = None" and "create_span run parent name client now s = (r, t)"
  shows "r = Inr (length (lc_store s))"
    "tracker_of t = open_run run (parent_span (resolve_parent_run_id parent s) s) (tracker_of s)"
    "\<exists>h. dget (lc_spans t) run = Some h \<and> hd_span h = length (lc_store s) \<and> hd_token h = None"
proof -
  let ?spans = "dput run (new_holder (length (lc_store s)) now) (lc_spans s)"
  let ?p = "resolve_parent_run_id parent s"
  from assms(2) have t: "r = Inr (length (lc_store s))" "lc_spans t = add_child ?p run ?spans"
    "lc_store t = lc_store s @ [\<lparr>rs_name = name, rs_client = client, rs_parent = parent_span ?p s, rs_span = fresh_span\<rparr>]"
    "lc_ambient t = lc_ambient s" "lc_current t = lc_current s"
    by (auto simp: create_span_def Let_def)
  show "r = Inr (length (lc_store s))" by (rule t)
  have runs: "map_option run_of (dget (lc_spans t) q) = (if q = run then Some (length (lc_store s), None)
      else map_option run_of (dget (lc_spans s) q))" for q
    by (simp add: t run_of_add_child run_of_def new_holder_def)
  from runs [of run] show "\<exists>h. dget (lc_spans t) run = Some h \<and> hd_span h = length (lc_store s) \<and> hd_token h = None"
    by (auto simp: run_of_def)
  show "tracker_of t = open_run run (parent_span ?p s) (tracker_of s)"
    using runs by (simp add: tracker_of_def open_run_def fun_eq_iff t span_of_def fresh_span_def)
qed

lemma parent_span_started:
  assumes "tracker_ok (tracker_of s)" and "parent_span parent s = Some j"
  shows "j < length (lc_store s)"
proof -
  have "hd_span h < length (lc_store s)" if "dget (lc_spans s) p = Some h" for p h
  proof -
    have "tr_runs (tracker_of s) p = Some (hd_span h, hd_token h)" using that by (simp add: run_of_def)
    with assms(1) have "hd_span h < length (tr_spans (tracker_of s))" unfolding tracker_ok_def runs_ok_def by blast
    then show ?thesis by simp
  qed
  moreover have "j < length (lc_store s)" if "cv_value (lc_current s) = Some j"
    using assms(1) that by (simp add: tracker_ok_def parents_ok_def)
  ultimately show ?thesis
    using assms(2) by (auto simp: parent_span_def ctx_get_def split: option.splits)
qed

lemma attach_tracker:
  assumes "dget (lc_spans s) run = Some h" and "hd_span h = i" and "attach_llm run i s = (r, t)"
  shows "r = Inr ()" "tracker_of t = own_context run i (tracker_of s)"
    "\<exists>h' fw tok. dget (lc_spans t) run = Some h' \<and> hd_token h' = Some (fw, tok) \<and> tok_old fw = is_framework_llm_active (lc_ambient s)"
  using assms
  by (auto simp: attach_llm_def pbind_def upd_entry_def on_entry_def set_framework_llm_active_def ctx_set_def
      tracker_of_def own_context_def fun_eq_iff run_of_def is_framework_llm_active_def ctx_get_def)

lemma detach_tracker:
  assumes "tracker_ok (tracker_of s)" and "dget (lc_spans s) run = Some h"
  shows "\<exists>t. detach_llm run s = (Inr (), t) \<and> lc_spans t = lc_spans s \<and> lc_store t = lc_store s
     \<and> tracker_of t = (case hd_token h of None \<Rightarrow> tracker_of s | Some tokens \<Rightarrow> give_context tokens (tracker_of s))"
proof (cases "hd_token h")
  case None
  with assms(2) show ?thesis by (simp add: detach_llm_def entry_def pbind_def)
next
  case (Some tokens)
  obtain fw tok where tokens: "tokens = (fw, tok)" by fastforce
  have "owns_token (tracker_of s) run (tok_id fw)"
    using assms(2) Some by (simp add: owns_token_def run_of_def tokens)
  with assms(1) have "tok_id fw \<notin> set (cv_used (am_framework_llm (lc_ambient s)))"
    by (auto simp: tracker_ok_def tokens_ok_def)
  with assms(2) Some show ?thesis
    by (simp add: detach_llm_def entry_def pbind_def tokens reset_framework_llm_active_def ctx_reset_def [of fw]
        tracker_of_def give_context_def)
qed

text \<open>The spans that end with a run.\<close>

definition closing :: "holder \<Rightarrow> (run_id, holder) dict \<Rightarrow> nat set" where
  "closing h spans = insert (hd_span h) {hd_span c | c child. child \<in> set (hd_children h) \<and> dget spans child = Some c}"

lemma on_stored_spans:
  assumes "\<And>sp. sp_ended (f sp)"
  shows "map span_of (on_stored i f store) = end_spans {i} (map span_of store)"
proof (rule nth_equalityI)
  fix j
  assume "j < length (map span_of (on_stored i f store))"
  with assms show "map span_of (on_stored i f store) ! j = end_spans {i} (map span_of store) ! j"
    by (cases "i = j") (simp_all add: on_stored_def span_of_def)
qed (simp add: on_stored_def)

lemma end_spans_Un: "end_spans I (end_spans J spans) = end_spans (I \<union> J) spans"
  by (rule nth_equalityI) auto

lemma end_spans_ended: "i < length spans \<Longrightarrow> fst (spans ! i) \<Longrightarrow> end_spans {i} spans = spans"
  by (rule nth_equalityI) (auto simp: prod_eq_iff)

lemma end_child_spans:
  "map span_of (end_child spans child store)
     = end_spans {hd_span c | c. dget spans child = Some c} (map span_of store)"
proof (cases "dget spans child")
  case None
  then show ?thesis by (simp add: end_child_def) (rule nth_equalityI; simp)
next
  case (Some c)
  have ends: "map span_of (on_stored (hd_span c) end_span store) = end_spans {hd_span c} (map span_of store)"
    by (rule on_stored_spans) (simp add: end_span_def)
  have "end_spans {hd_span c} (map span_of store) = map span_of store"
    if "sp_ended (rs_span (store ! hd_span c))"
  proof (cases "hd_span c < length store")
    case True
    with that show ?thesis by (intro end_spans_ended) (simp_all add: span_of_def)
  next
    case False
    then show ?thesis by (intro nth_equalityI) auto
  qed
  with Some ends show ?thesis by (simp add: end_child_def)
qed

lemma end_children_spans:
  "map span_of (fold (end_child spans) children store)
     = end_spans {hd_span c | c child. child \<in> set children \<and> dget spans child = Some c} (map span_of store)"
proof (induction children arbitrary: store)
  case Nil
  show ?case by (simp, rule nth_equalityI) simp_all
next
  case (Cons child children)
  then show ?case
    by (simp add: end_child_spans end_spans_Un) (rule arg_cong [where f = "\<lambda>I. end_spans I _"], auto)
qed

lemma end_span_ended: "sp_ended (end_span sp)"
  by (simp add: end_span_def)

lemma finish_tracker:
  assumes "dget (lc_spans s) run = Some h"
  shows "\<exists>t. finish_span run error s = (Inr (), t) \<and> lc_spans t = ddel run (lc_spans s)
     \<and> tracker_of t = close_run run (closing h (lc_spans s)) (tracker_of s)"
proof -
  have "map span_of (on_stored (hd_span h) (\<lambda>sp. end_span (set_status status sp))
      (fold (end_child (lc_spans s)) (hd_children h) (lc_store s)))
    = end_spans (closing h (lc_spans s)) (map span_of (lc_store s))" for status
    by (simp add: on_stored_spans end_span_ended end_children_spans end_spans_Un closing_def)
  with assms show ?thesis
    by (simp add: finish_span_def when_entry_def Let_def tracker_of_def close_run_def fun_eq_iff)
qed

lemma closing_closes: "dget (lc_spans s) run = Some h \<Longrightarrow> closes run (closing h (lc_spans s)) (tracker_of s)"
  by (auto simp: closes_def closing_def run_of_def)

section \<open>The simulation\<close>

text \<open>A program that makes at most one step of the tracker, with a label in \<open>L\<close>, from states whose tracker
  satisfies \<open>P\<close>.\<close>

definition stays_or_tracks :: "label set \<Rightarrow> tracker \<Rightarrow> tracker \<Rightarrow> bool" where
  "stays_or_tracks L t u \<longleftrightarrow> u = t \<or> (\<exists>l \<in> L. track l t u)"

definition moves :: "label set \<Rightarrow> (tracker \<Rightarrow> bool) \<Rightarrow> 'a handler \<Rightarrow> bool" where
  "moves L P m \<longleftrightarrow> (\<forall>s. tracker_ok (tracker_of s) \<longrightarrow> P (tracker_of s) \<longrightarrow>
     stays_or_tracks L (tracker_of s) (tracker_of (snd (m s))))"

named_theorems moves_intros \<open>programs that make at most one step of the tracker\<close>

lemma moves_keep [moves_intros]: "keeps tracker_of m \<Longrightarrow> moves L P m"
  by (simp add: moves_def keeps_def stays_or_tracks_def)

lemma moves_after [moves_intros]:
  assumes "keeps tracker_of m" and "\<And>x. moves L P (k x)"
  shows "moves L P (pbind m k)"
proof -
  have "tracker_of (snd (m s)) = tracker_of s" for s
    using assms(1) by (simp add: keeps_def)
  then have step: "tracker_of u = tracker_of s" if "m s = (r, u)" for s r u
    using that by (metis snd_conv)
  show ?thesis unfolding moves_def
  proof (intro allI impI)
    fix s
    assume ok: "tracker_ok (tracker_of s)" "P (tracker_of s)"
    obtain r u where m: "m s = (r, u)" by fastforce
    show "stays_or_tracks L (tracker_of s) (tracker_of (snd (pbind m k s)))"
    proof (cases r)
      case (Inl e)
      with m step [OF m] show ?thesis by (simp add: pbind_def stays_or_tracks_def)
    next
      case (Inr x)
      from ok assms(2) [of x] have "stays_or_tracks L (tracker_of u) (tracker_of (snd (k x u)))"
        unfolding moves_def step [OF m, symmetric] by blast
      with m Inr step [OF m] show ?thesis by (simp add: pbind_def)
    qed
  qed
qed

lemma moves_before:
  assumes "moves L P m" and "\<And>x. keeps tracker_of (k x)"
  shows "moves L P (pbind m k)"
proof -
  have k: "tracker_of (snd (k x s)) = tracker_of s" for x s
    using assms(2) by (simp add: keeps_def)
  have "tracker_of (snd (pbind m k s)) = tracker_of (snd (m s))" for s
    by (auto simp: pbind_def k split: prod.split sum.split)
  with assms(1) show ?thesis by (simp add: moves_def)
qed

lemma moves_guarded [moves_intros]:
  assumes "moves L P m"
  shows "moves L P (guarded name m)"
proof -
  have "tracker_of (snd (guarded name m s)) = tracker_of (snd (m s))" for s
    by (auto simp: guarded_def ptry_def lc_debug_def split: prod.split sum.split)
  with assms show ?thesis by (simp add: moves_def)
qed

lemma moves_when [moves_intros]: "(\<And>h. moves L P (f h)) \<Longrightarrow> moves L P (when_entry run f)"
  by (auto simp: moves_def when_entry_def stays_or_tracks_def split: option.split)

lemma moves_if [moves_intros]: "(b \<Longrightarrow> moves L P m) \<Longrightarrow> (\<not> b \<Longrightarrow> moves L P n) \<Longrightarrow> moves L P (if b then m else n)"
  by simp

text \<open>The structural operations.\<close>

abbreviation unknown :: "run_id \<Rightarrow> tracker \<Rightarrow> bool" where
  "unknown run t \<equiv> tr_runs t run = None"

lemma moves_create: "moves {Opened run} (unknown run) (create_span run parent name client now)"
proof -
  have "track (Opened run) (tracker_of s) (tracker_of (snd (create_span run parent name client now s)))"
    if "tracker_ok (tracker_of s)" "unknown run (tracker_of s)" for s
  proof -
    obtain r t where c: "create_span run parent name client now s = (r, t)" by fastforce
    from that(2) have "dget (lc_spans s) run = None" by simp
    from create_tracker(2) [OF this c] show ?thesis
      using that parent_span_started [OF that(1)] c by (auto intro!: track.opens)
  qed
  then show ?thesis by (simp add: moves_def stays_or_tracks_def)
qed

lemma create_then_attach:
  assumes "tracker_ok (tracker_of s)" and "dget (lc_spans s) run = None"
    and "pbind (create_span run parent name client now) (\<lambda>i. pbind (attach_llm run i) (\<lambda>_. pret i)) s = (r, t)"
  shows "r = Inr (length (lc_store s)) \<and> track (OpenedLlm run) (tracker_of s) (tracker_of t)
     \<and> tr_runs (tracker_of t) = tr_runs (own_context run (length (lc_store s)) (open_run run None (tracker_of s)))
     \<and> am_framework_llm (lc_ambient t) = snd (ctx_set True (am_framework_llm (lc_ambient s)))"
proof -
  obtain r1 s1 where c: "create_span run parent name client now s = (r1, s1)" by fastforce
  note create = create_tracker [OF assms(2) c]
  from create(3) obtain h where h: "dget (lc_spans s1) run = Some h" "hd_span h = length (lc_store s)" by blast
  obtain r2 s2 where a: "attach_llm run (length (lc_store s)) s1 = (r2, s2)" by fastforce
  note attach = attach_tracker [OF h a]
  from assms(3) c create(1) a attach(1) have rt: "r = Inr (length (lc_store s))" "t = s2" by (auto simp: pbind_def)
  have u: "tracker_of t = own_context run (length (tr_spans (tracker_of s)))
      (open_run run (parent_span (resolve_parent_run_id parent s) s) (tracker_of s))"
    by (simp add: rt attach(2) create(2))
  have "track (OpenedLlm run) (tracker_of s) (tracker_of t)"
    unfolding u using assms(1,2) parent_span_started [OF assms(1)] by (intro track.opens_llm) auto
  moreover have "tr_runs (tracker_of t) = tr_runs (own_context run (length (lc_store s)) (open_run run None (tracker_of s)))"
    unfolding u by (simp add: own_context_def open_run_def ctx_set_def)
  moreover have "tr_flag (tracker_of t) = snd (ctx_set True (tr_flag (tracker_of s)))"
    unfolding u by (simp add: own_context_def open_run_def ctx_set_def)
  ultimately show ?thesis by (simp add: rt(1))
qed

lemma pbind_pret_unit: "pbind m (\<lambda>_. pret ()) = (m :: unit handler)"
  by (auto simp: pbind_def fun_eq_iff split: prod.split sum.split)

lemma moves_create_attach:
  assumes "\<And>i. keeps tracker_of (k i)"
  shows "moves {OpenedLlm run} (unknown run) (pbind (create_span run parent name client now) (\<lambda>i. pbind (attach_llm run i) (\<lambda>_. k i)))"
proof -
  have "moves {OpenedLlm run} (unknown run) (pbind (create_span run parent name client now) (\<lambda>i. pbind (attach_llm run i) (\<lambda>_. pret i)))"
    unfolding moves_def
  proof (intro allI impI)
    fix s
    assume ok: "tracker_ok (tracker_of s)" and "unknown run (tracker_of s)"
    then have new: "dget (lc_spans s) run = None" by simp
    obtain r t where m: "pbind (create_span run parent name client now) (\<lambda>i. pbind (attach_llm run i) (\<lambda>_. pret i)) s = (r, t)"
      by fastforce
    from create_then_attach [OF ok new m] m
    show "stays_or_tracks {OpenedLlm run} (tracker_of s)
      (tracker_of (snd (pbind (create_span run parent name client now) (\<lambda>i. pbind (attach_llm run i) (\<lambda>_. pret i)) s)))"
      by (simp add: stays_or_tracks_def)
  qed
  from moves_before [OF this, of k] assms show ?thesis by (simp add: pbind_assoc)
qed

lemma moves_finish [moves_intros]: "Closed run \<in> L \<Longrightarrow> moves L P (finish_span run error)"
proof -
  assume L: "Closed run \<in> L"
  have "stays_or_tracks L (tracker_of s) (tracker_of (snd (finish_span run error s)))" for s
  proof (cases "dget (lc_spans s) run")
    case None
    then show ?thesis by (simp add: finish_span_def when_entry_def stays_or_tracks_def)
  next
    case (Some h)
    from finish_tracker [OF this, of error] obtain t where "finish_span run error s = (Inr (), t)"
      "tracker_of t = close_run run (closing h (lc_spans s)) (tracker_of s)" by blast
    with L track.closed [OF closing_closes [OF Some]] show ?thesis by (auto simp: stays_or_tracks_def)
  qed
  then show ?thesis by (simp add: moves_def)
qed

lemma detach_then_finish:
  assumes "tracker_ok (tracker_of s)" and "dget (lc_spans s) run = Some h"
  shows "\<exists>t. pbind (detach_llm run) (\<lambda>_. finish_span run error) s = (Inr (), t) \<and> lc_spans t = ddel run (lc_spans s)
     \<and> track (ClosedLlm run) (tracker_of s) (tracker_of t)
     \<and> am_framework_llm (lc_ambient t) = (case hd_token h of None \<Rightarrow> am_framework_llm (lc_ambient s)
          | Some tokens \<Rightarrow> snd (ctx_reset (fst tokens) (am_framework_llm (lc_ambient s))))
     \<and> tracker_of t = close_run run (closing h (lc_spans s))
          (case hd_token h of None \<Rightarrow> tracker_of s | Some tokens \<Rightarrow> give_context tokens (tracker_of s))"
proof -
  from detach_tracker [OF assms] obtain u where u: "detach_llm run s = (Inr (), u)" "lc_spans u = lc_spans s"
    "tracker_of u = (case hd_token h of None \<Rightarrow> tracker_of s | Some tokens \<Rightarrow> give_context tokens (tracker_of s))" by blast
  from u(2) assms(2) have "dget (lc_spans u) run = Some h" by simp
  from finish_tracker [OF this, of error] obtain t where t: "finish_span run error u = (Inr (), t)"
    "lc_spans t = ddel run (lc_spans s)" "tracker_of t = close_run run (closing h (lc_spans s)) (tracker_of u)"
    by (auto simp: u(2))
  have "track (ClosedLlm run) (tracker_of s) (tracker_of t)"
    using track.closed_llm [OF _ closing_closes [OF assms(2)], of "hd_span h" "hd_token h"] assms(2)
    by (simp add: t(3) u(3) run_of_def give_back_def)
  moreover have "am_framework_llm (lc_ambient t) = tr_flag (tracker_of t)" by simp
  moreover have "tr_flag (tracker_of t) = (case hd_token h of None \<Rightarrow> am_framework_llm (lc_ambient s)
          | Some tokens \<Rightarrow> snd (ctx_reset (fst tokens) (am_framework_llm (lc_ambient s))))"
    unfolding t(3) u(3) by (simp add: give_context_def split: option.split)
  ultimately show ?thesis using u(1) t(1,2) by (simp add: pbind_def t(3) u(3))
qed

lemma moves_detach_finish [moves_intros]:
  "ClosedLlm run \<in> L \<Longrightarrow> moves L P (pbind (detach_llm run) (\<lambda>_. finish_span run error))"
proof -
  assume L: "ClosedLlm run \<in> L"
  have "stays_or_tracks L (tracker_of s) (tracker_of (snd (pbind (detach_llm run) (\<lambda>_. finish_span run error) s)))"
    if "tracker_ok (tracker_of s)" for s
  proof (cases "dget (lc_spans s) run")
    case None
    then show ?thesis by (simp add: detach_llm_def entry_def pbind_def stays_or_tracks_def)
  next
    case (Some h)
    from detach_then_finish [OF that this, of error] L show ?thesis by (auto simp: stays_or_tracks_def)
  qed
  then show ?thesis by (simp add: moves_def)
qed

end
