(* ===== verification/LangChainProps.thy ===== *)
theory LangChainProps
  imports LangChainLlm
begin

text \<open>
  Properties of the LangChain callback handler: which run a span hangs below, what holds in every reachable
  state of the handler, and that no callback raises into the application.
\<close>

section \<open>Resolving a parent\<close>

text \<open>The link from a skipped run to the parent it was started with, and following such links.\<close>

inductive skips_to :: "(run_id, run_id option) dict \<Rightarrow> run_id option \<Rightarrow> run_id option \<Rightarrow> bool"
  for skipped :: "(run_id, run_id option) dict" where
  stay: "skips_to skipped p p"
| skip: "dget skipped r = Some p \<Longrightarrow> skips_to skipped p q \<Longrightarrow> skips_to skipped (Some r) q"

lemma skips_to_trans: "skips_to skipped p q \<Longrightarrow> skips_to skipped q u \<Longrightarrow> skips_to skipped p u"
  by (induction rule: skips_to.induct) (auto intro: skips_to.skip)

definition on_cycle :: "(run_id, run_id option) dict \<Rightarrow> run_id \<Rightarrow> bool" where
  "on_cycle skipped r \<longleftrightarrow> (\<exists>p. dget skipped r = Some p \<and> skips_to skipped p (Some r))"

lemma resolve_parent_spec:
  assumes "\<And>v. v \<in> set visited \<Longrightarrow> \<exists>p. dget skipped v = Some p \<and> skips_to skipped p current"
  shows "skips_to skipped current (resolve_parent skipped visited current)
     \<and> (\<forall>r. resolve_parent skipped visited current = Some r \<longrightarrow> dget skipped r = None \<or> on_cycle skipped r)"
  using assms
proof (induction skipped visited current rule: resolve_parent.induct)
  case (1 skipped visited)
  then show ?case by (simp add: skips_to.stay)
next
  case (2 skipped visited r)
  show ?case
  proof (cases "dget skipped r")
    case None
    then show ?thesis by (simp add: skips_to.stay)
  next
    case (Some p)
    show ?thesis
    proof (cases "r \<in> set visited")
      case True
      from 2(2) [OF True] have "on_cycle skipped r" by (simp add: on_cycle_def)
      with True Some show ?thesis by (simp add: skips_to.stay)
    next
      case False
      have "\<exists>q. dget skipped v = Some q \<and> skips_to skipped q p" if "v \<in> set (r # visited)" for v
        using that 2(2) [of v] Some
        by (auto intro: skips_to.stay) (meson skips_to.skip skips_to.stay skips_to_trans)
      from 2(1) [OF Some False this] Some False show ?thesis by (auto intro: skips_to.skip)
    qed
  qed
qed



section \<open>No callback raises\<close>

text \<open>The JSON functions, the event provider and \<open>exception()\<close> raise no \<open>KeyboardInterrupt\<close> or \<open>SystemExit\<close>.\<close>

definition lc_tame :: "lc_env \<Rightarrow> bool" where
  "lc_tame env \<longleftrightarrow> tame (le_env env) \<and> (\<forall>v. ordinary (le_dumps_str env v)) \<and> (\<forall>v. ordinary (le_exception env v))"

lemma lc_tameD:
  assumes "lc_tame env"
  shows "tame (le_env env)" "ordinary (le_dumps_str env v)" "ordinary (le_exception env v)"
    "ordinary (ie_json_dumps (le_env env) v)"
  using assms by (simp_all add: lc_tame_def tame_def)

text \<open>Case distinctions on options and on booleans inside results.\<close>

lemma ordinary_option [ordinary_intros]:
  "(v = None \<Longrightarrow> ordinary r) \<Longrightarrow> (\<And>x. v = Some x \<Longrightarrow> ordinary (f x)) \<Longrightarrow> ordinary (case v of None \<Rightarrow> r | Some x \<Rightarrow> f x)"
  by (cases v) simp_all

lemma ordinary_first_result [ordinary_intros]: "(\<And>x. ordinary (f x)) \<Longrightarrow> ordinary (first_result f xs)"
  by (induction xs) (auto intro!: ordinary_intros)

lemma ordinary_class_name [ordinary_intros]: "ordinary (get_class_name s)"
  unfolding get_class_name_def by (rule ordinary_intros | simp)+

lemma ordinary_from_repr [ordinary_intros]: "ordinary (extract_model_from_repr s p)"
  unfolding extract_model_from_repr_def by (rule ordinary_intros | simp)+

lemma ordinary_model_name [ordinary_intros]: "ordinary (extract_model_name repr s k)"
  unfolding extract_model_name_def known_path_def known_pattern_def case_prod_beta
  by (rule ordinary_intros | simp)+

lemma ordinary_model_parameters [ordinary_intros]: "ordinary (extract_model_parameters k)"
  unfolding extract_model_parameters_def Let_def by (rule ordinary_intros)+

lemma ordinary_provider [ordinary_intros]: "ordinary (detect_provider s)"
  unfolding detect_provider_def by (rule ordinary_intros)+

lemma ordinary_serialized_id [ordinary_intros]: "ordinary (serialized_id s)"
  unfolding serialized_id_def by (rule ordinary_intros)+

lemma ordinary_internal [ordinary_intros]: "ordinary (is_internal_chain repr s n)"
  unfolding is_internal_chain_def by (rule ordinary_intros | simp)+

lemma ordinary_observation [ordinary_intros]: "ordinary (detect_observation_type repr s c n)"
  unfolding detect_observation_type_def agent_class_def agent_name_def
  by (rule ordinary_intros | simp add: no_attr_def)+

lemma ordinary_first_field [ordinary_intros]: "ordinary (first_field v ks)"
  by (induction ks) (auto intro!: ordinary_intros)

lemma ordinary_conversation [ordinary_intros]: "ordinary (resolve_conversation_id repr m)"
  unfolding resolve_conversation_id_def by (rule ordinary_intros)+

lemma ordinary_name [ordinary_intros]: "ordinary (get_name_from_callback s k)"
  unfolding get_name_from_callback_def by (rule ordinary_intros)+

lemma ordinary_flat_messages [ordinary_intros]: "ordinary (flat_messages v)"
  unfolding flat_messages_def by (rule ordinary_intros)+

lemma ordinary_value_general [ordinary_intros]: "ordinary (value_general_tokens v)"
  unfolding value_general_tokens_def by (rule ordinary_intros)+

lemma ordinary_get_either [ordinary_intros]: "ordinary (get_either d k l v)" "ordinary (get_count d k)" "ordinary (get_nested d k l v)"
  unfolding get_either_def get_count_def get_nested_def by (rule ordinary_intros)+

lemma ordinary_cache_counts [ordinary_intros]: "ordinary (cache_counts u)"
  unfolding cache_counts_def Let_def by (rule ordinary_intros)+

lemma ordinary_usages [ordinary_intros]:
  "ordinary (bedrock_usage m t)" "ordinary (titan_usage m t)" "ordinary (generation_info_usage g t)"
  "ordinary (longer_content a b)" "ordinary (generations_of r)" "ordinary (response_model_of out mv)" "ordinary (response_id_of out)"
  unfolding bedrock_usage_def titan_usage_def generation_info_usage_def longer_content_def generations_of_def
    response_model_of_def response_id_of_def Let_def
  by (rule ordinary_intros)+

lemma ordinary_dumped_text: "lc_tame env \<Longrightarrow> ordinary (dumped_text env v)"
  using lc_tameD(2) by (auto simp: dumped_text_def ordinary_def split: sum.split)

lemma ordinary_retry:
  assumes "lc_tame env"
  shows "ordinary (retry_attributes env v)"
proof -
  have "ordinary (retry_error env x)" for x
    using lc_tameD(3) [OF assms, of x] by (auto simp: retry_error_def ordinary_def split: sum.splits option.splits)
  then show ?thesis unfolding retry_attributes_def Let_def by (intro ordinary_bind ordinary_basic)
qed

lemma ordinary_tool_call: "lc_tame env \<Longrightarrow> ordinary (format_tool_call (le_env env) c)"
  unfolding format_tool_call_def by (rule ordinary_intros lc_tameD | simp)+

text \<open>The steps of the handler.\<close>

lemma raises_on_tele [raises_intros]: "raises_only P m \<Longrightarrow> raises_only P (on_tele i m)"
  by (auto simp: raises_only_def on_tele_def split: prod.splits)

lemma raises_lc_attr [raises_intros]: "raises_only P (lc_attr i k v)"
  unfolding lc_attr_def by (rule raises_intros)+

lemma raises_lc_debug [raises_intros]: "raises_only P (lc_debug m)"
  unfolding lc_debug_def by (rule raises_intros)

lemma raises_entry [raises_intros]: "raises_only is_Exception (entry run)"
  by (auto simp: raises_only_def entry_def split: option.splits)

lemma raises_on_entry [raises_intros]: "raises_only is_Exception m \<Longrightarrow> raises_only is_Exception (on_entry run m)"
  by (auto simp: raises_only_def on_entry_def split: option.splits prod.splits)

lemma raises_upd_entry [raises_intros]: "raises_only is_Exception (upd_entry run f)"
  unfolding upd_entry_def by (rule raises_intros)+

lemma raises_when_entry [raises_intros]: "(\<And>h. raises_only P (f h)) \<Longrightarrow> raises_only P (when_entry run f)"
  by (auto simp: raises_only_def when_entry_def split: option.splits)

lemma raises_create_span [raises_intros]: "raises_only P (create_span run parent name client now)"
  by (auto simp: raises_only_def create_span_def Let_def)

lemma raises_finish_span [raises_intros]: "raises_only P (finish_span run error)"
  unfolding finish_span_def by (rule raises_intros)+

lemma raises_let [raises_intros]: "raises_only P (f v) \<Longrightarrow> raises_only P (Let v f)"
  by simp

lemma raises_guarded: "raises_only is_Exception m \<Longrightarrow> returns (guarded name m)"
  unfolding guarded_def by (intro raises_intros) (simp_all add: raises_only_def)

lemma raises_common_attributes [raises_intros]: "raises_only P (common_attributes env i op)"
  unfolding common_attributes_def by (rule raises_intros)+

lemma raises_conversation [raises_intros]: "raises_only is_Exception (conversation_attribute env i m)"
  unfolding conversation_attribute_def by (rule raises_intros ordinary_intros)+

lemma raises_captured [raises_intros]: "raises_only P m \<Longrightarrow> raises_only P (captured env v m)"
  unfolding captured_def by (rule raises_intros)

lemma raises_ptry_all: "raises_only is_Exception m \<Longrightarrow> (\<And>e. raises_only P (h e)) \<Longrightarrow> raises_only P (ptry m h)"
  by (intro raises_only_ptry) (auto elim: raises_only_mono)

lemma raises_measuring: "raises_only is_Exception (instrument_call kind meth m k v a)"
  unfolding instrument_call_def by (auto intro!: raises_intros)

lemma raises_record_completion: "raises_only is_Exception (record_completion_metrics agent m c)"
  unfolding record_completion_metrics_def record_metric_def Let_def by (intro raises_intros raises_measuring)

lemma raises_any_metric_step: "(\<And>m. raises_only is_Exception (rec m)) \<Longrightarrow> raises_only is_Exception (metric_step env rec)"
  by (auto simp: raises_only_def metric_step_def split: option.splits prod.splits)

lemma returns_debug_step [raises_intros]: "raises_only P (debug_step m e)"
  unfolding debug_step_def log_debug_def by (rule raises_intros)+

lemma raises_framework_metrics [raises_intros]: "raises_only P (framework_metrics env i m op t0 t1)"
proof -
  have "raises_only is_Exception (record_framework_metrics ms (framework_args e op) t0 t1)" for ms e
    unfolding record_framework_metrics_def record_metric_def Let_def by (rule raises_measuring)
  then show ?thesis unfolding framework_metrics_def Let_def
    by (intro raises_intros raises_only_mono [OF raises_any_metric_step]) auto
qed

lemma raises_run_error [raises_intros]: "raises_only P (run_error env e run)"
  unfolding run_error_def error_attribute_def by (rule raises_intros)+

lemma raises_open_chain: "lc_tame env \<Longrightarrow> raises_only is_Exception (open_chain env name agent inputs run parent metadata now)"
  unfolding open_chain_def Let_def by (rule raises_intros ordinary_dumped_text | assumption)+

lemma returns_plain_callbacks:
  assumes "lc_tame env"
  shows "returns (on_chain_start env s v run parent md kw now)" "returns (on_chain_end env v run now now')"
    "returns (on_chain_error env e run)" "returns (on_tool_start env s v run parent md kw now)"
    "returns (on_tool_end env v run now now')" "returns (on_tool_error env e run)"
    "returns (on_retriever_start env s v run parent md kw now)" "returns (on_retriever_end env v run now now')"
    "returns (on_retriever_error env e run)" "returns (on_agent_action env v run)" "returns (on_agent_finish env v run)"
    "returns (on_retry env v run)"
  unfolding on_chain_start_def on_chain_end_def on_chain_error_def on_tool_start_def on_tool_end_def on_tool_error_def
    on_retriever_start_def on_retriever_end_def on_retriever_error_def on_agent_action_def on_agent_finish_def on_retry_def
    skip_run_def unskip_run_def Let_def first_three_def
  by (rule raises_guarded raises_open_chain raises_intros ordinary_dumped_text ordinary_retry lc_tameD ordinary_intros
      | rule assms | simp)+

lemma raises_plain_attr [raises_intros]: "raises_only P (attr_given k v)" "raises_only P (lc_attr_given i k v)"
  unfolding attr_given_def lc_attr_given_def by (rule raises_intros)+

lemma raises_model_parameters [raises_intros]: "raises_only P (model_parameters i ps)"
  unfolding model_parameters_def Let_def by (rule raises_intros)+

lemma raises_attach [raises_intros]: "raises_only is_Exception (attach_llm run i)"
  unfolding attach_llm_def by (intro raises_intros) (simp add: raises_only_def split: prod.split)

lemma raises_open_llm [raises_intros]: "raises_only is_Exception (open_llm env s ps run parent md kw now)"
  unfolding open_llm_def Let_def by (rule raises_intros ordinary_intros)+

lemma returns_build_messages: "returns (lc_build_input_messages repr v)"
proof -
  have built: "raises_only is_Exception (pbind (plift (flat_messages m)) (\<lambda>msgs. plift (res_map (langchain_message repr) msgs)))" for m
    unfolding langchain_message_def otel_role_def by (rule raises_intros ordinary_intros | simp)+
  have "returns (build_input_messages_from_langchain repr m)" for m
    unfolding build_input_messages_from_langchain_def log_debug_def
    by (rule raises_ptry_all, rule built) (intro raises_only_pbind raises_only_basic)
  then show ?thesis
    by (cases v rule: pyval.exhaust)
      (auto simp: lc_build_input_messages_def raises_only_basic split: list.split pyval.split)
qed

lemma raises_store_messages [raises_intros]: "raises_only is_Exception (store_messages env i run m v)"
  unfolding store_messages_def
  by (intro raises_ptry_all raises_lc_debug raises_only_pbind raises_on_tele raises_log_step raises_upd_entry
      raises_only_mono [OF returns_build_messages]) simp_all

lemma raises_prompts_loop:
  "raises_only is_Exception (prompts_loop repr gls acc)" "lc_tame env \<Longrightarrow> raises_only is_Exception (finish_fields (le_env env) g)"
  "raises_only is_Exception (llm_output_usage out tokens)"
proof -
  have "raises_only is_Exception (extract_message_usage g t)" for g t
    unfolding extract_message_usage_def usage_metadata_def token_usage_def Let_def
    by (rule raises_intros ordinary_intros)+
  then have "raises_only is_Exception (generations_loop repr gs acc)" for gs acc
    by (induction gs arbitrary: acc) (auto intro!: raises_intros ordinary_intros)
  then show "raises_only is_Exception (prompts_loop repr gls acc)"
    by (induction gls arbitrary: acc) (auto intro!: raises_intros ordinary_intros)
  show "raises_only is_Exception (finish_fields (le_env env) g)" if "lc_tame env"
    unfolding finish_fields_def Let_def
    by (rule raises_intros ordinary_intros ordinary_tool_call that)+
  show "raises_only is_Exception (llm_output_usage out tokens)"
    unfolding llm_output_usage_def by (rule raises_intros ordinary_intros)+
qed

text \<open>What \<open>lc_common_chat_logic\<close> raises is an ordinary exception too.\<close>

lemma raises_lc_chat_logic:
  assumes "lc_tame env"
  shows "raises_only is_Exception (lc_common_chat_logic (le_env env) is_stream now scope)"
proof -
  have tame: "tame (le_env env)" by (rule lc_tameD(1) [OF assms])
  have content: "raises_only P (lk_content (le_env env) scope tokens)" for P tokens
  proof -
    have extras: "ordinary (lc_add_extras xs a)" for xs a
      by (induction xs arbitrary: a) (auto intro!: ordinary_intros)
    have "raises_only P (lc_emit_inference_event (le_env env) i extra)" for P i extra
      using tameD(3) [OF tame] unfolding lc_emit_inference_event_def emit_step_def lc_inference_attributes_def Let_def
      by (intro raises_ptry_all returns_warn_step raises_only_pwhen raises_only_pbind raises_ordinary extras raises_only_basic)
    then show ?thesis unfolding lk_content_def
      by (intro raises_intros raises_only_mono [OF returns_build_messages] returns_span_messages tame) simp_all
  qed
  have metrics: "raises_only P (lk_metrics (le_env env) now scope tokens cost)" for P tokens cost
    unfolding lk_metrics_def
    by (intro raises_only_pwhen raises_ptry_all returns_debug_step raises_any_metric_step raises_record_completion)
  have attributes: "raises_only is_Exception (lk_tool_attributes (le_env env) scope)"
    "raises_only is_Exception (lk_request_attributes ps)" "raises_only is_Exception (lk_response_attributes scope)"
    "raises_only is_Exception (lk_usage_attributes scope tokens cost)" for ps tokens cost
    unfolding lk_tool_attributes_def lk_request_attributes_def lk_response_attributes_def lk_usage_attributes_def
      lk_tool_row_def Let_def
    by (rule raises_intros ordinary_intros | simp)+
  have texts: "ordinary (lc_format_content repr v)" "ordinary (lk_tokens p scope)" for repr v p
    unfolding lc_format_content_def lk_tokens_def by (rule ordinary_intros)+
  show ?thesis unfolding lc_common_chat_logic_def Let_def
    by (intro raises_only_pbind raises_ordinary texts raises_span_step attributes raises_only_pwhen content metrics)
qed

lemma raises_run_result: "lc_tame env \<Longrightarrow> raises_only is_Exception (run_result env response run h now)"
  unfolding run_result_def estimated_def Let_def
  by (rule raises_intros raises_prompts_loop ordinary_intros raises_ptry_all | assumption)+

lemma raises_detach [raises_intros]: "raises_only is_Exception (detach_llm run)"
proof -
  have "raises_only is_Exception (\<lambda>s. case reset_framework_llm_active fw (lc_ambient s) of (r, am) \<Rightarrow> (r, s\<lparr>lc_ambient := am\<rparr>))"
    for fw by (auto simp: raises_only_def reset_framework_llm_active_def ctx_reset_def split: prod.splits if_splits)
  then show ?thesis unfolding detach_llm_def by (intro raises_intros) (auto intro!: raises_intros split: prod.split)
qed

lemma returns_llm_callbacks:
  assumes "lc_tame env"
  shows "returns (on_llm_start env s v run parent md kw now)" "returns (on_chat_model_start env s v run parent md kw now)"
    "returns (on_llm_new_token env v w run now)" "returns (on_llm_end env v run now now')" "returns (on_llm_error env e run)"
  unfolding on_llm_start_def on_chat_model_start_def on_llm_new_token_def on_llm_end_def on_llm_error_def error_attribute_def
    system_attribute_def tools_attribute_def Let_def
  by (rule raises_guarded raises_intros ordinary_intros lc_tameD raises_lc_chat_logic raises_run_result | rule assms | simp)+


text \<open>The environment used to apply the theorems.\<close>

definition sample_lc :: lc_env where
  "sample_lc = \<lparr>le_env = sample_env, le_dumps_str = (\<lambda>_. Inr ''{}''), le_exception = (\<lambda>_. Inr None)\<rparr>"

lemma sample_lc_tame: "lc_tame sample_lc"
  by (simp add: lc_tame_def sample_lc_def sample_env_tame ordinary_def)


end
