(* ===== verification/LangChainRunProps.thy ===== *)
theory LangChainRunProps
  imports LangChainRefine LangChainProps
begin

text \<open>
  Properties of whole runs of the callback handler: every callback refines a step of the tracker, so the
  tracker's invariant holds in every reachable state; error callbacks always close their run; properly
  nested LLM runs give the context back, and runs that end in the order they started do not.
\<close>

section \<open>Every callback refines the tracker\<close>

text \<open>The step a callback may make.\<close>

fun label_of :: "callback \<Rightarrow> label option" where
  "label_of (ChainStart serialized inputs run parent metadata kwargs now) = Some (Opened run)"
| "label_of (ToolStart serialized input_str run parent metadata kwargs now) = Some (Opened run)"
| "label_of (RetrieverStart serialized query run parent metadata kwargs now) = Some (Opened run)"
| "label_of (LlmStart serialized prompts run parent metadata kwargs now) = Some (OpenedLlm run)"
| "label_of (ChatModelStart serialized messages run parent metadata kwargs now) = Some (OpenedLlm run)"
| "label_of (ChainEnd outputs run now now') = Some (Closed run)"
| "label_of (ChainError error run) = Some (Closed run)"
| "label_of (ToolEnd output run now now') = Some (Closed run)"
| "label_of (ToolError error run) = Some (Closed run)"
| "label_of (RetrieverEnd documents run now now') = Some (Closed run)"
| "label_of (RetrieverError error run) = Some (Closed run)"
| "label_of (LlmEnd response run now now') = Some (ClosedLlm run)"
| "label_of (LlmError error run) = Some (ClosedLlm run)"
| "label_of c = None"

definition starts :: "callback \<Rightarrow> run_id option" where
  "starts c = (case label_of c of Some (Opened run) \<Rightarrow> Some run | Some (OpenedLlm run) \<Rightarrow> Some run | _ \<Rightarrow> None)"

definition fresh_start :: "callback \<Rightarrow> tracker \<Rightarrow> bool" where
  "fresh_start c t \<longleftrightarrow> (\<forall>run. starts c = Some run \<longrightarrow> tr_runs t run = None)"

lemma moves_open_llm: "moves {OpenedLlm run} (unknown run) (pbind (open_llm env ser ps run parent md kw now) k)"
  if "\<And>i. keeps tracker_of (k i)"
  unfolding open_llm_def Let_def pbind_assoc
  by (rule moves_after keeps_basic moves_create_attach keeps_intros that | simp add: run_of_def set_server_def)+

lemma moves_starts:
  "moves {Opened run} (unknown run) (on_chain_start env ser v run parent md kw now)"
  "moves {Opened run} (unknown run) (on_tool_start env ser v run parent md kw now)"
  "moves {Opened run} (unknown run) (on_retriever_start env ser v run parent md kw now)"
  "moves {OpenedLlm run} (unknown run) (on_llm_start env ser v run parent md kw now)"
  "moves {OpenedLlm run} (unknown run) (on_chat_model_start env ser v run parent md kw now)"
proof -
  have create: "moves {Opened run} (unknown run) (pbind (create_span run parent name client now) k)"
    if "\<And>i. keeps tracker_of (k i)" for name client k
    by (rule moves_before [OF moves_create that])
  have chain: "moves {Opened run} (unknown run) (open_chain env name agent v run parent md now)" for name agent
    unfolding open_chain_def Let_def by (rule create) (rule keeps_intros)+
  show "moves {Opened run} (unknown run) (on_chain_start env ser v run parent md kw now)"
    unfolding on_chain_start_def Let_def
    by (rule moves_guarded moves_after chain moves_if moves_keep keeps_intros)+
  show "moves {Opened run} (unknown run) (on_tool_start env ser v run parent md kw now)"
    "moves {Opened run} (unknown run) (on_retriever_start env ser v run parent md kw now)"
    unfolding on_tool_start_def on_retriever_start_def Let_def
    by (rule moves_guarded moves_after create keeps_basic keeps_intros)+
  show "moves {OpenedLlm run} (unknown run) (on_llm_start env ser v run parent md kw now)"
    "moves {OpenedLlm run} (unknown run) (on_chat_model_start env ser v run parent md kw now)"
    unfolding on_llm_start_def on_chat_model_start_def Let_def
    by (rule moves_guarded moves_open_llm keeps_intros | simp add: run_of_def)+
qed

lemma when_entry_bind:
  "pbind (when_entry run f) (\<lambda>_. finish_span run error) s
     = (case dget (lc_spans s) run of None \<Rightarrow> (Inr (), s) | Some h \<Rightarrow> pbind (f h) (\<lambda>_. finish_span run error) s)"
  by (simp add: when_entry_def pbind_def finish_span_def split: option.split)

lemma moves_ends:
  "moves {Closed run} P (on_chain_end env v run now now')" "moves {Closed run} P (on_chain_error env e run)"
  "moves {Closed run} P (on_tool_end env v run now now')" "moves {Closed run} P (on_tool_error env e run)"
  "moves {Closed run} P (on_retriever_end env v run now now')" "moves {Closed run} P (on_retriever_error env e run)"
  "moves {} P (on_agent_action env v run)" "moves {} P (on_agent_finish env v run)" "moves {} P (on_retry env v run)"
  "moves {} P (on_llm_new_token env v w run now)" "moves {ClosedLlm run} P (on_llm_end env v run now now')"
  "moves {ClosedLlm run} P (on_llm_error env e run)"
proof -
  show "moves {Closed run} P (on_chain_end env v run now now')" "moves {Closed run} P (on_chain_error env e run)"
    "moves {Closed run} P (on_tool_end env v run now now')" "moves {Closed run} P (on_tool_error env e run)"
    "moves {Closed run} P (on_retriever_end env v run now now')" "moves {Closed run} P (on_retriever_error env e run)"
    "moves {ClosedLlm run} P (on_llm_end env v run now now')"
    unfolding on_chain_end_def on_chain_error_def on_tool_end_def on_tool_error_def on_retriever_end_def
      on_retriever_error_def on_llm_end_def run_error_def Let_def
    by (rule moves_guarded moves_when moves_detach_finish moves_after moves_finish keeps_intros insertI1)+
  show "moves {} P (on_agent_action env v run)" "moves {} P (on_agent_finish env v run)" "moves {} P (on_llm_new_token env v w run now)"
    unfolding on_agent_action_def on_agent_finish_def on_llm_new_token_def Let_def
    by (rule moves_guarded moves_when moves_keep keeps_intros | simp add: run_of_def add_token_def)+
  have "map span_of (on_stored i (add_event n a) l) = map span_of l" for l i n a
    by (cases "i < length l") (simp_all add: on_stored_def map_update add_event_def span_of_def list_update_same_conv list_update_beyond)
  then show "moves {} P (on_retry env v run)"
    unfolding on_retry_def
    by (intro moves_guarded moves_when moves_keep keeps_pbind keeps_basic keeps_pmodify) (simp add: tracker_of_def)
  have "moves {ClosedLlm run} P (pbind (when_entry run (\<lambda>h. pbind (error_attribute env e run) (\<lambda>_. detach_llm run)))
      (\<lambda>_. finish_span run (Some (exc_msg e))))"
  proof -
    have "moves {ClosedLlm run} P (pbind (error_attribute env e run) (\<lambda>_. pbind (detach_llm run) (\<lambda>_. finish_span run (Some (exc_msg e)))))"
      by (rule moves_after moves_detach_finish keeps_intros insertI1)+
    then show ?thesis
      by (auto simp: moves_def when_entry_bind pbind_assoc stays_or_tracks_def split: option.split)
  qed
  then show "moves {ClosedLlm run} P (on_llm_error env e run)" unfolding on_llm_error_def by (rule moves_guarded)
qed

lemma dispatch_tracks:
  assumes "tracked (tracker_of s)" and "fresh_start c (tracker_of s)"
  shows "stays_or_tracks (set_option (label_of c)) (tracker_of s) (tracker_of (snd (dispatch env c s)))"
proof -
  have ok: "tracker_ok (tracker_of s)" by (rule tracked_ok [OF assms(1)])
  have start: "stays_or_tracks L (tracker_of s) (tracker_of (snd (m s)))"
    if "moves L (unknown run) m" "starts c = Some run" for m :: "unit handler" and run L
    using that ok assms(2) by (simp add: moves_def fresh_start_def)
  have other: "stays_or_tracks L (tracker_of s) (tracker_of (snd (m s)))"
    if "moves L (\<lambda>_. True) m" for m :: "unit handler" and L
    using that ok by (simp add: moves_def)
  show ?thesis
    by (cases c) (auto simp: starts_def intro!: start [OF moves_starts(1)] start [OF moves_starts(2)]
      start [OF moves_starts(3)] start [OF moves_starts(4)] start [OF moves_starts(5)]
      other [OF moves_ends(1)] other [OF moves_ends(2)] other [OF moves_ends(3)] other [OF moves_ends(4)]
      other [OF moves_ends(5)] other [OF moves_ends(6)] other [OF moves_ends(7)] other [OF moves_ends(8)]
      other [OF moves_ends(9)] other [OF moves_ends(10)] other [OF moves_ends(11)] other [OF moves_ends(12)])
qed

text \<open>C4: The callback handler refines its abstract specification: whatever a callback does, and wherever its
  processing fails, the table of runs, the ends and parents of the spans and the two context variables
  make at most one step of the tracker, provided the run a start callback announces is new.\<close>

theorem handler_refines_tracker:
  assumes "tracked (tracker_of s)" and "fresh_start c (tracker_of s)"
  shows "stays_or_tracks (set_option (label_of c)) (tracker_of s) (tracker_of (snd (dispatch env c s)))"
  by (rule dispatch_tracks) (fact assms)+

lemma stays_tracked: "stays_or_tracks L t u \<Longrightarrow> tracked t \<Longrightarrow> tracked u"
  by (auto simp: stays_or_tracks_def intro: tracked.step)

section \<open>Reachable states\<close>

text \<open>LangChain announces new runs; between callbacks the LangGraph instrumentation may set its own variable.\<close>

inductive reachable :: "lc_env \<Rightarrow> lc_state \<Rightarrow> bool" for env :: lc_env where
  start: "reachable env initial_handler"
| callback: "reachable env s \<Longrightarrow> fresh_start c (tracker_of s) \<Longrightarrow> reachable env (snd (dispatch env c s))"
| langgraph: "reachable env s \<Longrightarrow> reachable env (s\<lparr>lc_ambient := (lc_ambient s)\<lparr>am_langgraph_wrapper := cv\<rparr>\<rparr>)"

lemma reachable_tracked: "reachable env s \<Longrightarrow> tracked (tracker_of s)"
proof (induction rule: reachable.induct)
  case start
  show ?case by (simp add: tracker_of_initial tracked.start)
next
  case (callback s c)
  from dispatch_tracks [OF callback.IH callback.hyps(2), of env] callback.IH show ?case
    by (auto simp: stays_or_tracks_def intro: tracked.step)
next
  case (langgraph s cv)
  then show ?case by (simp add: tracker_of_def)
qed

text \<open>C5: In every reachable state no span is lost: each has ended or is held by a run of the table, runs have spans
  of their own, and every span was started after its parent, so that the spans form a forest.\<close>

theorem no_span_is_lost:
  assumes "reachable env s"
  shows "(\<forall>i < length (lc_store s). sp_ended (rs_span (lc_store s ! i))
        \<or> (\<exists>run h. dget (lc_spans s) run = Some h \<and> hd_span h = i))
     \<and> (\<forall>r r' h h'. dget (lc_spans s) r = Some h \<longrightarrow> dget (lc_spans s) r' = Some h' \<longrightarrow> hd_span h = hd_span h' \<longrightarrow> r = r')
     \<and> (\<forall>i < length (lc_store s). \<forall>j. rs_parent (lc_store s ! i) = Some j \<longrightarrow> j < i)"
proof -
  have ok: "runs_ok (tracker_of s)" "spans_ok (tracker_of s)" "parents_ok (tracker_of s)"
    using tracked_ok [OF reachable_tracked [OF assms]] by (simp_all add: tracker_ok_def)
  from ok(2) have "\<forall>i < length (lc_store s). sp_ended (rs_span (lc_store s ! i))
        \<or> (\<exists>run h. dget (lc_spans s) run = Some h \<and> hd_span h = i)"
    by (simp add: spans_ok_def span_of_def run_of_def)
  moreover from ok(1) have "\<forall>r r' h h'. dget (lc_spans s) r = Some h \<longrightarrow> dget (lc_spans s) r' = Some h' \<longrightarrow>
      hd_span h = hd_span h' \<longrightarrow> r = r'"
    by (force simp: runs_ok_def run_of_def)
  moreover from ok(3) have "\<forall>i < length (lc_store s). \<forall>j. rs_parent (lc_store s ! i) = Some j \<longrightarrow> j < i"
    by (simp add: parents_ok_def span_of_def)
  ultimately show ?thesis by blast
qed

section \<open>Error callbacks\<close>

fun fails :: "callback \<Rightarrow> (pyexc \<times> run_id) option" where
  "fails (ChainError error run) = Some (error, run)"
| "fails (ToolError error run) = Some (error, run)"
| "fails (RetrieverError error run) = Some (error, run)"
| "fails (LlmError error run) = Some (error, run)"
| "fails c = None"

text \<open>The parents, ends and statuses of the spans, which attributes do not change.\<close>

definition span_views :: "lc_state \<Rightarrow> (nat option \<times> bool \<times> span_status) list" where
  "span_views s = map (\<lambda>sp. (rs_parent sp, sp_ended (rs_span sp), sp_status (rs_span sp))) (lc_store s)"

lemma span_views_tracker: "tr_spans (tracker_of s) = map (\<lambda>(p, e, st). (e, p)) (span_views s)"
  by (simp add: span_views_def span_of_def)

lemma keeps_table_attr:
  "keeps lc_spans (lc_attr i k v)" "keeps span_views (lc_attr i k v)"
proof -
  have "span_views (snd (lc_attr i k v s)) = span_views s" for s
  proof (cases "i < length (lc_store s)")
    case True
    then show ?thesis
      by (auto simp: lc_attr_def on_tele_def span_attr_def span_step_def with_tele_def tele_of_def on_span_def
          span_views_def map_update set_attribute_def list_update_same_conv)
  next
    case False
    then show ?thesis
      by (auto simp: lc_attr_def on_tele_def span_attr_def span_step_def with_tele_def tele_of_def on_span_def
          span_views_def list_update_beyond)
  qed
  then show "keeps span_views (lc_attr i k v)" by (simp add: keeps_def)
  show "keeps lc_spans (lc_attr i k v)"
    by (simp add: keeps_def lc_attr_def on_tele_def with_tele_def split: prod.split)
qed

lemma error_attribute_state:
  "\<exists>u. error_attribute env e run s = (Inr (), u) \<and> lc_spans u = lc_spans s \<and> tracker_of u = tracker_of s
     \<and> span_views u = span_views s"
proof -
  have r: "returns (error_attribute env e run)"
    unfolding error_attribute_def by (rule raises_intros)+
  obtain u where u: "error_attribute env e run s = (Inr (), u)" using returns_unit [OF r, of s] by (elim exE)
  have "keeps lc_spans (error_attribute env e run)" "keeps span_views (error_attribute env e run)"
    unfolding error_attribute_def by (intro keeps_tracker_when keeps_table_attr)+
  from this [THEN keepsD, OF u] keepsD [OF keeps_shared(4) u] u show ?thesis by blast
qed

lemma guarded_ok: "m s = (Inr (), t) \<Longrightarrow> guarded name m s = (Inr (), t)"
  by (simp add: guarded_def ptry_def)

text \<open>Each error callback comes down to the end of the span, in a state with the same table and spans.\<close>

lemma error_callback_finishes:
  assumes "tracker_ok (tracker_of s)" and "fails c = Some (e, run)" and "dget (lc_spans s) run = Some h"
  shows "\<exists>u t. lc_spans u = lc_spans s \<and> span_views u = span_views s
     \<and> finish_span run (Some (exc_msg e)) u = (Inr (), t) \<and> dispatch env c s = (Inr (), t)"
proof -
  let ?finish = "finish_span run (Some (exc_msg e))"
  have finishes: "\<exists>t. ?finish u = (Inr (), t)" for u
    using returns_unit [OF raises_finish_span, of run "Some (exc_msg e)" u] .
  have plain: "\<exists>u t. lc_spans u = lc_spans v \<and> span_views u = span_views v \<and> ?finish u = (Inr (), t)
     \<and> guarded name (run_error env e run) v = (Inr (), t)" for name v
  proof -
    obtain u where u: "error_attribute env e run v = (Inr (), u)" "lc_spans u = lc_spans v" "span_views u = span_views v"
      using error_attribute_state by blast
    obtain t where t: "?finish u = (Inr (), t)" using finishes by blast
    from u t have "run_error env e run v = (Inr (), t)" by (simp add: run_error_def pbind_def)
    from guarded_ok [of "run_error env e run", OF this] u t show ?thesis by blast
  qed
  have llm: "\<exists>u t. lc_spans u = lc_spans s \<and> span_views u = span_views s \<and> ?finish u = (Inr (), t)
     \<and> on_llm_error env e run s = (Inr (), t)"
  proof -
    obtain v where v: "error_attribute env e run s = (Inr (), v)" "lc_spans v = lc_spans s" "tracker_of v = tracker_of s"
      "span_views v = span_views s" using error_attribute_state by blast
    from assms v have "tracker_ok (tracker_of v)" "dget (lc_spans v) run = Some h" by simp_all
    from detach_tracker [OF this] obtain u where
      u: "detach_llm run v = (Inr (), u)" "lc_spans u = lc_spans v" "lc_store u = lc_store v" by blast
    obtain t where t: "?finish u = (Inr (), t)" using finishes by blast
    have "pbind (when_entry run (\<lambda>h. pbind (error_attribute env e run) (\<lambda>_. detach_llm run))) (\<lambda>_. ?finish) s = (Inr (), t)"
      using assms(3) v(1) u(1) t by (simp add: when_entry_bind pbind_assoc) (simp add: pbind_def)
    then have "on_llm_error env e run s = (Inr (), t)" unfolding on_llm_error_def by (rule guarded_ok)
    moreover have "span_views u = span_views s" using u(3) v(4) by (simp add: span_views_def)
    ultimately show ?thesis using u(2) v(2) t by auto
  qed
  let ?u = "s\<lparr>lc_skipped := ddel run (lc_skipped s)\<rparr>"
  have "on_chain_error env e run s = guarded ''on_chain_error'' (run_error env e run) ?u"
    by (simp add: on_chain_error_def guarded_def unskip_run_def ptry_def)
  then have chain: "\<exists>u t. lc_spans u = lc_spans s \<and> span_views u = span_views s \<and> ?finish u = (Inr (), t)
     \<and> on_chain_error env e run s = (Inr (), t)"
    using plain [of ?u "''on_chain_error''"] by (simp add: span_views_def)
  show ?thesis
    using assms(2) chain llm plain [of s]
    by (cases c) (simp_all add: on_tool_error_def on_retriever_error_def)
qed


lemma end_child_elsewhere:
  "(\<And>hc. dget spans child = Some hc \<Longrightarrow> hd_span hc \<noteq> i) \<Longrightarrow> end_child spans child store ! i = store ! i"
  by (auto simp: end_child_def on_stored_def split: option.split)

lemma end_children_elsewhere:
  "(\<And>child hc. child \<in> set children \<Longrightarrow> dget spans child = Some hc \<Longrightarrow> hd_span hc \<noteq> i) \<Longrightarrow>
     fold (end_child spans) children store ! i = store ! i"
proof (induction children arbitrary: store)
  case (Cons child children)
  then have "fold (end_child spans) children (end_child spans child store) ! i = end_child spans child store ! i"
    by (meson list.set_intros(2))
  also have "\<dots> = store ! i" by (rule end_child_elsewhere) (rule Cons.prems [OF list.set_intros(1)])
  finally show ?case by simp
qed simp

lemma length_end_children: "length (fold (end_child spans) children store) = length store"
  by (induction children arbitrary: store) (simp_all add: end_child_def on_stored_def split: option.split)

text \<open>The status of a closed run: an error with a message gives ERROR, an error whose message is empty gives OK.\<close>

theorem error_status_needs_message:
  assumes "reachable env s" and "fails c = Some (e, run)" and "dget (lc_spans s) run = Some h"
    and "run \<notin> set (hd_children h)" and "rs_span (lc_store s ! hd_span h) = sp"
    and "\<not> sp_ended sp" and "sp_status sp = Unset"
  shows "sp_status (rs_span (lc_store (snd (dispatch env c s)) ! hd_span h)) = (if exc_msg e = [] then StatusOk else StatusError)"
proof -
  have ok: "tracker_ok (tracker_of s)" by (rule tracked_ok [OF reachable_tracked [OF assms(1)]])
  from error_callback_finishes [OF ok assms(2,3), of env] obtain u t where
    u: "lc_spans u = lc_spans s" "span_views u = span_views s" "finish_span run (Some (exc_msg e)) u = (Inr (), t)"
      "dispatch env c s = (Inr (), t)" by blast
  have "tr_runs (tracker_of s) run = Some (hd_span h, hd_token h)" using assms(3) by (simp add: run_of_def)
  with ok have "hd_span h < length (tr_spans (tracker_of s))" unfolding tracker_ok_def runs_ok_def by blast
  then have bound: "hd_span h < length (lc_store s)" by simp
  have len: "length (lc_store u) = length (lc_store s)" using u(2) by (metis length_map span_views_def)
  have "span_views u ! hd_span h = span_views s ! hd_span h" by (simp add: u(2))
  then have sp: "\<not> sp_ended (rs_span (lc_store u ! hd_span h))" "sp_status (rs_span (lc_store u ! hd_span h)) = Unset"
    using assms(5-7) bound len by (simp_all add: span_views_def)
  have "hd_span hc \<noteq> hd_span h" if "child \<in> set (hd_children h)" "dget (lc_spans u) child = Some hc" for child hc
  proof
    assume "hd_span hc = hd_span h"
    then have "tr_runs (tracker_of s) child = Some (hd_span h, hd_token hc)" "tr_runs (tracker_of s) run = Some (hd_span h, hd_token h)"
      using that(2) assms(3) u(1) by (simp_all add: run_of_def)
    with ok have "child = run" unfolding tracker_ok_def runs_ok_def by blast
    with that(1) assms(4) show False by simp
  qed
  then have "fold (end_child (lc_spans u)) (hd_children h) (lc_store u) ! hd_span h = lc_store u ! hd_span h"
    by (rule end_children_elsewhere)
  with u(3) assms(3) sp bound len show ?thesis
    unfolding u(4) by (auto simp: finish_span_def when_entry_def u(1) Let_def on_stored_def length_end_children end_span_def set_status_def)
qed

section \<open>The theorems applied\<close>

definition attr_upd :: "nat \<Rightarrow> string \<Rightarrow> pyval \<Rightarrow> lc_state \<Rightarrow> lc_state" where
  "attr_upd i k v s = snd (lc_attr i k v s)"

lemma lc_attr_eval: "lc_attr i k v s = (Inr (), attr_upd i k v s)"
  using returns_unit [OF raises_lc_attr, of i k v s] by (auto simp: attr_upd_def)

lemma attr_upd_views [simp]:
  "lc_spans (attr_upd i k v s) = lc_spans s" "span_views (attr_upd i k v s) = span_views s"
  using keeps_table_attr [of i k v] by (simp_all add: keeps_def attr_upd_def)

lemma create_eval:
  "create_span run None name client now s =
     (Inr (length (lc_store s)), s\<lparr>lc_store := lc_store s @ [\<lparr>rs_name = name, rs_client = client,
        rs_parent = cv_value (lc_current s), rs_span = fresh_span\<rparr>],
        lc_spans := dput run (new_holder (length (lc_store s)) now) (lc_spans s)\<rparr>)"
  by (simp add: create_span_def resolve_parent_run_id_def parent_span_def add_child_def Let_def ctx_get_def)

lemma conversation_eval: "conversation_attribute env i PNone = pret ()"
  by (simp add: conversation_attribute_def resolve_conversation_id_def pret_def fun_eq_iff)

lemma extract_eval:
  "extract_model_name repr PNone [] = Inr (PStr ''unknown'')"
  "extract_model_parameters [] = Inr []" "detect_provider PNone = Inr GEN_AI_SYSTEM_LANGCHAIN"
  by (simp_all add: extract_model_parameters_def param_keys_def dict_of_def dupdate_def detect_provider_def)
    (simp add: extract_model_name_def get_class_name_def MODEL_PATHS_BY_ID_def MODEL_PATTERNS_def FALLBACK_PATHS_def
      py_or_def known_path_def known_pattern_def extract_by_path_def)

lemmas handler_eval = guarded_def ptry_def pbind_def plift_def pwhen_def upd_entry_def on_entry_def common_attributes_def
  pmodify_def attach_llm_def captured_def pret_def py_or_def lc_attr_eval create_eval conversation_eval extract_eval

definition tool_run :: lc_state where
  "tool_run = snd (dispatch sample_lc (ToolStart PNone PNone 7 None PNone [] 0) initial_handler)"

lemma tool_run_views: "span_views tool_run = [(None, False, Unset)]"
  by (simp add: tool_run_def on_tool_start_def handler_eval get_name_from_callback_def)
    (simp add: initial_handler_def fresh_var_def span_views_def fresh_span_def)

lemma tool_run_eval:
  "dget (lc_spans tool_run) 7 = Some (new_holder 0 0)"
  "sp_status (rs_span (lc_store tool_run ! 0)) = Unset" "\<not> sp_ended (rs_span (lc_store tool_run ! 0))"
proof -
  show "dget (lc_spans tool_run) 7 = Some (new_holder 0 0)"
    by (simp add: tool_run_def on_tool_start_def handler_eval get_name_from_callback_def) (simp add: initial_handler_def)
  show "sp_status (rs_span (lc_store tool_run ! 0)) = Unset" "\<not> sp_ended (rs_span (lc_store tool_run ! 0))"
    using tool_run_views by (auto simp: span_views_def)
qed

lemma fresh_initial: "fresh_start c (tracker_of initial_handler)"
  by (simp add: fresh_start_def initial_handler_def)

lemma tool_run_reachable: "reachable sample_lc tool_run"
  unfolding tool_run_def by (rule reachable.callback [OF reachable.start fresh_initial])

theorem handler_refines_tracker_witness:
  "stays_or_tracks {Closed 7} (tracker_of tool_run) (tracker_of (snd (dispatch sample_lc (ToolEnd (PStr ''done'') 7 1 2) tool_run)))"
  using handler_refines_tracker [OF reachable_tracked [OF tool_run_reachable], of "ToolEnd (PStr ''done'') 7 1 2" sample_lc]
  by (simp add: fresh_start_def starts_def)

theorem no_span_is_lost_witness:
  "\<exists>run h. dget (lc_spans tool_run) run = Some h \<and> hd_span h = 0"
proof -
  have "length (span_views tool_run) = 1" by (simp add: tool_run_views)
  then have "0 < length (lc_store tool_run)" by (simp add: span_views_def)
  with no_span_is_lost [OF tool_run_reachable] tool_run_eval(3) show ?thesis by blast
qed


theorem error_status_needs_message_witness:
  "sp_status (rs_span (lc_store (snd (dispatch sample_lc (ToolError (PyExc ValueError []) 7) tool_run)) ! 0)) = StatusOk"
  using error_status_needs_message [OF tool_run_reachable _ tool_run_eval(1), of "ToolError (PyExc ValueError []) 7" "PyExc ValueError []"
      "rs_span (lc_store tool_run ! 0)"] tool_run_eval(2,3)
  by (simp add: new_holder_def)

text \<open>An LLM run that starts without data is opened in every state; an error callback takes it out again.\<close>

lemma llm_start_opens:
  "dget (lc_spans (snd (dispatch env (LlmStart PNone PNone run None PNone [] 0) s))) run \<noteq> None"
  by (simp add: on_llm_start_def open_llm_def Let_def handler_eval model_parameters_def lc_attr_given_def
      set_framework_llm_active_def split: prod.split)

lemma error_gone:
  assumes "tracker_ok (tracker_of s)" "fails c = Some (e, run)" "dget (lc_spans s) run \<noteq> None"
  shows "dget (lc_spans (snd (dispatch env c s))) run = None"
proof -
  obtain h where h: "dget (lc_spans s) run = Some h" using assms(3) by blast
  from error_callback_finishes [OF assms(1,2) h, of env] obtain u t where
    u: "lc_spans u = lc_spans s" "finish_span run (Some (exc_msg e)) u = (Inr (), t)" "dispatch env c s = (Inr (), t)" by blast
  with finish_tracker [of u run h "Some (exc_msg e)"] h show ?thesis by auto
qed

end
