(* ===== verification/LangChainContextProps.thy ===== *)
theory LangChainContextProps
  imports LangChainRunProps
begin

text \<open>
  The two context variables an LLM run owns.  Properly nested runs give the framework flag back; runs that
  end in the order they started, as the prompts of a batch do, leave it set, and so does a run whose
  result cannot be read.
\<close>

section \<open>Nested runs\<close>

definition llm_start :: "callback \<Rightarrow> run_id option" where
  "llm_start c = (case label_of c of Some (OpenedLlm run) \<Rightarrow> Some run | _ \<Rightarrow> None)"

definition llm_end :: "callback \<Rightarrow> run_id option" where
  "llm_end c = (case label_of c of Some (ClosedLlm run) \<Rightarrow> Some run | _ \<Rightarrow> None)"

text \<open>The tokens a run owns.\<close>

definition owned :: "tracker \<Rightarrow> run_id \<Rightarrow> run_tokens option" where
  "owned t run = (case tr_runs t run of Some (i, tokens) \<Rightarrow> tokens | None \<Rightarrow> None)"

text \<open>A callback that neither starts nor ends an LLM run: it starts a new run, or ends one without tokens, or
  does neither.\<close>

definition quiet :: "callback \<Rightarrow> tracker \<Rightarrow> bool" where
  "quiet c t \<longleftrightarrow> llm_start c = None \<and> llm_end c = None \<and> fresh_start c t
     \<and> (\<forall>run. label_of c = Some (Closed run) \<longrightarrow> owned t run = None)"

text \<open>Callbacks between two states in which every LLM run that started has ended, the inner ones first.\<close>

inductive nested :: "lc_env \<Rightarrow> lc_state \<Rightarrow> lc_state \<Rightarrow> bool" for env :: lc_env where
  nothing: "nested env s s"
| other: "nested env s t \<Longrightarrow> quiet c (tracker_of t) \<Longrightarrow> nested env s (snd (dispatch env c t))"
| llm_run: "nested env s t \<Longrightarrow> llm_start c = Some run \<Longrightarrow> dget (lc_spans t) run = None \<Longrightarrow>
     nested env (snd (dispatch env c t)) u \<Longrightarrow> llm_end c' = Some run \<Longrightarrow>
     dget (lc_spans (snd (dispatch env c' u))) run = None \<Longrightarrow> nested env s (snd (dispatch env c' u))"

definition same_context :: "tracker \<Rightarrow> tracker \<Rightarrow> bool" where
  "same_context t u \<longleftrightarrow> cv_value (tr_flag u) = cv_value (tr_flag t) \<and> owned u = owned t"

lemma owned_ops:
  "owned (open_run run parent t) = (owned t)(run := None)"
  "owned (own_context run i t) = (owned t)(run \<mapsto> (fst (ctx_set True (tr_flag t)), fst (ctx_set (Some i) (tr_current t))))"
  "owned (close_run run I t) = (owned t)(run := None)"
  "owned (give_context tokens t) = owned t"
  by (auto simp: owned_def tracker_ops fun_eq_iff split: option.split)

lemma flag_own: "tr_flag (own_context run i t) = snd (ctx_set True (tr_flag t))"
  by (simp add: own_context_def split: prod.split)

lemma current_open [simp]: "tr_current (open_run run parent t) = tr_current t"
  by (simp add: open_run_def)

lemma owned_fresh: "tr_runs t run = None \<Longrightarrow> owned t run = None"
  by (simp add: owned_def)

lemma llm_labels:
  "llm_start c = Some run \<Longrightarrow> label_of c = Some (OpenedLlm run)"
  "llm_end c = Some run \<Longrightarrow> label_of c = Some (ClosedLlm run)"
  by (simp_all add: llm_start_def llm_end_def split: option.splits label.splits)

lemma fresh_llm:
  assumes "llm_start c = Some run" "tr_runs t run = None"
  shows "fresh_start c t"
  using assms llm_labels(1) [OF assms(1)] by (simp add: fresh_start_def starts_def)

lemma fresh_end: "llm_end c = Some run \<Longrightarrow> fresh_start c t"
  using llm_labels(2) [of c run] by (simp add: fresh_start_def starts_def)

text \<open>What the three kinds of step do to the context.\<close>

lemma quiet_step:
  assumes "stays_or_tracks (set_option (label_of c)) t u" "quiet c t"
  shows "same_context t u"
proof (cases "u = t")
  case False
  then obtain l where l: "label_of c = Some l" "track l t u" using assms(1) by (auto simp: stays_or_tracks_def)
  from l(2) assms(2) l(1) show ?thesis
    by (cases rule: track.cases)
      (auto simp: quiet_def llm_start_def llm_end_def fresh_start_def starts_def same_context_def owned_ops owned_fresh)
qed (simp add: same_context_def)

lemma opened_step:
  assumes "track (OpenedLlm run) t u"
  shows "owned u = (owned t)(run \<mapsto> (fst (ctx_set True (tr_flag t)), fst (ctx_set (Some (length (tr_spans t))) (tr_current t))))"
    "tr_flag u = snd (ctx_set True (tr_flag t))"
  using assms by (cases rule: track.cases; simp add: owned_ops flag_own)+

lemma closed_step:
  assumes "track (ClosedLlm run) t u"
  shows "owned u = (owned t)(run := None)
     \<and> tr_flag u = (case owned t run of None \<Rightarrow> tr_flag t | Some tk \<Rightarrow> snd (ctx_reset (fst tk) (tr_flag t)))"
  using assms
  by (cases rule: track.cases)
    (auto simp: give_back_def owned_ops owned_def give_context_def close_run_def split: option.split)

lemma owned_unused:
  assumes "tracker_ok t" "owned t run = Some (fw, tok)"
  shows "tok_id fw \<notin> set (cv_used (tr_flag t))"
proof -
  have "owns_token t run (tok_id fw)"
    using assms(2) by (auto simp: owned_def owns_token_def split: option.splits)
  with assms(1) show ?thesis by (simp add: tracker_ok_def tokens_ok_def)
qed

text \<open>A run that is opened, leaves the context as it found it until it is closed, and is then closed.\<close>

lemma llm_pair:
  assumes ok: "tracker_ok u" and start: "stays_or_tracks {OpenedLlm run} t t'" and same: "same_context t' u"
    and stop: "stays_or_tracks {ClosedLlm run} u v" and fresh: "tr_runs t run = None" and gone: "tr_runs v run = None"
  shows "same_context t v"
proof -
  from stop have v: "owned v = (owned u)(run := None)"
    "tr_flag v = (case owned u run of None \<Rightarrow> tr_flag u | Some tk \<Rightarrow> snd (ctx_reset (fst tk) (tr_flag u)))"
    using closed_step [of run u v] owned_fresh [OF gone] by (auto simp: stays_or_tracks_def)
  show ?thesis
  proof (cases "t' = t")
    case True
    with same fresh have "owned u run = None" by (simp add: same_context_def owned_fresh)
    with v same True show ?thesis by (auto simp: same_context_def)
  next
    case False
    with start have "track (OpenedLlm run) t t'" by (simp add: stays_or_tracks_def)
    from opened_step(1) [OF this] same obtain tok where
      o: "owned u = (owned t)(run \<mapsto> (fst (ctx_set True (tr_flag t)), tok))" by (auto simp: same_context_def)
    then have "owned u run = Some (fst (ctx_set True (tr_flag t)), tok)" by simp
    moreover from owned_unused [OF ok this] have "tok_id (fst (ctx_set True (tr_flag t))) \<notin> set (cv_used (tr_flag u))" .
    ultimately have "cv_value (tr_flag v) = cv_value (tr_flag t)"
      using v(2) by (simp add: ctx_reset_def ctx_set_def)
    moreover have "owned v = owned t" using v(1) o owned_fresh [OF fresh] by auto
    ultimately show ?thesis by (simp add: same_context_def)
  qed
qed

lemma nested_same:
  "nested env s t \<Longrightarrow> tracked (tracker_of s) \<Longrightarrow> tracked (tracker_of t) \<and> same_context (tracker_of s) (tracker_of t)"
proof (induction rule: nested.induct)
  case (nothing s)
  then show ?case by (simp add: same_context_def)
next
  case (other s t c)
  then have t: "tracked (tracker_of t)" "same_context (tracker_of s) (tracker_of t)" by simp_all
  have "fresh_start c (tracker_of t)" using other.hyps(2) by (simp add: quiet_def)
  from dispatch_tracks [OF t(1) this, of env] have
    st: "stays_or_tracks (set_option (label_of c)) (tracker_of t) (tracker_of (snd (dispatch env c t)))" .
  from quiet_step [OF st other.hyps(2)] t(2) have "same_context (tracker_of s) (tracker_of (snd (dispatch env c t)))"
    by (simp add: same_context_def)
  with stays_tracked [OF st t(1)] show ?case by blast
next
  case (llm_run s t c run u c')
  let ?t = "tracker_of t" and ?t' = "tracker_of (snd (dispatch env c t))" and ?u = "tracker_of u"
    and ?v = "tracker_of (snd (dispatch env c' u))"
  from llm_run have t: "tracked ?t" "same_context (tracker_of s) ?t" by simp_all
  have fresh: "tr_runs ?t run = None" "tr_runs ?v run = None" using llm_run.hyps by simp_all
  from dispatch_tracks [OF t(1) fresh_llm [OF llm_run.hyps(2) fresh(1)], of env] have
    st: "stays_or_tracks {OpenedLlm run} ?t ?t'" by (simp add: llm_labels(1) [OF llm_run.hyps(2)])
  with stays_tracked t(1) llm_run.IH(2) have u: "tracked ?u" "same_context ?t' ?u" by blast+
  from dispatch_tracks [OF u(1) fresh_end [OF llm_run.hyps(5)], of env] have
    st': "stays_or_tracks {ClosedLlm run} ?u ?v" by (simp add: llm_labels(2) [OF llm_run.hyps(5)])
  from llm_pair [OF tracked_ok [OF u(1)] st u(2) st' fresh] t(2) stays_tracked [OF st' u(1)] show ?case
    by (simp add: same_context_def)
qed

text \<open>C8: Properly nested LLM runs give the context back: when every LLM run started in between has been closed
  before the runs around it, the framework flag, which silences the provider instrumentations, has the
  value it had before.\<close>

theorem nested_runs_restore_flag:
  assumes "reachable env s" and "nested env s t"
  shows "is_framework_llm_active (lc_ambient t) = is_framework_llm_active (lc_ambient s)"
  using nested_same [OF assms(2) reachable_tracked [OF assms(1)]]
  by (simp add: same_context_def is_framework_llm_active_def ctx_get_def)

section \<open>Runs that end in the order they started\<close>

lemma llm_opened:
  assumes "tracked (tracker_of s)" "llm_start c = Some run" "dget (lc_spans s) run = None"
    "dget (lc_spans (snd (dispatch env c s))) run \<noteq> None"
  shows "track (OpenedLlm run) (tracker_of s) (tracker_of (snd (dispatch env c s)))"
proof -
  have "tr_runs (tracker_of s) run = None" using assms(3) by simp
  from dispatch_tracks [OF assms(1) fresh_llm [OF assms(2) this], of env] have
    "tracker_of (snd (dispatch env c s)) = tracker_of s \<or> ?thesis"
    by (simp add: llm_labels(1) [OF assms(2)] stays_or_tracks_def)
  moreover have "tracker_of (snd (dispatch env c s)) \<noteq> tracker_of s"
    using assms(3,4) by (auto dest: arg_cong [of _ _ "\<lambda>t. tr_runs t run"] simp del: not_None_eq)
  ultimately show ?thesis by blast
qed

lemma llm_closed:
  assumes "tracked (tracker_of s)" "llm_end c = Some run" "dget (lc_spans s) run \<noteq> None"
    "dget (lc_spans (snd (dispatch env c s))) run = None"
  shows "track (ClosedLlm run) (tracker_of s) (tracker_of (snd (dispatch env c s)))"
proof -
  from dispatch_tracks [OF assms(1) fresh_end [OF assms(2)], of env] have
    "tracker_of (snd (dispatch env c s)) = tracker_of s \<or> ?thesis"
    by (simp add: llm_labels(2) [OF assms(2)] stays_or_tracks_def)
  moreover have "tracker_of (snd (dispatch env c s)) \<noteq> tracker_of s"
    using assms(3,4) by (auto dest: arg_cong [of _ _ "\<lambda>t. tr_runs t run"] simp del: not_None_eq)
  ultimately show ?thesis by blast
qed

lemma fifo_tracker:
  assumes "tracker_ok t2" "a \<noteq> b" and steps: "track (OpenedLlm a) t0 t1" "track (OpenedLlm b) t1 t2"
    "track (ClosedLlm a) t2 t3" "track (ClosedLlm b) t3 t4"
  shows "cv_value (tr_flag t4)"
proof -
  obtain tk_a where a: "owned t1 = (owned t0)(a \<mapsto> (fst (ctx_set True (tr_flag t0)), tk_a))"
    "tr_flag t1 = snd (ctx_set True (tr_flag t0))" using opened_step [OF steps(1)] that by blast
  obtain tk_b where b: "owned t2 = (owned t1)(b \<mapsto> (fst (ctx_set True (tr_flag t1)), tk_b))"
    "tr_flag t2 = snd (ctx_set True (tr_flag t1))" using opened_step [OF steps(2)] that by blast
  have own: "owned t2 a = Some (fst (ctx_set True (tr_flag t0)), tk_a)" "owned t2 b = Some (fst (ctx_set True (tr_flag t1)), tk_b)"
    using a b assms(2) by simp_all
  have used: "tok_id (fst (ctx_set True (tr_flag t0))) \<notin> set (cv_used (tr_flag t2))"
    "tok_id (fst (ctx_set True (tr_flag t1))) \<notin> set (cv_used (tr_flag t2))"
    using owned_unused [OF assms(1)] own by blast+
  have "tr_flag t3 = snd (ctx_reset (fst (ctx_set True (tr_flag t0))) (tr_flag t2))" "owned t3 b = owned t2 b"
    using closed_step [OF steps(3)] own(1) assms(2) by simp_all
  moreover from this(2) own(2) have "tr_flag t4 = snd (ctx_reset (fst (ctx_set True (tr_flag t1))) (tr_flag t3))"
    using closed_step [OF steps(4)] by simp
  ultimately show ?thesis using used a(2) b(2) by (simp add: ctx_set_def ctx_reset_def)
qed

text \<open>Two LLM runs that end in the order they started leave the framework flag set: the second one restores the
  value it found, which the first had set.\<close>

theorem fifo_runs_leave_flag:
  assumes "reachable env s" and "a \<noteq> b"
    and "llm_start ca = Some a" "dget (lc_spans s) a = None" "s1 = snd (dispatch env ca s)"
    and "llm_start cb = Some b" "dget (lc_spans s1) b = None" "s2 = snd (dispatch env cb s1)"
    and "dget (lc_spans s1) a \<noteq> None" "dget (lc_spans s2) b \<noteq> None"
    and "llm_end ea = Some a" "s3 = snd (dispatch env ea s2)" "dget (lc_spans s3) a = None"
    and "llm_end eb = Some b" "s4 = snd (dispatch env eb s3)" "dget (lc_spans s4) b = None"
  shows "is_framework_llm_active (lc_ambient s4)"
proof -
  have t0: "tracked (tracker_of s)" by (rule reachable_tracked [OF assms(1)])
  have 1: "track (OpenedLlm a) (tracker_of s) (tracker_of s1)" unfolding assms(5)
    by (rule llm_opened [OF t0 assms(3,4)]) (use assms in simp)
  then have t1: "tracked (tracker_of s1)" by (rule tracked.step [OF t0])
  have 2: "track (OpenedLlm b) (tracker_of s1) (tracker_of s2)" unfolding assms(8)
    by (rule llm_opened [OF t1 assms(6,7)]) (use assms in simp)
  then have t2: "tracked (tracker_of s2)" by (rule tracked.step [OF t1])
  obtain tk_a tk_b where own: "owned (tracker_of s1) a = Some tk_a" "owned (tracker_of s2) a = Some tk_a" "owned (tracker_of s2) b = Some tk_b"
    using opened_step(1) [OF 1] opened_step(1) [OF 2] assms(2) that by simp
  then have in_table: "dget (lc_spans s2) a \<noteq> None" by (auto simp: owned_def split: option.splits)
  have 3: "track (ClosedLlm a) (tracker_of s2) (tracker_of s3)" unfolding assms(12)
    by (rule llm_closed [OF t2 assms(11) in_table]) (use assms in simp)
  then have t3: "tracked (tracker_of s3)" by (rule tracked.step [OF t2])
  have "owned (tracker_of s3) b = Some tk_b" using closed_step [OF 3] own(3) assms(2) by simp
  then have "dget (lc_spans s3) b \<noteq> None" by (auto simp: owned_def split: option.splits)
  then have 4: "track (ClosedLlm b) (tracker_of s3) (tracker_of s4)" unfolding assms(15)
    by (rule llm_closed [OF t3 assms(14)]) (use assms in simp)
  from fifo_tracker [OF tracked_ok [OF t2] assms(2) 1 2 3 4] show ?thesis
    by (simp add: is_framework_llm_active_def ctx_get_def)
qed

section \<open>Results that cannot be read\<close>

text \<open>Programs that always raise.\<close>

definition stops :: "('s, 'a) prog \<Rightarrow> bool" where
  "stops m \<longleftrightarrow> (\<forall>s. \<exists>e t. m s = (Inl e, t))"

lemma stops_before: "stops m \<Longrightarrow> stops (pbind m k)"
  unfolding stops_def pbind_def by (metis (mono_tags, lifting) old.prod.case sum.case(1))

lemma stops_after: "(\<And>x. stops (k x)) \<Longrightarrow> stops (pbind m k)"
proof -
  assume k: "\<And>x. stops (k x)"
  have "\<exists>e t. pbind m k s = (Inl e, t)" for s
    using k by (cases "m s") (auto simp: stops_def pbind_def split: sum.split)
  then show ?thesis by (simp add: stops_def)
qed

lemma stops_lift: "stops (plift (Inl e))" "stops (praise e)"
  by (simp_all add: stops_def plift_def praise_def)

lemma stops_on_entry: "stops m \<Longrightarrow> stops (on_entry run m)"
  by (auto simp: stops_def on_entry_def split: option.split) (metis (mono_tags, lifting) old.prod.case)

text \<open>A generation whose response metadata holds a null usage.\<close>

definition null_usage :: "pyval \<Rightarrow> bool" where
  "null_usage gen \<longleftrightarrow> (let msg = py_getattr gen ''message'' PNone in py_truth msg \<and>
     (case py_getattr msg ''response_metadata'' PNone of PDict m \<Rightarrow> dget m ''usage'' = Some PNone | _ \<Rightarrow> False))"

lemma stops_null_usage: "null_usage gen \<Longrightarrow> stops (extract_message_usage gen tokens)"
proof -
  assume "null_usage gen"
  then obtain m where m: "py_truth (py_getattr gen ''message'' PNone)" "dget m ''usage'' = Some PNone"
    "py_getattr (py_getattr gen ''message'' PNone) ''response_metadata'' PNone = PDict m"
    by (auto simp: null_usage_def Let_def split: pyval.splits)
  have "bedrock_usage m t = Inl (no_attr PNone ''get'')" for t
    using m(2) by (simp add: bedrock_usage_def get_nested_def)
  then have "stops (pbind (plift (bedrock_usage m t)) f)" for t f
    by (simp add: stops_before stops_lift)
  then have "stops (pbind n (\<lambda>t. pbind (plift (bedrock_usage m t)) (\<lambda>t. plift (titan_usage m t))))"
    for n :: "(holder, tokens) prog" by (rule stops_after)
  then have "stops (pbind n (\<lambda>t. pbind (n' t) (\<lambda>t. pbind (plift (bedrock_usage m t)) (\<lambda>t. plift (titan_usage m t)))))"
    for n :: "(holder, tokens) prog" and n' by (rule stops_after)
  then show ?thesis using m(1,3) by (simp only: extract_message_usage_def Let_def if_False simp_thms pyval.case)
qed

lemma stops_result:
  assumes "generations_of response = Inr ((PList (gen # gens)) # gls)" "null_usage gen"
  shows "stops (run_result env response run h now)"
proof -
  have "stops (prompts_loop repr (PList (gen # gens) # gls) (tokens, content))" for repr tokens content
    by (simp add: stops_after stops_before pbind_assoc stops_null_usage [OF assms(2)])
  then show ?thesis unfolding run_result_def Let_def assms(1) pbind_simps
    by - (rule stops_before, rule stops_on_entry)
qed

text \<open>A result with a null usage is not survived: the callback returns, but the run stays in the table, no span
  ends, and the flag keeps the value the run gave it.\<close>

theorem null_usage_leaves_run_open:
  assumes "lc_tame env" and "dget (lc_spans s) run = Some h"
    and "generations_of response = Inr (PList (gen # gens) # gls)" and "null_usage gen"
  shows "\<exists>t. dispatch env (LlmEnd response run now now') s = (Inr (), t) \<and> dget (lc_spans t) run \<noteq> None
     \<and> map span_of (lc_store t) = map span_of (lc_store s)
     \<and> is_framework_llm_active (lc_ambient t) = is_framework_llm_active (lc_ambient s)"
proof -
  obtain u where u: "lc_attr (hd_span h) GEN_AI_CLIENT_OPERATION_DURATION (PFloat (now - hd_start_time h)) s = (Inr (), u)"
    using returns_unit [OF raises_lc_attr] by metis
  obtain e v where v: "run_result env response run h now u = (Inl e, v)"
    using stops_result [OF assms(3,4)] unfolding stops_def by metis
  have e: "is_Exception e" by (rule raises_onlyD [OF raises_run_result [OF assms(1)] v])
  let ?t = "v\<lparr>lc_log := lc_log v @ [(DEBUG, [''Error in on_llm_end: %s'', exc_msg e])]\<rparr>"
  have d: "dispatch env (LlmEnd response run now now') s = (Inr (), ?t)"
    using e by (simp add: on_llm_end_def guarded_def ptry_def when_entry_def assms(2) pbind_def u v lc_debug_def pmodify_def)
  have "tracker_of u = tracker_of s" by (rule keepsD [OF keeps_tracker_attr u])
  moreover have "tracker_of v = tracker_of u" by (rule keepsD [OF keeps_tracker_result v])
  ultimately have t: "tracker_of ?t = tracker_of s" by simp
  from arg_cong [OF t, of "\<lambda>t. tr_runs t run"] assms(2) have "dget (lc_spans ?t) run \<noteq> None" by auto
  moreover from arg_cong [OF t, of tr_spans] have "map span_of (lc_store ?t) = map span_of (lc_store s)" by simp
  moreover from arg_cong [OF t, of tr_flag] have
    "is_framework_llm_active (lc_ambient ?t) = is_framework_llm_active (lc_ambient s)"
    by (simp add: is_framework_llm_active_def)
  ultimately show ?thesis using d by blast
qed

section \<open>The theorems applied\<close>

definition llm_starts :: "run_id \<Rightarrow> callback" where
  "llm_starts run = LlmStart PNone PNone run None PNone [] 0"

definition llm_fails :: "run_id \<Rightarrow> callback" where
  "llm_fails run = LlmError (PyExc RuntimeError ''timed out'') run"

lemma sample_callbacks [simp]:
  "llm_start (llm_starts run) = Some run" "llm_end (llm_fails run) = Some run" "label_of (llm_starts run) = Some (OpenedLlm run)"
  "fails (llm_fails run) = Some (PyExc RuntimeError ''timed out'', run)"
  by (simp_all add: llm_starts_def llm_fails_def llm_start_def llm_end_def)

definition after :: "callback list \<Rightarrow> lc_state \<Rightarrow> lc_state" where
  "after cs s = fold (\<lambda>c t. snd (dispatch sample_lc c t)) cs s"

lemma after_simps [simp]:
  "after [] s = s" "after (c # cs) s = after cs (snd (dispatch sample_lc c s))"
  by (simp_all add: after_def)

lemma opened_in_table: "dget (lc_spans (snd (dispatch env (llm_starts run) s))) run \<noteq> None"
  using llm_start_opens [of env run s] unfolding llm_starts_def .

lemma closed_gone:
  assumes "tracked (tracker_of s)" "dget (lc_spans s) run \<noteq> None"
  shows "dget (lc_spans (snd (dispatch env (llm_fails run) s))) run = None"
  by (rule error_gone [OF tracked_ok [OF assms(1)] _ assms(2)]) simp

theorem nested_runs_restore_flag_witness:
  "is_framework_llm_active (lc_ambient (after [llm_starts 1, llm_fails 1] initial_handler))
     = is_framework_llm_active (lc_ambient initial_handler)"
proof -
  let ?s = "snd (dispatch sample_lc (llm_starts 1) initial_handler)"
  have fresh: "dget (lc_spans initial_handler) 1 = None" by (simp add: initial_handler_def)
  have "tracked (tracker_of ?s)" by (rule reachable_tracked [OF reachable.callback [OF reachable.start fresh_initial]])
  from closed_gone [OF this opened_in_table]
  have "nested sample_lc initial_handler (after [llm_starts 1, llm_fails 1] initial_handler)"
    unfolding after_simps
    by (intro nested.llm_run [OF nested.nothing _ fresh nested.nothing]) simp_all
  then show ?thesis by (rule nested_runs_restore_flag [OF reachable.start])
qed

text \<open>A start leaves the other runs of the table alone.\<close>

lemma track_other:
  assumes "stays_or_tracks {l} t u" "l = OpenedLlm run \<or> l = ClosedLlm run" "r \<noteq> run"
  shows "tr_runs u r = tr_runs t r"
proof -
  have "tr_runs v r = tr_runs t r" if "track l t v" for v
    using that assms(2,3)
    by (cases rule: track.cases)
      (auto simp: open_run_def own_context_def close_run_def give_back_def ctx_set_def split: option.split)
  with assms(1) show ?thesis by (auto simp: stays_or_tracks_def)
qed

lemma other_run:
  assumes "tracked (tracker_of s)" "r \<noteq> run" "fresh_start c (tracker_of s)"
    "label_of c = Some (OpenedLlm run) \<or> label_of c = Some (ClosedLlm run)"
  shows "(dget (lc_spans (snd (dispatch env c s))) r = None) = (dget (lc_spans s) r = None)"
proof -
  obtain l where l: "label_of c = Some l" "l = OpenedLlm run \<or> l = ClosedLlm run" using assms(4) by blast
  from dispatch_tracks [OF assms(1,3), of env] l(1) have
    "stays_or_tracks {l} (tracker_of s) (tracker_of (snd (dispatch env c s)))" by simp
  from track_other [OF this l(2) assms(2)] show ?thesis unfolding tracker_of_sel by (metis option.map_disc_iff)
qed

theorem fifo_runs_leave_flag_witness:
  "is_framework_llm_active (lc_ambient (after [llm_starts 1, llm_starts 2, llm_fails 1, llm_fails 2] initial_handler))"
proof -
  let ?d = "\<lambda>c s. snd (dispatch sample_lc c s)"
  let ?s1 = "?d (llm_starts 1) initial_handler"
  let ?s2 = "?d (llm_starts 2) ?s1"
  let ?s3 = "?d (llm_fails 1) ?s2"
  have fresh: "dget (lc_spans initial_handler) 1 = None" "fresh_start (llm_starts 1) (tracker_of initial_handler)"
    by (simp add: initial_handler_def) (rule fresh_initial)
  have t0: "tracked (tracker_of initial_handler)" by (rule reachable_tracked [OF reachable.start])
  have t1: "tracked (tracker_of ?s1)" by (rule reachable_tracked [OF reachable.callback [OF reachable.start fresh_initial]])
  have "dget (lc_spans initial_handler) 2 = None" by (simp add: initial_handler_def)
  with other_run [OF t0, of 2 1 "llm_starts 1" sample_lc] fresh have free: "dget (lc_spans ?s1) 2 = None" by simp
  then have fresh2: "fresh_start (llm_starts 2) (tracker_of ?s1)" by (intro fresh_llm) simp_all
  have t2: "tracked (tracker_of ?s2)"
    by (rule stays_tracked [OF dispatch_tracks [OF t1 fresh2] t1])
  have in2: "dget (lc_spans ?s2) 1 \<noteq> None" "dget (lc_spans ?s2) 2 \<noteq> None"
    using other_run [OF t1, of 1 2 "llm_starts 2" sample_lc] fresh2 opened_in_table [of sample_lc 1 initial_handler]
      opened_in_table [of sample_lc 2 ?s1] by simp_all
  have stop: "fresh_start (llm_fails 1) (tracker_of ?s2)" by (rule fresh_end) simp
  have t3: "tracked (tracker_of ?s3)"
    by (rule stays_tracked [OF dispatch_tracks [OF t2 stop] t2])
  have gone: "dget (lc_spans ?s3) 1 = None" by (rule closed_gone [OF t2 in2(1)])
  have "dget (lc_spans ?s3) 2 \<noteq> None"
    using other_run [OF t2 _ stop, of 2 1 sample_lc] in2(2) by (simp add: llm_labels)
  then have gone2: "dget (lc_spans (?d (llm_fails 2) ?s3)) 2 = None" by (rule closed_gone [OF t3])
  show ?thesis unfolding after_simps
    by (rule fifo_runs_leave_flag [OF reachable.start _ _ fresh(1) refl _ free refl opened_in_table in2(2) _ refl gone _ refl gone2])
      simp_all
qed

theorem null_usage_leaves_run_open_witness:
  "\<exists>t. dispatch sample_lc (LlmEnd (PObj ''LLMResult'' [(''generations'', PList [PList [PObj ''ChatGeneration''
        [(''message'', PObj ''AIMessage'' [(''response_metadata'', PDict [(''usage'', PNone)])])]]])]) 7 1 2) tool_run = (Inr (), t)
     \<and> dget (lc_spans t) 7 \<noteq> None"
proof -
  let ?gen = "PObj ''ChatGeneration'' [(''message'', PObj ''AIMessage'' [(''response_metadata'', PDict [(''usage'', PNone)])])]"
  have "generations_of (PObj ''LLMResult'' [(''generations'', PList [PList [?gen]])]) = Inr [PList [?gen]]"
    by (simp add: generations_of_def)
  moreover have "null_usage ?gen" by (simp add: null_usage_def)
  ultimately show ?thesis
    using null_usage_leaves_run_open [OF sample_lc_tame tool_run_eval(1), of _ ?gen "[]" "[]"] by blast
qed

end
