(* ===== verification/Provider.thy ===== *)
theory Provider
  imports OpenAIChat OpenAIResponses LangChainMessages
begin

text \<open>
  What the instrumentations of chat providers share: the scope they fill, the span and metric attributes they
  all set, the inference event with its two variants, the stream wrapper's two ways to finish, and the
  call wrapper.  The theories of the providers hold what differs.
\<close>

section \<open>The scope\<close>

text \<open>The attributes of the stream wrapper objects and of the scope objects of plain calls.  The spans are those
  a wrapper started and then replaced.\<close>

record pv_scope =
  pv_kwargs :: "(string, pyval) dict"
  pv_server_address :: pyval
  pv_server_port :: pyval
  pv_start_time :: rat
  pv_timestamps :: "rat list"
  pv_ttft :: rat
  pv_tbt :: rat
  pv_llmresponse :: pyval
  pv_response_id :: pyval
  pv_response_model :: pyval
  pv_finish_reason :: pyval
  pv_input_tokens :: pyval
  pv_output_tokens :: pyval
  pv_cache_read :: pyval
  pv_cache_creation :: pyval
  pv_tools :: pyval
  pv_tool_id :: pyval
  pv_tool_name :: pyval
  pv_tool_arguments :: pyval
  pv_system_fingerprint :: pyval
  pv_spans :: "span list"

definition fresh_pv_scope :: "(string, pyval) dict \<Rightarrow> pyval \<Rightarrow> pyval \<Rightarrow> rat \<Rightarrow> pv_scope" where
  "fresh_pv_scope kwargs server_address server_port start_time =
     \<lparr>pv_kwargs = kwargs, pv_server_address = server_address, pv_server_port = server_port, pv_start_time = start_time,
      pv_timestamps = [], pv_ttft = 0, pv_tbt = 0, pv_llmresponse = PStr [], pv_response_id = PStr [],
      pv_response_model = PStr [], pv_finish_reason = PStr [], pv_input_tokens = PInt 0, pv_output_tokens = PInt 0,
      pv_cache_read = PInt 0, pv_cache_creation = PInt 0, pv_tools = PNone, pv_tool_id = PStr [], pv_tool_name = PStr [],
      pv_tool_arguments = PStr [], pv_system_fingerprint = PStr [], pv_spans = []\<rparr>"

text \<open>The first lines of every chunk processor.\<close>

definition pv_stamp :: "rat \<Rightarrow> pv_scope \<Rightarrow> pv_scope" where
  "pv_stamp now s =
     (let s = s\<lparr>pv_timestamps := pv_timestamps s @ [now]\<rparr>
      in if length (pv_timestamps s) = 1 then s\<lparr>pv_ttft := calculate_ttft (pv_timestamps s) (pv_start_time s)\<rparr> else s)"

text \<open>\<open>scope._llmresponse += x\<close>.\<close>

definition pv_append :: "pyval \<Rightarrow> (pv_scope, unit) prog" where
  "pv_append x =
     pbind (pgets pv_llmresponse) (\<lambda>old. pbind (plift (py_add old x)) (\<lambda>v. pmodify (\<lambda>s. s\<lparr>pv_llmresponse := v\<rparr>)))"

definition pv_kwarg :: "pv_scope \<Rightarrow> string \<Rightarrow> pyval \<Rightarrow> pyval" where
  "pv_kwarg scope k dflt = dget_or (pv_kwargs scope) k dflt"

definition pv_tbt_now :: "pv_scope \<Rightarrow> rat" where
  "pv_tbt_now scope = (if length (pv_timestamps scope) > 1 then calculate_tbt (pv_timestamps scope) else pv_tbt scope)"

text \<open>\<open>x.get(k, d) or d\<close> for a count, and \<open>(x.get(k) or {}).get(k', 0) or 0\<close>.\<close>

definition count_of :: "pyval \<Rightarrow> string \<Rightarrow> pyval res" where
  "count_of d k = res_bind (py_get d k (PInt 0)) (\<lambda>v. Inr (py_or v (PInt 0)))"

definition detail_count :: "pyval \<Rightarrow> string \<Rightarrow> string \<Rightarrow> pyval res" where
  "detail_count usage k k' = res_bind (py_get usage k PNone) (\<lambda>d. count_of (py_or d (PDict [])) k')"

text \<open>\<open>"text" if isinstance(scope._llmresponse, str) else "json"\<close>.\<close>

definition response_type :: "pyval \<Rightarrow> pyval" where
  "response_type v = (case v of PStr s \<Rightarrow> PStr ''text'' | _ \<Rightarrow> PStr ''json'')"

section \<open>Span attributes\<close>

definition pv_common_span :: "instr_env \<Rightarrow> string \<Rightarrow> bool \<Rightarrow> pv_scope \<Rightarrow> pyval \<Rightarrow> common_span" where
  "pv_common_span env system is_stream scope request_model =
     \<lparr>cs_operation = GEN_AI_OPERATION_TYPE_CHAT, cs_provider = system,
      cs_server_address = pv_server_address scope, cs_server_port = pv_server_port scope,
      cs_request_model = request_model, cs_response_model = pv_response_model scope,
      cs_environment = ie_environment env, cs_application_name = ie_application_name env,
      cs_is_stream = is_stream, cs_tbt = pv_tbt_now scope, cs_ttft = pv_ttft scope, cs_version = ie_version env\<rparr>"

text \<open>A row of \<open>set_attribute\<close> calls with values from the request.\<close>

definition request_attributes :: "pv_scope \<Rightarrow> (string \<times> string \<times> pyval) list \<Rightarrow> (tele, unit) prog" where
  "request_attributes scope rows = pfor rows (\<lambda>(attr, k, dflt). span_attr attr (pv_kwarg scope k dflt))"

definition pv_usage_attributes :: "pyval \<times> pyval \<Rightarrow> pyval \<Rightarrow> (tele, unit) prog" where
  "pv_usage_attributes tokens cost =
     pbind (span_attr GEN_AI_USAGE_INPUT_TOKENS (fst tokens)) (\<lambda>_.
     pbind (span_attr GEN_AI_USAGE_OUTPUT_TOKENS (snd tokens)) (\<lambda>_.
     pbind (plift (py_add (fst tokens) (snd tokens))) (\<lambda>n.
     pbind (span_attr GEN_AI_CLIENT_TOKEN_USAGE n) (\<lambda>_.
     span_attr GEN_AI_USAGE_COST cost))))"

definition pv_cache_attributes :: "pv_scope \<Rightarrow> (tele, unit) prog" where
  "pv_cache_attributes scope =
     pbind (span_attr GEN_AI_USAGE_CACHE_READ_INPUT_TOKENS (pv_cache_read scope)) (\<lambda>_.
     span_attr GEN_AI_USAGE_CACHE_CREATION_INPUT_TOKENS (pv_cache_creation scope))"

section \<open>The inference event\<close>

text \<open>The copies of \<open>emit_inference_event\<close> differ in the extra attributes they know, in those they leave out, and
  in testing the port for truth or for presence.\<close>

type_synonym skip_test = "string \<Rightarrow> pyval \<Rightarrow> bool"

definition skip_missing :: skip_test where
  "skip_missing key v \<longleftrightarrow> v = PNone"

definition skip_one_choice :: skip_test where
  "skip_one_choice key v \<longleftrightarrow> (key = ''choice_count'' \<or> key = ''n'') \<and> equals_one v"

definition pv_add_extra :: "(string \<Rightarrow> string) \<Rightarrow> skip_test \<Rightarrow> string \<times> pyval \<Rightarrow> (string, pyval) dict \<Rightarrow> (string, pyval) dict" where
  "pv_add_extra key_of skip kv attributes =
     (case kv of (key, v) \<Rightarrow> (if skip key v then attributes else dput (key_of key) v attributes))"

definition pv_event_attributes ::
  "(string \<Rightarrow> string) \<Rightarrow> skip_test \<Rightarrow> bool \<Rightarrow> inference \<Rightarrow> (string \<times> pyval) list \<Rightarrow> (string, pyval) dict" where
  "pv_event_attributes key_of skip port_truth i extra_attrs =
     (let attributes = [(GEN_AI_OPERATION, PStr (if_operation_name i))];
          attributes = put_truthy GEN_AI_REQUEST_MODEL (if_request_model i) attributes;
          attributes = put_truthy GEN_AI_RESPONSE_MODEL (if_response_model i) attributes;
          attributes = put_truthy SERVER_ADDRESS (if_server_address i) attributes;
          attributes = (if port_truth then put_truthy else put_given) SERVER_PORT (if_server_port i) attributes;
          attributes = put_given GEN_AI_INPUT_MESSAGES (if_input_messages i) attributes;
          attributes = put_given GEN_AI_OUTPUT_MESSAGES (if_output_messages i) attributes;
          attributes = put_given GEN_AI_TOOL_DEFINITIONS (if_tool_definitions i) attributes
      in fold (pv_add_extra key_of skip) extra_attrs attributes)"

definition pv_emit ::
  "instr_env \<Rightarrow> (string \<Rightarrow> string) \<Rightarrow> skip_test \<Rightarrow> bool \<Rightarrow> inference \<Rightarrow> (string \<times> pyval) list \<Rightarrow> (tele, unit) prog" where
  "pv_emit env key_of skip port_truth i extra_attrs =
     ptry (pwhen (ie_event_provider env) (emit_step env (pv_event_attributes key_of skip port_truth i extra_attrs)))
       (warn_step ''Failed to emit inference event: %s'')"

definition pv_inference :: "pv_scope \<Rightarrow> pyval \<Rightarrow> pyval \<times> pyval \<Rightarrow> pyval \<Rightarrow> inference" where
  "pv_inference scope request_model msgs tool_defs =
     \<lparr>if_operation_name = GEN_AI_OPERATION_TYPE_CHAT, if_request_model = request_model,
      if_response_model = pv_response_model scope, if_input_messages = fst msgs, if_output_messages = snd msgs,
      if_tool_definitions = tool_defs, if_server_address = pv_server_address scope, if_server_port = pv_server_port scope\<rparr>"

section \<open>Messages\<close>

definition tool_response_part :: "pyval \<Rightarrow> pyval \<Rightarrow> pyval" where
  "tool_response_part i r = PDict [(''type'', PStr ''tool_call_response''), (''id'', i), (''response'', r)]"

text \<open>A loop that skips what cannot be read, with a warning.\<close>

fun logged_loop :: "string \<Rightarrow> (pyval \<Rightarrow> pyval option res) \<Rightarrow> pyval list \<Rightarrow> pyval list \<Rightarrow> (log_line list, pyval list) prog" where
  "logged_loop message f [] acc = pret acc"
| "logged_loop message f (m # ms) acc =
     (case f m of
        Inr None \<Rightarrow> logged_loop message f ms acc
      | Inr (Some v) \<Rightarrow> logged_loop message f ms (acc @ [v])
      | Inl e \<Rightarrow> (if is_Exception e
          then pbind (log_warning [message, exc_msg e]) (\<lambda>_. logged_loop message f ms acc) else praise e))"

definition parts_message :: "pyval \<Rightarrow> pyval list \<Rightarrow> pyval option" where
  "parts_message role parts = (if parts = [] then None else Some (PDict [(''role'', role), (''parts'', PList parts)]))"

text \<open>\<open>finish_reason_map.get(finish_reason, finish_reason or "stop")\<close>; only hashable reasons can be looked up.\<close>

definition mapped_reason :: "(string, string) dict \<Rightarrow> pyval \<Rightarrow> pyval res" where
  "mapped_reason table reason =
     (if \<not> hashable reason then Inl (PyExc TypeError ''unhashable type'')
      else Inr (case reason of
          PStr s \<Rightarrow> (case dget table s of Some r \<Rightarrow> PStr r | None \<Rightarrow> py_or reason (PStr ''stop''))
        | _ \<Rightarrow> py_or reason (PStr ''stop'')))"

text \<open>\<open>build_output_messages\<close>: one assistant message, and an empty one when building it fails.\<close>

definition guarded_output :: "pyval res \<Rightarrow> (log_line list, pyval list) prog" where
  "guarded_output m =
     ptry (pbind (plift m) (\<lambda>v. pret [v]))
       (\<lambda>e. pbind (log_warning [''Failed to build output messages: %s'', exc_msg e]) (\<lambda>_.
         pret [assistant_message [] (PStr ''stop'')]))"

section \<open>Metrics\<close>

definition pv_metric_args :: "instr_env \<Rightarrow> string \<Rightarrow> pyval \<Rightarrow> pyval \<Rightarrow> pyval \<Rightarrow> pyval \<Rightarrow> metric_args" where
  "pv_metric_args env system server_address server_port request_model response_model =
     \<lparr>ma_service_name = ie_application_name env, ma_environment = ie_environment env,
      ma_operation = GEN_AI_OPERATION_TYPE_CHAT, ma_system = system, ma_request_model = request_model,
      ma_server_address = server_address, ma_server_port = server_port, ma_response_model = response_model\<rparr>"

definition pv_completion ::
  "instr_env \<Rightarrow> string \<Rightarrow> bool \<Rightarrow> rat \<Rightarrow> pv_scope \<Rightarrow> pyval \<Rightarrow> pyval \<times> pyval \<Rightarrow> pyval \<Rightarrow> completion" where
  "pv_completion env system is_stream end_time scope request_model tokens cost =
     \<lparr>co_args = pv_metric_args env system (pv_server_address scope) (pv_server_port scope) request_model
        (pv_response_model scope),
      co_start_time = pv_start_time scope, co_end_time = end_time,
      co_input_tokens = as_int (fst tokens), co_output_tokens = as_int (snd tokens), co_cost = cost,
      co_tbt = Some (pv_tbt_now scope), co_ttft = Some (pv_ttft scope), co_error_type = None, co_is_stream = is_stream,
      co_time_per_chunk = (if length (pv_timestamps scope) > 1 then Some (time_diffs (pv_timestamps scope)) else None)\<rparr>"

definition pv_metrics :: "instr_env \<Rightarrow> completion \<Rightarrow> (tele, unit) prog" where
  "pv_metrics env c =
     pwhen (\<not> ie_disable_metrics env) (metric_step env (\<lambda>m. record_completion_metrics (ie_agent_name env) m c))"

section \<open>The logic\<close>

text \<open>The skeleton of \<open>common_chat_logic\<close>: tokens and cost, the common attributes, those of the request, the
  response and the tools, usage, content, status and metrics.\<close>

definition pv_chat_logic ::
  "instr_env \<Rightarrow> string \<Rightarrow> bool \<Rightarrow> rat \<Rightarrow> pv_scope \<Rightarrow> pyval \<Rightarrow> string res \<Rightarrow> (string \<Rightarrow> (pyval \<times> pyval) res) \<Rightarrow> (tele, unit) prog
     \<Rightarrow> (pyval \<times> pyval \<Rightarrow> (tele, unit) prog) \<Rightarrow> (tele, unit) prog" where
  "pv_chat_logic env system is_stream end_time scope request_model prompt tokens_of attributes content =
     pbind (plift prompt) (\<lambda>prompt.
     pbind (plift (tokens_of prompt)) (\<lambda>tokens.
     let cost = get_chat_model_cost request_model (ie_pricing_info env) (fst tokens) (snd tokens)
     in pbind (span_step (common_span_attributes (pv_common_span env system is_stream scope request_model))) (\<lambda>_.
        pbind attributes (\<lambda>_.
        pbind (pv_usage_attributes tokens cost) (\<lambda>_.
        pbind (pv_cache_attributes scope) (\<lambda>_.
        pbind (pwhen (ie_capture_message_content env) (content tokens)) (\<lambda>_.
        pbind (span_step (set_status StatusOk)) (\<lambda>_.
        pv_metrics env (pv_completion env system is_stream end_time scope request_model tokens cost)))))))))"

text \<open>Several attribute groups in a row.\<close>

definition in_turn :: "('s, unit) prog list \<Rightarrow> ('s, unit) prog" where
  "in_turn steps = pfor steps (\<lambda>m. m)"

text \<open>\<open>scope._tools\<close> as one dictionary.\<close>

definition pv_tool_attributes :: "(pyval \<Rightarrow> string) \<Rightarrow> pyval \<Rightarrow> (tele, unit) prog" where
  "pv_tool_attributes repr tools =
     pwhen (py_truth tools)
       (pbind (plift (py_get tools ''function'' (PDict []))) (\<lambda>f.
        pbind (plift (py_get f ''name'' (PStr []))) (\<lambda>n.
        pbind (span_attr GEN_AI_TOOL_NAME n) (\<lambda>_.
        pbind (plift (py_get tools ''id'' (PStr []))) (\<lambda>i.
        pbind (span_attr GEN_AI_TOOL_CALL_ID (PStr (py_str repr i))) (\<lambda>_.
        pbind (plift (py_get f ''arguments'' (PStr []))) (\<lambda>a.
        span_attr GEN_AI_TOOL_ARGS (PStr (py_str repr a)))))))))"

text \<open>\<open>scope._tools\<close> as a list; unpacking \<open>zip(*rows)\<close> into three names raises when there are no rows.\<close>

definition pv_tool_list_attributes :: "(pyval \<Rightarrow> string) \<Rightarrow> pyval \<Rightarrow> (tele, unit) prog" where
  "pv_tool_list_attributes repr tools =
     pwhen (py_truth tools)
       (pbind (plift (res_map (tool_row repr) (filter is_filled_dict (case tools of PList ts \<Rightarrow> ts | v \<Rightarrow> [v])))) (\<lambda>rows.
        if rows = [] then praise (PyExc ValueError ''not enough values to unpack (expected 3, got 0)'')
        else
          pbind (plift (join_values '', '' (filter py_truth (map fst rows)))) (\<lambda>names.
          pbind (span_attr GEN_AI_TOOL_NAME (PStr names)) (\<lambda>_.
          pbind (span_attr GEN_AI_TOOL_CALL_ID (PStr (nonempty_join (map (fst \<circ> snd) rows)))) (\<lambda>_.
          span_attr GEN_AI_TOOL_ARGS (PStr (nonempty_join (map (snd \<circ> snd) rows))))))))"

text \<open>Content on the span, then the event, whose failure is only logged.\<close>

definition pv_content ::
  "instr_env \<Rightarrow> (log_line list, pyval list) prog \<Rightarrow> (log_line list, pyval list) prog \<Rightarrow> (tele, unit) prog
     \<Rightarrow> (pyval \<times> pyval \<Rightarrow> (tele, unit) prog) \<Rightarrow> (tele, unit) prog" where
  "pv_content env input_msgs output_msgs instructions event =
     pbind (log_step input_msgs) (\<lambda>i.
     pbind (log_step output_msgs) (\<lambda>out.
     pbind (set_span_messages_as_array env (PList i) (PList out)) (\<lambda>msgs.
     pbind instructions (\<lambda>_.
     pwhen (ie_event_provider env) (ptry (event msgs) (warn_step ''Failed to emit inference event: %s''))))))"

section \<open>OpenAI-like requests and answers\<close>

text \<open>An item of a content list: its type, then its text or else its image URL.\<close>

definition typed_item :: "(pyval \<Rightarrow> string) \<Rightarrow> pyval \<Rightarrow> string res" where
  "typed_item repr item =
     res_bind (py_in ''type'' item) (\<lambda>typed.
     if typed then
       res_bind (py_index item (PStr ''type'')) (\<lambda>t.
       res_bind (py_in ''text'' item) (\<lambda>has_text.
       res_bind (py_index item (PStr (if has_text then ''text'' else ''image_url''))) (\<lambda>v.
         Inr (py_str repr t @ '': '' @ py_str repr v))))
     else res_bind (py_index item (PStr ''text'')) (\<lambda>v. Inr (''text: '' @ py_str repr v)))"

definition typed_content :: "(pyval \<Rightarrow> string) \<Rightarrow> pyval \<Rightarrow> pyval \<Rightarrow> string res" where
  "typed_content repr role content =
     res_bind (case content of
         PList items \<Rightarrow> res_bind (res_map (typed_item repr) items) (\<lambda>texts. Inr (py_join '', '' texts))
       | _ \<Rightarrow> Inr (py_str repr content)) (\<lambda>text. Inr (py_str repr role @ '': '' @ text))"

text \<open>The content of the first choice's delta, when there is one.\<close>

definition pv_delta_content :: "pyval \<Rightarrow> (pv_scope, unit) prog" where
  "pv_delta_content chunked =
     pbind (plift (py_get chunked ''choices'' (PList []))) (\<lambda>choices.
     pbind (plift (py_len choices)) (\<lambda>n.
     pwhen (n > 0)
       (pbind (plift (py_index choices (PInt 0))) (\<lambda>choice.
        pbind (plift (py_in ''delta'' choice)) (\<lambda>has_delta.
        pwhen has_delta
          (pbind (plift (py_get choice ''delta'' (PDict []))) (\<lambda>delta.
           pbind (plift (py_in ''content'' delta)) (\<lambda>has_content.
           pwhen has_content
             (pbind (plift (py_get delta ''content'' PNone)) (\<lambda>content.
              pwhen (py_truth content) (pv_append content)))))))))))"

text \<open>\<open>x.get("choices", [{}])[0].get(k)\<close>.\<close>

definition first_choice :: "pyval \<Rightarrow> pyval \<Rightarrow> string \<Rightarrow> pyval \<Rightarrow> pyval res" where
  "first_choice d none k dflt =
     res_bind (py_get d ''choices'' none) (\<lambda>choices. res_bind (py_index choices (PInt 0)) (\<lambda>c. py_get c k dflt))"

text \<open>The tool calls of an answer to a request with tools.\<close>

definition answer_tools :: "(string, pyval) dict \<Rightarrow> pyval \<Rightarrow> pyval res" where
  "answer_tools kwargs response_dict =
     (if py_truth (dget_or kwargs ''tools'' PNone) then
        res_bind (first_choice response_dict (PList [PDict []]) ''message'' (PDict [])) (\<lambda>m. py_get m ''tool_calls'' PNone)
      else Inr PNone)"

section \<open>The wrapper\<close>

text \<open>The end of a stream: the logic on the stream object and its span.  Most providers start another span for
  it, which takes the place of the one the wrapper started.\<close>

definition stream_end :: "(pv_scope \<Rightarrow> (tele, unit) prog) \<Rightarrow> (pv_scope \<times> tele, unit) prog" where
  "stream_end logic st = (case logic (fst st) (snd st) of (r, t) \<Rightarrow> (r, (fst st, t)))"

definition renew_span :: "(pv_scope \<times> tele, unit) prog \<Rightarrow> (pv_scope \<times> tele, unit) prog" where
  "renew_span m st =
     (case st of (s, t) \<Rightarrow> m (s\<lparr>pv_spans := pv_spans s @ [tl_span t]\<rparr>, on_span (\<lambda>_. fresh_span) t))"

datatype pv_reply = PlainReply api_result | StreamReply "pv_scope stream"

definition pv_failure :: "string \<Rightarrow> pyval \<Rightarrow> instr_env \<Rightarrow> call \<Rightarrow> pyexc \<Rightarrow> (tele, unit) prog" where
  "pv_failure system default_model env c =
     completion_failure env (pv_metric_args env system (ca_server_address c) (ca_server_port c)
         (dget_or (ca_kwargs c) ''model'' default_model) (PStr ''unknown''))
       (ck_start (ca_clock c)) (ck_failure (ca_clock c))"

text \<open>A wrapper that waits for the answer, one that hands a stream over, and one that looks at the request to tell.\<close>

definition plain_call ::
  "string \<Rightarrow> int \<Rightarrow> (instr_env \<Rightarrow> call \<Rightarrow> api_result \<Rightarrow> (tele, unit) prog) \<Rightarrow> (instr_env \<Rightarrow> call \<Rightarrow> pyexc \<Rightarrow> (tele, unit) prog)
     \<Rightarrow> instr_env \<Rightarrow> pyval \<Rightarrow> api_result res \<Rightarrow> (string, pyval) dict \<Rightarrow> clock \<Rightarrow> (tele, pv_reply) prog" where
  "plain_call host port process failure env client wrapped kwargs ck =
     pbind (plift (set_server_address_and_port client host port)) (\<lambda>(server_address, server_port).
       let c = \<lparr>ca_kwargs = kwargs, ca_server_address = server_address, ca_server_port = server_port, ca_clock = ck\<rparr>
       in pbind (guarded_call wrapped (process env c) (failure env c)) (\<lambda>r. pret (PlainReply r)))"

definition stream_call ::
  "string \<Rightarrow> int \<Rightarrow> instr_env \<Rightarrow> pyval \<Rightarrow> api_result res \<Rightarrow> (string, pyval) dict \<Rightarrow> clock \<Rightarrow> (tele, pv_reply) prog" where
  "stream_call host port env client wrapped kwargs ck =
     pbind (plift (set_server_address_and_port client host port)) (\<lambda>(server_address, server_port).
       pbind (plift wrapped) (\<lambda>r.
       pbind (pgets (\<lambda>t. on_span (\<lambda>_. fresh_span) t)) (\<lambda>t.
       pret (StreamReply \<lparr>st_wrapped = api_items r,
         st_scope = fresh_pv_scope kwargs server_address server_port (ck_start ck), st_tele = t, st_finished = 0\<rparr>))))"

definition provider_call ::
  "string \<Rightarrow> int \<Rightarrow> (instr_env \<Rightarrow> call \<Rightarrow> api_result \<Rightarrow> (tele, unit) prog) \<Rightarrow> (instr_env \<Rightarrow> call \<Rightarrow> pyexc \<Rightarrow> (tele, unit) prog)
     \<Rightarrow> instr_env \<Rightarrow> pyval \<Rightarrow> api_result res \<Rightarrow> (string, pyval) dict \<Rightarrow> clock \<Rightarrow> (tele, pv_reply) prog" where
  "provider_call host port process failure env client wrapped kwargs ck =
     (if py_truth (dget_or kwargs ''stream'' (PBool False)) then stream_call host port env client wrapped kwargs ck
      else plain_call host port process failure env client wrapped kwargs ck)"

end
