(* ===== verification/Anthropic.thy ===== *)
theory Anthropic
  imports Provider
begin

text \<open>
  \<open>openlit/instrumentation/anthropic\<close>: message formats, the processor of stream events, \<open>common_chat_logic\<close> with
  its two callers, and the call wrappers, which \<open>async_anthropic.py\<close> repeats with \<open>await\<close>.
\<close>

section \<open>Text of the messages\<close>

definition an_text_parts :: "pyval list \<Rightarrow> pyval list" where
  "an_text_parts content =
     concat (map (\<lambda>part. case part of
         PDict d \<Rightarrow> (if dget_or d ''type'' PNone = PStr ''text'' then [dget_or d ''text'' (PStr [])] else [])
       | _ \<Rightarrow> []) content)"

definition an_message_line :: "(pyval \<Rightarrow> string) \<Rightarrow> pyval \<Rightarrow> string res" where
  "an_message_line repr message =
     (let role = py_str repr (msg_field message ''role'' (PStr ''user''));
          content = msg_field message ''content'' (PStr [])
      in res_bind (case content of
             PList items \<Rightarrow> join_values '' '' (an_text_parts items)
           | _ \<Rightarrow> Inr (py_str repr content)) (\<lambda>text. Inr (role @ '': '' @ text)))"

definition an_format_content :: "(pyval \<Rightarrow> string) \<Rightarrow> pyval \<Rightarrow> string res" where
  "an_format_content repr messages =
     (if \<not> py_truth messages then Inr []
      else res_bind (py_iter messages) (\<lambda>ms. res_bind (res_map (an_message_line repr) ms) (\<lambda>ls.
        Inr (py_join [CHR 0x0A] ls))))"

section \<open>Structured messages\<close>

definition an_image_parts :: "pyval \<Rightarrow> pyval list res" where
  "an_image_parts source =
     (case source of
        PDict d \<Rightarrow>
          (let url = dget_or d ''url'' (PStr []) in
           if dget_or d ''type'' PNone = PStr ''url'' \<and> py_truth url then
             res_bind (py_startswith url ''data:'') (\<lambda>inline.
               Inr (if inline then [] else [uri_part url]))
           else Inr [])
      | _ \<Rightarrow> Inr [])"

definition an_input_item :: "(pyval \<Rightarrow> string) \<Rightarrow> pyval \<Rightarrow> pyval list res" where
  "an_input_item repr item =
     (let item_type = msg_field item ''type'' PNone in
      if item_type = PStr ''text'' then
        (let text_content = msg_field item ''text'' (PStr []) in
         Inr (if py_truth text_content then [text_part text_content] else []))
      else if item_type = PStr ''image'' then an_image_parts (msg_field item ''source'' (PDict []))
      else if item_type = PStr ''tool_use'' then
        Inr [tool_call_part (msg_field item ''id'' (PStr [])) (msg_field item ''name'' (PStr []))
               (msg_field item ''input'' (PDict []))]
      else if item_type = PStr ''tool_result'' then
        Inr [tool_response_part (msg_field item ''tool_use_id'' (PStr []))
               (PStr (py_str repr (msg_field item ''content'' (PStr []))))]
      else Inr [])"

definition an_input_message :: "(pyval \<Rightarrow> string) \<Rightarrow> pyval \<Rightarrow> pyval option res" where
  "an_input_message repr message =
     (let role = msg_field message ''role'' (PStr ''user''); content = msg_field message ''content'' (PStr []) in
      res_bind (case content of
          PList items \<Rightarrow> res_bind (res_map (an_input_item repr) items) (\<lambda>ps. Inr (concat ps))
        | PStr s \<Rightarrow> Inr (if s \<noteq> [] then [text_part content] else [])
        | _ \<Rightarrow> Inr []) (\<lambda>parts. Inr (parts_message role parts)))"

definition an_build_input_messages :: "(pyval \<Rightarrow> string) \<Rightarrow> pyval \<Rightarrow> pyval \<Rightarrow> (log_line list, pyval list) prog" where
  "an_build_input_messages repr messages system =
     (if \<not> py_truth messages then pret []
      else pbind (plift (py_iter messages)) (\<lambda>ms.
        logged_loop ''Failed to process input message: %s'' (an_input_message repr) ms
          (if py_truth system then [PDict [(''role'', PStr ''system''), (''parts'', PList [text_part system])]] else [])))"

definition an_finish_reasons :: "(string, string) dict" where
  "an_finish_reasons = [(''end_turn'', ''stop''), (''max_tokens'', ''length''), (''stop_sequence'', ''stop''),
     (''tool_use'', ''tool_call'')]"

definition an_output_message :: "pyval \<Rightarrow> pyval \<Rightarrow> pyval \<Rightarrow> pyval res" where
  "an_output_message answer finish_reason tool_calls =
     res_bind (if py_truth tool_calls then
         res_bind (py_get tool_calls ''id'' (PStr [])) (\<lambda>i.
         res_bind (py_get tool_calls ''name'' (PStr [])) (\<lambda>n.
         res_bind (py_get tool_calls ''input'' (PDict [])) (\<lambda>a. Inr [tool_call_part i n a])))
       else Inr []) (\<lambda>calls.
     res_bind (mapped_reason an_finish_reasons finish_reason) (\<lambda>reason.
     Inr (assistant_message ((if py_truth answer then [text_part answer] else []) @ calls) reason)))"

definition an_build_output_messages :: "pyval \<Rightarrow> pyval \<Rightarrow> pyval \<Rightarrow> (log_line list, pyval list) prog" where
  "an_build_output_messages answer finish_reason tool_calls =
     guarded_output (an_output_message answer finish_reason tool_calls)"

definition an_tool_definition :: "pyval \<Rightarrow> pyval" where
  "an_tool_definition tool =
     PDict [(''type'', PStr ''function''), (''name'', msg_field tool ''name'' (PStr [])),
       (''description'', msg_field tool ''description'' (PStr [])), (''parameters'', msg_field tool ''input_schema'' (PDict []))]"

definition an_build_tool_definitions :: "pyval \<Rightarrow> (log_line list, pyval) prog" where
  "an_build_tool_definitions tools =
     (if \<not> py_truth tools then pret PNone
      else ptry (pbind (plift (py_iter tools)) (\<lambda>ts. pret (if ts = [] then PNone else PList (map an_tool_definition ts))))
        (\<lambda>e. pbind (log_warning [''Failed to build tool definitions: %s'', exc_msg e]) (\<lambda>_. pret PNone)))"

definition an_extra_key :: "string \<Rightarrow> string" where
  "an_extra_key key = dget_or [
     (''response_id'', GEN_AI_RESPONSE_ID),
     (''finish_reasons'', GEN_AI_RESPONSE_FINISH_REASON),
     (''output_type'', GEN_AI_OUTPUT_TYPE),
     (''temperature'', GEN_AI_REQUEST_TEMPERATURE),
     (''max_tokens'', GEN_AI_REQUEST_MAX_TOKENS),
     (''top_p'', GEN_AI_REQUEST_TOP_P),
     (''top_k'', GEN_AI_REQUEST_TOP_K),
     (''stop_sequences'', GEN_AI_REQUEST_STOP_SEQUENCES),
     (''input_tokens'', GEN_AI_USAGE_INPUT_TOKENS),
     (''output_tokens'', GEN_AI_USAGE_OUTPUT_TOKENS),
     (''cache_creation_input_tokens'', GEN_AI_USAGE_CACHE_CREATION_INPUT_TOKENS),
     (''cache_read_input_tokens'', GEN_AI_USAGE_CACHE_READ_INPUT_TOKENS),
     (''system_instructions'', GEN_AI_SYSTEM_INSTRUCTIONS),
     (''error_type'', ERROR_TYPE)] key key"

definition an_emit_inference_event :: "instr_env \<Rightarrow> inference \<Rightarrow> (string \<times> pyval) list \<Rightarrow> (tele, unit) prog" where
  "an_emit_inference_event env = pv_emit env an_extra_key skip_missing True"

section \<open>Stream events\<close>

definition an_message_start :: "pyval \<Rightarrow> (pv_scope, unit) prog" where
  "an_message_start chunked =
     pbind (plift (py_get chunked ''message'' PNone)) (\<lambda>m.
     let message = py_or m (PDict []) in
     pbind (plift (py_get message ''usage'' PNone)) (\<lambda>u.
     let usage = py_or u (PDict []) in
     pbind (plift (py_get message ''id'' PNone)) (\<lambda>i.
     pbind (pmodify (\<lambda>s. s\<lparr>pv_response_id := i\<rparr>)) (\<lambda>_.
     pbind (plift (count_of usage ''input_tokens'')) (\<lambda>n.
     pbind (pmodify (\<lambda>s. s\<lparr>pv_input_tokens := n\<rparr>)) (\<lambda>_.
     pbind (plift (count_of usage ''cache_creation_input_tokens'')) (\<lambda>c.
     pbind (pmodify (\<lambda>s. s\<lparr>pv_cache_creation := c\<rparr>)) (\<lambda>_.
     pbind (plift (count_of usage ''cache_read_input_tokens'')) (\<lambda>r.
     pbind (pmodify (\<lambda>s. s\<lparr>pv_cache_read := r\<rparr>)) (\<lambda>_.
     pbind (plift (py_get message ''model'' PNone)) (\<lambda>model.
     pmodify (\<lambda>s. s\<lparr>pv_response_model := model\<rparr>))))))))))))"

definition an_block_delta :: "pyval \<Rightarrow> (pv_scope, unit) prog" where
  "an_block_delta chunked =
     pbind (plift (py_get chunked ''delta'' PNone)) (\<lambda>d.
     let delta = py_or d (PDict []) in
     pbind (plift (py_get delta ''text'' PNone)) (\<lambda>text.
     if py_truth text then pv_append text
     else
       pbind (plift (py_get delta ''partial_json'' PNone)) (\<lambda>json.
       pwhen (py_truth json)
         (pbind (pgets pv_tool_arguments) (\<lambda>old.
          pbind (plift (py_add old json)) (\<lambda>v. pmodify (\<lambda>s. s\<lparr>pv_tool_arguments := v\<rparr>)))))))"

definition an_block_start :: "pyval \<Rightarrow> (pv_scope, unit) prog" where
  "an_block_start chunked =
     pbind (plift (py_get chunked ''content_block'' PNone)) (\<lambda>b.
     let content_block = py_or b (PDict []) in
     pbind (plift (py_get content_block ''id'' PNone)) (\<lambda>i.
     pbind (pwhen (py_truth i) (pmodify (\<lambda>s. s\<lparr>pv_tool_id := i\<rparr>))) (\<lambda>_.
     pbind (plift (py_get content_block ''name'' PNone)) (\<lambda>n.
     pwhen (py_truth n) (pmodify (\<lambda>s. s\<lparr>pv_tool_name := n\<rparr>))))))"

definition an_message_delta :: "pyval \<Rightarrow> (pv_scope, unit) prog" where
  "an_message_delta chunked =
     pbind (plift (py_get chunked ''usage'' PNone)) (\<lambda>u.
     let usage = py_or u (PDict []) in
     pbind (plift (py_get chunked ''delta'' PNone)) (\<lambda>d.
     let delta = py_or d (PDict []) in
     pbind (plift (count_of usage ''output_tokens'')) (\<lambda>n.
     pbind (pmodify (\<lambda>s. s\<lparr>pv_output_tokens := n\<rparr>)) (\<lambda>_.
     pbind (plift (py_get delta ''stop_reason'' PNone)) (\<lambda>reason.
     pbind (pmodify (\<lambda>s. s\<lparr>pv_finish_reason := py_or reason (pv_finish_reason s)\<rparr>)) (\<lambda>_.
     pbind (plift (count_of usage ''cache_creation_input_tokens'')) (\<lambda>c.
     pbind (pmodify (\<lambda>s. s\<lparr>pv_cache_creation := c\<rparr>)) (\<lambda>_.
     pbind (plift (count_of usage ''cache_read_input_tokens'')) (\<lambda>r.
     pmodify (\<lambda>s. s\<lparr>pv_cache_read := r\<rparr>))))))))))"

text \<open>The four tests are not exclusive in the source; a chunk has one type.\<close>

definition an_process_chunk :: "rat \<Rightarrow> pyval \<Rightarrow> (pv_scope, unit) prog" where
  "an_process_chunk now chunk =
     pbind (pmodify (pv_stamp now)) (\<lambda>_.
     let chunked = response_as_dict chunk in
     pbind (plift (py_get chunked ''type'' PNone)) (\<lambda>t.
     pbind (pwhen (t = PStr ''message_start'') (an_message_start chunked)) (\<lambda>_.
     pbind (pwhen (t = PStr ''content_block_delta'') (an_block_delta chunked)) (\<lambda>_.
     pbind (pwhen (t = PStr ''content_block_start'') (an_block_start chunked)) (\<lambda>_.
     pwhen (t = PStr ''message_delta'') (an_message_delta chunked))))))"

section \<open>The logic\<close>

definition an_model :: "pv_scope \<Rightarrow> pyval" where
  "an_model scope = pv_kwarg scope ''model'' (PStr ''claude-3-5-sonnet-latest'')"

definition an_tokens :: "string \<Rightarrow> pv_scope \<Rightarrow> (pyval \<times> pyval) res" where
  "an_tokens prompt scope =
     (if pv_input_tokens scope \<noteq> PNone then Inr (pv_input_tokens scope, pv_output_tokens scope)
      else res_bind (value_tokens (pv_llmresponse scope)) (\<lambda>n. Inr (PInt (general_tokens prompt), n)))"

definition an_request_rows :: "(string \<times> string \<times> pyval) list" where
  "an_request_rows = [
     (GEN_AI_REQUEST_MAX_TOKENS, ''max_tokens'', PInt (-1)),
     (GEN_AI_REQUEST_STOP_SEQUENCES, ''stop_sequences'', PList []),
     (GEN_AI_REQUEST_TEMPERATURE, ''temperature'', PFloat 1),
     (GEN_AI_REQUEST_TOP_K, ''top_k'', PFloat 1),
     (GEN_AI_REQUEST_TOP_P, ''top_p'', PFloat 1)]"

definition an_response_attributes :: "pv_scope \<Rightarrow> (tele, unit) prog" where
  "an_response_attributes scope =
     pbind (pwhen (py_truth (pv_response_id scope)) (span_attr GEN_AI_RESPONSE_ID (pv_response_id scope))) (\<lambda>_.
     pbind (span_attr GEN_AI_RESPONSE_FINISH_REASON (PList [pv_finish_reason scope])) (\<lambda>_.
     span_attr GEN_AI_OUTPUT_TYPE (response_type (pv_llmresponse scope))))"

definition an_tool_attributes :: "instr_env \<Rightarrow> pv_scope \<Rightarrow> (tele, unit) prog" where
  "an_tool_attributes env scope =
     pwhen (py_truth (pv_tools scope))
       (pbind (plift (py_get (pv_tools scope) ''name'' (PStr []))) (\<lambda>tool_name.
        pbind (plift (py_get (pv_tools scope) ''id'' (PStr []))) (\<lambda>tool_id.
        pbind (plift (py_get (pv_tools scope) ''input'' (PStr []))) (\<lambda>tool_args.
        pbind (span_attr GEN_AI_TOOL_NAME tool_name) (\<lambda>_.
        pbind (span_attr GEN_AI_TOOL_CALL_ID tool_id) (\<lambda>_.
        span_attr GEN_AI_TOOL_ARGS (PStr (py_str (ie_repr env) tool_args))))))))"

definition an_event_extra :: "pv_scope \<Rightarrow> pyval \<times> pyval \<Rightarrow> (string \<times> pyval) list" where
  "an_event_extra scope tokens =
     (let system_raw = pv_kwarg scope ''system'' PNone in
      [(''response_id'', pv_response_id scope),
       (''finish_reasons'', PList [pv_finish_reason scope]),
       (''output_type'', response_type (pv_llmresponse scope)),
       (''temperature'', pv_kwarg scope ''temperature'' PNone),
       (''max_tokens'', pv_kwarg scope ''max_tokens'' PNone),
       (''top_p'', pv_kwarg scope ''top_p'' PNone),
       (''top_k'', pv_kwarg scope ''top_k'' PNone),
       (''stop_sequences'', pv_kwarg scope ''stop_sequences'' PNone),
       (''input_tokens'', fst tokens),
       (''output_tokens'', snd tokens),
       (''cache_read_input_tokens'', pv_cache_read scope),
       (''cache_creation_input_tokens'', pv_cache_creation scope)]
      @ (if py_truth system_raw then [(''system_instructions'', PList [text_part system_raw])] else []))"

definition an_content :: "instr_env \<Rightarrow> pv_scope \<Rightarrow> pyval \<times> pyval \<Rightarrow> (tele, unit) prog" where
  "an_content env scope tokens =
     (let system_raw = pv_kwarg scope ''system'' PNone in
      pv_content env
        (an_build_input_messages (ie_repr env) (pv_kwarg scope ''messages'' (PList [])) system_raw)
        (an_build_output_messages (pv_llmresponse scope) (pv_finish_reason scope) (pv_tools scope))
        (pwhen (py_truth system_raw)
          (pbind (plift (ie_json_dumps env (PList [text_part system_raw]))) (\<lambda>s. span_attr GEN_AI_SYSTEM_INSTRUCTIONS (PStr s))))
        (\<lambda>msgs. pbind (log_step (an_build_tool_definitions (pv_kwarg scope ''tools'' PNone))) (\<lambda>tool_defs.
           an_emit_inference_event env (pv_inference scope (an_model scope) msgs tool_defs) (an_event_extra scope tokens))))"

definition an_common_chat_logic :: "instr_env \<Rightarrow> bool \<Rightarrow> rat \<Rightarrow> pv_scope \<Rightarrow> (tele, unit) prog" where
  "an_common_chat_logic env is_stream end_time scope =
     pv_chat_logic env GEN_AI_SYSTEM_ANTHROPIC is_stream end_time scope (an_model scope)
       (an_format_content (ie_repr env) (pv_kwarg scope ''messages'' (PList [])))
       (\<lambda>prompt. an_tokens prompt scope)
       (in_turn [request_attributes scope an_request_rows, an_response_attributes scope, an_tool_attributes env scope])
       (an_content env scope)"

text \<open>The tool call of a stream is put together at its end.\<close>

definition an_stream_tools :: "pv_scope \<Rightarrow> pv_scope" where
  "an_stream_tools s =
     (if pv_tool_id s \<noteq> PStr [] then
        s\<lparr>pv_tools := PDict [(''id'', pv_tool_id s), (''name'', pv_tool_name s), (''input'', pv_tool_arguments s)]\<rparr>
      else s)"

definition an_process_streaming :: "instr_env \<Rightarrow> rat \<Rightarrow> (pv_scope \<times> tele, unit) prog" where
  "an_process_streaming env end_time st =
     stream_end (an_common_chat_logic env True end_time) (an_stream_tools (fst st), snd st)"

text \<open>The first \<open>tool_use\<close> block of an answer.\<close>

fun an_first_tool :: "pyval list \<Rightarrow> pyval res" where
  "an_first_tool [] = Inr PNone"
| "an_first_tool (block # blocks) =
     res_bind (py_get block ''type'' PNone) (\<lambda>t.
     if t = PStr ''tool_use'' then
       res_bind (py_get block ''id'' (PStr [])) (\<lambda>i.
       res_bind (py_get block ''name'' (PStr [])) (\<lambda>n.
       res_bind (py_get block ''input'' (PStr [])) (\<lambda>a. Inr (PDict [(''id'', i), (''name'', n), (''input'', a)]))))
     else an_first_tool blocks)"

definition an_response_scope :: "pyval \<Rightarrow> call \<Rightarrow> pv_scope res" where
  "an_response_scope response_dict c =
     res_bind (py_get response_dict ''content'' (PList [PDict []])) (\<lambda>content.
     res_bind (py_index content (PInt 0)) (\<lambda>first.
     res_bind (py_get first ''text'' (PStr [])) (\<lambda>text.
     res_bind (py_get response_dict ''usage'' (PDict [])) (\<lambda>usage.
     res_bind (py_get usage ''input_tokens'' (PInt 0)) (\<lambda>input_tokens.
     res_bind (py_get usage ''output_tokens'' (PInt 0)) (\<lambda>output_tokens.
     res_bind (py_get usage ''cache_creation_input_tokens'' (PInt 0)) (\<lambda>creation.
     res_bind (py_get usage ''cache_read_input_tokens'' (PInt 0)) (\<lambda>cached.
     res_bind (py_get response_dict ''model'' (PStr [])) (\<lambda>m.
     res_bind (py_get response_dict ''stop_reason'' (PStr [])) (\<lambda>reason.
     res_bind (py_get response_dict ''id'' (PStr [])) (\<lambda>i.
     res_bind (py_get response_dict ''content'' (PList [])) (\<lambda>blocks.
     res_bind (py_iter blocks) (\<lambda>bs.
     res_bind (an_first_tool bs) (\<lambda>tools.
     let ck = ca_clock c in
     Inr ((fresh_pv_scope (ca_kwargs c) (ca_server_address c) (ca_server_port c) (ck_start ck))
       \<lparr>pv_ttft := ck_end ck - ck_start ck, pv_llmresponse := text, pv_response_id := i, pv_response_model := m,
        pv_finish_reason := reason, pv_input_tokens := input_tokens, pv_output_tokens := output_tokens,
        pv_cache_read := cached, pv_cache_creation := creation, pv_tools := tools\<rparr>)))))))))))))))"

definition an_process_chat_response :: "instr_env \<Rightarrow> call \<Rightarrow> api_result \<Rightarrow> (tele, unit) prog" where
  "an_process_chat_response env c r =
     pbind (plift (an_response_scope (response_as_dict (api_object r)) c)) (\<lambda>scope.
     an_common_chat_logic env False (ck_logic (ca_clock c)) scope)"

section \<open>The wrappers\<close>

definition an_failure :: "instr_env \<Rightarrow> call \<Rightarrow> pyexc \<Rightarrow> (tele, unit) prog" where
  "an_failure = pv_failure GEN_AI_SYSTEM_ANTHROPIC (PStr ''claude-3-5-sonnet-latest'')"

definition anthropic_messages :: "instr_env \<Rightarrow> pyval \<Rightarrow> api_result res \<Rightarrow> (string, pyval) dict \<Rightarrow> clock \<Rightarrow> (tele, pv_reply) prog" where
  "anthropic_messages = provider_call ''api.anthropic.com'' 443 an_process_chat_response an_failure"

definition async_anthropic_messages :: "instr_env \<Rightarrow> pyval \<Rightarrow> api_result res \<Rightarrow> (string, pyval) dict \<Rightarrow> clock \<Rightarrow> (tele, pv_reply) prog" where
  "async_anthropic_messages = provider_call ''api.anthropic.com'' 443 an_process_chat_response an_failure"

definition anthropic_wrappers ::
  "(string \<times> string \<times> (instr_env \<Rightarrow> pyval \<Rightarrow> api_result res \<Rightarrow> (string, pyval) dict \<Rightarrow> clock \<Rightarrow> (tele, pv_reply) prog)) list" where
  "anthropic_wrappers = [
     (''anthropic.resources.messages'', ''Messages.create'', anthropic_messages),
     (''anthropic.resources.messages'', ''AsyncMessages.create'', async_anthropic_messages)]"

end
