(* ===== verification/ProviderProps.thy ===== *)
theory ProviderProps
  imports Provider OpenAIChatProps
begin

text \<open>
  The contract of a chat provider: its processing fails in ordinary ways only and, without capture, leaves
  the content alone, for plain answers and at the end of a stream.  From it follow, once for all
  providers, that callers do not notice the tracing and that nothing is recorded that was not asked for.
\<close>

section \<open>Only ordinary exceptions\<close>

lemma ordinary_counts [ordinary_intros]: "ordinary (count_of d k)" "ordinary (detail_count d k k')"
  unfolding count_of_def detail_count_def by (rule ordinary_intros | simp)+

lemma ordinary_typed [ordinary_intros]: "ordinary (typed_item repr item)" "ordinary (typed_content repr role content)"
  unfolding typed_content_def typed_item_def by (rule ordinary_intros | simp)+

lemma ordinary_first_choice [ordinary_intros]: "ordinary (first_choice d none k dflt)" "ordinary (answer_tools kwargs d)"
  unfolding answer_tools_def first_choice_def by (rule ordinary_intros | simp)+

lemma ordinary_mapped_reason [ordinary_intros]: "ordinary (mapped_reason table reason)"
  by (simp add: mapped_reason_def ordinary_def)

lemma ordinary_response_text [ordinary_intros]: "ordinary (response_text d)"
  unfolding response_text_def by (rule ordinary_intros | simp)+

lemma raises_logged_loop [raises_intros]:
  assumes "\<And>m. ordinary (f m)"
  shows "raises_only P (logged_loop message f ms acc)"
proof (induction ms arbitrary: acc)
  case (Cons m ms)
  from assms [of m] Cons.IH show ?case
    by (auto simp: ordinary_def raises_only_basic intro!: raises_intros split: sum.split option.split)
qed (simp add: raises_only_basic)

lemma raises_guarded_output [raises_intros]: "ordinary m \<Longrightarrow> raises_only P (guarded_output m)"
  by (auto simp: guarded_output_def ordinary_def raises_only_basic intro!: raises_intros)

lemma raises_pv_attributes [raises_intros]:
  "raises_only P (request_attributes scope rows)" "raises_only is_Exception (pv_usage_attributes tokens cost)"
  "raises_only P (pv_cache_attributes scope)" "raises_only is_Exception (pv_tool_attributes repr tools)"
  unfolding request_attributes_def pv_usage_attributes_def pv_cache_attributes_def pv_tool_attributes_def
  by (auto intro!: raises_intros ordinary_intros)

lemma raises_in_turn [raises_intros]: "list_all (raises_only P) steps \<Longrightarrow> raises_only P (in_turn steps)"
  unfolding in_turn_def by (rule raises_intros) (simp add: list_all_iff)

lemma raises_pv_emit [raises_intros]:
  assumes "tame env"
  shows "raises_only P (pv_emit env key_of skip port_truth i extra)"
  using tameD(3) [OF assms] unfolding pv_emit_def emit_step_def ordinary_def
  by (auto intro!: raises_intros)

lemma raises_pv_content [raises_intros]:
  assumes "tame env" and "raises_only is_Exception i" and "raises_only is_Exception out"
    and "raises_only is_Exception instructions" and "\<And>msgs. raises_only is_Exception (event msgs)"
  shows "raises_only is_Exception (pv_content env i out instructions event)"
  unfolding pv_content_def using assms by (auto intro!: raises_intros intro: raises_only_mono)

lemma raises_pv_logic [raises_intros]:
  assumes "usable env" and "ordinary prompt" and "\<And>p. ordinary (tokens_of p)" and "raises_only is_Exception attributes"
    and "\<And>tokens. raises_only is_Exception (content tokens)"
  shows "raises_only is_Exception (pv_chat_logic env system st t scope m prompt tokens_of attributes content)"
proof -
  have "raises_only is_Exception (pv_metrics env c)" for c
    unfolding pv_metrics_def using assms(1) by (auto simp: usable_def intro!: raises_intros raises_metric_step)
  then show ?thesis
    unfolding pv_chat_logic_def Let_def using assms by (auto intro!: raises_intros ordinary_intros)
qed

lemma pv_failure_laws:
  "usable env \<Longrightarrow> returns (pv_failure system m env c e)"
  "keeps (span_view content_keys) (pv_failure system m env c e)" "keeps tl_events (pv_failure system m env c e)"
  by (simp_all add: pv_failure_def usable_def returns_completion_failure keeps_completion_failure)

section \<open>Captured content\<close>

text \<open>A program that writes neither content nor events.\<close>

definition discreet :: "(tele, 'a) prog \<Rightarrow> bool" where
  "discreet m \<longleftrightarrow> keeps (span_view content_keys) m \<and> keeps tl_events m"

named_theorems discreet_intros \<open>programs that record no content\<close>

lemma discreet_basic [discreet_intros]:
  "discreet (pret x)" "discreet (plift r)" "k \<notin> set content_keys \<Longrightarrow> discreet (span_attr k v)"
  by (simp_all add: discreet_def keeps_basic keeps_view_attr keeps_events)

lemma discreet_pbind [discreet_intros]: "discreet m \<Longrightarrow> (\<And>x. discreet (k x)) \<Longrightarrow> discreet (pbind m k)"
  by (simp add: discreet_def keeps_pbind)

lemma discreet_pwhen [discreet_intros]: "discreet m \<Longrightarrow> discreet (pwhen b m)"
  by (simp add: discreet_def keeps_pwhen)

lemma discreet_in_turn [discreet_intros]: "list_all discreet steps \<Longrightarrow> discreet (in_turn steps)"
  by (induction steps) (simp_all add: in_turn_def discreet_basic discreet_pbind)

lemma discreet_request [discreet_intros]:
  "list_all (\<lambda>(attr, k, dflt). attr \<notin> set content_keys) rows \<Longrightarrow> discreet (request_attributes scope rows)"
  by (induction rows) (auto simp: request_attributes_def intro!: discreet_intros)

lemma discreet_pv_attributes [discreet_intros]:
  "discreet (pv_usage_attributes tokens cost)" "discreet (pv_cache_attributes scope)"
  "discreet (pv_tool_attributes repr tools)"
  unfolding pv_usage_attributes_def pv_cache_attributes_def pv_tool_attributes_def
  by (auto intro!: discreet_intros simp: content_keys_def semconv)

lemma discreet_logic:
  assumes "\<not> ie_capture_message_content env" and "discreet attributes"
  shows "discreet (pv_chat_logic env system st t scope m prompt tokens_of attributes content)"
proof -
  have common: "discreet (span_step (common_span_attributes c))" "discreet (span_step (set_status s))" for c s
    by (simp_all add: discreet_def keeps_events keeps_view_other content_keys_fresh)
  have "discreet (pv_metrics env c)" for c
    unfolding pv_metrics_def
    by (auto simp: discreet_def span_view_def intro!: keeps_intros)
  with assms common show ?thesis
    unfolding pv_chat_logic_def Let_def by (auto intro!: discreet_intros)
qed

section \<open>A successful call and a failed one\<close>

lemma pv_usage_run:
  assumes "\<not> sp_ended (tl_span t)" and "py_add (fst tokens) (snd tokens) = Inr n"
  shows "\<exists>t'. pv_usage_attributes tokens cost t = (Inr (), t')
     \<and> span_view usage_keys t' = [Some (fst tokens), Some (snd tokens), Some n, Some cost] \<and> call_view t' = call_view t"
proof -
  have "keeps call_view (pv_usage_attributes tokens cost)"
    unfolding pv_usage_attributes_def by (rule keeps_intros)+
  moreover have "\<exists>t'. pv_usage_attributes tokens cost t = (Inr (), t')
     \<and> span_view usage_keys t' = [Some (fst tokens), Some (snd tokens), Some n, Some cost]"
    using assms by (simp add: pv_usage_attributes_def span_attr_def span_step_def on_span_def set_attribute_def
        span_view_def usage_keys_def semconv)
  ultimately show ?thesis by (metis keepsD)
qed

text \<open>The logic without capture, on a scope whose attributes can be set.\<close>

lemma pv_logic_success:
  fixes m :: pyval
  assumes prompt: "prompt = Inr p" and tokens: "tokens_of p = Inr tokens" "py_add (fst tokens) (snd tokens) = Inr n"
    and attributes: "returns attributes" "keeps call_view attributes"
    and off: "\<not> ie_capture_message_content env" and metrics: "ie_metrics env = Some metrics_dict"
    and open_span: "\<not> sp_ended (tl_span t)"
  defines "cost \<equiv> get_chat_model_cost m (ie_pricing_info env) (fst tokens) (snd tokens)"
  shows "\<exists>t'. pv_chat_logic env system is_stream end_time scope m prompt tokens_of attributes content t = (Inr (), t')
     \<and> sp_status (tl_span t') = StatusOk
     \<and> span_view usage_keys t' = [Some (fst tokens), Some (snd tokens), Some n, Some cost]
     \<and> tl_measurements t' = tl_measurements t @ (if ie_disable_metrics env then []
         else completion_measurements (ie_agent_name env) (pv_completion env system is_stream end_time scope m tokens cost))"
proof -
  let ?t1 = "on_span (common_span_attributes (pv_common_span env system is_stream scope m)) t"
  have v1: "call_view ?t1 = call_view t"
    using keepsD [OF keeps_call_common, of "pv_common_span env system is_stream scope m" t] by (simp add: span_step_def)
  obtain t2 where 2: "attributes ?t1 = (Inr (), t2)" using returns_unit [OF attributes(1)] by blast
  with v1 keepsD [OF attributes(2)] have v2: "call_view t2 = call_view t" by simp
  with open_span have "\<not> sp_ended (tl_span t2)" by (simp add: call_view_def)
  from pv_usage_run [OF this tokens(2), of cost] v2 obtain t3 where
    3: "pv_usage_attributes tokens cost t2 = (Inr (), t3)" "call_view t3 = call_view t"
      "span_view usage_keys t3 = [Some (fst tokens), Some (snd tokens), Some n, Some cost]" by auto
  obtain t4 where 4: "pv_cache_attributes scope t3 = (Inr (), t4)" using returns_unit [OF raises_pv_attributes(3)] by blast
  have "keeps (\<lambda>t. (span_view usage_keys t, call_view t)) (pv_cache_attributes scope)"
    unfolding pv_cache_attributes_def
    by (rule keeps_intros | simp add: span_attr_def span_step_def span_view_def call_view_def on_span_def set_attribute_def
        usage_keys_def semconv)+
  from keepsD [OF this 4] 3 have v4: "span_view usage_keys t4 = [Some (fst tokens), Some (snd tokens), Some n, Some cost]"
    "call_view t4 = call_view t" by simp_all
  let ?t5 = "on_span (set_status StatusOk) t4"
  have v5: "span_view usage_keys ?t5 = [Some (fst tokens), Some (snd tokens), Some n, Some cost]"
    "sp_status (tl_span ?t5) = StatusOk" "tl_measurements ?t5 = tl_measurements t"
    using v4 open_span by (simp_all add: span_view_status) (auto simp: call_view_def on_span_def set_status_def)
  have "pv_chat_logic env system is_stream end_time scope m prompt tokens_of attributes content t
      = pv_metrics env (pv_completion env system is_stream end_time scope m tokens cost) ?t5"
    unfolding pv_chat_logic_def prompt Let_def cost_def [symmetric]
    using off by (simp add: pbind_def tokens(1) span_step_def 2 3(1) 4 cost_def [symmetric] prompt)
  then show ?thesis using v5
    by (simp add: pv_metrics_def recorded_measurements [OF metrics] span_view_def)
qed

text \<open>Processing that fails before it recorded the usage: an error span without usage, and the answer.\<close>

lemma failed_processing:
  assumes process: "process r (on_span (\<lambda>_. fresh_span) t) = (Inl e, u)"
    and u: "\<not> sp_ended (tl_span u)" "sp_status (tl_span u) = Unset" "span_view usage_keys u = [None, None, None, None]"
    and exc: "is_Exception e" "class_name (exc_class e) \<noteq> []"
    and metrics: "ie_metrics env = Some metrics_dict"
  shows "\<exists>t'. guarded_call (Inr r) process (pv_failure system m env c) t = (Inr r, t')
     \<and> sp_status (tl_span t') = StatusError
     \<and> dget (sp_attributes (tl_span t')) ERROR_TYPE = Some (PStr (class_name (exc_class e)))
     \<and> span_view usage_keys t' = [None, None, None, None]"
proof -
  let ?sp = "handle_exception e (tl_span u)"
  obtain l where f: "pv_failure system m env c e u = (Inr (), u\<lparr>tl_span := ?sp, tl_measurements := l\<rparr>)"
    by (cases u; cases "ie_disable_metrics env \<or> falsy_metrics (ie_metrics env)")
      (auto simp: pv_failure_def completion_failure_def span_step_def on_span_def metric_step_def metrics
        record_completion_full)
  have "guarded_call (Inr r) process (pv_failure system m env c) t
      = (Inr r, on_span (leave_span None) (u\<lparr>tl_span := ?sp, tl_measurements := l\<rparr>))"
    using exc(1) by (simp add: guarded_call_def in_current_span_def pbind_def ptry_def process f)
  then show ?thesis using u
    by (simp add: on_span_def leave_span_def end_span_def span_view_def handle_exception_def Let_def set_attribute_def
        set_status_def record_exception_def usage_keys_def semconv exc(2))
qed

lemma failed_at_once:
  assumes "process r = praise e" and "is_Exception e" "class_name (exc_class e) \<noteq> []" and "ie_metrics env = Some metrics_dict"
  shows "\<exists>t'. guarded_call (Inr r) process (pv_failure system m env c) t = (Inr r, t')
     \<and> sp_status (tl_span t') = StatusError
     \<and> dget (sp_attributes (tl_span t')) ERROR_TYPE = Some (PStr (class_name (exc_class e)))
     \<and> span_view usage_keys t' = [None, None, None, None]"
  by (rule failed_processing [where u = "on_span (\<lambda>_. fresh_span) t", OF _ _ _ _ assms(2-4)]) (simp_all add: assms(1) on_span_def fresh_span_def span_view_def usage_keys_def)

section \<open>Runs of chunks\<close>

text \<open>The chunks with their arrival times, processed one after the other.\<close>

fun fed :: "(rat \<Rightarrow> pyval \<Rightarrow> ('s, unit) prog) \<Rightarrow> (rat \<times> pyval) list \<Rightarrow> 's \<Rightarrow> 's \<Rightarrow> bool" where
  "fed process [] s s' = (s' = s)"
| "fed process (x # xs) s s' = (case process (fst x) (snd x) s of (Inr _, s1) \<Rightarrow> fed process xs s1 s' | _ \<Rightarrow> False)"

lemma fed_append: "fed process xs s s1 \<Longrightarrow> fed process ys s1 s2 \<Longrightarrow> fed process (xs @ ys) s s2"
  by (induction xs arbitrary: s) (auto split: prod.splits sum.splits)

lemma fed_step: "process now c s = (Inr (), s1) \<Longrightarrow> fed process xs s1 s2 \<Longrightarrow> fed process ((now, c) # xs) s s2"
  by simp

lemma consume_fed:
  assumes "fed process xs (st_scope st) s'" and "st_wrapped st = map (\<lambda>x. Inr (snd x)) xs"
  shows "consume process finish (map fst xs) st = (map snd xs, None, st\<lparr>st_wrapped := [], st_scope := s'\<rparr>)"
  using assms
proof (induction xs arbitrary: st)
  case Nil
  then show ?case by (cases st) simp
next
  case (Cons x xs)
  then obtain s1 where s1: "process (fst x) (snd x) (st_scope st) = (Inr (), s1)" "fed process xs s1 s'"
    by (auto split: prod.splits sum.splits)
  let ?st = "st\<lparr>st_wrapped := map (\<lambda>x. Inr (snd x)) xs, st_scope := s1\<rparr>"
  have "stream_next process finish (fst x) st = (Inr (snd x), ?st)"
    using Cons.prems(2) s1(1) by (simp add: stream_next_def)
  with Cons.IH [of ?st] s1(2) show ?case by simp
qed

lemma left_span:
  "span_view ks (on_span (leave_span None) t) = span_view ks t" "sp_ended (tl_span (on_span (leave_span None) t))"
  "sp_status (tl_span (on_span (leave_span None) t)) = sp_status (tl_span t)"
  "tl_measurements (on_span (leave_span None) t) = tl_measurements t"
  by (simp_all add: span_view_def on_span_def leave_span_def end_span_def)

text \<open>A run of chunks and the end of the stream.\<close>

lemma consume_to_end:
  assumes "fed process xs (st_scope st) s'" and "st_wrapped st = map (\<lambda>x. Inr (snd x)) xs"
    and "finish (s', st_tele st) = (Inr (), (s'', u))"
  shows "consume process finish (map fst xs @ [now]) st
     = (map snd xs, Some stop_iteration, st\<lparr>st_wrapped := [], st_scope := s'', st_tele := on_span (leave_span None) u,
         st_finished := st_finished st + 1\<rparr>)"
proof -
  have "stream_next process finish now (st\<lparr>st_wrapped := [], st_scope := s'\<rparr>)
      = (Inl stop_iteration, st\<lparr>st_wrapped := [], st_scope := s'', st_tele := on_span (leave_span None) u,
         st_finished := st_finished st + 1\<rparr>)"
    using assms(3) by (simp add: stream_next_def finish_stream_def ptry_def with_span_def stop_iteration_def)
  from consume_end [OF consume_fed [OF assms(1,2)] this] show ?thesis .
qed

lemma map_timed:
  "length clock = length cs \<Longrightarrow> map fst (zip clock cs) = clock" "length clock = length cs \<Longrightarrow> map snd (zip clock cs) = cs"
  by simp_all

section \<open>What comes before the usage\<close>

text \<open>Usage, call state and status of the span of a call.\<close>

definition usage_view :: "tele \<Rightarrow> pyval option list \<times> (bool \<times> pyexc list \<times> measurement list) \<times> span_status" where
  "usage_view t = (span_view usage_keys t, call_view t, sp_status (tl_span t))"

lemma keeps_usage_attr:
  assumes "k \<notin> set usage_keys"
  shows "keeps usage_view (span_attr k v)"
proof -
  have "sp_status (set_attribute k v sp) = sp_status sp" for sp by (simp add: set_attribute_def)
  then show ?thesis
    using keepsD [OF keeps_view_attr [OF assms, of v]] keepsD [OF keeps_call_attr [of k v]]
    by (simp add: keeps_def usage_view_def span_attr_def span_step_def) (simp add: on_span_def)
qed

lemma keeps_usage_rows:
  "list_all (\<lambda>(attr, k, dflt). attr \<notin> set usage_keys) rows \<Longrightarrow> keeps usage_view (request_attributes scope rows)"
  by (induction rows) (auto simp: request_attributes_def keeps_basic intro!: keeps_pbind keeps_usage_attr)

lemma keeps_usage_common: "keeps usage_view (span_step (common_span_attributes c))"
proof -
  have "sp_status (set_attribute k v sp) = sp_status sp" for k v sp by (simp add: set_attribute_def)
  then have st: "sp_status (common_span_attributes c sp) = sp_status sp" for sp
    by (simp add: common_span_attributes_def Let_def)
  have "set common_keys \<inter> set usage_keys = {}" by (simp add: common_keys_def usage_keys_def semconv)
  then have "usage_view (on_span (common_span_attributes c) t) = usage_view t" for t
    using keepsD [OF keeps_call_common [of c], of t] by (simp only: usage_view_def span_view_common span_step_def pmodify_def tl_on_span st)
  then show ?thesis by (simp only: keeps_def span_step_def pmodify_def snd_conv simp_thms)
qed

section \<open>Readable chunks\<close>

text \<open>Values a chunk may leave out, or give with the expected type.\<close>

definition optional :: "(pyval \<Rightarrow> bool) \<Rightarrow> pyval \<Rightarrow> bool" where
  "optional P v \<longleftrightarrow> py_truth v \<longrightarrow> P v"

fun is_dict :: "pyval \<Rightarrow> bool" where
  "is_dict (PDict d) = True"
| "is_dict _ = False"

fun is_str :: "pyval \<Rightarrow> bool" where
  "is_str (PStr s) = True"
| "is_str _ = False"

fun fields :: "pyval \<Rightarrow> (string, pyval) dict" where
  "fields (PDict d) = d"
| "fields _ = []"

definition field :: "pyval \<Rightarrow> string \<Rightarrow> pyval" where
  "field v k = dget_or (fields v) k PNone"

lemma optional_dict: "optional is_dict v \<Longrightarrow> py_or v (PDict []) = PDict (fields v)"
  by (cases v) (auto simp: optional_def py_or_def)

lemma optional_str: "optional is_str v \<Longrightarrow> py_truth v \<Longrightarrow> \<exists>s. v = PStr s"
  by (cases v) (auto simp: optional_def)

lemma py_get_dict: "is_dict v \<Longrightarrow> py_get v k PNone = Inr (field v k)"
  by (cases v) (simp_all add: field_def)

lemma count_of_dict: "\<exists>n. count_of (PDict d) k = Inr n"
  by (simp add: count_of_def)

lemma is_strE: "is_str v \<Longrightarrow> (\<And>s. v = PStr s \<Longrightarrow> thesis) \<Longrightarrow> thesis"
  by (cases v) auto

lemma py_add_str: "py_add (PStr a) (PStr b) = Inr (PStr (a @ b))"
  by (simp add: py_add_def)

lemma pv_stamp_sel [simp]:
  "pv_llmresponse (pv_stamp now s) = pv_llmresponse s" "pv_tool_arguments (pv_stamp now s) = pv_tool_arguments s"
  "pv_spans (pv_stamp now s) = pv_spans s" "pv_kwargs (pv_stamp now s) = pv_kwargs s"
  by (simp_all add: pv_stamp_def Let_def)

lemma pv_stamp_fields [simp]:
  "pv_timestamps (pv_stamp now s) = pv_timestamps s @ [now]" "pv_start_time (pv_stamp now s) = pv_start_time s"
  "pv_server_address (pv_stamp now s) = pv_server_address s" "pv_server_port (pv_stamp now s) = pv_server_port s"
  "pv_finish_reason (pv_stamp now s) = pv_finish_reason s" "pv_input_tokens (pv_stamp now s) = pv_input_tokens s"
  "pv_output_tokens (pv_stamp now s) = pv_output_tokens s" "pv_tools (pv_stamp now s) = pv_tools s"
  "pv_tool_id (pv_stamp now s) = pv_tool_id s" "pv_tool_name (pv_stamp now s) = pv_tool_name s"
  "pv_response_id (pv_stamp now s) = pv_response_id s" "pv_response_model (pv_stamp now s) = pv_response_model s"
  "pv_cache_read (pv_stamp now s) = pv_cache_read s"
  by (simp_all add: pv_stamp_def Let_def)

section \<open>The contract\<close>

text \<open>What the end of a stream does to the telemetry it is given: all spans but the last are set aside in the
  scope.\<close>

definition stream_spans :: "pv_scope \<times> tele \<Rightarrow> span list" where
  "stream_spans st = pv_spans (fst st) @ [tl_span (snd st)]"

definition without_content :: "span \<Rightarrow> bool" where
  "without_content sp \<longleftrightarrow> list_all (\<lambda>k. dget (sp_attributes sp) k = None) content_keys"

lemma without_content_view: "span_view content_keys t = [None, None, None] \<longleftrightarrow> without_content (tl_span t)"
  by (auto simp: span_view_def without_content_def content_keys_def)

lemma without_content_fresh: "without_content fresh_span"
  by (simp add: without_content_def fresh_span_def content_keys_def)

text \<open>A stream ends quietly when it adds content to no span and emits no event.\<close>

definition quiet_end :: "(pv_scope \<times> tele, unit) prog \<Rightarrow> bool" where
  "quiet_end m \<longleftrightarrow> (\<forall>st. list_all without_content (stream_spans st) \<longrightarrow>
     list_all without_content (stream_spans (snd (m st))) \<and> tl_events (snd (snd (m st))) = tl_events (snd st))"

lemma quiet_stream_end:
  assumes "\<And>s. discreet (logic s)"
  shows "quiet_end (stream_end logic)"
proof -
  have "without_content (tl_span t) \<longrightarrow> without_content (tl_span (snd (logic s t)))" "tl_events (snd (logic s t)) = tl_events t"
    for s t using assms [of s] by (simp_all add: discreet_def keeps_def without_content_view [symmetric])
  then show ?thesis by (auto simp: quiet_end_def stream_end_def stream_spans_def split: prod.split) (metis snd_conv)+
qed

lemma quiet_renewed: "quiet_end m \<Longrightarrow> quiet_end (renew_span m)"
  by (auto simp: quiet_end_def renew_span_def stream_spans_def without_content_fresh on_span_def)

lemma raises_stream_end [raises_intros]: "(\<And>s. raises_only P (logic s)) \<Longrightarrow> raises_only P (stream_end logic)"
  unfolding raises_only_def stream_end_def by (fastforce split: prod.splits)

lemma raises_renewed [raises_intros]: "raises_only P m \<Longrightarrow> raises_only P (renew_span m)"
  by (auto simp: raises_only_def renew_span_def split: prod.splits)

text \<open>When the stream ends, the span the wrapper started is set aside for a new one.\<close>

lemma consume_renews:
  assumes process: "\<And>now c. keeps pv_spans (process now c)"
    and ended: "consume process (renew_span (stream_end logic)) clock st = (cs, Some e, st')" "exc_class e = StopIteration"
  shows "pv_spans (st_scope st') = pv_spans (st_scope st) @ [tl_span (st_tele st)]"
  using ended(1)
proof (induction clock arbitrary: st cs)
  case (Cons now clock)
  let ?f = "renew_span (stream_end logic)"
  have finished: "pv_spans (st_scope u') = pv_spans (st_scope u) @ [tl_span (st_tele u)]" if "finish_stream ?f u = (q, u')" for u q u'
    using that
    by (auto simp: finish_stream_def with_span_def ptry_def renew_span_def stream_end_def split: prod.splits sum.splits if_splits)
  obtain r st1 where n: "stream_next process ?f now st = (r, st1)" by fastforce
  show ?case
  proof (cases r)
    case (Inl x)
    with Cons.prems n have "x = e" "st1 = st'" by simp_all
    with n Inl ended(2) obtain u q where "finish_stream ?f u = (q, st')" "pv_spans (st_scope u) = pv_spans (st_scope st)"
      "st_tele u = st_tele st"
      by (auto simp: stream_next_def Let_def stop_iteration_def split: list.splits sum.splits prod.splits if_splits
          dest: keepsD [OF process])
    with finished show ?thesis by simp
  next
    case (Inr x)
    with n have same: "pv_spans (st_scope st1) = pv_spans (st_scope st)" "st_tele st1 = st_tele st"
      by (auto simp: stream_next_def Let_def split: list.splits sum.splits prod.splits if_splits dest: keepsD [OF process])
    from Cons.prems n Inr obtain cs' where "consume process ?f clock st1 = (cs', Some e, st')"
      by (auto split: prod.splits)
    from Cons.IH [OF this] same show ?thesis by simp
  qed
qed simp

text \<open>The wrapper of a provider's plain calls.\<close>

locale chat_provider = traced_operation process failure
  for process :: "instr_env \<Rightarrow> call \<Rightarrow> api_result \<Rightarrow> (tele, unit) prog"
    and failure :: "instr_env \<Rightarrow> call \<Rightarrow> pyexc \<Rightarrow> (tele, unit) prog" +
  fixes host :: string
    and port :: int
begin

lemma plain_result:
  assumes "set_server_address_and_port client host port = Inr (a, p)"
    and "c = \<lparr>ca_kwargs = kwargs, ca_server_address = a, ca_server_port = p, ca_clock = ck\<rparr>"
  shows "plain_call host port process failure env client wrapped kwargs ck t
     = (case guarded_call wrapped (process env c) (failure env c) t of (r, t') \<Rightarrow> (map_sum id PlainReply r, t'))"
  using assms by (auto simp: plain_call_def Let_def pbind_def split: prod.split sum.split)

lemma provider_plain:
  "\<not> py_truth (dget_or kwargs ''stream'' (PBool False)) \<Longrightarrow>
     provider_call host port process failure env client wrapped kwargs ck
     = plain_call host port process failure env client wrapped kwargs ck"
  by (simp add: provider_call_def)

text \<open>A call that does not stream gives what the wrapped call gives.\<close>

lemma plain_transparent:
  assumes "usable env" and "set_server_address_and_port client host port = Inr (a, p)"
  shows "fst (plain_call host port process failure env client wrapped kwargs ck t) = map_sum id PlainReply wrapped
     \<and> sp_ended (tl_span (snd (plain_call host port process failure env client wrapped kwargs ck t)))"
proof -
  let ?c = "\<lparr>ca_kwargs = kwargs, ca_server_address = a, ca_server_port = p, ca_clock = ck\<rparr>"
  from transparent [OF assms(1), of wrapped ?c t] span_ended [of wrapped env ?c t] show ?thesis
    by (auto simp: plain_result [OF assms(2) refl] split: prod.split)
qed

lemma plain_private:
  assumes "\<not> ie_capture_message_content env" and "set_server_address_and_port client host port = Inr (a, p)"
  shows "without_content (tl_span (snd (plain_call host port process failure env client wrapped kwargs ck t)))
     \<and> tl_events (snd (plain_call host port process failure env client wrapped kwargs ck t)) = tl_events t"
proof -
  let ?c = "\<lparr>ca_kwargs = kwargs, ca_server_address = a, ca_server_port = p, ca_clock = ck\<rparr>"
  from uncaptured [OF assms(1), of wrapped ?c t] show ?thesis
    by (auto simp: plain_result [OF assms(2) refl] without_content_view split: prod.split)
qed

end

text \<open>A stream whose end neither raises nor, without capture, records content.\<close>

locale stream_finisher =
  fixes host :: string
    and port :: int
    and finish :: "instr_env \<Rightarrow> rat \<Rightarrow> (pv_scope \<times> tele, unit) prog"
  assumes finish_ordinary: "usable env \<Longrightarrow> raises_only is_Exception (finish env end_time)"
    and finish_quiet: "\<not> ie_capture_message_content env \<Longrightarrow> quiet_end (finish env end_time)"
begin

text \<open>A streaming call hands over the items of the wrapped stream, under an open span.\<close>

lemma stream_result:
  assumes "set_server_address_and_port client host port = Inr (a, p)"
  shows "stream_call host port env client (Inr r) kwargs ck t
     = (Inr (StreamReply \<lparr>st_wrapped = api_items r, st_scope = fresh_pv_scope kwargs a p (ck_start ck),
          st_tele = on_span (\<lambda>_. fresh_span) t, st_finished = 0\<rparr>), t)"
  using assms by (simp add: stream_call_def)

lemma provider_stream:
  "py_truth (dget_or kwargs ''stream'' (PBool False)) \<Longrightarrow>
     provider_call host port process failure env client wrapped kwargs ck = stream_call host port env client wrapped kwargs ck"
  by (simp add: provider_call_def)

text \<open>The end of a stream neither raises nor, without capture, records content.\<close>

lemma stream_end_returns:
  assumes "usable env"
  shows "\<exists>st'. finish_stream (finish env end_time) st = (Inr (), st')"
proof -
  have "\<And>e u. with_span (finish env end_time) s = (Inl e, u) \<Longrightarrow> is_Exception e" for s
    by (auto simp: with_span_def split: prod.splits sum.splits dest: raises_onlyD [OF finish_ordinary [OF assms]])
  then show ?thesis
    by (auto simp: finish_stream_def ptry_def split: prod.split sum.split)
qed

lemma leave_without_content: "without_content (leave_span x sp) = without_content sp"
  by (cases x) (auto simp: without_content_def leave_span_def end_span_def set_status_def record_exception_def)

lemma stream_end_quiet:
  assumes "\<not> ie_capture_message_content env"
    and "list_all without_content (stream_spans (st_scope st, st_tele st))"
    and "finish_stream (finish env end_time) st = (r, st')"
  shows "list_all without_content (stream_spans (st_scope st', st_tele st')) \<and> tl_events (st_tele st') = tl_events (st_tele st)"
proof -
  obtain q s u where f: "finish env end_time (st_scope st, st_tele st) = (q, (s, u))" by (metis prod.exhaust_sel)
  from finish_quiet [OF assms(1), of end_time] assms(2)
  have "list_all without_content (stream_spans (snd (finish env end_time (st_scope st, st_tele st))))
      \<and> tl_events (snd (snd (finish env end_time (st_scope st, st_tele st)))) = tl_events (st_tele st)"
    by (simp add: quiet_end_def)
  then have q: "list_all without_content (stream_spans (s, u))" "tl_events u = tl_events (st_tele st)"
    by (simp_all add: f)
  have h: "handle_exception e (leave_span (Some e) sp) = leave_span (Some e) sp" for e sp
    by (simp add: handle_exception_def leave_span_def end_span_def set_status_def record_exception_def set_attribute_def Let_def)
  from q f assms(3) show ?thesis
    by (cases q) (auto simp: finish_stream_def with_span_def ptry_def stream_spans_def leave_without_content on_span_def h
        split: if_splits)
qed

end

text \<open>A provider whose calls can stream: well-formed chunks can be processed in every state its scope can be in,
  and no chunk touches the spans.\<close>

locale streaming_provider = stream_finisher host port finish
  for host :: string and port :: int and finish :: "instr_env \<Rightarrow> rat \<Rightarrow> (pv_scope \<times> tele, unit) prog" +
  fixes chunk_step :: "rat \<Rightarrow> pyval \<Rightarrow> (pv_scope, unit) prog"
    and readable :: "pyval \<Rightarrow> bool"
    and invariant :: "pv_scope \<Rightarrow> bool"
  assumes fresh_invariant: "invariant (fresh_pv_scope kwargs a p t0)"
    and chunk_processed: "readable c \<Longrightarrow> invariant s \<Longrightarrow> \<exists>s'. chunk_step now c s = (Inr (), s') \<and> invariant s'"
    and chunk_spans: "keeps pv_spans (chunk_step now c)"
begin

text \<open>The caller of a stream of readable chunks gets them all, unchanged, and the end is processed once.\<close>

lemma stream_delivered:
  assumes "usable env" and "set_server_address_and_port client host port = Inr (a, p)"
    and "list_all readable chunks" and "length clock > length chunks"
  shows "\<exists>st st'. stream_call host port env client (Inr (ApiStream (map Inr chunks))) kwargs ck t
       = (Inr (StreamReply st), t)
     \<and> consume chunk_step (finish env end_time) clock st = (chunks, Some stop_iteration, st')
     \<and> sp_ended (tl_span (st_tele st')) \<and> st_finished st' = 1"
proof -
  let ?st = "\<lparr>st_wrapped = map Inr chunks, st_scope = fresh_pv_scope kwargs a p (ck_start ck),
      st_tele = on_span (\<lambda>_. fresh_span) t, st_finished = 0\<rparr>"
  have "\<exists>st'. consume chunk_step (finish env end_time) clock ?st = (chunks, Some stop_iteration, st')
     \<and> sp_ended (tl_span (st_tele st')) \<and> st_finished st' = st_finished ?st + 1"
    by (rule stream_delivers [where I = invariant, OF _ assms(4) _ _ finish_ordinary [OF assms(1)]])
      (use assms(3) in \<open>auto simp: fresh_invariant list_all_iff intro: chunk_processed\<close>)
  then show ?thesis using stream_result [OF assms(2)] by auto
qed

text \<open>However a stream is consumed, without capture its spans hold no content.\<close>

lemma stream_step_quiet:
  assumes "\<not> ie_capture_message_content env"
    and "stream_next chunk_step (finish env end_time) now st = (r, st')"
    and "list_all without_content (stream_spans (st_scope st, st_tele st))"
  shows "list_all without_content (stream_spans (st_scope st', st_tele st')) \<and> tl_events (st_tele st') = tl_events (st_tele st)"
proof (cases "st_wrapped st")
  case Nil
  with assms(2) obtain q where "finish_stream (finish env end_time) st = (q, st')"
    by (auto simp: stream_next_def stop_iteration_def split: prod.splits sum.splits)
  from stream_end_quiet [OF assms(1,3) this] show ?thesis .
next
  case (Cons x rest)
  have ended: "list_all without_content (stream_spans (st_scope u', st_tele u')) \<and> tl_events (st_tele u') = tl_events (st_tele st)"
    if "finish_stream (finish env end_time) u = (q, u')" "pv_spans (st_scope u) = pv_spans (st_scope st)"
      "st_tele u = st_tele st" for u q u'
    using stream_end_quiet [OF assms(1) _ that(1)] assms(3) that(2,3) by (simp add: stream_spans_def)
  show ?thesis
  proof (cases x)
    case (Inl e)
    with Cons assms(2,3) ended [of "st\<lparr>st_wrapped := rest\<rparr>"] show ?thesis
      by (auto simp: stream_next_def split: if_splits prod.splits sum.splits)
  next
    case (Inr c)
    obtain q s where p: "chunk_step now c (st_scope st) = (q, s)" by fastforce
    with keepsD [OF chunk_spans] have spans: "pv_spans s = pv_spans (st_scope st)" by blast
    with Cons Inr p assms(2,3) ended [of "st\<lparr>st_wrapped := rest, st_scope := s\<rparr>"] show ?thesis
      by (cases q) (auto simp: stream_next_def stream_spans_def split: if_splits prod.splits sum.splits)
  qed
qed

lemma stream_quiet:
  assumes "\<not> ie_capture_message_content env"
    and "consume chunk_step (finish env end_time) clock st = (cs, e, st')"
    and "list_all without_content (stream_spans (st_scope st, st_tele st))"
  shows "list_all without_content (stream_spans (st_scope st', st_tele st')) \<and> tl_events (st_tele st') = tl_events (st_tele st)"
  using assms(2,3)
proof (induction clock arbitrary: st cs)
  case (Cons now clock)
  obtain r st1 where n: "stream_next chunk_step (finish env end_time) now st = (r, st1)" by fastforce
  from stream_step_quiet [OF assms(1) n Cons.prems(2)] have
    1: "list_all without_content (stream_spans (st_scope st1, st_tele st1))" "tl_events (st_tele st1) = tl_events (st_tele st)"
    by simp_all
  show ?case
  proof (cases r)
    case (Inl x)
    with Cons.prems(1) n 1 show ?thesis by simp
  next
    case (Inr x)
    with Cons.prems(1) n obtain cs' where "consume chunk_step (finish env end_time) clock st1 = (cs', e, st')"
      by (auto split: prod.splits)
    from Cons.IH [OF this 1(1)] 1(2) show ?thesis by simp
  qed
qed simp

lemma stream_private:
  assumes "\<not> ie_capture_message_content env" and "set_server_address_and_port client host port = Inr (a, p)"
    and "stream_call host port env client wrapped kwargs ck t = (Inr (StreamReply st), t')"
    and "consume chunk_step (finish env end_time) clock st = (cs, e, st')"
  shows "list_all without_content (stream_spans (st_scope st', st_tele st')) \<and> tl_events (st_tele st') = tl_events t"
proof -
  from assms(2,3) obtain r where "wrapped = Inr r" and st: "st = \<lparr>st_wrapped = api_items r,
      st_scope = fresh_pv_scope kwargs a p (ck_start ck), st_tele = on_span (\<lambda>_. fresh_span) t, st_finished = 0\<rparr>"
    by (cases wrapped) (auto simp: stream_call_def)
  have "list_all without_content (stream_spans (st_scope st, st_tele st))"
    by (simp add: st stream_spans_def fresh_pv_scope_def on_span_def without_content_fresh)
  from stream_quiet [OF assms(1,4) this] show ?thesis by (simp add: st on_span_def)
qed

end

end
