(* ===== verification/AnthropicProps.thy ===== *)
theory AnthropicProps
  imports Anthropic ProviderProps
begin

text \<open>
  Anthropic messages satisfy the contract of a chat provider.  What a stream of events leaves in the scope, and
  the events that leave something else there than the answer holds.
\<close>

section \<open>The contract\<close>

lemma ordinary_anthropic [ordinary_intros]:
  "ordinary (an_format_content repr ms)" "ordinary (an_tokens prompt scope)" "ordinary (an_image_parts source)"
  "ordinary (an_output_message answer reason calls)"
  unfolding an_format_content_def an_message_line_def an_tokens_def an_image_parts_def an_output_message_def Let_def
  by (rule ordinary_intros | simp)+

lemma ordinary_an_input [ordinary_intros]: "ordinary (an_input_message repr m)"
  unfolding an_input_message_def an_input_item_def Let_def by (rule ordinary_intros | simp)+

lemma ordinary_an_tool [ordinary_intros]: "ordinary (an_first_tool blocks)"
  by (induction blocks) (auto intro!: ordinary_intros)

lemma ordinary_an_scope [ordinary_intros]: "ordinary (an_response_scope d c)"
  unfolding an_response_scope_def Let_def by (rule ordinary_intros)+

lemma raises_an_messages [raises_intros]:
  "raises_only is_Exception (an_build_input_messages repr ms system)"
  "raises_only P (an_build_output_messages answer reason calls)"
  "raises_only P (an_build_tool_definitions tools)"
  unfolding an_build_input_messages_def an_build_output_messages_def an_build_tool_definitions_def
  using ordinary_py_iter by (auto simp: ordinary_def intro!: raises_intros ordinary_intros)

lemma raises_an_attributes [raises_intros]:
  "raises_only P (an_response_attributes scope)" "raises_only is_Exception (an_tool_attributes env scope)"
  unfolding an_response_attributes_def an_tool_attributes_def by (auto intro!: raises_intros ordinary_intros)

lemma raises_an_content [raises_intros]:
  assumes "tame env"
  shows "raises_only is_Exception (an_content env scope tokens)"
  unfolding an_content_def an_emit_inference_event_def Let_def
  by (intro raises_intros ordinary_intros tameD [OF assms] assms)

lemma raises_an_logic [raises_intros]:
  assumes "usable env"
  shows "raises_only is_Exception (an_common_chat_logic env st t scope)"
proof -
  have "tame env" using assms by (simp add: usable_def)
  then show ?thesis
    unfolding an_common_chat_logic_def
    by (intro raises_pv_logic assms raises_intros ordinary_intros) (auto intro!: raises_intros)
qed

lemma discreet_an_attributes [discreet_intros]:
  "discreet (an_response_attributes scope)" "discreet (an_tool_attributes env scope)"
  "discreet (request_attributes scope an_request_rows)"
  unfolding an_response_attributes_def an_tool_attributes_def an_request_rows_def
  by (auto intro!: discreet_intros simp: content_keys_def semconv)

lemma discreet_an_logic: "\<not> ie_capture_message_content env \<Longrightarrow> discreet (an_common_chat_logic env st t scope)"
  unfolding an_common_chat_logic_def by (rule discreet_logic) (auto intro!: discreet_intros)

lemma an_stream_tools_spans: "pv_spans (an_stream_tools s) = pv_spans s"
  by (simp add: an_stream_tools_def)

interpretation anthropic: chat_provider an_process_chat_response an_failure "''api.anthropic.com''" 443
proof
  fix env c r e
  show "raises_only is_Exception (an_process_chat_response env c r)" if "usable env"
    unfolding an_process_chat_response_def using that by (auto intro!: raises_intros ordinary_intros)
  show "returns (an_failure env c e)" if "usable env" using that by (simp add: an_failure_def pv_failure_laws)
  show "keeps (span_view content_keys) (an_failure env c e) \<and> keeps tl_events (an_failure env c e)"
    by (simp add: an_failure_def pv_failure_laws)
  show "keeps (span_view content_keys) (an_process_chat_response env c r) \<and> keeps tl_events (an_process_chat_response env c r)"
    if "\<not> ie_capture_message_content env"
    using discreet_an_logic [OF that] unfolding an_process_chat_response_def by (auto simp: discreet_def intro!: keeps_intros)
qed

section \<open>Streams of events\<close>

text \<open>An event whose parts have the types of the API.\<close>

definition an_readable :: "pyval \<Rightarrow> bool" where
  "an_readable chunk =
     (let e = response_as_dict chunk in
      is_dict e \<and> list_all (\<lambda>k. optional is_dict (field e k)) [''message'', ''delta'', ''content_block'', ''usage'']
      \<and> optional is_dict (field (field e ''message'') ''usage'')
      \<and> list_all (\<lambda>k. optional is_str (field (field e ''delta'') k)) [''text'', ''partial_json''])"

definition an_invariant :: "pv_scope \<Rightarrow> bool" where
  "an_invariant s \<longleftrightarrow> is_str (pv_llmresponse s) \<and> is_str (pv_tool_arguments s)"

lemma an_invariant_update:
  assumes "pv_llmresponse s' = pv_llmresponse s" and "pv_tool_arguments s' = pv_tool_arguments s"
  shows "an_invariant s' = an_invariant s"
  using assms by (simp add: an_invariant_def)

lemma an_message_start_run:
  assumes "is_dict e" and "optional is_dict (field e ''message'')" and "optional is_dict (field (field e ''message'') ''usage'')"
  shows "\<exists>s'. an_message_start e s = (Inr (), s') \<and> pv_llmresponse s' = pv_llmresponse s \<and> pv_tool_arguments s' = pv_tool_arguments s"
  using assms(3)
  by (simp add: an_message_start_def py_get_dict [OF assms(1)] optional_dict [OF assms(2)] count_of_def
      field_def [of "field e ''message''", symmetric] optional_dict)

lemma an_message_delta_run:
  assumes "is_dict e" and "optional is_dict (field e ''usage'')" and "optional is_dict (field e ''delta'')"
  shows "\<exists>s'. an_message_delta e s = (Inr (), s') \<and> pv_llmresponse s' = pv_llmresponse s \<and> pv_tool_arguments s' = pv_tool_arguments s"
  using assms by (simp add: an_message_delta_def py_get_dict optional_dict count_of_def)

lemma an_block_start_run:
  assumes "is_dict e" and "optional is_dict (field e ''content_block'')"
  shows "\<exists>s'. an_block_start e s = (Inr (), s') \<and> pv_llmresponse s' = pv_llmresponse s \<and> pv_tool_arguments s' = pv_tool_arguments s"
  using assms by (simp add: an_block_start_def py_get_dict optional_dict pwhen_def pbind_def)

lemma an_block_delta_run:
  assumes "is_dict e" and "optional is_dict (field e ''delta'')" and "an_invariant s"
    and "optional is_str (field (field e ''delta'') ''text'')" and "optional is_str (field (field e ''delta'') ''partial_json'')"
  shows "\<exists>s'. an_block_delta e s = (Inr (), s') \<and> an_invariant s'"
proof -
  let ?d = "field e ''delta''"
  have f: "dget_or (fields ?d) k PNone = field ?d k" for k by (simp add: field_def)
  from assms(3) obtain r a where "pv_llmresponse s = PStr r" "pv_tool_arguments s = PStr a"
    by (auto simp: an_invariant_def elim!: is_strE)
  moreover note optional_str [OF assms(4)] optional_str [OF assms(5)]
  ultimately show ?thesis
    by (auto simp: an_block_delta_def py_get_dict [OF assms(1)] optional_dict [OF assms(2)] f pwhen_def pv_append_def
        py_add_str an_invariant_def)
qed

lemma an_chunk_processed:
  assumes "an_readable c" and "an_invariant s"
  shows "\<exists>s'. an_process_chunk now c s = (Inr (), s') \<and> an_invariant s'"
proof -
  let ?e = "response_as_dict c"
  from assms(1) have e: "is_dict ?e" "optional is_dict (field ?e ''message'')" "optional is_dict (field ?e ''delta'')"
    "optional is_dict (field ?e ''content_block'')" "optional is_dict (field ?e ''usage'')"
    "optional is_dict (field (field ?e ''message'') ''usage'')" "optional is_str (field (field ?e ''delta'') ''text'')"
    "optional is_str (field (field ?e ''delta'') ''partial_json'')"
    by (simp_all add: an_readable_def Let_def)
  have s: "an_invariant (pv_stamp now s)" using assms(2) by (simp add: an_invariant_def)
  let ?t = "field ?e ''type''"
  show ?thesis
    using an_message_start_run [OF e(1,2,6), of "pv_stamp now s"] an_block_delta_run [OF e(1,3) s e(7,8)]
      an_block_start_run [OF e(1,4), of "pv_stamp now s"] an_message_delta_run [OF e(1,5,3), of "pv_stamp now s"] assms(2)
    by (auto simp: an_process_chunk_def Let_def py_get_dict [OF e(1)] pwhen_def pbind_def an_invariant_def)
qed

lemma an_chunk_spans: "keeps pv_spans (an_process_chunk now c)"
  unfolding an_process_chunk_def an_message_start_def an_block_delta_def an_block_start_def an_message_delta_def Let_def pv_append_def
  by (rule keeps_intros | simp)+

interpretation anthropic_stream: streaming_provider "''api.anthropic.com''" 443 an_process_streaming
    an_process_chunk an_readable an_invariant
proof
  fix env end_time
  show "raises_only is_Exception (an_process_streaming env end_time)" if "usable env"
    using raises_stream_end [OF raises_an_logic [OF that]] by (simp add: raises_only_def an_process_streaming_def)
  show "quiet_end (an_process_streaming env end_time)" if "\<not> ie_capture_message_content env"
    using quiet_stream_end [OF discreet_an_logic [OF that]]
    by (simp add: quiet_end_def an_process_streaming_def stream_spans_def an_stream_tools_spans)
qed (simp_all add: an_invariant_def fresh_pv_scope_def an_chunk_processed [unfolded an_invariant_def] an_chunk_spans)

section \<open>What a stream leaves\<close>

text \<open>The events of a message of text, as the API sends them.\<close>

definition message_started :: "string \<Rightarrow> string \<Rightarrow> int \<Rightarrow> int \<Rightarrow> pyval" where
  "message_started i m n cached =
     PDict [(''type'', PStr ''message_start''),
       (''message'', PDict [(''id'', PStr i), (''role'', PStr ''assistant''), (''model'', PStr m),
          (''usage'', PDict [(''input_tokens'', PInt n), (''cache_read_input_tokens'', PInt cached)])])]"

definition text_delta :: "string \<Rightarrow> pyval" where
  "text_delta x = PDict [(''type'', PStr ''content_block_delta''), (''index'', PInt 0),
     (''delta'', PDict [(''type'', PStr ''text_delta''), (''text'', PStr x)])]"

definition tool_started :: "string \<Rightarrow> string \<Rightarrow> pyval" where
  "tool_started i n = PDict [(''type'', PStr ''content_block_start''),
     (''content_block'', PDict [(''type'', PStr ''tool_use''), (''id'', PStr i), (''name'', PStr n), (''input'', PDict [])])]"

definition json_delta :: "string \<Rightarrow> pyval" where
  "json_delta a = PDict [(''type'', PStr ''content_block_delta''),
     (''delta'', PDict [(''type'', PStr ''input_json_delta''), (''partial_json'', PStr a)])]"

definition message_finished :: "string \<Rightarrow> int \<Rightarrow> pyval" where
  "message_finished reason n = PDict [(''type'', PStr ''message_delta''), (''delta'', PDict [(''stop_reason'', PStr reason)]),
     (''usage'', PDict [(''output_tokens'', PInt n)])]"

lemma py_or_zero: "py_or (PInt n) (PInt 0) = PInt n"
  by (simp add: py_or_def)

lemma message_started_step:
  "an_process_chunk now (message_started i m n cached) s = (Inr (), (pv_stamp now s)\<lparr>pv_response_id := PStr i,
     pv_input_tokens := PInt n, pv_cache_creation := PInt 0, pv_cache_read := PInt cached, pv_response_model := PStr m\<rparr>)"
  by (simp add: an_process_chunk_def message_started_def an_message_start_def count_of_def py_or_zero)
    (simp add: py_or_def count_of_def pbind_def)

lemma text_delta_step:
  assumes "pv_llmresponse s = PStr r"
  shows "an_process_chunk now (text_delta x) s = (Inr (), (pv_stamp now s)\<lparr>pv_llmresponse := PStr (r @ x)\<rparr>)"
  using assms
  by (cases "x = []") (simp_all add: an_process_chunk_def text_delta_def an_block_delta_def py_or_def pv_append_def py_add_str pwhen_def pbind_def)

lemma message_finished_step:
  "an_process_chunk now (message_finished reason n) s = (Inr (), (pv_stamp now s)\<lparr>pv_output_tokens := PInt n,
     pv_finish_reason := py_or (PStr reason) (pv_finish_reason (pv_stamp now s)),
     pv_cache_creation := PInt 0, pv_cache_read := PInt 0\<rparr>)"
  by (simp add: an_process_chunk_def message_finished_def an_message_delta_def)
    (simp add: py_or_def count_of_def)

lemma tool_started_step:
  assumes "i \<noteq> []" and "n \<noteq> []"
  shows "an_process_chunk now (tool_started i n) s = (Inr (), (pv_stamp now s)\<lparr>pv_tool_id := PStr i, pv_tool_name := PStr n\<rparr>)"
  using assms by (simp add: an_process_chunk_def tool_started_def an_block_start_def py_or_def pbind_def)

lemma json_delta_step:
  assumes "pv_tool_arguments s = PStr r"
  shows "an_process_chunk now (json_delta a) s = (Inr (), (pv_stamp now s)\<lparr>pv_tool_arguments := PStr (r @ a)\<rparr>)"
  using assms
  by (cases "a = []") (simp_all add: an_process_chunk_def json_delta_def an_block_delta_def py_or_def py_add_str pwhen_def pbind_def)

definition same_but_text :: "pv_scope \<Rightarrow> pv_scope \<Rightarrow> bool" where
  "same_but_text s s' \<longleftrightarrow> pv_kwargs s' = pv_kwargs s \<and> pv_input_tokens s' = pv_input_tokens s \<and> pv_tools s' = pv_tools s
     \<and> pv_tool_id s' = pv_tool_id s \<and> pv_response_id s' = pv_response_id s \<and> pv_response_model s' = pv_response_model s
     \<and> pv_finish_reason s' = pv_finish_reason s"

lemma texts_fed:
  assumes "pv_llmresponse s = PStr r" and "length clock = length texts"
  shows "\<exists>s'. fed an_process_chunk (zip clock (map text_delta texts)) s s' \<and> pv_llmresponse s' = PStr (r @ concat texts)
     \<and> pv_timestamps s' = pv_timestamps s @ clock \<and> same_but_text s s'"
  using assms
proof (induction texts arbitrary: clock s r)
  case Nil
  then show ?case by (simp add: same_but_text_def)
next
  case (Cons x texts)
  then obtain now cl where clock: "clock = now # cl" by (cases clock) auto
  let ?s = "(pv_stamp now s)\<lparr>pv_llmresponse := PStr (r @ x)\<rparr>"
  from Cons.IH [of ?s "r @ x" cl] Cons.prems(2) clock obtain s' where
    "fed an_process_chunk (zip cl (map text_delta texts)) ?s s'" "pv_llmresponse s' = PStr (r @ x @ concat texts)"
    "pv_timestamps s' = pv_timestamps s @ now # cl" "same_but_text ?s s'" by auto
  then show ?case using text_delta_step [OF Cons.prems(1)] clock
    by (auto simp: same_but_text_def intro!: exI [of _ s'])
qed

text \<open>A whole message, from a fresh scope.\<close>

lemma message_fed:
  assumes "length clock = length texts"
  shows "\<exists>s'. fed an_process_chunk
         (zip (t1 # clock @ [t2]) (message_started i m n cached # map text_delta texts @ [message_finished reason k]))
         (fresh_pv_scope kwargs a p t0) s'
     \<and> pv_llmresponse s' = PStr (concat texts) \<and> pv_timestamps s' = t1 # clock @ [t2] \<and> pv_kwargs s' = kwargs
     \<and> pv_input_tokens s' = PInt n \<and> pv_output_tokens s' = PInt k \<and> pv_finish_reason s' = PStr reason
     \<and> pv_response_id s' = PStr i \<and> pv_response_model s' = PStr m \<and> pv_cache_read s' = PInt 0
     \<and> pv_tools s' = PNone \<and> pv_tool_id s' = PStr []"
proof -
  let ?s1 = "(pv_stamp t1 (fresh_pv_scope kwargs a p t0))\<lparr>pv_response_id := PStr i,
     pv_input_tokens := PInt n, pv_cache_creation := PInt 0, pv_cache_read := PInt cached, pv_response_model := PStr m\<rparr>"
  have "pv_llmresponse ?s1 = PStr []" by (simp add: fresh_pv_scope_def)
  from texts_fed [OF this assms] obtain s2 where
    2: "fed an_process_chunk (zip clock (map text_delta texts)) ?s1 s2" "pv_llmresponse s2 = PStr (concat texts)"
      "pv_timestamps s2 = t1 # clock" "same_but_text ?s1 s2"
    by (auto simp: fresh_pv_scope_def)
  have "fed an_process_chunk (zip [t2] [message_finished reason k]) s2 ((pv_stamp t2 s2)\<lparr>pv_output_tokens := PInt k,
     pv_finish_reason := py_or (PStr reason) (pv_finish_reason (pv_stamp t2 s2)),
     pv_cache_creation := PInt 0, pv_cache_read := PInt 0\<rparr>)" (is "fed _ _ _ ?s3")
    by (simp add: message_finished_step)
  from fed_step [where process = an_process_chunk, OF message_started_step fed_append [OF 2(1) this]] assms
  have all: "fed an_process_chunk (zip (t1 # clock @ [t2])
      (message_started i m n cached # map text_delta texts @ [message_finished reason k])) (fresh_pv_scope kwargs a p t0) ?s3"
    by simp
  have reason: "pv_finish_reason ?s3 = PStr reason"
    using 2(4) by (simp add: same_but_text_def fresh_pv_scope_def py_or_str)
  show ?thesis
    by (rule exI [of _ ?s3], intro conjI, rule all)
      (use 2(2-4) reason in \<open>simp_all add: same_but_text_def fresh_pv_scope_def\<close>)
qed

text \<open>The request and its telemetry.\<close>

lemma an_prompt:
  assumes "pv_kwarg scope ''messages'' (PList []) = PList (map plain_message ms)"
  shows "\<exists>p. an_format_content repr (pv_kwarg scope ''messages'' (PList [])) = Inr p"
proof -
  have "res_map (an_message_line repr) (map plain_message ms) = Inr (map (\<lambda>m. fst m @ '': '' @ snd m) ms)"
    by (induction ms) (simp_all add: an_message_line_def plain_message_def msg_field_def)
  then show ?thesis by (simp add: an_format_content_def assms)
qed

lemma an_attributes_run:
  assumes "pv_tools scope = PNone"
  shows "returns (in_turn [request_attributes scope an_request_rows, an_response_attributes scope, an_tool_attributes env scope])"
    and "keeps call_view (in_turn [request_attributes scope an_request_rows, an_response_attributes scope, an_tool_attributes env scope])"
proof -
  have "an_tool_attributes env scope = pret ()" using assms by (simp add: an_tool_attributes_def)
  then show "returns (in_turn [request_attributes scope an_request_rows, an_response_attributes scope, an_tool_attributes env scope])"
    by (intro raises_in_turn) (simp add: raises_intros)
  show "keeps call_view (in_turn [request_attributes scope an_request_rows, an_response_attributes scope, an_tool_attributes env scope])"
    unfolding in_turn_def request_attributes_def an_request_rows_def an_response_attributes_def an_tool_attributes_def
    by (auto intro!: keeps_intros)
qed

definition message_request :: "string \<Rightarrow> (string \<times> string) list \<Rightarrow> (string, pyval) dict" where
  "message_request m ms = [(''model'', PStr m), (''messages'', PList (map plain_message ms)), (''stream'', PBool True)]"

definition message_events :: "string \<Rightarrow> string \<Rightarrow> int \<Rightarrow> int \<Rightarrow> string list \<Rightarrow> string \<Rightarrow> int \<Rightarrow> pyval list" where
  "message_events i m n cached texts reason k =
     message_started i m n cached # map text_delta texts @ [message_finished reason k]"


lemma anthropic_sample:
  "ie_metrics sample_env = Some metrics_dict" "\<not> ie_capture_message_content sample_env"
  "set_server_address_and_port PNone ''api.anthropic.com'' 443 = Inr (PStr ''api.anthropic.com'', PInt 443)"
  by (simp_all add: sample_env_def set_server_address_and_port_def base_url_of_def)


section \<open>What a stream loses\<close>

text \<open>The last event takes the cache counts away that the first one brought: \<open>message_delta\<close> sets them to zero when
  it does not repeat them, where the comment in the source says that it updates them when present; the span
  of a stream whose input was read from the cache reports none of it.\<close>

theorem anthropic_final_event_drops_cache:
  assumes "length clock = length texts"
  shows "\<exists>s s'. fed an_process_chunk [(t1, message_started i m n cached)] (fresh_pv_scope kwargs a p t0) s
     \<and> pv_cache_read s = PInt cached
     \<and> fed an_process_chunk (zip (t1 # clock @ [t2]) (message_events i m n cached texts reason k))
         (fresh_pv_scope kwargs a p t0) s' \<and> pv_cache_read s' = PInt 0"
proof -
  from message_fed [OF assms, of t1 t2 i m n cached reason k kwargs a p t0] obtain s' where
    "fed an_process_chunk (zip (t1 # clock @ [t2]) (message_events i m n cached texts reason k)) (fresh_pv_scope kwargs a p t0) s'"
    "pv_cache_read s' = PInt 0" by (auto simp: message_events_def)
  moreover have "\<exists>s. fed an_process_chunk [(t1, message_started i m n cached)] (fresh_pv_scope kwargs a p t0) s
     \<and> pv_cache_read s = PInt cached"
    by (simp add: message_started_step)
  ultimately show ?thesis by blast
qed

theorem anthropic_final_event_drops_cache_witness:
  "\<exists>s'. fed an_process_chunk (zip (1 # [2] @ [3]) (message_events ''m1'' ''claude'' 9 4 [''Hi''] ''end_turn'' 5))
     (fresh_pv_scope [] PNone PNone 0) s' \<and> pv_cache_read s' = PInt 0"
  using anthropic_final_event_drops_cache [of "[2]" "[''Hi'']" 1 "''m1''" "''claude''" 9 4 "[]" PNone PNone 0 3 "''end_turn''" 5]
  by auto

text \<open>C35: Two tool calls in one streamed message become one: the scope has room for a single id, name and argument
  text, so the telemetry shows the id and the name of the last call with the arguments of all of them run
  together.\<close>

theorem anthropic_tool_calls_run_together:
  assumes "i1 \<noteq> []" "n1 \<noteq> []" "i2 \<noteq> []" "n2 \<noteq> []"
  shows "\<exists>s. fed an_process_chunk
         [(t1, tool_started i1 n1), (t2, json_delta a1), (t3, tool_started i2 n2), (t4, json_delta a2)]
         (fresh_pv_scope kwargs a p t0) s
     \<and> pv_tools (an_stream_tools s) = PDict [(''id'', PStr i2), (''name'', PStr n2), (''input'', PStr (a1 @ a2))]"
  using assms
  by (simp add: tool_started_step json_delta_step fresh_pv_scope_def an_stream_tools_def)

theorem anthropic_tool_calls_run_together_witness:
  "\<exists>s. fed an_process_chunk [(1, tool_started ''t1'' ''get_time''), (2, json_delta ''{}''), (3, tool_started ''t2'' ''get_city''),
         (4, json_delta ''{}'')] (fresh_pv_scope [] PNone PNone 0) s
     \<and> pv_tools (an_stream_tools s) = PDict [(''id'', PStr ''t2''), (''name'', PStr ''get_city''), (''input'', PStr ''{}{}'')]"
  using anthropic_tool_calls_run_together [of "''t1''" "''get_time''" "''t2''" "''get_city''" 1 2 "''{}''" 3 4 "''{}''" "[]" PNone PNone 0]
  by simp

text \<open>An answer with an empty list of content blocks fails the processing: the
  caller still gets the answer, but the span ends with status ERROR, error type \<open>IndexError\<close> and without
  the usage the answer reports.\<close>

theorem anthropic_empty_content_fails:
  assumes metrics: "ie_metrics env = Some metrics_dict"
    and address: "set_server_address_and_port client ''api.anthropic.com'' 443 = Inr (a, p)"
    and plain: "\<not> py_truth (dget_or kwargs ''stream'' (PBool False))"
    and answer: "answer = PDict ((''content'', PList []) # d)"
  shows "\<exists>t'. anthropic_messages env client (Inr (ApiValue answer)) kwargs ck t = (Inr (PlainReply (ApiValue answer)), t')
     \<and> sp_status (tl_span t') = StatusError
     \<and> dget (sp_attributes (tl_span t')) ERROR_TYPE = Some (PStr ''IndexError'')
     \<and> span_view usage_keys t' = [None, None, None, None]"
proof -
  let ?c = "\<lparr>ca_kwargs = kwargs, ca_server_address = a, ca_server_port = p, ca_clock = ck\<rparr>"
  obtain e where e: "py_index (PList []) (PInt 0) = Inl e" "exc_class e = IndexError" by simp
  have "an_process_chat_response env ?c (ApiValue answer) = praise e"
    by (simp add: an_process_chat_response_def an_response_scope_def answer e(1) del: py_index.simps)
  moreover have "is_Exception e" "class_name (exc_class e) = ''IndexError''" using e(2) by (cases e; simp)+
  ultimately show ?thesis
    using failed_at_once [of "an_process_chat_response env ?c" "ApiValue answer" e env, OF _ _ _ metrics,
        of GEN_AI_SYSTEM_ANTHROPIC "PStr ''claude-3-5-sonnet-latest''" ?c t]
    by (auto simp: anthropic_messages_def an_failure_def [symmetric] anthropic.provider_plain [OF plain] anthropic.plain_result [OF address refl])
qed

theorem anthropic_empty_content_fails_witness:
  "\<exists>t'. anthropic_messages sample_env PNone (Inr (ApiValue (PDict [(''content'', PList [])]))) [] sample_clock fresh_tele
       = (Inr (PlainReply (ApiValue (PDict [(''content'', PList [])]))), t') \<and> sp_status (tl_span t') = StatusError"
proof -
  have plain: "\<not> py_truth (dget_or [] ''stream'' (PBool False))" by simp
  show ?thesis
    using anthropic_empty_content_fails [OF anthropic_sample(1,3) plain refl, of "[]" sample_clock fresh_tele] by blast
qed

end
