(* ===== verification/Mistral.thy ===== *)
theory Mistral
  imports Provider
begin

text \<open>
  \<open>openlit/instrumentation/mistral\<close>: chat completions and their streams, which have an operation of their own.
  The embeddings are not modelled.
\<close>

section \<open>Messages\<close>

definition ms_content_item :: "(pyval \<Rightarrow> string) \<Rightarrow> pyval \<Rightarrow> string res" where
  "ms_content_item repr item =
     res_bind (py_in ''type'' item) (\<lambda>typed.
     if typed then
       res_bind (py_index item (PStr ''type'')) (\<lambda>t.
       res_bind (py_in ''text'' item) (\<lambda>has_text.
       res_bind (if has_text then py_index item (PStr ''text'') else py_get item ''image_url'' (PStr [])) (\<lambda>v.
         Inr (py_str repr t @ '': '' @ py_str repr v))))
     else res_bind (py_get item ''text'' (PStr [])) (\<lambda>v. Inr (''text: '' @ py_str repr v)))"

definition ms_message_line :: "(pyval \<Rightarrow> string) \<Rightarrow> pyval \<Rightarrow> string res" where
  "ms_message_line repr message =
     res_bind (py_get message ''role'' (PStr ''user'')) (\<lambda>role.
     res_bind (py_get message ''content'' (PStr [])) (\<lambda>content.
     res_bind (case content of
         PList items \<Rightarrow> res_bind (res_map (ms_content_item repr) items) (\<lambda>texts. Inr (py_join '', '' texts))
       | _ \<Rightarrow> Inr (py_str repr content)) (\<lambda>text. Inr (py_str repr role @ '': '' @ text))))"

definition ms_format_content :: "(pyval \<Rightarrow> string) \<Rightarrow> pyval \<Rightarrow> string res" where
  "ms_format_content repr messages =
     res_bind (py_iter messages) (\<lambda>ms. res_bind (res_map (ms_message_line repr) ms) (\<lambda>ls. Inr (py_join [CHR 0x0A] ls)))"

definition ms_input_item :: "pyval \<Rightarrow> pyval list res" where
  "ms_input_item item =
     (case item of
        PDict d \<Rightarrow>
          (let item_type = dget_or d ''type'' PNone in
           if item_type = PStr ''text'' then
             (let t = dget_or d ''text'' (PStr []) in Inr (if py_truth t then [text_part t] else []))
           else if item_type = PStr ''image_url'' then
             (let url = (case dget_or d ''image_url'' (PDict []) of PDict u \<Rightarrow> dget_or u ''url'' (PStr []) | _ \<Rightarrow> PStr []) in
              if py_truth url then
                res_bind (py_startswith url ''data:'') (\<lambda>inline. Inr (if inline then [] else [uri_part url]))
              else Inr [])
           else Inr [])
      | _ \<Rightarrow> Inr [])"

definition ms_input_message :: "pyval \<Rightarrow> pyval option res" where
  "ms_input_message message =
     res_bind (py_get message ''role'' (PStr ''user'')) (\<lambda>role.
     res_bind (py_get message ''content'' (PStr [])) (\<lambda>content.
     res_bind (case content of
         PList items \<Rightarrow> res_bind (res_map ms_input_item items) (\<lambda>ps. Inr (concat ps))
       | PStr s \<Rightarrow> Inr (if s \<noteq> [] then [text_part content] else [])
       | _ \<Rightarrow> Inr []) (\<lambda>parts. Inr (parts_message role parts))))"

definition ms_build_input_messages :: "pyval \<Rightarrow> (log_line list, pyval list) prog" where
  "ms_build_input_messages messages =
     (if \<not> py_truth messages then pret []
      else case messages of
        PStr s \<Rightarrow> pret [PDict [(''role'', PStr ''user''), (''parts'', PList [text_part messages])]]
      | _ \<Rightarrow> pbind (plift (py_iter messages)) (\<lambda>ms.
          logged_loop ''Failed to process input message: %s'' ms_input_message ms []))"

text \<open>A tool call as a dictionary or as an object, with its arguments parsed where they are text.\<close>

definition ms_tool_part :: "(string \<Rightarrow> pyval res) \<Rightarrow> pyval \<Rightarrow> pyval option res" where
  "ms_tool_part json_loads tool_call =
     res_bind (case tool_call of
         PDict d \<Rightarrow>
           (let func = dget_or d ''function'' (PDict []) in
            res_bind (py_get func ''name'' (PStr [])) (\<lambda>n.
            res_bind (py_get func ''arguments'' (PDict [])) (\<lambda>a. Inr (dget_or d ''id'' (PStr []), n, a))))
       | _ \<Rightarrow>
           (let func = py_or (py_getattr tool_call ''function'' (PDict [])) (PDict []) in
            Inr (py_getattr tool_call ''id'' (PStr []), msg_field func ''name'' (PStr []), msg_field func ''arguments'' (PStr []))))
       (\<lambda>(i, n, a). res_bind (parse_tool_args json_loads a) (\<lambda>args. Inr (Some (tool_call_part i n args))))"

definition ms_finish_reasons :: "(string, string) dict" where
  "ms_finish_reasons = [(''stop'', ''stop''), (''length'', ''length''), (''content_filter'', ''content_filter''),
     (''tool_calls'', ''tool_call'')]"

definition ms_build_output_messages ::
  "instr_env \<Rightarrow> pyval \<Rightarrow> pyval \<Rightarrow> pyval \<Rightarrow> (log_line list, pyval list) prog" where
  "ms_build_output_messages env answer finish_reason tool_calls =
     ptry
       (pbind (case tool_calls of
           PList tcs \<Rightarrow> logged_loop ''Failed to process tool call: %s'' (ms_tool_part (ie_json_loads env)) tcs []
         | _ \<Rightarrow> pret []) (\<lambda>calls.
        pbind (plift (mapped_reason ms_finish_reasons finish_reason)) (\<lambda>reason.
        pret [assistant_message
          ((if py_truth answer then [text_part (PStr (py_str (ie_repr env) answer))] else []) @ calls) reason])))
       (\<lambda>e. pbind (log_warning [''Failed to build output messages: %s'', exc_msg e]) (\<lambda>_.
         pret [assistant_message [] (PStr ''stop'')]))"

definition ms_extra_key :: "string \<Rightarrow> string" where
  "ms_extra_key key = dget_or [
     (''response_id'', GEN_AI_RESPONSE_ID),
     (''finish_reasons'', GEN_AI_RESPONSE_FINISH_REASON),
     (''output_type'', GEN_AI_OUTPUT_TYPE),
     (''conversation_id'', GEN_AI_CONVERSATION_ID),
     (''temperature'', GEN_AI_REQUEST_TEMPERATURE),
     (''max_tokens'', GEN_AI_REQUEST_MAX_TOKENS),
     (''top_p'', GEN_AI_REQUEST_TOP_P),
     (''frequency_penalty'', GEN_AI_REQUEST_FREQUENCY_PENALTY),
     (''presence_penalty'', GEN_AI_REQUEST_PRESENCE_PENALTY),
     (''stop_sequences'', GEN_AI_REQUEST_STOP_SEQUENCES),
     (''seed'', GEN_AI_REQUEST_SEED),
     (''choice_count'', GEN_AI_REQUEST_CHOICE_COUNT),
     (''n'', GEN_AI_REQUEST_CHOICE_COUNT),
     (''input_tokens'', GEN_AI_USAGE_INPUT_TOKENS),
     (''output_tokens'', GEN_AI_USAGE_OUTPUT_TOKENS),
     (''cache_creation_input_tokens'', GEN_AI_USAGE_CACHE_CREATION_INPUT_TOKENS),
     (''cache_read_input_tokens'', GEN_AI_USAGE_CACHE_READ_INPUT_TOKENS),
     (''error_type'', ERROR_TYPE),
     (''system_instructions'', GEN_AI_SYSTEM_INSTRUCTIONS)] key key"

definition ms_emit_inference_event :: "instr_env \<Rightarrow> inference \<Rightarrow> (string \<times> pyval) list \<Rightarrow> (tele, unit) prog" where
  "ms_emit_inference_event env =
     pv_emit env ms_extra_key (\<lambda>key v. skip_missing key v \<or> skip_one_choice key v) True"

section \<open>Chunks\<close>

definition ms_new_tool :: "pyval \<Rightarrow> pyval res" where
  "ms_new_tool tool =
     res_bind (py_get tool ''function'' (PDict [])) (\<lambda>func.
     res_bind (py_index tool (PStr ''id'')) (\<lambda>i.
     res_bind (py_get func ''name'' (PStr [])) (\<lambda>n.
     res_bind (py_get func ''arguments'' (PStr [])) (\<lambda>a.
     res_bind (py_get tool ''type'' (PStr ''function'')) (\<lambda>t.
       Inr (PDict [(''id'', i), (''function'', PDict [(''name'', n), (''arguments'', a)]), (''type'', t)]))))))"

text \<open>\<open>tools[idx]["function"]["arguments"] += tool["function"].get("arguments", "")\<close>: the target is read first.\<close>

definition ms_append_args :: "pyval \<Rightarrow> pyval \<Rightarrow> pyval res" where
  "ms_append_args stored tool =
     res_bind (py_index stored (PStr ''function'')) (\<lambda>f.
     res_bind (py_index f (PStr ''arguments'')) (\<lambda>old.
     res_bind (py_index tool (PStr ''function'')) (\<lambda>func.
     res_bind (py_get func ''arguments'' (PStr [])) (\<lambda>a.
     res_bind (py_add old a) (\<lambda>v.
       case (stored, f) of
         (PDict sd, PDict fd) \<Rightarrow> Inr (PDict (dput ''function'' (PDict (dput ''arguments'' v fd)) sd))
       | _ \<Rightarrow> Inl (PyExc TypeError ''object does not support item assignment''))))))"

definition ms_tools_now :: "pv_scope \<Rightarrow> pyval list" where
  "ms_tools_now s = tool_list (pv_tools s)"

definition ms_tool_delta :: "pyval \<Rightarrow> (pv_scope, unit) prog" where
  "ms_tool_delta tool =
     pbind (plift (py_get tool ''index'' (PInt 0))) (\<lambda>i.
     case as_int i of
       None \<Rightarrow> praise (PyExc TypeError ''unsupported operand'')
     | Some idx \<Rightarrow>
         pbind (pmodify (\<lambda>s. s\<lparr>pv_tools := PList (extend_tools idx (ms_tools_now s))\<rparr>)) (\<lambda>_.
         pbind (plift (py_get tool ''id'' PNone)) (\<lambda>tid.
         pbind (pgets ms_tools_now) (\<lambda>tools.
         if py_truth tid then
           pbind (plift (ms_new_tool tool)) (\<lambda>t.
             case list_position tools idx of
               None \<Rightarrow> praise out_of_range
             | Some k \<Rightarrow> pmodify (\<lambda>s. s\<lparr>pv_tools := PList (tools[k := t])\<rparr>))
         else
           (case list_position tools idx of
              None \<Rightarrow> praise out_of_range
            | Some k \<Rightarrow>
                (if \<not> py_truth (tools ! k) then pret ()
                 else pbind (plift (py_in ''function'' tool)) (\<lambda>has_function.
                   pwhen has_function (pbind (plift (ms_append_args (tools ! k) tool)) (\<lambda>t.
                     pmodify (\<lambda>s. s\<lparr>pv_tools := PList (tools[k := t])\<rparr>))))))))))"

definition ms_delta :: "pyval \<Rightarrow> (pv_scope, unit) prog" where
  "ms_delta delta =
     pbind (plift (py_get delta ''content'' PNone)) (\<lambda>content.
     pbind (pwhen (py_truth content) (pv_append content)) (\<lambda>_.
     pbind (plift (py_get delta ''tool_calls'' PNone)) (\<lambda>delta_tools.
     pwhen (py_truth delta_tools)
       (pbind (pmodify (\<lambda>s. s\<lparr>pv_tools := PList (ms_tools_now s)\<rparr>)) (\<lambda>_.
        pbind (plift (py_iter delta_tools)) (\<lambda>ts. pfor ts ms_tool_delta))))))"

text \<open>\<open>usage.get("input_tokens_details") or usage.get("prompt_tokens_details", {})\<close> and its cached count.\<close>

definition ms_cached :: "pyval \<Rightarrow> pyval res" where
  "ms_cached usage =
     res_bind (py_get usage ''input_tokens_details'' PNone) (\<lambda>d1.
     res_bind (if py_truth d1 then Inr d1 else py_get usage ''prompt_tokens_details'' (PDict [])) (\<lambda>details.
     py_get details ''cached_tokens'' (PInt 0)))"

definition ms_usage :: "pyval \<Rightarrow> pyval \<Rightarrow> pyval \<Rightarrow> (pv_scope, unit) prog" where
  "ms_usage data choices usage =
     pbind (plift (py_get usage ''prompt_tokens'' (PInt 0))) (\<lambda>v.
     pbind (pmodify (\<lambda>s. s\<lparr>pv_input_tokens := v\<rparr>)) (\<lambda>_.
     pbind (plift (py_get usage ''completion_tokens'' (PInt 0))) (\<lambda>v.
     pbind (pmodify (\<lambda>s. s\<lparr>pv_output_tokens := v\<rparr>)) (\<lambda>_.
     pbind (plift (py_get data ''id'' PNone)) (\<lambda>v.
     pbind (pmodify (\<lambda>s. s\<lparr>pv_response_id := v\<rparr>)) (\<lambda>_.
     pbind (plift (py_get data ''model'' PNone)) (\<lambda>v.
     pbind (pmodify (\<lambda>s. s\<lparr>pv_response_model := v\<rparr>)) (\<lambda>_.
     pbind (plift (if py_truth choices then
         res_bind (py_index choices (PInt 0)) (\<lambda>c. py_get c ''finish_reason'' (PStr []))
       else Inr (PStr []))) (\<lambda>v.
     pbind (pmodify (\<lambda>s. s\<lparr>pv_finish_reason := v\<rparr>)) (\<lambda>_.
     pbind (plift (ms_cached usage)) (\<lambda>v.
     pbind (pmodify (\<lambda>s. s\<lparr>pv_cache_read := v\<rparr>)) (\<lambda>_.
     pbind (plift (py_get usage ''cache_creation_input_tokens'' (PInt 0))) (\<lambda>v.
     pmodify (\<lambda>s. s\<lparr>pv_cache_creation := v\<rparr>))))))))))))))"

definition ms_process_chunk :: "rat \<Rightarrow> pyval \<Rightarrow> (pv_scope, unit) prog" where
  "ms_process_chunk now chunk =
     pbind (pmodify (pv_stamp now)) (\<lambda>_.
     let chunked = response_as_dict chunk in
     pbind (plift (py_get chunked ''data'' PNone)) (\<lambda>data.
     pwhen (py_truth data)
       (pbind (plift (py_get data ''choices'' (PList []))) (\<lambda>choices.
        pbind (pwhen (py_truth choices)
          (pbind (plift (py_index choices (PInt 0))) (\<lambda>c.
           pbind (plift (py_in ''delta'' c)) (\<lambda>has_delta.
           pwhen has_delta (pbind (plift (py_index c (PStr ''delta''))) ms_delta))))) (\<lambda>_.
        pbind (plift (py_get data ''usage'' PNone)) (\<lambda>usage.
        pwhen (py_truth usage) (ms_usage data choices usage)))))))"

section \<open>The logic\<close>

definition ms_model :: "pv_scope \<Rightarrow> pyval" where
  "ms_model scope = pv_kwarg scope ''model'' (PStr ''mistral-small-latest'')"

definition ms_request_rows :: "(string \<times> string \<times> pyval) list" where
  "ms_request_rows = [
     (GEN_AI_REQUEST_SEED, ''seed'', PStr []),
     (GEN_AI_REQUEST_FREQUENCY_PENALTY, ''frequency_penalty'', PFloat 0),
     (GEN_AI_REQUEST_MAX_TOKENS, ''max_tokens'', PInt (-1)),
     (GEN_AI_REQUEST_PRESENCE_PENALTY, ''presence_penalty'', PFloat 0),
     (GEN_AI_REQUEST_STOP_SEQUENCES, ''stop_sequences'', PList []),
     (GEN_AI_REQUEST_TEMPERATURE, ''temperature'', PFloat (3 / 10)),
     (GEN_AI_REQUEST_TOP_K, ''k'', PFloat 1),
     (GEN_AI_REQUEST_TOP_P, ''p'', PFloat 1)]"

definition ms_response_attributes :: "pv_scope \<Rightarrow> (tele, unit) prog" where
  "ms_response_attributes scope =
     pbind (span_attr GEN_AI_RESPONSE_ID (pv_response_id scope)) (\<lambda>_.
     pbind (span_attr GEN_AI_RESPONSE_FINISH_REASON (PList [pv_finish_reason scope])) (\<lambda>_.
     span_attr GEN_AI_OUTPUT_TYPE (response_type (pv_llmresponse scope))))"

definition ms_event_extra :: "pv_scope \<Rightarrow> pyval \<times> pyval \<Rightarrow> (string \<times> pyval) list" where
  "ms_event_extra scope tokens =
     [(''response_id'', pv_response_id scope),
      (''finish_reasons'', PList [pv_finish_reason scope]),
      (''output_type'', response_type (pv_llmresponse scope)),
      (''temperature'', pv_kwarg scope ''temperature'' (PFloat (3 / 10))),
      (''max_tokens'', pv_kwarg scope ''max_tokens'' (PInt (-1))),
      (''top_p'', pv_kwarg scope ''p'' (PFloat 1)),
      (''frequency_penalty'', pv_kwarg scope ''frequency_penalty'' (PFloat 0)),
      (''presence_penalty'', pv_kwarg scope ''presence_penalty'' (PFloat 0)),
      (''stop_sequences'', pv_kwarg scope ''stop_sequences'' (PList [])),
      (''seed'', pv_kwarg scope ''seed'' (PStr [])),
      (''input_tokens'', fst tokens),
      (''output_tokens'', snd tokens),
      (''cache_read_input_tokens'', pv_cache_read scope),
      (''cache_creation_input_tokens'', pv_cache_creation scope)]"

definition ms_content :: "instr_env \<Rightarrow> pv_scope \<Rightarrow> pyval \<times> pyval \<Rightarrow> (tele, unit) prog" where
  "ms_content env scope tokens =
     pv_content env
       (ms_build_input_messages (pv_kwarg scope ''messages'' (PList [])))
       (ms_build_output_messages env (pv_llmresponse scope) (pv_finish_reason scope) (pv_tools scope))
       (pret ())
       (\<lambda>msgs. ms_emit_inference_event env (pv_inference scope (ms_model scope) msgs PNone) (ms_event_extra scope tokens))"

text \<open>The tokens are those of the usage; the text of the request is not needed.\<close>

definition ms_common_chat_logic :: "instr_env \<Rightarrow> bool \<Rightarrow> rat \<Rightarrow> pv_scope \<Rightarrow> (tele, unit) prog" where
  "ms_common_chat_logic env is_stream end_time scope =
     pv_chat_logic env GEN_AI_SYSTEM_MISTRAL is_stream end_time scope (ms_model scope)
       (Inr []) (\<lambda>_. Inr (pv_input_tokens scope, pv_output_tokens scope))
       (in_turn [request_attributes scope ms_request_rows, ms_response_attributes scope,
          pv_tool_list_attributes (ie_repr env) (pv_tools scope)])
       (ms_content env scope)"

definition ms_process_streaming :: "instr_env \<Rightarrow> rat \<Rightarrow> (pv_scope \<times> tele, unit) prog" where
  "ms_process_streaming env end_time = renew_span (stream_end (ms_common_chat_logic env True end_time))"

definition ms_finish_reason :: "(pyval \<Rightarrow> string) \<Rightarrow> pyval \<Rightarrow> pyval res" where
  "ms_finish_reason repr response_dict =
     res_bind (py_get response_dict ''choices'' PNone) (\<lambda>choices.
     if py_truth choices then
       res_bind (first_choice response_dict (PList []) ''finish_reason'' (PStr [])) (\<lambda>r. Inr (PStr (py_str repr r)))
     else Inr (PStr []))"

definition ms_response_scope :: "(pyval \<Rightarrow> string) \<Rightarrow> pyval \<Rightarrow> call \<Rightarrow> pv_scope res" where
  "ms_response_scope repr response_dict c =
     res_bind (response_text response_dict) (\<lambda>text.
     res_bind (py_get response_dict ''id'' PNone) (\<lambda>i.
     res_bind (py_get response_dict ''model'' PNone) (\<lambda>m.
     res_bind (py_get response_dict ''usage'' (PDict [])) (\<lambda>usage.
     res_bind (py_get usage ''prompt_tokens'' (PInt 0)) (\<lambda>input_tokens.
     res_bind (py_get usage ''completion_tokens'' (PInt 0)) (\<lambda>output_tokens.
     res_bind (ms_finish_reason repr response_dict) (\<lambda>reason.
     res_bind (answer_tools (ca_kwargs c) response_dict) (\<lambda>tools.
     res_bind (ms_cached usage) (\<lambda>cached.
     res_bind (py_get usage ''cache_creation_input_tokens'' (PInt 0)) (\<lambda>creation.
     let ck = ca_clock c in
     Inr ((fresh_pv_scope (ca_kwargs c) (ca_server_address c) (ca_server_port c) (ck_start ck))
       \<lparr>pv_ttft := ck_end ck - ck_start ck, pv_llmresponse := PStr text, pv_response_id := i, pv_response_model := m,
        pv_finish_reason := reason, pv_input_tokens := input_tokens, pv_output_tokens := output_tokens,
        pv_cache_read := cached, pv_cache_creation := creation, pv_tools := tools\<rparr>)))))))))))"

definition ms_process_chat_response :: "instr_env \<Rightarrow> call \<Rightarrow> api_result \<Rightarrow> (tele, unit) prog" where
  "ms_process_chat_response env c r =
     pbind (plift (ms_response_scope (ie_repr env) (response_as_dict (api_object r)) c)) (\<lambda>scope.
     ms_common_chat_logic env False (ck_logic (ca_clock c)) scope)"

section \<open>The wrappers\<close>

definition ms_failure :: "instr_env \<Rightarrow> call \<Rightarrow> pyexc \<Rightarrow> (tele, unit) prog" where
  "ms_failure = pv_failure GEN_AI_SYSTEM_MISTRAL (PStr ''mistral-small-latest'')"

definition mistral_complete :: "instr_env \<Rightarrow> pyval \<Rightarrow> api_result res \<Rightarrow> (string, pyval) dict \<Rightarrow> clock \<Rightarrow> (tele, pv_reply) prog" where
  "mistral_complete = plain_call ''api.mistral.ai'' 443 ms_process_chat_response ms_failure"

definition mistral_stream :: "instr_env \<Rightarrow> pyval \<Rightarrow> api_result res \<Rightarrow> (string, pyval) dict \<Rightarrow> clock \<Rightarrow> (tele, pv_reply) prog" where
  "mistral_stream = stream_call ''api.mistral.ai'' 443"

definition async_mistral_complete :: "instr_env \<Rightarrow> pyval \<Rightarrow> api_result res \<Rightarrow> (string, pyval) dict \<Rightarrow> clock \<Rightarrow> (tele, pv_reply) prog" where
  "async_mistral_complete = plain_call ''api.mistral.ai'' 443 ms_process_chat_response ms_failure"

definition async_mistral_stream :: "instr_env \<Rightarrow> pyval \<Rightarrow> api_result res \<Rightarrow> (string, pyval) dict \<Rightarrow> clock \<Rightarrow> (tele, pv_reply) prog" where
  "async_mistral_stream = stream_call ''api.mistral.ai'' 443"

definition mistral_wrappers ::
  "(string \<times> string \<times> (instr_env \<Rightarrow> pyval \<Rightarrow> api_result res \<Rightarrow> (string, pyval) dict \<Rightarrow> clock \<Rightarrow> (tele, pv_reply) prog)) list" where
  "mistral_wrappers = [
     (''mistralai.chat'', ''Chat.complete'', mistral_complete),
     (''mistralai.chat'', ''Chat.stream'', mistral_stream),
     (''mistralai.chat'', ''Chat.complete_async'', async_mistral_complete),
     (''mistralai.chat'', ''Chat.stream_async'', async_mistral_stream)]"

end
