(* ===== verification/Groq.thy ===== *)
theory Groq
  imports Provider
begin

text \<open>
  \<open>openlit/instrumentation/groq\<close>: message formats, the chunk processor, \<open>common_chat_logic\<close> with its two callers,
  and the call wrappers of \<open>groq.py\<close> and \<open>async_groq.py\<close>.
\<close>

section \<open>Messages\<close>

definition gq_format_content :: "(pyval \<Rightarrow> string) \<Rightarrow> pyval \<Rightarrow> string res" where
  "gq_format_content repr messages =
     res_bind (py_iter messages) (\<lambda>ms.
     res_bind (res_map (\<lambda>m.
       res_bind (py_index m (PStr ''role'')) (\<lambda>role.
       res_bind (py_index m (PStr ''content'')) (\<lambda>content. typed_content repr role content))) ms) (\<lambda>ls.
     Inr (py_join [CHR 0x0A] ls)))"

definition gq_input_item :: "(pyval \<Rightarrow> string) \<Rightarrow> pyval \<Rightarrow> pyval list res" where
  "gq_input_item repr item =
     (case item of
        PDict d \<Rightarrow>
          (let item_type = dget_or d ''type'' PNone in
           if item_type = PStr ''text'' then
             (let t = dget_or d ''text'' (PStr []) in Inr (if py_truth t then [text_part t] else []))
           else if item_type = PStr ''image_url'' then
             res_bind (py_get (py_or (dget_or d ''image_url'' PNone) (PDict [])) ''url'' (PStr [])) (\<lambda>url.
               Inr (if py_truth url \<and> \<not> startswith (py_str repr url) ''data:'' then [uri_part url] else []))
           else Inr [])
      | _ \<Rightarrow> Inr [])"

text \<open>The answer of a tool is one part, whatever its content holds.\<close>

definition gq_input_message :: "(pyval \<Rightarrow> string) \<Rightarrow> pyval \<Rightarrow> pyval option res" where
  "gq_input_message repr message =
     (let role = msg_field message ''role'' (PStr ''user''); content = msg_field message ''content'' (PStr []) in
      res_bind (case content of
          PList items \<Rightarrow> res_bind (res_map (gq_input_item repr) items) (\<lambda>ps. Inr (concat ps))
        | PStr s \<Rightarrow> Inr (if s \<noteq> [] then [text_part content] else [])
        | _ \<Rightarrow> Inr []) (\<lambda>parts.
      Inr (parts_message role
        (if role = PStr ''tool'' then
           [tool_response_part (msg_field message ''tool_call_id'' (PStr [])) (PStr (py_str repr content))]
         else parts))))"

definition gq_build_input_messages :: "(pyval \<Rightarrow> string) \<Rightarrow> pyval \<Rightarrow> (log_line list, pyval list) prog" where
  "gq_build_input_messages repr messages =
     (if \<not> py_truth messages then pret []
      else pbind (plift (py_iter messages)) (\<lambda>ms.
        logged_loop ''Failed to process input message: %s'' (gq_input_message repr) ms []))"

definition gq_finish_reasons :: "(string, string) dict" where
  "gq_finish_reasons = [(''stop'', ''stop''), (''length'', ''length''), (''content_filter'', ''content_filter''),
     (''tool_calls'', ''tool_call''), (''function_call'', ''tool_call'')]"

definition gq_tool_part :: "pyval \<Rightarrow> pyval list res" where
  "gq_tool_part t =
     (case t of
        PDict d \<Rightarrow>
          (let f = dget_or d ''function'' (PDict []) in
           res_bind (py_get f ''name'' (PStr [])) (\<lambda>n.
           res_bind (py_get f ''arguments'' (PDict [])) (\<lambda>a.
           Inr [tool_call_part (dget_or d ''id'' (PStr [])) n a])))
      | _ \<Rightarrow> Inr [])"

definition gq_output_message :: "pyval \<Rightarrow> pyval \<Rightarrow> pyval \<Rightarrow> pyval res" where
  "gq_output_message answer finish_reason tool_calls =
     res_bind (if py_truth tool_calls then
         res_bind (res_map gq_tool_part (case tool_calls of PList ts \<Rightarrow> ts | _ \<Rightarrow> [tool_calls])) (\<lambda>ps. Inr (concat ps))
       else Inr []) (\<lambda>calls.
     res_bind (mapped_reason gq_finish_reasons finish_reason) (\<lambda>reason.
     Inr (assistant_message ((if py_truth answer then [text_part answer] else []) @ calls) reason)))"

definition gq_build_output_messages :: "pyval \<Rightarrow> pyval \<Rightarrow> pyval \<Rightarrow> (log_line list, pyval list) prog" where
  "gq_build_output_messages answer finish_reason tool_calls =
     guarded_output (gq_output_message answer finish_reason tool_calls)"

definition gq_extra_key :: "string \<Rightarrow> string" where
  "gq_extra_key key = dget_or [
     (''response_id'', GEN_AI_RESPONSE_ID),
     (''finish_reasons'', GEN_AI_RESPONSE_FINISH_REASON),
     (''output_type'', GEN_AI_OUTPUT_TYPE),
     (''conversation_id'', GEN_AI_CONVERSATION_ID),
     (''temperature'', GEN_AI_REQUEST_TEMPERATURE),
     (''max_tokens'', GEN_AI_REQUEST_MAX_TOKENS),
     (''top_p'', GEN_AI_REQUEST_TOP_P),
     (''frequency_penalty'', GEN_AI_REQUEST_FREQUENCY_PENALTY),
     (''presence_penalty'', GEN_AI_REQUEST_PRESENCE_PENALTY),
     (''stop_sequences'', GEN_AI_REQUEST_STOP_SEQUENCES),
     (''seed'', GEN_AI_REQUEST_SEED),
     (''choice_count'', GEN_AI_REQUEST_CHOICE_COUNT),
     (''n'', GEN_AI_REQUEST_CHOICE_COUNT),
     (''input_tokens'', GEN_AI_USAGE_INPUT_TOKENS),
     (''output_tokens'', GEN_AI_USAGE_OUTPUT_TOKENS),
     (''cache_read_input_tokens'', GEN_AI_USAGE_CACHE_READ_INPUT_TOKENS),
     (''cache_creation_input_tokens'', GEN_AI_USAGE_CACHE_CREATION_INPUT_TOKENS),
     (''error_type'', ERROR_TYPE),
     (''system_instructions'', GEN_AI_SYSTEM_INSTRUCTIONS)] key key"

definition gq_emit_inference_event :: "instr_env \<Rightarrow> inference \<Rightarrow> (string \<times> pyval) list \<Rightarrow> (tele, unit) prog" where
  "gq_emit_inference_event env = pv_emit env gq_extra_key skip_one_choice False"

section \<open>Chunks\<close>

text \<open>The usage that comes with the last chunk, each value stored as it is read.\<close>

definition gq_usage :: "pyval \<Rightarrow> pyval \<Rightarrow> pyval \<Rightarrow> (pv_scope, unit) prog" where
  "gq_usage chunked x_groq usage =
     pbind (plift (py_get usage ''prompt_tokens'' PNone)) (\<lambda>v.
     pbind (pmodify (\<lambda>s. s\<lparr>pv_input_tokens := v\<rparr>)) (\<lambda>_.
     pbind (plift (py_get usage ''completion_tokens'' PNone)) (\<lambda>v.
     pbind (pmodify (\<lambda>s. s\<lparr>pv_output_tokens := v\<rparr>)) (\<lambda>_.
     pbind (plift (detail_count usage ''prompt_tokens_details'' ''cached_tokens'')) (\<lambda>v.
     pbind (pmodify (\<lambda>s. s\<lparr>pv_cache_read := v\<rparr>)) (\<lambda>_.
     pbind (plift (detail_count usage ''input_tokens_details'' ''cache_creation_tokens'')) (\<lambda>v.
     pbind (pmodify (\<lambda>s. s\<lparr>pv_cache_creation := v\<rparr>)) (\<lambda>_.
     pbind (plift (py_get x_groq ''id'' PNone)) (\<lambda>v.
     pbind (pmodify (\<lambda>s. s\<lparr>pv_response_id := v\<rparr>)) (\<lambda>_.
     pbind (plift (py_get x_groq ''model'' PNone)) (\<lambda>v.
     pbind (pmodify (\<lambda>s. s\<lparr>pv_response_model := v\<rparr>)) (\<lambda>_.
     pbind (plift (first_choice chunked (PList [PDict []]) ''finish_reason'' PNone)) (\<lambda>v.
     pbind (pmodify (\<lambda>s. s\<lparr>pv_finish_reason := v\<rparr>)) (\<lambda>_.
     pbind (plift (py_get x_groq ''system_fingerprint'' PNone)) (\<lambda>v.
     pmodify (\<lambda>s. s\<lparr>pv_system_fingerprint := v\<rparr>))))))))))))))))"

definition gq_process_chunk :: "rat \<Rightarrow> pyval \<Rightarrow> (pv_scope, unit) prog" where
  "gq_process_chunk now chunk =
     pbind (pmodify (pv_stamp now)) (\<lambda>_.
     let chunked = response_as_dict chunk in
     pbind (pv_delta_content chunked) (\<lambda>_.
     pbind (plift (py_get chunked ''x_groq'' PNone)) (\<lambda>x_groq.
     pwhen (x_groq \<noteq> PNone)
       (pbind (plift (py_get x_groq ''usage'' PNone)) (\<lambda>usage.
        pwhen (usage \<noteq> PNone) (gq_usage chunked x_groq usage))))))"

section \<open>The logic\<close>

definition gq_model :: "pv_scope \<Rightarrow> pyval" where
  "gq_model scope = pv_kwarg scope ''model'' (PStr ''mixtral-8x7b-32768'')"

definition gq_tokens :: "string \<Rightarrow> pv_scope \<Rightarrow> (pyval \<times> pyval) res" where
  "gq_tokens prompt scope =
     (if pv_input_tokens scope \<noteq> PNone \<and> pv_output_tokens scope \<noteq> PNone then
        Inr (pv_input_tokens scope, pv_output_tokens scope)
      else res_bind (value_tokens (pv_llmresponse scope)) (\<lambda>n. Inr (PInt (general_tokens prompt), n)))"

definition gq_request_rows :: "(string \<times> string \<times> pyval) list" where
  "gq_request_rows = [
     (GEN_AI_REQUEST_SEED, ''seed'', PStr []),
     (GEN_AI_REQUEST_FREQUENCY_PENALTY, ''frequency_penalty'', PFloat 0),
     (GEN_AI_REQUEST_MAX_TOKENS, ''max_completion_tokens'', PInt (-1)),
     (GEN_AI_REQUEST_PRESENCE_PENALTY, ''presence_penalty'', PFloat 0),
     (GEN_AI_REQUEST_STOP_SEQUENCES, ''stop'', PList []),
     (GEN_AI_REQUEST_TEMPERATURE, ''temperature'', PFloat 1),
     (GEN_AI_REQUEST_TOP_P, ''top_p'', PFloat 1),
     (GEN_AI_REQUEST_USER, ''user'', PStr []),
     (GEN_AI_REQUEST_SERVICE_TIER, ''service_tier'', PStr ''on_demand'')]"

definition gq_response_attributes :: "pv_scope \<Rightarrow> (tele, unit) prog" where
  "gq_response_attributes scope =
     pbind (pwhen (py_truth (pv_response_id scope)) (span_attr GEN_AI_RESPONSE_ID (pv_response_id scope))) (\<lambda>_.
     pbind (span_attr GEN_AI_RESPONSE_FINISH_REASON (PList [pv_finish_reason scope])) (\<lambda>_.
     pbind (pwhen (py_truth (pv_system_fingerprint scope))
       (span_attr GEN_AI_RESPONSE_SYSTEM_FINGERPRINT (pv_system_fingerprint scope))) (\<lambda>_.
     span_attr GEN_AI_OUTPUT_TYPE (response_type (pv_llmresponse scope)))))"

definition gq_event_extra :: "pv_scope \<Rightarrow> pyval \<times> pyval \<Rightarrow> (string \<times> pyval) list" where
  "gq_event_extra scope tokens =
     [(''cache_read_input_tokens'', pv_cache_read scope),
      (''cache_creation_input_tokens'', pv_cache_creation scope),
      (''response_id'', pv_response_id scope),
      (''finish_reasons'', PList [pv_finish_reason scope]),
      (''output_type'', response_type (pv_llmresponse scope)),
      (''temperature'', pv_kwarg scope ''temperature'' PNone),
      (''max_tokens'', pv_kwarg scope ''max_completion_tokens'' PNone),
      (''top_p'', pv_kwarg scope ''top_p'' PNone),
      (''frequency_penalty'', pv_kwarg scope ''frequency_penalty'' PNone),
      (''presence_penalty'', pv_kwarg scope ''presence_penalty'' PNone),
      (''stop_sequences'', pv_kwarg scope ''stop'' PNone),
      (''seed'', pv_kwarg scope ''seed'' PNone),
      (''input_tokens'', fst tokens),
      (''output_tokens'', snd tokens)]"

definition gq_content :: "instr_env \<Rightarrow> pv_scope \<Rightarrow> pyval \<times> pyval \<Rightarrow> (tele, unit) prog" where
  "gq_content env scope tokens =
     pv_content env
       (gq_build_input_messages (ie_repr env) (pv_kwarg scope ''messages'' (PList [])))
       (gq_build_output_messages (pv_llmresponse scope) (pv_finish_reason scope) (pv_tools scope))
       (pret ())
       (\<lambda>msgs. gq_emit_inference_event env (pv_inference scope (gq_model scope) msgs PNone) (gq_event_extra scope tokens))"

definition gq_common_chat_logic :: "instr_env \<Rightarrow> bool \<Rightarrow> rat \<Rightarrow> pv_scope \<Rightarrow> (tele, unit) prog" where
  "gq_common_chat_logic env is_stream end_time scope =
     pv_chat_logic env GEN_AI_SYSTEM_GROQ is_stream end_time scope (gq_model scope)
       (gq_format_content (ie_repr env) (pv_kwarg scope ''messages'' (PList [])))
       (\<lambda>prompt. gq_tokens prompt scope)
       (in_turn [request_attributes scope gq_request_rows, gq_response_attributes scope,
          pv_tool_attributes (ie_repr env) (pv_tools scope)])
       (gq_content env scope)"

definition gq_process_streaming :: "instr_env \<Rightarrow> rat \<Rightarrow> (pv_scope \<times> tele, unit) prog" where
  "gq_process_streaming env end_time = renew_span (stream_end (gq_common_chat_logic env True end_time))"

definition gq_response_scope :: "(pyval \<Rightarrow> string) \<Rightarrow> pyval \<Rightarrow> call \<Rightarrow> pv_scope res" where
  "gq_response_scope repr response_dict c =
     res_bind (response_text response_dict) (\<lambda>text.
     res_bind (py_get response_dict ''id'' PNone) (\<lambda>i.
     res_bind (py_get response_dict ''model'' PNone) (\<lambda>m.
     res_bind (py_get response_dict ''usage'' (PDict [])) (\<lambda>usage.
     res_bind (py_get usage ''prompt_tokens'' (PInt 0)) (\<lambda>input_tokens.
     res_bind (py_get usage ''completion_tokens'' (PInt 0)) (\<lambda>output_tokens.
     res_bind (detail_count usage ''prompt_tokens_details'' ''cached_tokens'') (\<lambda>cached.
     res_bind (detail_count usage ''input_tokens_details'' ''cache_creation_tokens'') (\<lambda>creation.
     res_bind (py_get response_dict ''system_fingerprint'' PNone) (\<lambda>fp.
     res_bind (first_choice response_dict (PList []) ''finish_reason'' (PStr [])) (\<lambda>reason.
     res_bind (answer_tools (ca_kwargs c) response_dict) (\<lambda>tools.
     let ck = ca_clock c in
     Inr ((fresh_pv_scope (ca_kwargs c) (ca_server_address c) (ca_server_port c) (ck_start ck))
       \<lparr>pv_ttft := ck_end ck - ck_start ck, pv_llmresponse := PStr text, pv_response_id := i,
        pv_response_model := py_or m (dget_or (ca_kwargs c) ''model'' (PStr ''mixtral-8x7b-32768'')),
        pv_finish_reason := PStr (py_str repr reason), pv_input_tokens := input_tokens, pv_output_tokens := output_tokens,
        pv_cache_read := cached, pv_cache_creation := creation, pv_system_fingerprint := fp, pv_tools := tools\<rparr>))))))))))))"

definition gq_process_chat_response :: "instr_env \<Rightarrow> call \<Rightarrow> api_result \<Rightarrow> (tele, unit) prog" where
  "gq_process_chat_response env c r =
     pbind (plift (gq_response_scope (ie_repr env) (response_as_dict (api_object r)) c)) (\<lambda>scope.
     gq_common_chat_logic env False (ck_logic (ca_clock c)) scope)"

section \<open>The wrappers\<close>

definition gq_failure :: "instr_env \<Rightarrow> call \<Rightarrow> pyexc \<Rightarrow> (tele, unit) prog" where
  "gq_failure = pv_failure GEN_AI_SYSTEM_GROQ (PStr ''mixtral-8x7b-32768'')"

definition groq_chat :: "instr_env \<Rightarrow> pyval \<Rightarrow> api_result res \<Rightarrow> (string, pyval) dict \<Rightarrow> clock \<Rightarrow> (tele, pv_reply) prog" where
  "groq_chat = provider_call ''api.groq.com'' 443 gq_process_chat_response gq_failure"

definition async_groq_chat :: "instr_env \<Rightarrow> pyval \<Rightarrow> api_result res \<Rightarrow> (string, pyval) dict \<Rightarrow> clock \<Rightarrow> (tele, pv_reply) prog" where
  "async_groq_chat = provider_call ''api.groq.com'' 443 gq_process_chat_response gq_failure"

definition groq_wrappers ::
  "(string \<times> string \<times> (instr_env \<Rightarrow> pyval \<Rightarrow> api_result res \<Rightarrow> (string, pyval) dict \<Rightarrow> clock \<Rightarrow> (tele, pv_reply) prog)) list" where
  "groq_wrappers = [
     (''groq.resources.chat.completions'', ''Completions.create'', groq_chat),
     (''groq.resources.chat.completions'', ''AsyncCompletions.create'', async_groq_chat)]"

end
