(* ===== verification/GroqProps.thy ===== *)
theory GroqProps
  imports Groq ProviderProps
begin

text \<open>
  Groq chat completions satisfy the contract of a streaming chat provider; the telemetry that goes wrong
  nevertheless.
\<close>

section \<open>The contract\<close>

lemma ordinary_groq [ordinary_intros]:
  "ordinary (gq_format_content repr ms)" "ordinary (gq_tokens prompt scope)" "ordinary (gq_output_message answer reason calls)"
  unfolding gq_format_content_def gq_tokens_def gq_output_message_def gq_tool_part_def Let_def
  by (rule ordinary_intros | simp)+

lemma ordinary_gq_input [ordinary_intros]: "ordinary (gq_input_message repr m)"
  unfolding gq_input_message_def gq_input_item_def Let_def by (rule ordinary_intros | simp)+

lemma ordinary_gq_scope [ordinary_intros]: "ordinary (gq_response_scope repr d c)"
  unfolding gq_response_scope_def Let_def by (rule ordinary_intros)+

lemma raises_gq_messages [raises_intros]:
  "raises_only is_Exception (gq_build_input_messages repr ms)"
  "raises_only P (gq_build_output_messages answer reason calls)"
  unfolding gq_build_input_messages_def gq_build_output_messages_def
  by (auto intro!: raises_intros ordinary_intros)

lemma raises_gq_attributes [raises_intros]: "raises_only P (gq_response_attributes scope)"
  unfolding gq_response_attributes_def by (auto intro!: raises_intros)

lemma raises_gq_content [raises_intros]:
  assumes "tame env"
  shows "raises_only is_Exception (gq_content env scope tokens)"
  unfolding gq_content_def gq_emit_inference_event_def
  by (intro raises_intros ordinary_intros assms)

lemma raises_gq_logic [raises_intros]:
  assumes "usable env"
  shows "raises_only is_Exception (gq_common_chat_logic env st t scope)"
proof -
  have "tame env" using assms by (simp add: usable_def)
  then show ?thesis
    unfolding gq_common_chat_logic_def
    by (intro raises_pv_logic assms raises_intros ordinary_intros) (auto intro!: raises_intros)
qed

lemma discreet_gq_logic: "\<not> ie_capture_message_content env \<Longrightarrow> discreet (gq_common_chat_logic env st t scope)"
  unfolding gq_common_chat_logic_def gq_request_rows_def gq_response_attributes_def
  by (rule discreet_logic) (auto intro!: discreet_intros simp: content_keys_def semconv)

interpretation groq: chat_provider gq_process_chat_response gq_failure "''api.groq.com''" 443
proof
  fix env c r e
  show "raises_only is_Exception (gq_process_chat_response env c r)" if "usable env"
    unfolding gq_process_chat_response_def using that by (auto intro!: raises_intros ordinary_intros)
  show "returns (gq_failure env c e)" if "usable env" using that by (simp add: gq_failure_def pv_failure_laws)
  show "keeps (span_view content_keys) (gq_failure env c e) \<and> keeps tl_events (gq_failure env c e)"
    by (simp add: gq_failure_def pv_failure_laws)
  show "keeps (span_view content_keys) (gq_process_chat_response env c r) \<and> keeps tl_events (gq_process_chat_response env c r)"
    if "\<not> ie_capture_message_content env"
    using discreet_gq_logic [OF that] unfolding gq_process_chat_response_def by (auto simp: discreet_def intro!: keeps_intros)
qed

section \<open>Chunks\<close>

text \<open>A chunk whose parts have the types of the API; the one with the usage comes with a choice.\<close>

definition delta_readable :: "pyval \<Rightarrow> bool" where
  "delta_readable e =
     (case dget_or (fields e) ''choices'' (PList []) of
        PList [] \<Rightarrow> True
      | PList (c # cs) \<Rightarrow> is_dict c \<and> is_dict (dget_or (fields c) ''delta'' (PDict []))
          \<and> optional is_str (field (dget_or (fields c) ''delta'' (PDict [])) ''content'')
      | _ \<Rightarrow> False)"

definition gq_readable :: "pyval \<Rightarrow> bool" where
  "gq_readable chunk =
     (let e = response_as_dict chunk; x = field e ''x_groq''; u = field x ''usage'' in
      is_dict e \<and> delta_readable e \<and> (x = PNone \<or> is_dict x \<and> (u = PNone \<or> is_dict u
        \<and> list_all (\<lambda>k. optional is_dict (field u k)) [''prompt_tokens_details'', ''input_tokens_details'']
        \<and> dget_or (fields e) ''choices'' (PList [PDict []]) \<noteq> PList [])))"

lemma py_get_field: "is_dict v \<Longrightarrow> py_get v k d = Inr (dget_or (fields v) k d)"
  by (cases v) simp_all

lemma py_in_dict: "is_dict v \<Longrightarrow> \<exists>b. py_in k v = Inr b"
  by (cases v) (simp_all add: py_in_def)

lemma delta_content_run:
  assumes "is_dict e" and "delta_readable e" and "is_str (pv_llmresponse s)"
  shows "\<exists>s'. pv_delta_content e s = (Inr (), s') \<and> is_str (pv_llmresponse s')"
proof -
  obtain cs where cs: "dget_or (fields e) ''choices'' (PList []) = PList cs"
    using assms(2) by (auto simp: delta_readable_def split: pyval.splits)
  show ?thesis
  proof (cases cs)
    case Nil
    with cs assms(1,3) show ?thesis by (simp add: pv_delta_content_def py_get_field)
  next
    case (Cons c cs')
    let ?d = "dget_or (fields c) ''delta'' (PDict [])"
    from assms(2) cs Cons have c: "is_dict c" "is_dict ?d" "optional is_str (field ?d ''content'')"
      by (simp_all add: delta_readable_def)
    from py_in_dict [OF c(1), of "''delta''"] py_in_dict [OF c(2), of "''content''"] obtain b1 b2 where
      b: "py_in ''delta'' c = Inr b1" "py_in ''content'' ?d = Inr b2" by blast
    from assms(3) obtain r where r: "pv_llmresponse s = PStr r" by (auto elim!: is_strE)
    from optional_str [OF c(3)] r assms(3) show ?thesis
      by (auto simp: pv_delta_content_def py_get_field [OF assms(1)] py_get_field [OF c(1)] py_get_dict [OF c(2)] cs Cons b
          pwhen_def pv_append_def py_add_str)
  qed
qed

lemma detail_count_run:
  assumes "is_dict u" and "optional is_dict (field u k)"
  shows "\<exists>n. detail_count u k k' = Inr n"
  by (simp add: detail_count_def py_get_dict [OF assms(1)] optional_dict [OF assms(2)] count_of_dict)

lemma gq_usage_run:
  assumes "is_dict x" and "is_dict u" and "\<exists>v. first_choice e (PList [PDict []]) ''finish_reason'' PNone = Inr v"
    and "optional is_dict (field u ''prompt_tokens_details'')" and "optional is_dict (field u ''input_tokens_details'')"
  shows "\<exists>s'. gq_usage e x u s = (Inr (), s') \<and> pv_llmresponse s' = pv_llmresponse s"
proof -
  from detail_count_run [OF assms(2,4), of "''cached_tokens''"] detail_count_run [OF assms(2,5), of "''cache_creation_tokens''"]
    assms(3) obtain n1 n2 v where "detail_count u ''prompt_tokens_details'' ''cached_tokens'' = Inr n1"
    "detail_count u ''input_tokens_details'' ''cache_creation_tokens'' = Inr n2"
    "first_choice e (PList [PDict []]) ''finish_reason'' PNone = Inr v" by blast
  then show ?thesis by (simp add: gq_usage_def py_get_dict [OF assms(1)] py_get_dict [OF assms(2)])
qed

lemma first_choice_run:
  assumes "is_dict e" and "delta_readable e" and "dget_or (fields e) ''choices'' (PList [PDict []]) \<noteq> PList []"
  shows "\<exists>v. first_choice e (PList [PDict []]) k PNone = Inr v"
proof (cases "dmem ''choices'' (fields e)")
  case True
  then obtain cs where "dget (fields e) ''choices'' = Some cs" by (auto simp: dmem_def dget_def)
  with assms show ?thesis
    by (auto simp: first_choice_def py_get_field dget_or_def delta_readable_def split: pyval.splits list.splits)
next
  case False
  then have "dget (fields e) ''choices'' = None" by (auto simp: dmem_def dget_def)
  with assms(1) show ?thesis by (simp add: first_choice_def py_get_field dget_or_def)
qed

lemma gq_chunk_processed:
  assumes "gq_readable c" and "is_str (pv_llmresponse s)"
  shows "\<exists>s'. gq_process_chunk now c s = (Inr (), s') \<and> is_str (pv_llmresponse s')"
proof -
  let ?e = "response_as_dict c"
  let ?x = "field ?e ''x_groq''"
  let ?u = "field ?x ''usage''"
  from assms(1) have e: "is_dict ?e" "delta_readable ?e" by (simp_all add: gq_readable_def Let_def)
  from delta_content_run [OF e, of "pv_stamp now s"] assms(2) obtain s1 where
    s1: "pv_delta_content ?e (pv_stamp now s) = (Inr (), s1)" "is_str (pv_llmresponse s1)" by auto
  consider "?x = PNone" | "?x \<noteq> PNone" "is_dict ?x" "?u = PNone"
    | "?x \<noteq> PNone" "is_dict ?x" "?u \<noteq> PNone" "is_dict ?u" "optional is_dict (field ?u ''prompt_tokens_details'')"
      "optional is_dict (field ?u ''input_tokens_details'')" "dget_or (fields ?e) ''choices'' (PList [PDict []]) \<noteq> PList []"
    using assms(1) unfolding gq_readable_def Let_def by auto
  then show ?thesis
  proof cases
    case 3
    from gq_usage_run [OF 3(2,4) first_choice_run [OF e 3(7)] 3(5,6), of s1] s1 3 show ?thesis
      by (auto simp: gq_process_chunk_def Let_def pbind_def [of "pv_delta_content ?e"] py_get_dict [OF e(1)] py_get_dict [OF 3(2)])
  qed (use s1 in \<open>auto simp: gq_process_chunk_def Let_def pbind_def [of "pv_delta_content ?e"] py_get_dict [OF e(1)] py_get_dict\<close>)
qed

lemma gq_chunk_spans: "keeps pv_spans (gq_process_chunk now c)"
  unfolding gq_process_chunk_def gq_usage_def pv_delta_content_def pv_append_def Let_def
  by (rule keeps_intros | simp)+

interpretation groq_stream: streaming_provider "''api.groq.com''" 443 gq_process_streaming
    gq_process_chunk gq_readable "\<lambda>s. is_str (pv_llmresponse s)"
proof
  fix env end_time
  show "raises_only is_Exception (gq_process_streaming env end_time)" if "usable env"
    unfolding gq_process_streaming_def by (intro raises_intros that)
  show "quiet_end (gq_process_streaming env end_time)" if "\<not> ie_capture_message_content env"
    unfolding gq_process_streaming_def by (intro quiet_renewed quiet_stream_end discreet_gq_logic that)
qed (simp_all add: fresh_pv_scope_def gq_chunk_processed gq_chunk_spans)

section \<open>The lost span\<close>

text \<open>The span that the wrapper of a Groq stream starts is never ended: at the end of the stream a second span takes
  its place and carries the telemetry, and the first one, open and empty, is dropped.\<close>

theorem groq_stream_span_lost:
  assumes address: "set_server_address_and_port client ''api.groq.com'' 443 = Inr (a, p)"
    and stream: "py_truth (dget_or kwargs ''stream'' (PBool False))"
    and call: "groq_chat env client wrapped kwargs ck t = (Inr (StreamReply st), t')"
    and ended: "consume gq_process_chunk (gq_process_streaming env end_time) clock st = (cs, Some e, st')"
      "exc_class e = StopIteration"
  shows "\<exists>sp. pv_spans (st_scope st') = [sp] \<and> sp = tl_span (st_tele st) \<and> \<not> sp_ended sp \<and> sp_attributes sp = []"
proof -
  from call address stream obtain r where st: "st = \<lparr>st_wrapped = api_items r, st_scope = fresh_pv_scope kwargs a p (ck_start ck),
      st_tele = on_span (\<lambda>_. fresh_span) t, st_finished = 0\<rparr>"
    by (cases wrapped) (auto simp: groq_chat_def provider_call_def stream_call_def)
  from consume_renews [OF gq_chunk_spans ended(1) [unfolded gq_process_streaming_def] ended(2)] show ?thesis
    by (simp add: st fresh_pv_scope_def on_span_def fresh_span_def)
qed

lemma groq_sample: "set_server_address_and_port PNone ''api.groq.com'' 443 = Inr (PStr ''api.groq.com'', PInt 443)"
  by (simp add: set_server_address_and_port_def base_url_of_def)

lemma sample_usable: "usable sample_env"
  using sample_env_tame by (simp add: usable_def)

theorem groq_stream_span_lost_witness:
  "\<exists>st st' sp. groq_chat sample_env PNone (Inr (ApiStream [])) [(''stream'', PBool True)] sample_clock fresh_tele
       = (Inr (StreamReply st), fresh_tele)
     \<and> consume gq_process_chunk (gq_process_streaming sample_env 105) [105] st = ([], Some stop_iteration, st')
     \<and> pv_spans (st_scope st') = [sp] \<and> \<not> sp_ended sp"
proof -
  have stream: "py_truth (dget_or [(''stream'', PBool True)] ''stream'' (PBool False))" by simp
  obtain st st' where run: "groq_chat sample_env PNone (Inr (ApiStream (map Inr []))) [(''stream'', PBool True)] sample_clock fresh_tele
       = (Inr (StreamReply st), fresh_tele)"
    "consume gq_process_chunk (gq_process_streaming sample_env 105) [105] st = ([], Some stop_iteration, st')"
    using groq_stream.stream_delivered [OF sample_usable groq_sample, of "[]" "[105]" "[(''stream'', PBool True)]" sample_clock fresh_tele 105]
    by (auto simp: groq_chat_def groq_stream.provider_stream [OF stream])
  have stop: "exc_class stop_iteration = StopIteration" by (simp add: stop_iteration_def)
  from groq_stream_span_lost [OF groq_sample stream run stop] run show ?thesis by auto
qed

section \<open>Tool calls\<close>

lemma gq_attributes_keep:
  "keeps usage_view (request_attributes scope gq_request_rows)" "keeps usage_view (gq_response_attributes scope)"
proof -
  show "keeps usage_view (request_attributes scope gq_request_rows)"
    by (rule keeps_usage_rows) (simp add: gq_request_rows_def usage_keys_def semconv)
  show "keeps usage_view (gq_response_attributes scope)"
    unfolding gq_response_attributes_def
    by (intro keeps_pbind keeps_pwhen keeps_usage_attr) (simp_all add: usage_keys_def semconv)
qed

text \<open>The logic stops at the tool calls, which the API gives as a list.\<close>

lemma gq_logic_stops:
  assumes "gq_format_content (ie_repr env) (pv_kwarg scope ''messages'' (PList [])) = Inr prompt"
    and "gq_tokens prompt scope = Inr tokens" and "pv_tools scope = PList (c # cs)"
  shows "\<exists>u. gq_common_chat_logic env is_stream end_time scope t = (Inl (no_attr (PList (c # cs)) ''get''), u)
     \<and> usage_view u = usage_view t"
proof -
  let ?t1 = "on_span (common_span_attributes (pv_common_span env GEN_AI_SYSTEM_GROQ is_stream scope (gq_model scope))) t"
  obtain t2 where 2: "request_attributes scope gq_request_rows ?t1 = (Inr (), t2)"
    using returns_unit [OF raises_pv_attributes(1)] by blast
  obtain t3 where 3: "gq_response_attributes scope t2 = (Inr (), t3)"
    using returns_unit [OF raises_gq_attributes] by blast
  have "usage_view ?t1 = usage_view t"
    using keepsD [OF keeps_usage_common, of "pv_common_span env GEN_AI_SYSTEM_GROQ is_stream scope (gq_model scope)" t]
    by (simp add: span_step_def)
  with keepsD [OF gq_attributes_keep(1) 2] keepsD [OF gq_attributes_keep(2) 3] have "usage_view t3 = usage_view t" by simp
  moreover have "pv_tool_attributes (ie_repr env) (pv_tools scope) t3 = (Inl (no_attr (PList (c # cs)) ''get''), t3)"
    by (simp add: pv_tool_attributes_def assms(3))
  ultimately show ?thesis
    by (simp add: gq_common_chat_logic_def pv_chat_logic_def assms(1,2) Let_def pbind_def span_step_def in_turn_def 2 3)
qed

definition groq_answer :: "string \<Rightarrow> pyval list \<Rightarrow> int \<Rightarrow> int \<Rightarrow> pyval" where
  "groq_answer m tool_calls n k =
     PDict [(''id'', PStr ''r1''), (''model'', PStr m),
       (''choices'', PList [PDict [(''finish_reason'', PStr ''tool_calls''),
          (''message'', PDict [(''role'', PStr ''assistant''), (''content'', PNone), (''tool_calls'', PList tool_calls)])]]),
       (''usage'', PDict [(''prompt_tokens'', PInt n), (''completion_tokens'', PInt k)])]"

definition tool_request :: "string \<Rightarrow> (string \<times> string) list \<Rightarrow> pyval list \<Rightarrow> (string, pyval) dict" where
  "tool_request m ms tools =
     [(''model'', PStr m), (''messages'', PList (map plain_message ms)), (''tools'', PList tools)]"



end
