(* ===== verification/MistralProps.thy ===== *)
theory MistralProps
  imports Mistral GroqProps
begin

text \<open>
  Mistral's completions satisfy the contract of a chat provider and its streams that of a streaming one; and
  the chunk that interrupts the caller's stream.
\<close>

section \<open>The contract\<close>

lemma ordinary_mistral [ordinary_intros]: "ordinary (ms_input_message m)" "ordinary (ms_cached u)" "ordinary (ms_finish_reason repr d)"
  unfolding ms_input_message_def ms_input_item_def ms_cached_def ms_finish_reason_def Let_def
  by (rule ordinary_intros | simp)+

lemma ordinary_ms_scope [ordinary_intros]: "ordinary (ms_response_scope repr d c)"
  unfolding ms_response_scope_def Let_def by (rule ordinary_intros)+

lemma ordinary_ms_tool:
  assumes "\<And>s. ordinary (loads s)"
  shows "ordinary (ms_tool_part loads tc)"
proof -
  have p: "ordinary (parse_tool_args loads v)" for v
    using assms unfolding parse_tool_args_def by (auto simp: ordinary_def split: pyval.splits sum.splits)
  show ?thesis
    unfolding ms_tool_part_def Let_def case_prod_beta by (rule ordinary_intros p)+
qed

lemma raises_ms_messages [raises_intros]:
  "raises_only is_Exception (ms_build_input_messages ms)"
  "tame env \<Longrightarrow> raises_only P (ms_build_output_messages env answer reason calls)"
proof -
  show "raises_only is_Exception (ms_build_input_messages ms)"
    unfolding ms_build_input_messages_def by (rule raises_intros ordinary_intros)+
  assume "tame env"
  from ordinary_ms_tool [OF tameD(2) [OF this]] ordinary_mapped_reason
  show "raises_only P (ms_build_output_messages env answer reason calls)"
    unfolding ms_build_output_messages_def by (intro raises_intros) (auto simp: ordinary_def)
qed

lemma raises_tool_list [raises_intros]: "raises_only is_Exception (pv_tool_list_attributes repr tools)"
  unfolding pv_tool_list_attributes_def by (rule raises_intros ordinary_intros | simp)+

lemma raises_ms_logic [raises_intros]:
  assumes "usable env"
  shows "raises_only is_Exception (ms_common_chat_logic env st t scope)"
proof -
  have "tame env" using assms by (simp add: usable_def)
  then show ?thesis
    unfolding ms_common_chat_logic_def ms_response_attributes_def ms_content_def ms_emit_inference_event_def
    by (intro raises_pv_logic assms raises_intros ordinary_intros) (auto intro!: raises_intros)
qed

lemma discreet_tool_list [discreet_intros]: "discreet (pv_tool_list_attributes repr tools)"
proof -
  have "discreet (praise e :: (tele, unit) prog)" for e by (simp add: discreet_def keeps_basic)
  then show ?thesis
    unfolding pv_tool_list_attributes_def by (auto intro!: discreet_intros simp: content_keys_def semconv)
qed

lemma discreet_ms_logic: "\<not> ie_capture_message_content env \<Longrightarrow> discreet (ms_common_chat_logic env st t scope)"
  unfolding ms_common_chat_logic_def ms_request_rows_def ms_response_attributes_def
  by (rule discreet_logic) (auto intro!: discreet_intros simp: content_keys_def semconv)

interpretation mistral: chat_provider ms_process_chat_response ms_failure "''api.mistral.ai''" 443
proof
  fix env c r e
  show "raises_only is_Exception (ms_process_chat_response env c r)" if "usable env"
    unfolding ms_process_chat_response_def using that by (auto intro!: raises_intros ordinary_intros)
  show "returns (ms_failure env c e)" if "usable env" using that by (simp add: ms_failure_def pv_failure_laws)
  show "keeps (span_view content_keys) (ms_failure env c e) \<and> keeps tl_events (ms_failure env c e)"
    by (simp add: ms_failure_def pv_failure_laws)
  show "keeps (span_view content_keys) (ms_process_chat_response env c r) \<and> keeps tl_events (ms_process_chat_response env c r)"
    if "\<not> ie_capture_message_content env"
    using discreet_ms_logic [OF that] unfolding ms_process_chat_response_def by (auto simp: discreet_def intro!: keeps_intros)
qed

section \<open>Chunks\<close>

text \<open>Mistral sends a tool call whole, with its id; the details of the usage may be left out but not be null.\<close>

definition ms_tool_readable :: "pyval \<Rightarrow> bool" where
  "ms_tool_readable tool \<longleftrightarrow> is_dict tool
     \<and> (case dget_or (fields tool) ''index'' (PInt 0) of PInt i \<Rightarrow> i \<ge> 0 | _ \<Rightarrow> False)
     \<and> py_truth (field tool ''id'') \<and> is_dict (dget_or (fields tool) ''function'' (PDict []))"

definition ms_delta_readable :: "pyval \<Rightarrow> bool" where
  "ms_delta_readable delta \<longleftrightarrow> is_dict delta \<and> optional is_str (field delta ''content'')
     \<and> (case field delta ''tool_calls'' of PNone \<Rightarrow> True | PList ts \<Rightarrow> list_all ms_tool_readable ts | _ \<Rightarrow> False)"

definition ms_choices_readable :: "pyval \<Rightarrow> bool" where
  "ms_choices_readable choices =
     (case choices of
        PList [] \<Rightarrow> True
      | PList (c # cs) \<Rightarrow> is_dict c \<and> (dmem ''delta'' (fields c) \<longrightarrow> ms_delta_readable (field c ''delta''))
      | _ \<Rightarrow> False)"

definition ms_usage_readable :: "pyval \<Rightarrow> bool" where
  "ms_usage_readable usage \<longleftrightarrow> is_dict usage \<and> optional is_dict (field usage ''input_tokens_details'')
     \<and> is_dict (dget_or (fields usage) ''prompt_tokens_details'' (PDict []))"

definition ms_readable :: "pyval \<Rightarrow> bool" where
  "ms_readable chunk =
     (let e = response_as_dict chunk; data = field e ''data'' in
      is_dict e \<and> optional is_dict data
      \<and> (py_truth data \<longrightarrow> ms_choices_readable (dget_or (fields data) ''choices'' (PList []))
           \<and> optional ms_usage_readable (field data ''usage'')))"

lemma extend_position: "0 \<le> i \<Longrightarrow> list_position (extend_tools i tools) i = Some (nat i)"
  by (auto simp: list_position_def extend_tools_def)

lemma ms_tool_run:
  assumes "ms_tool_readable tool"
  shows "\<exists>s'. ms_tool_delta tool s = (Inr (), s') \<and> pv_llmresponse s' = pv_llmresponse s"
proof -
  from assms obtain i where t: "is_dict tool" "dget_or (fields tool) ''index'' (PInt 0) = PInt i" "0 \<le> i"
    "py_truth (field tool ''id'')" "is_dict (dget_or (fields tool) ''function'' (PDict []))"
    by (auto simp: ms_tool_readable_def split: pyval.splits)
  have "\<exists>v. py_index tool (PStr ''id'') = Inr v"
    using t(1,4) by (cases tool) (auto simp: field_def dget_or_def split: option.splits)
  then obtain v where "py_index tool (PStr ''id'') = Inr v" ..
  with t show ?thesis
    by (simp add: ms_tool_delta_def py_get_field [OF t(1)] py_get_field [OF t(5)] ms_new_tool_def extend_position ms_tools_now_def
        tool_list_def field_def [symmetric])
qed

lemma ms_tools_run:
  "list_all ms_tool_readable ts \<Longrightarrow> \<exists>s'. pfor ts ms_tool_delta s = (Inr (), s') \<and> pv_llmresponse s' = pv_llmresponse s"
proof (induction ts arbitrary: s)
  case (Cons t ts)
  then obtain s1 where 1: "ms_tool_delta t s = (Inr (), s1)" "pv_llmresponse s1 = pv_llmresponse s"
    using ms_tool_run [of t s] by auto
  with Cons.IH [of s1] Cons.prems show ?case by (auto simp: pbind_def)
qed simp

lemma ms_delta_run:
  assumes "ms_delta_readable d" and "is_str (pv_llmresponse s)"
  shows "\<exists>s'. ms_delta d s = (Inr (), s') \<and> is_str (pv_llmresponse s')"
proof -
  from assms(1) have d: "is_dict d" "optional is_str (field d ''content'')"
    "field d ''tool_calls'' = PNone \<or> (\<exists>ts. field d ''tool_calls'' = PList ts \<and> list_all ms_tool_readable ts)"
    by (auto simp: ms_delta_readable_def split: pyval.splits)
  from assms(2) obtain r where r: "pv_llmresponse s = PStr r" by (auto elim!: is_strE)
  obtain s1 where 1: "pwhen (py_truth (field d ''content'')) (pv_append (field d ''content'')) s = (Inr (), s1)"
    "is_str (pv_llmresponse s1)"
    using optional_str [OF d(2)] r assms(2) by (cases "py_truth (field d ''content'')") (auto simp: pv_append_def py_add_str)
  from d(3) show ?thesis
  proof (elim disjE exE conjE)
    fix ts
    assume ts: "field d ''tool_calls'' = PList ts" "list_all ms_tool_readable ts"
    from ms_tools_run [OF ts(2), of "s1\<lparr>pv_tools := PList (ms_tools_now s1)\<rparr>"] 1(2) ts(1) show ?thesis
      by (cases "ts = []") (auto simp: ms_delta_def py_get_dict [OF d(1)] pbind_def [of "pwhen b m" for b m] 1(1))
  qed (use 1 in \<open>auto simp: ms_delta_def py_get_dict [OF d(1)] pbind_def [of "pwhen b m" for b m]\<close>)
qed

lemma ms_usage_run:
  assumes "is_dict data" and "ms_usage_readable u" and "ms_choices_readable choices"
  shows "\<exists>s'. ms_usage data choices u s = (Inr (), s') \<and> pv_llmresponse s' = pv_llmresponse s"
proof -
  from assms(2) have u: "is_dict u" "optional is_dict (field u ''input_tokens_details'')"
    "is_dict (dget_or (fields u) ''prompt_tokens_details'' (PDict []))"
    by (simp_all add: ms_usage_readable_def)
  have "\<exists>v. ms_cached u = Inr v"
    using u(2) py_get_field [OF u(3)]
    by (auto simp: ms_cached_def py_get_field [OF u(1)] field_def optional_def py_get_field)
  moreover have "\<exists>v. (if py_truth choices then res_bind (py_index choices (PInt 0)) (\<lambda>c. py_get c ''finish_reason'' (PStr []))
      else Inr (PStr [])) = Inr v"
    using assms(3) by (auto simp: ms_choices_readable_def py_get_field split: pyval.splits list.splits)
  ultimately show ?thesis
    by (auto simp: ms_usage_def py_get_field [OF u(1)] py_get_field [OF assms(1)])
qed

lemma ms_chunk_processed:
  assumes "ms_readable c" and "is_str (pv_llmresponse s)"
  shows "\<exists>s'. ms_process_chunk now c s = (Inr (), s') \<and> is_str (pv_llmresponse s')"
proof -
  let ?e = "response_as_dict c"
  let ?data = "field ?e ''data''"
  let ?choices = "dget_or (fields ?data) ''choices'' (PList [])"
  let ?s = "pv_stamp now s"
  from assms(1) have e: "is_dict ?e" by (simp add: ms_readable_def Let_def)
  show ?thesis
  proof (cases "py_truth ?data")
    case False
    with assms(2) show ?thesis by (simp add: ms_process_chunk_def py_get_dict [OF e])
  next
    case True
    with assms(1) have d: "is_dict ?data" "ms_choices_readable ?choices" "optional ms_usage_readable (field ?data ''usage'')"
      by (simp_all add: ms_readable_def Let_def optional_def [of is_dict])
    have "\<exists>s1. pwhen (py_truth ?choices) (pbind (plift (py_index ?choices (PInt 0))) (\<lambda>c.
           pbind (plift (py_in ''delta'' c)) (\<lambda>has_delta.
           pwhen has_delta (pbind (plift (py_index c (PStr ''delta''))) ms_delta)))) ?s = (Inr (), s1) \<and> is_str (pv_llmresponse s1)"
    proof (cases "?choices")
      case (PList cs)
      show ?thesis
      proof (cases cs)
        case Nil
        with PList assms(2) show ?thesis by simp
      next
        case (Cons c1 cs1)
        with PList d(2) have c1: "is_dict c1" "dmem ''delta'' (fields c1) \<longrightarrow> ms_delta_readable (field c1 ''delta'')"
          by (simp_all add: ms_choices_readable_def)
        then obtain cd where cd: "c1 = PDict cd" by (cases c1) auto
        show ?thesis
        proof (cases "dget cd ''delta''")
          case None
          with PList Cons cd assms(2) show ?thesis by (simp add: py_in_def dmem_def dget_def)
        next
          case (Some dl)
          with c1(2) cd have "ms_delta_readable dl" by (simp add: field_def dmem_def dget_def dget_or_def)
          from ms_delta_run [OF this, of ?s] assms(2) PList Cons cd Some show ?thesis
            by (simp add: py_in_def dmem_def dget_def)
        qed
      qed
    qed (use d(2) in \<open>simp_all add: ms_choices_readable_def\<close>)
    then obtain s1 where s1: "pwhen (py_truth ?choices) (pbind (plift (py_index ?choices (PInt 0))) (\<lambda>c.
           pbind (plift (py_in ''delta'' c)) (\<lambda>has_delta.
           pwhen has_delta (pbind (plift (py_index c (PStr ''delta''))) ms_delta)))) ?s = (Inr (), s1)" "is_str (pv_llmresponse s1)"
      by blast
    show ?thesis
    proof (cases "py_truth (field ?data ''usage'')")
      case False
      with s1 True show ?thesis
        by (simp add: ms_process_chunk_def py_get_dict [OF e] py_get_dict [OF d(1)] py_get_field [OF d(1), of "''choices''"]
            pbind_def [of "pwhen b m" for b m])
    next
      case usage: True
      with d(3) have "ms_usage_readable (field ?data ''usage'')" by (simp add: optional_def)
      from ms_usage_run [OF d(1) this d(2), of s1] s1 True usage show ?thesis
        by (auto simp: ms_process_chunk_def py_get_dict [OF e] py_get_dict [OF d(1)] py_get_field [OF d(1), of "''choices''"]
            pbind_def [of "pwhen b m" for b m])
    qed
  qed
qed

lemma ms_chunk_spans: "keeps pv_spans (ms_process_chunk now c)"
proof -
  have tool: "keeps pv_spans (ms_tool_delta t)" for t
    unfolding ms_tool_delta_def by (rule keeps_intros | simp)+
  show ?thesis
    unfolding ms_process_chunk_def ms_usage_def ms_delta_def pv_append_def Let_def
    by (rule keeps_intros tool | simp)+
qed

interpretation mistral_stream: streaming_provider "''api.mistral.ai''" 443 ms_process_streaming
    ms_process_chunk ms_readable "\<lambda>s. is_str (pv_llmresponse s)"
proof
  fix env end_time
  show "raises_only is_Exception (ms_process_streaming env end_time)" if "usable env"
    unfolding ms_process_streaming_def by (intro raises_intros that)
  show "quiet_end (ms_process_streaming env end_time)" if "\<not> ie_capture_message_content env"
    unfolding ms_process_streaming_def by (intro quiet_renewed quiet_stream_end discreet_ms_logic that)
qed (simp_all add: fresh_pv_scope_def ms_chunk_processed ms_chunk_spans)

section \<open>A chunk that interrupts the stream\<close>

definition usage_chunk :: "string \<Rightarrow> int \<Rightarrow> int \<Rightarrow> pyval \<Rightarrow> pyval" where
  "usage_chunk m n k details =
     PDict [(''data'', PDict [(''id'', PStr ''c1''), (''model'', PStr m),
       (''choices'', PList [PDict [(''delta'', PDict [(''content'', PStr [])]), (''finish_reason'', PStr ''stop'')]]),
       (''usage'', PDict [(''prompt_tokens'', PInt n), (''completion_tokens'', PInt k), (''prompt_tokens_details'', details)])])]"

text \<open>C37: A stream can fail in the caller's hands because of its telemetry: processing a chunk is not guarded, so a
  usage whose \<open>prompt_tokens_details\<close> is null raises \<open>AttributeError\<close> out of the caller's loop; the chunk does
  not reach the caller, the span stays open and nothing is measured.\<close>

theorem mistral_null_details_break_stream:
  assumes "st_wrapped st = Inr (usage_chunk m n k PNone) # rest"
  shows "\<exists>e st'. stream_next ms_process_chunk (ms_process_streaming env end_time) now st = (Inl e, st')
     \<and> exc_class e = AttributeError \<and> st_wrapped st' = rest \<and> st_tele st' = st_tele st \<and> st_finished st' = st_finished st"
proof -
  have "\<exists>s. ms_process_chunk now (usage_chunk m n k PNone) (st_scope st) = (Inl (no_attr PNone ''get''), s)"
    by (simp add: ms_process_chunk_def usage_chunk_def py_in_def dmem_def dget_def ms_delta_def ms_usage_def ms_cached_def
        pbind_def [of "Pair (Inr ())"])
  with assms show ?thesis by (auto simp: stream_next_def no_attr_def)
qed

theorem mistral_null_details_break_stream_witness:
  "\<exists>e st'. stream_next ms_process_chunk (ms_process_streaming sample_env 105) 101
       \<lparr>st_wrapped = [Inr (usage_chunk ''mistral'' 9 5 PNone)], st_scope = fresh_pv_scope [] PNone PNone 100,
        st_tele = fresh_tele, st_finished = 0\<rparr> = (Inl e, st') \<and> exc_class e = AttributeError"
proof -
  have w: "st_wrapped \<lparr>st_wrapped = [Inr (usage_chunk ''mistral'' 9 5 PNone)], st_scope = fresh_pv_scope [] PNone PNone 100,
        st_tele = fresh_tele, st_finished = 0\<rparr> = Inr (usage_chunk ''mistral'' 9 5 PNone) # []" by simp
  from mistral_null_details_break_stream [OF w, of sample_env 105 101] show ?thesis by blast
qed

end
