(* ===== verification/AI21.thy ===== *)
theory AI21
  imports Groq
begin

text \<open>
  \<open>openlit/instrumentation/ai21\<close>: chat completions.  Messages are objects of the client library or
  dictionaries; the chunks and the rest of the processing are close to Groq's.  The conversational RAG calls
  are not modelled.
\<close>

section \<open>Messages\<close>

definition is_message_object :: "pyval \<Rightarrow> bool" where
  "is_message_object m \<longleftrightarrow> has_attr m ''role'' \<and> (has_attr m ''content'' \<or> has_attr m ''text'')"

text \<open>\<open>getattr(m, "content", d) or getattr(m, "text", "")\<close>.\<close>

definition object_text :: "pyval \<Rightarrow> pyval \<Rightarrow> pyval" where
  "object_text m d = py_or (py_getattr m ''content'' d) (py_getattr m ''text'' (PStr []))"

definition ai_message_line :: "(pyval \<Rightarrow> string) \<Rightarrow> pyval \<Rightarrow> string res" where
  "ai_message_line repr message =
     (if is_message_object message then
        typed_content repr (PStr (py_str repr (py_getattr message ''role'' PNone))) (object_text message PNone)
      else case message of
        PDict d \<Rightarrow>
          res_bind (py_index message (PStr ''role'')) (\<lambda>role.
          res_bind (py_index message (PStr ''content'')) (\<lambda>content. typed_content repr role content))
      | _ \<Rightarrow> typed_content repr (PStr (py_str repr (py_getattr message ''role'' (PStr ''unknown''))))
               (PStr (py_str repr (object_text message (PStr [])))))"

definition ai_format_content :: "(pyval \<Rightarrow> string) \<Rightarrow> pyval \<Rightarrow> string res" where
  "ai_format_content repr messages =
     res_bind (py_iter messages) (\<lambda>ms. res_bind (res_map (ai_message_line repr) ms) (\<lambda>ls. Inr (py_join [CHR 0x0A] ls)))"

definition ai_input_item :: "(pyval \<Rightarrow> string) \<Rightarrow> pyval \<Rightarrow> pyval list" where
  "ai_input_item repr item =
     (case item of
        PDict d \<Rightarrow>
          (if dget_or d ''type'' PNone = PStr ''text'' then [text_part (dget_or d ''text'' (PStr []))]
           else if dmem ''image_url'' d then [uri_part (dget_or d ''image_url'' (PStr []))]
           else [])
      | _ \<Rightarrow> [text_part (PStr (py_str repr item))])"

definition ai_input_message :: "(pyval \<Rightarrow> string) \<Rightarrow> pyval \<Rightarrow> pyval list" where
  "ai_input_message repr message =
     (let (role, content) =
        (if is_message_object message then
           (let r = py_getattr message ''role'' PNone in
            (PStr (py_str repr (if has_attr r ''value'' then py_getattr r ''value'' PNone else r)), object_text message PNone))
         else case message of
           PDict d \<Rightarrow> (dget_or d ''role'' (PStr ''user''), dget_or d ''content'' (PStr []))
         | _ \<Rightarrow> (PStr (py_str repr (py_getattr message ''role'' (PStr ''user''))),
                 PStr (py_str repr (object_text message (PStr [])))));
          parts = (case content of
              PList items \<Rightarrow> concat (map (ai_input_item repr) items)
            | _ \<Rightarrow> [text_part (PStr (py_str repr content))])
      in case parts_message role parts of Some m \<Rightarrow> [m] | None \<Rightarrow> [])"

text \<open>There is no guard: what cannot be iterated raises.\<close>

definition ai_build_input_messages :: "(pyval \<Rightarrow> string) \<Rightarrow> pyval \<Rightarrow> (log_line list, pyval list) prog" where
  "ai_build_input_messages repr messages =
     pbind (plift (py_iter (py_or messages (PList [])))) (\<lambda>ms. pret (concat (map (ai_input_message repr) ms)))"

definition ai_tool_part :: "pyval \<Rightarrow> pyval list res" where
  "ai_tool_part tc =
     (case (case tc of PDict d \<Rightarrow> dget_or d ''function'' (PDict []) | _ \<Rightarrow> PDict []) of
        PDict func \<Rightarrow> res_bind (py_get tc ''id'' (PStr [])) (\<lambda>i.
          Inr [tool_call_part i (dget_or func ''name'' (PStr [])) (dget_or func ''arguments'' (PDict []))])
      | _ \<Rightarrow> Inr [])"

definition ai_build_output_messages ::
  "(pyval \<Rightarrow> string) \<Rightarrow> pyval \<Rightarrow> pyval \<Rightarrow> pyval \<Rightarrow> (log_line list, pyval list) prog" where
  "ai_build_output_messages repr answer finish_reason tool_calls =
     pbind (plift (if py_truth tool_calls then
         res_bind (res_map ai_tool_part (case tool_calls of PList ts \<Rightarrow> ts | _ \<Rightarrow> [tool_calls])) (\<lambda>ps. Inr (concat ps))
       else Inr [])) (\<lambda>calls.
     let parts = (if py_truth answer then [text_part (PStr (py_str repr answer))] else []) @ calls in
     pret [assistant_message (if parts = [] then [text_part (PStr [])] else parts) (py_or finish_reason (PStr ''stop''))])"

definition ai_extra_keys :: "(string, string) dict" where
  "ai_extra_keys = [
     (''response_id'', GEN_AI_RESPONSE_ID),
     (''finish_reasons'', GEN_AI_RESPONSE_FINISH_REASON),
     (''output_type'', GEN_AI_OUTPUT_TYPE),
     (''temperature'', GEN_AI_REQUEST_TEMPERATURE),
     (''max_tokens'', GEN_AI_REQUEST_MAX_TOKENS),
     (''top_p'', GEN_AI_REQUEST_TOP_P),
     (''frequency_penalty'', GEN_AI_REQUEST_FREQUENCY_PENALTY),
     (''presence_penalty'', GEN_AI_REQUEST_PRESENCE_PENALTY),
     (''stop_sequences'', GEN_AI_REQUEST_STOP_SEQUENCES),
     (''seed'', GEN_AI_REQUEST_SEED),
     (''choice_count'', GEN_AI_REQUEST_CHOICE_COUNT),
     (''n'', GEN_AI_REQUEST_CHOICE_COUNT),
     (''input_tokens'', GEN_AI_USAGE_INPUT_TOKENS),
     (''output_tokens'', GEN_AI_USAGE_OUTPUT_TOKENS),
     (''cache_read_input_tokens'', GEN_AI_USAGE_CACHE_READ_INPUT_TOKENS),
     (''cache_creation_input_tokens'', GEN_AI_USAGE_CACHE_CREATION_INPUT_TOKENS),
     (''system_instructions'', GEN_AI_SYSTEM_INSTRUCTIONS),
     (''error_type'', ERROR_TYPE),
     (''conversation_id'', GEN_AI_CONVERSATION_ID)]"

text \<open>An unknown attribute is left out.\<close>

definition ai_emit_inference_event :: "instr_env \<Rightarrow> inference \<Rightarrow> (string \<times> pyval) list \<Rightarrow> (tele, unit) prog" where
  "ai_emit_inference_event env =
     pv_emit env (\<lambda>key. dget_or ai_extra_keys key key)
       (\<lambda>key v. skip_missing key v \<or> skip_one_choice key v \<or> \<not> dmem key ai_extra_keys) True"

section \<open>Chunks\<close>

definition ai_usage :: "pyval \<Rightarrow> pyval \<Rightarrow> (pv_scope, unit) prog" where
  "ai_usage chunked usage =
     pbind (plift (py_get usage ''prompt_tokens'' (PInt 0))) (\<lambda>v.
     pbind (pmodify (\<lambda>s. s\<lparr>pv_input_tokens := v\<rparr>)) (\<lambda>_.
     pbind (plift (py_get usage ''completion_tokens'' (PInt 0))) (\<lambda>v.
     pbind (pmodify (\<lambda>s. s\<lparr>pv_output_tokens := v\<rparr>)) (\<lambda>_.
     pbind (plift (detail_count usage ''prompt_tokens_details'' ''cached_tokens'')) (\<lambda>v.
     pbind (pmodify (\<lambda>s. s\<lparr>pv_cache_read := v\<rparr>)) (\<lambda>_.
     pbind (plift (detail_count usage ''input_tokens_details'' ''cache_creation_tokens'')) (\<lambda>v.
     pbind (pmodify (\<lambda>s. s\<lparr>pv_cache_creation := v\<rparr>)) (\<lambda>_.
     pbind (plift (py_get chunked ''id'' PNone)) (\<lambda>v.
     pbind (pmodify (\<lambda>s. s\<lparr>pv_response_id := v\<rparr>)) (\<lambda>_.
     pbind (plift (first_choice chunked (PList [PDict []]) ''finish_reason'' PNone)) (\<lambda>v.
     pmodify (\<lambda>s. s\<lparr>pv_finish_reason := v\<rparr>))))))))))))"

definition ai_process_chunk :: "rat \<Rightarrow> pyval \<Rightarrow> (pv_scope, unit) prog" where
  "ai_process_chunk now chunk =
     pbind (pmodify (pv_stamp now)) (\<lambda>_.
     let chunked = response_as_dict chunk in
     pbind (pv_delta_content chunked) (\<lambda>_.
     pbind (plift (py_get chunked ''usage'' PNone)) (\<lambda>usage.
     pwhen (py_truth usage) (ai_usage chunked usage))))"

section \<open>The logic\<close>

definition ai_model :: "pv_scope \<Rightarrow> pyval" where
  "ai_model scope = pv_kwarg scope ''model'' (PStr ''jamba-1.5-mini'')"

definition ai_request_rows :: "(string \<times> string \<times> pyval) list" where
  "ai_request_rows = [
     (GEN_AI_REQUEST_SEED, ''seed'', PStr []),
     (GEN_AI_REQUEST_FREQUENCY_PENALTY, ''frequency_penalty'', PFloat 0),
     (GEN_AI_REQUEST_MAX_TOKENS, ''max_tokens'', PInt (-1)),
     (GEN_AI_REQUEST_PRESENCE_PENALTY, ''presence_penalty'', PFloat 0),
     (GEN_AI_REQUEST_STOP_SEQUENCES, ''stop'', PList []),
     (GEN_AI_REQUEST_TEMPERATURE, ''temperature'', PFloat (4 / 10)),
     (GEN_AI_REQUEST_TOP_P, ''top_p'', PFloat 1)]"

definition ai_response_attributes :: "pv_scope \<Rightarrow> (tele, unit) prog" where
  "ai_response_attributes scope =
     pbind (pwhen (py_truth (pv_response_id scope)) (span_attr GEN_AI_RESPONSE_ID (pv_response_id scope))) (\<lambda>_.
     pbind (span_attr GEN_AI_RESPONSE_FINISH_REASON (PList [pv_finish_reason scope])) (\<lambda>_.
     span_attr GEN_AI_OUTPUT_TYPE (response_type (pv_llmresponse scope))))"

definition ai_event_extra :: "pv_scope \<Rightarrow> pyval \<times> pyval \<Rightarrow> (string \<times> pyval) list" where
  "ai_event_extra scope tokens =
     [(''cache_read_input_tokens'', pv_cache_read scope),
      (''cache_creation_input_tokens'', pv_cache_creation scope),
      (''response_id'', pv_response_id scope),
      (''finish_reasons'', PList [pv_finish_reason scope]),
      (''output_type'', response_type (pv_llmresponse scope)),
      (''temperature'', pv_kwarg scope ''temperature'' PNone),
      (''max_tokens'', pv_kwarg scope ''max_tokens'' PNone),
      (''top_p'', pv_kwarg scope ''top_p'' PNone),
      (''frequency_penalty'', pv_kwarg scope ''frequency_penalty'' PNone),
      (''presence_penalty'', pv_kwarg scope ''presence_penalty'' PNone),
      (''stop_sequences'', pv_kwarg scope ''stop'' PNone),
      (''seed'', pv_kwarg scope ''seed'' PNone),
      (''input_tokens'', fst tokens),
      (''output_tokens'', snd tokens)]"

definition ai_content :: "instr_env \<Rightarrow> pv_scope \<Rightarrow> pyval \<times> pyval \<Rightarrow> (tele, unit) prog" where
  "ai_content env scope tokens =
     pv_content env
       (ai_build_input_messages (ie_repr env) (pv_kwarg scope ''messages'' (PList [])))
       (ai_build_output_messages (ie_repr env) (pv_llmresponse scope) (pv_finish_reason scope) (pv_tools scope))
       (pret ())
       (\<lambda>msgs. ai_emit_inference_event env (pv_inference scope (ai_model scope) msgs PNone) (ai_event_extra scope tokens))"

definition ai_common_chat_logic :: "instr_env \<Rightarrow> bool \<Rightarrow> rat \<Rightarrow> pv_scope \<Rightarrow> (tele, unit) prog" where
  "ai_common_chat_logic env is_stream end_time scope =
     pv_chat_logic env GEN_AI_SYSTEM_AI21 is_stream end_time scope (ai_model scope)
       (ai_format_content (ie_repr env) (pv_kwarg scope ''messages'' (PList [])))
       (\<lambda>prompt. gq_tokens prompt scope)
       (in_turn [request_attributes scope ai_request_rows, ai_response_attributes scope,
          pv_tool_attributes (ie_repr env) (pv_tools scope)])
       (ai_content env scope)"

text \<open>The stream object has no \<open>_response_model\<close>; where the code asks for it, it gets the model of the request.\<close>

definition ai_stream_model :: "pv_scope \<Rightarrow> pv_scope" where
  "ai_stream_model s = s\<lparr>pv_response_model := ai_model s\<rparr>"

definition ai_process_streaming :: "instr_env \<Rightarrow> rat \<Rightarrow> (pv_scope \<times> tele, unit) prog" where
  "ai_process_streaming env end_time = renew_span (stream_end (\<lambda>s. ai_common_chat_logic env True end_time (ai_stream_model s)))"

definition ai_response_scope :: "(pyval \<Rightarrow> string) \<Rightarrow> pyval \<Rightarrow> call \<Rightarrow> pv_scope res" where
  "ai_response_scope repr response_dict c =
     res_bind (response_text response_dict) (\<lambda>text.
     res_bind (py_get response_dict ''id'' PNone) (\<lambda>i.
     res_bind (py_get response_dict ''model'' PNone) (\<lambda>m.
     res_bind (py_get response_dict ''usage'' (PDict [])) (\<lambda>usage.
     res_bind (py_get usage ''prompt_tokens'' (PInt 0)) (\<lambda>input_tokens.
     res_bind (py_get usage ''completion_tokens'' (PInt 0)) (\<lambda>output_tokens.
     res_bind (detail_count usage ''prompt_tokens_details'' ''cached_tokens'') (\<lambda>cached.
     res_bind (detail_count usage ''input_tokens_details'' ''cache_creation_tokens'') (\<lambda>creation.
     res_bind (first_choice response_dict (PList []) ''finish_reason'' (PStr [])) (\<lambda>reason.
     res_bind (answer_tools (ca_kwargs c) response_dict) (\<lambda>tools.
     let ck = ca_clock c in
     Inr ((fresh_pv_scope (ca_kwargs c) (ca_server_address c) (ca_server_port c) (ck_start ck))
       \<lparr>pv_ttft := ck_end ck - ck_start ck, pv_llmresponse := PStr text, pv_response_id := i,
        pv_response_model := py_or m (dget_or (ca_kwargs c) ''model'' (PStr ''jamba-1.5-mini'')),
        pv_finish_reason := PStr (py_str repr reason), pv_input_tokens := input_tokens, pv_output_tokens := output_tokens,
        pv_cache_read := cached, pv_cache_creation := creation, pv_tools := tools\<rparr>)))))))))))"

definition ai_process_chat_response :: "instr_env \<Rightarrow> call \<Rightarrow> api_result \<Rightarrow> (tele, unit) prog" where
  "ai_process_chat_response env c r =
     pbind (plift (ai_response_scope (ie_repr env) (response_as_dict (api_object r)) c)) (\<lambda>scope.
     ai_common_chat_logic env False (ck_logic (ca_clock c)) scope)"

section \<open>The wrappers\<close>

definition ai_failure :: "instr_env \<Rightarrow> call \<Rightarrow> pyexc \<Rightarrow> (tele, unit) prog" where
  "ai_failure = pv_failure GEN_AI_SYSTEM_AI21 (PStr ''jamba-1.5-mini'')"

definition ai21_chat :: "instr_env \<Rightarrow> pyval \<Rightarrow> api_result res \<Rightarrow> (string, pyval) dict \<Rightarrow> clock \<Rightarrow> (tele, pv_reply) prog" where
  "ai21_chat = provider_call ''api.ai21.com'' 443 ai_process_chat_response ai_failure"

definition async_ai21_chat :: "instr_env \<Rightarrow> pyval \<Rightarrow> api_result res \<Rightarrow> (string, pyval) dict \<Rightarrow> clock \<Rightarrow> (tele, pv_reply) prog" where
  "async_ai21_chat = provider_call ''api.ai21.com'' 443 ai_process_chat_response ai_failure"

definition ai21_wrappers ::
  "(string \<times> string \<times> (instr_env \<Rightarrow> pyval \<Rightarrow> api_result res \<Rightarrow> (string, pyval) dict \<Rightarrow> clock \<Rightarrow> (tele, pv_reply) prog)) list" where
  "ai21_wrappers = [
     (''ai21.clients.studio.resources.chat.chat_completions'', ''ChatCompletions.create'', ai21_chat),
     (''ai21.clients.studio.resources.chat.async_chat_completions'', ''AsyncChatCompletions.create'', async_ai21_chat)]"

end
