(* ===== verification/Reka.thy ===== *)
theory Reka
  imports Groq
begin

text \<open>
  \<open>openlit/instrumentation/reka\<close>: chat calls, which do not stream.  Requests are read as for Groq; the
  answers and the tool calls have a shape of their own.
\<close>

section \<open>Messages\<close>

definition rk_format_content :: "(pyval \<Rightarrow> string) \<Rightarrow> pyval \<Rightarrow> string res" where
  "rk_format_content = gq_format_content"

definition rk_build_input_messages :: "(pyval \<Rightarrow> string) \<Rightarrow> pyval \<Rightarrow> (log_line list, pyval list) prog" where
  "rk_build_input_messages = gq_build_input_messages"

text \<open>\<open>json.loads(params) if params else {}\<close>, and the raw text when that fails.\<close>

definition rk_parameters :: "(string \<Rightarrow> pyval res) \<Rightarrow> pyval \<Rightarrow> pyval res" where
  "rk_parameters json_loads params =
     (case params of
        PStr [] \<Rightarrow> Inr (PDict [])
      | _ \<Rightarrow> parse_tool_args json_loads params)"

definition rk_tool_part :: "(string \<Rightarrow> pyval res) \<Rightarrow> pyval \<Rightarrow> pyval list res" where
  "rk_tool_part json_loads t =
     (case t of
        PDict d \<Rightarrow> res_bind (rk_parameters json_loads (dget_or d ''parameters'' (PStr []))) (\<lambda>params.
          Inr [tool_call_part (dget_or d ''id'' (PStr [])) (dget_or d ''name'' (PStr [])) params])
      | _ \<Rightarrow> Inr [])"

definition rk_output_message :: "(string \<Rightarrow> pyval res) \<Rightarrow> pyval \<Rightarrow> pyval \<Rightarrow> pyval \<Rightarrow> pyval res" where
  "rk_output_message json_loads answer finish_reason tool_calls =
     res_bind (if py_truth tool_calls then
         res_bind (res_map (rk_tool_part json_loads) (case tool_calls of PList ts \<Rightarrow> ts | _ \<Rightarrow> [tool_calls])) (\<lambda>ps. Inr (concat ps))
       else Inr []) (\<lambda>calls.
     res_bind (mapped_reason gq_finish_reasons finish_reason) (\<lambda>reason.
     Inr (assistant_message ((if py_truth answer then [text_part answer] else []) @ calls) reason)))"

definition rk_build_output_messages ::
  "(string \<Rightarrow> pyval res) \<Rightarrow> pyval \<Rightarrow> pyval \<Rightarrow> pyval \<Rightarrow> (log_line list, pyval list) prog" where
  "rk_build_output_messages json_loads answer finish_reason tool_calls =
     guarded_output (rk_output_message json_loads answer finish_reason tool_calls)"

definition rk_emit_inference_event :: "instr_env \<Rightarrow> inference \<Rightarrow> (string \<times> pyval) list \<Rightarrow> (tele, unit) prog" where
  "rk_emit_inference_event = gq_emit_inference_event"

section \<open>The logic\<close>

definition rk_model :: "pv_scope \<Rightarrow> pyval" where
  "rk_model scope = pv_kwarg scope ''model'' (PStr ''reka-core-20240501'')"

definition rk_request_rows :: "(string \<times> string \<times> pyval) list" where
  "rk_request_rows = [
     (GEN_AI_REQUEST_SEED, ''seed'', PStr []),
     (GEN_AI_REQUEST_MAX_TOKENS, ''max_tokens'', PInt (-1)),
     (GEN_AI_REQUEST_PRESENCE_PENALTY, ''presence_penalty'', PFloat 0),
     (GEN_AI_REQUEST_STOP_SEQUENCES, ''stop'', PList []),
     (GEN_AI_REQUEST_TEMPERATURE, ''temperature'', PFloat (4 / 10)),
     (GEN_AI_REQUEST_TOP_K, ''top_k'', PFloat 1),
     (GEN_AI_REQUEST_TOP_P, ''top_p'', PFloat 1)]"

definition rk_response_attributes :: "pv_scope \<Rightarrow> (tele, unit) prog" where
  "rk_response_attributes scope =
     pbind (pwhen (py_truth (pv_response_id scope)) (span_attr GEN_AI_RESPONSE_ID (pv_response_id scope))) (\<lambda>_.
     pbind (span_attr GEN_AI_RESPONSE_FINISH_REASON (PList [pv_finish_reason scope])) (\<lambda>_.
     span_attr GEN_AI_OUTPUT_TYPE (response_type (pv_llmresponse scope))))"

definition rk_tool_attributes :: "(pyval \<Rightarrow> string) \<Rightarrow> pyval \<Rightarrow> (tele, unit) prog" where
  "rk_tool_attributes repr tools =
     pwhen (py_truth tools)
       (pbind (plift (py_get tools ''name'' (PStr []))) (\<lambda>n.
        pbind (span_attr GEN_AI_TOOL_NAME n) (\<lambda>_.
        pbind (plift (py_get tools ''id'' (PStr []))) (\<lambda>i.
        pbind (span_attr GEN_AI_TOOL_CALL_ID (PStr (py_str repr i))) (\<lambda>_.
        pbind (plift (py_get tools ''parameters'' (PStr []))) (\<lambda>a.
        span_attr GEN_AI_TOOL_ARGS (PStr (py_str repr a))))))))"

definition rk_event_extra :: "pv_scope \<Rightarrow> pyval \<times> pyval \<Rightarrow> (string \<times> pyval) list" where
  "rk_event_extra scope tokens =
     [(''cache_read_input_tokens'', pv_cache_read scope),
      (''cache_creation_input_tokens'', pv_cache_creation scope),
      (''response_id'', pv_response_id scope),
      (''finish_reasons'', PList [pv_finish_reason scope]),
      (''output_type'', response_type (pv_llmresponse scope)),
      (''temperature'', pv_kwarg scope ''temperature'' PNone),
      (''max_tokens'', pv_kwarg scope ''max_tokens'' PNone),
      (''top_p'', pv_kwarg scope ''top_p'' PNone),
      (''frequency_penalty'', pv_kwarg scope ''frequency_penalty'' PNone),
      (''presence_penalty'', pv_kwarg scope ''presence_penalty'' PNone),
      (''stop_sequences'', pv_kwarg scope ''stop'' PNone),
      (''seed'', pv_kwarg scope ''seed'' PNone),
      (''input_tokens'', fst tokens),
      (''output_tokens'', snd tokens)]"

definition rk_content :: "instr_env \<Rightarrow> pv_scope \<Rightarrow> pyval \<times> pyval \<Rightarrow> (tele, unit) prog" where
  "rk_content env scope tokens =
     pv_content env
       (rk_build_input_messages (ie_repr env) (pv_kwarg scope ''messages'' (PList [])))
       (rk_build_output_messages (ie_json_loads env) (pv_llmresponse scope) (pv_finish_reason scope) (pv_tools scope))
       (pret ())
       (\<lambda>msgs. rk_emit_inference_event env (pv_inference scope (rk_model scope) msgs PNone) (rk_event_extra scope tokens))"

definition rk_common_chat_logic :: "instr_env \<Rightarrow> rat \<Rightarrow> pv_scope \<Rightarrow> (tele, unit) prog" where
  "rk_common_chat_logic env end_time scope =
     pv_chat_logic env GEN_AI_SYSTEM_REKAAI False end_time scope (rk_model scope)
       (rk_format_content (ie_repr env) (pv_kwarg scope ''messages'' (PList [])))
       (\<lambda>prompt. gq_tokens prompt scope)
       (in_turn [request_attributes scope rk_request_rows, rk_response_attributes scope,
          rk_tool_attributes (ie_repr env) (pv_tools scope)])
       (rk_content env scope)"

text \<open>The text of all responses, and the first response, which has the finish reason and the tool calls.\<close>

definition rk_first_response :: "pyval \<Rightarrow> (pyval \<times> pyval) res" where
  "rk_first_response responses_list =
     res_bind (if py_truth responses_list then py_index responses_list (PInt 0) else Inr (PDict [])) (\<lambda>first.
     Inr (first, (case first of PDict d \<Rightarrow> dget_or d ''message'' (PDict []) | _ \<Rightarrow> PDict [])))"

definition rk_text :: "pyval \<Rightarrow> string res" where
  "rk_text responses_list =
     res_bind (py_iter responses_list) (\<lambda>rs.
     res_bind (res_map (\<lambda>r. res_bind (py_get r ''message'' (PDict [])) (\<lambda>m.
       res_bind (py_get m ''content'' PNone) (\<lambda>v. Inr (py_or v (PStr []))))) rs) (join_values '' ''))"

definition rk_response_scope :: "(pyval \<Rightarrow> string) \<Rightarrow> pyval \<Rightarrow> call \<Rightarrow> pv_scope res" where
  "rk_response_scope repr response_dict c =
     res_bind (py_get response_dict ''responses'' PNone) (\<lambda>r.
     let responses_list = py_or r (PList []) in
     res_bind (rk_first_response responses_list) (\<lambda>(first, message).
     res_bind (rk_text responses_list) (\<lambda>text.
     res_bind (py_get response_dict ''id'' PNone) (\<lambda>i.
     res_bind (py_get response_dict ''model'' PNone) (\<lambda>m.
     res_bind (py_get response_dict ''usage'' PNone) (\<lambda>u.
     let usage = py_or u (PDict []) in
     res_bind (py_get usage ''input_tokens'' (PInt 0)) (\<lambda>input_tokens.
     res_bind (py_get usage ''output_tokens'' PNone) (\<lambda>o1.
     res_bind (py_get usage ''generated_tokens'' (PInt 0)) (\<lambda>o2.
     res_bind (detail_count usage ''prompt_tokens_details'' ''cached_tokens'') (\<lambda>cached.
     res_bind (detail_count usage ''input_tokens_details'' ''cache_creation_tokens'') (\<lambda>creation.
     res_bind (py_get first ''finish_reason'' (PStr [])) (\<lambda>reason.
     res_bind (if py_truth (dget_or (ca_kwargs c) ''tools'' PNone) then py_get message ''tool_calls'' PNone else Inr PNone) (\<lambda>tools.
     let ck = ca_clock c in
     Inr ((fresh_pv_scope (ca_kwargs c) (ca_server_address c) (ca_server_port c) (ck_start ck))
       \<lparr>pv_ttft := ck_end ck - ck_start ck, pv_llmresponse := PStr text, pv_response_id := i,
        pv_response_model := py_or m (dget_or (ca_kwargs c) ''model'' (PStr ''reka-core-20240501'')),
        pv_finish_reason := PStr (py_str repr reason), pv_input_tokens := input_tokens, pv_output_tokens := py_or o1 o2,
        pv_cache_read := cached, pv_cache_creation := creation, pv_tools := tools\<rparr>))))))))))))))"

definition rk_process_chat_response :: "instr_env \<Rightarrow> call \<Rightarrow> api_result \<Rightarrow> (tele, unit) prog" where
  "rk_process_chat_response env c r =
     pbind (plift (rk_response_scope (ie_repr env) (response_as_dict (api_object r)) c)) (\<lambda>scope.
     rk_common_chat_logic env (ck_logic (ca_clock c)) scope)"

section \<open>The wrappers\<close>

definition rk_failure :: "instr_env \<Rightarrow> call \<Rightarrow> pyexc \<Rightarrow> (tele, unit) prog" where
  "rk_failure = pv_failure GEN_AI_SYSTEM_REKAAI (PStr ''reka-core-20240501'')"

definition reka_chat :: "instr_env \<Rightarrow> pyval \<Rightarrow> api_result res \<Rightarrow> (string, pyval) dict \<Rightarrow> clock \<Rightarrow> (tele, pv_reply) prog" where
  "reka_chat = plain_call ''api.reka.ai'' 443 rk_process_chat_response rk_failure"

definition async_reka_chat :: "instr_env \<Rightarrow> pyval \<Rightarrow> api_result res \<Rightarrow> (string, pyval) dict \<Rightarrow> clock \<Rightarrow> (tele, pv_reply) prog" where
  "async_reka_chat = plain_call ''api.reka.ai'' 443 rk_process_chat_response rk_failure"

definition reka_wrappers ::
  "(string \<times> string \<times> (instr_env \<Rightarrow> pyval \<Rightarrow> api_result res \<Rightarrow> (string, pyval) dict \<Rightarrow> clock \<Rightarrow> (tele, pv_reply) prog)) list" where
  "reka_wrappers = [
     (''reka.chat.client'', ''ChatClient.create'', reka_chat),
     (''reka.chat.client'', ''AsyncChatClient.create'', async_reka_chat)]"

end
