(* ===== verification/AI21Props.thy ===== *)
theory AI21Props
  imports AI21 Reka GroqProps
begin

text \<open>
  The chat calls of AI21 and of Reka satisfy the contract of a chat provider, and the streams of AI21 that of a
  streaming one.
\<close>

section \<open>AI21\<close>

lemma ordinary_ai21 [ordinary_intros]: "ordinary (ai_format_content repr ms)"
  unfolding ai_format_content_def ai_message_line_def by (rule ordinary_intros | simp)+

lemma ordinary_ai_scope [ordinary_intros]: "ordinary (ai_response_scope repr d c)"
  unfolding ai_response_scope_def Let_def by (rule ordinary_intros)+

lemma raises_ai_messages [raises_intros]:
  "raises_only is_Exception (ai_build_input_messages repr ms)"
  "raises_only is_Exception (ai_build_output_messages repr answer reason calls)"
  unfolding ai_build_input_messages_def ai_build_output_messages_def ai_tool_part_def Let_def
  by (rule raises_intros ordinary_intros | simp)+

lemma raises_ai_content [raises_intros]:
  assumes "tame env"
  shows "raises_only is_Exception (ai_content env scope tokens)"
  unfolding ai_content_def ai_emit_inference_event_def by (intro raises_intros assms)

lemma raises_ai_logic [raises_intros]:
  assumes "usable env"
  shows "raises_only is_Exception (ai_common_chat_logic env st t scope)"
proof -
  have "tame env" using assms by (simp add: usable_def)
  then show ?thesis
    unfolding ai_common_chat_logic_def ai_response_attributes_def
    by (intro raises_pv_logic assms raises_intros ordinary_intros) (auto intro!: raises_intros)
qed

lemma discreet_ai_logic: "\<not> ie_capture_message_content env \<Longrightarrow> discreet (ai_common_chat_logic env st t scope)"
  unfolding ai_common_chat_logic_def ai_request_rows_def ai_response_attributes_def
  by (rule discreet_logic) (auto intro!: discreet_intros simp: content_keys_def semconv)

interpretation ai21: chat_provider ai_process_chat_response ai_failure "''api.ai21.com''" 443
proof
  fix env c r e
  show "raises_only is_Exception (ai_process_chat_response env c r)" if "usable env"
    unfolding ai_process_chat_response_def using that by (auto intro!: raises_intros ordinary_intros)
  show "returns (ai_failure env c e)" if "usable env" using that by (simp add: ai_failure_def pv_failure_laws)
  show "keeps (span_view content_keys) (ai_failure env c e) \<and> keeps tl_events (ai_failure env c e)"
    by (simp add: ai_failure_def pv_failure_laws)
  show "keeps (span_view content_keys) (ai_process_chat_response env c r) \<and> keeps tl_events (ai_process_chat_response env c r)"
    if "\<not> ie_capture_message_content env"
    using discreet_ai_logic [OF that] unfolding ai_process_chat_response_def by (auto simp: discreet_def intro!: keeps_intros)
qed

text \<open>Chunks; the usage comes with a choice.\<close>

definition ai_readable :: "pyval \<Rightarrow> bool" where
  "ai_readable chunk =
     (let e = response_as_dict chunk; u = field e ''usage'' in
      is_dict e \<and> delta_readable e \<and> optional is_dict u
      \<and> (py_truth u \<longrightarrow> list_all (\<lambda>k. optional is_dict (field u k)) [''prompt_tokens_details'', ''input_tokens_details'']
           \<and> dget_or (fields e) ''choices'' (PList [PDict []]) \<noteq> PList []))"

lemma ai_usage_run:
  assumes "is_dict e" and "is_dict u" and "\<exists>v. first_choice e (PList [PDict []]) ''finish_reason'' PNone = Inr v"
    and "optional is_dict (field u ''prompt_tokens_details'')" and "optional is_dict (field u ''input_tokens_details'')"
  shows "\<exists>s'. ai_usage e u s = (Inr (), s') \<and> pv_llmresponse s' = pv_llmresponse s"
proof -
  from detail_count_run [OF assms(2,4), of "''cached_tokens''"] detail_count_run [OF assms(2,5), of "''cache_creation_tokens''"]
    assms(3) obtain n1 n2 v where "detail_count u ''prompt_tokens_details'' ''cached_tokens'' = Inr n1"
    "detail_count u ''input_tokens_details'' ''cache_creation_tokens'' = Inr n2"
    "first_choice e (PList [PDict []]) ''finish_reason'' PNone = Inr v" by blast
  then show ?thesis by (simp add: ai_usage_def py_get_field [OF assms(1)] py_get_field [OF assms(2)])
qed

lemma ai_chunk_processed:
  assumes "ai_readable c" and "is_str (pv_llmresponse s)"
  shows "\<exists>s'. ai_process_chunk now c s = (Inr (), s') \<and> is_str (pv_llmresponse s')"
proof -
  let ?e = "response_as_dict c"
  let ?u = "field ?e ''usage''"
  from assms(1) have e: "is_dict ?e" "delta_readable ?e" by (simp_all add: ai_readable_def Let_def)
  from delta_content_run [OF e, of "pv_stamp now s"] assms(2) obtain s1 where
    s1: "pv_delta_content ?e (pv_stamp now s) = (Inr (), s1)" "is_str (pv_llmresponse s1)" by auto
  show ?thesis
  proof (cases "py_truth ?u")
    case True
    with assms(1) have "is_dict ?u" "optional is_dict (field ?u ''prompt_tokens_details'')"
      "optional is_dict (field ?u ''input_tokens_details'')" "dget_or (fields ?e) ''choices'' (PList [PDict []]) \<noteq> PList []"
      by (auto simp: ai_readable_def Let_def optional_def [of _ ?u])
    from ai_usage_run [OF e(1) this(1) first_choice_run [OF e this(4)] this(2,3), of s1] s1 True show ?thesis
      by (auto simp: ai_process_chunk_def Let_def pbind_def [of "pv_delta_content ?e"] py_get_dict [OF e(1)])
  next
    case False
    with s1 show ?thesis
      by (auto simp: ai_process_chunk_def Let_def pbind_def [of "pv_delta_content ?e"] py_get_dict [OF e(1)])
  qed
qed

lemma ai_chunk_spans: "keeps pv_spans (ai_process_chunk now c)"
  unfolding ai_process_chunk_def ai_usage_def pv_delta_content_def pv_append_def Let_def
  by (rule keeps_intros | simp)+

interpretation ai21_stream: streaming_provider "''api.ai21.com''" 443 ai_process_streaming
    ai_process_chunk ai_readable "\<lambda>s. is_str (pv_llmresponse s)"
proof
  fix env end_time
  show "raises_only is_Exception (ai_process_streaming env end_time)" if "usable env"
    unfolding ai_process_streaming_def by (intro raises_intros that)
  show "quiet_end (ai_process_streaming env end_time)" if "\<not> ie_capture_message_content env"
    unfolding ai_process_streaming_def by (intro quiet_renewed quiet_stream_end discreet_ai_logic that)
qed (simp_all add: fresh_pv_scope_def ai_chunk_processed ai_chunk_spans)

section \<open>Reka\<close>

lemma ordinary_rk_scope [ordinary_intros]: "ordinary (rk_response_scope repr d c)"
proof -
  have t: "ordinary (rk_text l)" for l unfolding rk_text_def by (rule ordinary_intros | simp)+
  have f: "ordinary (rk_first_response l)" for l unfolding rk_first_response_def by (rule ordinary_intros)+
  show ?thesis
    unfolding rk_response_scope_def Let_def case_prod_beta by (rule ordinary_intros t f)+
qed

lemma raises_rk_output [raises_intros]:
  assumes "\<And>s. ordinary (loads s)"
  shows "raises_only P (rk_build_output_messages loads answer reason calls)"
proof -
  have "ordinary (parse_tool_args loads v)" for v
    using assms unfolding parse_tool_args_def by (auto simp: ordinary_def split: pyval.splits sum.splits)
  then have p: "ordinary (rk_parameters loads v)" for v
    by (auto simp: rk_parameters_def ordinary_def split: pyval.split list.split)
  have t: "ordinary (rk_tool_part loads t)" for t
    unfolding rk_tool_part_def by (rule ordinary_intros p | simp)+
  have "ordinary (rk_output_message loads answer reason calls)"
    unfolding rk_output_message_def by (rule ordinary_intros t | simp)+
  then show ?thesis unfolding rk_build_output_messages_def by (rule raises_intros)
qed

lemma raises_rk_logic [raises_intros]:
  assumes "usable env"
  shows "raises_only is_Exception (rk_common_chat_logic env t scope)"
proof -
  have t: "tame env" using assms by (simp add: usable_def)
  have tools: "raises_only is_Exception (rk_tool_attributes (ie_repr env) v)" for v
    unfolding rk_tool_attributes_def by (auto intro!: raises_intros ordinary_intros)
  show ?thesis
    unfolding rk_common_chat_logic_def rk_response_attributes_def rk_content_def rk_format_content_def
      rk_build_input_messages_def rk_emit_inference_event_def gq_emit_inference_event_def
    by (intro raises_pv_logic assms raises_intros ordinary_intros t tameD [OF t]) (auto intro!: raises_intros tools)
qed

lemma discreet_rk_logic: "\<not> ie_capture_message_content env \<Longrightarrow> discreet (rk_common_chat_logic env t scope)"
  unfolding rk_common_chat_logic_def rk_request_rows_def rk_response_attributes_def rk_tool_attributes_def
  by (rule discreet_logic) (auto intro!: discreet_intros simp: content_keys_def semconv)

interpretation reka: chat_provider rk_process_chat_response rk_failure "''api.reka.ai''" 443
proof
  fix env c r e
  show "raises_only is_Exception (rk_process_chat_response env c r)" if "usable env"
    unfolding rk_process_chat_response_def using that by (auto intro!: raises_intros ordinary_intros)
  show "returns (rk_failure env c e)" if "usable env" using that by (simp add: rk_failure_def pv_failure_laws)
  show "keeps (span_view content_keys) (rk_failure env c e) \<and> keeps tl_events (rk_failure env c e)"
    by (simp add: rk_failure_def pv_failure_laws)
  show "keeps (span_view content_keys) (rk_process_chat_response env c r) \<and> keeps tl_events (rk_process_chat_response env c r)"
    if "\<not> ie_capture_message_content env"
    using discreet_rk_logic [OF that] unfolding rk_process_chat_response_def by (auto simp: discreet_def intro!: keeps_intros)
qed

end
