(* ===== verification/ProviderCalls.thy ===== *)
theory ProviderCalls
  imports AnthropicProps MistralProps AI21Props
begin

text \<open>
  All providers together: the wrappers the instrumentors install, each with the host its calls go to by default,
  and what holds for every one of them.
\<close>

type_synonym wrapper = "instr_env \<Rightarrow> pyval \<Rightarrow> api_result res \<Rightarrow> (string, pyval) dict \<Rightarrow> clock \<Rightarrow> (tele, pv_reply) prog"

text \<open>The wrappers of calls that can give a plain answer.\<close>

definition provider_wrappers :: "(string \<times> wrapper) list" where
  "provider_wrappers =
     map (\<lambda>(m, f, w). (''api.anthropic.com'', w)) anthropic_wrappers
     @ map (\<lambda>(m, f, w). (''api.groq.com'', w)) groq_wrappers
     @ map (\<lambda>(m, f, w). (''api.mistral.ai'', w)) (filter (\<lambda>(m, f, w). f \<in> {''Chat.complete'', ''Chat.complete_async''}) mistral_wrappers)
     @ map (\<lambda>(m, f, w). (''api.ai21.com'', w)) ai21_wrappers
     @ map (\<lambda>(m, f, w). (''api.reka.ai'', w)) reka_wrappers"

text \<open>The wrappers of calls that can stream, with the processing of their streams.\<close>

record streaming =
  sm_host :: string
  sm_wrapper :: wrapper
  sm_chunk :: "rat \<Rightarrow> pyval \<Rightarrow> (pv_scope, unit) prog"
  sm_finish :: "instr_env \<Rightarrow> rat \<Rightarrow> (pv_scope \<times> tele, unit) prog"
  sm_readable :: "pyval \<Rightarrow> bool"

definition streams_of ::
  "string \<Rightarrow> (rat \<Rightarrow> pyval \<Rightarrow> (pv_scope, unit) prog) \<Rightarrow> (instr_env \<Rightarrow> rat \<Rightarrow> (pv_scope \<times> tele, unit) prog) \<Rightarrow> (pyval \<Rightarrow> bool)
     \<Rightarrow> wrapper list \<Rightarrow> streaming list" where
  "streams_of host chunk finish readable ws =
     map (\<lambda>w. \<lparr>sm_host = host, sm_wrapper = w, sm_chunk = chunk, sm_finish = finish, sm_readable = readable\<rparr>) ws"

definition provider_streams :: "streaming list" where
  "provider_streams =
     streams_of ''api.anthropic.com'' an_process_chunk an_process_streaming an_readable [anthropic_messages, async_anthropic_messages]
     @ streams_of ''api.groq.com'' gq_process_chunk gq_process_streaming gq_readable [groq_chat, async_groq_chat]
     @ streams_of ''api.mistral.ai'' ms_process_chunk ms_process_streaming ms_readable [mistral_stream, async_mistral_stream]
     @ streams_of ''api.ai21.com'' ai_process_chunk ai_process_streaming ai_readable [ai21_chat, async_ai21_chat]"

lemmas wrapper_defs = anthropic_messages_def async_anthropic_messages_def groq_chat_def async_groq_chat_def
  mistral_complete_def async_mistral_complete_def mistral_stream_def async_mistral_stream_def ai21_chat_def async_ai21_chat_def
  reka_chat_def async_reka_chat_def
lemmas wrapper_tables = provider_wrappers_def anthropic_wrappers_def groq_wrappers_def mistral_wrappers_def ai21_wrappers_def
  reka_wrappers_def

text \<open>A request that asks for a plain answer is served by the plain call of its provider, one that asks for a
  stream by the streaming call.\<close>

lemma some_plain_call:
  "chat_provider process failure \<Longrightarrow> \<exists>p f. chat_provider p f
     \<and> plain_call host port process failure env client wrapped kwargs ck = plain_call host port p f env client wrapped kwargs ck"
  by blast

lemma plain_wrapper:
  assumes "(host, w) \<in> set provider_wrappers" and "\<not> py_truth (dget_or kwargs ''stream'' (PBool False))"
  shows "\<exists>process failure. chat_provider process failure
     \<and> w env client wrapped kwargs ck = plain_call host 443 process failure env client wrapped kwargs ck"
  using assms
  by (auto simp: wrapper_tables wrapper_defs provider_call_def
      intro!: some_plain_call anthropic.chat_provider_axioms groq.chat_provider_axioms mistral.chat_provider_axioms
        ai21.chat_provider_axioms reka.chat_provider_axioms)

lemma streaming_wrapper:
  assumes "m \<in> set provider_streams" and "py_truth (dget_or kwargs ''stream'' (PBool False))"
  shows "\<exists>invariant. streaming_provider (sm_finish m) (sm_chunk m) (sm_readable m) invariant
     \<and> sm_wrapper m env client wrapped kwargs ck = stream_call (sm_host m) 443 env client wrapped kwargs ck"
  using assms anthropic_stream.streaming_provider_axioms groq_stream.streaming_provider_axioms
    mistral_stream.streaming_provider_axioms ai21_stream.streaming_provider_axioms
  by (auto simp: provider_streams_def streams_of_def wrapper_defs provider_call_def intro: exI conjI)

section \<open>Transparency\<close>


lemma plain_sample: "\<not> py_truth (dget_or [] ''stream'' (PBool False))"
  by simp

lemma stream_sample: "py_truth (dget_or [(''stream'', PBool True)] ''stream'' (PBool False))"
  by simp



lemma mistral_sample: "set_server_address_and_port PNone ''api.mistral.ai'' 443 = Inr (PStr ''api.mistral.ai'', PInt 443)"
  by (simp add: set_server_address_and_port_def base_url_of_def)

definition sample_streaming :: streaming where
  "sample_streaming = \<lparr>sm_host = ''api.mistral.ai'', sm_wrapper = mistral_stream, sm_chunk = ms_process_chunk,
     sm_finish = ms_process_streaming, sm_readable = ms_readable\<rparr>"

lemma sample_streaming:
  "sample_streaming \<in> set provider_streams"
  "set_server_address_and_port PNone (sm_host sample_streaming) 443 = Inr (PStr ''api.mistral.ai'', PInt 443)"
  using mistral_sample by (simp_all add: sample_streaming_def provider_streams_def streams_of_def)


section \<open>Privacy\<close>





end
