(* ===== verification/VectorDb.thy ===== *)
theory VectorDb
  imports TracedCall
begin

text \<open>
  What the instrumentations of vector databases share (\<open>chroma\<close>, \<open>pinecone\<close>, \<open>qdrant\<close>, \<open>milvus\<close> and \<open>astra\<close> under
  \<open>openlit/instrumentation\<close>): the data of one operation, the skeleton of their logic functions and the call
  wrapper.  The theories of the databases hold what differs.
\<close>

section \<open>One operation\<close>

text \<open>The arguments of \<open>process_..._response\<close>, which the scope object takes over.\<close>

record db_call =
  dc_operation :: string
  dc_endpoint :: string
  dc_kwargs :: "(string, pyval) dict"
  dc_args :: "pyval list"
  dc_instance :: pyval
  dc_response :: pyval
  dc_server_address :: pyval
  dc_server_port :: pyval
  dc_start_time :: rat
  dc_end_time :: rat

definition db_kwarg :: "db_call \<Rightarrow> string \<Rightarrow> pyval \<Rightarrow> pyval" where
  "db_kwarg c k dflt = dget_or (dc_kwargs c) k dflt"

definition given :: "db_call \<Rightarrow> string \<Rightarrow> pyval" where
  "given c k = db_kwarg c k PNone"

text \<open>\<open>args[i] if len(args) > i else default\<close>.\<close>

definition db_arg :: "pyval list \<Rightarrow> nat \<Rightarrow> pyval \<Rightarrow> pyval" where
  "db_arg args i dflt = (if i < length args then args ! i else dflt)"

definition unknown_name :: pyval where
  "unknown_name = PStr ''unknown''"

text \<open>\<open>len(obj) if obj else 0\<close>.\<close>

definition object_count :: "pyval \<Rightarrow> pyval res" where
  "object_count obj = (if py_truth obj then res_bind (py_len obj) (\<lambda>n. Inr (PInt (int n))) else Inr (PInt 0))"

section \<open>Span attributes\<close>

definition shown :: "instr_env \<Rightarrow> pyval \<Rightarrow> string" where
  "shown env v = py_str (ie_repr env) v"

definition shown_attr :: "instr_env \<Rightarrow> string \<Rightarrow> pyval \<Rightarrow> (tele, unit) prog" where
  "shown_attr env k v = span_attr k (PStr (shown env v))"

definition count_attr :: "string \<Rightarrow> pyval \<Rightarrow> (tele, unit) prog" where
  "count_attr k obj = pbind (plift (object_count obj)) (span_attr k)"

text \<open>The f-strings of the query summaries: operation, target and \<open>name=value\<close> pairs.\<close>

definition item :: "instr_env \<Rightarrow> string \<Rightarrow> pyval \<Rightarrow> string" where
  "item env k v = k @ ''='' @ shown env v"

definition summary :: "instr_env \<Rightarrow> string \<Rightarrow> pyval \<Rightarrow> string list \<Rightarrow> (tele, unit) prog" where
  "summary env operation target items =
     span_attr DB_QUERY_SUMMARY (PStr (py_join '' '' (operation # shown env target # items)))"

section \<open>The logic\<close>

text \<open>The common attributes, those of the operation, status and metrics; the operation may rename itself.\<close>

definition db_metrics :: "instr_env \<Rightarrow> string \<Rightarrow> db_call \<Rightarrow> string \<Rightarrow> (tele, unit) prog" where
  "db_metrics env system c operation =
     pwhen (\<not> ie_disable_metrics env)
       (metric_step env (\<lambda>m. record_db_metrics m system (dc_server_address c) (dc_server_port c) (ie_environment env)
          (ie_application_name env) (dc_start_time c) (dc_end_time c) operation))"

definition db_common :: "instr_env \<Rightarrow> string \<Rightarrow> db_call \<Rightarrow> (tele, unit) prog" where
  "db_common env system c =
     pbind (span_step (common_db_span_attributes system (dc_server_address c) (dc_server_port c) (ie_environment env)
       (ie_application_name env) (ie_version env))) (\<lambda>_.
     pbind (span_attr DB_OPERATION_NAME (PStr (dc_operation c))) (\<lambda>_.
     span_attr DB_CLIENT_OPERATION_DURATION (PFloat (dc_end_time c - dc_start_time c))))"

definition db_logic :: "instr_env \<Rightarrow> string \<Rightarrow> db_call \<Rightarrow> (tele, string) prog \<Rightarrow> (tele, unit) prog" where
  "db_logic env system c specific =
     pbind (db_common env system c) (\<lambda>_.
     pbind specific (\<lambda>operation.
     pbind (span_step (set_status StatusOk)) (\<lambda>_.
     db_metrics env system c operation)))"

section \<open>The server\<close>

text \<open>The host and the port of a full URL, each where it has one: the host is stored before the port is read,
  and an exception ends the search.\<close>

definition url_server :: "string \<Rightarrow> pyval \<times> pyval \<Rightarrow> pyval \<times> pyval" where
  "url_server url dflt =
     (case urlparse_ok url of
        Inl e \<Rightarrow> dflt
      | Inr _ \<Rightarrow>
          (case url_hostname url of Some h \<Rightarrow> PStr h | None \<Rightarrow> fst dflt,
           case url_port url of Inr (Some p) \<Rightarrow> (if p \<noteq> 0 then PInt p else snd dflt) | _ \<Rightarrow> snd dflt))"

definition is_full_url :: "string \<Rightarrow> bool" where
  "is_full_url url \<longleftrightarrow> startswith url ''http://'' \<or> startswith url ''https://''"

text \<open>A base URL may also be a bare host name.\<close>

definition base_url_server :: "pyval \<Rightarrow> pyval \<times> pyval \<Rightarrow> pyval \<times> pyval" where
  "base_url_server base_url dflt =
     (case base_url of
        PStr s \<Rightarrow> (if s = [] then dflt else if is_full_url s then url_server s dflt else (PStr s, snd dflt))
      | _ \<Rightarrow> dflt)"

text \<open>Or \<open>host:port\<close>, where a port that is no number leaves the default.\<close>

definition host_port_server :: "pyval \<Rightarrow> pyval \<times> pyval \<Rightarrow> pyval \<times> pyval" where
  "host_port_server uri dflt =
     (case uri of
        PStr s \<Rightarrow>
          (if s = [] then dflt
           else if is_full_url s then url_server s dflt
           else if CHR '':'' \<in> set s then
             (let parts = py_split CHR '':'' s in
              (PStr (parts ! 0), case py_int (PStr (parts ! 1)) of Inr p \<Rightarrow> PInt p | Inl e \<Rightarrow> snd dflt))
           else (PStr s, snd dflt))
      | _ \<Rightarrow> dflt)"

section \<open>The wrapper\<close>

type_synonym db_wrapper = "instr_env \<Rightarrow> bool \<Rightarrow> pyval \<Rightarrow> api_result res \<Rightarrow> pyval list \<Rightarrow> (string, pyval) dict \<Rightarrow> clock
  \<Rightarrow> (tele, api_result) prog"

text \<open>\<open>DB_OPERATION_MAP.get(endpoint, "unknown")\<close>.\<close>

definition operation_of :: "(string, string) dict \<Rightarrow> string \<Rightarrow> string" where
  "operation_of operations endpoint = dget_or operations endpoint ''unknown''"

definition db_failure :: "pyexc \<Rightarrow> (tele, unit) prog" where
  "db_failure e = span_step (handle_exception e)"

text \<open>While instrumentation is suppressed the call is made and nothing else happens.\<close>

definition general_wrap ::
  "(string, string) dict \<Rightarrow> (pyval \<Rightarrow> (pyval \<times> pyval) res) \<Rightarrow> (instr_env \<Rightarrow> db_call \<Rightarrow> (tele, unit) prog) \<Rightarrow> string \<Rightarrow> db_wrapper" where
  "general_wrap operations server process endpoint env suppressed client wrapped args kwargs ck =
     (if suppressed then plift wrapped
      else pbind (plift (server client)) (\<lambda>(server_address, server_port).
        guarded_call wrapped
          (\<lambda>r. process env \<lparr>dc_operation = operation_of operations endpoint, dc_endpoint = endpoint, dc_kwargs = kwargs,
             dc_args = args, dc_instance = client, dc_response = api_object r, dc_server_address = server_address,
             dc_server_port = server_port, dc_start_time = ck_start ck, dc_end_time = ck_logic ck\<rparr>)
          db_failure))"

end
