(* ===== verification/Chroma.thy ===== *)
theory Chroma
  imports VectorDb
begin

text \<open>
  \<open>openlit/instrumentation/chroma\<close>: the operations of a Chroma collection.
\<close>

definition CHROMA_OPERATIONS :: "(string, string) dict" where
  "CHROMA_OPERATIONS = [
     (''chroma.create_collection'', DB_OPERATION_CREATE_COLLECTION),
     (''chroma.add'', DB_OPERATION_INSERT),
     (''chroma.get'', DB_OPERATION_GET),
     (''chroma.peek'', DB_OPERATION_PEEK),
     (''chroma.query'', DB_OPERATION_GET),
     (''chroma.update'', DB_OPERATION_UPDATE),
     (''chroma.upsert'', DB_OPERATION_UPSERT),
     (''chroma.delete'', DB_OPERATION_DELETE)]"

definition chroma_server :: "pyval \<Rightarrow> (pyval \<times> pyval) res" where
  "chroma_server client =
     (let base_url = py_getattr (py_getattr client ''_client'' PNone) ''base_url'' PNone;
          base_url = (if py_truth base_url then base_url
                      else py_getattr (py_getattr client ''_config'' PNone) ''endpoint'' PNone);
          base_url = (if py_truth base_url then base_url
                      else py_getattr (py_getattr client ''sdk_configuration'' PNone) ''server_url'' PNone)
      in Inr (base_url_server base_url (PStr ''localhost'', PInt 8000)))"

section \<open>Attributes of the operations\<close>

definition ch_collection :: "db_call \<Rightarrow> pyval" where
  "ch_collection c = py_getattr (dc_instance c) ''name'' unknown_name"

text \<open>\<open>SemanticConvention\<close> has no attribute \<open>DB_COLLECTION_METADATA\<close>: reading it raises.\<close>

definition no_convention :: "string \<Rightarrow> pyexc" where
  "no_convention name =
     PyExc AttributeError (''type object SemanticConvention has no attribute '' @ name)"

definition ch_create :: "db_call \<Rightarrow> (tele, unit) prog" where
  "ch_create c =
     (let metadata = db_kwarg c ''metadata'' (PDict []) in
      pbind (span_attr DB_COLLECTION_NAME (py_or (given c ''name'') (db_arg (dc_args c) 0 unknown_name))) (\<lambda>_.
      pwhen (py_truth metadata) (praise (no_convention ''DB_COLLECTION_METADATA''))))"

text \<open>The attributes of an operation on documents with given ids.\<close>

definition ch_ids :: "instr_env \<Rightarrow> db_call \<Rightarrow> (tele, unit) prog" where
  "ch_ids env c =
     (let query = db_kwarg c ''ids'' (PList []) in
      pbind (shown_attr env DB_QUERY_TEXT query) (\<lambda>_.
      pbind (span_attr DB_COLLECTION_NAME (ch_collection c)) (\<lambda>_.
      count_attr DB_VECTOR_COUNT query)))"

definition ch_insert :: "instr_env \<Rightarrow> db_call \<Rightarrow> (tele, unit) prog" where
  "ch_insert env c =
     pbind (ch_ids env c) (\<lambda>_.
     summary env (dc_operation c) (ch_collection c)
       [item env ''ids'' (db_kwarg c ''ids'' (PList [])), item env ''documents'' (db_kwarg c ''documents'' (PList []))])"

definition ch_get :: "instr_env \<Rightarrow> db_call \<Rightarrow> (tele, unit) prog" where
  "ch_get env c =
     pbind (ch_ids env c) (\<lambda>_.
     pbind (shown_attr env DB_FILTER (db_kwarg c ''where'' (PStr []))) (\<lambda>_.
     summary env (dc_operation c) (ch_collection c)
       [item env ''ids'' (db_kwarg c ''ids'' (PList [])), item env ''limit'' (db_kwarg c ''limit'' (PStr ''None'')),
        item env ''offset'' (db_kwarg c ''offset'' (PStr ''None''))]))"

definition ch_query_content :: "instr_env \<Rightarrow> db_call \<Rightarrow> string res" where
  "ch_query_content env c =
     (let texts = db_kwarg c ''query_texts'' (PList []); embeddings = db_kwarg c ''query_embeddings'' (PList []) in
      if py_truth texts then Inr (item env ''texts'' texts)
      else if py_truth embeddings then
        res_bind (py_len embeddings) (\<lambda>n. Inr (item env ''embeddings'' (PInt (int n)) @ '' vectors''))
      else Inr ''no query provided'')"

text \<open>\<open>hasattr(response, "get")\<close>: of the modelled values only dictionaries have methods.\<close>

definition ch_returned_rows :: "pyval \<Rightarrow> (tele, unit) prog" where
  "ch_returned_rows response =
     (case response of
        PDict d \<Rightarrow>
          (let ids = dget_or d ''ids'' PNone in
           pwhen (d \<noteq> [] \<and> py_truth ids)
             (pbind (plift (py_index ids (PInt 0))) (\<lambda>first. count_attr DB_RESPONSE_RETURNED_ROWS first)))
      | _ \<Rightarrow> pret ())"

definition ch_query :: "instr_env \<Rightarrow> db_call \<Rightarrow> (tele, unit) prog" where
  "ch_query env c =
     pbind (plift (ch_query_content env c)) (\<lambda>query_content.
     pbind (span_attr DB_QUERY_TEXT (PStr query_content)) (\<lambda>_.
     pbind (span_attr DB_COLLECTION_NAME (ch_collection c)) (\<lambda>_.
     pbind (span_attr DB_VECTOR_QUERY_TOP_K (db_kwarg c ''n_results'' (PInt 10))) (\<lambda>_.
     pbind (shown_attr env DB_FILTER (db_kwarg c ''where'' (PStr []))) (\<lambda>_.
     pbind (ch_returned_rows (dc_response c)) (\<lambda>_.
     summary env (dc_operation c) (ch_collection c)
       [item env ''n_results'' (db_kwarg c ''n_results'' (PInt 10)), query_content,
        item env ''filter'' (db_kwarg c ''where'' (PStr ''None''))]))))))"

text \<open>\<open>update\<close> and \<open>upsert\<close> are recorded alike.\<close>

definition ch_update :: "instr_env \<Rightarrow> db_call \<Rightarrow> (tele, unit) prog" where
  "ch_update env c =
     pbind (ch_ids env c) (\<lambda>_.
     summary env (dc_operation c) (ch_collection c)
       [item env ''ids'' (db_kwarg c ''ids'' (PList [])), item env ''embeddings'' (db_kwarg c ''embeddings'' (PStr ''None'')),
        item env ''metadatas'' (db_kwarg c ''metadatas'' (PStr ''None'')),
        item env ''documents'' (db_kwarg c ''documents'' (PStr ''None''))])"

definition ch_delete :: "instr_env \<Rightarrow> db_call \<Rightarrow> (tele, unit) prog" where
  "ch_delete env c =
     pbind (ch_ids env c) (\<lambda>_.
     pbind (shown_attr env DB_FILTER (db_kwarg c ''where'' (PStr []))) (\<lambda>_.
     summary env (dc_operation c) (ch_collection c)
       [item env ''ids'' (db_kwarg c ''ids'' (PList [])), item env ''filter'' (db_kwarg c ''where'' (PStr ''None'')),
        item env ''delete_all'' (db_kwarg c ''delete_all'' (PBool False))]))"

definition ch_peek :: "instr_env \<Rightarrow> db_call \<Rightarrow> (tele, unit) prog" where
  "ch_peek env c =
     pbind (span_attr DB_QUERY_TEXT (PStr (''PEEK limit='' @ shown env (db_kwarg c ''limit'' (PStr []))))) (\<lambda>_.
     pbind (span_attr DB_COLLECTION_NAME (ch_collection c)) (\<lambda>_.
     pbind (span_attr DB_VECTOR_COUNT (db_kwarg c ''limit'' (PStr []))) (\<lambda>_.
     summary env (dc_operation c) (ch_collection c) [item env ''limit'' (db_kwarg c ''limit'' (PStr ''None''))])))"

definition ch_specific :: "instr_env \<Rightarrow> db_call \<Rightarrow> (tele, unit) prog" where
  "ch_specific env c =
     (let operation = dc_operation c in
      if operation = DB_OPERATION_CREATE_COLLECTION then ch_create c
      else if operation = DB_OPERATION_INSERT then ch_insert env c
      else if operation = DB_OPERATION_GET then
        (if dc_endpoint c = ''chroma.get'' then ch_get env c
         else if dc_endpoint c = ''chroma.query'' then ch_query env c
         else pret ())
      else if operation = DB_OPERATION_UPDATE \<or> operation = DB_OPERATION_UPSERT then ch_update env c
      else if operation = DB_OPERATION_DELETE then ch_delete env c
      else if operation = DB_OPERATION_PEEK then ch_peek env c
      else pret ())"

section \<open>The logic and the wrappers\<close>

definition ch_common_vectordb_logic :: "instr_env \<Rightarrow> db_call \<Rightarrow> (tele, unit) prog" where
  "ch_common_vectordb_logic env c =
     db_logic env DB_SYSTEM_CHROMA c
       (pbind (pwhen (has_attr (dc_instance c) ''name'') (span_attr DB_COLLECTION_NAME (py_getattr (dc_instance c) ''name'' PNone))) (\<lambda>_.
        pbind (ch_specific env c) (\<lambda>_. pret (dc_operation c))))"

definition chroma_wrap :: "string \<Rightarrow> db_wrapper" where
  "chroma_wrap = general_wrap CHROMA_OPERATIONS chroma_server ch_common_vectordb_logic"

definition chroma_wrappers :: "(string \<times> string \<times> string) list" where
  "chroma_wrappers = [
     (''chromadb.db'', ''DB.create_collection'', ''chroma.create_collection''),
     (''chromadb'', ''Collection.add'', ''chroma.add''),
     (''chromadb'', ''Collection.get'', ''chroma.get''),
     (''chromadb'', ''Collection.peek'', ''chroma.peek''),
     (''chromadb'', ''Collection.query'', ''chroma.query''),
     (''chromadb'', ''Collection.update'', ''chroma.update''),
     (''chromadb'', ''Collection.upsert'', ''chroma.upsert''),
     (''chromadb'', ''Collection.delete'', ''chroma.delete'')]"

end
