(* ===== verification/Pinecone.thy ===== *)
theory Pinecone
  imports VectorDb
begin

text \<open>
  \<open>openlit/instrumentation/pinecone\<close>: the operations of a Pinecone index; \<open>async_pinecone.py\<close> repeats the wrapper
  with \<open>await\<close>.
\<close>

definition PINECONE_OPERATIONS :: "(string, string) dict" where
  "PINECONE_OPERATIONS = [
     (''pinecone.create_collection'', DB_OPERATION_CREATE_COLLECTION),
     (''pinecone.upsert'', DB_OPERATION_UPSERT),
     (''pinecone.query'', DB_OPERATION_QUERY),
     (''pinecone.search'', DB_OPERATION_SEARCH),
     (''pinecone.fetch'', DB_OPERATION_FETCH),
     (''pinecone.update'', DB_OPERATION_UPDATE),
     (''pinecone.delete'', DB_OPERATION_DELETE),
     (''pinecone.upsert_records'', DB_OPERATION_UPSERT),
     (''pinecone.search_records'', DB_OPERATION_QUERY)]"

definition pinecone_server :: "pyval \<Rightarrow> (pyval \<times> pyval) res" where
  "pinecone_server client =
     (let base_url = py_getattr (py_getattr client ''_client'' PNone) ''base_url'' PNone;
          base_url = (if py_truth base_url then base_url
                      else py_getattr (py_getattr client ''config'' PNone) ''host'' PNone)
      in Inr (base_url_server base_url (PStr ''pinecone.io'', PInt 443)))"

section \<open>Attributes of the operations\<close>

text \<open>\<open>kwargs.get("namespace", default) or (args[0] if args else "unknown")\<close>.\<close>

definition pc_namespace :: "db_call \<Rightarrow> pyval \<Rightarrow> pyval" where
  "pc_namespace c dflt = py_or (db_kwarg c ''namespace'' dflt) (db_arg (dc_args c) 0 unknown_name)"

definition pc_create :: "instr_env \<Rightarrow> db_call \<Rightarrow> (tele, unit) prog" where
  "pc_create env c =
     pbind (span_attr DB_COLLECTION_NAME (db_kwarg c ''name'' (PStr []))) (\<lambda>_.
     pbind (span_attr DB_COLLECTION_DIMENSION (db_kwarg c ''dimension'' (PInt (-1)))) (\<lambda>_.
     pbind (span_attr DB_SEARCH_SIMILARITY_METRIC (db_kwarg c ''metric'' (PStr ''cosine''))) (\<lambda>_.
     shown_attr env DB_COLLECTION_SPEC (db_kwarg c ''spec'' (PStr [])))))"

definition pc_search :: "instr_env \<Rightarrow> db_call \<Rightarrow> (tele, unit) prog" where
  "pc_search env c =
     (let namespace = pc_namespace c (PStr ''default''); query = db_kwarg c ''query'' (PDict []) in
      pbind (plift (py_get query ''inputs'' (PDict []))) (\<lambda>inputs.
      pbind (plift (py_get inputs ''text'' (PStr []))) (\<lambda>query_text.
      pbind (plift (py_get query ''vector'' (PDict []))) (\<lambda>query_vector.
      pbind (span_attr DB_QUERY_TEXT (py_or query_text (PStr (shown env query_vector)))) (\<lambda>_.
      pbind (span_attr DB_NAMESPACE namespace) (\<lambda>_.
      pbind (plift (py_get query ''top_k'' (PInt (-1)))) (\<lambda>top_k.
      pbind (span_attr DB_VECTOR_QUERY_TOP_K top_k) (\<lambda>_.
      summary env (dc_operation c) namespace
        [item env ''top_k'' top_k, item env ''text'' query_text, item env ''vector'' query_vector]))))))))"

definition pc_query :: "instr_env \<Rightarrow> db_call \<Rightarrow> (tele, unit) prog" where
  "pc_query env c =
     (let namespace = pc_namespace c (PStr ''default'') in
      pbind (shown_attr env DB_QUERY_TEXT (db_kwarg c ''vector'' (PList []))) (\<lambda>_.
      pbind (span_attr DB_NAMESPACE namespace) (\<lambda>_.
      pbind (span_attr DB_VECTOR_QUERY_TOP_K (db_kwarg c ''top_k'' (PStr []))) (\<lambda>_.
      pbind (shown_attr env DB_FILTER (db_kwarg c ''filter'' (PStr []))) (\<lambda>_.
      summary env (dc_operation c) namespace
        [item env ''top_k'' (db_kwarg c ''top_k'' (PInt (-1))), item env ''filtered'' (db_kwarg c ''filter'' (PStr [])),
         item env ''vector'' (db_kwarg c ''vector'' (PStr []))])))))"

definition pc_fetch :: "instr_env \<Rightarrow> db_call \<Rightarrow> (tele, unit) prog" where
  "pc_fetch env c =
     (let namespace = pc_namespace c (PStr ''default''); query = db_kwarg c ''ids'' (PList []) in
      pbind (shown_attr env DB_QUERY_TEXT query) (\<lambda>_.
      pbind (span_attr DB_NAMESPACE namespace) (\<lambda>_.
      pbind (summary env (dc_operation c) namespace [item env ''ids'' query]) (\<lambda>_.
      pbind (plift (py_attr (dc_response c) ''vectors'')) (count_attr DB_RESPONSE_RETURNED_ROWS)))))"

definition pc_update :: "instr_env \<Rightarrow> db_call \<Rightarrow> (tele, unit) prog" where
  "pc_update env c =
     (let namespace = pc_namespace c PNone; query = db_kwarg c ''id'' (PStr []) in
      pbind (span_attr DB_QUERY_TEXT query) (\<lambda>_.
      pbind (span_attr DB_NAMESPACE namespace) (\<lambda>_.
      summary env (dc_operation c) namespace
        [item env ''id'' query, item env ''values'' (db_kwarg c ''values'' (PList [])),
         item env ''set_metadata'' (db_kwarg c ''set_metadata'' (PStr []))])))"

definition pc_upsert :: "instr_env \<Rightarrow> db_call \<Rightarrow> (tele, unit) prog" where
  "pc_upsert env c =
     (let namespace = pc_namespace c PNone; query = py_or (given c ''vectors'') (db_arg (dc_args c) 1 PNone) in
      pbind (shown_attr env DB_QUERY_TEXT query) (\<lambda>_.
      pbind (span_attr DB_NAMESPACE namespace) (\<lambda>_.
      pbind (plift (object_count query)) (\<lambda>n.
      pbind (span_attr DB_VECTOR_COUNT n) (\<lambda>_.
      summary env (dc_operation c) namespace [item env ''vectors_count'' n])))))"

definition pc_delete :: "instr_env \<Rightarrow> db_call \<Rightarrow> (tele, unit) prog" where
  "pc_delete env c =
     (let namespace = pc_namespace c PNone; query = py_or (given c ''ids'') (db_arg (dc_args c) 1 PNone) in
      pbind (shown_attr env DB_QUERY_TEXT query) (\<lambda>_.
      pbind (span_attr DB_NAMESPACE namespace) (\<lambda>_.
      pbind (count_attr DB_ID_COUNT (given c ''ids'')) (\<lambda>_.
      pbind (shown_attr env DB_FILTER (db_kwarg c ''filter'' (PStr []))) (\<lambda>_.
      pbind (span_attr DB_DELETE_ALL (db_kwarg c ''delete_all'' (PBool False))) (\<lambda>_.
      summary env (dc_operation c) namespace
        [item env ''ids'' query, item env ''filter'' (db_kwarg c ''filter'' (PStr [])),
         item env ''delete_all'' (db_kwarg c ''delete_all'' (PBool False))]))))))"

definition pc_specific :: "instr_env \<Rightarrow> db_call \<Rightarrow> (tele, unit) prog" where
  "pc_specific env c =
     (let operation = dc_operation c in
      if operation = DB_OPERATION_CREATE_COLLECTION then pc_create env c
      else if operation = DB_OPERATION_SEARCH then pc_search env c
      else if operation = DB_OPERATION_QUERY then pc_query env c
      else if operation = DB_OPERATION_FETCH then pc_fetch env c
      else if operation = DB_OPERATION_UPDATE then pc_update env c
      else if operation = DB_OPERATION_UPSERT then pc_upsert env c
      else if operation = DB_OPERATION_DELETE then pc_delete env c
      else pret ())"

section \<open>The logic and the wrappers\<close>

definition pc_common_vectordb_logic :: "instr_env \<Rightarrow> db_call \<Rightarrow> (tele, unit) prog" where
  "pc_common_vectordb_logic env c =
     db_logic env DB_SYSTEM_PINECONE c (pbind (pc_specific env c) (\<lambda>_. pret (dc_operation c)))"

definition pinecone_wrap :: "string \<Rightarrow> db_wrapper" where
  "pinecone_wrap = general_wrap PINECONE_OPERATIONS pinecone_server pc_common_vectordb_logic"

definition async_pinecone_wrap :: "string \<Rightarrow> db_wrapper" where
  "async_pinecone_wrap = general_wrap PINECONE_OPERATIONS pinecone_server pc_common_vectordb_logic"

definition PINECONE_SYNC_OPERATIONS :: "(string \<times> string \<times> string) list" where
  "PINECONE_SYNC_OPERATIONS = [
     (''pinecone.pinecone'', ''Pinecone.create_index'', ''pinecone.create_collection''),
     (''pinecone.pinecone'', ''Pinecone.create_index_for_model'', ''pinecone.create_collection''),
     (''pinecone.db_data.index'', ''Index.upsert'', ''pinecone.upsert''),
     (''pinecone.db_data.index'', ''Index.upsert_records'', ''pinecone.upsert_records''),
     (''pinecone.db_data.index'', ''Index.query'', ''pinecone.query''),
     (''pinecone.db_data.index'', ''Index.search'', ''pinecone.search''),
     (''pinecone.db_data.index'', ''Index.fetch'', ''pinecone.fetch''),
     (''pinecone.db_data.index'', ''Index.search_records'', ''pinecone.search_records''),
     (''pinecone.db_data.index'', ''Index.update'', ''pinecone.update''),
     (''pinecone.db_data.index'', ''Index.delete'', ''pinecone.delete'')]"

definition PINECONE_ASYNC_OPERATIONS :: "(string \<times> string \<times> string) list" where
  "PINECONE_ASYNC_OPERATIONS = [
     (''pinecone.pinecone_asyncio'', ''PineconeAsyncio.create_index'', ''pinecone.create_index''),
     (''pinecone.pinecone_asyncio'', ''PineconeAsyncio.create_index_for_model'', ''pinecone.create_index''),
     (''pinecone.db_data.index_asyncio'', ''_IndexAsyncio.upsert'', ''pinecone.upsert''),
     (''pinecone.db_data.index_asyncio'', ''_IndexAsyncio.upsert_records'', ''pinecone.upsert_records''),
     (''pinecone.db_data.index_asyncio'', ''_IndexAsyncio.query'', ''pinecone.query''),
     (''pinecone.db_data.index_asyncio'', ''_IndexAsyncio.search'', ''pinecone.search''),
     (''pinecone.db_data.index_asyncio'', ''_IndexAsyncio.fetch'', ''pinecone.fetch''),
     (''pinecone.db_data.index_asyncio'', ''_IndexAsyncio.search_records'', ''pinecone.search_records''),
     (''pinecone.db_data.index_asyncio'', ''_IndexAsyncio.update'', ''pinecone.update''),
     (''pinecone.db_data.index_asyncio'', ''_IndexAsyncio.delete'', ''pinecone.delete'')]"

end
