(* ===== verification/Qdrant.thy ===== *)
theory Qdrant
  imports VectorDb
begin

text \<open>
  \<open>openlit/instrumentation/qdrant\<close>: the operations of a Qdrant client; \<open>async_qdrant.py\<close> repeats the wrapper with
  \<open>await\<close>.
\<close>

definition QDRANT_OPERATION_MAP :: "(string, string) dict" where
  "QDRANT_OPERATION_MAP = [
     (''qdrant.create_collection'', DB_OPERATION_CREATE_COLLECTION),
     (''qdrant.upload_collection'', DB_OPERATION_CREATE_COLLECTION),
     (''qdrant.delete_collection'', DB_OPERATION_DELETE_COLLECTION),
     (''qdrant.update_collection'', DB_OPERATION_UPDATE_COLLECTION),
     (''qdrant.upsert'', DB_OPERATION_UPSERT),
     (''qdrant.upload_points'', DB_OPERATION_INSERT),
     (''qdrant.set_payload'', DB_OPERATION_UPDATE),
     (''qdrant.overwrite_payload'', DB_OPERATION_UPDATE),
     (''qdrant.update_vectors'', DB_OPERATION_UPDATE),
     (''qdrant.delete'', DB_OPERATION_DELETE),
     (''qdrant.delete_vectors'', DB_OPERATION_DELETE),
     (''qdrant.delete_payload'', DB_OPERATION_DELETE),
     (''qdrant.clear_payload'', DB_OPERATION_DELETE),
     (''qdrant.retrieve'', DB_OPERATION_GET),
     (''qdrant.scroll'', DB_OPERATION_GET),
     (''qdrant.search'', DB_OPERATION_GET),
     (''qdrant.search_groups'', DB_OPERATION_GET),
     (''qdrant.recommend'', DB_OPERATION_GET),
     (''qdrant.query_points'', DB_OPERATION_QUERY),
     (''qdrant.query_batch_points'', DB_OPERATION_QUERY),
     (''qdrant.query_points_groups'', DB_OPERATION_QUERY),
     (''qdrant.create_payload_index'', DB_OPERATION_CREATE_INDEX)]"

text \<open>Here \<open>object_count\<close> counts what has no length as zero.\<close>

definition qd_count :: "pyval \<Rightarrow> pyval" where
  "qd_count obj = (case py_len obj of Inr n \<Rightarrow> PInt (int n) | Inl e \<Rightarrow> PInt 0)"

text \<open>\<open>urlparse\<close> of whatever the options hold, inside a try block; then the port of the options.\<close>

definition qd_url_server :: "pyval \<Rightarrow> pyval \<times> pyval \<Rightarrow> pyval \<times> pyval" where
  "qd_url_server url dflt =
     (case url of PStr s \<Rightarrow> (case url_authority s of Some u \<Rightarrow> url_server u dflt | None \<Rightarrow> dflt) | _ \<Rightarrow> dflt)"

definition qdrant_server :: "pyval \<Rightarrow> (pyval \<times> pyval) res" where
  "qdrant_server client =
     (let dflt = (PStr ''localhost'', PInt 6333); init_options = py_getattr client ''init_options'' PNone in
      if has_attr client ''init_options'' \<and> py_truth init_options then
        res_bind (py_get init_options ''url'' (PStr [])) (\<lambda>url.
        let found = (if py_truth url then qd_url_server url dflt else dflt) in
        res_bind (py_in ''port'' init_options) (\<lambda>has_port.
        if has_port then
          res_bind (py_index init_options (PStr ''port'')) (\<lambda>port. Inr (if py_truth port then (fst found, port) else found))
        else Inr found))
      else Inr dflt)"

section \<open>Attributes of the operations\<close>

definition qd_collection :: "db_call \<Rightarrow> pyval" where
  "qd_collection c = db_kwarg c ''collection_name'' unknown_name"

definition qd_manage :: "instr_env \<Rightarrow> db_call \<Rightarrow> (tele, unit) prog" where
  "qd_manage env c =
     pbind (span_attr DB_COLLECTION_NAME (qd_collection c)) (\<lambda>_.
     pbind (span_attr DB_QUERY_TEXT (PStr (''Collection: '' @ shown env (qd_collection c)))) (\<lambda>_.
     summary env (dc_operation c) (qd_collection c) []))"

text \<open>The status of the answer, when it has one.\<close>

definition qd_status :: "pyval \<Rightarrow> (tele, unit) prog" where
  "qd_status response =
     pwhen (py_truth response \<and> has_attr response ''status'')
       (span_attr DB_OPERATION_STATUS (py_getattr response ''status'' PNone))"

text \<open>Points or a selector of points: text, count, and for a change the status of the answer.\<close>

definition qd_points :: "instr_env \<Rightarrow> db_call \<Rightarrow> string \<Rightarrow> pyval" where
  "qd_points env c k = db_kwarg c k (PList [])"

definition qd_target :: "instr_env \<Rightarrow> db_call \<Rightarrow> pyval \<Rightarrow> (tele, unit) prog" where
  "qd_target env c points =
     pbind (span_attr DB_COLLECTION_NAME (qd_collection c)) (\<lambda>_.
     pbind (shown_attr env DB_QUERY_TEXT points) (\<lambda>_.
     span_attr DB_VECTOR_COUNT (qd_count points)))"

definition qd_change :: "instr_env \<Rightarrow> db_call \<Rightarrow> string \<Rightarrow> string \<Rightarrow> (tele, unit) prog" where
  "qd_change env c k name =
     pbind (qd_target env c (qd_points env c k)) (\<lambda>_.
     pbind (qd_status (dc_response c)) (\<lambda>_.
     summary env (dc_operation c) (qd_collection c) [item env name (qd_count (qd_points env c k))]))"

definition qd_payload :: "instr_env \<Rightarrow> db_call \<Rightarrow> (tele, unit) prog" where
  "qd_payload env c =
     (let points = qd_points env c ''points''; payload = db_kwarg c ''payload'' (PDict []) in
      pbind (qd_target env c points) (\<lambda>_.
      pbind (span_attr DB_PAYLOAD_COUNT (qd_count payload)) (\<lambda>_.
      pbind (qd_status (dc_response c)) (\<lambda>_.
      summary env (dc_operation c) (qd_collection c)
        [item env ''points'' (qd_count points), item env ''payload'' (qd_count payload)]))))"

definition qd_insert :: "instr_env \<Rightarrow> db_call \<Rightarrow> (tele, unit) prog" where
  "qd_insert env c =
     pwhen (dc_endpoint c \<in> {''qdrant.upsert'', ''qdrant.upload_points''}) (qd_change env c ''points'' ''points'')"

definition qd_update :: "instr_env \<Rightarrow> db_call \<Rightarrow> (tele, unit) prog" where
  "qd_update env c =
     (if dc_endpoint c \<in> {''qdrant.set_payload'', ''qdrant.overwrite_payload''} then qd_payload env c
      else if dc_endpoint c = ''qdrant.update_vectors'' then qd_change env c ''points'' ''points''
      else pret ())"

definition qd_delete :: "instr_env \<Rightarrow> db_call \<Rightarrow> (tele, unit) prog" where
  "qd_delete env c =
     (if dc_endpoint c \<in> {''qdrant.delete_payload'', ''qdrant.delete_vectors''} then qd_change env c ''points'' ''points''
      else if dc_endpoint c \<in> {''qdrant.clear_payload'', ''qdrant.delete''} then qd_change env c ''points_selector'' ''selector''
      else pret ())"

definition qd_retrieve :: "instr_env \<Rightarrow> db_call \<Rightarrow> (tele, unit) prog" where
  "qd_retrieve env c =
     pbind (qd_target env c (qd_points env c ''ids'')) (\<lambda>_.
     summary env (dc_operation c) (qd_collection c) [item env ''ids'' (qd_points env c ''ids'')])"

definition qd_scroll :: "instr_env \<Rightarrow> db_call \<Rightarrow> (tele, unit) prog" where
  "qd_scroll env c =
     (let scroll_filter = db_kwarg c ''scroll_filter'' (PDict []) in
      pbind (span_attr DB_COLLECTION_NAME (qd_collection c)) (\<lambda>_.
      pbind (shown_attr env DB_QUERY_TEXT scroll_filter) (\<lambda>_.
      pbind (shown_attr env DB_FILTER scroll_filter) (\<lambda>_.
      summary env (dc_operation c) (qd_collection c) [item env ''filter'' scroll_filter]))))"

definition qd_get :: "instr_env \<Rightarrow> db_call \<Rightarrow> (tele, unit) prog" where
  "qd_get env c =
     (if dc_endpoint c = ''qdrant.retrieve'' then qd_retrieve env c
      else if dc_endpoint c = ''qdrant.scroll'' then qd_scroll env c
      else pret ())"

definition qd_batch :: "instr_env \<Rightarrow> db_call \<Rightarrow> (tele, unit) prog" where
  "qd_batch env c =
     pbind (qd_target env c (qd_points env c ''requests'')) (\<lambda>_.
     summary env (dc_operation c) (qd_collection c) [item env ''batch_requests'' (qd_count (qd_points env c ''requests''))])"

definition qd_query_with :: "instr_env \<Rightarrow> db_call \<Rightarrow> string list \<Rightarrow> (tele, unit) prog" where
  "qd_query_with env c items =
     pbind (span_attr DB_COLLECTION_NAME (qd_collection c)) (\<lambda>_.
     pbind (shown_attr env DB_QUERY_TEXT (db_kwarg c ''query'' (PDict []))) (\<lambda>_.
     pbind (span_attr DB_VECTOR_QUERY_TOP_K (db_kwarg c ''limit'' (PInt 10))) (\<lambda>_.
     summary env (dc_operation c) (qd_collection c) (item env ''query'' (db_kwarg c ''query'' (PDict [])) # items))))"

definition qd_query :: "instr_env \<Rightarrow> db_call \<Rightarrow> (tele, unit) prog" where
  "qd_query env c =
     (let limit = item env ''limit'' (db_kwarg c ''limit'' (PInt 10)) in
      if dc_endpoint c = ''qdrant.query_points'' then qd_query_with env c [limit]
      else if dc_endpoint c = ''qdrant.query_batch_points'' then qd_batch env c
      else if dc_endpoint c = ''qdrant.query_points_groups'' then
        qd_query_with env c [item env ''group_by'' (db_kwarg c ''group_by'' unknown_name), limit,
          item env ''group_size'' (db_kwarg c ''group_size'' (PInt 3))]
      else pret ())"

definition qd_index :: "instr_env \<Rightarrow> db_call \<Rightarrow> (tele, unit) prog" where
  "qd_index env c =
     (let field_name = db_kwarg c ''field_name'' unknown_name in
      pbind (span_attr DB_COLLECTION_NAME (qd_collection c)) (\<lambda>_.
      pbind (span_attr DB_QUERY_TEXT (PStr (''Field: '' @ shown env field_name))) (\<lambda>_.
      summary env (dc_operation c) (qd_collection c) [item env ''field'' field_name])))"

definition qd_specific :: "instr_env \<Rightarrow> db_call \<Rightarrow> (tele, unit) prog" where
  "qd_specific env c =
     (let operation = dc_operation c in
      if operation \<in> {DB_OPERATION_CREATE_COLLECTION, DB_OPERATION_DELETE_COLLECTION, DB_OPERATION_UPDATE_COLLECTION}
      then qd_manage env c
      else if operation \<in> {DB_OPERATION_INSERT, DB_OPERATION_UPSERT} then qd_insert env c
      else if operation = DB_OPERATION_UPDATE then qd_update env c
      else if operation = DB_OPERATION_DELETE then qd_delete env c
      else if operation = DB_OPERATION_GET then qd_get env c
      else if operation = DB_OPERATION_QUERY then qd_query env c
      else if operation = DB_OPERATION_CREATE_INDEX then qd_index env c
      else pret ())"

section \<open>The logic and the wrappers\<close>

definition common_qdrant_logic :: "instr_env \<Rightarrow> db_call \<Rightarrow> (tele, unit) prog" where
  "common_qdrant_logic env c =
     db_logic env DB_SYSTEM_QDRANT c (pbind (qd_specific env c) (\<lambda>_. pret (dc_operation c)))"

definition qdrant_wrap :: "string \<Rightarrow> db_wrapper" where
  "qdrant_wrap = general_wrap QDRANT_OPERATION_MAP qdrant_server common_qdrant_logic"

definition async_qdrant_wrap :: "string \<Rightarrow> db_wrapper" where
  "async_qdrant_wrap = general_wrap QDRANT_OPERATION_MAP qdrant_server common_qdrant_logic"

definition QDRANT_OPERATIONS :: "(string \<times> string) list" where
  "QDRANT_OPERATIONS = [
     (''create_collection'', ''qdrant.create_collection''),
     (''delete_collection'', ''qdrant.delete_collection''),
     (''update_collection'', ''qdrant.update_collection''),
     (''upload_collection'', ''qdrant.upload_collection''),
     (''upsert'', ''qdrant.upsert''),
     (''set_payload'', ''qdrant.set_payload''),
     (''overwrite_payload'', ''qdrant.overwrite_payload''),
     (''clear_payload'', ''qdrant.clear_payload''),
     (''delete_payload'', ''qdrant.delete_payload''),
     (''upload_points'', ''qdrant.upload_points''),
     (''update_vectors'', ''qdrant.update_vectors''),
     (''delete_vectors'', ''qdrant.delete_vectors''),
     (''delete'', ''qdrant.delete''),
     (''retrieve'', ''qdrant.retrieve''),
     (''scroll'', ''qdrant.scroll''),
     (''search'', ''qdrant.search''),
     (''search_groups'', ''qdrant.search_groups''),
     (''recommend'', ''qdrant.recommend''),
     (''create_payload_index'', ''qdrant.create_payload_index''),
     (''query_points'', ''qdrant.query_points''),
     (''query_points_groups'', ''qdrant.query_points_groups''),
     (''query_batch_points'', ''qdrant.query_batch_points'')]"

text \<open>The methods of a client class that are wrapped: those it has.\<close>

definition qdrant_wrapped :: "string \<Rightarrow> string list \<Rightarrow> (string \<times> string) list" where
  "qdrant_wrapped client_class methods =
     map (\<lambda>(method_name, endpoint). (client_class @ ''.'' @ method_name, endpoint))
       (filter (\<lambda>(method_name, endpoint). method_name \<in> set methods) QDRANT_OPERATIONS)"

end
