(* ===== verification/Milvus.thy ===== *)
theory Milvus
  imports VectorDb
begin

text \<open>
  \<open>openlit/instrumentation/milvus\<close>: the operations of a Milvus client.
\<close>

definition MILVUS_OPERATION_MAP :: "(string, string) dict" where
  "MILVUS_OPERATION_MAP = [
     (''milvus.create_collection'', DB_OPERATION_CREATE_COLLECTION),
     (''milvus.drop_collection'', DB_OPERATION_DELETE_COLLECTION),
     (''milvus.insert'', DB_OPERATION_INSERT),
     (''milvus.upsert'', DB_OPERATION_UPSERT),
     (''milvus.search'', DB_OPERATION_SEARCH),
     (''milvus.query'', DB_OPERATION_QUERY),
     (''milvus.get'', DB_OPERATION_GET),
     (''milvus.delete'', DB_OPERATION_DELETE)]"

definition milvus_server :: "pyval \<Rightarrow> (pyval \<times> pyval) res" where
  "milvus_server client =
     (let dflt = (PStr ''localhost'', PInt 19530); client_config = py_getattr client ''_client_config'' PNone in
      Inr (if py_truth client_config then host_port_server (py_getattr client_config ''uri'' PNone) dflt else dflt))"

section \<open>Attributes of the operations\<close>

definition mv_collection :: "db_call \<Rightarrow> pyval" where
  "mv_collection c = db_kwarg c ''collection_name'' unknown_name"

definition mv_name :: "db_call \<Rightarrow> (tele, unit) prog" where
  "mv_name c = span_attr DB_COLLECTION_NAME (mv_collection c)"

definition mv_create :: "instr_env \<Rightarrow> db_call \<Rightarrow> (tele, unit) prog" where
  "mv_create env c =
     pbind (mv_name c) (\<lambda>_.
     pbind (span_attr DB_COLLECTION_DIMENSION (db_kwarg c ''dimension'' (PInt (-1)))) (\<lambda>_.
     summary env (dc_operation c) (mv_collection c) [item env ''dimension'' (db_kwarg c ''dimension'' (PStr ''None''))]))"

definition mv_drop :: "instr_env \<Rightarrow> db_call \<Rightarrow> (tele, unit) prog" where
  "mv_drop env c = pbind (mv_name c) (\<lambda>_. summary env (dc_operation c) (mv_collection c) [])"

text \<open>\<open>if response and response.get(k): set_attribute(attr, response[k])\<close>.\<close>

definition mv_answer :: "pyval \<Rightarrow> string \<Rightarrow> string \<Rightarrow> (tele, unit) prog" where
  "mv_answer response k attr =
     pwhen (py_truth response)
       (pbind (plift (py_get response k PNone)) (\<lambda>v.
        pwhen (py_truth v) (pbind (plift (py_index response (PStr k))) (span_attr attr))))"

text \<open>\<open>insert\<close> and \<open>upsert\<close> differ in the name of the count they read.\<close>

definition mv_write :: "instr_env \<Rightarrow> db_call \<Rightarrow> string \<Rightarrow> (tele, unit) prog" where
  "mv_write env c count =
     (let data = db_kwarg c ''data'' (PList []) in
      pbind (mv_name c) (\<lambda>_.
      pbind (plift (object_count data)) (\<lambda>n.
      pbind (span_attr DB_VECTOR_COUNT n) (\<lambda>_.
      pbind (shown_attr env DB_QUERY_TEXT data) (\<lambda>_.
      pbind (mv_answer (dc_response c) count DB_RESPONSE_RETURNED_ROWS) (\<lambda>_.
      pbind (mv_answer (dc_response c) ''cost'' DB_OPERATION_COST) (\<lambda>_.
      summary env (dc_operation c) (mv_collection c) [item env ''data_count'' n])))))))"

text \<open>The number of rows of an answer that is a list and not empty.\<close>

definition mv_rows :: "pyval \<Rightarrow> (tele, unit) prog" where
  "mv_rows response =
     (case response of
        PList rows \<Rightarrow> pwhen (rows \<noteq> []) (span_attr DB_RESPONSE_RETURNED_ROWS (PInt (int (length rows))))
      | _ \<Rightarrow> pret ())"

definition mv_search :: "instr_env \<Rightarrow> db_call \<Rightarrow> (tele, unit) prog" where
  "mv_search env c =
     (let data = db_kwarg c ''data'' (PList []) in
      pbind (mv_name c) (\<lambda>_.
      pbind (shown_attr env DB_QUERY_TEXT data) (\<lambda>_.
      pbind (span_attr DB_VECTOR_QUERY_TOP_K (db_kwarg c ''limit'' (PInt (-1)))) (\<lambda>_.
      pbind (shown_attr env DB_FILTER (db_kwarg c ''filter'' (PStr []))) (\<lambda>_.
      pbind (mv_rows (dc_response c)) (\<lambda>_.
      summary env (dc_operation c) (mv_collection c)
        [item env ''data'' (PStr (truncate_content (ie_repr env) (ie_max_content_length env) data)),
         item env ''limit'' (db_kwarg c ''limit'' (PStr ''None''))]))))))"

definition mv_query :: "instr_env \<Rightarrow> db_call \<Rightarrow> (tele, unit) prog" where
  "mv_query env c =
     (let output_fields = db_kwarg c ''output_fields'' (PList []) in
      pbind (mv_name c) (\<lambda>_.
      pbind (shown_attr env DB_QUERY_TEXT output_fields) (\<lambda>_.
      pbind (shown_attr env DB_FILTER (db_kwarg c ''filter'' (PStr []))) (\<lambda>_.
      pbind (mv_rows (dc_response c)) (\<lambda>_.
      summary env (dc_operation c) (mv_collection c)
        [item env ''output_fields'' output_fields, item env ''filter'' (db_kwarg c ''filter'' (PStr ''None''))])))))"

definition mv_delete :: "instr_env \<Rightarrow> db_call \<Rightarrow> (tele, unit) prog" where
  "mv_delete env c =
     pbind (mv_name c) (\<lambda>_.
     pbind (shown_attr env DB_FILTER (db_kwarg c ''filter'' (PStr []))) (\<lambda>_.
     pbind (mv_answer (dc_response c) ''delete_count'' DB_RESPONSE_RETURNED_ROWS) (\<lambda>_.
     summary env (dc_operation c) (mv_collection c) [item env ''filter'' (db_kwarg c ''filter'' (PStr ''None''))])))"

definition mv_specific :: "instr_env \<Rightarrow> db_call \<Rightarrow> (tele, unit) prog" where
  "mv_specific env c =
     (let operation = dc_operation c in
      if operation = DB_OPERATION_CREATE_COLLECTION then mv_create env c
      else if operation = DB_OPERATION_DELETE_COLLECTION then mv_drop env c
      else if operation = DB_OPERATION_INSERT then mv_write env c ''insert_count''
      else if operation = DB_OPERATION_UPSERT then mv_write env c ''upsert_count''
      else if operation = DB_OPERATION_SEARCH then mv_search env c
      else if operation = DB_OPERATION_QUERY \<or> operation = DB_OPERATION_GET then mv_query env c
      else if operation = DB_OPERATION_DELETE then mv_delete env c
      else pret ())"

section \<open>The logic and the wrapper\<close>

definition common_milvus_logic :: "instr_env \<Rightarrow> db_call \<Rightarrow> (tele, unit) prog" where
  "common_milvus_logic env c =
     db_logic env DB_SYSTEM_MILVUS c (pbind (mv_specific env c) (\<lambda>_. pret (dc_operation c)))"

definition milvus_wrap :: "string \<Rightarrow> db_wrapper" where
  "milvus_wrap = general_wrap MILVUS_OPERATION_MAP milvus_server common_milvus_logic"

definition MILVUS_OPERATIONS :: "(string \<times> string) list" where
  "MILVUS_OPERATIONS = [
     (''create_collection'', ''milvus.create_collection''),
     (''drop_collection'', ''milvus.drop_collection''),
     (''insert'', ''milvus.insert''),
     (''upsert'', ''milvus.upsert''),
     (''search'', ''milvus.search''),
     (''query'', ''milvus.query''),
     (''get'', ''milvus.get''),
     (''delete'', ''milvus.delete'')]"

end
