(* ===== verification/Astra.thy ===== *)
theory Astra
  imports VectorDb
begin

text \<open>
  \<open>openlit/instrumentation/astra\<close>: the operations of Astra databases and collections; \<open>async_astra.py\<close> repeats the
  wrapper with \<open>await\<close>.
\<close>

definition ASTRA_OPERATION_MAP :: "(string, string) dict" where
  "ASTRA_OPERATION_MAP = [
     (''astra.create_collection'', DB_OPERATION_CREATE_COLLECTION),
     (''astra.drop_collection'', DB_OPERATION_DELETE_COLLECTION),
     (''astra.insert'', DB_OPERATION_INSERT),
     (''astra.insert_one'', DB_OPERATION_INSERT),
     (''astra.insert_many'', DB_OPERATION_INSERT),
     (''astra.update'', DB_OPERATION_UPDATE),
     (''astra.update_one'', DB_OPERATION_UPDATE),
     (''astra.update_many'', DB_OPERATION_UPDATE),
     (''astra.find'', DB_OPERATION_SELECT),
     (''astra.find_one_and_update'', DB_OPERATION_REPLACE),
     (''astra.replace_one'', DB_OPERATION_REPLACE),
     (''astra.find_one_and_delete'', DB_OPERATION_FIND_AND_DELETE),
     (''astra.delete'', DB_OPERATION_DELETE),
     (''astra.delete_one'', DB_OPERATION_DELETE),
     (''astra.delete_many'', DB_OPERATION_DELETE)]"

text \<open>Here \<open>object_count\<close> counts anything that is no list, and not \<open>None\<close>, as one.\<close>

definition as_count :: "pyval \<Rightarrow> pyval" where
  "as_count obj = PInt (case obj of PList xs \<Rightarrow> int (length xs) | PNone \<Rightarrow> 0 | _ \<Rightarrow> 1)"

definition astra_server :: "pyval \<Rightarrow> (pyval \<times> pyval) res" where
  "astra_server client =
     (let api_endpoint = py_getattr client ''api_endpoint'' PNone;
          api_endpoint = (if py_truth api_endpoint then api_endpoint
            else (let database = py_getattr client ''database'' PNone in
              if py_truth database then py_getattr database ''api_endpoint'' PNone else api_endpoint))
      in Inr (host_port_server api_endpoint (PStr ''astra.datastax.com'', PInt 443)))"

section \<open>Attributes of the operations\<close>

definition as_collection :: "db_call \<Rightarrow> pyval" where
  "as_collection c = py_getattr (dc_instance c) ''name'' unknown_name"

text \<open>An argument by position, else by name.\<close>

definition as_argument :: "db_call \<Rightarrow> nat \<Rightarrow> string \<Rightarrow> pyval \<Rightarrow> pyval" where
  "as_argument c i k dflt = db_arg (dc_args c) i (db_kwarg c k dflt)"

definition as_filter :: "db_call \<Rightarrow> pyval" where
  "as_filter c = as_argument c 0 ''filter'' (PDict [])"

definition as_truncated :: "instr_env \<Rightarrow> pyval \<Rightarrow> pyval" where
  "as_truncated env v = PStr (truncate_content (ie_repr env) (ie_max_content_length env) v)"

definition as_answered :: "pyval \<Rightarrow> string \<Rightarrow> bool" where
  "as_answered response k \<longleftrightarrow> py_truth response \<and> has_attr response k"

definition as_create :: "instr_env \<Rightarrow> db_call \<Rightarrow> (tele, unit) prog" where
  "as_create env c =
     pbind (span_attr DB_COLLECTION_DIMENSION (db_kwarg c ''dimension'' (PInt (-1)))) (\<lambda>_.
     pbind (shown_attr env DB_INDEX_METRIC (db_kwarg c ''metric'' (PStr []))) (\<lambda>_.
     pbind (pwhen (as_answered (dc_response c) ''keyspace'')
       (span_attr DB_NAMESPACE (py_getattr (dc_response c) ''keyspace'' PNone))) (\<lambda>_.
     pbind (pwhen (as_answered (dc_response c) ''name'')
       (span_attr DB_COLLECTION_NAME (py_getattr (dc_response c) ''name'' PNone))) (\<lambda>_.
     summary env (dc_operation c) (as_collection c)
       [item env ''dimension'' (db_kwarg c ''dimension'' (PStr ''None'')),
        item env ''metric'' (db_kwarg c ''metric'' (PStr ''None''))]))))"

definition as_insert :: "instr_env \<Rightarrow> db_call \<Rightarrow> (tele, unit) prog" where
  "as_insert env c =
     (let documents = as_argument c 0 ''documents'' (PList []) in
      pbind (span_attr DB_DOCUMENTS_COUNT (as_count documents)) (\<lambda>_.
      pbind (shown_attr env DB_QUERY_TEXT documents) (\<lambda>_.
      pbind (pwhen (as_answered (dc_response c) ''inserted_ids'')
        (pbind (plift (py_len (py_getattr (dc_response c) ''inserted_ids'' PNone))) (\<lambda>n.
         span_attr DB_RESPONSE_RETURNED_ROWS (PInt (int n))))) (\<lambda>_.
      summary env (dc_operation c) (as_collection c) [item env ''documents_count'' (as_count documents)]))))"

definition as_update :: "instr_env \<Rightarrow> db_call \<Rightarrow> (tele, unit) prog" where
  "as_update env c =
     (let update_query = as_argument c 1 ''update'' (PDict []) in
      pbind (shown_attr env DB_QUERY_TEXT update_query) (\<lambda>_.
      pbind (shown_attr env DB_FILTER (as_filter c)) (\<lambda>_.
      pbind (pwhen (as_answered (dc_response c) ''update_info'')
        (pbind (plift (py_get (py_getattr (dc_response c) ''update_info'' PNone) ''nModified'' (PInt 0)))
          (span_attr DB_RESPONSE_RETURNED_ROWS))) (\<lambda>_.
      summary env (dc_operation c) (as_collection c)
        [item env ''filter'' (as_truncated env (as_filter c)), item env ''update'' (as_truncated env update_query)]))))"

text \<open>A filter as the text of the query.\<close>

definition as_filtered :: "instr_env \<Rightarrow> db_call \<Rightarrow> (tele, unit) prog" where
  "as_filtered env c =
     pbind (shown_attr env DB_QUERY_TEXT (as_filter c)) (\<lambda>_. shown_attr env DB_FILTER (as_filter c))"

text \<open>A replacement that may insert changes the name of the operation.\<close>

definition as_replace :: "instr_env \<Rightarrow> db_call \<Rightarrow> (tele, string) prog" where
  "as_replace env c =
     (let upsert = py_truth (given c ''upsert''); operation = (if upsert then DB_OPERATION_UPSERT else dc_operation c) in
      pbind (pwhen upsert (span_attr DB_OPERATION_NAME (PStr DB_OPERATION_UPSERT))) (\<lambda>_.
      pbind (as_filtered env c) (\<lambda>_.
      pbind (summary env operation (as_collection c)
        [item env ''filter'' (as_truncated env (as_filter c)), item env ''upsert'' (db_kwarg c ''upsert'' (PBool False))]) (\<lambda>_.
      pret operation))))"

definition as_find :: "instr_env \<Rightarrow> db_call \<Rightarrow> (tele, unit) prog" where
  "as_find env c =
     pbind (as_filtered env c) (\<lambda>_.
     pbind (case py_len (dc_response c) of
         Inr n \<Rightarrow> pwhen (py_truth (dc_response c)) (span_attr DB_RESPONSE_RETURNED_ROWS (PInt (int n)))
       | Inl e \<Rightarrow> pret ()) (\<lambda>_.
     summary env (dc_operation c) (as_collection c) [item env ''filter'' (as_truncated env (as_filter c))]))"

definition as_delete :: "instr_env \<Rightarrow> db_call \<Rightarrow> (tele, unit) prog" where
  "as_delete env c =
     pbind (as_filtered env c) (\<lambda>_.
     pbind (pwhen (as_answered (dc_response c) ''deleted_count'')
       (span_attr DB_RESPONSE_RETURNED_ROWS (py_getattr (dc_response c) ''deleted_count'' PNone))) (\<lambda>_.
     summary env (dc_operation c) (as_collection c) [item env ''filter'' (as_truncated env (as_filter c))]))"

definition as_specific :: "instr_env \<Rightarrow> db_call \<Rightarrow> (tele, string) prog" where
  "as_specific env c =
     (let operation = dc_operation c; unchanged = (\<lambda>m. pbind m (\<lambda>_. pret operation)) in
      if operation = DB_OPERATION_CREATE_COLLECTION then unchanged (as_create env c)
      else if operation = DB_OPERATION_DELETE_COLLECTION then unchanged (summary env operation (as_collection c) [])
      else if operation = DB_OPERATION_INSERT then unchanged (as_insert env c)
      else if operation = DB_OPERATION_UPDATE then unchanged (as_update env c)
      else if operation = DB_OPERATION_REPLACE then as_replace env c
      else if operation = DB_OPERATION_SELECT then unchanged (as_find env c)
      else if operation = DB_OPERATION_DELETE \<or> operation = DB_OPERATION_FIND_AND_DELETE then unchanged (as_delete env c)
      else pret operation)"

section \<open>The logic and the wrappers\<close>

definition common_astra_logic :: "instr_env \<Rightarrow> db_call \<Rightarrow> (tele, unit) prog" where
  "common_astra_logic env c =
     db_logic env DB_SYSTEM_ASTRA c
       (pbind (span_attr DB_COLLECTION_NAME (as_collection c)) (\<lambda>_. as_specific env c))"

text \<open>The name of the span; the test for an upsert compares with the name of a constant, not with its value.\<close>

definition astra_span_name :: "instr_env \<Rightarrow> string \<Rightarrow> pyval \<Rightarrow> (string, pyval) dict \<Rightarrow> string" where
  "astra_span_name env endpoint client kwargs =
     (let db_operation = operation_of ASTRA_OPERATION_MAP endpoint;
          db_operation = (if db_operation = ''DB_OPERATION_REPLACE'' \<and> py_truth (dget_or kwargs ''upsert'' PNone)
            then ''DB_OPERATION_UPSERT'' else db_operation)
      in db_operation @ '' '' @ shown env (py_getattr client ''name'' unknown_name))"

definition astra_wrap :: "string \<Rightarrow> db_wrapper" where
  "astra_wrap = general_wrap ASTRA_OPERATION_MAP astra_server common_astra_logic"

definition async_astra_wrap :: "string \<Rightarrow> db_wrapper" where
  "async_astra_wrap = general_wrap ASTRA_OPERATION_MAP astra_server common_astra_logic"

definition ASTRA_SYNC_OPERATIONS :: "(string \<times> string \<times> string) list" where
  "ASTRA_SYNC_OPERATIONS = [
     (''astrapy.database'', ''Database.create_collection'', ''astra.create_collection''),
     (''astrapy.database'', ''Database.drop_collection'', ''astra.drop_collection''),
     (''astrapy.collection'', ''Collection.insert_one'', ''astra.insert_one''),
     (''astrapy.collection'', ''Collection.insert_many'', ''astra.insert_many''),
     (''astrapy.collection'', ''Collection.update_one'', ''astra.update_one''),
     (''astrapy.collection'', ''Collection.update_many'', ''astra.update_many''),
     (''astrapy.collection'', ''Collection.find_one_and_update'', ''astra.find_one_and_update''),
     (''astrapy.collection'', ''Collection.find'', ''astra.find''),
     (''astrapy.collection'', ''Collection.replace_one'', ''astra.replace_one''),
     (''astrapy.collection'', ''Collection.find_one_and_delete'', ''astra.find_one_and_delete''),
     (''astrapy.collection'', ''Collection.delete_one'', ''astra.delete_one''),
     (''astrapy.collection'', ''Collection.delete_many'', ''astra.delete_many'')]"

definition ASTRA_ASYNC_OPERATIONS :: "(string \<times> string \<times> string) list" where
  "ASTRA_ASYNC_OPERATIONS = [
     (''astrapy.database'', ''AsyncDatabase.create_collection'', ''astra.create_collection''),
     (''astrapy.database'', ''AsyncDatabase.drop_collection'', ''astra.drop_collection''),
     (''astrapy.collection'', ''AsyncCollection.insert_one'', ''astra.insert_one''),
     (''astrapy.collection'', ''AsyncCollection.insert_many'', ''astra.insert_many''),
     (''astrapy.collection'', ''AsyncCollection.update_one'', ''astra.update_one''),
     (''astrapy.collection'', ''AsyncCollection.update_many'', ''astra.update_many''),
     (''astrapy.collection'', ''AsyncCollection.find_one_and_update'', ''astra.find_one_and_update''),
     (''astrapy.collection'', ''AsyncCollection.find'', ''astra.find''),
     (''astrapy.collection'', ''AsyncCollection.replace_one'', ''astra.replace_one''),
     (''astrapy.collection'', ''AsyncCollection.find_one_and_delete'', ''astra.find_one_and_delete''),
     (''astrapy.collection'', ''AsyncCollection.delete_one'', ''astra.delete_one''),
     (''astrapy.collection'', ''AsyncCollection.delete_many'', ''astra.delete_many'')]"

end
