(* ===== verification/VectorDbProps.thy ===== *)
theory VectorDbProps
  imports VectorDb
begin

text \<open>
  The contract of a vector database: the part of its logic that reads an operation's arguments and answer fails
  in ordinary ways only and leaves alone what the common part writes.  From it follow, once for all
  databases, that callers do not notice the tracing, how a call ends, and what is measured.
\<close>

section \<open>Steps on the span\<close>

definition db_keys :: "string list" where
  "db_keys = [DB_SYSTEM_NAME, SERVER_ADDRESS, SERVER_PORT, DB_CLIENT_OPERATION_DURATION]"

text \<open>What the part that is particular to an operation leaves alone.\<close>

definition db_view ::
  "tele \<Rightarrow> bool \<times> span_status \<times> pyexc list \<times> (string \<times> (string, pyval) dict) list \<times> measurement list \<times> (string, pyval) dict list
     \<times> pyval option list" where
  "db_view t = (sp_ended (tl_span t), sp_status (tl_span t), sp_exceptions (tl_span t), sp_events (tl_span t), tl_measurements t,
     tl_events t, span_view db_keys t)"

named_theorems db_intros \<open>programs that set attributes of an operation\<close>

definition db_step :: "(tele, 'a) prog \<Rightarrow> bool" where
  "db_step m \<longleftrightarrow> raises_only is_Exception m \<and> keeps db_view m"

lemma db_step_attr [db_intros]: "k \<notin> set db_keys \<Longrightarrow> db_step (span_attr k v)"
  unfolding db_step_def
  by (intro conjI raises_span_attr) (simp add: span_attr_def span_step_def keeps_def db_view_def span_view_set_attribute tl_on_span
      set_attribute_def)

lemma db_step_basic [db_intros]: "db_step (pret x)" "ordinary r \<Longrightarrow> db_step (plift r)" "is_Exception e \<Longrightarrow> db_step (praise e)"
  by (simp_all add: db_step_def keeps_basic raises_intros)

lemma db_step_pbind [db_intros]: "db_step m \<Longrightarrow> (\<And>x. db_step (k x)) \<Longrightarrow> db_step (pbind m k)"
  by (simp add: db_step_def keeps_pbind raises_only_pbind)

lemma db_step_pwhen [db_intros]: "(b \<Longrightarrow> db_step m) \<Longrightarrow> db_step (pwhen b m)"
  by (cases b) (simp_all add: db_step_def keeps_basic raises_intros)

lemma db_step_if [db_intros]: "(b \<Longrightarrow> db_step m) \<Longrightarrow> (\<not> b \<Longrightarrow> db_step n) \<Longrightarrow> db_step (if b then m else n)"
  by simp

lemma db_step_sum [db_intros]: "(\<And>e. r = Inl e \<Longrightarrow> db_step (f e)) \<Longrightarrow> (\<And>x. r = Inr x \<Longrightarrow> db_step (g x)) \<Longrightarrow> db_step (case r of Inl e \<Rightarrow> f e | Inr x \<Rightarrow> g x)"
  by (cases r) simp_all

lemma db_step_pyval [db_intros]:
  assumes "db_step a" "\<And>b. db_step (f1 b)" "\<And>i. db_step (f2 i)" "\<And>r. db_step (f3 r)" "\<And>s. db_step (f4 s)"
    "\<And>l. db_step (f5 l)" "\<And>d. db_step (f6 d)" "\<And>c x. db_step (f7 c x)"
  shows "db_step (case v of PNone \<Rightarrow> a | PBool b \<Rightarrow> f1 b | PInt i \<Rightarrow> f2 i | PFloat r \<Rightarrow> f3 r | PStr s \<Rightarrow> f4 s
    | PList l \<Rightarrow> f5 l | PDict d \<Rightarrow> f6 d | PObj c x \<Rightarrow> f7 c x)"
  using assms by (cases v) simp_all

lemma ordinary_object_count [ordinary_intros]: "ordinary (object_count v)"
  unfolding object_count_def by (rule ordinary_intros | simp)+

lemma db_step_shown [db_intros]: "k \<notin> set db_keys \<Longrightarrow> db_step (shown_attr env k v)" "k \<notin> set db_keys \<Longrightarrow> db_step (count_attr k v)"
  unfolding shown_attr_def count_attr_def by (intro db_intros ordinary_intros, assumption)+

lemma db_step_summary [db_intros]: "db_step (summary env operation target items)"
  unfolding summary_def by (rule db_intros) (simp add: db_keys_def semconv)

lemma span_attr_run: "span_attr k v t = (Inr (), on_span (set_attribute k v) t)"
  by (simp add: span_attr_def span_step_def)

text \<open>An exception ends a program, whatever was to follow.\<close>

lemma fst_pbind_fail: "fst (m s) = Inl e \<Longrightarrow> fst (pbind m k s) = Inl e"
  by (cases "m s") (simp add: pbind_def)

lemma fst_pbind_run: "m s = (Inr x, u) \<Longrightarrow> fst (k x u) = Inl e \<Longrightarrow> fst (pbind m k s) = Inl e"
  by (simp add: pbind_def)

section \<open>The contract\<close>

definition db_measurements :: "instr_env \<Rightarrow> string \<Rightarrow> pyval \<Rightarrow> pyval \<Rightarrow> rat \<Rightarrow> string \<Rightarrow> measurement list" where
  "db_measurements env system address port duration operation =
     (let attributes = create_db_metrics_attributes (ie_application_name env) (ie_environment env) system operation address port
      in [\<lparr>me_metric = ''db_requests'', me_value = PInt 1, me_attributes = attributes\<rparr>,
          \<lparr>me_metric = ''db_client_operation_duration'', me_value = PFloat duration, me_attributes = attributes\<rparr>])"

text \<open>The measurements of a call, when there are any.\<close>

definition db_measured :: "instr_env \<Rightarrow> string \<Rightarrow> db_call \<Rightarrow> string \<Rightarrow> measurement list" where
  "db_measured env system c operation =
     (if ie_disable_metrics env then []
      else db_measurements env system (dc_server_address c) (dc_server_port c) (dc_end_time c - dc_start_time c) operation)"

lemma db_metrics_recorded:
  assumes "ie_metrics env = Some metrics_dict"
  shows "db_metrics env system c operation t
    = (Inr (), t\<lparr>tl_measurements := tl_measurements t @ db_measured env system c operation\<rparr>)"
  using assms
  by (simp add: db_metrics_def pwhen_def metric_step_def record_db_metrics_def db_measurements_def db_measured_def Let_def
      add_metric_def record_metric_def instrument_call_def metrics_dict_def dget_def histogram_def counter_def pbind_def pmodify_def)

lemma raises_db_metrics:
  assumes "usable env"
  shows "raises_only is_Exception (db_metrics env system c operation)"
proof (cases "ie_metrics env = None")
  case True
  then show ?thesis by (simp add: db_metrics_def raises_only_def metric_step_def pwhen_def)
next
  case False
  with assms have "ie_metrics env = Some metrics_dict" by (auto simp: usable_def)
  then show ?thesis by (simp add: raises_only_def db_metrics_recorded)
qed

text \<open>Setting attributes one after the other, on a span that is still open.\<close>

lemma sp_set_attributes:
  "sp_ended (set_attributes kvs sp) = sp_ended sp" "sp_status (set_attributes kvs sp) = sp_status sp"
  "sp_exceptions (set_attributes kvs sp) = sp_exceptions sp" "sp_events (set_attributes kvs sp) = sp_events sp"
proof -
  show "sp_ended (set_attributes kvs sp) = sp_ended sp" "sp_status (set_attributes kvs sp) = sp_status sp"
    "sp_exceptions (set_attributes kvs sp) = sp_exceptions sp" "sp_events (set_attributes kvs sp) = sp_events sp"
    by (induction kvs arbitrary: sp) (simp_all add: set_attributes_def set_attribute_def case_prod_beta)
qed

lemma dget_set_attributes:
  "\<not> sp_ended sp \<Longrightarrow> dget (sp_attributes (set_attributes kvs sp)) k
     = (case dget (rev kvs) k of Some v \<Rightarrow> Some v | None \<Rightarrow> dget (sp_attributes sp) k)"
proof (induction kvs arbitrary: sp rule: rev_induct)
  case (snoc kv kvs)
  obtain k' v where kv: "kv = (k', v)" by fastforce
  have "set_attributes (kvs @ [kv]) sp = set_attribute k' v (set_attributes kvs sp)"
    by (simp add: set_attributes_def kv)
  with snoc show ?case by (auto simp: dget_set_attribute [unfolded dget_def] sp_set_attributes kv dget_def)
qed (simp add: set_attributes_def dget_def)

definition db_rows :: "instr_env \<Rightarrow> string \<Rightarrow> db_call \<Rightarrow> (string \<times> pyval) list" where
  "db_rows env system c =
     [(TELEMETRY_SDK_NAME, PStr ''openlit''), (GEN_AI_OPERATION, PStr GEN_AI_OPERATION_TYPE_VECTORDB), (DB_SYSTEM_NAME, PStr system),
      (SERVER_ADDRESS, dc_server_address c), (SERVER_PORT, dc_server_port c), (DEPLOYMENT_ENVIRONMENT, PStr (ie_environment env)),
      (SERVICE_NAME, PStr (ie_application_name env)), (DB_SDK_VERSION, PStr (ie_version env)),
      (DB_OPERATION_NAME, PStr (dc_operation c)), (DB_CLIENT_OPERATION_DURATION, PFloat (dc_end_time c - dc_start_time c))]"

lemma db_common_rows: "db_common env system c t = (Inr (), on_span (set_attributes (db_rows env system c)) t)"
  by (simp add: db_common_def pbind_span_step span_attr_def span_step_def on_span_def common_db_span_attributes_def db_rows_def
      set_attributes_def)

lemma db_common_run:
  assumes "\<not> sp_ended (tl_span t)"
  shows "\<exists>u. db_common env system c t = (Inr (), u) \<and> \<not> sp_ended (tl_span u) \<and> sp_status (tl_span u) = sp_status (tl_span t)
     \<and> tl_measurements u = tl_measurements t \<and> tl_events u = tl_events t
     \<and> span_view db_keys u = [Some (PStr system), Some (dc_server_address c), Some (dc_server_port c),
         Some (PFloat (dc_end_time c - dc_start_time c))]"
  using assms
proof -
  have "dget (rev (db_rows env system c)) DB_SYSTEM_NAME = Some (PStr system)"
    "dget (rev (db_rows env system c)) SERVER_ADDRESS = Some (dc_server_address c)"
    "dget (rev (db_rows env system c)) SERVER_PORT = Some (dc_server_port c)"
    "dget (rev (db_rows env system c)) DB_CLIENT_OPERATION_DURATION = Some (PFloat (dc_end_time c - dc_start_time c))"
    by (simp_all add: db_rows_def semconv dget_def)
  with assms show ?thesis
    by (simp add: db_common_rows tl_on_span sp_set_attributes span_view_def db_keys_def dget_set_attributes)
qed

locale vector_database =
  fixes operations :: "(string, string) dict"
    and server :: "pyval \<Rightarrow> (pyval \<times> pyval) res"
    and system :: string
    and specific :: "instr_env \<Rightarrow> db_call \<Rightarrow> (tele, string) prog"
    and process :: "instr_env \<Rightarrow> db_call \<Rightarrow> (tele, unit) prog"
  assumes process_logic: "process env c = db_logic env system c (specific env c)"
    and specific_step: "db_step (specific env c)"
    and specific_capture: "specific (env\<lparr>ie_capture_message_content := b\<rparr>) c = specific env c"
begin

abbreviation wrap :: "string \<Rightarrow> db_wrapper" where
  "wrap \<equiv> general_wrap operations server process"

lemma process_ordinary: "usable env \<Longrightarrow> raises_only is_Exception (process env c)"
  unfolding process_logic db_logic_def db_common_def
  using specific_step by (auto simp: db_step_def intro!: raises_intros raises_db_metrics)

text \<open>The caller gets what the wrapped call gives, and the span is ended.\<close>

lemma transparent:
  assumes "usable env" and "server client = Inr ap"
  shows "fst (wrap endpoint env suppressed client wrapped args kwargs ck t) = wrapped
    \<and> (if suppressed then snd (wrap endpoint env suppressed client wrapped args kwargs ck t) = t
       else sp_ended (tl_span (snd (wrap endpoint env suppressed client wrapped args kwargs ck t))))"
proof (cases suppressed)
  case True
  then show ?thesis by (simp add: general_wrap_def plift_def)
next
  case False
  have failure: "raises_only P (db_failure e)" for P e by (simp add: db_failure_def raises_span_step)
  have "fst (guarded_call wrapped p db_failure t) = wrapped" if "\<And>r. raises_only is_Exception (p r)" for p
  proof (cases wrapped)
    case (Inl e)
    then show ?thesis by (simp add: guarded_call_def in_current_span_fst)
  next
    case (Inr r)
    have "returns (ptry (p r) db_failure)"
      by (intro raises_only_ptry failure) (use that in \<open>auto elim: raises_only_mono\<close>)
    then obtain x u where "ptry (p r) db_failure (on_span (\<lambda>_. fresh_span) t) = (Inr x, u)" by (rule returnsE)
    with Inr show ?thesis by (simp add: guarded_call_def in_current_span_fst pbind_def)
  qed
  with process_ordinary [OF assms(1)] False assms(2) show ?thesis
    by (cases ap) (simp add: general_wrap_def guarded_call_def in_current_span_ended)
qed

text \<open>The processing of an answer on a fresh span: either everything is recorded, or it fails before anything is
  measured and the status is set.\<close>

lemma processed:
  assumes "ie_metrics env = Some metrics_dict" and "\<not> sp_ended (tl_span t)" and "sp_status (tl_span t) = Unset"
  shows "\<exists>r u. process env c t = (r, u) \<and> \<not> sp_ended (tl_span u) \<and> tl_events u = tl_events t
    \<and> span_view db_keys u = [Some (PStr system), Some (dc_server_address c), Some (dc_server_port c),
         Some (PFloat (dc_end_time c - dc_start_time c))]
    \<and> (case r of
         Inr _ \<Rightarrow> sp_status (tl_span u) = StatusOk \<and> (\<exists>operation. tl_measurements u = tl_measurements t @ db_measured env system c operation)
       | Inl e \<Rightarrow> sp_status (tl_span u) = Unset \<and> tl_measurements u = tl_measurements t)"
proof -
  obtain v where v: "db_common env system c t = (Inr (), v)" "\<not> sp_ended (tl_span v)" "sp_status (tl_span v) = Unset"
    "tl_measurements v = tl_measurements t" "tl_events v = tl_events t"
    "span_view db_keys v = [Some (PStr system), Some (dc_server_address c), Some (dc_server_port c),
         Some (PFloat (dc_end_time c - dc_start_time c))]"
    using db_common_run [OF assms(2), of env system c] assms(3) by auto
  obtain r w where w: "specific env c v = (r, w)" by fastforce
  from specific_step [of env c] w have "db_view w = db_view v" by (auto simp: db_step_def dest: keepsD)
  then have "\<not> sp_ended (tl_span w)" "sp_status (tl_span w) = Unset" "tl_measurements w = tl_measurements v" "tl_events w = tl_events v"
    "span_view db_keys w = span_view db_keys v"
    using v by (simp_all add: db_view_def)
  with v w show ?thesis
    by (cases r) (simp_all add: process_logic db_logic_def pbind_def span_step_def db_metrics_recorded [OF assms(1)] tl_on_span
        sp_ended_steps span_view_def set_status_def, blast)
qed

text \<open>What the span of a call shows when its arguments and its answer could be read.\<close>

lemma recorded:
  assumes "ie_metrics env = Some metrics_dict" and "server client = Inr (a, p)"
    and c: "c = \<lparr>dc_operation = operation_of operations endpoint, dc_endpoint = endpoint, dc_kwargs = kwargs, dc_args = args,
      dc_instance = client, dc_response = api_object r, dc_server_address = a, dc_server_port = p,
      dc_start_time = ck_start ck, dc_end_time = ck_logic ck\<rparr>"
    and "specific env c (on_span (set_attributes (db_rows env system c)) (on_span (\<lambda>_. fresh_span) t)) = (Inr operation, v)"
  shows "\<exists>t'. wrap endpoint env False client (Inr r) args kwargs ck t = (Inr r, t') \<and> sp_status (tl_span t') = StatusOk
    \<and> (\<forall>ks. span_view ks t' = span_view ks v)
    \<and> tl_measurements t' = tl_measurements t
        @ (if ie_disable_metrics env then [] else db_measurements env system a p (ck_logic ck - ck_start ck) operation)"
proof -
  let ?u = "on_span (set_attributes (db_rows env system c)) (on_span (\<lambda>_. fresh_span) t)"
  have u: "sp_ended (tl_span ?u) = False" "sp_status (tl_span ?u) = Unset" "tl_measurements ?u = tl_measurements t"
    by (simp_all add: tl_on_span sp_set_attributes fresh_span_def)
  from specific_step [of env c] assms(4) have "db_view v = db_view ?u" by (auto simp: db_step_def dest: keepsD)
  with u have v: "\<not> sp_ended (tl_span v)" "sp_status (tl_span v) = Unset" "tl_measurements v = tl_measurements t"
    by (simp_all add: db_view_def)
  have "db_measured env system c operation = (if ie_disable_metrics env then [] else db_measurements env system a p (ck_logic ck - ck_start ck) operation)"
    by (simp add: db_measured_def c)
  with v show ?thesis
    unfolding general_wrap_def guarded_call_def in_current_span_def ptry_def
    by (simp add: assms(2) c [symmetric] process_logic db_logic_def db_common_rows assms(4) span_step_def db_metrics_recorded [OF assms(1)]
        tl_on_span pbind_def plift_def span_view_def leave_span_def end_span_def set_status_def)
qed

text \<open>How a call ends.\<close>

lemma outcome:
  assumes "ie_metrics env = Some metrics_dict" and "server client = Inr (a, p)"
    and "wrap endpoint env False client wrapped args kwargs ck t = (Inr r, t')"
  shows "span_view db_keys t' = [Some (PStr system), Some a, Some p, Some (PFloat (ck_logic ck - ck_start ck))]
    \<and> tl_events t' = tl_events t
    \<and> (sp_status (tl_span t') = StatusOk \<and> (\<exists>operation. tl_measurements t' = tl_measurements t
          @ (if ie_disable_metrics env then [] else db_measurements env system a p (ck_logic ck - ck_start ck) operation))
       \<or> sp_status (tl_span t') = StatusError \<and> tl_measurements t' = tl_measurements t)"
proof -
  obtain c where c: "dc_start_time c = ck_start ck" "dc_end_time c = ck_logic ck" "dc_server_address c = a" "dc_server_port c = p"
    and call: "guarded_call wrapped (\<lambda>r. process env (c\<lparr>dc_response := api_object r\<rparr>)) db_failure t = (Inr r, t')"
    using assms(2,3)
    by (auto simp: general_wrap_def intro!: that [of "\<lparr>dc_operation = operation_of operations endpoint, dc_endpoint = endpoint,
        dc_kwargs = kwargs, dc_args = args, dc_instance = client, dc_response = PNone, dc_server_address = a,
        dc_server_port = p, dc_start_time = ck_start ck, dc_end_time = ck_logic ck\<rparr>"])
  let ?t = "on_span (\<lambda>_. fresh_span) t"
  from call obtain r' where r': "wrapped = Inr r'" by (cases wrapped) (auto simp: guarded_call_def in_current_span_def split: prod.splits sum.splits)
  let ?c = "c\<lparr>dc_response := api_object r'\<rparr>"
  have fresh: "\<not> sp_ended (tl_span ?t)" "sp_status (tl_span ?t) = Unset" by (simp_all add: on_span_def fresh_span_def)
  from processed [OF assms(1) fresh, of ?c, unfolded tl_on_span(2,3)] obtain q u where u: "process env ?c ?t = (q, u)" "\<not> sp_ended (tl_span u)" "tl_events u = tl_events t"
    "span_view db_keys u = [Some (PStr system), Some a, Some p, Some (PFloat (ck_logic ck - ck_start ck))]"
    "case q of Inr _ \<Rightarrow> sp_status (tl_span u) = StatusOk \<and> (\<exists>operation. tl_measurements u = tl_measurements t @ db_measured env system ?c operation)
       | Inl e \<Rightarrow> sp_status (tl_span u) = Unset \<and> tl_measurements u = tl_measurements t"
    by (auto simp: c)
  have "db_measured env system ?c operation = (if ie_disable_metrics env then [] else db_measurements env system a p (ck_logic ck - ck_start ck) operation)"
    for operation by (simp add: db_measured_def c)
  with u c call r' show ?thesis
    by (cases q) (auto simp: guarded_call_def in_current_span_def ptry_def pbind_def db_failure_def span_step_def tl_on_span leave_span_def
        end_span_def handle_exception_def Let_def set_status_def record_exception_def set_attribute_def span_view_def db_keys_def semconv
        split: if_splits)
qed

text \<open>The capture setting has no influence.\<close>

lemma capture_ignored:
  "wrap endpoint (env\<lparr>ie_capture_message_content := b\<rparr>) suppressed client wrapped args kwargs ck
     = wrap endpoint env suppressed client wrapped args kwargs ck"
proof -
  have "metric_step (env\<lparr>ie_capture_message_content := b\<rparr>) recorder = metric_step env recorder" for recorder
    by (simp add: metric_step_def fun_eq_iff)
  then have metrics: "db_metrics (env\<lparr>ie_capture_message_content := b\<rparr>) s c operation = db_metrics env s c operation" for s c operation
    by (simp add: db_metrics_def)
  have "process (env\<lparr>ie_capture_message_content := b\<rparr>) = process env"
    by (intro ext) (simp add: process_logic db_logic_def db_common_def specific_capture metrics)
  then show ?thesis by (simp add: general_wrap_def)
qed

end

end
