(* ===== verification/VectorDbCalls.thy ===== *)
theory VectorDbCalls
  imports Chroma Pinecone Qdrant Milvus Astra VectorDbProps
begin

text \<open>
  The five vector databases discharge the contract, and what holds for every wrapped operation follows; then what
  is particular to one of them.
\<close>

section \<open>The contract discharged\<close>

text \<open>Nothing that is written depends on the capture setting.\<close>

lemma shown_capture:
  "shown (env\<lparr>ie_capture_message_content := b\<rparr>) v = shown env v"
  "item (env\<lparr>ie_capture_message_content := b\<rparr>) k v = item env k v"
  "shown_attr (env\<lparr>ie_capture_message_content := b\<rparr>) k v = shown_attr env k v"
  "summary (env\<lparr>ie_capture_message_content := b\<rparr>) = summary env"
  by (simp_all add: shown_def item_def shown_attr_def summary_def fun_eq_iff)

lemmas chroma_defs = ch_specific_def ch_create_def ch_ids_def ch_insert_def ch_get_def ch_query_content_def ch_query_def ch_update_def
  ch_delete_def ch_peek_def

lemma ch_specific_step: "db_step (ch_specific env c)"
  unfolding chroma_defs ch_returned_rows_def Let_def no_convention_def
  by (rule db_intros ordinary_intros | simp add: db_keys_def semconv)+

lemma ch_specific_capture: "ch_specific (env\<lparr>ie_capture_message_content := b\<rparr>) c = ch_specific env c"
  by (simp add: chroma_defs Let_def shown_capture)

interpretation chroma: vector_database CHROMA_OPERATIONS chroma_server DB_SYSTEM_CHROMA
  "\<lambda>env c. pbind (pwhen (has_attr (dc_instance c) ''name'') (span_attr DB_COLLECTION_NAME (py_getattr (dc_instance c) ''name'' PNone)))
     (\<lambda>_. pbind (ch_specific env c) (\<lambda>_. pret (dc_operation c)))" ch_common_vectordb_logic
proof unfold_locales
  fix env c b
  show "db_step (pbind (pwhen (has_attr (dc_instance c) ''name'') (span_attr DB_COLLECTION_NAME (py_getattr (dc_instance c) ''name'' PNone)))
     (\<lambda>_. pbind (ch_specific env c) (\<lambda>_. pret (dc_operation c))))"
    by (intro db_intros ch_specific_step) (simp add: db_keys_def semconv)
qed (simp_all add: ch_common_vectordb_logic_def ch_specific_capture)

lemmas pinecone_defs = pc_specific_def pc_create_def pc_search_def pc_query_def pc_fetch_def pc_update_def pc_upsert_def pc_delete_def

lemma pc_specific_step: "db_step (pc_specific env c)"
  unfolding pinecone_defs Let_def by (rule db_intros ordinary_intros | simp add: db_keys_def semconv)+

lemma pc_specific_capture: "pc_specific (env\<lparr>ie_capture_message_content := b\<rparr>) c = pc_specific env c"
  by (simp add: pinecone_defs Let_def shown_capture)

interpretation pinecone: vector_database PINECONE_OPERATIONS pinecone_server DB_SYSTEM_PINECONE
  "\<lambda>env c. pbind (pc_specific env c) (\<lambda>_. pret (dc_operation c))" pc_common_vectordb_logic
  by unfold_locales (simp_all add: pc_common_vectordb_logic_def pc_specific_step pc_specific_capture db_intros)

lemmas qdrant_defs = qd_specific_def qd_manage_def qd_status_def qd_target_def qd_change_def qd_payload_def qd_insert_def qd_update_def
  qd_delete_def qd_retrieve_def qd_scroll_def qd_get_def qd_batch_def qd_query_with_def qd_query_def qd_index_def qd_points_def

lemma qd_specific_step: "db_step (qd_specific env c)"
  unfolding qdrant_defs Let_def by (rule db_intros ordinary_intros | simp add: db_keys_def semconv)+

lemma qd_specific_capture: "qd_specific (env\<lparr>ie_capture_message_content := b\<rparr>) c = qd_specific env c"
  by (simp add: qdrant_defs Let_def shown_capture)

interpretation qdrant: vector_database QDRANT_OPERATION_MAP qdrant_server DB_SYSTEM_QDRANT
  "\<lambda>env c. pbind (qd_specific env c) (\<lambda>_. pret (dc_operation c))" common_qdrant_logic
  by unfold_locales (simp_all add: common_qdrant_logic_def qd_specific_step qd_specific_capture db_intros)

lemmas milvus_defs = mv_specific_def mv_name_def mv_create_def mv_drop_def mv_answer_def mv_write_def mv_rows_def mv_search_def
  mv_query_def mv_delete_def

lemma mv_specific_step: "db_step (mv_specific env c)"
  unfolding milvus_defs Let_def by (rule db_intros ordinary_intros | simp add: db_keys_def semconv)+

lemma mv_specific_capture: "mv_specific (env\<lparr>ie_capture_message_content := b\<rparr>) c = mv_specific env c"
  by (simp add: milvus_defs Let_def shown_capture)

interpretation milvus: vector_database MILVUS_OPERATION_MAP milvus_server DB_SYSTEM_MILVUS
  "\<lambda>env c. pbind (mv_specific env c) (\<lambda>_. pret (dc_operation c))" common_milvus_logic
  by unfold_locales (simp_all add: common_milvus_logic_def mv_specific_step mv_specific_capture db_intros)

lemmas astra_defs = as_specific_def as_create_def as_insert_def as_update_def as_filtered_def as_replace_def as_find_def as_delete_def
  as_truncated_def

lemma as_specific_step: "db_step (as_specific env c)"
  unfolding astra_defs Let_def by (rule db_intros ordinary_intros | simp add: db_keys_def semconv)+

lemma as_specific_capture: "as_specific (env\<lparr>ie_capture_message_content := b\<rparr>) c = as_specific env c"
  by (simp add: astra_defs Let_def shown_capture)

interpretation astra: vector_database ASTRA_OPERATION_MAP astra_server DB_SYSTEM_ASTRA
  "\<lambda>env c. pbind (span_attr DB_COLLECTION_NAME (as_collection c)) (\<lambda>_. as_specific env c)" common_astra_logic
proof unfold_locales
  fix env c
  show "db_step (pbind (span_attr DB_COLLECTION_NAME (as_collection c)) (\<lambda>_. as_specific env c))"
    by (intro db_intros as_specific_step) (simp add: db_keys_def semconv)
qed (simp_all add: common_astra_logic_def as_specific_capture)

section \<open>All wrappers\<close>

text \<open>The wrapper factories of the five packages, each with the system it reports and its address function.\<close>

definition vector_databases :: "(string \<times> (pyval \<Rightarrow> (pyval \<times> pyval) res) \<times> (string \<Rightarrow> db_wrapper)) list" where
  "vector_databases = [
     (DB_SYSTEM_CHROMA, chroma_server, chroma_wrap),
     (DB_SYSTEM_PINECONE, pinecone_server, pinecone_wrap), (DB_SYSTEM_PINECONE, pinecone_server, async_pinecone_wrap),
     (DB_SYSTEM_QDRANT, qdrant_server, qdrant_wrap), (DB_SYSTEM_QDRANT, qdrant_server, async_qdrant_wrap),
     (DB_SYSTEM_MILVUS, milvus_server, milvus_wrap),
     (DB_SYSTEM_ASTRA, astra_server, astra_wrap), (DB_SYSTEM_ASTRA, astra_server, async_astra_wrap)]"

text \<open>Of the address functions only Qdrant's can raise, on options that are no dictionary.\<close>

definition readable_client :: "pyval \<Rightarrow> bool" where
  "readable_client client \<longleftrightarrow>
     (case py_getattr client ''init_options'' PNone of PDict d \<Rightarrow> True | options \<Rightarrow> \<not> py_truth options)"

lemma qdrant_server_readable: "readable_client client \<Longrightarrow> \<exists>ap. qdrant_server client = Inr ap"
  by (cases "py_getattr client ''init_options'' PNone")
    (auto simp: readable_client_def qdrant_server_def py_in_def Let_def dmem_def split: option.split)

lemma readable_server:
  assumes "readable_client client" and "(system, server, wrap) \<in> set vector_databases"
  shows "\<exists>a p. server client = Inr (a, p)"
  using assms qdrant_server_readable [OF assms(1)]
  by (auto simp: vector_databases_def chroma_server_def pinecone_server_def milvus_server_def astra_server_def Let_def)

lemma database_wrap:
  assumes "(system, server, wrap) \<in> set vector_databases"
  shows "\<exists>operations specific process. vector_database system specific process \<and> wrap = general_wrap operations server process"
  using assms chroma.vector_database_axioms pinecone.vector_database_axioms qdrant.vector_database_axioms
    milvus.vector_database_axioms astra.vector_database_axioms
  unfolding vector_databases_def chroma_wrap_def pinecone_wrap_def async_pinecone_wrap_def qdrant_wrap_def async_qdrant_wrap_def
    milvus_wrap_def astra_wrap_def async_astra_wrap_def
  by auto


lemma sample_database:
  "(DB_SYSTEM_CHROMA, chroma_server, chroma_wrap) \<in> set vector_databases" "readable_client PNone" "usable sample_env"
  "chroma_server PNone = Inr (PStr ''localhost'', PInt 8000)" "ie_metrics sample_env = Some metrics_dict"
  using sample_env_tame
  by (simp_all add: vector_databases_def readable_client_def usable_def chroma_server_def base_url_server_def, simp add: sample_env_def)


text \<open>C23: A call that returns ends in one of two ways.  Either all of its telemetry is there: status OK, and the two
  metrics of the operation, a request and its duration, recorded once each with the same attributes.  Or its
  processing failed: status ERROR and no measurement.  In both cases the span names the system, the server
  and the duration.\<close>

theorem vector_database_outcome:
  assumes "(system, server, wrap) \<in> set vector_databases" and "ie_metrics env = Some metrics_dict"
    and "server client = Inr (a, p)"
    and "wrap endpoint env False client wrapped args kwargs ck t = (Inr r, t')"
  shows "span_view db_keys t' = [Some (PStr system), Some a, Some p, Some (PFloat (ck_logic ck - ck_start ck))]
    \<and> tl_events t' = tl_events t
    \<and> (sp_status (tl_span t') = StatusOk \<and> (\<exists>operation. tl_measurements t' = tl_measurements t
          @ (if ie_disable_metrics env then [] else db_measurements env system a p (ck_logic ck - ck_start ck) operation))
       \<or> sp_status (tl_span t') = StatusError \<and> tl_measurements t' = tl_measurements t)"
proof -
  from database_wrap [OF assms(1)] obtain operations specific process where
    db: "vector_database system specific process" and w: "wrap = general_wrap operations server process" by blast
  from vector_database.outcome [where server = server and client = client and env = env, OF db assms(2,3) assms(4) [unfolded w]] show ?thesis .
qed

theorem vector_database_outcome_witness:
  "\<exists>t'. chroma_wrap ''chroma.peek'' sample_env False PNone (Inr (ApiValue (PInt 7))) [] [] sample_clock fresh_tele = (Inr (ApiValue (PInt 7)), t')
     \<and> span_view db_keys t' = [Some (PStr DB_SYSTEM_CHROMA), Some (PStr ''localhost''), Some (PInt 8000), Some (PFloat 3)]"
proof -
  let ?run = "chroma_wrap ''chroma.peek'' sample_env False PNone (Inr (ApiValue (PInt 7))) [] [] sample_clock fresh_tele"
  have "fst ?run = Inr (ApiValue (PInt 7))"
    using chroma.transparent [OF sample_database(3,4), of "''chroma.peek''" False] by (simp add: chroma_wrap_def)
  then obtain t' where run: "?run = (Inr (ApiValue (PInt 7)), t')" by (metis prod.collapse)
  from vector_database_outcome [where wrap = chroma_wrap and server = chroma_server and endpoint = "''chroma.peek''" and t' = t',
      OF sample_database(1,5,4) run] run show ?thesis by (simp add: sample_clock_def)
qed



section \<open>Operations of one database\<close>


lemma ch_insert_run:
  assumes "\<not> sp_ended (tl_span w)" and "dget (sp_attributes (tl_span w)) DB_OPERATION_NAME = Some (PStr (dc_operation c))"
    and "db_kwarg c ''ids'' (PList []) = PList ids" and "db_kwarg c ''documents'' (PList []) = documents"
    and "ch_collection c = PStr collection"
  shows "\<exists>v. ch_insert env c w = (Inr (), v)
    \<and> span_view [DB_OPERATION_NAME, DB_COLLECTION_NAME, DB_QUERY_TEXT, DB_VECTOR_COUNT, DB_QUERY_SUMMARY] v
      = [Some (PStr (dc_operation c)), Some (PStr collection), Some (PStr (ie_repr env (PList ids))), Some (PInt (int (length ids))),
         Some (PStr (dc_operation c @ '' '' @ collection @ '' ids='' @ ie_repr env (PList ids)
           @ '' documents='' @ py_str (ie_repr env) documents))]"
proof -
  have keys: "distinct [DB_OPERATION_NAME, DB_COLLECTION_NAME, DB_QUERY_TEXT, DB_VECTOR_COUNT, DB_QUERY_SUMMARY]"
    "distinct [DB_QUERY_SUMMARY, DB_VECTOR_COUNT, DB_QUERY_TEXT, DB_COLLECTION_NAME, DB_OPERATION_NAME]" by (simp_all add: semconv)
  have count: "object_count (PList ids) = Inr (PInt (int (length ids)))" by (simp add: object_count_def)
  from assms keys show ?thesis
    by (simp add: ch_insert_def ch_ids_def Let_def shown_attr_def count_attr_def count pbind_def span_attr_run summary_def
        item_def shown_def span_view_def tl_on_span sp_ended_steps dget_set_attribute)
qed

text \<open>C25: Adding documents to a Chroma collection: the span names the operation, the collection, the ids and their
  number, and the summary repeats the documents; the status is OK and the request is measured.  None of it
  depends on the capture setting.\<close>

theorem chroma_add_telemetry:
  assumes metrics: "ie_metrics env = Some metrics_dict"
    and client: "client = PObj ''Collection'' [(''name'', PStr collection)]"
    and request: "kwargs = [(''ids'', PList ids), (''documents'', documents)]"
  shows "\<exists>t'. chroma_wrap ''chroma.add'' env False client (Inr r) args kwargs ck t = (Inr r, t')
    \<and> sp_status (tl_span t') = StatusOk
    \<and> span_view [DB_OPERATION_NAME, DB_COLLECTION_NAME, DB_QUERY_TEXT, DB_VECTOR_COUNT, DB_QUERY_SUMMARY] t'
      = [Some (PStr DB_OPERATION_INSERT), Some (PStr collection), Some (PStr (ie_repr env (PList ids))), Some (PInt (int (length ids))),
         Some (PStr (DB_OPERATION_INSERT @ '' '' @ collection @ '' ids='' @ ie_repr env (PList ids)
           @ '' documents='' @ py_str (ie_repr env) documents))]
    \<and> tl_measurements t' = tl_measurements t @ (if ie_disable_metrics env then []
        else db_measurements env DB_SYSTEM_CHROMA (PStr ''localhost'') (PInt 8000) (ck_logic ck - ck_start ck) DB_OPERATION_INSERT)"
proof -
  define c where "c = \<lparr>dc_operation = operation_of CHROMA_OPERATIONS ''chroma.add'', dc_endpoint = ''chroma.add'', dc_kwargs = kwargs,
      dc_args = args, dc_instance = client, dc_response = api_object r, dc_server_address = PStr ''localhost'', dc_server_port = PInt 8000,
      dc_start_time = ck_start ck, dc_end_time = ck_logic ck\<rparr>"
  let ?u = "on_span (set_attributes (db_rows env DB_SYSTEM_CHROMA c)) (on_span (\<lambda>_. fresh_span) t)"
  have server: "chroma_server client = Inr (PStr ''localhost'', PInt 8000)"
    by (simp add: client chroma_server_def base_url_server_def dget_def)
  have c: "dc_operation c = DB_OPERATION_INSERT" "dc_instance c = client" "has_attr client ''name''" "py_getattr client ''name'' PNone = PStr collection"
    "db_kwarg c ''ids'' (PList []) = PList ids" "db_kwarg c ''documents'' (PList []) = documents" "ch_collection c = PStr collection"
    by (simp_all add: c_def db_kwarg_def request ch_collection_def client dget_def dmem_def operation_of_def CHROMA_OPERATIONS_def)
  have u: "\<not> sp_ended (tl_span ?u)" by (simp add: tl_on_span sp_set_attributes fresh_span_def)
  have name: "dget (sp_attributes (tl_span ?u)) DB_OPERATION_NAME = Some (PStr (dc_operation c))"
    by (simp add: tl_on_span dget_set_attributes fresh_span_def) (simp add: db_rows_def dget_def semconv)
  have specific: "ch_specific env c = ch_insert env c"
    by (simp add: ch_specific_def c semconv)
  let ?named = "on_span (set_attribute DB_COLLECTION_NAME (PStr collection)) ?u"
  have named: "\<not> sp_ended (tl_span ?named)" "dget (sp_attributes (tl_span ?named)) DB_OPERATION_NAME = Some (PStr (dc_operation c))"
    using u name dget_set_attribute [OF u, of DB_COLLECTION_NAME "PStr collection" DB_OPERATION_NAME]
    by (simp_all add: tl_on_span(1) [of "set_attribute DB_COLLECTION_NAME (PStr collection)"] sp_ended_steps) (simp add: semconv)
  from ch_insert_run [OF named c(5-7), of env] obtain v where v: "ch_insert env c ?named = (Inr (), v)"
    "span_view [DB_OPERATION_NAME, DB_COLLECTION_NAME, DB_QUERY_TEXT, DB_VECTOR_COUNT, DB_QUERY_SUMMARY] v
      = [Some (PStr DB_OPERATION_INSERT), Some (PStr collection), Some (PStr (ie_repr env (PList ids))), Some (PInt (int (length ids))),
         Some (PStr (DB_OPERATION_INSERT @ '' '' @ collection @ '' ids='' @ ie_repr env (PList ids)
           @ '' documents='' @ py_str (ie_repr env) documents))]"
    unfolding c(1) by blast
  have "pbind (pwhen (has_attr (dc_instance c) ''name'') (span_attr DB_COLLECTION_NAME (py_getattr (dc_instance c) ''name'' PNone)))
      (\<lambda>_. pbind (ch_specific env c) (\<lambda>_. pret (dc_operation c))) ?u = (Inr DB_OPERATION_INSERT, v)"
    by (simp add: specific c(1-4) pwhen_def pbind_def [of "span_attr k w" for k w] pbind_def [of "ch_insert env c"] span_attr_run v(1))
  from chroma.recorded [OF metrics server c_def this] v(2) show ?thesis by (auto simp: chroma_wrap_def)
qed

theorem chroma_add_telemetry_witness:
  "\<exists>t'. chroma_wrap ''chroma.add'' sample_env False (PObj ''Collection'' [(''name'', PStr ''notes'')]) (Inr (ApiValue PNone)) []
       [(''ids'', PList [PStr ''n1'']), (''documents'', PStr ''secret'')] sample_clock fresh_tele = (Inr (ApiValue PNone), t')
    \<and> span_view [DB_QUERY_SUMMARY] t' = [Some (PStr (DB_OPERATION_INSERT @ '' notes ids=<object> documents=secret''))]"
proof -
  from chroma_add_telemetry [OF sample_database(5) refl refl, where collection = "''notes''" and ids = "[PStr ''n1'']"
      and documents = "PStr ''secret''" and r = "ApiValue PNone" and args = "[]" and ck = sample_clock and t = fresh_tele]
  show ?thesis by (auto simp: span_view_def sample_env_def)
qed

text \<open>C26: Creating a Chroma collection with metadata fails the processing: the attribute name the code asks for does
  not exist, so the call that succeeded is reported with status ERROR and \<open>AttributeError\<close>, and is not measured.\<close>

theorem chroma_metadata_fails:
  assumes metrics: "ie_metrics env = Some metrics_dict" and server: "chroma_server client = Inr (a, p)"
    and request: "py_truth (dget_or kwargs ''metadata'' (PDict []))"
  shows "\<exists>t'. chroma_wrap ''chroma.create_collection'' env False client (Inr r) args kwargs ck t = (Inr r, t')
    \<and> sp_status (tl_span t') = StatusError \<and> dget (sp_attributes (tl_span t')) ERROR_TYPE = Some (PStr ''AttributeError'')
    \<and> tl_measurements t' = tl_measurements t"
proof -
  define c where "c = \<lparr>dc_operation = operation_of CHROMA_OPERATIONS ''chroma.create_collection'', dc_endpoint = ''chroma.create_collection'',
      dc_kwargs = kwargs, dc_args = args, dc_instance = client, dc_response = api_object r, dc_server_address = a, dc_server_port = p,
      dc_start_time = ck_start ck, dc_end_time = ck_logic ck\<rparr>"
  let ?t = "on_span (\<lambda>_. fresh_span) t"
  have fresh: "\<not> sp_ended (tl_span ?t)" "sp_status (tl_span ?t) = Unset" by (simp_all add: on_span_def fresh_span_def)
  have op: "dc_operation c = DB_OPERATION_CREATE_COLLECTION" by (simp add: c_def operation_of_def CHROMA_OPERATIONS_def dget_def)
  have create: "ch_specific env c = ch_create c" by (simp add: ch_specific_def op)
  have fails: "fst (ch_create c u) = Inl (no_convention ''DB_COLLECTION_METADATA'')" for u
    using request by (simp add: ch_create_def Let_def db_kwarg_def c_def pbind_span_step)
  obtain w where named: "pwhen (has_attr (dc_instance c) ''name'') (span_attr DB_COLLECTION_NAME (py_getattr (dc_instance c) ''name'' PNone))
      (on_span (set_attributes (db_rows env DB_SYSTEM_CHROMA c)) ?t) = (Inr (), w)"
    by (cases "has_attr (dc_instance c) ''name''") (simp_all add: span_attr_run)
  have "fst (ch_common_vectordb_logic env c ?t) = Inl (no_convention ''DB_COLLECTION_METADATA'')"
    unfolding ch_common_vectordb_logic_def db_logic_def create
    by (rule fst_pbind_run, rule db_common_rows, rule fst_pbind_fail, rule fst_pbind_run, rule named, rule fst_pbind_fail, rule fails)
  then obtain u where "ch_common_vectordb_logic env c ?t = (Inl (no_convention ''DB_COLLECTION_METADATA''), u)"
    by (metis prod.collapse)
  moreover from chroma.processed [OF metrics fresh, of c] this have "\<not> sp_ended (tl_span u)" "sp_status (tl_span u) = Unset"
    "tl_measurements u = tl_measurements t" by (auto simp: tl_on_span)
  ultimately show ?thesis
    unfolding chroma_wrap_def general_wrap_def guarded_call_def in_current_span_def ptry_def
    by (simp add: server c_def [symmetric] no_convention_def pbind_def db_failure_def span_step_def tl_on_span leave_span_def end_span_def
        handle_exception_def Let_def set_status_def record_exception_def set_attribute_def)
qed

theorem chroma_metadata_fails_witness:
  "\<exists>t'. chroma_wrap ''chroma.create_collection'' sample_env False PNone (Inr (ApiValue PNone)) [] [(''metadata'', PDict [(''k'', PNone)])]
       sample_clock fresh_tele = (Inr (ApiValue PNone), t') \<and> sp_status (tl_span t') = StatusError"
proof -
  have request: "py_truth (dget_or [(''metadata'', PDict [(''k'', PNone)])] ''metadata'' (PDict []))" by (simp add: dget_def)
  from chroma_metadata_fails [OF sample_database(5,4) request, of "ApiValue PNone" "[]" sample_clock fresh_tele] show ?thesis by blast
qed

text \<open>The port in the URL of a Qdrant client is never reported when its options name a port: the options win over the
  URL, where the comment in the source takes them as a fallback.\<close>

theorem qdrant_options_override_port:
  assumes "n \<noteq> 0"
  shows "\<exists>host. qdrant_server (PObj client_class [(''init_options'', PDict [(''url'', url), (''port'', PInt n)])]) = Inr (host, PInt n)"
  using assms by (simp add: qdrant_server_def Let_def dmem_def dget_def py_in_def)

theorem qdrant_options_override_port_witness:
  "\<exists>host. qdrant_server (PObj ''QdrantClient'' [(''init_options'', PDict [(''url'', PStr ''http://db.example.com:7000''), (''port'', PInt 6333)])])
    = Inr (host, PInt 6333)"
  using qdrant_options_override_port [of 6333 "''QdrantClient''" "PStr ''http://db.example.com:7000''"] by simp

text \<open>C27: An Astra replacement that may insert: its span attribute and its metrics call it an upsert, its span name
  does not, since the wrapper compares the operation with the name of a constant instead of its value.\<close>

theorem astra_upsert_span_name:
  assumes metrics: "ie_metrics env = Some metrics_dict" and server: "astra_server client = Inr (a, p)"
    and upsert: "py_truth (dget_or kwargs ''upsert'' PNone)"
  shows "\<exists>t'. astra_wrap ''astra.replace_one'' env False client (Inr r) args kwargs ck t = (Inr r, t')
    \<and> span_view [DB_OPERATION_NAME] t' = [Some (PStr DB_OPERATION_UPSERT)]
    \<and> tl_measurements t' = tl_measurements t @ (if ie_disable_metrics env then []
        else db_measurements env DB_SYSTEM_ASTRA a p (ck_logic ck - ck_start ck) DB_OPERATION_UPSERT)
    \<and> astra_span_name env ''astra.replace_one'' client kwargs
      = DB_OPERATION_REPLACE @ '' '' @ shown env (py_getattr client ''name'' unknown_name)"
proof -
  define c where "c = \<lparr>dc_operation = operation_of ASTRA_OPERATION_MAP ''astra.replace_one'', dc_endpoint = ''astra.replace_one'',
      dc_kwargs = kwargs, dc_args = args, dc_instance = client, dc_response = api_object r, dc_server_address = a, dc_server_port = p,
      dc_start_time = ck_start ck, dc_end_time = ck_logic ck\<rparr>"
  let ?u = "on_span (set_attributes (db_rows env DB_SYSTEM_ASTRA c)) (on_span (\<lambda>_. fresh_span) t)"
  have u: "\<not> sp_ended (tl_span ?u)" by (simp add: tl_on_span sp_set_attributes fresh_span_def)
  have operation: "operation_of ASTRA_OPERATION_MAP ''astra.replace_one'' = DB_OPERATION_REPLACE"
    by (simp add: operation_of_def ASTRA_OPERATION_MAP_def dget_def)
  then have replace: "as_specific env c = as_replace env c"
    by (simp add: as_specific_def c_def Let_def semconv)
  have given: "py_truth (given c ''upsert'')" using upsert by (simp add: given_def db_kwarg_def c_def)
  have run: "\<exists>v. pbind (span_attr DB_COLLECTION_NAME (as_collection c)) (\<lambda>_. as_replace env c) w = (Inr DB_OPERATION_UPSERT, v)
      \<and> span_view [DB_OPERATION_NAME] v = [Some (PStr DB_OPERATION_UPSERT)]" if "\<not> sp_ended (tl_span w)" for w
    using that given
    by (simp add: as_replace_def as_filtered_def shown_attr_def summary_def Let_def pbind_def span_attr_run pwhen_def span_view_def
        tl_on_span sp_ended_steps dget_set_attribute) (simp add: semconv)
  from run [OF u] obtain v where v: "pbind (span_attr DB_COLLECTION_NAME (as_collection c)) (\<lambda>_. as_specific env c) ?u = (Inr DB_OPERATION_UPSERT, v)"
    "span_view [DB_OPERATION_NAME] v = [Some (PStr DB_OPERATION_UPSERT)]" unfolding replace by blast
  have "astra_span_name env ''astra.replace_one'' client kwargs
      = DB_OPERATION_REPLACE @ '' '' @ shown env (py_getattr client ''name'' unknown_name)"
    by (simp add: astra_span_name_def operation) (simp add: semconv)
  with astra.recorded [OF metrics server c_def v(1)] v(2) show ?thesis by (auto simp: astra_wrap_def)
qed

theorem astra_upsert_span_name_witness:
  "\<exists>t'. astra_wrap ''astra.replace_one'' sample_env False PNone (Inr (ApiValue PNone)) [] [(''upsert'', PBool True)] sample_clock fresh_tele
      = (Inr (ApiValue PNone), t') \<and> span_view [DB_OPERATION_NAME] t' = [Some (PStr DB_OPERATION_UPSERT)]"
proof -
  have upsert: "py_truth (dget_or [(''upsert'', PBool True)] ''upsert'' PNone)" by (simp add: dget_def)
  have server: "astra_server PNone = Inr (PStr ''astra.datastax.com'', PInt 443)" by (simp add: astra_server_def host_port_server_def)
  from astra_upsert_span_name [OF sample_database(5) server upsert, of "ApiValue PNone" "[]" sample_clock fresh_tele] show ?thesis by blast
qed

text \<open>The searches of older Qdrant clients are recorded without their target: the span of \<open>search\<close>, \<open>search_groups\<close>
  and \<open>recommend\<close> has the operation, but neither the collection nor the query.\<close>

theorem qdrant_search_unnamed:
  assumes metrics: "ie_metrics env = Some metrics_dict" and server: "qdrant_server client = Inr (a, p)"
    and endpoint: "endpoint = ''qdrant.search'' \<or> endpoint = ''qdrant.search_groups'' \<or> endpoint = ''qdrant.recommend''"
  shows "\<exists>t'. qdrant_wrap endpoint env False client (Inr r) args kwargs ck t = (Inr r, t') \<and> sp_status (tl_span t') = StatusOk
    \<and> span_view [DB_OPERATION_NAME, DB_COLLECTION_NAME, DB_QUERY_TEXT, DB_QUERY_SUMMARY] t'
      = [Some (PStr DB_OPERATION_GET), None, None, None]"
proof -
  define c where "c = \<lparr>dc_operation = operation_of QDRANT_OPERATION_MAP endpoint, dc_endpoint = endpoint,
      dc_kwargs = kwargs, dc_args = args, dc_instance = client, dc_response = api_object r, dc_server_address = a, dc_server_port = p,
      dc_start_time = ck_start ck, dc_end_time = ck_logic ck\<rparr>"
  let ?u = "on_span (set_attributes (db_rows env DB_SYSTEM_QDRANT c)) (on_span (\<lambda>_. fresh_span) t)"
  have op: "dc_operation c = DB_OPERATION_GET"
    using endpoint by (auto simp: c_def operation_of_def QDRANT_OPERATION_MAP_def dget_def)
  have "qd_get env c = pret ()" using endpoint by (auto simp: qd_get_def c_def)
  then have "qd_specific env c = pret ()" by (simp add: qd_specific_def op semconv)
  then have run: "pbind (qd_specific env c) (\<lambda>_. pret (dc_operation c)) ?u = (Inr DB_OPERATION_GET, ?u)"
    by (simp add: op)
  have "span_view [DB_OPERATION_NAME, DB_COLLECTION_NAME, DB_QUERY_TEXT, DB_QUERY_SUMMARY] ?u = [Some (PStr DB_OPERATION_GET), None, None, None]"
    by (simp add: span_view_def tl_on_span dget_set_attributes fresh_span_def) (simp add: db_rows_def op dget_def semconv)
  with qdrant.recorded [OF metrics server c_def run] show ?thesis by (auto simp: qdrant_wrap_def)
qed

theorem qdrant_search_unnamed_witness:
  "\<exists>t'. qdrant_wrap ''qdrant.search'' sample_env False PNone (Inr (ApiValue PNone)) [] [(''collection_name'', PStr ''notes'')] sample_clock
      fresh_tele = (Inr (ApiValue PNone), t') \<and> span_view [DB_COLLECTION_NAME] t' = [None]"
proof -
  have server: "qdrant_server PNone = Inr (PStr ''localhost'', PInt 6333)" by (simp add: qdrant_server_def)
  have endpoint: "''qdrant.search'' = ''qdrant.search'' \<or> ''qdrant.search'' = ''qdrant.search_groups'' \<or> ''qdrant.search'' = ''qdrant.recommend''"
    by simp
  from qdrant_search_unnamed [OF sample_database(5) server endpoint, of "ApiValue PNone" "[]" "[(''collection_name'', PStr ''notes'')]"
      sample_clock fresh_tele]
  show ?thesis by (auto simp: span_view_def)
qed

end
