(* ===== verification/Spec2Isabelle.thy ===== *)
theory Spec2Isabelle
  imports ConfigProps Cli OtelProps TelemetryProps PricingProps ContentProps InitProps GuardProps EvalsProps
    OpenAIProps OpenAIChatProps OpenAIMediaProps OpenAIInstrumentor LangChainContextProps ProviderCalls VectorDbCalls
begin

text \<open>
  A model of the OpenLIT Python SDK, \<open>sdk/python/src/openlit\<close>, with the theorems that make it correct.

  The program.  \<open>openlit.init\<close> sets up OpenTelemetry pipelines once per process, loads the pricing table
  and asks every instrumentor to wrap the functions of the client library it knows.  A wrapped call then
  opens a span, makes the call, reads the response (or every chunk of a stream), and records attributes,
  metrics and an event.  Beside it stand a command line that turns arguments into environment variables
  for a child process, the guards and evaluators that judge a text by rules and by an LLM, and the
  client functions of the OpenLIT hub.

  Theories and sources.
  \<^item> \<open>Prelude\<close>: Python's exceptions, values, dicts and string methods; programs over a state that may raise
    (\<open>prog\<close>), with the rules \<open>keeps\<close> (what a program leaves alone) and \<open>raises_only\<close> (what may leave it).
  \<^item> \<open>Config\<close>, \<open>Cli\<close>: \<open>cli/config.py\<close>, \<open>cli/main.py\<close>, \<open>cli/bootstrap/sitecustomize.py\<close>.  \<open>ConfigProps\<close>: which
    settings the environment gives, round trips through arguments and \<open>PYTHONPATH\<close>, and the outcome of a run.
  \<^item> \<open>SemConv\<close>: the names of \<open>semcov/__init__.py\<close> the model uses.
  \<^item> \<open>Otel\<close>: \<open>otel/tracing.py\<close>, \<open>otel/events.py\<close>, \<open>otel/metrics.py\<close> over the state of the process.  \<open>OtelProps\<close>: what
    the first set-up builds, and that later ones change nothing.
  \<^item> \<open>Pricing\<close>, \<open>Content\<close>, \<open>Telemetry\<close>: \<open>__helpers.py\<close>: costs, tokens, times, server address; truncation and
    message formats; context variables, spans and metric recorders.  Their \<open>Props\<close> theories give formulas,
    bounds and what is recorded.
  \<^item> \<open>Instrumentors\<close>, \<open>Init\<close>: \<open>_instrumentors.py\<close>, \<open>_config.py\<close>, \<open>__init__.py\<close>.  \<open>InitProps\<close>: \<open>init\<close> never raises, the
    precedence of its settings, the isolation of instrumentors, the hub calls and \<open>trace\<close>.
  \<^item> \<open>Prompts\<close>, \<open>Guard\<close>, \<open>Evals\<close>: \<open>guard/\<close> and \<open>evals/\<close>.  \<open>GuardProps\<close> and \<open>EvalsProps\<close>: verdicts, thresholds,
    credentials, error results and the metrics they record.
  \<^item> \<open>OpenAIMessages\<close>, \<open>OpenAIStream\<close>, \<open>InferenceEvent\<close>, \<open>OpenAIChat\<close>, \<open>OpenAIResponses\<close>, \<open>OpenAIMedia\<close>:
    \<open>instrumentation/openai/utils.py\<close> and \<open>openai.py\<close>: message conversions, chunk processors and the stream
    wrapper, the inference event, and for chat completions, responses, embeddings, images and speech the
    logic, its callers and the call wrappers.  \<open>TracedCall\<close>: what all call wrappers share.
    \<open>OpenAIInstrumentor\<close>: \<open>async_openai.py\<close> and the table of \<open>__init__.py\<close>.  \<open>OpenAIProps\<close>,
    \<open>OpenAIChatProps\<close>, \<open>OpenAIMediaProps\<close>: transparency towards the caller, timing, the telemetry of plain and
    streamed calls, capture, and failures.

  \<^item> \<open>LangChainModel\<close>, \<open>LangChainMessages\<close>, \<open>LangChain\<close>, \<open>LangChainLlm\<close>: \<open>instrumentation/langchain/__init__.py\<close>, the
    callback handler: names, models and providers read from what LangChain hands over; message formats and
    \<open>common_chat_logic\<close> of \<open>utils.py\<close>; the run table with the callbacks of chains, tools, retrievers, agents
    and retries; the callbacks of LLM runs.  \<open>LangChainTracker\<close> is an abstract specification, a tracker of runs
    and spans, and \<open>LangChainRefine\<close> the steps of the handler in its terms.  \<open>LangChainProps\<close>: the parent
    search ends, no callback raises.  \<open>LangChainRunProps\<close>: the handler refines the tracker, no span is lost,
    error callbacks close their run.  \<open>LangChainContextProps\<close>: when the framework flag is given back.
  \<^item> \<open>Provider\<close>: what \<open>utils.py\<close> and the call wrappers of the chat providers repeat: the stream object, the skeleton of
    \<open>common_chat_logic\<close>, the inference event, the two kinds of reply.  \<open>Anthropic\<close>, \<open>Groq\<close>, \<open>Mistral\<close>, \<open>AI21\<close> and
    \<open>Reka\<close> hold what differs in \<open>instrumentation/anthropic\<close>, \<open>groq\<close>, \<open>mistral\<close>, \<open>ai21\<close> and \<open>reka\<close>: message formats, chunk
    processors, request and response attributes, callers and wrappers.  \<open>ProviderProps\<close> proves once what every
    provider owes its caller, \<open>AnthropicProps\<close>, \<open>GroqProps\<close>, \<open>MistralProps\<close> and \<open>AI21Props\<close> discharge its
    contracts and state what is particular, and \<open>ProviderCalls\<close> concludes for all wrappers: transparency,
    delivery of streams, privacy.

  \<^item> \<open>VectorDb\<close>: what \<open>general_wrapper\<close> of the vector database instrumentations repeats: suppression, operation and
    server look-up, span, processing, metrics and failure.  \<open>Chroma\<close>, \<open>Pinecone\<close>, \<open>Qdrant\<close>, \<open>Milvus\<close> and \<open>Astra\<close> hold what
    differs in \<open>instrumentation/chroma\<close>, \<open>pinecone\<close>, \<open>qdrant\<close>, \<open>milvus\<close> and \<open>astra\<close>: the tables of wrapped methods, the
    names of spans and operations, the server, and the attributes of every operation.  The keyword arguments of a
    call do not bear the names of the wrapper's own parameters, and objects have data attributes only.
    \<open>VectorDbProps\<close> proves once what they all owe their caller and their telemetry, \<open>VectorDbCalls\<close> discharges the
    contract for each and states what is particular.

  Interfaces.  \<open>keyed_store\<close> is the contract of a dict, \<open>ctx_slot\<close> that of a context variable, \<open>exporter_loop\<close>
  that of the exporter loops, \<open>once_setup\<close> that of a set-up guarded by a module variable, \<open>threshold_guard\<close>
  that of a guard, \<open>guarded_measure\<close> that of an evaluator, \<open>timed_processor\<close> that of a chunk processor, \<open>traced_operation\<close> that of the
  processing around a wrapped call, which \<open>chat_provider\<close> extends by a provider's, \<open>stream_finisher\<close> that of the end of a
  stream and \<open>streaming_provider\<close>, which extends it, that of a provider's streams,
  \<open>vector_database\<close> that of a vector database instrumentation; each is interpreted on the model's own operations, beside them.

  Conventions.  A field read on a value of the wrong type raises where it does in the source.  The state
  reached before an exception survives it.  A number of the clock is a rational and an argument of the
  operation that reads it.  All loops are structural recursions over the data; a consumer of a stream is
  driven by the list of its clock readings, so no fuel is needed.  Of the recursions that are not
  structural, \<open>response_as_dict\<close>, has a termination proof, and so has \<open>resolve_parent\<close>, the search over the
  links of skipped runs.  LangChain callbacks run one at a time and in one context, as the handler's lock and
  \<open>run_inline\<close> make them.

  Parameters.  Client libraries, exporter constructors, the import machinery, HTTP, JSON, regular
  expressions and the rendering of floats and containers are arguments of the definitions that use them.

  Not modelled: the SDK's own filtering of attribute values and the export of telemetry; the
  scheduling of asynchronous calls; the description of a span's status; the embedding calls of Mistral and the RAG calls of
  AI21; the other provider and framework instrumentations, which repeat these patterns once per client
  library; GPU readings; the Kubernetes operator, the web
  client and the SDKs in other languages.  Token counts enter the metrics as integers.
\<close>

end
